(* ===== verification/Prelude.thy ===== *)
theory Prelude
  imports Complex_Main "HOL-Library.Word" "HOL-Library.Monad_Syntax"
begin

text \<open>
  Shared material of the development.

  \<^item> The collections of simplification rules that carry the component proofs:
    \<open>wrap_simps\<close> (normalising under a wrapping function), \<open>cmp_simps\<close> (three-way
    comparison), \<open>mr_simps\<close> (the modulus-remainder domain), \<open>rule_simps\<close> (evaluation of
    rewrite-rule patterns).
  \<^item> The C++ operators on integers that HOL's \<open>div\<close> and \<open>mod\<close> are not: truncating
    division and remainder, and the Euclidean division that Halide specifies.
  \<^item> The locale \<open>wrapping\<close>: the laws that an integer normalisation (unbounded, two's
    complement, modulo a power of two) has to satisfy for ring identities to survive it.
  \<^item> The locale \<open>three_way\<close>: the laws of a comparison function with three outcomes.
\<close>

unbundle bit_operations_syntax

named_theorems wrap_simps
named_theorems cmp_simps
named_theorems mr_simps
named_theorems rule_simps

subsection \<open>Failed assertions and user errors\<close>

text \<open>
  \<open>internal_assert\<close> and \<open>internal_error\<close> of the source abort the compiler, \<open>user_assert\<close> and
  \<open>user_error\<close> report a mistake of the caller. Both are the left branch of a result, as is
  the end of a recursion whose depth the model bounds.
\<close>

datatype halide_error = InternalError | UserError | DepthExceeded

type_synonym 'a result = "halide_error + 'a"

definition assert_that :: "bool \<Rightarrow> 'a result \<Rightarrow> 'a result" where
  "assert_that b r = (if b then r else Inl InternalError)"

lemma assert_that_True [simp]: "assert_that True r = r"
  by (simp add: assert_that_def)

lemma assert_that_False [simp]: "assert_that False r = Inl InternalError"
  by (simp add: assert_that_def)

lemma assert_that_Inr [simp]: "assert_that b r = Inr x \<longleftrightarrow> b \<and> r = Inr x"
  by (simp add: assert_that_def)

lemma assert_that_Inl_iff: "(\<exists>e. assert_that b r = Inl e) \<longleftrightarrow> \<not> b \<or> (\<exists>e. r = Inl e)"
  by (simp add: assert_that_def)

fun rbind :: "'a result \<Rightarrow> ('a \<Rightarrow> 'b result) \<Rightarrow> 'b result" where
  "rbind (Inl e) f = Inl e"
| "rbind (Inr x) f = f x"

lemma rbind_Inr_iff: "rbind r f = Inr y \<longleftrightarrow> (\<exists>x. r = Inr x \<and> f x = Inr y)"
  by (cases r) auto

subsection \<open>C++ integer division\<close>

text \<open>The operators \<open>/\<close> and \<open>%\<close> of C++ on signed integers truncate towards zero.\<close>

definition cdiv :: "int \<Rightarrow> int \<Rightarrow> int" where
  "cdiv a b = sgn a * sgn b * (\<bar>a\<bar> div \<bar>b\<bar>)"

definition cmod :: "int \<Rightarrow> int \<Rightarrow> int" where
  "cmod a b = a - cdiv a b * b"

text \<open>
  Euclidean division, as the comment above \<open>mod_imp\<close> in \<open>IROperator.h\<close> specifies it:
  \<open>(a/b)*b + a%b = a\<close> and \<open>0 <= a%b < |b|\<close>.
\<close>

definition ediv :: "int \<Rightarrow> int \<Rightarrow> int" where
  "ediv a b = sgn b * (a div \<bar>b\<bar>)"

definition emod :: "int \<Rightarrow> int \<Rightarrow> int" where
  "emod a b = a mod \<bar>b\<bar>"

lemma ediv_emod_eq: "ediv a b * b + emod a b = a"
proof -
  have "ediv a b * b = (a div \<bar>b\<bar>) * \<bar>b\<bar>"
    by (simp add: ediv_def abs_sgn mult.commute mult.left_commute)
  then show ?thesis by (simp add: emod_def)
qed

lemma emod_nonneg: "b \<noteq> 0 \<Longrightarrow> 0 \<le> emod a b"
  by (simp add: emod_def)

lemma emod_less: "b \<noteq> 0 \<Longrightarrow> emod a b < \<bar>b\<bar>"
  by (simp add: emod_def)

lemma ediv_pos [simp]: "0 < b \<Longrightarrow> ediv a b = a div b"
  by (simp add: ediv_def)

lemma emod_pos [simp]: "0 < b \<Longrightarrow> emod a b = a mod b"
  by (simp add: emod_def)

lemma ediv_neg: "b < 0 \<Longrightarrow> ediv a b = - (a div - b)"
  by (simp add: ediv_def)

lemma emod_neg: "b < 0 \<Longrightarrow> emod a b = a mod - b"
  by (simp add: emod_def)

lemma ediv_0 [simp]: "ediv 0 b = 0" and emod_0 [simp]: "emod 0 b = 0"
  by (simp_all add: ediv_def emod_def)

text \<open>Euclidean division is characterised by its two laws.\<close>

lemma ediv_unique:
  assumes "a = q * b + r" and "0 \<le> r" and "r < \<bar>b\<bar>"
  shows "ediv a b = q" and "emod a b = r"
proof -
  have b: "0 < \<bar>b\<bar>" using assms(2,3) by linarith
  have "a = \<bar>b\<bar> * (sgn b * q) + r"
    using assms(1) b by (simp add: abs_sgn algebra_simps sgn_if)
  then have "a div \<bar>b\<bar> = sgn b * q" and m: "a mod \<bar>b\<bar> = r"
    using assms(2,3) b by (auto intro: div_pos_pos_trivial)
  then show "ediv a b = q" using b by (auto simp: ediv_def sgn_if)
  show "emod a b = r" using m by (simp add: emod_def)
qed

lemma ediv_add_multiple: "b \<noteq> 0 \<Longrightarrow> ediv (a + k * b) b = ediv a b + k"
proof -
  assume b: "b \<noteq> 0"
  have "a + k * b = (ediv a b + k) * b + emod a b"
    using ediv_emod_eq [of a b] by (simp add: algebra_simps)
  then show ?thesis using b by (intro ediv_unique(1)) (auto simp: emod_nonneg emod_less)
qed

lemma emod_add_multiple: "emod (a + k * b) b = emod a b"
proof -
  have "a + k * b = a + (k * sgn b) * \<bar>b\<bar>" by (simp add: abs_if sgn_if)
  then show ?thesis by (simp only: emod_def mod_mult_self1)
qed

lemma emod_eq_0_iff: "emod a b = 0 \<longleftrightarrow> b dvd a"
  by (simp add: emod_def mod_eq_0_iff_dvd)

lemma dvd_ediv_mult: "b dvd a \<Longrightarrow> ediv a b * b = a"
  using ediv_emod_eq [of a b] emod_eq_0_iff [of a b] by simp

lemma ediv_mult_self [simp]: "b \<noteq> 0 \<Longrightarrow> ediv (k * b) b = k"
  using ediv_add_multiple [of b 0 k] by simp

lemma cdiv_cmod_eq: "cdiv a b * b + cmod a b = a"
  by (simp add: cmod_def)

lemma cmod_eq_sgn: "cmod a b = sgn a * (\<bar>a\<bar> mod \<bar>b\<bar>)"
proof -
  have "cmod a b = sgn a * (\<bar>a\<bar> - (\<bar>a\<bar> div \<bar>b\<bar>) * \<bar>b\<bar>)"
    by (simp add: cmod_def cdiv_def abs_sgn algebra_simps)
  then show ?thesis by (simp add: minus_div_mult_eq_mod)
qed

lemma cmod_bound: "b \<noteq> 0 \<Longrightarrow> \<bar>cmod a b\<bar> < \<bar>b\<bar>"
  by (cases "a = 0") (auto simp: cmod_eq_sgn abs_mult)

lemma cmod_sign: "cmod a b < 0 \<Longrightarrow> a < 0" "0 < cmod a b \<Longrightarrow> 0 < a"
proof -
  have "0 \<le> \<bar>a\<bar> mod \<bar>b\<bar>" by (cases "b = 0") auto
  then show "cmod a b < 0 \<Longrightarrow> a < 0" "0 < cmod a b \<Longrightarrow> 0 < a"
    by (auto simp: cmod_eq_sgn sgn_if split: if_splits)
qed

lemma cmod_nonneg_iff: "b \<noteq> 0 \<Longrightarrow> 0 \<le> a \<Longrightarrow> 0 \<le> cmod a b"
  using cmod_sign(1) [of a b] by linarith

lemma cdiv_dvd: "b dvd a \<Longrightarrow> cdiv a b * b = a"
proof -
  assume "b dvd a"
  then have "cmod a b = 0" by (simp add: cmod_eq_sgn mod_eq_0_iff_dvd)
  then show ?thesis using cdiv_cmod_eq [of a b] by simp
qed

lemma dvd_cmod_iff: "b dvd cmod a b \<longleftrightarrow> b dvd a"
proof -
  have "cmod a b = a + (- cdiv a b) * b" by (simp add: cmod_def)
  then show ?thesis by (metis dvd_add_times_triv_right_iff)
qed

subsection \<open>Wrapping functions\<close>

text \<open>
  A wrapping function reduces an unbounded integer to the representative that a machine type
  holds. The laws say that it is a retraction compatible with the ring operations, so that a
  ring identity over the integers gives the corresponding identity over the machine type.
\<close>

locale wrapping =
  fixes wr :: "int \<Rightarrow> int"
  assumes wr_wr: "wr (wr a) = wr a"
    and wr_add: "wr (wr a + wr b) = wr (a + b)"
    and wr_mult: "wr (wr a * wr b) = wr (a * b)"
    and wr_minus: "wr (- wr a) = wr (- a)"
begin

lemma wr_add_left: "wr (wr a + b) = wr (a + b)"
  using wr_add [of "wr a" b] wr_add [of a b] by (simp add: wr_wr)

lemma wr_add_right: "wr (a + wr b) = wr (a + b)"
  using wr_add [of a "wr b"] wr_add [of a b] by (simp add: wr_wr)

lemma wr_mult_left: "wr (wr a * b) = wr (a * b)"
  using wr_mult [of "wr a" b] wr_mult [of a b] by (simp add: wr_wr)

lemma wr_mult_right: "wr (a * wr b) = wr (a * b)"
  using wr_mult [of a "wr b"] wr_mult [of a b] by (simp add: wr_wr)

lemma wr_diff_left: "wr (wr a - b) = wr (a - b)"
  using wr_add_left [of a "- b"] by simp

lemma wr_diff_right: "wr (a - wr b) = wr (a - b)"
proof -
  have "wr (a - wr b) = wr (a + wr (- wr b))" by (simp add: wr_add_right)
  also have "\<dots> = wr (a + wr (- b))" by (simp only: wr_minus)
  finally show ?thesis by (simp add: wr_add_right)
qed

lemmas wr_simps = wr_wr wr_minus wr_add_left wr_add_right wr_mult_left wr_mult_right
  wr_diff_left wr_diff_right

text \<open>A linear consequence: equal arguments up to a multiple that the function maps to zero.\<close>

lemma wr_cong_diff: "wr (a - b) = wr 0 \<Longrightarrow> wr a = wr b"
proof -
  assume h: "wr (a - b) = wr 0"
  have "wr a = wr (b + wr (a - b))" by (simp add: wr_add_right)
  also have "\<dots> = wr b" by (simp add: h wr_add_right)
  finally show ?thesis .
qed

end

text \<open>Two's complement and modular reduction to a width, on unbounded integers.\<close>

definition s_wrap :: "nat \<Rightarrow> int \<Rightarrow> int" where
  "s_wrap b z = signed_take_bit (b - 1) z"

definition u_wrap :: "nat \<Rightarrow> int \<Rightarrow> int" where
  "u_wrap b z = take_bit b z"

lemma u_wrap_mod: "u_wrap b z = z mod 2 ^ b"
  by (simp add: u_wrap_def take_bit_eq_mod)

lemma s_wrap_range: "0 < b \<Longrightarrow> - (2 ^ (b - 1)) \<le> s_wrap b z \<and> s_wrap b z < 2 ^ (b - 1)"
  by (simp add: s_wrap_def)

lemma u_wrap_range: "0 \<le> u_wrap b z \<and> u_wrap b z < 2 ^ b"
  by (simp add: u_wrap_def)

lemma s_wrap_id: "- (2 ^ (b - 1)) \<le> z \<Longrightarrow> z < 2 ^ (b - 1) \<Longrightarrow> s_wrap b z = z"
  by (simp add: s_wrap_def signed_take_bit_int_eq_self)

lemma u_wrap_id: "0 \<le> z \<Longrightarrow> z < 2 ^ b \<Longrightarrow> u_wrap b z = z"
  by (simp add: u_wrap_def take_bit_int_eq_self)

lemma s_wrap_cong: "0 < b \<Longrightarrow> s_wrap b x = s_wrap b y \<longleftrightarrow> x mod 2 ^ b = y mod 2 ^ b"
  using signed_take_bit_eq_iff_take_bit_eq [of "b - 1" x y]
  by (simp add: s_wrap_def take_bit_eq_mod)

lemma s_wrap_mod: "0 < b \<Longrightarrow> s_wrap b z mod 2 ^ b = z mod 2 ^ b"
  using s_wrap_cong [of b "s_wrap b z" z] by (simp add: s_wrap_def)

interpretation id_wrap: wrapping "\<lambda>z. z"
  by unfold_locales simp_all

interpretation u_wrap: wrapping "u_wrap b" for b
  by unfold_locales (simp_all add: u_wrap_mod mod_simps)

interpretation s_wrap: wrapping "s_wrap b" for b
  by unfold_locales
    (simp_all add: s_wrap_def signed_take_bit_add signed_take_bit_mult signed_take_bit_minus)

subsection \<open>Three-way comparison\<close>

datatype cmp_result = Equal | LessThan | GreaterThan

fun flip_result :: "cmp_result \<Rightarrow> cmp_result" where
  "flip_result LessThan = GreaterThan"
| "flip_result Equal = Equal"
| "flip_result GreaterThan = LessThan"

lemma flip_result_iff [simp]:
  "flip_result r = Equal \<longleftrightarrow> r = Equal" "flip_result r = LessThan \<longleftrightarrow> r = GreaterThan"
  "flip_result r = GreaterThan \<longleftrightarrow> r = LessThan" "flip_result (flip_result r) = r"
  by (cases r; simp)+

text \<open>
  A comparison is sequenced by keeping the first decided result, which is what the field
  \<open>result\<close> of \<open>IRComparer\<close> does: every comparison returns at once when it is not \<open>Equal\<close>.
\<close>

definition then_cmp :: "cmp_result \<Rightarrow> cmp_result \<Rightarrow> cmp_result" where
  "then_cmp r s = (if r \<noteq> Equal then r else s)"

lemma then_cmp_simps [simp]:
  "then_cmp Equal s = s" "then_cmp LessThan s = LessThan" "then_cmp GreaterThan s = GreaterThan"
  "then_cmp r Equal = r"
  by (simp_all add: then_cmp_def)

lemma then_cmp_Equal [simp]: "then_cmp r s = Equal \<longleftrightarrow> r = Equal \<and> s = Equal"
  by (simp add: then_cmp_def)

lemma then_cmp_LessThan: "then_cmp r s = LessThan \<longleftrightarrow> r = LessThan \<or> r = Equal \<and> s = LessThan"
  by (simp add: then_cmp_def)

lemma flip_then_cmp: "flip_result (then_cmp r s) = then_cmp (flip_result r) (flip_result s)"
  by (simp add: then_cmp_def)

text \<open>
  The contract of a comparison on a set of values. \<open>eqv\<close> is the equivalence that the result
  \<open>Equal\<close> stands for.
\<close>

locale three_way =
  fixes dom3 :: "'a \<Rightarrow> bool" and cmp :: "'a \<Rightarrow> 'a \<Rightarrow> cmp_result"
  assumes cmp_refl: "dom3 x \<Longrightarrow> cmp x x = Equal"
    and cmp_flip: "dom3 x \<Longrightarrow> dom3 y \<Longrightarrow> cmp y x = flip_result (cmp x y)"
    and cmp_Equal_trans:
      "dom3 x \<Longrightarrow> dom3 y \<Longrightarrow> dom3 z \<Longrightarrow> cmp x y = Equal \<Longrightarrow> cmp x z = cmp y z"
    and cmp_Less_trans:
      "dom3 x \<Longrightarrow> dom3 y \<Longrightarrow> dom3 z \<Longrightarrow> cmp x y = LessThan \<Longrightarrow> cmp y z = LessThan
        \<Longrightarrow> cmp x z = LessThan"
begin

lemma less_irrefl: "dom3 x \<Longrightarrow> cmp x x \<noteq> LessThan"
  by (simp add: cmp_refl)

lemma less_asym: "dom3 x \<Longrightarrow> dom3 y \<Longrightarrow> cmp x y = LessThan \<Longrightarrow> cmp y x \<noteq> LessThan"
  using cmp_flip [of x y] by simp

lemma incomparable_iff_Equal:
  "dom3 x \<Longrightarrow> dom3 y \<Longrightarrow> (cmp x y \<noteq> LessThan \<and> cmp y x \<noteq> LessThan) \<longleftrightarrow> cmp x y = Equal"
  using cmp_flip [of x y] by (cases "cmp x y") auto

lemma Equal_sym: "dom3 x \<Longrightarrow> dom3 y \<Longrightarrow> cmp x y = Equal \<Longrightarrow> cmp y x = Equal"
  using cmp_flip [of x y] by simp

end

end
