(* ===== verification/IntArith.thy ===== *)
theory IntArith
  imports Prelude
begin

text \<open>
  The integer helpers the compiler folds constants with: \<open>mod_imp\<close> and \<open>div_imp\<close> of
  \<open>IROperator.h\<close> at the type \<open>int64_t\<close>, and the overflow tests \<open>add_would_overflow\<close>,
  \<open>sub_would_overflow\<close> and \<open>mul_would_overflow\<close> of \<open>Util.cpp\<close>. An \<open>int64_t\<close> is an integer in
  the range that \<open>is_s64\<close> describes; every operation the C++ does at that width is followed by
  the two's complement reduction \<open>s_wrap 64\<close>.
\<close>

definition max_val :: "nat \<Rightarrow> int" where
  "max_val bits = drop_bit (64 - bits) 0x7fffffffffffffff"

definition min_val :: "nat \<Rightarrow> int" where
  "min_val bits = - max_val bits - 1"

definition in_s :: "nat \<Rightarrow> int \<Rightarrow> bool" where
  "in_s bits z \<longleftrightarrow> - (2 ^ (bits - 1)) \<le> z \<and> z < 2 ^ (bits - 1)"

abbreviation is_s64 :: "int \<Rightarrow> bool" where
  "is_s64 \<equiv> in_s 64"

definition mod_imp :: "int \<Rightarrow> int \<Rightarrow> int" where
  "mod_imp a b = (let r = cmod a b in s_wrap 64 (r + (if r < 0 then s_wrap 64 \<bar>b\<bar> else 0)))"

definition div_imp :: "int \<Rightarrow> int \<Rightarrow> int" where
  "div_imp a b =
     (let q = s_wrap 64 (cdiv a b);
          r = s_wrap 64 (a - s_wrap 64 (q * b));
          bs = drop_bit 63 b;
          rs = drop_bit 63 r
      in s_wrap 64 (q - (rs AND bs) + (rs AND NOT bs)))"

definition add_would_overflow :: "nat \<Rightarrow> int \<Rightarrow> int \<Rightarrow> bool" where
  "add_would_overflow bits a b \<longleftrightarrow>
     (b > 0 \<and> a > max_val bits - b) \<or> (b < 0 \<and> a < min_val bits - b)"

definition sub_would_overflow :: "nat \<Rightarrow> int \<Rightarrow> int \<Rightarrow> bool" where
  "sub_would_overflow bits a b \<longleftrightarrow>
     (b < 0 \<and> a > max_val bits + b) \<or> (b > 0 \<and> a < min_val bits + b)"

definition mul_would_overflow :: "nat \<Rightarrow> int \<Rightarrow> int \<Rightarrow> bool" where
  "mul_would_overflow bits a b =
     (if a = 0 then False
      else if a = -1 then b = min_val bits
      else let ab = s_wrap 64 (a * b)
           in ab < min_val bits \<or> ab > max_val bits \<or> cdiv ab a \<noteq> b)"

subsection \<open>Ranges\<close>

lemma max_val_eq:
  assumes "1 \<le> bits" and "bits \<le> 64"
  shows "max_val bits = 2 ^ (bits - 1) - 1"
proof -
  define k where "k = bits - 1"
  have k: "bits = Suc k" "k \<le> 63" using assms by (auto simp: k_def)
  have e: "(0x7fffffffffffffff :: int) = mask (63 - k + k)"
    using k by (simp add: mask_eq_exp_minus_1)
  have "max_val bits = drop_bit (63 - k) (mask (63 - k + k))"
    unfolding max_val_def e by (simp add: k)
  also have "\<dots> = mask k"
    by (rule bit_eqI) (auto simp: bit_simps)
  finally show ?thesis using k by (simp add: mask_eq_exp_minus_1)
qed

lemma min_val_eq: "1 \<le> bits \<Longrightarrow> bits \<le> 64 \<Longrightarrow> min_val bits = - (2 ^ (bits - 1))"
  by (simp add: min_val_def max_val_eq)

lemma in_s_iff_val: "1 \<le> bits \<Longrightarrow> bits \<le> 64 \<Longrightarrow> in_s bits z \<longleftrightarrow> min_val bits \<le> z \<and> z \<le> max_val bits"
  by (auto simp: in_s_def min_val_eq max_val_eq)

lemma in_s_mono: "in_s m z \<Longrightarrow> m \<le> n \<Longrightarrow> in_s n z"
proof -
  assume "in_s m z" and "m \<le> n"
  moreover have "(2::int) ^ (m - 1) \<le> 2 ^ (n - 1)"
    using \<open>m \<le> n\<close> by (intro power_increasing) auto
  ultimately show ?thesis unfolding in_s_def by linarith
qed

lemma s_wrap_in_s: "0 < b \<Longrightarrow> in_s b (s_wrap b z)"
  using s_wrap_range [of b z] by (simp add: in_s_def)

lemma s_wrap_in_s_id: "in_s b z \<Longrightarrow> s_wrap b z = z"
  by (simp add: in_s_def s_wrap_id)

lemma s64_iff: "is_s64 z \<longleftrightarrow> - 9223372036854775808 \<le> z \<and> z < 9223372036854775808"
  by (simp add: in_s_def)

subsection \<open>Division\<close>

lemma cmod_in_s: "in_s n b \<Longrightarrow> b \<noteq> 0 \<Longrightarrow> in_s n (cmod a b)"
  using cmod_bound [of b a] by (auto simp: in_s_def)

lemmas cmod_s64 = cmod_in_s [of 64]

lemma int_div_between:
  assumes "1 \<le> (n::int)" and "- m \<le> a" and "a < m"
  shows "- m \<le> a div n \<and> a div n < m"
proof -
  consider "0 \<le> a" "0 \<le> a div n" "a div n \<le> a" | "a < 0" "a \<le> a div n" "a div n < 0"
    using assms(1) zdiv_mono2 [of a 1 n] zdiv_mono2_neg [of a 1 n]
    by (cases "0 \<le> a") (auto simp: pos_imp_zdiv_nonneg_iff pos_imp_zdiv_neg_iff)
  then show ?thesis using assms(2,3) by cases auto
qed

lemma abs_cdiv_le: "\<bar>cdiv a b\<bar> \<le> \<bar>a\<bar>"
proof (cases "b = 0")
  case False
  then have "0 \<le> \<bar>a\<bar> div \<bar>b\<bar>" and "\<bar>a\<bar> div \<bar>b\<bar> \<le> \<bar>a\<bar>"
    using zdiv_mono2 [of "\<bar>a\<bar>" 1 "\<bar>b\<bar>"] by (auto simp: pos_imp_zdiv_nonneg_iff)
  then show ?thesis by (auto simp: cdiv_def abs_mult sgn_if)
qed (simp add: cdiv_def)

lemma abs_cdiv_half: "2 \<le> \<bar>b\<bar> \<Longrightarrow> \<bar>cdiv a b\<bar> \<le> \<bar>a\<bar> div 2"
proof -
  assume b: "2 \<le> \<bar>b\<bar>"
  have "\<bar>a\<bar> div \<bar>b\<bar> \<le> \<bar>a\<bar> div 2" by (intro zdiv_mono2) (use b in auto)
  moreover have "0 \<le> \<bar>a\<bar> div \<bar>b\<bar>" using b by (intro pos_imp_zdiv_nonneg_iff [THEN iffD2]) auto
  ultimately show ?thesis by (auto simp: cdiv_def abs_mult sgn_if)
qed

lemma ediv_in_s:
  assumes a: "in_s n a" and b: "b \<noteq> 0" and n: "\<not> (a = - (2 ^ (n - 1)) \<and> b = -1)" and 2: "2 \<le> n"
  shows "in_s n (ediv a b)"
proof -
  have p: "(2::int) \<le> 2 ^ (n - 1)" using power_increasing [of 1 "n - 1" "2 :: int"] 2 by simp
  consider "1 \<le> b" | "b = -1" | "2 \<le> - b" using b by linarith
  then show ?thesis
  proof cases
    case 1
    with a int_div_between [of b "2 ^ (n - 1)" a] show ?thesis by (auto simp: in_s_def)
  next
    case 3
    have "- (2 ^ (n - 1)) < a div 2" using a p unfolding in_s_def by linarith
    moreover have "a div 2 \<le> a div - b \<or> 0 \<le> a div - b"
      using 3 zdiv_mono2_neg [of a 2 "- b"] by (cases "a < 0") (auto simp: pos_imp_zdiv_nonneg_iff)
    ultimately show ?thesis
      using int_div_between [of "- b" "2 ^ (n - 1)" a] a 3 p by (auto simp: ediv_neg in_s_def)
  qed (use a n in \<open>auto simp: ediv_def in_s_def\<close>)
qed

lemma cdiv_in_s:
  assumes a: "in_s n a" and b: "b \<noteq> 0" and n: "\<not> (a = - (2 ^ (n - 1)) \<and> b = -1)"
  shows "in_s n (cdiv a b)"
proof -
  consider "b = 1" | "b = -1" | "2 \<le> \<bar>b\<bar>" using b by linarith
  then show ?thesis
  proof cases
    case 3
    have "(2::int) ^ (n - 1) \<ge> 1" by simp
    moreover have "\<bar>a\<bar> \<le> 2 ^ (n - 1)" using a by (auto simp: in_s_def)
    ultimately show ?thesis using abs_cdiv_half [OF 3, of a] unfolding in_s_def by linarith
  qed (use a n in \<open>auto simp: cdiv_def in_s_def sgn_mult_abs mult_sgn_abs\<close>)
qed

lemma cdiv_s64:
  assumes "is_s64 a" and "b \<noteq> 0" and "\<not> (a = - (2 ^ 63) \<and> b = -1)"
  shows "is_s64 (cdiv a b)"
  using cdiv_in_s [of 64 a b] assms by simp

lemma drop_bit_in_s: "in_s n z \<Longrightarrow> drop_bit (n - 1) z = (if z < 0 then -1 else 0)"
  using int_div_pos_eq [of z "2 ^ (n - 1)" "-1" "z + 2 ^ (n - 1)"]
  by (auto simp: in_s_def drop_bit_eq_div)

lemma euclid_from_trunc:
  assumes b: "b \<noteq> 0"
  shows "ediv a b = cdiv a b + (if cmod a b < 0 then (if b < 0 then 1 else -1) else 0)"
    and "emod a b = cmod a b + (if cmod a b < 0 then \<bar>b\<bar> else 0)"
proof -
  let ?q = "cdiv a b + (if cmod a b < 0 then (if b < 0 then 1 else -1) else 0)"
  let ?r = "cmod a b + (if cmod a b < 0 then \<bar>b\<bar> else 0)"
  have "a = ?q * b + ?r"
    using cdiv_cmod_eq [of a b] by (auto simp: algebra_simps)
  moreover have "0 \<le> ?r" and "?r < \<bar>b\<bar>" using cmod_bound [OF b, of a] by auto
  ultimately show "ediv a b = ?q" and "emod a b = ?r" by (blast intro: ediv_unique)+
qed

lemma mod_imp_eq_emod:
  assumes "is_s64 b" and "b \<noteq> 0"
  shows "mod_imp a b = emod a b"
proof -
  have "is_s64 (emod a b)"
    using emod_nonneg [OF assms(2), of a] emod_less [OF assms(2), of a] assms(1)
    by (auto simp: s64_iff)
  then have "emod a b = s_wrap 64 (emod a b)" by (simp add: s_wrap_in_s_id)
  also have "\<dots> = mod_imp a b"
    by (simp add: euclid_from_trunc(2) [OF assms(2)] mod_imp_def Let_def s_wrap.wr_add_right)
  finally show ?thesis ..
qed

text \<open>
  A quotient that truncates, corrected by its remainder, is Euclidean: in \<open>div_imp\<close> at 64 bits, and in
  generated code at the width of the operands.
\<close>

lemma trunc_div_correct:
  assumes "in_s n a" and "in_s n b" and "b \<noteq> 0" and "\<not> (a = - (2 ^ (n - 1)) \<and> b = -1)" and "2 \<le> n"
  shows "(let q = s_wrap n (cdiv a b);
          r = s_wrap n (a - s_wrap n (q * b));
          bs = drop_bit (n - 1) b;
          rs = drop_bit (n - 1) r
      in s_wrap n (q - (rs AND bs) + (rs AND NOT bs))) = ediv a b"
proof -
  have q: "s_wrap n (cdiv a b) = cdiv a b"
    using cdiv_in_s [OF assms(1,3,4)] by (simp add: s_wrap_in_s_id)
  have r: "s_wrap n (a - s_wrap n (cdiv a b * b)) = cmod a b"
    using cmod_in_s [OF assms(2,3), of a]
    by (simp add: s_wrap.wr_diff_right s_wrap_in_s_id cmod_def)
  have e: "ediv a b = cdiv a b - (drop_bit (n - 1) (cmod a b) AND drop_bit (n - 1) b)
      + (drop_bit (n - 1) (cmod a b) AND NOT (drop_bit (n - 1) b))"
    using drop_bit_in_s [OF assms(2)] drop_bit_in_s [OF cmod_in_s [OF assms(2,3), of a]]
    by (simp add: euclid_from_trunc(1) [OF assms(3)])
  show ?thesis
    using ediv_in_s [OF assms(1,3,4,5)] 
    unfolding Let_def q r e [symmetric] by (simp add: s_wrap_in_s_id)
qed

lemma div_imp_eq_ediv:
  assumes "is_s64 a" and "is_s64 b" and "b \<noteq> 0" and "\<not> (a = - (2 ^ 63) \<and> b = -1)"
  shows "div_imp a b = ediv a b"
  using trunc_div_correct [of 64 a b] assms by (simp add: div_imp_def)

subsection \<open>Overflow tests\<close>

lemma add_would_overflow_iff:
  assumes "1 \<le> bits" and "bits \<le> 64" and "in_s bits a"
  shows "add_would_overflow bits a b \<longleftrightarrow> \<not> in_s bits (a + b)"
  using assms(3) by (auto simp: add_would_overflow_def in_s_iff_val [OF assms(1,2)])

lemma sub_would_overflow_iff:
  assumes "1 \<le> bits" and "bits \<le> 64" and "in_s bits a"
  shows "sub_would_overflow bits a b \<longleftrightarrow> \<not> in_s bits (a - b)"
  using assms(3) by (auto simp: sub_would_overflow_def in_s_iff_val [OF assms(1,2)])

text \<open>
  The third clause of \<open>mul_would_overflow\<close> detects a product that does not fit 64 bits: the
  reduced product then differs from the true one by a non-zero multiple of \<open>2^64\<close>, and dividing
  it by \<open>a\<close> cannot give back \<open>b\<close>.
\<close>

lemma s_wrap_64_diff: "\<exists>k. s_wrap 64 z = z + k * 2 ^ 64"
proof -
  have "2 ^ 64 dvd s_wrap 64 z - z"
    using s_wrap_mod [of 64 z] by (simp add: mod_eq_dvd_iff)
  then obtain k where "s_wrap 64 z - z = 2 ^ 64 * k" by (auto elim: dvdE)
  then have "s_wrap 64 z = z + k * 2 ^ 64" by simp
  then show ?thesis by blast
qed

lemma cdiv_s_wrap_mult:
  assumes "is_s64 a" and "a \<noteq> 0" and "cdiv (s_wrap 64 (a * b)) a = b"
  shows "s_wrap 64 (a * b) = a * b"
proof -
  obtain k where k: "s_wrap 64 (a * b) = a * b + k * 2 ^ 64" using s_wrap_64_diff by blast
  have "cmod (s_wrap 64 (a * b)) a = k * 2 ^ 64"
    using assms(3) k by (simp add: cmod_def)
  with cmod_bound [OF assms(2), of "s_wrap 64 (a * b)"] assms(1)
  have "\<bar>k * 2 ^ 64\<bar> < 2 ^ 64" by (auto simp: s64_iff)
  then have "\<bar>k\<bar> < 1" by (simp add: abs_mult)
  then show ?thesis using k by simp
qed

lemma mul_would_overflow_iff:
  assumes "1 \<le> bits" and "bits \<le> 64" and "in_s bits a" and "in_s bits b"
  shows "mul_would_overflow bits a b \<longleftrightarrow> \<not> in_s bits (a * b)"
proof -
  consider "a = 0" | "a = -1" | "a \<noteq> 0" "a \<noteq> -1" by blast
  then show ?thesis
  proof cases
    case 1
    then show ?thesis by (simp add: mul_would_overflow_def in_s_def)
  next
    case 2
    with assms(4) show ?thesis
      by (auto simp: mul_would_overflow_def in_s_def min_val_eq [OF assms(1,2)])
  next
    case 3
    have a: "is_s64 a" by (rule in_s_mono [OF assms(3) assms(2)])
    show ?thesis
    proof (cases "in_s bits (a * b)")
      case True
      then have w: "s_wrap 64 (a * b) = a * b"
        by (simp add: s_wrap_in_s_id in_s_mono [OF _ assms(2)])
      have "cdiv (a * b) a = b" using 3 cdiv_dvd [of a "a * b"] by simp
      with True w 3 show ?thesis
        by (simp add: mul_would_overflow_def Let_def in_s_iff_val [OF assms(1,2)])
    next
      case False
      with 3 cdiv_s_wrap_mult [OF a 3(1), of b] show ?thesis
        by (auto simp: mul_would_overflow_def Let_def in_s_iff_val [OF assms(1,2)] not_le)
    qed
  qed
qed

subsection \<open>Properties\<close>

text \<open>
  C1. The compile-time division \<open>div_imp\<close> and remainder \<open>mod_imp\<close> on 64-bit integers, computed from
  the truncating operators with sign masks, are the Euclidean ones their comment specifies:
  \<open>(a/b)*b + a%b = a\<close> and \<open>0 <= a%b < |b|\<close>, except for the one quotient that does not fit.
\<close>

theorem division_is_euclidean:
  assumes "is_s64 a" and "is_s64 b" and "b \<noteq> 0" and "\<not> (a = - (2 ^ 63) \<and> b = -1)"
  shows "div_imp a b * b + mod_imp a b = a \<and> 0 \<le> mod_imp a b \<and> mod_imp a b < \<bar>b\<bar>"
  using ediv_emod_eq [of a b] emod_nonneg [OF assms(3), of a] emod_less [OF assms(3), of a]
  by (simp add: div_imp_eq_ediv [OF assms] mod_imp_eq_emod [OF assms(2,3)])

theorem division_is_euclidean_witness:
  "div_imp (-7) 3 * 3 + mod_imp (-7) 3 = -7 \<and> 0 \<le> mod_imp (-7) 3 \<and> mod_imp (-7) 3 < 3 \<and>
   div_imp (-7) (-3) * (-3) + mod_imp (-7) (-3) = -7 \<and> mod_imp (-7) (-3) < 3"
  using division_is_euclidean [of "-7" 3] division_is_euclidean [of "-7" "-3"]
  by (simp add: s64_iff)

text \<open>
  C2. The overflow predicates decide overflow exactly: on operands that fit a signed type of
  \<open>bits\<close> bits, each holds if and only if the mathematical sum, difference or product does not fit.
\<close>

theorem would_overflow_exact:
  assumes "1 \<le> bits" and "bits \<le> 64" and "in_s bits a" and "in_s bits b"
  shows "(add_would_overflow bits a b \<longleftrightarrow> \<not> in_s bits (a + b)) \<and>
    (sub_would_overflow bits a b \<longleftrightarrow> \<not> in_s bits (a - b)) \<and>
    (mul_would_overflow bits a b \<longleftrightarrow> \<not> in_s bits (a * b))"
  using add_would_overflow_iff [OF assms(1-3)] sub_would_overflow_iff [OF assms(1-3)]
    mul_would_overflow_iff [OF assms] by blast

theorem would_overflow_exact_witness:
  "mul_would_overflow 32 65536 65536 \<and> \<not> mul_would_overflow 64 65536 65536 \<and>
   add_would_overflow 8 100 100 \<and> \<not> sub_would_overflow 8 100 100"
  using would_overflow_exact [of 32 65536 65536] would_overflow_exact [of 64 65536 65536]
    would_overflow_exact [of 8 100 100]
  by (simp add: in_s_def)

end
