(* ===== verification/HalideType.thy ===== *)
theory HalideType
  imports IntArith
begin

text \<open>
  The type descriptors of the compiler: \<open>halide_type_t\<close> of \<open>runtime/HalideRuntime.h\<close> and its
  wrapper \<open>Type\<close> of \<open>Type.h\<close> and \<open>Type.cpp\<close>. A descriptor is a record with the fields of the C++
  struct; a pointer to the C++ type information of a handle is its address together with the
  structure it points to, because \<open>Type\<close> compares both the pointers and the structures.
\<close>

datatype type_code = TInt | TUInt | TFloat | THandle

fun code_rank :: "type_code \<Rightarrow> nat" where
  "code_rank TInt = 0"
| "code_rank TUInt = 1"
| "code_rank TFloat = 2"
| "code_rank THandle = 3"

record cpp_type_name =
  cpp_type_type :: nat
  cpp_name :: string

record handle_info =
  inner_name :: cpp_type_name
  namespaces :: "string list"
  enclosing_types :: "cpp_type_name list"
  cpp_type_modifiers :: "nat list"
  reference_type :: nat

record handle_ptr =
  h_addr :: nat
  h_info :: handle_info

record htype =
  ty_code :: type_code
  ty_bits :: nat
  ty_lanes :: nat
  ty_handle :: "handle_ptr option"

text \<open>The constructor stores the width in a \<open>uint8_t\<close> and the lanes in a \<open>uint16_t\<close>.\<close>

definition mk_type :: "type_code \<Rightarrow> nat \<Rightarrow> nat \<Rightarrow> handle_ptr option \<Rightarrow> htype" where
  "mk_type c b l h =
     \<lparr>ty_code = c, ty_bits = b mod 2 ^ 8, ty_lanes = l mod 2 ^ 16, ty_handle = h\<rparr>"

definition Int_type :: "nat \<Rightarrow> nat \<Rightarrow> htype" where
  "Int_type b l = mk_type TInt b l None"

definition UInt_type :: "nat \<Rightarrow> nat \<Rightarrow> htype" where
  "UInt_type b l = mk_type TUInt b l None"

definition Float_type :: "nat \<Rightarrow> nat \<Rightarrow> htype" where
  "Float_type b l = mk_type TFloat b l None"

definition Bool_type :: "nat \<Rightarrow> htype" where
  "Bool_type l = UInt_type 1 l"

definition Handle_type :: "nat \<Rightarrow> handle_ptr option \<Rightarrow> htype" where
  "Handle_type l h = mk_type THandle 64 l h"

definition ty_bytes :: "htype \<Rightarrow> nat" where
  "ty_bytes t = (ty_bits t + 7) div 8"

definition with_code :: "htype \<Rightarrow> type_code \<Rightarrow> htype" where
  "with_code t c = mk_type c (ty_bits t) (ty_lanes t) (if c = ty_code t then ty_handle t else None)"

definition with_bits :: "htype \<Rightarrow> nat \<Rightarrow> htype" where
  "with_bits t b = mk_type (ty_code t) b (ty_lanes t) (if b = ty_bits t then ty_handle t else None)"

definition with_lanes :: "htype \<Rightarrow> nat \<Rightarrow> htype" where
  "with_lanes t l = mk_type (ty_code t) (ty_bits t) l (ty_handle t)"

definition element_of :: "htype \<Rightarrow> htype" where
  "element_of t = with_lanes t 1"

definition is_bool :: "htype \<Rightarrow> bool" where
  "is_bool t \<longleftrightarrow> ty_code t = TUInt \<and> ty_bits t = 1"

definition is_vector :: "htype \<Rightarrow> bool" where
  "is_vector t \<longleftrightarrow> ty_lanes t \<noteq> 1"

definition is_scalar :: "htype \<Rightarrow> bool" where
  "is_scalar t \<longleftrightarrow> ty_lanes t = 1"

definition is_float :: "htype \<Rightarrow> bool" where
  "is_float t \<longleftrightarrow> ty_code t = TFloat"

definition is_int :: "htype \<Rightarrow> bool" where
  "is_int t \<longleftrightarrow> ty_code t = TInt"

definition is_uint :: "htype \<Rightarrow> bool" where
  "is_uint t \<longleftrightarrow> ty_code t = TUInt"

definition is_int_or_uint :: "htype \<Rightarrow> bool" where
  "is_int_or_uint t \<longleftrightarrow> ty_code t = TInt \<or> ty_code t = TUInt"

definition is_handle :: "htype \<Rightarrow> bool" where
  "is_handle t \<longleftrightarrow> ty_code t = THandle"

subsection \<open>Comparing descriptors\<close>

text \<open>\<open>halide_handle_traits<void *>::type_info()\<close>: the structure a null pointer stands for.\<close>

definition void_ptr_info :: handle_info where
  "void_ptr_info =
     \<lparr>inner_name = \<lparr>cpp_type_type = 0, cpp_name = ''void''\<rparr>, namespaces = [],
      enclosing_types = [], cpp_type_modifiers = [8], reference_type = 0\<rparr>"

fun handle_deref :: "handle_ptr option \<Rightarrow> handle_info" where
  "handle_deref None = void_ptr_info"
| "handle_deref (Some p) = h_info p"

definition same_pointer :: "handle_ptr option \<Rightarrow> handle_ptr option \<Rightarrow> bool" where
  "same_pointer p q \<longleftrightarrow> map_option h_addr p = map_option h_addr q"

definition same_handle_type :: "htype \<Rightarrow> htype \<Rightarrow> bool" where
  "same_handle_type t u \<longleftrightarrow>
     same_pointer (ty_handle t) (ty_handle u) \<or>
     handle_deref (ty_handle t) = handle_deref (ty_handle u)"

text \<open>The four bytes of \<open>halide_type_t\<close> read as one number on a little-endian host.\<close>

definition as_u32 :: "htype \<Rightarrow> nat" where
  "as_u32 t = code_rank (ty_code t) + 2 ^ 8 * ty_bits t + 2 ^ 16 * ty_lanes t"

definition type_eq :: "htype \<Rightarrow> htype \<Rightarrow> bool" where
  "type_eq t u \<longleftrightarrow> as_u32 t = as_u32 u \<and> (ty_code t \<noteq> THandle \<or> same_handle_type t u)"

definition type_neq :: "htype \<Rightarrow> htype \<Rightarrow> bool" where
  "type_neq t u \<longleftrightarrow> as_u32 t \<noteq> as_u32 u \<or> (ty_code t = THandle \<and> \<not> same_handle_type t u)"

text \<open>Pointers are compared by address, the null pointer first.\<close>

definition pointer_lt :: "handle_ptr option \<Rightarrow> handle_ptr option \<Rightarrow> bool" where
  "pointer_lt p q \<longleftrightarrow>
     (case q of None \<Rightarrow> False
      | Some b \<Rightarrow> (case p of None \<Rightarrow> True | Some a \<Rightarrow> h_addr a < h_addr b))"

definition type_lt :: "htype \<Rightarrow> htype \<Rightarrow> bool" where
  "type_lt t u =
     (if as_u32 t < as_u32 u then True
      else if ty_code t = THandle then pointer_lt (ty_handle t) (ty_handle u)
      else False)"

subsection \<open>Ranges and representability\<close>

definition max_uint :: "nat \<Rightarrow> int" where
  "max_uint bits = drop_bit (64 - bits) 0xffffffffffffffff"

definition max_int :: "nat \<Rightarrow> int" where
  "max_int bits = drop_bit (64 - bits) 0x7fffffffffffffff"

definition min_int :: "nat \<Rightarrow> int" where
  "min_int bits = - max_int bits - 1"

definition is_max_u :: "htype \<Rightarrow> int \<Rightarrow> bool" where
  "is_max_u t x =
     (if is_int t then x = max_int (ty_bits t)
      else if is_uint t then x = max_uint (ty_bits t)
      else False)"

definition is_max_i :: "htype \<Rightarrow> int \<Rightarrow> bool" where
  "is_max_i t x \<longleftrightarrow> x > 0 \<and> is_max_u t x"

definition is_min_i :: "htype \<Rightarrow> int \<Rightarrow> bool" where
  "is_min_i t x =
     (if is_int t then x = min_int (ty_bits t)
      else if is_uint t then x = 0
      else False)"

definition is_min_u :: "htype \<Rightarrow> int \<Rightarrow> bool" where
  "is_min_u t x = False"

definition can_represent_type :: "htype \<Rightarrow> htype \<Rightarrow> bool" where
  "can_represent_type t u =
     (if ty_lanes t \<noteq> ty_lanes u then False
      else if is_int t then
        (is_int u \<and> ty_bits u \<le> ty_bits t) \<or> (is_uint u \<and> ty_bits u < ty_bits t)
      else if is_uint t then is_uint u \<and> ty_bits u \<le> ty_bits t
      else if is_float t then
        (is_float u \<and> ty_bits u \<le> ty_bits t) \<or>
        (ty_bits t = 64 \<and> ty_bits u \<le> 32) \<or> (ty_bits t = 32 \<and> ty_bits u \<le> 16)
      else False)"

text \<open>
  A conversion of an integer to a binary floating-point format and back is the identity exactly
  when the integer is a significand of the format's precision times a power of two within the
  format's range. \<open>strip2\<close> drops the factors of two.
\<close>

fun strip2 :: "nat \<Rightarrow> int \<Rightarrow> int" where
  "strip2 0 x = x"
| "strip2 (Suc n) x = (if x \<noteq> 0 \<and> even x then strip2 n (x div 2) else x)"

definition float_exact :: "nat \<Rightarrow> int \<Rightarrow> int \<Rightarrow> bool" where
  "float_exact p m x \<longleftrightarrow> \<bar>strip2 64 x\<bar> < 2 ^ p \<and> \<bar>x\<bar> \<le> m"

definition float_represents :: "nat \<Rightarrow> int \<Rightarrow> bool" where
  "float_represents bits x =
     (if bits = 16 then float_exact 11 65504 x
      else if bits = 32 then float_exact 24 (2 ^ 127) x
      else if bits = 64 then float_exact 53 (2 ^ 1023) x
      else False)"

definition can_represent_i :: "htype \<Rightarrow> int \<Rightarrow> bool" where
  "can_represent_i t x =
     (if is_int t then x \<ge> min_int (ty_bits t) \<and> x \<le> max_int (ty_bits t)
      else if is_uint t then x \<ge> 0 \<and> x \<le> max_uint (ty_bits t)
      else if is_float t then float_represents (ty_bits t) x
      else False)"

definition can_represent_u :: "htype \<Rightarrow> int \<Rightarrow> bool" where
  "can_represent_u t x =
     (if is_int t then x \<le> max_int (ty_bits t)
      else if is_uint t then x \<le> max_uint (ty_bits t)
      else if is_float t then float_represents (ty_bits t) x
      else False)"

subsection \<open>Lemmas\<close>

lemmas type_pred_defs = is_bool_def is_vector_def is_scalar_def is_float_def is_int_def
  is_uint_def is_int_or_uint_def is_handle_def

lemma mk_type_simps [simp]:
  "ty_code (mk_type c b l h) = c" "ty_bits (mk_type c b l h) = b mod 256"
  "ty_lanes (mk_type c b l h) = l mod 65536" "ty_handle (mk_type c b l h) = h"
  by (simp_all add: mk_type_def)

text \<open>A descriptor is in range when its fields fit the C++ fields, as every constructed one does.\<close>

definition ty_ok :: "htype \<Rightarrow> bool" where
  "ty_ok t \<longleftrightarrow> ty_bits t < 2 ^ 8 \<and> ty_lanes t < 2 ^ 16"

lemma ty_ok_mk_type [simp]: "ty_ok (mk_type c b l h)"
  by (simp add: ty_ok_def)

lemma mk_type_id: "ty_ok t \<Longrightarrow> mk_type (ty_code t) (ty_bits t) (ty_lanes t) (ty_handle t) = t"
  by (simp add: mk_type_def ty_ok_def)

lemma with_lanes_simps [simp]:
  "ty_code (with_lanes t l) = ty_code t" "ty_lanes (with_lanes t l) = l mod 65536"
  "ty_handle (with_lanes t l) = ty_handle t" "ty_bits (with_lanes t l) = ty_bits t mod 256"
  by (simp_all add: with_lanes_def)

lemma with_lanes_id: "ty_ok t \<Longrightarrow> with_lanes t (ty_lanes t) = t"
  by (simp add: with_lanes_def mk_type_id)

lemma code_rank_inj [simp]: "code_rank a = code_rank b \<longleftrightarrow> a = b"
  by (cases a; cases b) auto

lemma code_rank_less: "code_rank c < 256"
  by (cases c) auto

lemma as_u32_eq_iff:
  assumes "ty_ok t" and "ty_ok u"
  shows "as_u32 t = as_u32 u \<longleftrightarrow>
    ty_code t = ty_code u \<and> ty_bits t = ty_bits u \<and> ty_lanes t = ty_lanes u"
proof
  assume e: "as_u32 t = as_u32 u"
  have b: "ty_bits t < 256" "ty_bits u < 256" using assms by (auto simp: ty_ok_def)
  note r = code_rank_less [of "ty_code t"] code_rank_less [of "ty_code u"]
  have dec: "x mod 256 = c \<and> x div 256 mod 256 = m \<and> x div 65536 = n"
    if "x = c + 256 * m + 65536 * n" "c < 256" "m < 256" for x c m n :: nat
  proof -
    have x: "x = c + 256 * (m + 256 * n)" using that(1) by simp
    have d: "x div 256 = m + 256 * n" unfolding x using that(2) by simp
    have "x mod 256 = c" unfolding x mod_mult_self2 using that(2) by simp
    moreover have "x div 65536 = n"
      using that(3) d by (simp flip: div_mult2_eq [of x 256 256, simplified])
    ultimately show ?thesis using d that(3) by simp
  qed
  show "ty_code t = ty_code u \<and> ty_bits t = ty_bits u \<and> ty_lanes t = ty_lanes u"
    using dec [of "as_u32 t" "code_rank (ty_code t)" "ty_bits t" "ty_lanes t"]
      dec [of "as_u32 u" "code_rank (ty_code u)" "ty_bits u" "ty_lanes u"] e b r
    by (auto simp: as_u32_def)
qed (simp add: as_u32_def)

lemma type_neq_iff: "type_neq t u \<longleftrightarrow> \<not> type_eq t u"
  by (auto simp: type_neq_def type_eq_def)

lemma max_int_eq: "1 \<le> b \<Longrightarrow> b \<le> 64 \<Longrightarrow> max_int b = 2 ^ (b - 1) - 1"
  using max_val_eq [of b] by (simp add: max_int_def max_val_def)

lemma min_int_eq: "1 \<le> b \<Longrightarrow> b \<le> 64 \<Longrightarrow> min_int b = - (2 ^ (b - 1))"
  by (simp add: min_int_def max_int_eq)

lemma max_uint_eq:
  assumes "b \<le> 64"
  shows "max_uint b = 2 ^ b - 1"
proof -
  have e: "(0xffffffffffffffff :: int) = mask (64 - b + b)"
    using assms by (simp add: mask_eq_exp_minus_1)
  have "max_uint b = mask b"
    unfolding max_uint_def e by (rule bit_eqI) (auto simp: bit_simps)
  then show ?thesis by (simp add: mask_eq_exp_minus_1)
qed

lemma strip2_small: "\<bar>x\<bar> < 2 ^ p \<Longrightarrow> \<bar>strip2 n x\<bar> < 2 ^ p"
proof (induction n arbitrary: x)
  case (Suc n)
  have "\<bar>x div 2\<bar> \<le> \<bar>x\<bar>" by linarith
  with Suc show ?case by auto
qed simp

text \<open>The values of an integer type.\<close>

definition type_values :: "htype \<Rightarrow> int set" where
  "type_values t =
     (if is_int t then {min_int (ty_bits t)..max_int (ty_bits t)}
      else if is_uint t then {0..max_uint (ty_bits t)} else {})"

lemma can_represent_i_iff: "is_int_or_uint t \<Longrightarrow> can_represent_i t x \<longleftrightarrow> x \<in> type_values t"
  by (auto simp: can_represent_i_def type_values_def type_pred_defs)

lemma type_values_small:
  assumes "1 \<le> ty_bits u" and "ty_bits u \<le> n" and "n \<le> 64" and "x \<in> type_values u"
  shows "\<bar>x\<bar> \<le> 2 ^ n - 1 \<or> \<bar>x\<bar> \<le> 2 ^ (n - 1)"
proof -
  have p: "(2::int) ^ ty_bits u \<le> 2 ^ n" "(2::int) ^ (ty_bits u - 1) \<le> 2 ^ (n - 1)"
    using assms by (auto intro: power_increasing)
  have u: "ty_bits u \<le> 64" using assms by simp
  consider "is_int u" | "is_uint u" "\<not> is_int u"
    using assms(4) by (auto simp: type_values_def split: if_splits)
  then show ?thesis
  proof cases
    case 1
    then have "- (2 ^ (ty_bits u - 1)) \<le> x" "x \<le> 2 ^ (ty_bits u - 1) - 1"
      using assms u by (simp_all add: type_values_def max_int_eq min_int_eq)
    then show ?thesis using p by linarith
  next
    case 2
    then have "0 \<le> x" "x \<le> 2 ^ ty_bits u - 1"
      using assms u by (simp_all add: type_values_def max_uint_eq)
    then show ?thesis using p by linarith
  qed
qed

lemma type_values_int:
  assumes "is_int u" and "1 \<le> ty_bits u" and "ty_bits u \<le> 64"
  shows "x \<in> type_values u \<longleftrightarrow> - (2 ^ (ty_bits u - 1)) \<le> x \<and> x \<le> 2 ^ (ty_bits u - 1) - 1"
  using assms by (simp add: type_values_def max_int_eq min_int_eq)

lemma type_values_uint:
  assumes "is_uint u" and "ty_bits u \<le> 64"
  shows "x \<in> type_values u \<longleftrightarrow> 0 \<le> x \<and> x \<le> 2 ^ ty_bits u - 1"
  using assms by (auto simp: type_values_def max_uint_eq type_pred_defs)

lemma type_values_mono:
  assumes "is_int_or_uint t" and "can_represent_type t u"
    and "1 \<le> ty_bits u" and "ty_bits t \<le> 64" and "x \<in> type_values u"
  shows "x \<in> type_values t"
proof -
  have le: "ty_bits u \<le> ty_bits t" and t1: "1 \<le> ty_bits t"
    using assms(1-3) by (auto simp: can_represent_type_def type_pred_defs split: if_splits)
  have p: "(2::int) ^ ty_bits u \<le> 2 ^ ty_bits t" "(2::int) ^ (ty_bits u - 1) \<le> 2 ^ (ty_bits t - 1)"
    using le by (auto intro: power_increasing)
  have q: "(2::int) ^ ty_bits u \<le> 2 ^ (ty_bits t - 1)" if "ty_bits u < ty_bits t"
    using that by (intro power_increasing) auto
  have u64: "ty_bits u \<le> 64" using le assms(4) by simp
  consider "is_int t" "is_int u" | "is_int t" "is_uint u" "ty_bits u < ty_bits t"
    | "is_uint t" "is_uint u"
    using assms(1,2) by (auto simp: can_represent_type_def type_pred_defs split: if_splits)
  then show ?thesis
  proof cases
    case 1
    have "- (2 ^ (ty_bits u - 1)) \<le> x" "x \<le> 2 ^ (ty_bits u - 1) - 1"
      using assms(5) unfolding type_values_int [OF 1(2) assms(3) u64] by simp_all
    then show ?thesis unfolding type_values_int [OF 1(1) t1 assms(4)] using p(2) by linarith
  next
    case 2
    have "0 \<le> x" "x \<le> 2 ^ ty_bits u - 1" using 2 assms(5) u64 by (simp_all add: type_values_uint)
    moreover have "- (2 ^ (ty_bits t - 1)) \<le> (0::int)" by simp
    ultimately show ?thesis
      unfolding type_values_int [OF 2(1) t1 assms(4)] using q [OF 2(3)] by linarith
  next
    case 3
    have "0 \<le> x" "x \<le> 2 ^ ty_bits u - 1" using 3 assms(5) u64 by (simp_all add: type_values_uint)
    then show ?thesis unfolding type_values_uint [OF 3(1) assms(4)] using p(1) by linarith
  qed
qed

lemma float_exact_small: "\<bar>x\<bar> < 2 ^ p \<Longrightarrow> \<bar>x\<bar> \<le> m \<Longrightarrow> float_exact p m x"
  by (simp add: float_exact_def strip2_small)

lemma float_represents_values:
  assumes "is_float t" and "can_represent_type t u" and "is_int_or_uint u"
    and "1 \<le> ty_bits u" and "x \<in> type_values u"
  shows "float_represents (ty_bits t) x"
proof -
  consider "ty_bits t = 64" "ty_bits u \<le> 32" | "ty_bits t = 32" "ty_bits u \<le> 16"
    using assms(1-3) by (auto simp: can_represent_type_def type_pred_defs split: if_splits)
  then show ?thesis
  proof cases
    case 1
    have "\<bar>x\<bar> \<le> 2 ^ 32" using type_values_small [OF assms(4) 1(2) _ assms(5)] by auto
    then show ?thesis using 1(1) by (simp add: float_represents_def float_exact_small)
  next
    case 2
    have "\<bar>x\<bar> \<le> 2 ^ 16" using type_values_small [OF assms(4) 2(2) _ assms(5)] by auto
    then show ?thesis using 2(1) by (simp add: float_represents_def float_exact_small)
  qed
qed

subsection \<open>Properties\<close>

text \<open>
  C3. \<open>Type::can_represent(Type)\<close> keeps its promise: when it accepts an integer type \<open>u\<close>, every
  value of \<open>u\<close> passes the value test of the accepting type (integer or floating point), in the
  \<open>int64_t\<close> overload and, for the values that are not negative, in the \<open>uint64_t\<close> overload.
\<close>

theorem can_represent_type_sound:
  assumes "can_represent_type t u" and "is_int_or_uint u"
    and "1 \<le> ty_bits u" and "ty_bits t \<le> 64" and "x \<in> type_values u"
  shows "can_represent_i t x \<and> (0 \<le> x \<longrightarrow> can_represent_u t x)"
proof (cases "is_float t")
  case True
  then show ?thesis using float_represents_values [OF True assms(1,2,3,5)]
    by (simp add: can_represent_i_def can_represent_u_def type_pred_defs)
next
  case False
  then have t: "is_int_or_uint t"
    using assms(1) by (auto simp: can_represent_type_def type_pred_defs split: if_splits)
  show ?thesis using type_values_mono [OF t assms(1,3,4,5)] t
    by (auto simp: can_represent_i_iff can_represent_u_def type_values_def type_pred_defs
        split: if_splits)
qed

theorem can_represent_type_sound_witness:
  "can_represent_type (Float_type 32 1) (UInt_type 16 1) \<and>
   can_represent_i (Float_type 32 1) 65535 \<and> can_represent_u (Float_type 32 1) 65535"
proof -
  have 1: "can_represent_type (Float_type 32 1) (UInt_type 16 1)"
    by (simp add: can_represent_type_def Float_type_def UInt_type_def type_pred_defs)
  have "is_int_or_uint (UInt_type 16 1)" "1 \<le> ty_bits (UInt_type 16 1)"
    "ty_bits (Float_type 32 1) \<le> 64" "65535 \<in> type_values (UInt_type 16 1)"
    by (simp_all add: type_values_uint Float_type_def UInt_type_def type_pred_defs)
  from can_represent_type_sound [OF 1 this] 1 show ?thesis by simp
qed

text \<open>
  The order of descriptors on types that are not handles: \<open>operator<\<close> compares the packed word, so
  it is a strict linear order up to equality of descriptors.
\<close>

lemma type_lt_scalar:
  assumes "ty_code t \<noteq> THandle" and "ty_code u \<noteq> THandle"
  shows "type_lt t u \<longleftrightarrow> as_u32 t < as_u32 u"
    and "\<not> type_lt t u \<Longrightarrow> \<not> type_lt u t \<Longrightarrow> type_eq t u"
  using assms by (auto simp: type_lt_def type_eq_def split: if_splits)

text \<open>
  \<open>Type::operator<\<close> is not asymmetric on handle types: when the packed words differ the greater
  type still falls through to the comparison of the type-information pointers, so two types can
  each be less than the other, and an ordered container keyed by \<open>Type\<close> has no defined behaviour.
\<close>

theorem type_lt_not_asymmetric:
  "\<exists>t u. ty_ok t \<and> ty_ok u \<and> type_lt t u \<and> type_lt u t"
proof (intro exI conjI)
  let ?p = "Some \<lparr>h_addr = 4096, h_info = void_ptr_info\<rparr>"
  let ?t = "Handle_type 1 ?p" and ?u = "Handle_type 2 None"
  show "ty_ok ?t" "ty_ok ?u" by (simp_all add: Handle_type_def)
  show "type_lt ?t ?u" by (simp add: type_lt_def as_u32_def Handle_type_def)
  show "type_lt ?u ?t" by (simp add: type_lt_def as_u32_def Handle_type_def pointer_lt_def)
qed

end
