(* ===== verification/IR.thy ===== *)
theory IR
  imports HalideType
begin

text \<open>
  The intermediate representation: the expression and statement nodes of \<open>Expr.h\<close> and \<open>IR.h\<close> and
  their \<open>make\<close> functions of \<open>IR.cpp\<close>.

  An \<open>expr\<close> or \<open>stmt\<close> is a defined handle; a field that may hold an undefined handle (the else
  branch of an \<open>IfThenElse\<close>, the \<open>new_expr\<close> of an \<open>Allocate\<close>) is an option, so the assertions
  \<open>x.defined()\<close> on the other fields hold by typing. The fifteen binary operators share the
  constructor \<open>Bin\<close>: their C++ classes have the same fields. A node that stores a type it does not
  derive from its children carries it; the others compute it in \<open>type_of\<close>, with the expression
  the \<open>make\<close> function assigns. Buffers, parameters, functions and reduction domains hang off a
  node as references that nothing here looks into: they are identified by numbers.
\<close>

subsection \<open>Nodes\<close>

text \<open>A \<open>double\<close>: the values and the special values that comparisons tell apart.\<close>

datatype dbl = NaN | PInf | NInf | NegZero | Fin rat

datatype binop =
    Add | Sub | Mod | Mul | Div | MinOp | MaxOp
  | EQ | NE | LT | LE | GT | GE | AndOp | OrOp

datatype call_type = Image | Extern | ExternCPlusPlus | PureExtern | HalideCall | Intrinsic
  | PureIntrinsic

record node_refs =
  ref_image :: "nat option"
  ref_param :: "nat option"
  ref_func :: "nat option"
  ref_rdom :: "nat option"

definition no_refs :: node_refs where
  "no_refs = \<lparr>ref_image = None, ref_param = None, ref_func = None, ref_rdom = None\<rparr>"

text \<open>The fields \<open>modulus\<close> and \<open>remainder\<close> of \<open>ModulusRemainder\<close>.\<close>

record modulus_remainder =
  mr_modulus :: int
  mr_remainder :: int

datatype expr =
    IntImm htype int
  | UIntImm htype int
  | FloatImm htype dbl
  | StringImm htype string
  | Broadcast expr nat
  | Cast htype expr
  | Variable htype string node_refs
  | Bin binop expr expr
  | NotE expr
  | Select expr expr expr
  | Load htype string expr expr node_refs modulus_remainder
  | Ramp expr expr nat
  | Call htype string "expr list" call_type int node_refs
  | LetE string expr expr
  | Shuffle "expr list" "int list"

datatype for_type = Serial | Parallel | Vectorized | Unrolled | ExternLoop | GPUBlock | GPUThread
  | GPULane | PrepareForSoftwarePipelining

datatype device_api = NoneAPI | Host | Default_GPU | CUDA | OpenCL | GLSL | OpenGLCompute | Metal
  | Hexagon | HexagonDma | D3D12Compute

datatype memory_type = AutoMem | Heap | Stack | Register | GPUShared | LockedCache | VTCM

datatype prefetch_bound_strategy = Clamp | GuardWithIf | NonFaulting

record range =
  range_min :: expr
  range_extent :: expr

type_synonym region = "range list"

record prefetch_directive =
  pf_name :: string
  pf_var :: string
  pf_offset :: "expr option"
  pf_strategy :: prefetch_bound_strategy
  pf_param :: "nat option"

datatype stmt =
    LetStmt string expr stmt
  | AssertStmt expr expr
  | ProducerConsumer string bool stmt
  | For string expr expr for_type device_api stmt
  | Acquire expr "expr option" stmt
  | Store string expr expr expr node_refs modulus_remainder
  | Provide string "expr list" "expr list"
  | Allocate string htype memory_type "expr list" expr "expr option" string stmt
  | Free string
  | Realize string "htype list" memory_type region expr stmt
  | Block stmt stmt
  | Fork stmt stmt
  | IfThenElse expr stmt "stmt option"
  | Evaluate expr
  | Prefetch string "htype list" region prefetch_directive expr stmt

definition is_unordered_parallel :: "for_type \<Rightarrow> bool" where
  "is_unordered_parallel f \<longleftrightarrow> f = Parallel \<or> f = GPUBlock \<or> f = GPUThread"

definition is_parallel :: "for_type \<Rightarrow> bool" where
  "is_parallel f \<longleftrightarrow> is_unordered_parallel f \<or> f = Vectorized \<or> f = GPULane"

subsection \<open>The type of a node\<close>

fun is_compare :: "binop \<Rightarrow> bool" where
  "is_compare op \<longleftrightarrow> op \<in> {EQ, NE, LT, LE, GT, GE}"

fun is_logical :: "binop \<Rightarrow> bool" where
  "is_logical op \<longleftrightarrow> op \<in> {AndOp, OrOp}"

definition bin_type :: "binop \<Rightarrow> htype \<Rightarrow> htype" where
  "bin_type op t = (if is_compare op \<or> is_logical op then Bool_type (ty_lanes t) else t)"

fun type_of :: "expr \<Rightarrow> htype" where
  "type_of (IntImm t v) = t"
| "type_of (UIntImm t v) = t"
| "type_of (FloatImm t v) = t"
| "type_of (StringImm t v) = t"
| "type_of (Broadcast v l) = with_lanes (type_of v) l"
| "type_of (Cast t v) = t"
| "type_of (Variable t n r) = t"
| "type_of (Bin op a b) = bin_type op (type_of a)"
| "type_of (NotE a) = Bool_type (ty_lanes (type_of a))"
| "type_of (Select c a b) = type_of a"
| "type_of (Load t n p i r al) = t"
| "type_of (Ramp b s l) = with_lanes (type_of b) l"
| "type_of (Call t n as ct vi r) = t"
| "type_of (LetE n v b) = type_of b"
| "type_of (Shuffle vs is) =
     with_lanes (case vs of [] \<Rightarrow> Handle_type 0 None | v # _ \<Rightarrow> element_of (type_of v)) (length is)"

abbreviation lanes_of :: "expr \<Rightarrow> nat" where
  "lanes_of e \<equiv> ty_lanes (type_of e)"

subsection \<open>Making expressions\<close>

text \<open>
  \<open>IntImm::make\<close> shifts the value to the top of a 64-bit word and arithmetically back.
\<close>

definition make_IntImm :: "htype \<Rightarrow> int \<Rightarrow> expr result" where
  "make_IntImm t value =
     assert_that (is_int t \<and> is_scalar t)
     (assert_that (ty_bits t = 8 \<or> ty_bits t = 16 \<or> ty_bits t = 32 \<or> ty_bits t = 64)
     (let shifted = s_wrap 64 (push_bit (64 - ty_bits t) (u_wrap 64 value))
      in Inr (IntImm t (drop_bit (64 - ty_bits t) shifted))))"

definition make_UIntImm :: "htype \<Rightarrow> int \<Rightarrow> expr result" where
  "make_UIntImm t value =
     assert_that (is_uint t \<and> is_scalar t)
     (assert_that (ty_bits t = 1 \<or> ty_bits t = 8 \<or> ty_bits t = 16 \<or> ty_bits t = 32 \<or> ty_bits t = 64)
     (let shifted = u_wrap 64 (push_bit (64 - ty_bits t) value)
      in Inr (UIntImm t (drop_bit (64 - ty_bits t) shifted))))"

definition make_Cast :: "htype \<Rightarrow> expr \<Rightarrow> expr result" where
  "make_Cast t v = assert_that (ty_lanes t = lanes_of v) (Inr (Cast t v))"

text \<open>The \<open>make\<close> functions of the binary operators: \<open>And\<close> and \<open>Or\<close> also check for booleans.\<close>

definition make_bin :: "binop \<Rightarrow> expr \<Rightarrow> expr \<Rightarrow> expr result" where
  "make_bin op a b =
     assert_that (is_logical op \<longrightarrow> is_bool (type_of a) \<and> is_bool (type_of b))
     (assert_that (type_eq (type_of a) (type_of b)) (Inr (Bin op a b)))"

definition make_Not :: "expr \<Rightarrow> expr result" where
  "make_Not a = assert_that (is_bool (type_of a)) (Inr (NotE a))"

definition make_Select :: "expr \<Rightarrow> expr \<Rightarrow> expr \<Rightarrow> expr result" where
  "make_Select c t f =
     assert_that (is_bool (type_of c))
     (assert_that (type_eq (type_of f) (type_of t))
     (assert_that (is_scalar (type_of c) \<or> lanes_of c = lanes_of t)
     (Inr (Select c t f))))"

definition make_Load ::
  "htype \<Rightarrow> string \<Rightarrow> expr \<Rightarrow> node_refs \<Rightarrow> expr \<Rightarrow> modulus_remainder \<Rightarrow> expr result" where
  "make_Load t name index refs predicate alignment =
     assert_that (ty_lanes t = lanes_of index)
     (assert_that (ty_lanes t = lanes_of predicate)
     (Inr (Load t name predicate index refs alignment)))"

definition make_Ramp :: "expr \<Rightarrow> expr \<Rightarrow> nat \<Rightarrow> expr result" where
  "make_Ramp base stride lanes =
     assert_that (is_scalar (type_of base))
     (assert_that (is_scalar (type_of stride))
     (assert_that (lanes > 1)
     (assert_that (type_eq (type_of stride) (type_of base))
     (Inr (Ramp base stride lanes)))))"

definition make_Broadcast :: "expr \<Rightarrow> nat \<Rightarrow> expr result" where
  "make_Broadcast value lanes =
     assert_that (is_scalar (type_of value)) (assert_that (lanes \<noteq> 1) (Inr (Broadcast value lanes)))"

definition make_Let :: "string \<Rightarrow> expr \<Rightarrow> expr \<Rightarrow> expr result" where
  "make_Let name value body = Inr (LetE name value body)"

definition make_Variable :: "htype \<Rightarrow> string \<Rightarrow> node_refs \<Rightarrow> expr result" where
  "make_Variable t name refs = assert_that (name \<noteq> []) (Inr (Variable t name refs))"

text \<open>The intrinsics, in the order of the enumeration \<open>IntrinsicOp\<close>.\<close>

definition intrinsic_op_names :: "string list" where
  "intrinsic_op_names =
    [''abs'', ''absd'', ''alloca'', ''bitwise_and'', ''bitwise_not'', ''bitwise_or'',
     ''bitwise_xor'', ''bool_to_mask'', ''call_cached_indirect_function'', ''cast_mask'',
     ''count_leading_zeros'', ''count_trailing_zeros'', ''debug_to_file'', ''div_round_to_zero'',
     ''dynamic_shuffle'', ''extract_mask_element'', ''gather'', ''glsl_texture_load'',
     ''glsl_texture_store'', ''glsl_varying'', ''gpu_thread_barrier'', ''if_then_else'',
     ''if_then_else_mask'', ''image_load'', ''image_store'', ''indeterminate_expression'',
     ''lerp'', ''likely'', ''likely_if_innermost'', ''make_struct'', ''memoize_expr'',
     ''mod_round_to_zero'', ''mulhi_shr'', ''popcount'', ''prefetch'', ''quiet_div'',
     ''quiet_mod'', ''random'', ''register_destructor'', ''reinterpret'', ''require'',
     ''require_mask'', ''return_second'', ''rewrite_buffer'', ''scatter'', ''scatter_acc'',
     ''scatter_release'', ''select_mask'', ''shift_left'', ''shift_right'',
     ''signed_integer_overflow'', ''size_of_halide_buffer_t'', ''sorted_avg'', ''strict_float'',
     ''stringify'', ''undef'', ''unsafe_promise_clamped'']"

definition is_pure_call :: "call_type \<Rightarrow> bool" where
  "is_pure_call ct \<longleftrightarrow> ct = PureExtern \<or> ct = Image \<or> ct = PureIntrinsic"

definition is_intrinsic_call :: "call_type \<Rightarrow> bool" where
  "is_intrinsic_call ct \<longleftrightarrow> ct = Intrinsic \<or> ct = PureIntrinsic"

definition is_extern_call :: "call_type \<Rightarrow> bool" where
  "is_extern_call ct \<longleftrightarrow> ct = Extern \<or> ct = ExternCPlusPlus \<or> ct = PureExtern"

definition make_Call ::
  "htype \<Rightarrow> string \<Rightarrow> expr list \<Rightarrow> call_type \<Rightarrow> int \<Rightarrow> node_refs \<Rightarrow> expr result" where
  "make_Call t name args ct value_index refs =
     assert_that (name = ''prefetch'' \<and> ct = Intrinsic \<longrightarrow> length args mod 2 = 0)
     (assert_that (ct = HalideCall \<longrightarrow>
        list_all (\<lambda>a. type_eq (type_of a) (Int_type 32 1)) args)
     (assert_that (ct = Image \<longrightarrow> ref_param refs \<noteq> None \<or> ref_image refs \<noteq> None)
     (assert_that (ct = Image \<longrightarrow> list_all (\<lambda>a. type_eq (type_of a) (Int_type 32 1)) args)
     (Inr (Call t name args ct value_index refs)))))"

text \<open>\<open>Call::make\<close> for an intrinsic, given by its number in the enumeration.\<close>

definition make_intrinsic ::
  "htype \<Rightarrow> nat \<Rightarrow> expr list \<Rightarrow> call_type \<Rightarrow> int \<Rightarrow> node_refs \<Rightarrow> expr result" where
  "make_intrinsic t op args ct value_index refs =
     assert_that (ct = Intrinsic \<or> ct = PureIntrinsic)
     (make_Call t (intrinsic_op_names ! op) args ct value_index refs)"

subsection \<open>Shuffles\<close>

definition total_lanes :: "expr list \<Rightarrow> nat" where
  "total_lanes vs = sum_list (map lanes_of vs)"

definition make_Shuffle :: "expr list \<Rightarrow> int list \<Rightarrow> expr result" where
  "make_Shuffle vectors indices =
     assert_that (vectors \<noteq> [])
     (assert_that (indices \<noteq> [])
     (assert_that (list_all (\<lambda>v. type_eq (element_of (type_of v))
                                         (element_of (type_of (hd vectors)))) vectors)
     (assert_that (list_all (\<lambda>i. 0 \<le> i \<and> i < int (total_lanes vectors)) indices)
     (Inr (Shuffle vectors indices)))))"

definition interleave_indices :: "nat \<Rightarrow> nat \<Rightarrow> int list" where
  "interleave_indices lanes n =
     concat (map (\<lambda>i. map (\<lambda>j. int (j * lanes + i)) [0..<n]) [0..<lanes])"

definition make_interleave :: "expr list \<Rightarrow> expr result" where
  "make_interleave vectors =
     assert_that (vectors \<noteq> [])
     (if length vectors = 1 then Inr (hd vectors)
      else
        (let lanes = lanes_of (hd vectors)
         in assert_that (list_all (\<lambda>v. lanes_of v = lanes) vectors)
            (make_Shuffle vectors (interleave_indices lanes (length vectors)))))"

definition make_concat :: "expr list \<Rightarrow> expr result" where
  "make_concat vectors =
     assert_that (vectors \<noteq> [])
     (if length vectors = 1 then Inr (hd vectors)
      else make_Shuffle vectors (map int [0..<total_lanes vectors]))"

definition make_slice :: "expr \<Rightarrow> int \<Rightarrow> int \<Rightarrow> nat \<Rightarrow> expr result" where
  "make_slice vector begin stride sz =
     (if begin = 0 \<and> sz = lanes_of vector \<and> stride = 1 then Inr vector
      else make_Shuffle [vector] (map (\<lambda>i. begin + int i * stride) [0..<sz]))"

definition make_extract_element :: "expr \<Rightarrow> int \<Rightarrow> expr result" where
  "make_extract_element vector i = make_slice vector i 1 1"

definition is_interleave :: "expr list \<Rightarrow> int list \<Rightarrow> bool" where
  "is_interleave vectors indices =
     (let lanes = lanes_of (hd vectors) in
      if lanes = 1 then False
      else if \<not> list_all (\<lambda>v. lanes_of v = lanes) vectors then False
      else if lanes * length vectors \<noteq> length indices then False
      else list_all (\<lambda>i. list_all (\<lambda>j. indices ! (j * length vectors + i) = int (i * lanes + j))
             [0..<lanes]) [0..<length vectors])"

fun is_ramp_indices :: "int \<Rightarrow> int list \<Rightarrow> bool" where
  "is_ramp_indices stride (i # j # is) \<longleftrightarrow> j = i + stride \<and> is_ramp_indices stride (j # is)"
| "is_ramp_indices stride is \<longleftrightarrow> True"

definition is_concat :: "expr list \<Rightarrow> int list \<Rightarrow> bool" where
  "is_concat vectors indices \<longleftrightarrow>
     length indices = total_lanes vectors \<and> is_ramp_indices 1 indices"

definition slice_stride :: "int list \<Rightarrow> int" where
  "slice_stride indices = (if length indices \<ge> 2 then indices ! 1 - indices ! 0 else 1)"

definition is_slice :: "expr list \<Rightarrow> int list \<Rightarrow> bool" where
  "is_slice vectors indices \<longleftrightarrow>
     length indices < total_lanes vectors \<and> is_ramp_indices (slice_stride indices) indices"

definition is_extract_element :: "int list \<Rightarrow> bool" where
  "is_extract_element indices \<longleftrightarrow> length indices = 1"

subsection \<open>Making statements\<close>

abbreviation is_Int32 :: "expr \<Rightarrow> bool" where
  "is_Int32 e \<equiv> type_eq (type_of e) (Int_type 32 1)"

definition make_LetStmt :: "string \<Rightarrow> expr \<Rightarrow> stmt \<Rightarrow> stmt result" where
  "make_LetStmt name value body = Inr (LetStmt name value body)"

definition make_AssertStmt :: "expr \<Rightarrow> expr \<Rightarrow> stmt result" where
  "make_AssertStmt condition message =
     assert_that (is_Int32 message) (Inr (AssertStmt condition message))"

definition make_ProducerConsumer :: "string \<Rightarrow> bool \<Rightarrow> stmt \<Rightarrow> stmt result" where
  "make_ProducerConsumer name is_producer body = Inr (ProducerConsumer name is_producer body)"

definition make_For ::
  "string \<Rightarrow> expr \<Rightarrow> expr \<Rightarrow> for_type \<Rightarrow> device_api \<Rightarrow> stmt \<Rightarrow> stmt result" where
  "make_For name mn extent ft api body =
     assert_that (is_Int32 mn) (assert_that (is_Int32 extent) (Inr (For name mn extent ft api body)))"

definition make_Acquire :: "expr \<Rightarrow> expr option \<Rightarrow> stmt \<Rightarrow> stmt result" where
  "make_Acquire semaphore count body = Inr (Acquire semaphore count body)"

definition make_Store ::
  "string \<Rightarrow> expr \<Rightarrow> expr \<Rightarrow> node_refs \<Rightarrow> expr \<Rightarrow> modulus_remainder \<Rightarrow> stmt result" where
  "make_Store name value index refs predicate alignment =
     assert_that (lanes_of value = lanes_of index)
     (assert_that (lanes_of value = lanes_of predicate)
     (Inr (Store name predicate value index refs alignment)))"

definition make_Provide :: "string \<Rightarrow> expr list \<Rightarrow> expr list \<Rightarrow> stmt result" where
  "make_Provide name values args = assert_that (values \<noteq> []) (Inr (Provide name values args))"

definition make_Allocate ::
  "string \<Rightarrow> htype \<Rightarrow> memory_type \<Rightarrow> expr list \<Rightarrow> expr \<Rightarrow> stmt \<Rightarrow> expr option \<Rightarrow> string
     \<Rightarrow> stmt result" where
  "make_Allocate name t mem extents condition body new_expr free_function =
     assert_that (list_all (\<lambda>e. is_scalar (type_of e)) extents)
     (assert_that (is_bool (type_of condition))
     (Inr (Allocate name t mem extents condition new_expr free_function body)))"

definition make_Free :: "string \<Rightarrow> stmt result" where
  "make_Free name = Inr (Free name)"

definition region_scalar :: "region \<Rightarrow> bool" where
  "region_scalar bounds = list_all (\<lambda>r. is_scalar (type_of (range_min r)) \<and>
     is_scalar (type_of (range_extent r))) bounds"

definition make_Range :: "expr \<Rightarrow> expr \<Rightarrow> range result" where
  "make_Range mn extent =
     assert_that (type_eq (type_of mn) (type_of extent))
     (Inr \<lparr>range_min = mn, range_extent = extent\<rparr>)"

definition make_Realize ::
  "string \<Rightarrow> htype list \<Rightarrow> memory_type \<Rightarrow> region \<Rightarrow> expr \<Rightarrow> stmt \<Rightarrow> stmt result" where
  "make_Realize name types mem bounds condition body =
     assert_that (region_scalar bounds)
     (assert_that (types \<noteq> [])
     (assert_that (is_bool (type_of condition))
     (Inr (Realize name types mem bounds condition body))))"

definition make_Prefetch ::
  "string \<Rightarrow> htype list \<Rightarrow> region \<Rightarrow> prefetch_directive \<Rightarrow> expr \<Rightarrow> stmt \<Rightarrow> stmt result" where
  "make_Prefetch name types bounds prefetch condition body =
     assert_that (region_scalar bounds)
     (assert_that (types \<noteq> [])
     (assert_that (is_bool (type_of condition))
     (Inr (Prefetch name types bounds prefetch condition body))))"

text \<open>\<open>Block::make\<close> and \<open>Fork::make\<close> rotate a left-nested first argument to the right.\<close>

fun make_Block :: "stmt \<Rightarrow> stmt \<Rightarrow> stmt" where
  "make_Block (Block first rest) rest' = Block first (make_Block rest rest')"
| "make_Block first rest' = Block first rest'"

fun make_Fork :: "stmt \<Rightarrow> stmt \<Rightarrow> stmt" where
  "make_Fork (Fork first rest) rest' = Fork first (make_Fork rest rest')"
| "make_Fork first rest' = Fork first rest'"

text \<open>
  \<open>Block::make\<close> of a vector: the loop runs from the last statement to the first; the empty vector
  gives an undefined statement.
\<close>

fun make_Blocks :: "stmt list \<Rightarrow> stmt option" where
  "make_Blocks [] = None"
| "make_Blocks stmts = Some (foldr make_Block (butlast stmts) (last stmts))"

definition make_IfThenElse :: "expr \<Rightarrow> stmt \<Rightarrow> stmt option \<Rightarrow> stmt result" where
  "make_IfThenElse condition then_case else_case = Inr (IfThenElse condition then_case else_case)"

definition make_Evaluate :: "expr \<Rightarrow> stmt result" where
  "make_Evaluate v = Inr (Evaluate v)"

text \<open>
  \<open>Allocate::constant_allocation_size\<close>: the product in an \<open>int64_t\<close>, a user error above
  \<open>2^31 - 1\<close>, and \<open>0\<close> as soon as an extent is not a constant.
\<close>

fun allocation_loop :: "int \<Rightarrow> expr list \<Rightarrow> int result" where
  "allocation_loop result [] = Inr (s_wrap 32 result)"
| "allocation_loop result (IntImm t v # es) =
     (let r = s_wrap 64 (result * v)
      in if r > 2 ^ 31 - 1 then Inl UserError else allocation_loop r es)"
| "allocation_loop result (e # es) = Inr 0"

definition constant_allocation_size :: "expr list \<Rightarrow> int result" where
  "constant_allocation_size extents = allocation_loop 1 extents"

subsection \<open>Well-formed expressions\<close>

text \<open>
  What the \<open>make\<close> functions check, for nodes whose number of lanes fits the \<open>uint16_t\<close> of a type
  descriptor (they do not check that).
\<close>

definition imm_bits :: "nat list" where
  "imm_bits = [8, 16, 32, 64]"

fun wf_expr :: "expr \<Rightarrow> bool" where
  "wf_expr (IntImm t v) \<longleftrightarrow> ty_ok t \<and> is_int t \<and> is_scalar t \<and> ty_bits t \<in> set imm_bits \<and>
     s_wrap (ty_bits t) v = v"
| "wf_expr (UIntImm t v) \<longleftrightarrow> ty_ok t \<and> is_uint t \<and> is_scalar t \<and> ty_bits t \<in> set (1 # imm_bits) \<and>
     u_wrap (ty_bits t) v = v"
| "wf_expr (FloatImm t v) \<longleftrightarrow> ty_ok t \<and> is_float t \<and> is_scalar t"
| "wf_expr (StringImm t v) \<longleftrightarrow> ty_ok t \<and> is_handle t \<and> is_scalar t"
| "wf_expr (Broadcast v l) \<longleftrightarrow> wf_expr v \<and> is_scalar (type_of v) \<and> l \<noteq> 1 \<and> l < 2 ^ 16"
| "wf_expr (Cast t v) \<longleftrightarrow> ty_ok t \<and> wf_expr v \<and> ty_lanes t = lanes_of v"
| "wf_expr (Variable t n r) \<longleftrightarrow> ty_ok t \<and> n \<noteq> []"
| "wf_expr (Bin op a b) \<longleftrightarrow> wf_expr a \<and> wf_expr b \<and> type_eq (type_of a) (type_of b) \<and>
     (is_logical op \<longrightarrow> is_bool (type_of a))"
| "wf_expr (NotE a) \<longleftrightarrow> wf_expr a \<and> is_bool (type_of a)"
| "wf_expr (Select c a b) \<longleftrightarrow> wf_expr c \<and> wf_expr a \<and> wf_expr b \<and> is_bool (type_of c) \<and>
     type_eq (type_of b) (type_of a) \<and> (is_scalar (type_of c) \<or> lanes_of c = lanes_of a)"
| "wf_expr (Load t n p i r al) \<longleftrightarrow> ty_ok t \<and> wf_expr p \<and> wf_expr i \<and> ty_lanes t = lanes_of i \<and>
     ty_lanes t = lanes_of p"
| "wf_expr (Ramp b s l) \<longleftrightarrow> wf_expr b \<and> wf_expr s \<and> is_scalar (type_of b) \<and> is_scalar (type_of s) \<and>
     l > 1 \<and> l < 2 ^ 16 \<and> type_eq (type_of s) (type_of b)"
| "wf_expr (Call t n as ct vi r) \<longleftrightarrow> ty_ok t \<and> list_all wf_expr as \<and>
     (ct = HalideCall \<or> ct = Image \<longrightarrow> list_all is_Int32 as)"
| "wf_expr (LetE n v b) \<longleftrightarrow> wf_expr v \<and> wf_expr b"
| "wf_expr (Shuffle vs is) \<longleftrightarrow> list_all wf_expr vs \<and> vs \<noteq> [] \<and> is \<noteq> [] \<and>
     length is < 2 ^ 16 \<and> list_all (\<lambda>v. type_eq (element_of (type_of v)) (element_of (type_of (hd vs)))) vs \<and>
     list_all (\<lambda>i. 0 \<le> i \<and> i < int (total_lanes vs)) is"

end
