(* ===== verification/IRFacts.thy ===== *)
theory IRFacts
  imports IR
begin

text \<open>
  What the \<open>make\<close> functions of the intermediate representation guarantee: every expression they
  build is well formed, blocks are nested canonically and keep their order, the recognisers of
  shuffles agree with their constructors, and the constant size of an allocation is the product of
  its extents.
\<close>

text \<open>
  The expressions that calls of the \<open>make\<close> functions can produce, with numbers of lanes that fit a
  type descriptor.
\<close>

fun lanes_fit :: "expr \<Rightarrow> bool" where
  "lanes_fit (Broadcast v l) \<longleftrightarrow> l < 2 ^ 16"
| "lanes_fit (Ramp b s l) \<longleftrightarrow> l < 2 ^ 16"
| "lanes_fit (Shuffle vs is) \<longleftrightarrow> length is < 2 ^ 16"
| "lanes_fit e \<longleftrightarrow> True"

inductive made :: "expr \<Rightarrow> bool" where
  made_IntImm: "ty_ok t \<Longrightarrow> make_IntImm t v = Inr e \<Longrightarrow> made e"
| made_UIntImm: "ty_ok t \<Longrightarrow> make_UIntImm t v = Inr e \<Longrightarrow> made e"
| made_Broadcast: "made v \<Longrightarrow> make_Broadcast v l = Inr e \<Longrightarrow> lanes_fit e \<Longrightarrow> made e"
| made_Cast: "ty_ok t \<Longrightarrow> made v \<Longrightarrow> make_Cast t v = Inr e \<Longrightarrow> made e"
| made_Variable: "ty_ok t \<Longrightarrow> make_Variable t n r = Inr e \<Longrightarrow> made e"
| made_bin: "made a \<Longrightarrow> made b \<Longrightarrow> make_bin op a b = Inr e \<Longrightarrow> made e"
| made_Not: "made a \<Longrightarrow> make_Not a = Inr e \<Longrightarrow> made e"
| made_Select: "made c \<Longrightarrow> made a \<Longrightarrow> made b \<Longrightarrow> make_Select c a b = Inr e \<Longrightarrow> made e"
| made_Load: "ty_ok t \<Longrightarrow> made p \<Longrightarrow> made i \<Longrightarrow> make_Load t n i r p al = Inr e \<Longrightarrow> made e"
| made_Ramp: "made b \<Longrightarrow> made s \<Longrightarrow> make_Ramp b s l = Inr e \<Longrightarrow> lanes_fit e \<Longrightarrow> made e"
| made_Call: "ty_ok t \<Longrightarrow> list_all made as \<Longrightarrow> make_Call t n as ct vi r = Inr e \<Longrightarrow> made e"
| made_Let: "made v \<Longrightarrow> made b \<Longrightarrow> make_Let n v b = Inr e \<Longrightarrow> made e"
| made_interleave: "list_all made vs \<Longrightarrow> make_interleave vs = Inr e \<Longrightarrow> lanes_fit e \<Longrightarrow> made e"
| made_concat: "list_all made vs \<Longrightarrow> make_concat vs = Inr e \<Longrightarrow> lanes_fit e \<Longrightarrow> made e"
| made_slice: "made v \<Longrightarrow> make_slice v b s n = Inr e \<Longrightarrow> lanes_fit e \<Longrightarrow> made e"
| made_Shuffle: "list_all made vs \<Longrightarrow> make_Shuffle vs is = Inr e \<Longrightarrow> lanes_fit e \<Longrightarrow> made e"
  monos list_all_iff

lemma bool_ty_ok [simp]: "ty_ok (Bool_type l)"
  by (simp add: Bool_type_def UInt_type_def)

lemma bool_type_simps [simp]:
  "ty_code (Bool_type l) = TUInt" "ty_bits (Bool_type l) = 1" "ty_lanes (Bool_type l) = l mod 65536"
  by (simp_all add: Bool_type_def UInt_type_def)

lemma is_bool_Bool [simp]: "is_bool (Bool_type l)"
  by (simp add: is_bool_def)

lemma ty_ok_with_lanes [simp]: "ty_ok (with_lanes t l)"
  by (simp add: with_lanes_def)

lemma ty_ok_element_of [simp]: "ty_ok (element_of t)"
  by (simp add: element_of_def)

lemma wf_type_ok: "wf_expr e \<Longrightarrow> ty_ok (type_of e)"
  by (induction e rule: type_of.induct) (auto simp: bin_type_def)

lemma int_shift_norm:
  assumes "1 \<le> b" and "b \<le> 64"
  shows "drop_bit (64 - b) (s_wrap 64 (push_bit (64 - b) (u_wrap 64 v))) = s_wrap b v"
  unfolding s_wrap_def u_wrap_def
  by (rule bit_eqI) (use assms in \<open>auto simp: bit_simps bit_signed_take_bit_iff min_def\<close>)

lemma uint_shift_norm:
  assumes "b \<le> 64"
  shows "drop_bit (64 - b) (u_wrap 64 (push_bit (64 - b) v)) = u_wrap b v"
  unfolding u_wrap_def by (rule bit_eqI) (use assms in \<open>auto simp: bit_simps\<close>)

lemma make_IntImm_eq:
  "make_IntImm t v = Inr e \<longleftrightarrow>
     is_int t \<and> is_scalar t \<and> ty_bits t \<in> set imm_bits \<and> e = IntImm t (s_wrap (ty_bits t) v)"
proof (cases "ty_bits t \<in> set imm_bits")
  case True
  then have "1 \<le> ty_bits t" "ty_bits t \<le> 64" by (auto simp: imm_bits_def)
  from int_shift_norm [OF this] True show ?thesis
    by (simp add: make_IntImm_def imm_bits_def Let_def) blast
qed (auto simp: make_IntImm_def imm_bits_def)

lemma make_UIntImm_eq:
  "make_UIntImm t v = Inr e \<longleftrightarrow>
     is_uint t \<and> is_scalar t \<and> ty_bits t \<in> set (1 # imm_bits) \<and> e = UIntImm t (u_wrap (ty_bits t) v)"
proof (cases "ty_bits t \<in> set (1 # imm_bits)")
  case True
  then have "ty_bits t \<le> 64" by (auto simp: imm_bits_def)
  from uint_shift_norm [OF this] True show ?thesis
    by (simp add: make_UIntImm_def imm_bits_def Let_def) blast
qed (auto simp: make_UIntImm_def imm_bits_def)

lemmas make_defs = make_IntImm_eq make_UIntImm_eq make_Broadcast_def make_Cast_def
  make_Variable_def make_bin_def make_Not_def make_Select_def make_Load_def make_Ramp_def
  make_Call_def make_Let_def

lemma make_Shuffle_wf:
  "list_all wf_expr vs \<Longrightarrow> make_Shuffle vs is = Inr e \<Longrightarrow> lanes_fit e \<Longrightarrow> wf_expr e"
  by (auto simp: make_Shuffle_def)

lemma make_interleave_cases:
  "make_interleave vs = Inr e \<Longrightarrow>
     vs = [e] \<or> make_Shuffle vs (interleave_indices (lanes_of (hd vs)) (length vs)) = Inr e"
  by (cases vs) (auto simp: make_interleave_def Let_def length_Suc_conv split: if_splits)

lemma make_concat_cases:
  "make_concat vs = Inr e \<Longrightarrow>
     vs = [e] \<or> make_Shuffle vs (map int [0..<total_lanes vs]) = Inr e"
  by (cases vs) (auto simp: make_concat_def Let_def length_Suc_conv split: if_splits)

lemma make_slice_cases:
  "make_slice v b s n = Inr e \<Longrightarrow>
     v = e \<or> make_Shuffle [v] (map (\<lambda>i. b + int i * s) [0..<n]) = Inr e"
  by (auto simp: make_slice_def split: if_splits)

lemma made_wf: "made e \<Longrightarrow> wf_expr e"
proof (induction rule: made.induct)
  case (made_IntImm t v e)
  then show ?case by (auto simp: make_IntImm_eq s_wrap.wr_wr)
next
  case (made_UIntImm t v e)
  then show ?case by (auto simp: make_UIntImm_eq u_wrap.wr_wr)
next
  case (made_interleave vs e)
  then have "list_all wf_expr vs" by (auto simp: list_all_iff)
  then show ?case
    using make_interleave_cases [OF made_interleave(2)] make_Shuffle_wf made_interleave(3) by auto
next
  case (made_concat vs e)
  then have "list_all wf_expr vs" by (auto simp: list_all_iff)
  then show ?case using make_concat_cases [OF made_concat(2)] make_Shuffle_wf made_concat(3) by auto
next
  case (made_slice v b s n e)
  then show ?case using make_slice_cases [OF made_slice(2)] make_Shuffle_wf [of "[v]"] by auto
next
  case (made_Shuffle vs "is" e)
  then have "list_all wf_expr vs" by (auto simp: list_all_iff)
  then show ?case using make_Shuffle_wf made_Shuffle by auto
next
  case (made_Call t as n ct vi r e)
  then have "list_all wf_expr as" by (auto simp: list_all_iff)
  then show ?case using made_Call by (auto simp: make_Call_def)
qed (auto simp: make_defs)

subsection \<open>Shuffle recognisers\<close>

lemma interleave_indices_length: "length (interleave_indices l n) = l * n"
  by (simp add: interleave_indices_def length_concat comp_def sum_list_triv)

lemma concat_map_nth:
  assumes "\<And>i. i < l \<Longrightarrow> length (f i) = n" and "i < l" and "j < n"
  shows "concat (map f [0..<l]) ! (i * n + j) = f i ! j"
  using assms
proof (induction l)
  case (Suc l)
  have len: "length (concat (map f [0..<l])) = l * n"
  proof -
    have "map (\<lambda>x. length (f x)) [0..<l] = map (\<lambda>_. n) [0..<l]"
      using Suc.prems(1) by simp
    then have "sum_list (map (\<lambda>x. length (f x)) [0..<l]) = sum_list (map (\<lambda>_. n) [0..<l])"
      by (rule arg_cong)
    then show ?thesis by (simp only: length_concat map_map comp_def sum_list_triv) simp
  qed
  show ?case
  proof (cases "i < l")
    case True
    have "i * n + j < l * n" using True Suc.prems(3)
      by (metis Suc_leI add.commute add_less_mono1 le_less_trans less_le_trans mult.commute
          mult_Suc_right mult_le_mono2)
    then show ?thesis using Suc True len by (simp add: nth_append)
  next
    case False
    then have "i = l" using Suc.prems(2) by simp
    then show ?thesis using len by (simp add: nth_append)
  qed
qed simp

lemma interleave_indices_nth:
  assumes "i < l" and "j < n"
  shows "interleave_indices l n ! (i * n + j) = int (j * l + i)"
  using concat_map_nth [of l "\<lambda>i. map (\<lambda>j. int (j * l + i)) [0..<n]" n i j] assms
  by (simp add: interleave_indices_def)

lemma is_ramp_indices_iff:
  "is_ramp_indices s is \<longleftrightarrow> (\<forall>k. Suc k < length is \<longrightarrow> is ! Suc k = is ! k + s)"
proof (induction s "is" rule: is_ramp_indices.induct)
  case (1 s i j "is")
  show ?case
  proof
    assume "is_ramp_indices s (i # j # is)"
    with 1 show "\<forall>k. Suc k < length (i # j # is) \<longrightarrow> (i # j # is) ! Suc k = (i # j # is) ! k + s"
      by (auto simp: nth_Cons split: nat.splits)
  next
    assume a: "\<forall>k. Suc k < length (i # j # is) \<longrightarrow> (i # j # is) ! Suc k = (i # j # is) ! k + s"
    have "j = i + s" using a [rule_format, of 0] by simp
    moreover have "\<forall>k. Suc k < length (j # is) \<longrightarrow> (j # is) ! Suc k = (j # is) ! k + s"
      using a by (metis Suc_less_eq length_Cons nth_Cons_Suc)
    ultimately show "is_ramp_indices s (i # j # is)" using 1 by simp
  qed
qed auto

lemma is_ramp_indices_nth:
  assumes "is_ramp_indices s is" and "k < length is"
  shows "is ! k = is ! 0 + int k * s"
  using assms(2)
proof (induction k)
  case (Suc k)
  then show ?case using assms(1) by (simp add: is_ramp_indices_iff algebra_simps)
qed simp

lemma is_interleave_indices:
  assumes "list_all (\<lambda>v. lanes_of v = lanes_of (hd vs)) vs" and "lanes_of (hd vs) \<noteq> 1"
  shows "is_interleave vs (interleave_indices (lanes_of (hd vs)) (length vs))"
  using assms
  by (simp add: is_interleave_def Let_def interleave_indices_length list_all_iff
      interleave_indices_nth)

lemma map_int_upt_ramp: "is_ramp_indices 1 (map int [0..<n])"
  by (simp add: is_ramp_indices_iff)

lemma is_concat_wf:
  assumes "wf_expr (Shuffle vs is)" and "is_concat vs is"
  shows "is = map int [0..<total_lanes vs]"
proof (rule nth_equalityI)
  have len: "length is = total_lanes vs" and r: "is_ramp_indices 1 is"
    using assms(2) by (auto simp: is_concat_def)
  then show "length is = length (map int [0..<total_lanes vs])" by simp
  have n: "is ! k = is ! 0 + int k" if "k < length is" for k
    using is_ramp_indices_nth [OF r that] by simp
  have ne: "is \<noteq> []" using assms(1) by simp
  have b: "0 \<le> is ! k \<and> is ! k < int (length is)" if "k < length is" for k
    using assms(1) that len by (auto simp: list_all_length)
  obtain m where m: "length is = Suc m" using ne by (cases "is") auto
  have "is ! 0 + int m < int (Suc m)" using b [of m] n [of m] m by linarith
  then have z: "is ! 0 = 0" using b [of 0] m by linarith
  fix k assume k: "k < length is"
  have "is ! k = int k" using n [OF k] z by linarith
  then show "is ! k = map int [0..<total_lanes vs] ! k" using k len by simp
qed

subsection \<open>Statement sequences\<close>

text \<open>The statements of a block in the order of execution, and the canonical nesting.\<close>

fun block_list :: "stmt \<Rightarrow> stmt list" where
  "block_list (Block first rest) = block_list first @ block_list rest"
| "block_list s = [s]"

fun is_block :: "stmt \<Rightarrow> bool" where
  "is_block (Block first rest) = True"
| "is_block s = False"

fun canonical_block :: "stmt \<Rightarrow> bool" where
  "canonical_block (Block first rest) \<longleftrightarrow> \<not> is_block first \<and> canonical_block rest"
| "canonical_block s = True"

lemma make_Block_non_block: "\<not> is_block s \<Longrightarrow> make_Block s r = Block s r"
  by (cases s) auto

lemma block_list_make_Block: "block_list (make_Block a b) = block_list a @ block_list b"
  by (induction a b rule: make_Block.induct) auto

lemma canonical_make_Block:
  "canonical_block a \<Longrightarrow> canonical_block b \<Longrightarrow> canonical_block (make_Block a b)"
  by (induction a b rule: make_Block.induct) auto

lemma canonical_foldr:
  "list_all canonical_block ss \<Longrightarrow> canonical_block s \<Longrightarrow> canonical_block (foldr make_Block ss s)"
  by (induction ss) (auto intro: canonical_make_Block)

lemma block_list_foldr:
  "block_list (foldr make_Block ss s) = concat (map block_list ss) @ block_list s"
  by (induction ss) (auto simp: block_list_make_Block)

lemma make_Blocks_snoc: "make_Blocks (ss @ [s]) = Some (foldr make_Block ss s)"
proof -
  obtain x xs where e: "ss @ [s] = x # xs" by (cases "ss @ [s]") auto
  have "make_Blocks (x # xs) = Some (foldr make_Block (butlast (x # xs)) (last (x # xs)))"
    by (rule make_Blocks.simps)
  then show ?thesis unfolding e [symmetric] by simp
qed

lemma prod_list_ge_1: "\<forall>v \<in> set vs. 1 \<le> v \<Longrightarrow> 1 \<le> prod_list (vs :: int list)"
  using mult_mono [of 1 _ 1 "prod_list _"] by (induction vs) fastforce+

lemma alloc_pos:
  assumes "1 \<le> r" and "r \<le> 2 ^ 31 - 1" and "\<forall>v \<in> set vs. 1 \<le> v \<and> v \<le> 2 ^ 31 - 1"
  shows "allocation_loop r (map (IntImm t) vs) =
    (if r * prod_list vs \<le> 2 ^ 31 - 1 then Inr (r * prod_list vs) else Inl UserError)"
  using assms
proof (induction vs arbitrary: r)
  case Nil
  then show ?case by (simp add: s_wrap_in_s_id in_s_def)
next
  case (Cons v vs)
  have v: "1 \<le> v" "v \<le> 2 ^ 31 - 1" using Cons.prems by auto
  have "r * v \<le> (2 ^ 31 - 1) * (2 ^ 31 - 1)"
    using v Cons.prems(1,2) by (intro mult_mono) auto
  moreover have p1: "1 \<le> r * v" using mult_mono [of 1 r 1 v] v Cons.prems(1) by simp
  ultimately have w: "s_wrap 64 (r * v) = r * v"
    by (intro s_wrap_in_s_id) (auto simp: in_s_def)
  have pl: "1 \<le> prod_list vs" using Cons.prems(3) prod_list_ge_1 by auto
  show ?case
  proof (cases "r * v \<le> 2 ^ 31 - 1")
    case True
    then show ?thesis using Cons.IH [OF p1 True] Cons.prems(3) w by (simp add: mult.assoc)
  next
    case False
    have "r * v * 1 \<le> r * v * prod_list vs" using p1 pl by (intro mult_left_mono) auto
    then show ?thesis using False w by (simp add: mult.assoc)
  qed
qed

subsection \<open>Properties\<close>



text \<open>
  \<open>Block::make\<close> of a vector of statements executes exactly their statements, in order, and
  nests canonical blocks canonically: no block is the first child of a block.
\<close>

theorem make_Blocks_order:
  assumes "ss \<noteq> []"
  shows "\<exists>s. make_Blocks ss = Some s \<and> block_list s = concat (map block_list ss) \<and>
    (list_all canonical_block ss \<longrightarrow> canonical_block s)"
proof -
  obtain xs x where ss: "ss = xs @ [x]" using assms by (metis append_butlast_last_id)
  show ?thesis unfolding ss make_Blocks_snoc
    by (auto simp: block_list_foldr list_all_iff intro!: canonical_foldr)
qed

theorem make_Blocks_order_witness:
  "\<exists>s. make_Blocks [Block (Free ''a'') (Free ''b''), Free ''c''] = Some s \<and>
     block_list s = [Free ''a'', Free ''b'', Free ''c''] \<and> canonical_block s"
  using make_Blocks_order [of "[Block (Free ''a'') (Free ''b''), Free ''c'']"] by auto

text \<open>
  \<open>Allocate::constant_allocation_size\<close> on constant extents that are positive 32-bit integers is
  their product, or the user error exactly when the product exceeds \<open>2^31 - 1\<close>.
\<close>

theorem constant_allocation_size_product:
  assumes "\<forall>v \<in> set vs. 1 \<le> v \<and> v \<le> 2 ^ 31 - 1"
  shows "constant_allocation_size (map (IntImm t) vs) =
    (if prod_list vs \<le> 2 ^ 31 - 1 then Inr (prod_list vs) else Inl UserError)"
  using alloc_pos [of 1 vs t] assms by (simp add: constant_allocation_size_def)

theorem constant_allocation_size_product_witness:
  "constant_allocation_size (map (IntImm (Int_type 32 1)) [1920, 1080, 3]) = Inr 6220800 \<and>
   constant_allocation_size (map (IntImm (Int_type 32 1)) [65536, 65536]) = Inl UserError"
  using constant_allocation_size_product [of "[1920, 1080, 3]" "Int_type 32 1"]
    constant_allocation_size_product [of "[65536, 65536]" "Int_type 32 1"]
  by simp

text \<open>
  The recognisers of shuffles agree with the constructors: what \<open>make_interleave\<close> builds from
  vectors of more than one lane is recognised by \<open>is_interleave\<close>, what \<open>make_concat\<close> builds by
  \<open>is_concat\<close>, and on a well-formed shuffle \<open>is_concat\<close> holds only for the identity on the lanes
  of all arguments.
\<close>

theorem shuffle_recognisers:
  assumes "length vs \<noteq> 1"
  shows
    "(make_interleave vs = Inr (Shuffle vs is) \<and> lanes_of (hd vs) \<noteq> 1 \<longrightarrow> is_interleave vs is) \<and>
     (make_concat vs = Inr (Shuffle vs is) \<longrightarrow> is_concat vs is) \<and>
     (wf_expr (Shuffle vs is) \<and> is_concat vs is \<longrightarrow> is = map int [0..<total_lanes vs])"
proof (intro conjI impI)
  assume "make_interleave vs = Inr (Shuffle vs is) \<and> lanes_of (hd vs) \<noteq> 1"
  then show "is_interleave vs is"
    using assms is_interleave_indices [of vs]
    by (auto simp: make_interleave_def make_Shuffle_def Let_def split: if_splits)
next
  assume "make_concat vs = Inr (Shuffle vs is)"
  then show "is_concat vs is"
    using assms map_int_upt_ramp
    by (auto simp: make_concat_def make_Shuffle_def is_concat_def split: if_splits)
next
  assume "wf_expr (Shuffle vs is) \<and> is_concat vs is"
  then show "is = map int [0..<total_lanes vs]" using is_concat_wf by blast
qed

theorem shuffle_recognisers_witness:
  "is_interleave [Variable (Int_type 32 2) ''a'' no_refs, Variable (Int_type 32 2) ''b'' no_refs]
     [0, 2, 1, 3] \<and>
   is_concat [Variable (Int_type 32 2) ''a'' no_refs, Variable (Int_type 32 2) ''b'' no_refs]
     [0, 1, 2, 3]"
proof -
  let ?vs = "[Variable (Int_type 32 2) ''a'' no_refs, Variable (Int_type 32 2) ''b'' no_refs]"
  have l: "[0..<2] = [0, 1 :: nat]" "[0..<4] = [0, 1, 2, 3 :: nat]" by (simp_all add: upt_rec)
  have "make_interleave ?vs = Inr (Shuffle ?vs [0, 2, 1, 3])"
    by (simp add: make_interleave_def make_Shuffle_def interleave_indices_def l Int_type_def
        total_lanes_def type_eq_def element_of_def with_lanes_def) (rule exI [of _ 0], simp)
  moreover have "lanes_of (hd ?vs) \<noteq> 1" by (simp add: Int_type_def)
  moreover have "make_concat ?vs = Inr (Shuffle ?vs [0, 1, 2, 3])"
    by (simp add: make_concat_def make_Shuffle_def l Int_type_def total_lanes_def
        type_eq_def element_of_def with_lanes_def)
  ultimately show ?thesis
    using shuffle_recognisers [of ?vs "[0, 2, 1, 3]"] shuffle_recognisers [of ?vs "[0, 1, 2, 3]"]
    by simp
qed

end
