(* ===== verification/IREquality.thy ===== *)
theory IREquality
  imports IRFacts
begin

text \<open>
  The comparison of expressions and statements, \<open>IRComparer\<close> of \<open>IREquality.cpp\<close>. The class keeps
  the first decided result in the field \<open>result\<close>, and every comparison returns at once when it is
  decided: a sequence of comparisons is \<open>then_cmp\<close>. Handles of the same node compare equal at once
  in the source; here equal nodes are compared structurally, which gives the same result. The
  optional cache of pairs known to be equal is not modelled.
\<close>

subsection \<open>Scalars, names and types\<close>

definition compare_scalar :: "'a::linorder \<Rightarrow> 'a \<Rightarrow> cmp_result" where
  "compare_scalar a b = (if a < b then LessThan else if a > b then GreaterThan else Equal)"

text \<open>The operators \<open><\<close> and \<open>>\<close> on \<open>double\<close>: both are false when an operand is not a number.\<close>

fun dbl_key :: "dbl \<Rightarrow> int \<times> rat" where
  "dbl_key NInf = (-1, 0)"
| "dbl_key (Fin r) = (0, r)"
| "dbl_key NegZero = (0, 0)"
| "dbl_key PInf = (1, 0)"
| "dbl_key NaN = (0, 0)"

definition dbl_less :: "dbl \<Rightarrow> dbl \<Rightarrow> bool" where
  "dbl_less a b \<longleftrightarrow> a \<noteq> NaN \<and> b \<noteq> NaN \<and>
     (fst (dbl_key a) < fst (dbl_key b) \<or>
      fst (dbl_key a) = fst (dbl_key b) \<and> snd (dbl_key a) < snd (dbl_key b))"

definition compare_double :: "dbl \<Rightarrow> dbl \<Rightarrow> cmp_result" where
  "compare_double a b = (if dbl_less a b then LessThan else if dbl_less b a then GreaterThan else Equal)"

text \<open>\<open>std::string::compare\<close>: lexicographic on the bytes, a proper prefix is smaller.\<close>

fun compare_names :: "string \<Rightarrow> string \<Rightarrow> cmp_result" where
  "compare_names [] [] = Equal"
| "compare_names [] (d # ds) = LessThan"
| "compare_names (c # cs) [] = GreaterThan"
| "compare_names (c # cs) (d # ds) =
     then_cmp (compare_scalar (of_char c :: int) (of_char d)) (compare_names cs ds)"

text \<open>The loops over vectors of equal length.\<close>

fun compare_each :: "('a \<Rightarrow> 'a \<Rightarrow> cmp_result) \<Rightarrow> 'a list \<Rightarrow> 'a list \<Rightarrow> cmp_result" where
  "compare_each f (x # xs) (y # ys) = then_cmp (f x y) (compare_each f xs ys)"
| "compare_each f xs ys = Equal"

definition compare_enclosing :: "cpp_type_name \<Rightarrow> cpp_type_name \<Rightarrow> cmp_result" where
  "compare_enclosing a b =
     then_cmp (compare_scalar (cpp_type_type a) (cpp_type_type b))
              (compare_names (cpp_name a) (cpp_name b))"

definition compare_handle_info :: "handle_info \<Rightarrow> handle_info \<Rightarrow> cmp_result" where
  "compare_handle_info ha hb =
     then_cmp (compare_scalar (reference_type ha) (reference_type hb))
    (then_cmp (compare_names (cpp_name (inner_name ha)) (cpp_name (inner_name hb)))
    (then_cmp (compare_scalar (cpp_type_type (inner_name ha)) (cpp_type_type (inner_name hb)))
    (then_cmp (compare_scalar (length (namespaces ha)) (length (namespaces hb)))
    (then_cmp (compare_scalar (length (enclosing_types ha)) (length (enclosing_types hb)))
    (then_cmp (compare_scalar (length (cpp_type_modifiers ha)) (length (cpp_type_modifiers hb)))
    (then_cmp (compare_each compare_names (namespaces ha) (namespaces hb))
    (then_cmp (compare_each compare_enclosing (enclosing_types ha) (enclosing_types hb))
              (compare_each compare_scalar (cpp_type_modifiers ha) (cpp_type_modifiers hb))))))))) "

definition compare_handles :: "handle_ptr option \<Rightarrow> handle_ptr option \<Rightarrow> cmp_result" where
  "compare_handles ha hb =
     (if same_pointer ha hb then Equal
      else (case (ha, hb) of
          (None, _) \<Rightarrow> LessThan
        | (_, None) \<Rightarrow> GreaterThan
        | (Some p, Some q) \<Rightarrow> compare_handle_info (h_info p) (h_info q)))"

definition compare_types :: "htype \<Rightarrow> htype \<Rightarrow> cmp_result" where
  "compare_types a b =
     then_cmp (compare_scalar (code_rank (ty_code a)) (code_rank (ty_code b)))
    (then_cmp (compare_scalar (ty_bits a) (ty_bits b))
    (then_cmp (compare_scalar (ty_lanes a) (ty_lanes b))
              (compare_handles (ty_handle a) (ty_handle b))))"

subsection \<open>Expressions\<close>

text \<open>The position of a node's class in the enumeration \<open>IRNodeType\<close>.\<close>

fun binop_rank :: "binop \<Rightarrow> nat" where
  "binop_rank Add = 7" | "binop_rank Sub = 8" | "binop_rank Mod = 9" | "binop_rank Mul = 10"
| "binop_rank Div = 11" | "binop_rank MinOp = 12" | "binop_rank MaxOp = 13" | "binop_rank EQ = 14"
| "binop_rank NE = 15" | "binop_rank LT = 16" | "binop_rank LE = 17" | "binop_rank GT = 18"
| "binop_rank GE = 19" | "binop_rank AndOp = 20" | "binop_rank OrOp = 21"

fun node_type :: "expr \<Rightarrow> nat" where
  "node_type (IntImm t v) = 0"
| "node_type (UIntImm t v) = 1"
| "node_type (FloatImm t v) = 2"
| "node_type (StringImm t v) = 3"
| "node_type (Broadcast v l) = 4"
| "node_type (Cast t v) = 5"
| "node_type (Variable t n r) = 6"
| "node_type (Bin op a b) = binop_rank op"
| "node_type (NotE a) = 22"
| "node_type (Select c a b) = 23"
| "node_type (Load t n p i r al) = 24"
| "node_type (Ramp b s l) = 25"
| "node_type (Call t n as ct vi r) = 26"
| "node_type (LetE n v b) = 27"
| "node_type (Shuffle vs is) = 28"

fun call_type_rank :: "call_type \<Rightarrow> nat" where
  "call_type_rank Image = 0" | "call_type_rank Extern = 1" | "call_type_rank ExternCPlusPlus = 2"
| "call_type_rank PureExtern = 3" | "call_type_rank HalideCall = 4"
| "call_type_rank Intrinsic = 5" | "call_type_rank PureIntrinsic = 6"

text \<open>
  \<open>compare_expr\<close> decides on the class and the type of the nodes and then dispatches to the visit
  method; \<open>compare_expr_loop\<close> is the loop of \<open>compare_expr_vector\<close> after the sizes were found equal.
\<close>

function compare_expr :: "expr \<Rightarrow> expr \<Rightarrow> cmp_result"
  and visit_expr :: "expr \<Rightarrow> expr \<Rightarrow> cmp_result"
  and compare_expr_loop :: "expr list \<Rightarrow> expr list \<Rightarrow> cmp_result" where
  "compare_expr a b =
     then_cmp (compare_scalar (node_type a) (node_type b))
    (then_cmp (compare_types (type_of a) (type_of b)) (visit_expr a b))"
| "visit_expr (IntImm t v) op =
     (case op of IntImm t' v' \<Rightarrow> compare_scalar v v' | _ \<Rightarrow> Equal)"
| "visit_expr (UIntImm t v) op =
     (case op of UIntImm t' v' \<Rightarrow> compare_scalar v v' | _ \<Rightarrow> Equal)"
| "visit_expr (FloatImm t v) op =
     (case op of FloatImm t' v' \<Rightarrow> compare_double v v' | _ \<Rightarrow> Equal)"
| "visit_expr (StringImm t v) op =
     (case op of StringImm t' v' \<Rightarrow> compare_names v v' | _ \<Rightarrow> Equal)"
| "visit_expr (Broadcast v l) op =
     (case op of Broadcast v' l' \<Rightarrow> compare_expr v v' | _ \<Rightarrow> Equal)"
| "visit_expr (Cast t v) op =
     (case op of Cast t' v' \<Rightarrow> compare_expr v v' | _ \<Rightarrow> Equal)"
| "visit_expr (Variable t n r) op =
     (case op of Variable t' n' r' \<Rightarrow> compare_names n n' | _ \<Rightarrow> Equal)"
| "visit_expr (Bin bop a b) op =
     (case op of Bin bop' a' b' \<Rightarrow> then_cmp (compare_expr a a') (compare_expr b b') | _ \<Rightarrow> Equal)"
| "visit_expr (NotE a) op =
     (case op of NotE a' \<Rightarrow> compare_expr a a' | _ \<Rightarrow> Equal)"
| "visit_expr (Select c a b) op =
     (case op of Select c' a' b' \<Rightarrow>
        then_cmp (compare_expr c c') (then_cmp (compare_expr a a') (compare_expr b b'))
      | _ \<Rightarrow> Equal)"
| "visit_expr (Load t n p i r al) op =
     (case op of Load t' n' p' i' r' al' \<Rightarrow>
        then_cmp (compare_names n' n)
       (then_cmp (compare_expr p p')
       (then_cmp (compare_expr i i')
       (then_cmp (compare_scalar (mr_modulus al) (mr_modulus al'))
                 (compare_scalar (mr_remainder al) (mr_remainder al')))))
      | _ \<Rightarrow> Equal)"
| "visit_expr (Ramp b s l) op =
     (case op of Ramp b' s' l' \<Rightarrow> then_cmp (compare_expr b b') (compare_expr s s') | _ \<Rightarrow> Equal)"
| "visit_expr (Call t n as ct vi r) op =
     (case op of Call t' n' as' ct' vi' r' \<Rightarrow>
        then_cmp (compare_names n n')
       (then_cmp (compare_scalar (call_type_rank ct) (call_type_rank ct'))
       (then_cmp (compare_scalar vi vi')
       (then_cmp (compare_scalar (length as) (length as')) (compare_expr_loop as as'))))
      | _ \<Rightarrow> Equal)"
| "visit_expr (LetE n v b) op =
     (case op of LetE n' v' b' \<Rightarrow>
        then_cmp (compare_names n n') (then_cmp (compare_expr v v') (compare_expr b b'))
      | _ \<Rightarrow> Equal)"
| "visit_expr (Shuffle vs is) op =
     (case op of Shuffle vs' is' \<Rightarrow>
        then_cmp (then_cmp (compare_scalar (length vs) (length vs')) (compare_expr_loop vs vs'))
       (then_cmp (compare_scalar (length is) (length is')) (compare_each compare_scalar is is'))
      | _ \<Rightarrow> Equal)"
| "compare_expr_loop [] ys = Equal"
| "compare_expr_loop (x # xs) ys =
     (case ys of [] \<Rightarrow> Equal
      | y # ys' \<Rightarrow> then_cmp (compare_expr x y) (compare_expr_loop xs ys'))"
  by pat_completeness auto
termination
  by (relation "measure (\<lambda>x. case x of Inl (a, b) \<Rightarrow> 2 * size a + 1
      | Inr (Inl (a, b)) \<Rightarrow> 2 * size a | Inr (Inr (xs, ys)) \<Rightarrow> 2 * size_list size xs)") auto

definition compare_expr_vector :: "expr list \<Rightarrow> expr list \<Rightarrow> cmp_result" where
  "compare_expr_vector as bs =
     then_cmp (compare_scalar (length as) (length bs)) (compare_expr_loop as bs)"

text \<open>An undefined handle is less than a defined one.\<close>

fun compare_expr_opt :: "expr option \<Rightarrow> expr option \<Rightarrow> cmp_result" where
  "compare_expr_opt None None = Equal"
| "compare_expr_opt None (Some b) = LessThan"
| "compare_expr_opt (Some a) None = GreaterThan"
| "compare_expr_opt (Some a) (Some b) = compare_expr a b"

subsection \<open>Statements\<close>

fun stmt_node_type :: "stmt \<Rightarrow> nat" where
  "stmt_node_type (LetStmt n v b) = 29"
| "stmt_node_type (AssertStmt c m) = 30"
| "stmt_node_type (ProducerConsumer n p b) = 31"
| "stmt_node_type (For n m e f d b) = 32"
| "stmt_node_type (Acquire s c b) = 33"
| "stmt_node_type (Store n p v i r a) = 34"
| "stmt_node_type (Provide n vs as) = 35"
| "stmt_node_type (Allocate n t m es c ne ff b) = 36"
| "stmt_node_type (Free n) = 37"
| "stmt_node_type (Realize n ts m bs c b) = 38"
| "stmt_node_type (Block f r) = 39"
| "stmt_node_type (Fork f r) = 40"
| "stmt_node_type (IfThenElse c t e) = 41"
| "stmt_node_type (Evaluate v) = 42"
| "stmt_node_type (Prefetch n ts bs p c b) = 43"

fun for_type_rank :: "for_type \<Rightarrow> nat" where
  "for_type_rank Serial = 0" | "for_type_rank Parallel = 1" | "for_type_rank Vectorized = 2"
| "for_type_rank Unrolled = 3" | "for_type_rank ExternLoop = 4" | "for_type_rank GPUBlock = 5"
| "for_type_rank GPUThread = 6" | "for_type_rank GPULane = 7"
| "for_type_rank PrepareForSoftwarePipelining = 8"

definition compare_range :: "range \<Rightarrow> range \<Rightarrow> cmp_result" where
  "compare_range a b =
     then_cmp (compare_expr (range_min a) (range_min b))
              (compare_expr (range_extent a) (range_extent b))"

definition compare_alignment :: "modulus_remainder \<Rightarrow> modulus_remainder \<Rightarrow> cmp_result" where
  "compare_alignment a b =
     then_cmp (compare_scalar (mr_modulus a) (mr_modulus b))
              (compare_scalar (mr_remainder a) (mr_remainder b))"

text \<open>The part of \<open>visit\<close> that \<open>Realize\<close> and \<open>Prefetch\<close> have in common.\<close>

definition compare_region ::
  "string \<Rightarrow> htype list \<Rightarrow> region \<Rightarrow> string \<Rightarrow> htype list \<Rightarrow> region \<Rightarrow> cmp_result" where
  "compare_region n ts bs n' ts' bs' =
     then_cmp (compare_names n n')
    (then_cmp (compare_scalar (length ts) (length ts'))
    (then_cmp (compare_scalar (length bs) (length bs'))
    (then_cmp (compare_each compare_types ts ts')
              (compare_each compare_range bs bs'))))"

function compare_stmt :: "stmt \<Rightarrow> stmt \<Rightarrow> cmp_result"
  and visit_stmt :: "stmt \<Rightarrow> stmt \<Rightarrow> cmp_result" where
  "compare_stmt a b =
     then_cmp (compare_scalar (stmt_node_type a) (stmt_node_type b)) (visit_stmt a b)"
| "visit_stmt (LetStmt n v b) op =
     (case op of LetStmt n' v' b' \<Rightarrow>
        then_cmp (compare_names n n') (then_cmp (compare_expr v v') (compare_stmt b b'))
      | _ \<Rightarrow> Equal)"
| "visit_stmt (AssertStmt c m) op =
     (case op of AssertStmt c' m' \<Rightarrow> then_cmp (compare_expr c c') (compare_expr m m') | _ \<Rightarrow> Equal)"
| "visit_stmt (ProducerConsumer n p b) op =
     (case op of ProducerConsumer n' p' b' \<Rightarrow>
        then_cmp (compare_names n n') (then_cmp (compare_scalar p p') (compare_stmt b b'))
      | _ \<Rightarrow> Equal)"
| "visit_stmt (For n m e f d b) op =
     (case op of For n' m' e' f' d' b' \<Rightarrow>
        then_cmp (compare_names n n')
       (then_cmp (compare_scalar (for_type_rank f) (for_type_rank f'))
       (then_cmp (compare_expr m m') (then_cmp (compare_expr e e') (compare_stmt b b'))))
      | _ \<Rightarrow> Equal)"
| "visit_stmt (Acquire s c b) op =
     (case op of Acquire s' c' b' \<Rightarrow>
        then_cmp (compare_expr s s') (then_cmp (compare_expr_opt c c') (compare_stmt b b'))
      | _ \<Rightarrow> Equal)"
| "visit_stmt (Store n p v i r a) op =
     (case op of Store n' p' v' i' r' a' \<Rightarrow>
        then_cmp (compare_names n n')
       (then_cmp (compare_expr p p')
       (then_cmp (compare_expr v v') (then_cmp (compare_expr i i') (compare_alignment a a'))))
      | _ \<Rightarrow> Equal)"
| "visit_stmt (Provide n vs as) op =
     (case op of Provide n' vs' as' \<Rightarrow>
        then_cmp (compare_names n n')
       (then_cmp (compare_expr_vector as as') (compare_expr_vector vs vs'))
      | _ \<Rightarrow> Equal)"
| "visit_stmt (Allocate n t m es c ne ff b) op =
     (case op of Allocate n' t' m' es' c' ne' ff' b' \<Rightarrow>
        then_cmp (compare_names n n')
       (then_cmp (compare_expr_vector es es')
       (then_cmp (compare_stmt b b')
       (then_cmp (compare_expr c c')
       (then_cmp (compare_expr_opt ne ne') (compare_names ff ff')))))
      | _ \<Rightarrow> Equal)"
| "visit_stmt (Free n) op = (case op of Free n' \<Rightarrow> compare_names n n' | _ \<Rightarrow> Equal)"
| "visit_stmt (Realize n ts m bs c b) op =
     (case op of Realize n' ts' m' bs' c' b' \<Rightarrow>
        then_cmp (compare_region n ts bs n' ts' bs')
       (then_cmp (compare_stmt b b') (compare_expr c c'))
      | _ \<Rightarrow> Equal)"
| "visit_stmt (Block f r) op =
     (case op of Block f' r' \<Rightarrow> then_cmp (compare_stmt f f') (compare_stmt r r') | _ \<Rightarrow> Equal)"
| "visit_stmt (Fork f r) op =
     (case op of Fork f' r' \<Rightarrow> then_cmp (compare_stmt f f') (compare_stmt r r') | _ \<Rightarrow> Equal)"
| "visit_stmt (IfThenElse c t e) op =
     (case op of IfThenElse c' t' e' \<Rightarrow>
        then_cmp (compare_expr c c')
       (then_cmp (compare_stmt t t')
        (case e of
           None \<Rightarrow> (case e' of None \<Rightarrow> Equal | Some s' \<Rightarrow> LessThan)
         | Some s \<Rightarrow> (case e' of None \<Rightarrow> GreaterThan | Some s' \<Rightarrow> compare_stmt s s')))
      | _ \<Rightarrow> Equal)"
| "visit_stmt (Evaluate v) op = (case op of Evaluate v' \<Rightarrow> compare_expr v v' | _ \<Rightarrow> Equal)"
| "visit_stmt (Prefetch n ts bs p c b) op =
     (case op of Prefetch n' ts' bs' p' c' b' \<Rightarrow>
        then_cmp (compare_region n ts bs n' ts' bs')
       (then_cmp (compare_expr c c') (compare_stmt b b'))
      | _ \<Rightarrow> Equal)"
  by pat_completeness auto
termination
  by (relation "measure (\<lambda>x. case x of Inl (a, b) \<Rightarrow> 2 * size a + 1 | Inr (a, b) \<Rightarrow> 2 * size a)") auto

subsection \<open>The interface\<close>

definition equal_expr :: "expr \<Rightarrow> expr \<Rightarrow> bool" where
  "equal_expr a b \<longleftrightarrow> compare_expr a b = Equal"

definition equal_stmt :: "stmt \<Rightarrow> stmt \<Rightarrow> bool" where
  "equal_stmt a b \<longleftrightarrow> compare_stmt a b = Equal"

text \<open>\<open>IRDeepCompare\<close>, the order of the ordered containers keyed by expressions or statements.\<close>

definition deep_compare_expr :: "expr \<Rightarrow> expr \<Rightarrow> bool" where
  "deep_compare_expr a b \<longleftrightarrow> compare_expr a b = LessThan"

definition deep_compare_stmt :: "stmt \<Rightarrow> stmt \<Rightarrow> bool" where
  "deep_compare_stmt a b \<longleftrightarrow> compare_stmt a b = LessThan"

end
