(* ===== verification/IREqualityFacts.thy ===== *)
theory IREqualityFacts
  imports IREquality
begin

text \<open>
  The comparison of expressions and statements is a total preorder on nodes without NaN constants.
  The proof encodes a node as a sequence of tokens and shows that the comparer compares the
  encodings lexicographically; the order laws then hold once for token sequences.
\<close>

subsection \<open>Token sequences\<close>

type_synonym tok = "int \<times> rat"

definition compare_tok :: "tok \<Rightarrow> tok \<Rightarrow> cmp_result" where
  "compare_tok a b = then_cmp (compare_scalar (fst a) (fst b)) (compare_scalar (snd a) (snd b))"

fun lex_tok :: "tok list \<Rightarrow> tok list \<Rightarrow> cmp_result" where
  "lex_tok [] [] = Equal"
| "lex_tok [] (y # ys) = LessThan"
| "lex_tok (x # xs) [] = GreaterThan"
| "lex_tok (x # xs) (y # ys) = then_cmp (compare_tok x y) (lex_tok xs ys)"

definition itok :: "int \<Rightarrow> tok" where
  "itok i = (0, of_int i)"

abbreviation ntok :: "nat \<Rightarrow> tok" where
  "ntok n \<equiv> itok (int n)"

lemma compare_scalar_iff [simp]:
  "compare_scalar a b = Equal \<longleftrightarrow> a = b" "compare_scalar a b = LessThan \<longleftrightarrow> a < b"
  "compare_scalar a b = GreaterThan \<longleftrightarrow> a > b" "compare_scalar a a = Equal"
  by (auto simp: compare_scalar_def)

lemma flip_compare_scalar: "flip_result (compare_scalar a b) = compare_scalar b a"
  by (auto simp: compare_scalar_def)

lemma compare_tok_Equal [simp]: "compare_tok a b = Equal \<longleftrightarrow> a = b"
  by (auto simp: compare_tok_def prod_eq_iff)

lemma compare_tok_flip: "flip_result (compare_tok a b) = compare_tok b a"
  by (simp add: compare_tok_def flip_then_cmp flip_compare_scalar)

lemma compare_tok_trans:
  "compare_tok a b = LessThan \<Longrightarrow> compare_tok b c = LessThan \<Longrightarrow> compare_tok a c = LessThan"
  by (auto simp: compare_tok_def then_cmp_LessThan)

lemma lex_Equal [simp]: "lex_tok a b = Equal \<longleftrightarrow> a = b"
  by (induction a b rule: lex_tok.induct) auto

lemma lex_refl [simp]: "lex_tok a a = Equal"
  by simp

lemma lex_flip: "flip_result (lex_tok a b) = lex_tok b a"
  by (induction a b rule: lex_tok.induct) (auto simp: flip_then_cmp compare_tok_flip)

lemma lex_trans: "lex_tok a b = LessThan \<Longrightarrow> lex_tok b c = LessThan \<Longrightarrow> lex_tok a c = LessThan"
proof (induction a b arbitrary: c rule: lex_tok.induct)
  case (2 y ys)
  then show ?case by (cases c) auto
next
  case (4 x xs y ys)
  then show ?case by (cases c) (auto simp: then_cmp_LessThan dest: compare_tok_trans)
qed auto

text \<open>A comparison that is the lexicographic comparison of an encoding obeys the contract.\<close>

lemma three_way_encoding:
  assumes "\<And>x y. d x \<Longrightarrow> d y \<Longrightarrow> c x y = lex_tok (e x) (e y)"
  shows "three_way d c"
  by unfold_locales (use assms lex_flip lex_trans in \<open>auto simp: lex_flip\<close>)

subsection \<open>Encodings of the parts\<close>

lemma then_cmp_assoc: "then_cmp (then_cmp r s) t = then_cmp r (then_cmp s t)"
  by (simp add: then_cmp_def)

lemma then_cmp_cong [cong]:
  "r = r' \<Longrightarrow> (r' = Equal \<Longrightarrow> s = s') \<Longrightarrow> then_cmp r s = then_cmp r' s'"
  by (simp add: then_cmp_def)

named_theorems enc_simps

lemma lex_itok [enc_simps]:
  "lex_tok (itok i # xs) (itok j # ys) = then_cmp (compare_scalar i j) (lex_tok xs ys)"
  by (simp add: itok_def compare_tok_def compare_scalar_def)

lemma compare_scalar_int [enc_simps]: "compare_scalar (int m) (int n) = compare_scalar m n"
  by (simp add: compare_scalar_def)

definition enc_name :: "string \<Rightarrow> tok list" where
  "enc_name s = map (\<lambda>c. itok (of_char c + 1)) s @ [itok 0]"

text \<open>\<open>Load\<close> compares its names the other way round.\<close>

definition enc_name_rev :: "string \<Rightarrow> tok list" where
  "enc_name_rev s = map (\<lambda>c. itok (- of_char c - 1)) s @ [itok 0]"

lemma of_char_ge: "(0::int) \<le> of_char c"
  by (simp add: of_char_def horner_sum_nonnegative)

lemma char_rank_simps:
  "compare_scalar 0 (of_char d + 1 :: int) = LessThan" "compare_scalar (of_char d + 1 :: int) 0 = GreaterThan"
  "compare_scalar 0 (- of_char d - 1 :: int) = GreaterThan" "compare_scalar (- of_char d - 1 :: int) 0 = LessThan"
  "compare_scalar (of_char c + 1 :: int) (of_char d + 1) = compare_scalar (of_char c :: int) (of_char d)"
  "compare_scalar (- of_char c - 1 :: int) (- of_char d - 1) = compare_scalar (of_char d :: int) (of_char c)"
  using of_char_ge [of d] of_char_ge [of c] by (auto simp: compare_scalar_def)

lemma lex_name [enc_simps]:
  "lex_tok (enc_name a @ xs) (enc_name b @ ys) = then_cmp (compare_names a b) (lex_tok xs ys)"
  by (induction a b rule: compare_names.induct)
    (simp_all add: enc_name_def lex_itok char_rank_simps then_cmp_assoc del: lex_tok.simps)

lemma compare_names_flip: "flip_result (compare_names a b) = compare_names b a"
  by (induction a b rule: compare_names.induct) (simp_all add: flip_then_cmp flip_compare_scalar)

lemma lex_name_rev [enc_simps]:
  "lex_tok (enc_name_rev a @ xs) (enc_name_rev b @ ys) = then_cmp (compare_names b a) (lex_tok xs ys)"
  by (induction a b rule: compare_names.induct)
    (simp_all add: enc_name_rev_def lex_itok char_rank_simps then_cmp_assoc del: lex_tok.simps)

lemma lex_double:
  assumes "a \<noteq> NaN" and "b \<noteq> NaN"
  shows "lex_tok (dbl_key a # xs) (dbl_key b # ys) = then_cmp (compare_double a b) (lex_tok xs ys)"
  using assms
  by (auto simp: compare_tok_def compare_scalar_def compare_double_def dbl_less_def then_cmp_def)

text \<open>A loop over two vectors of the same length.\<close>

lemma lex_each:
  assumes "length as = length bs"
    and "\<And>a b xs ys. a \<in> set as \<Longrightarrow> b \<in> set bs \<Longrightarrow>
      lex_tok (e a @ xs) (e b @ ys) = then_cmp (f a b) (lex_tok xs ys)"
  shows "lex_tok (concat (map e as) @ xs) (concat (map e bs) @ ys) =
    then_cmp (compare_each f as bs) (lex_tok xs ys)"
  using assms by (induction as bs rule: list_induct2) (simp_all add: then_cmp_assoc)

definition enc_vector :: "('a \<Rightarrow> tok list) \<Rightarrow> 'a list \<Rightarrow> tok list" where
  "enc_vector e xs = ntok (length xs) # concat (map e xs)"

definition enc_enclosing :: "cpp_type_name \<Rightarrow> tok list" where
  "enc_enclosing n = ntok (cpp_type_type n) # enc_name (cpp_name n)"

lemma lex_enclosing:
  "lex_tok (enc_enclosing a @ xs) (enc_enclosing b @ ys) =
     then_cmp (compare_enclosing a b) (lex_tok xs ys)"
  by (simp add: enc_enclosing_def compare_enclosing_def enc_simps then_cmp_assoc del: lex_tok.simps)

definition enc_info :: "handle_info \<Rightarrow> tok list" where
  "enc_info h = ntok (reference_type h) # enc_name (cpp_name (inner_name h))
     @ ntok (cpp_type_type (inner_name h)) # ntok (length (namespaces h))
     # ntok (length (enclosing_types h)) # ntok (length (cpp_type_modifiers h))
     # concat (map enc_name (namespaces h)) @ concat (map enc_enclosing (enclosing_types h))
     @ map ntok (cpp_type_modifiers h)"

lemma lex_ints:
  assumes "length as = length bs"
  shows "lex_tok (map itok as @ xs) (map itok bs @ ys) =
    then_cmp (compare_each compare_scalar as bs) (lex_tok xs ys)"
  using assms
  by (induction as bs rule: list_induct2)
    (simp_all add: lex_itok then_cmp_assoc del: lex_tok.simps(4))

lemma lex_nats:
  assumes "length as = length bs"
  shows "lex_tok (map ntok as @ xs) (map ntok bs @ ys) =
    then_cmp (compare_each compare_scalar as bs) (lex_tok xs ys)"
  using assms
  by (induction as bs rule: list_induct2)
    (simp_all add: enc_simps then_cmp_assoc del: lex_tok.simps(4))

text \<open>The loops run only when the sizes were found equal.\<close>

abbreviation same_size :: "'a list \<Rightarrow> 'b list \<Rightarrow> bool" where
  "same_size as bs \<equiv> compare_scalar (length as) (length bs) = Equal"

lemma lex_sized:
  "same_size as bs \<Longrightarrow> lex_tok (map itok as @ xs) (map itok bs @ ys) =
     then_cmp (compare_each compare_scalar as bs) (lex_tok xs ys)"
  "same_size cs ds \<Longrightarrow> lex_tok (map ntok cs @ xs) (map ntok ds @ ys) =
     then_cmp (compare_each compare_scalar cs ds) (lex_tok xs ys)"
  "same_size ns ms \<Longrightarrow> lex_tok (concat (map enc_name ns) @ xs) (concat (map enc_name ms) @ ys) =
     then_cmp (compare_each compare_names ns ms) (lex_tok xs ys)"
  "same_size es fs \<Longrightarrow>
     lex_tok (concat (map enc_enclosing es) @ xs) (concat (map enc_enclosing fs) @ ys) =
     then_cmp (compare_each compare_enclosing es fs) (lex_tok xs ys)"
  by (simp_all add: lex_ints lex_nats lex_each lex_name lex_enclosing)

lemmas enc_rules = enc_simps lex_sized then_cmp_assoc

lemma lex_info:
  "lex_tok (enc_info a @ xs) (enc_info b @ ys) =
     then_cmp (compare_handle_info a b) (lex_tok xs ys)"
  unfolding enc_info_def compare_handle_info_def
  by (simp add: enc_rules del: lex_tok.simps compare_scalar_iff(1))

text \<open>
  Two descriptors that point to the same type information must see the same structure: the
  pointers of an expression are read in one memory.
\<close>

type_synonym type_memory = "nat \<Rightarrow> handle_info"

definition ok_handle :: "type_memory \<Rightarrow> handle_ptr option \<Rightarrow> bool" where
  "ok_handle M h \<longleftrightarrow> (case h of None \<Rightarrow> True | Some p \<Rightarrow> h_info p = M (h_addr p))"

definition ok_type :: "type_memory \<Rightarrow> htype \<Rightarrow> bool" where
  "ok_type M t \<longleftrightarrow> ok_handle M (ty_handle t)"

fun enc_handle :: "handle_ptr option \<Rightarrow> tok list" where
  "enc_handle None = [ntok 0]"
| "enc_handle (Some p) = ntok 1 # enc_info (h_info p)"

lemma compare_handle_info_same: "compare_handle_info i i = Equal"
  using lex_info [of i "[]" i "[]"] by simp

lemma lex_handle:
  assumes "ok_handle M a" and "ok_handle M b"
  shows "lex_tok (enc_handle a @ xs) (enc_handle b @ ys) =
    then_cmp (compare_handles a b) (lex_tok xs ys)"
proof (cases a; cases b)
  fix p q assume ab: "a = Some p" "b = Some q"
  show ?thesis
  proof (cases "h_addr p = h_addr q")
    case True
    then have "h_info p = h_info q" using assms ab by (simp add: ok_handle_def)
    then show ?thesis using ab True
      by (simp add: compare_handles_def same_pointer_def enc_simps lex_info
          compare_handle_info_same del: lex_tok.simps)
  next
    case False
    then show ?thesis using ab
      by (simp add: compare_handles_def same_pointer_def enc_simps lex_info del: lex_tok.simps)
  qed
qed (simp_all add: compare_handles_def same_pointer_def enc_simps compare_scalar_def del: lex_tok.simps)

definition enc_type :: "htype \<Rightarrow> tok list" where
  "enc_type t = ntok (code_rank (ty_code t)) # ntok (ty_bits t) # ntok (ty_lanes t)
     # enc_handle (ty_handle t)"

lemma lex_type:
  assumes "ok_type M a" and "ok_type M b"
  shows "lex_tok (enc_type a @ xs) (enc_type b @ ys) = then_cmp (compare_types a b) (lex_tok xs ys)"
  using lex_handle assms unfolding ok_type_def
  by (simp add: enc_type_def compare_types_def enc_simps then_cmp_assoc del: lex_tok.simps)

subsection \<open>Expressions\<close>

fun ok_expr :: "type_memory \<Rightarrow> expr \<Rightarrow> bool" where
  "ok_expr M (FloatImm t v) \<longleftrightarrow> ok_type M t \<and> v \<noteq> NaN"
| "ok_expr M (Broadcast v l) \<longleftrightarrow> ok_expr M v"
| "ok_expr M (Cast t v) \<longleftrightarrow> ok_type M t \<and> ok_expr M v"
| "ok_expr M (Bin op a b) \<longleftrightarrow> ok_expr M a \<and> ok_expr M b"
| "ok_expr M (NotE a) \<longleftrightarrow> ok_expr M a"
| "ok_expr M (Select c a b) \<longleftrightarrow> ok_expr M c \<and> ok_expr M a \<and> ok_expr M b"
| "ok_expr M (Load t n p i r al) \<longleftrightarrow> ok_type M t \<and> ok_expr M p \<and> ok_expr M i"
| "ok_expr M (Ramp b s l) \<longleftrightarrow> ok_expr M b \<and> ok_expr M s"
| "ok_expr M (Call t n as ct vi r) \<longleftrightarrow> ok_type M t \<and> list_all (ok_expr M) as"
| "ok_expr M (LetE n v b) \<longleftrightarrow> ok_expr M v \<and> ok_expr M b"
| "ok_expr M (Shuffle vs is) \<longleftrightarrow> list_all (ok_expr M) vs"
| "ok_expr M (IntImm t v) \<longleftrightarrow> ok_type M t"
| "ok_expr M (UIntImm t v) \<longleftrightarrow> ok_type M t"
| "ok_expr M (StringImm t v) \<longleftrightarrow> ok_type M t"
| "ok_expr M (Variable t n r) \<longleftrightarrow> ok_type M t"

lemma ok_type_simps [simp]: "ok_type M (with_lanes t l) = ok_type M t" "ok_type M (Bool_type l)"
  "ok_type M (Handle_type l None)" "ok_type M (element_of t) = ok_type M t"
  by (simp_all add: ok_type_def ok_handle_def Bool_type_def UInt_type_def Handle_type_def
      element_of_def)

lemma ok_type_of: "ok_expr M e \<Longrightarrow> ok_type M (type_of e)"
  by (induction e rule: type_of.induct) (auto simp: bin_type_def split: list.splits)

fun enc_expr :: "expr \<Rightarrow> tok list" and enc_fields :: "expr \<Rightarrow> tok list" where
  "enc_expr e = ntok (node_type e) # enc_type (type_of e) @ enc_fields e"
| "enc_fields (IntImm t v) = [itok v]"
| "enc_fields (UIntImm t v) = [itok v]"
| "enc_fields (FloatImm t v) = [dbl_key v]"
| "enc_fields (StringImm t v) = enc_name v"
| "enc_fields (Broadcast v l) = enc_expr v"
| "enc_fields (Cast t v) = enc_expr v"
| "enc_fields (Variable t n r) = enc_name n"
| "enc_fields (Bin op a b) = enc_expr a @ enc_expr b"
| "enc_fields (NotE a) = enc_expr a"
| "enc_fields (Select c a b) = enc_expr c @ enc_expr a @ enc_expr b"
| "enc_fields (Load t n p i r al) =
     enc_name_rev n @ enc_expr p @ enc_expr i @ [itok (mr_modulus al), itok (mr_remainder al)]"
| "enc_fields (Ramp b s l) = enc_expr b @ enc_expr s"
| "enc_fields (Call t n as ct vi r) =
     enc_name n @ ntok (call_type_rank ct) # itok vi # ntok (length as) # concat (map enc_expr as)"
| "enc_fields (LetE n v b) = enc_name n @ enc_expr v @ enc_expr b"
| "enc_fields (Shuffle vs is) =
     ntok (length vs) # concat (map enc_expr vs) @ ntok (length is) # map itok is"

lemma binop_rank_range: "7 \<le> binop_rank op \<and> binop_rank op \<le> 21"
  by (cases op) auto

lemma binop_rank_neq [simp]:
  "binop_rank op \<noteq> 0" "binop_rank op \<noteq> Suc 0" "binop_rank op \<noteq> 2" "binop_rank op \<noteq> 3"
  "binop_rank op \<noteq> 4" "binop_rank op \<noteq> 5" "binop_rank op \<noteq> 6" "binop_rank op \<noteq> 22"
  "binop_rank op \<noteq> 23" "binop_rank op \<noteq> 24" "binop_rank op \<noteq> 25" "binop_rank op \<noteq> 26"
  "binop_rank op \<noteq> 27" "binop_rank op \<noteq> 28"
  using binop_rank_range [of op] by auto

lemmas binop_rank_neq_sym [simp] = binop_rank_neq [symmetric]

lemma binop_rank_inj [simp]: "binop_rank a = binop_rank b \<longleftrightarrow> a = b"
  by (cases a; cases b) auto

lemma node_type_iff [simp]:
  "node_type e = 0 \<longleftrightarrow> (\<exists>t v. e = IntImm t v)"
  "node_type e = Suc 0 \<longleftrightarrow> (\<exists>t v. e = UIntImm t v)"
  "node_type e = 2 \<longleftrightarrow> (\<exists>t v. e = FloatImm t v)"
  "node_type e = 3 \<longleftrightarrow> (\<exists>t v. e = StringImm t v)"
  "node_type e = 4 \<longleftrightarrow> (\<exists>v l. e = Broadcast v l)"
  "node_type e = 5 \<longleftrightarrow> (\<exists>t v. e = Cast t v)"
  "node_type e = 6 \<longleftrightarrow> (\<exists>t n r. e = Variable t n r)"
  "node_type e = binop_rank bop \<longleftrightarrow> (\<exists>a b. e = Bin bop a b)"
  "node_type e = 22 \<longleftrightarrow> (\<exists>a. e = NotE a)"
  "node_type e = 23 \<longleftrightarrow> (\<exists>c a b. e = Select c a b)"
  "node_type e = 24 \<longleftrightarrow> (\<exists>t n p i r al. e = Load t n p i r al)"
  "node_type e = 25 \<longleftrightarrow> (\<exists>b s l. e = Ramp b s l)"
  "node_type e = 26 \<longleftrightarrow> (\<exists>t n as ct vi r. e = Call t n as ct vi r)"
  "node_type e = 27 \<longleftrightarrow> (\<exists>n v b. e = LetE n v b)"
  "node_type e = 28 \<longleftrightarrow> (\<exists>vs is. e = Shuffle vs is)"
  by (cases e; simp; fail)+

lemmas node_type_iff_sym [simp] = node_type_iff [unfolded eq_commute [of "node_type _"]]

declare compare_expr.simps [simp del] enc_expr.simps [simp del]

lemma lex_expr_induct:
  "ok_expr M a \<Longrightarrow> ok_expr M b \<Longrightarrow>
     lex_tok (enc_expr a @ us) (enc_expr b @ vs) = then_cmp (compare_expr a b) (lex_tok us vs)"
  "ok_expr M a \<Longrightarrow> ok_expr M b \<Longrightarrow> node_type a = node_type b \<Longrightarrow>
     lex_tok (enc_fields a @ us) (enc_fields b @ vs) = then_cmp (visit_expr a b) (lex_tok us vs)"
  "list_all (ok_expr M) as \<Longrightarrow> list_all (ok_expr M) bs \<Longrightarrow> same_size as bs \<Longrightarrow>
     lex_tok (concat (map enc_expr as) @ us) (concat (map enc_expr bs) @ vs) =
       then_cmp (compare_expr_loop as bs) (lex_tok us vs)"
proof (induction a b and a b and as bs arbitrary: us vs and us vs and us vs
    rule: compare_expr_visit_expr_compare_expr_loop.induct)
  case (1 a b)
  show ?case
  proof (cases "node_type a = node_type b")
    case True
    show ?thesis using 1 True lex_type [OF ok_type_of [OF 1(2)] ok_type_of [OF 1(3)]]
      by (cases "compare_types (type_of a) (type_of b)")
        (simp_all add: compare_expr.simps enc_expr.simps enc_simps del: lex_tok.simps)
  next
    case False
    then have "compare_scalar (node_type a) (node_type b) \<noteq> Equal" by simp
    then show ?thesis
      by (simp add: compare_expr.simps enc_expr.simps enc_simps then_cmp_def del: lex_tok.simps)
  qed
next
  case (4 t v op)
  then show ?case by (cases op) (simp_all add: lex_double del: lex_tok.simps)
next
  case (14 t n as ct vi r op)
  then show ?case
    by (cases op)
      (simp_all add: enc_rules del: lex_tok.simps compare_scalar_iff(1))
next
  case (16 vs' "is" op)
  then show ?case
    by (cases op)
      (simp_all add: enc_rules del: lex_tok.simps compare_scalar_iff(1))
next
  case (18 x xs ys)
  then show ?case by (cases ys) (simp_all add: then_cmp_assoc)
qed (auto simp: enc_simps then_cmp_assoc simp del: lex_tok.simps)

lemmas lex_expr = lex_expr_induct(1)

lemma compare_expr_lex:
  "ok_expr M a \<Longrightarrow> ok_expr M b \<Longrightarrow> compare_expr a b = lex_tok (enc_expr a) (enc_expr b)"
  using lex_expr [of M a b "[]" "[]"] by simp

interpretation expr_order: three_way "ok_expr M" compare_expr for M
  by (rule three_way_encoding [OF compare_expr_lex])

subsection \<open>Statements\<close>

definition ok_region :: "type_memory \<Rightarrow> htype list \<Rightarrow> region \<Rightarrow> bool" where
  "ok_region M ts bs \<longleftrightarrow> list_all (ok_type M) ts \<and>
     list_all (\<lambda>r. ok_expr M (range_min r) \<and> ok_expr M (range_extent r)) bs"

fun ok_stmt :: "type_memory \<Rightarrow> stmt \<Rightarrow> bool" where
  "ok_stmt M (LetStmt n v b) \<longleftrightarrow> ok_expr M v \<and> ok_stmt M b"
| "ok_stmt M (AssertStmt c m) \<longleftrightarrow> ok_expr M c \<and> ok_expr M m"
| "ok_stmt M (ProducerConsumer n p b) \<longleftrightarrow> ok_stmt M b"
| "ok_stmt M (For n m e f d b) \<longleftrightarrow> ok_expr M m \<and> ok_expr M e \<and> ok_stmt M b"
| "ok_stmt M (Acquire s c b) \<longleftrightarrow> ok_expr M s \<and> pred_option (ok_expr M) c \<and> ok_stmt M b"
| "ok_stmt M (Store n p v i r a) \<longleftrightarrow> ok_expr M p \<and> ok_expr M v \<and> ok_expr M i"
| "ok_stmt M (Provide n vs as) \<longleftrightarrow> list_all (ok_expr M) vs \<and> list_all (ok_expr M) as"
| "ok_stmt M (Allocate n t m es c ne ff b) \<longleftrightarrow> list_all (ok_expr M) es \<and> ok_expr M c \<and>
     pred_option (ok_expr M) ne \<and> ok_stmt M b"
| "ok_stmt M (Free n) \<longleftrightarrow> True"
| "ok_stmt M (Realize n ts m bs c b) \<longleftrightarrow> ok_region M ts bs \<and> ok_expr M c \<and> ok_stmt M b"
| "ok_stmt M (Block f r) \<longleftrightarrow> ok_stmt M f \<and> ok_stmt M r"
| "ok_stmt M (Fork f r) \<longleftrightarrow> ok_stmt M f \<and> ok_stmt M r"
| "ok_stmt M (IfThenElse c t e) \<longleftrightarrow> ok_expr M c \<and> ok_stmt M t \<and>
     (case e of None \<Rightarrow> True | Some s \<Rightarrow> ok_stmt M s)"
| "ok_stmt M (Evaluate v) \<longleftrightarrow> ok_expr M v"
| "ok_stmt M (Prefetch n ts bs p c b) \<longleftrightarrow> ok_region M ts bs \<and> ok_expr M c \<and> ok_stmt M b"

definition enc_exprs :: "expr list \<Rightarrow> tok list" where
  "enc_exprs as = ntok (length as) # concat (map enc_expr as)"

fun enc_expr_opt :: "expr option \<Rightarrow> tok list" where
  "enc_expr_opt None = [ntok 0]"
| "enc_expr_opt (Some e) = ntok 1 # enc_expr e"

definition enc_range :: "range \<Rightarrow> tok list" where
  "enc_range r = enc_expr (range_min r) @ enc_expr (range_extent r)"

definition enc_region :: "string \<Rightarrow> htype list \<Rightarrow> region \<Rightarrow> tok list" where
  "enc_region n ts bs = enc_name n @ ntok (length ts) # ntok (length bs)
     # concat (map enc_type ts) @ concat (map enc_range bs)"

fun enc_stmt :: "stmt \<Rightarrow> tok list" where
  "enc_stmt (LetStmt n v b) = ntok 29 # enc_name n @ enc_expr v @ enc_stmt b"
| "enc_stmt (AssertStmt c m) = ntok 30 # enc_expr c @ enc_expr m"
| "enc_stmt (ProducerConsumer n p b) = ntok 31 # enc_name n @ ntok (of_bool p) # enc_stmt b"
| "enc_stmt (For n m e f d b) =
     ntok 32 # enc_name n @ ntok (for_type_rank f) # enc_expr m @ enc_expr e @ enc_stmt b"
| "enc_stmt (Acquire s c b) = ntok 33 # enc_expr s @ enc_expr_opt c @ enc_stmt b"
| "enc_stmt (Store n p v i r a) = ntok 34 # enc_name n @ enc_expr p @ enc_expr v @ enc_expr i
     @ [itok (mr_modulus a), itok (mr_remainder a)]"
| "enc_stmt (Provide n vs as) = ntok 35 # enc_name n @ enc_exprs as @ enc_exprs vs"
| "enc_stmt (Allocate n t m es c ne ff b) = ntok 36 # enc_name n @ enc_exprs es @ enc_stmt b
     @ enc_expr c @ enc_expr_opt ne @ enc_name ff"
| "enc_stmt (Free n) = ntok 37 # enc_name n"
| "enc_stmt (Realize n ts m bs c b) = ntok 38 # enc_region n ts bs @ enc_stmt b @ enc_expr c"
| "enc_stmt (Block f r) = ntok 39 # enc_stmt f @ enc_stmt r"
| "enc_stmt (Fork f r) = ntok 40 # enc_stmt f @ enc_stmt r"
| "enc_stmt (IfThenElse c t e) = ntok 41 # enc_expr c @ enc_stmt t
     @ (case e of None \<Rightarrow> [ntok 0] | Some s \<Rightarrow> ntok 1 # enc_stmt s)"
| "enc_stmt (Evaluate v) = ntok 42 # enc_expr v"
| "enc_stmt (Prefetch n ts bs p c b) = ntok 43 # enc_region n ts bs @ enc_expr c @ enc_stmt b"

lemma lex_exprs:
  assumes "list_all (ok_expr M) as" and "list_all (ok_expr M) bs"
  shows "lex_tok (enc_exprs as @ us) (enc_exprs bs @ vs) =
    then_cmp (compare_expr_vector as bs) (lex_tok us vs)"
  using assms
  by (simp add: enc_exprs_def compare_expr_vector_def enc_simps then_cmp_assoc lex_expr_induct(3) [of M]
      del: lex_tok.simps compare_scalar_iff(1))

lemma lex_expr_opt:
  assumes "pred_option (ok_expr M) a" and "pred_option (ok_expr M) b"
  shows "lex_tok (enc_expr_opt a @ us) (enc_expr_opt b @ vs) =
    then_cmp (compare_expr_opt a b) (lex_tok us vs)"
  using assms
  by (cases a; cases b) (simp_all add: lex_expr [of M] lex_itok compare_scalar_def del: lex_tok.simps)

lemma lex_range:
  assumes "ok_expr M (range_min a) \<and> ok_expr M (range_extent a)"
    and "ok_expr M (range_min b) \<and> ok_expr M (range_extent b)"
  shows "lex_tok (enc_range a @ us) (enc_range b @ vs) = then_cmp (compare_range a b) (lex_tok us vs)"
  using assms by (simp add: enc_range_def compare_range_def lex_expr [of M] then_cmp_assoc del: lex_tok.simps)

lemma lex_region:
  assumes "ok_region M ts bs" and "ok_region M ts' bs'"
  shows "lex_tok (enc_region n ts bs @ us) (enc_region n' ts' bs' @ vs) =
    then_cmp (compare_region n ts bs n' ts' bs') (lex_tok us vs)"
proof -
  have t: "lex_tok (concat (map enc_type ts) @ us) (concat (map enc_type ts') @ vs) =
      then_cmp (compare_each compare_types ts ts') (lex_tok us vs)"
    if "same_size ts ts'" for us vs
    using assms that lex_type [of M] by (intro lex_each) (auto simp: ok_region_def list_all_iff)
  have r: "lex_tok (concat (map enc_range bs) @ us) (concat (map enc_range bs') @ vs) =
      then_cmp (compare_each compare_range bs bs') (lex_tok us vs)"
    if "same_size bs bs'" for us vs
    using assms that lex_range [of M] by (intro lex_each) (auto simp: ok_region_def list_all_iff)
  show ?thesis
    unfolding enc_region_def compare_region_def
    by (simp add: enc_simps then_cmp_assoc t r del: lex_tok.simps compare_scalar_iff(1))
qed

lemma compare_bools [simp]:
  "compare_scalar True False = GreaterThan" "compare_scalar False True = LessThan"
  "compare_scalar 1 (0::int) = GreaterThan" "compare_scalar 0 (1::int) = LessThan"
  "compare_scalar 1 (0::nat) = GreaterThan" "compare_scalar 0 (1::nat) = LessThan"
  by (simp_all add: compare_scalar_def)

lemma stmt_rank_less:
  "enc_stmt a = ntok (stmt_node_type a) # tl (enc_stmt a)"
  by (cases a) auto

lemma stmt_node_type_iff:
  "stmt_node_type s = 29 \<longleftrightarrow> (\<exists>n v b. s = LetStmt n v b)"
  "stmt_node_type s = 30 \<longleftrightarrow> (\<exists>c m. s = AssertStmt c m)"
  "stmt_node_type s = 31 \<longleftrightarrow> (\<exists>n p b. s = ProducerConsumer n p b)"
  "stmt_node_type s = 32 \<longleftrightarrow> (\<exists>n m e f d b. s = For n m e f d b)"
  "stmt_node_type s = 33 \<longleftrightarrow> (\<exists>x c b. s = Acquire x c b)"
  "stmt_node_type s = 34 \<longleftrightarrow> (\<exists>n p v i r a. s = Store n p v i r a)"
  "stmt_node_type s = 35 \<longleftrightarrow> (\<exists>n vs as. s = Provide n vs as)"
  "stmt_node_type s = 36 \<longleftrightarrow> (\<exists>n t m es c ne ff b. s = Allocate n t m es c ne ff b)"
  "stmt_node_type s = 37 \<longleftrightarrow> (\<exists>n. s = Free n)"
  "stmt_node_type s = 38 \<longleftrightarrow> (\<exists>n ts m bs c b. s = Realize n ts m bs c b)"
  "stmt_node_type s = 39 \<longleftrightarrow> (\<exists>f r. s = Block f r)"
  "stmt_node_type s = 40 \<longleftrightarrow> (\<exists>f r. s = Fork f r)"
  "stmt_node_type s = 41 \<longleftrightarrow> (\<exists>c t e. s = IfThenElse c t e)"
  "stmt_node_type s = 42 \<longleftrightarrow> (\<exists>v. s = Evaluate v)"
  "stmt_node_type s = 43 \<longleftrightarrow> (\<exists>n ts bs p c b. s = Prefetch n ts bs p c b)"
  by (cases s; simp; fail)+

declare compare_stmt.simps [simp del]

lemma lex_stmt_induct:
  "ok_stmt M a \<Longrightarrow> ok_stmt M b \<Longrightarrow>
     lex_tok (enc_stmt a @ us) (enc_stmt b @ vs) = then_cmp (compare_stmt a b) (lex_tok us vs)"
  "ok_stmt M a \<Longrightarrow> ok_stmt M b \<Longrightarrow> stmt_node_type a = stmt_node_type b \<Longrightarrow>
     lex_tok (tl (enc_stmt a) @ us) (tl (enc_stmt b) @ vs) = then_cmp (visit_stmt a b) (lex_tok us vs)"
proof (induction a b and a b arbitrary: us vs and us vs rule: compare_stmt_visit_stmt.induct)
  case (1 a b)
  have e: "enc_stmt x @ zs = ntok (stmt_node_type x) # tl (enc_stmt x) @ zs" for x zs
    by (subst stmt_rank_less) simp
  show ?case
  proof (cases "stmt_node_type a = stmt_node_type b")
    case True
    then show ?thesis using 1
      by (simp add: e [of a] e [of b] compare_stmt.simps enc_simps del: lex_tok.simps)
  next
    case False
    then have "compare_scalar (stmt_node_type a) (stmt_node_type b) \<noteq> Equal" by simp
    then show ?thesis
      by (simp add: e [of a] e [of b] compare_stmt.simps enc_simps then_cmp_def del: lex_tok.simps)
  qed
next
  case (14 c t e op)
  then obtain c' t' e' where op: "op = IfThenElse c' t' e'"
    by (auto simp: stmt_node_type_iff eq_commute [of _ "stmt_node_type op"])
  show ?case using 14 unfolding op
    by (cases e; cases e')
      (simp_all add: enc_simps then_cmp_assoc lex_expr [of M] compare_scalar_def del: lex_tok.simps)
qed (auto simp: stmt_node_type_iff eq_commute [of _ "stmt_node_type _"] enc_simps then_cmp_assoc
    lex_exprs [of M] lex_expr_opt [of M] lex_region [of M] lex_expr [of M] compare_alignment_def
    simp del: lex_tok.simps)

lemma compare_stmt_lex:
  "ok_stmt M a \<Longrightarrow> ok_stmt M b \<Longrightarrow> compare_stmt a b = lex_tok (enc_stmt a) (enc_stmt b)"
  using lex_stmt_induct(1) [of M a b "[]" "[]"] by simp

interpretation stmt_order: three_way "ok_stmt M" compare_stmt for M
  by (rule three_way_encoding [OF compare_stmt_lex])

subsection \<open>Properties\<close>

text \<open>
  C7. \<open>IRDeepCompare\<close> is a strict weak order on expressions without NaN constants, as the ordered
  containers keyed by expressions require: it is irreflexive and transitive, and being incomparable
  is the same as being \<open>equal\<close>, which is transitive as well.
\<close>

theorem deep_compare_expr_strict_weak:
  assumes "ok_expr M a" and "ok_expr M b" and "ok_expr M c"
  shows "\<not> deep_compare_expr a a \<and>
    (deep_compare_expr a b \<and> deep_compare_expr b c \<longrightarrow> deep_compare_expr a c) \<and>
    (\<not> deep_compare_expr a b \<and> \<not> deep_compare_expr b a \<longleftrightarrow> equal_expr a b) \<and>
    (equal_expr a b \<and> equal_expr b c \<longrightarrow> equal_expr a c)"
  using expr_order.less_irrefl [OF assms(1)] expr_order.cmp_Less_trans [OF assms]
    expr_order.incomparable_iff_Equal [OF assms(1,2)] expr_order.cmp_Equal_trans [OF assms]
  by (auto simp: deep_compare_expr_def equal_expr_def)

theorem deep_compare_expr_strict_weak_witness:
  "deep_compare_expr (IntImm (Int_type 32 1) 1) (IntImm (Int_type 32 1) 2) \<and>
   deep_compare_expr (IntImm (Int_type 32 1) 2) (IntImm (Int_type 32 1) 3) \<and>
   deep_compare_expr (IntImm (Int_type 32 1) 1) (IntImm (Int_type 32 1) 3)"
proof -
  have ok: "ok_expr (\<lambda>_. void_ptr_info) (IntImm (Int_type 32 1) v)" for v
    by (simp add: ok_type_def ok_handle_def Int_type_def)
  have "deep_compare_expr (IntImm (Int_type 32 1) 1) (IntImm (Int_type 32 1) 2)"
    "deep_compare_expr (IntImm (Int_type 32 1) 2) (IntImm (Int_type 32 1) 3)"
    by (simp_all add: deep_compare_expr_def compare_expr.simps compare_scalar_def compare_types_def
        compare_handles_def same_pointer_def)
  then show ?thesis using deep_compare_expr_strict_weak [OF ok ok ok, of 1 2 3] by blast
qed

text \<open>
  C8. The comparison of statements is a strict weak order as well, under the same condition.
\<close>

theorem deep_compare_stmt_strict_weak:
  assumes "ok_stmt M a" and "ok_stmt M b" and "ok_stmt M c"
  shows "\<not> deep_compare_stmt a a \<and>
    (deep_compare_stmt a b \<and> deep_compare_stmt b c \<longrightarrow> deep_compare_stmt a c) \<and>
    (\<not> deep_compare_stmt a b \<and> \<not> deep_compare_stmt b a \<longleftrightarrow> equal_stmt a b) \<and>
    (equal_stmt a b \<and> equal_stmt b c \<longrightarrow> equal_stmt a c)"
  using stmt_order.less_irrefl [OF assms(1)] stmt_order.cmp_Less_trans [OF assms]
    stmt_order.incomparable_iff_Equal [OF assms(1,2)] stmt_order.cmp_Equal_trans [OF assms]
  by (auto simp: deep_compare_stmt_def equal_stmt_def)

theorem deep_compare_stmt_strict_weak_witness:
  "deep_compare_stmt (Free ''a'') (Free ''b'') \<and> deep_compare_stmt (Free ''b'') (Free ''c'') \<and>
   deep_compare_stmt (Free ''a'') (Free ''c'')"
proof -
  have "deep_compare_stmt (Free ''a'') (Free ''b'')" "deep_compare_stmt (Free ''b'') (Free ''c'')"
    by (simp_all add: deep_compare_stmt_def compare_stmt.simps compare_scalar_def)
  then show ?thesis
    using deep_compare_stmt_strict_weak
      [of "\<lambda>_. void_ptr_info" "Free ''a''" "Free ''b''" "Free ''c''"] by auto
qed

text \<open>
  C9. A NaN constant breaks the order: it is incomparable to every constant of its type, so two
  constants that differ are both \<open>equal\<close> to it, and \<open>equal\<close> is not transitive.
\<close>

theorem nan_breaks_equality:
  "\<exists>a b c. wf_expr a \<and> wf_expr b \<and> wf_expr c \<and> equal_expr a b \<and> equal_expr b c \<and> \<not> equal_expr a c"
proof (intro exI conjI)
  let ?t = "Float_type 32 1"
  let ?a = "FloatImm ?t (Fin 1)" and ?b = "FloatImm ?t NaN" and ?c = "FloatImm ?t (Fin 2)"
  show "wf_expr ?a" "wf_expr ?b" "wf_expr ?c" by (simp_all add: Float_type_def type_pred_defs)
  show "equal_expr ?a ?b" "equal_expr ?b ?c" "\<not> equal_expr ?a ?c"
    by (simp_all add: equal_expr_def compare_expr.simps compare_types_def compare_handles_def
        same_pointer_def compare_double_def dbl_less_def Float_type_def)
qed

end
