(* ===== verification/Semantics.thy ===== *)
theory Semantics
  imports IREqualityFacts
begin

text \<open>
  The values of integer and boolean expressions: the specification the analyses and rewrites are
  judged by. It is not a translation of a function of the repository; it states the meaning that
  \<open>IR.h\<close> documents for each node.

  \<^item> A vector expression has one value per lane; a scalar has the same value in every lane.
  \<^item> A signed type of 32 or more bits does not wrap: overflow in it is undefined for programs
    (\<open>no_overflow\<close> in \<open>Simplify_Internal.h\<close>), and rewriting works with unbounded integers. Narrower
    signed types wrap to two's complement and unsigned types modulo a power of two.
  \<^item> Division and remainder are Euclidean.
  \<^item> \<open>None\<close> is an indeterminate value: a division by zero, a call of
    \<open>indeterminate_expression\<close> or \<open>signed_integer_overflow\<close>, a load in a lane that is switched
    off, and every floating-point or string expression, which this semantics leaves out.
  \<^item> A \<open>Select\<close> evaluates both of its values.
\<close>

definition no_overflow_int :: "htype \<Rightarrow> bool" where
  "no_overflow_int t \<longleftrightarrow> is_int t \<and> ty_bits t \<ge> 32"

definition wrap_ty :: "htype \<Rightarrow> int \<Rightarrow> int" where
  "wrap_ty t z =
     (if no_overflow_int t then z
      else if is_int t then s_wrap (ty_bits t) z
      else if is_uint t then u_wrap (ty_bits t) z
      else z)"

interpretation wrap_ty: wrapping "wrap_ty t" for t
proof -
  have "wrap_ty t = (\<lambda>z. z) \<or> wrap_ty t = s_wrap (ty_bits t) \<or> wrap_ty t = u_wrap (ty_bits t)"
    by (auto simp: wrap_ty_def fun_eq_iff)
  then show "wrapping (wrap_ty t)"
    using id_wrap.wrapping_axioms s_wrap.wrapping_axioms u_wrap.wrapping_axioms by metis
qed

definition bin_val :: "binop \<Rightarrow> htype \<Rightarrow> int \<Rightarrow> int \<Rightarrow> int option" where
  "bin_val op t x y = (case op of
      Add \<Rightarrow> Some (wrap_ty t (x + y))
    | Sub \<Rightarrow> Some (wrap_ty t (x - y))
    | Mul \<Rightarrow> Some (wrap_ty t (x * y))
    | Div \<Rightarrow> if y = 0 then None else Some (wrap_ty t (ediv x y))
    | Mod \<Rightarrow> if y = 0 then None else Some (wrap_ty t (emod x y))
    | MinOp \<Rightarrow> Some (min x y)
    | MaxOp \<Rightarrow> Some (max x y)
    | EQ \<Rightarrow> Some (of_bool (x = y))
    | NE \<Rightarrow> Some (of_bool (x \<noteq> y))
    | LT \<Rightarrow> Some (of_bool (x < y))
    | LE \<Rightarrow> Some (of_bool (x \<le> y))
    | GT \<Rightarrow> Some (of_bool (x > y))
    | GE \<Rightarrow> Some (of_bool (x \<ge> y))
    | AndOp \<Rightarrow> Some (of_bool (x \<noteq> 0 \<and> y \<noteq> 0))
    | OrOp \<Rightarrow> Some (of_bool (x \<noteq> 0 \<or> y \<noteq> 0)))"

text \<open>A conversion between integer types truncates, except between types that do not wrap.\<close>

definition cast_val :: "htype \<Rightarrow> htype \<Rightarrow> int \<Rightarrow> int option" where
  "cast_val t from z =
     (if \<not> is_int_or_uint t \<or> \<not> is_int_or_uint from then None
      else if no_overflow_int t \<and> no_overflow_int from \<and> ty_bits from \<le> ty_bits t then Some z
      else if is_int t then Some (s_wrap (ty_bits t) z)
      else Some (u_wrap (ty_bits t) z))"

type_synonym lanes_val = "nat \<Rightarrow> int option"

record env =
  env_var :: "string \<Rightarrow> lanes_val"
  env_mem :: "string \<Rightarrow> int \<Rightarrow> int option"
  env_call :: "string \<Rightarrow> int \<Rightarrow> lanes_val list \<Rightarrow> lanes_val"

definition bind_var :: "env \<Rightarrow> string \<Rightarrow> lanes_val \<Rightarrow> env" where
  "bind_var \<rho> n v = \<rho>\<lparr>env_var := (env_var \<rho>)(n := v)\<rparr>"

definition lane_in :: "htype \<Rightarrow> nat \<Rightarrow> nat" where
  "lane_in t i = (if is_scalar t then 0 else i)"

fun shuffle_lane :: "(nat \<times> lanes_val) list \<Rightarrow> nat \<Rightarrow> int option" where
  "shuffle_lane [] k = None"
| "shuffle_lane ((l, f) # vs) k = (if k < l then f k else shuffle_lane vs (k - l))"

definition is_undef_call :: "string \<Rightarrow> bool" where
  "is_undef_call n \<longleftrightarrow> n = ''indeterminate_expression'' \<or> n = ''signed_integer_overflow''"

definition is_likely_call :: "string \<Rightarrow> bool" where
  "is_likely_call n \<longleftrightarrow> n = ''likely'' \<or> n = ''likely_if_innermost''"

fun eval :: "env \<Rightarrow> expr \<Rightarrow> lanes_val" where
  "eval \<rho> (IntImm t v) i = Some v"
| "eval \<rho> (UIntImm t v) i = Some v"
| "eval \<rho> (FloatImm t v) i = None"
| "eval \<rho> (StringImm t v) i = None"
| "eval \<rho> (Broadcast v l) i = eval \<rho> v i"
| "eval \<rho> (Cast t v) i = Option.bind (eval \<rho> v i) (cast_val t (type_of v))"
| "eval \<rho> (Variable t n r) i = map_option (wrap_ty t) (env_var \<rho> n (lane_in t i))"
| "eval \<rho> (Bin op a b) i =
     (case (eval \<rho> a i, eval \<rho> b i) of (Some x, Some y) \<Rightarrow> bin_val op (type_of a) x y | _ \<Rightarrow> None)"
| "eval \<rho> (NotE a) i = map_option (\<lambda>x. of_bool (x = 0)) (eval \<rho> a i)"
| "eval \<rho> (Select c a b) i =
     (case (eval \<rho> c i, eval \<rho> a i, eval \<rho> b i) of
        (Some z, Some x, Some y) \<Rightarrow> Some (if z \<noteq> 0 then x else y) | _ \<Rightarrow> None)"
| "eval \<rho> (Load t n p ix r al) i =
     (case (eval \<rho> p i, eval \<rho> ix i) of
        (Some z, Some k) \<Rightarrow> if z \<noteq> 0 then map_option (wrap_ty t) (env_mem \<rho> n k) else None
      | _ \<Rightarrow> None)"
| "eval \<rho> (Ramp b s l) i =
     (case (eval \<rho> b i, eval \<rho> s i) of
        (Some x, Some y) \<Rightarrow> Some (wrap_ty (type_of b) (x + int i * y)) | _ \<Rightarrow> None)"
| "eval \<rho> (Call t n as ct vi r) i =
     (if is_undef_call n then None
      else if is_likely_call n \<and> length as = 1 then map_option (wrap_ty t) (hd (map (\<lambda>a. eval \<rho> a (lane_in t i)) as))
      else map_option (wrap_ty t)
             (env_call \<rho> n vi (map (\<lambda>a. eval \<rho> a) as) (lane_in t i)))"
| "eval \<rho> (LetE n v b) i = eval (bind_var \<rho> n (eval \<rho> v)) b i"
| "eval \<rho> (Shuffle vs is) i =
     (let k = (if length is = 1 then 0 else i) in
      if k < length is
      then shuffle_lane (map (\<lambda>v. (lanes_of v, eval \<rho> v)) vs) (nat (is ! k))
      else None)"

subsection \<open>Basic facts\<close>

lemma type_eqD:
  assumes "type_eq t u" and "ty_ok t" and "ty_ok u"
  shows "ty_code t = ty_code u" "ty_bits t = ty_bits u" "ty_lanes t = ty_lanes u"
  using assms as_u32_eq_iff [OF assms(2,3)] by (auto simp: type_eq_def)

lemma wrap_ty_cong: "ty_code t = ty_code u \<Longrightarrow> ty_bits t = ty_bits u \<Longrightarrow> wrap_ty t = wrap_ty u"
  by (simp add: wrap_ty_def no_overflow_int_def type_pred_defs fun_eq_iff)

lemma wrap_with_lanes [simp]: "ty_ok t \<Longrightarrow> wrap_ty (with_lanes t l) = wrap_ty t"
  by (rule wrap_ty_cong) (auto simp: ty_ok_def)

lemma wrap_bool [simp]: "wrap_ty (Bool_type l) (of_bool b) = of_bool b"
  by (cases b) (simp_all add: wrap_ty_def no_overflow_int_def type_pred_defs u_wrap_mod)

lemma eval_scalar_lane:
  "wf_expr e \<Longrightarrow> is_scalar (type_of e) \<Longrightarrow> eval \<rho> e i = eval \<rho> e j"
proof (induction e arbitrary: \<rho> i j)
  case (Bin op a b)
  have "is_scalar (type_of a)" "is_scalar (type_of b)"
    using Bin.prems type_eqD(3) [of "type_of a" "type_of b"] wf_type_ok
    by (auto simp: is_scalar_def bin_type_def ty_ok_def split: if_splits)
  then show ?case using Bin.IH(1) [of \<rho> i j] Bin.IH(2) [of \<rho> i j] Bin.prems by simp
next
  case (Select c a b)
  have "is_scalar (type_of a)" "is_scalar (type_of b)" "is_scalar (type_of c)"
    using Select.prems type_eqD(3) [of "type_of b" "type_of a"] wf_type_ok
    by (auto simp: is_scalar_def)
  then show ?case
    using Select.IH(1) [of \<rho> i j] Select.IH(2) [of \<rho> i j] Select.IH(3) [of \<rho> i j] Select.prems
    by simp
next
  case (Load t n p ix r al)
  show ?case using Load.IH(1) [of \<rho> i j] Load.IH(2) [of \<rho> i j] Load.prems by (simp add: is_scalar_def)
next
  case (NotE a)
  have "is_scalar (type_of a)"
    using NotE.prems wf_type_ok [of a] by (simp add: is_scalar_def ty_ok_def)
  then show ?case using NotE.IH [of \<rho> i j] NotE.prems by simp
next
  case (Cast t v)
  show ?case using Cast.IH [of \<rho> i j] Cast.prems by (simp add: is_scalar_def)
next
  case (LetE n v b)
  show ?case using LetE.IH(2) LetE.prems by simp
qed (auto simp: is_scalar_def lane_in_def)

text \<open>Every value of an expression is a value of its type.\<close>

lemma wrap_min_max:
  "wrap_ty t x = x \<Longrightarrow> wrap_ty t y = y \<Longrightarrow> wrap_ty t (min x y) = min x y"
  "wrap_ty t x = x \<Longrightarrow> wrap_ty t y = y \<Longrightarrow> wrap_ty t (max x y) = max x y"
  by (auto simp: min_def max_def)

lemma bin_val_norm:
  assumes "bin_val op t x y = Some z" and "wrap_ty t x = x" and "wrap_ty t y = y"
  shows "wrap_ty (bin_type op t) z = z"
  using assms
  by (cases op)
    (auto simp: bin_val_def bin_type_def wrap_ty.wr_wr wrap_min_max split: if_splits)

lemma cast_val_norm: "cast_val t u x = Some z \<Longrightarrow> wrap_ty t z = z"
  by (auto simp: cast_val_def wrap_ty_def no_overflow_int_def s_wrap.wr_wr u_wrap.wr_wr type_pred_defs
      split: if_splits)

lemma imm_norm:
  "wf_expr (IntImm t v) \<Longrightarrow> wrap_ty t v = v" "wf_expr (UIntImm t v) \<Longrightarrow> wrap_ty t v = v"
  by (auto simp: wrap_ty_def type_pred_defs no_overflow_int_def)

lemma shuffle_lane_Some:
  "shuffle_lane (map (\<lambda>v. (l v, f v)) vs) k = Some z \<Longrightarrow> \<exists>v \<in> set vs. \<exists>j. f v j = Some z"
  by (induction vs arbitrary: k) (auto split: if_splits)

lemma eval_norm:
  "wf_expr e \<Longrightarrow> eval \<rho> e i = Some z \<Longrightarrow> wrap_ty (type_of e) z = z"
proof (induction e arbitrary: \<rho> i z)
  case (Bin op a b)
  then obtain x y where xy: "eval \<rho> a i = Some x" "eval \<rho> b i = Some y"
    "bin_val op (type_of a) x y = Some z"
    by (auto split: option.splits)
  have "wrap_ty (type_of b) = wrap_ty (type_of a)"
    using Bin.prems type_eqD [of "type_of a" "type_of b"] wf_type_ok by (intro wrap_ty_cong) auto
  then show ?case using Bin.IH Bin.prems xy bin_val_norm [OF xy(3)] by simp
next
  case (Select c a b)
  have "wrap_ty (type_of b) = wrap_ty (type_of a)"
    using Select.prems type_eqD [of "type_of b" "type_of a"] wf_type_ok by (intro wrap_ty_cong) auto
  then show ?case using Select by (auto split: option.splits if_splits)
next
  case (Shuffle vs "is")
  then obtain v j where v: "v \<in> set vs" "eval \<rho> v j = Some z"
    using shuffle_lane_Some by (fastforce simp: Let_def split: if_splits)
  have ok: "wf_expr v" "type_eq (element_of (type_of v)) (element_of (type_of (hd vs)))" "vs \<noteq> []"
    using Shuffle.prems v by (auto simp: list_all_iff)
  have "wrap_ty (type_of (Shuffle vs is)) = wrap_ty (element_of (type_of (hd vs)))"
    using ok by (cases vs) simp_all
  also have "\<dots> = wrap_ty (element_of (type_of v))"
    using type_eqD [OF ok(2)] by (intro wrap_ty_cong) auto
  also have "\<dots> = wrap_ty (type_of v)"
    using wf_type_ok [OF ok(1)] by (simp add: element_of_def)
  finally show ?case using Shuffle.IH [OF v(1) ok(1) v(2)] by simp
next
  case (Cast t v)
  then show ?case using cast_val_norm by (auto split: bind_splits)
next
  case (Broadcast v l)
  then show ?case using wf_type_ok [of v] by simp
next
  case (Ramp b s l)
  then show ?case using wf_type_ok [of b] by (auto simp: wrap_ty.wr_wr split: option.splits)
qed (auto simp: wrap_ty.wr_wr imm_norm simp del: wf_expr.simps(1,2) split: option.splits if_splits)

lemma eval_bool:
  assumes "wf_expr e" and "is_bool (type_of e)" and "eval \<rho> e i = Some z"
  shows "z = 0 \<or> z = 1"
  using eval_norm [OF assms(1,3)] assms(2) u_wrap_range [of 1 z]
  by (auto simp: wrap_ty_def type_pred_defs no_overflow_int_def)

text \<open>Expressions that compare equal have the same values.\<close>

lemma compare_types_Equal:
  "compare_types t u = Equal \<Longrightarrow>
     ty_code t = ty_code u \<and> ty_bits t = ty_bits u \<and> ty_lanes t = ty_lanes u"
  by (auto simp: compare_types_def)

lemma compare_names_Equal [simp]: "compare_names a b = Equal \<longleftrightarrow> a = b"
  by (induction a b rule: compare_names.induct) (auto simp: of_char_eq_iff)

lemma compare_each_scalar_Equal:
  "length as = length bs \<Longrightarrow> compare_each compare_scalar as bs = Equal \<longleftrightarrow> as = bs"
  by (induction as bs rule: list_induct2) auto

lemma compare_type_of:
  "compare_expr a b = Equal \<Longrightarrow> compare_types (type_of a) (type_of b) = Equal"
  by (simp add: compare_expr.simps)

lemma compare_expr_eval_induct:
  "compare_expr a b = Equal \<Longrightarrow> eval \<rho> a = eval \<rho> b"
  "node_type a = node_type b \<Longrightarrow> compare_types (type_of a) (type_of b) = Equal \<Longrightarrow>
     visit_expr a b = Equal \<Longrightarrow> eval \<rho> a = eval \<rho> b"
  "length as = length bs \<Longrightarrow> compare_expr_loop as bs = Equal \<Longrightarrow>
     map (eval \<rho>) as = map (eval \<rho>) bs \<and> map lanes_of as = map lanes_of bs"
proof (induction a b and a b and as bs arbitrary: \<rho> and \<rho> and \<rho>
    rule: compare_expr_visit_expr_compare_expr_loop.induct)
  case (1 a b)
  then show ?case by (simp add: compare_expr.simps)
next
  case (7 t v op)
  then obtain t' v' where op: "op = Cast t' v'" by auto
  have "cast_val t (type_of v) = cast_val t' (type_of v')"
    using 7(3,4) compare_types_Equal [of t t'] compare_types_Equal [of "type_of v" "type_of v'"]
      compare_type_of [of v v']
    by (auto simp: op cast_val_def fun_eq_iff no_overflow_int_def type_pred_defs)
  moreover have "eval \<rho> v = eval \<rho> v'" using 7 op by auto
  ultimately show ?case unfolding op by (intro ext) simp
next
  case (9 bop a b op)
  then obtain a' b' where op: "op = Bin bop a' b'" by auto
  have "wrap_ty (type_of a) = wrap_ty (type_of a')"
    using 9(5) compare_types_Equal [of "type_of a" "type_of a'"] compare_type_of [of a a']
    by (intro wrap_ty_cong) (auto simp: op)
  then have "bin_val bop (type_of a) = bin_val bop (type_of a')"
    by (auto simp: bin_val_def fun_eq_iff split: binop.splits)
  moreover have "eval \<rho> a = eval \<rho> a'" "eval \<rho> b = eval \<rho> b'" using 9 op by auto
  ultimately show ?case unfolding op by (intro ext) (simp cong: option.case_cong)
next
  case (13 b s l op)
  then obtain b' s' l' where op: "op = Ramp b' s' l'" by auto
  have "wrap_ty (type_of b) = wrap_ty (type_of b')"
    using 13(5) compare_types_Equal [of "type_of b" "type_of b'"] compare_type_of [of b b']
    by (intro wrap_ty_cong) (auto simp: op)
  moreover have "eval \<rho> b = eval \<rho> b'" "eval \<rho> s = eval \<rho> s'" using 13 op by auto
  ultimately show ?case unfolding op by (intro ext) (simp cong: option.case_cong)
next
  case (8 t n r op)
  then obtain t' n' r' where op: "op = Variable t' n' r'" by auto
  with 8 compare_types_Equal [of t t'] have "wrap_ty t = wrap_ty t'" "ty_lanes t = ty_lanes t'"
    by (auto intro: wrap_ty_cong)
  moreover have "n = n'" using 8 op by auto
  ultimately show ?case unfolding op by (intro ext) (simp add: lane_in_def is_scalar_def)
next
  case (12 t n p i r al op)
  then obtain t' n' p' i' r' al' where op: "op = Load t' n' p' i' r' al'" by auto
  with 12 compare_types_Equal [of t t'] have "wrap_ty t = wrap_ty t'" by (auto intro: wrap_ty_cong)
  moreover have "eval \<rho> p = eval \<rho> p'" "eval \<rho> i = eval \<rho> i'" "n = n'" using 12 op by auto
  ultimately show ?case unfolding op by (intro ext) (simp cong: option.case_cong if_cong)
next
  case (14 t n as ct vi r op)
  then obtain t' n' as' ct' vi' r' where op: "op = Call t' n' as' ct' vi' r'" by auto
  have "compare_types t t' = Equal" using 14(3) op by simp
  then have w: "wrap_ty t = wrap_ty t'" "lane_in t = lane_in t'"
    using compare_types_Equal [of t t']
    by (auto intro: wrap_ty_cong simp: lane_in_def is_scalar_def)
  have l: "length as = length as'" and m: "map (eval \<rho>) as = map (eval \<rho>) as'"
    using 14 op by auto
  have h: "hd (map (\<lambda>a. eval \<rho> a k) as) = hd (map (\<lambda>a. eval \<rho> a k) as')" if "length as = 1" for k
    using l m that by (cases as; cases as') auto
  have "n = n'" "vi = vi'" using 14 op by auto
  then show ?case unfolding op using w l m h by (intro ext) simp
next
  case (16 vs "is" op)
  then obtain vs' is' where op: "op = Shuffle vs' is'" by auto
  have l: "length vs = length vs'" "length is = length is'" "is = is'"
    using 16 op by (auto simp: compare_each_scalar_Equal)
  then have m: "map (eval \<rho>) vs = map (eval \<rho>) vs'" "map lanes_of vs = map lanes_of vs'"
    using 16 op by auto
  have "map (\<lambda>v. (lanes_of v, eval \<rho> v)) vs = map (\<lambda>v. (lanes_of v, eval \<rho> v)) vs'"
    using l(1) m by (induction vs vs' rule: list_induct2) auto
  then show ?case using op l by (auto simp: fun_eq_iff)
next
  case (18 x xs ys)
  then show ?case
    by (cases ys) (auto dest: compare_type_of compare_types_Equal)
next
  case (11 c a b op)
  then obtain c' a' b' where op: "op = Select c' a' b'" by auto
  have "eval \<rho> c = eval \<rho> c'" "eval \<rho> a = eval \<rho> a'" "eval \<rho> b = eval \<rho> b'" using 11 op by auto
  then show ?case unfolding op by (intro ext) simp
next
  case (15 n v b op)
  then obtain n' v' b' where op: "op = LetE n' v' b'" by auto
  have "eval \<sigma> v = eval \<sigma> v'" "eval \<sigma> b = eval \<sigma> b'" "n = n'" for \<sigma> using 15 op by auto
  then show ?case unfolding op by (intro ext) simp
qed (auto simp: fun_eq_iff)

lemmas equal_expr_eval = compare_expr_eval_induct(1)

subsection \<open>Properties\<close>





end
