(* ===== verification/ModRem.thy ===== *)
theory ModRem
  imports Semantics
begin

text \<open>
  The modulus-remainder domain of \<open>ModulusRemainder.h\<close> and \<open>ModulusRemainder.cpp\<close>: its operators, on
  64-bit integers with the overflow tests of the source, and the visitor
  \<open>ComputeModulusRemainder\<close> that analyses an expression with it.
\<close>

subsection \<open>The domain\<close>

definition mk_mr :: "int \<Rightarrow> int \<Rightarrow> modulus_remainder" where
  "mk_mr m r = \<lparr>mr_modulus = m, mr_remainder = r\<rparr>"

definition mr_top :: modulus_remainder where
  "mr_top = mk_mr 1 0"

text \<open>\<open>mod\<close>: the remainder, with zero as a modulus leaving the number alone.\<close>

definition mr_mod_int :: "int \<Rightarrow> int \<Rightarrow> int" where
  "mr_mod_int a m = (if m = 0 then a else mod_imp a m)"

text \<open>
  The loop of \<open>gcd\<close>. The operator \<open>%\<close> truncates, so the result can be negative for negative
  arguments.
\<close>

function gcd_loop :: "int \<Rightarrow> int \<Rightarrow> int" where
  "gcd_loop a b = (if b = 0 then a else gcd_loop b (cmod a b))"
  by pat_completeness auto
termination
  by (relation "measure (\<lambda>(a, b). nat \<bar>b\<bar>)") (use cmod_bound in auto)

declare gcd_loop.simps [simp del]

definition halide_gcd :: "int \<Rightarrow> int \<Rightarrow> int" where
  "halide_gcd a b = (if a < b then gcd_loop b a else gcd_loop a b)"

definition halide_lcm :: "int \<Rightarrow> int \<Rightarrow> int" where
  "halide_lcm a b =
     (let b' = cdiv b (halide_gcd a b)
      in if mul_would_overflow 64 a b' then 0 else a * b')"

definition mr_add :: "modulus_remainder \<Rightarrow> modulus_remainder \<Rightarrow> modulus_remainder" where
  "mr_add a b =
     (if add_would_overflow 64 (mr_remainder a) (mr_remainder b) then mk_mr 1 0
      else
        (let modulus = halide_gcd (mr_modulus a) (mr_modulus b);
             remainder = mr_mod_int (mr_remainder a + mr_remainder b) modulus
         in mk_mr modulus remainder))"

definition mr_sub :: "modulus_remainder \<Rightarrow> modulus_remainder \<Rightarrow> modulus_remainder" where
  "mr_sub a b =
     (if sub_would_overflow 64 (mr_remainder a) (mr_remainder b) then mk_mr 1 0
      else
        (let modulus = halide_gcd (mr_modulus a) (mr_modulus b);
             remainder = mr_mod_int (mr_remainder a - mr_remainder b) modulus
         in mk_mr modulus remainder))"

definition mr_mul :: "modulus_remainder \<Rightarrow> modulus_remainder \<Rightarrow> modulus_remainder" where
  "mr_mul a b =
     (if mr_modulus a = 0 then
        (if \<not> mul_would_overflow 64 (mr_remainder a) (mr_modulus b) \<and>
            \<not> mul_would_overflow 64 (mr_remainder a) (mr_remainder b)
         then mk_mr (mr_remainder a * mr_modulus b) (mr_remainder a * mr_remainder b)
         else mr_top)
      else if mr_modulus b = 0 then
        (if \<not> mul_would_overflow 64 (mr_remainder b) (mr_modulus a) \<and>
            \<not> mul_would_overflow 64 (mr_remainder a) (mr_remainder b)
         then mk_mr (mr_remainder b * mr_modulus a) (mr_remainder a * mr_remainder b)
         else mr_top)
      else if mr_remainder a = 0 \<and> mr_remainder b = 0 then
        (if \<not> mul_would_overflow 64 (mr_modulus a) (mr_modulus b)
         then mk_mr (mr_modulus a * mr_modulus b) 0 else mr_top)
      else if mr_remainder a = 0 then
        (let g = halide_gcd (mr_modulus b) (mr_remainder b)
         in if \<not> mul_would_overflow 64 (mr_modulus a) g
            then mk_mr (mr_modulus a * g) 0 else mr_top)
      else if mr_remainder b = 0 then
        (let g = halide_gcd (mr_modulus a) (mr_remainder a)
         in if \<not> mul_would_overflow 64 (mr_modulus b) g
            then mk_mr (mr_modulus b * g) 0 else mr_top)
      else
        (if \<not> mul_would_overflow 64 (mr_remainder a) (mr_remainder b)
         then
           (let modulus = halide_gcd (mr_modulus a) (mr_modulus b);
                remainder = mr_mod_int (mr_remainder a * mr_remainder b) modulus
            in mk_mr modulus remainder)
         else mr_top))"

definition mr_div :: "modulus_remainder \<Rightarrow> modulus_remainder \<Rightarrow> modulus_remainder" where
  "mr_div a b =
     (if mr_modulus b = 0 \<and> mr_remainder b \<noteq> 0 \<and> mr_mod_int (mr_modulus a) (mr_remainder b) = 0
      then mk_mr (s_wrap 64 (cdiv (mr_modulus a) (mr_remainder b)))
                 (div_imp (mr_remainder a) (mr_remainder b))
      else mr_top)"

definition mr_mod :: "modulus_remainder \<Rightarrow> modulus_remainder \<Rightarrow> modulus_remainder" where
  "mr_mod a b =
     (let modulus = halide_gcd (halide_gcd (mr_modulus a) (mr_modulus b)) (mr_remainder b);
          remainder = mr_mod_int (mr_remainder a) modulus
      in mk_mr modulus remainder)"

text \<open>\<open>unify\<close>, for arguments in the order it recurses into: \<open>a.remainder >= b.remainder\<close>.\<close>

definition mr_unify_ordered ::
  "modulus_remainder \<Rightarrow> modulus_remainder \<Rightarrow> modulus_remainder result" where
  "mr_unify_ordered a b =
     (if sub_would_overflow 64 (mr_remainder a) (mr_remainder b) then Inr (mk_mr 0 1)
      else
        (let diff = mr_remainder a - mr_remainder b;
             modulus = halide_gcd diff (halide_gcd (mr_modulus a) (mr_modulus b));
             ra = mr_mod_int (mr_remainder a) modulus
         in assert_that (ra = mr_mod_int (mr_remainder b) modulus) (Inr (mk_mr modulus ra))))"

definition mr_unify :: "modulus_remainder \<Rightarrow> modulus_remainder \<Rightarrow> modulus_remainder result" where
  "mr_unify a b =
     (if mr_remainder b > mr_remainder a then mr_unify_ordered b a else mr_unify_ordered a b)"

definition mr_intersect :: "modulus_remainder \<Rightarrow> modulus_remainder \<Rightarrow> modulus_remainder" where
  "mr_intersect a b =
     (if mr_modulus a = 0 then a
      else if mr_modulus b = 0 then b
      else if mr_modulus a > mr_modulus b then a
      else b)"

definition mr_add_const :: "modulus_remainder \<Rightarrow> int \<Rightarrow> modulus_remainder" where
  "mr_add_const a b = mr_add a (mk_mr 0 b)"

definition mr_sub_const :: "modulus_remainder \<Rightarrow> int \<Rightarrow> modulus_remainder" where
  "mr_sub_const a b = mr_sub a (mk_mr 0 b)"

definition mr_mul_const :: "modulus_remainder \<Rightarrow> int \<Rightarrow> modulus_remainder" where
  "mr_mul_const a b = mr_mul a (mk_mr 0 b)"

definition mr_div_const :: "modulus_remainder \<Rightarrow> int \<Rightarrow> modulus_remainder" where
  "mr_div_const a b = mr_div a (mk_mr 0 b)"

definition mr_mod_const :: "modulus_remainder \<Rightarrow> int \<Rightarrow> modulus_remainder" where
  "mr_mod_const a b = mr_mod a (mk_mr 0 b)"

subsection \<open>The analysis\<close>

type_synonym mr_scope = "string \<Rightarrow> modulus_remainder option"

fun analyze :: "mr_scope \<Rightarrow> expr \<Rightarrow> modulus_remainder result" where
  "analyze s (IntImm t v) = Inr (mk_mr 0 v)"
| "analyze s (UIntImm t v) = Inl InternalError"
| "analyze s (FloatImm t v) = Inl InternalError"
| "analyze s (StringImm t v) = Inl InternalError"
| "analyze s (Cast t v) = Inr mr_top"
| "analyze s (Variable t n r) = (case s n of Some m \<Rightarrow> Inr m | None \<Rightarrow> Inr mr_top)"
| "analyze s (Bin op a b) = (case op of
      Add \<Rightarrow> rbind (analyze s a) (\<lambda>x. rbind (analyze s b) (\<lambda>y. Inr (mr_add x y)))
    | Sub \<Rightarrow> rbind (analyze s a) (\<lambda>x. rbind (analyze s b) (\<lambda>y. Inr (mr_sub x y)))
    | Mul \<Rightarrow> rbind (analyze s a) (\<lambda>x. rbind (analyze s b) (\<lambda>y. Inr (mr_mul x y)))
    | Div \<Rightarrow> rbind (analyze s a) (\<lambda>x. rbind (analyze s b) (\<lambda>y. Inr (mr_div x y)))
    | Mod \<Rightarrow> rbind (analyze s a) (\<lambda>x. rbind (analyze s b) (\<lambda>y. Inr (mr_mod x y)))
    | MinOp \<Rightarrow> rbind (analyze s a) (\<lambda>x. rbind (analyze s b) (\<lambda>y. mr_unify x y))
    | MaxOp \<Rightarrow> rbind (analyze s a) (\<lambda>x. rbind (analyze s b) (\<lambda>y. mr_unify x y))
    | _ \<Rightarrow> Inl InternalError)"
| "analyze s (NotE a) = Inl InternalError"
| "analyze s (Select c a b) = rbind (analyze s a) (\<lambda>x. rbind (analyze s b) (\<lambda>y. mr_unify x y))"
| "analyze s (Load t n p i r al) = Inr mr_top"
| "analyze s (Ramp b st l) = Inl InternalError"
| "analyze s (Broadcast v l) = Inl InternalError"
| "analyze s (Call t n as ct vi r) = Inr mr_top"
| "analyze s (LetE n v b) =
     (if is_int (type_of v) then rbind (analyze s v) (\<lambda>x. analyze (s(n \<mapsto> x)) b)
      else analyze s b)"
| "analyze s (Shuffle vs is) = assert_that (length is = 1) (Inr mr_top)"

definition modulus_remainder_of :: "expr \<Rightarrow> modulus_remainder result" where
  "modulus_remainder_of e = analyze (\<lambda>_. None) e"

text \<open>\<open>reduce_expr_modulo\<close>: the remainder it assigns, when it returns true.\<close>

definition reduce_expr_modulo :: "mr_scope \<Rightarrow> expr \<Rightarrow> int \<Rightarrow> int option result" where
  "reduce_expr_modulo s e modulus =
     rbind (analyze s e) (\<lambda>r.
       if mr_mod_int (mr_modulus r) modulus = 0
       then Inr (Some (mr_mod_int (mr_remainder r) modulus))
       else Inr None)"

end
