(* ===== verification/ModRemFacts.thy ===== *)
theory ModRemFacts
  imports ModRem
begin

text \<open>
  Soundness of the modulus-remainder domain and of the analysis. A descriptor stands for the set
  the header comment gives: all \<open>modulus * y + remainder\<close>. The locale \<open>abs_op\<close> is the contract of
  an abstract operator; each operator of the domain interprets it.
\<close>

definition mr_mem :: "int \<Rightarrow> modulus_remainder \<Rightarrow> bool" where
  "mr_mem x m \<longleftrightarrow> mr_modulus m dvd x - mr_remainder m"

definition mr_ok :: "modulus_remainder \<Rightarrow> bool" where
  "mr_ok m \<longleftrightarrow> is_s64 (mr_modulus m) \<and> is_s64 (mr_remainder m)"

lemma mr_mem_iff: "mr_mem x m \<longleftrightarrow> (\<exists>y. x = mr_modulus m * y + mr_remainder m)"
  unfolding mr_mem_def dvd_def by (metis add.commute diff_add_cancel add_diff_cancel_right')

lemma mk_mr_simps [simp]: "mr_modulus (mk_mr m r) = m" "mr_remainder (mk_mr m r) = r"
  by (simp_all add: mk_mr_def)

lemma mr_mem_top [simp]: "mr_mem x mr_top" "mr_mem x (mk_mr 1 0)" "mr_ok mr_top" "mr_ok (mk_mr 1 0)"
  by (simp_all add: mr_mem_def mr_top_def mr_ok_def s64_iff)

lemma mr_mem_const [simp]: "mr_mem x (mk_mr 0 c) \<longleftrightarrow> x = c"
  by (simp add: mr_mem_def)

subsection \<open>Greatest common divisors\<close>

lemma gcd_loop_abs: "\<bar>gcd_loop a b\<bar> = gcd a b"
proof (induction a b rule: gcd_loop.induct)
  case (1 a b)
  show ?case
  proof (cases "b = 0")
    case False
    have "gcd b (cmod a b) = gcd b (a - cdiv a b * b)" by (simp add: cmod_def)
    also have "\<dots> = gcd a b"
      by (metis add.commute diff_add_cancel gcd.commute gcd_add_mult mult.commute)
    finally show ?thesis using 1 False by (simp add: gcd_loop.simps [of a b])
  qed (simp add: gcd_loop.simps)
qed

lemma halide_gcd_abs: "\<bar>halide_gcd a b\<bar> = gcd a b"
  by (simp add: halide_gcd_def gcd_loop_abs gcd.commute)

lemma halide_gcd_dvd [simp]: "halide_gcd a b dvd a" "halide_gcd a b dvd b"
  using gcd_dvd1 [of a b] gcd_dvd2 [of a b] by (simp_all flip: halide_gcd_abs)

lemma halide_gcd_dvd_trans:
  "a dvd x \<Longrightarrow> halide_gcd a b dvd x" "b dvd x \<Longrightarrow> halide_gcd a b dvd x"
  using dvd_trans [OF halide_gcd_dvd(1) [of a b]] dvd_trans [OF halide_gcd_dvd(2) [of a b]] by auto

lemma gcd_loop_s64: "is_s64 a \<Longrightarrow> is_s64 b \<Longrightarrow> is_s64 (gcd_loop a b)"
proof (induction a b rule: gcd_loop.induct)
  case (1 a b)
  then show ?case using cmod_s64 [of b a] by (simp add: gcd_loop.simps [of a b])
qed

lemma halide_gcd_s64 [simp]: "is_s64 a \<Longrightarrow> is_s64 b \<Longrightarrow> is_s64 (halide_gcd a b)"
  by (simp add: halide_gcd_def gcd_loop_s64)

lemma mr_mod_int_dvd: "is_s64 m \<Longrightarrow> m dvd r - mr_mod_int r m"
  using ediv_emod_eq [of r m]
  by (auto simp: mr_mod_int_def mod_imp_eq_emod) (metis add_diff_cancel_right' dvd_triv_right)

lemma mr_mod_int_cong: "is_s64 m \<Longrightarrow> m dvd x - r \<longleftrightarrow> m dvd x - mr_mod_int r m"
  using mr_mod_int_dvd [of m r] by (metis diff_add_cancel dvd_add_left_iff add_diff_eq)

lemma mr_mod_int_s64: "is_s64 m \<Longrightarrow> is_s64 r \<Longrightarrow> is_s64 (mr_mod_int r m)"
  using emod_nonneg [of m r] emod_less [of m r]
  by (auto simp: mr_mod_int_def mod_imp_eq_emod s64_iff)

lemma mr_mod_int_eq_iff:
  assumes "is_s64 m"
  shows "mr_mod_int a m = mr_mod_int b m \<longleftrightarrow> m dvd a - b"
proof (cases "m = 0")
  case False
  then show ?thesis using assms
    by (simp add: mr_mod_int_def mod_imp_eq_emod emod_def mod_eq_dvd_iff)
qed (simp add: mr_mod_int_def)

subsection \<open>The operators\<close>

text \<open>
  The contract of an abstract operator: results of the concrete operator on members are members,
  where a side condition on the descriptors holds.
\<close>

locale abs_op =
  fixes mem :: "int \<Rightarrow> 'd \<Rightarrow> bool"
    and ok :: "'d \<Rightarrow> bool"
    and const :: "int \<Rightarrow> 'd"
    and absop :: "'d \<Rightarrow> 'd \<Rightarrow> 'd"
    and conc :: "int \<Rightarrow> int \<Rightarrow> int option"
    and safe :: "'d \<Rightarrow> 'd \<Rightarrow> bool"
  assumes const_mem: "mem c (const c)"
    and const_ok: "is_s64 c \<Longrightarrow> ok (const c)"
    and sound: "ok a \<Longrightarrow> ok b \<Longrightarrow> safe a b \<Longrightarrow> mem x a \<Longrightarrow> mem y b \<Longrightarrow> conc x y = Some z \<Longrightarrow>
      mem z (absop a b)"
    and closed: "ok a \<Longrightarrow> ok b \<Longrightarrow> ok (absop a b)"
begin

lemma sound_const:
  "ok a \<Longrightarrow> is_s64 c \<Longrightarrow> safe a (const c) \<Longrightarrow> mem x a \<Longrightarrow> conc x c = Some z \<Longrightarrow>
     mem z (absop a (const c))"
  using sound const_mem const_ok by blast

end

lemma mr_const_ok: "is_s64 c \<Longrightarrow> mr_ok (mk_mr 0 c)"
  by (simp add: mr_ok_def s64_iff)

lemma mr_add_sound:
  assumes "mr_ok a" and "mr_ok b" and "mr_mem x a" and "mr_mem y b"
  shows "mr_mem (x + y) (mr_add a b)"
proof -
  let ?g = "halide_gcd (mr_modulus a) (mr_modulus b)"
  have g: "is_s64 ?g" using assms(1,2) by (simp add: mr_ok_def)
  have "?g dvd (x - mr_remainder a) + (y - mr_remainder b)"
    by (rule dvd_add) (use assms(3,4) in \<open>auto simp: mr_mem_def intro: halide_gcd_dvd_trans\<close>)
  then have "?g dvd (x + y) - (mr_remainder a + mr_remainder b)" by (simp add: algebra_simps)
  then show ?thesis
    using mr_mod_int_cong [OF g] by (simp add: mr_add_def mr_mem_def Let_def)
qed

lemma mr_sub_sound:
  assumes "mr_ok a" and "mr_ok b" and "mr_mem x a" and "mr_mem y b"
  shows "mr_mem (x - y) (mr_sub a b)"
proof -
  let ?g = "halide_gcd (mr_modulus a) (mr_modulus b)"
  have g: "is_s64 ?g" using assms(1,2) by (simp add: mr_ok_def)
  have "?g dvd (x - mr_remainder a) - (y - mr_remainder b)"
    by (rule dvd_diff) (use assms(3,4) in \<open>auto simp: mr_mem_def intro: halide_gcd_dvd_trans\<close>)
  then have "?g dvd (x - y) - (mr_remainder a - mr_remainder b)" by (simp add: algebra_simps)
  then show ?thesis
    using mr_mod_int_cong [OF g] by (simp add: mr_sub_def mr_mem_def Let_def)
qed

lemma mr_add_closed: "mr_ok a \<Longrightarrow> mr_ok b \<Longrightarrow> mr_ok (mr_add a b)"
  by (auto simp: mr_add_def mr_ok_def Let_def add_would_overflow_iff intro!: mr_mod_int_s64)
    (simp_all add: s64_iff)

lemma mr_sub_closed: "mr_ok a \<Longrightarrow> mr_ok b \<Longrightarrow> mr_ok (mr_sub a b)"
  by (auto simp: mr_sub_def mr_ok_def Let_def sub_would_overflow_iff intro!: mr_mod_int_s64)
    (simp_all add: s64_iff)

lemma dvd_mult_diff:
  fixes x :: int
  assumes "m dvd x - r" and "n dvd y - s"
  shows "gcd m n dvd x * y - r * s"
proof -
  have "x * y - r * s = (x - r) * y + r * (y - s)" by (simp add: algebra_simps)
  moreover have "gcd m n dvd (x - r) * y" "gcd m n dvd r * (y - s)"
    using assms by (meson dvd_mult dvd_mult2 dvd_trans gcd_dvd1 gcd_dvd2)+
  ultimately show ?thesis by simp
qed

lemma halide_gcd_dvd_iff: "halide_gcd a b dvd x \<longleftrightarrow> gcd a b dvd x"
  by (metis abs_dvd_iff halide_gcd_abs)

lemma mr_mul_cases:
  obtains "mr_mul a b = mr_top"
  | "mr_modulus a = 0" "\<not> mul_would_overflow 64 (mr_remainder a) (mr_modulus b)"
    "\<not> mul_would_overflow 64 (mr_remainder a) (mr_remainder b)"
    "mr_mul a b = mk_mr (mr_remainder a * mr_modulus b) (mr_remainder a * mr_remainder b)"
  | "mr_modulus b = 0" "\<not> mul_would_overflow 64 (mr_remainder b) (mr_modulus a)"
    "\<not> mul_would_overflow 64 (mr_remainder a) (mr_remainder b)"
    "mr_mul a b = mk_mr (mr_remainder b * mr_modulus a) (mr_remainder a * mr_remainder b)"
  | "mr_remainder a = 0" "mr_remainder b = 0"
    "\<not> mul_would_overflow 64 (mr_modulus a) (mr_modulus b)"
    "mr_mul a b = mk_mr (mr_modulus a * mr_modulus b) 0"
  | "mr_remainder a = 0"
    "\<not> mul_would_overflow 64 (mr_modulus a) (halide_gcd (mr_modulus b) (mr_remainder b))"
    "mr_mul a b = mk_mr (mr_modulus a * halide_gcd (mr_modulus b) (mr_remainder b)) 0"
  | "mr_remainder b = 0"
    "\<not> mul_would_overflow 64 (mr_modulus b) (halide_gcd (mr_modulus a) (mr_remainder a))"
    "mr_mul a b = mk_mr (mr_modulus b * halide_gcd (mr_modulus a) (mr_remainder a)) 0"
  | "\<not> mul_would_overflow 64 (mr_remainder a) (mr_remainder b)"
    "mr_mul a b = mk_mr (halide_gcd (mr_modulus a) (mr_modulus b))
      (mr_mod_int (mr_remainder a * mr_remainder b) (halide_gcd (mr_modulus a) (mr_modulus b)))"
proof -
  note d = mr_mul_def Let_def
  consider "mr_modulus a = 0" | "mr_modulus a \<noteq> 0" "mr_modulus b = 0"
    | "mr_modulus a \<noteq> 0" "mr_modulus b \<noteq> 0" by blast
  then show thesis
  proof cases
    case 1
    show thesis
      by (cases "mul_would_overflow 64 (mr_remainder a) (mr_modulus b) \<or>
          mul_would_overflow 64 (mr_remainder a) (mr_remainder b)")
        (rule that(1), (auto simp: d 1)[1], rule that(2), auto simp: d 1)
  next
    case 2
    show thesis
      by (cases "mul_would_overflow 64 (mr_remainder b) (mr_modulus a) \<or>
          mul_would_overflow 64 (mr_remainder a) (mr_remainder b)")
        (rule that(1), (auto simp: d 2)[1], rule that(3), auto simp: d 2)
  next
    case 3
    consider "mr_remainder a = 0" "mr_remainder b = 0" | "mr_remainder a = 0" "mr_remainder b \<noteq> 0"
      | "mr_remainder a \<noteq> 0" "mr_remainder b = 0" | "mr_remainder a \<noteq> 0" "mr_remainder b \<noteq> 0"
      by blast
    then show thesis
    proof cases
      case 1
      show thesis by (cases "mul_would_overflow 64 (mr_modulus a) (mr_modulus b)")
          (rule that(1), (auto simp: d 1 3)[1], rule that(4), auto simp: d 1 3)
    next
      case 2
      show thesis
        by (cases "mul_would_overflow 64 (mr_modulus a) (halide_gcd (mr_modulus b) (mr_remainder b))")
          (rule that(1), (auto simp: d 2 3)[1], rule that(5), auto simp: d 2 3)
    next
      case r: 3
      show thesis
        by (cases "mul_would_overflow 64 (mr_modulus b) (halide_gcd (mr_modulus a) (mr_remainder a))")
          (rule that(1), (auto simp: d r 3)[1], rule that(6), auto simp: d r 3)
    next
      case 4
      show thesis by (cases "mul_would_overflow 64 (mr_remainder a) (mr_remainder b)")
          (rule that(1), (auto simp: d 3 4)[1], rule that(7), auto simp: d 3 4)
    qed
  qed
qed

lemma mr_mul_sound:
  assumes "mr_ok a" and "mr_ok b" and "mr_mem x a" and "mr_mem y b"
  shows "mr_mem (x * y) (mr_mul a b)"
proof -
  let ?ma = "mr_modulus a" and ?mb = "mr_modulus b" and ?ra = "mr_remainder a" and ?rb = "mr_remainder b"
  obtain j k where x: "x = ?ma * j + ?ra" and y: "y = ?mb * k + ?rb"
    using assms(3,4) by (auto simp: mr_mem_iff)
  have g: "is_s64 (halide_gcd ?ma ?mb)" using assms(1,2) by (simp add: mr_ok_def)
  have gm: "halide_gcd ?ma ?mb dvd x * y - ?ra * ?rb"
    using dvd_mult_diff [of ?ma x ?ra ?mb y ?rb] assms(3,4) by (simp add: halide_gcd_dvd_iff mr_mem_def)
  have ga: "halide_gcd ?mb ?rb dvd y" "halide_gcd ?ma ?ra dvd x"
    unfolding x y by (auto intro!: dvd_add dvd_mult2)
  show ?thesis
  proof (cases rule: mr_mul_cases [of a b])
    case 1
    then show ?thesis by simp
  next
    case 5
    have "?ma * halide_gcd ?mb ?rb dvd x * y" using 5(1) ga(1) unfolding x by (intro mult_dvd_mono) auto
    then show ?thesis using 5(3) by (simp add: mr_mem_def)
  next
    case 6
    have "halide_gcd ?ma ?ra * ?mb dvd x * y" using 6(1) ga(2) unfolding y by (intro mult_dvd_mono) auto
    then show ?thesis using 6(3) by (simp add: mr_mem_def mult.commute)
  next
    case 7
    then show ?thesis using gm mr_mod_int_cong [OF g] by (simp add: mr_mem_def)
  qed (simp_all add: mr_mem_def x y algebra_simps)
qed

lemma mul_closed:
  "is_s64 x \<Longrightarrow> is_s64 y \<Longrightarrow> \<not> mul_would_overflow 64 x y \<Longrightarrow> is_s64 (x * y)"
  using mul_would_overflow_iff [of 64 x y] by simp

lemma mr_mul_closed:
  assumes "mr_ok a" and "mr_ok b"
  shows "mr_ok (mr_mul a b)"
proof -
  have 0: "is_s64 0" by (simp add: s64_iff)
  have ab: "is_s64 (mr_modulus a)" "is_s64 (mr_remainder a)" "is_s64 (mr_modulus b)"
    "is_s64 (mr_remainder b)"
    using assms by (simp_all add: mr_ok_def)
  show ?thesis
  proof (cases rule: mr_mul_cases [of a b])
    case 1
    then show ?thesis by simp
  qed (simp_all add: mr_ok_def 0 ab mul_closed mr_mod_int_s64)
qed

lemma mr_div_sound:
  assumes ok: "mr_ok a" "mr_ok b" and mem: "mr_mem x a" "mr_mem y b" and y: "y \<noteq> 0"
    and safe: "\<not> (mr_remainder b = -1 \<and> (mr_remainder a = - (2 ^ 63) \<or> mr_modulus a = - (2 ^ 63)))"
  shows "mr_mem (ediv x y) (mr_div a b)"
proof (cases "mr_modulus b = 0 \<and> mr_remainder b \<noteq> 0 \<and> mr_mod_int (mr_modulus a) (mr_remainder b) = 0")
  case True
  let ?r = "mr_remainder b" and ?m = "mr_modulus a"
  have yr: "y = ?r" "?r \<noteq> 0" using True mem(2) by (simp_all add: mr_mem_def)
  have d: "?r dvd ?m"
    using True ok mod_imp_eq_emod [of ?r ?m] emod_eq_0_iff [of ?m ?r]
    by (auto simp: mr_mod_int_def mr_ok_def)
  then have q: "?m = cdiv ?m ?r * ?r" using cdiv_dvd [of ?r ?m] yr(2) by simp
  have s: "s_wrap 64 (cdiv ?m ?r) = cdiv ?m ?r"
    using cdiv_s64 [of ?m ?r] ok yr(2) safe by (intro s_wrap_in_s_id) (auto simp: mr_ok_def)
  have e: "div_imp (mr_remainder a) ?r = ediv (mr_remainder a) ?r"
    using ok yr(2) safe by (intro div_imp_eq_ediv) (auto simp: mr_ok_def)
  obtain k where "x = ?m * k + mr_remainder a" using mem(1) by (auto simp: mr_mem_iff)
  then have "x = mr_remainder a + (cdiv ?m ?r * k) * ?r" using q by (metis add.commute mult.assoc mult.commute)
  then have "ediv x ?r = ediv (mr_remainder a) ?r + cdiv ?m ?r * k"
    using ediv_add_multiple [OF yr(2)] by simp
  then show ?thesis using True yr s e by (simp add: mr_div_def mr_mem_def)
next
  case False
  then show ?thesis by (auto simp: mr_div_def)
qed

lemma div_imp_s64: "is_s64 (div_imp a b)"
  unfolding div_imp_def Let_def by (intro s_wrap_in_s) simp

lemma mr_div_closed: "mr_ok a \<Longrightarrow> mr_ok b \<Longrightarrow> mr_ok (mr_div a b)"
  by (simp add: mr_div_def mr_ok_def mr_top_def div_imp_s64 s_wrap_in_s) (simp add: s64_iff)

lemma mr_mod_sound:
  assumes ok: "mr_ok a" "mr_ok b" and mem: "mr_mem x a" "mr_mem y b"
  shows "mr_mem (emod x y) (mr_mod a b)"
proof -
  let ?g = "halide_gcd (halide_gcd (mr_modulus a) (mr_modulus b)) (mr_remainder b)"
  have g: "is_s64 ?g" using ok by (simp add: mr_ok_def)
  have "?g dvd x - mr_remainder a"
    using mem(1) by (auto simp: mr_mem_def intro: halide_gcd_dvd_trans)
  moreover have "?g dvd y"
  proof -
    have "?g dvd y - mr_remainder b" using mem(2) by (auto simp: mr_mem_def intro: halide_gcd_dvd_trans)
    then show ?thesis using halide_gcd_dvd(2) by (metis diff_add_cancel dvd_add)
  qed
  ultimately have "?g dvd (x - mr_remainder a) - ediv x y * y" by (rule dvd_diff [OF _ dvd_mult])
  moreover have "emod x y - mr_remainder a = (x - mr_remainder a) - ediv x y * y"
    using ediv_emod_eq [of x y] by linarith
  ultimately have "?g dvd emod x y - mr_remainder a" by (simp only:)
  then show ?thesis using mr_mod_int_cong [OF g] by (simp add: mr_mod_def mr_mem_def Let_def)
qed

lemma mr_mod_closed: "mr_ok a \<Longrightarrow> mr_ok b \<Longrightarrow> mr_ok (mr_mod a b)"
  by (simp add: mr_mod_def mr_ok_def Let_def mr_mod_int_s64)

text \<open>The assertion in \<open>unify\<close> never fails.\<close>

definition unify_fits :: "modulus_remainder \<Rightarrow> modulus_remainder \<Rightarrow> bool" where
  "unify_fits a b \<longleftrightarrow> is_s64 \<bar>mr_remainder a - mr_remainder b\<bar>"

lemma mr_unify_ordered_sound:
  assumes ok: "mr_ok a" "mr_ok b" and le: "mr_remainder b \<le> mr_remainder a" and fits: "unify_fits a b"
  shows "\<exists>m. mr_unify_ordered a b = Inr m \<and> mr_ok m \<and> (\<forall>x. mr_mem x a \<or> mr_mem x b \<longrightarrow> mr_mem x m)"
proof -
  let ?d = "mr_remainder a - mr_remainder b"
  let ?g = "halide_gcd ?d (halide_gcd (mr_modulus a) (mr_modulus b))"
  have d: "is_s64 ?d" using fits le by (simp add: unify_fits_def)
  have g: "is_s64 ?g" using d ok by (simp add: mr_ok_def)
  have no: "\<not> sub_would_overflow 64 (mr_remainder a) (mr_remainder b)"
    using sub_would_overflow_iff [of 64 "mr_remainder a" "mr_remainder b"] d ok by (simp add: mr_ok_def)
  have eq: "mr_mod_int (mr_remainder a) ?g = mr_mod_int (mr_remainder b) ?g"
    using mr_mod_int_eq_iff [OF g] by simp
  let ?m = "mk_mr ?g (mr_mod_int (mr_remainder a) ?g)"
  have a: "mr_mem x ?m" if "mr_mem x a" for x
  proof -
    have "?g dvd x - mr_remainder a" using that by (auto simp: mr_mem_def intro: halide_gcd_dvd_trans)
    then show ?thesis using mr_mod_int_cong [OF g] by (simp add: mr_mem_def)
  qed
  have b: "mr_mem x ?m" if "mr_mem x b" for x
  proof -
    have "?g dvd x - mr_remainder b" using that by (auto simp: mr_mem_def intro: halide_gcd_dvd_trans)
    then show ?thesis using mr_mod_int_cong [OF g] eq by (simp add: mr_mem_def)
  qed
  have "mr_ok ?m" using g ok by (simp add: mr_ok_def mr_mod_int_s64)
  then show ?thesis using no eq a b by (auto simp: mr_unify_ordered_def Let_def)
qed

lemma mr_unify_sound:
  assumes "mr_ok a" "mr_ok b" "unify_fits a b"
  shows "\<exists>m. mr_unify a b = Inr m \<and> mr_ok m \<and> (\<forall>x. mr_mem x a \<or> mr_mem x b \<longrightarrow> mr_mem x m)"
proof (cases "mr_remainder b > mr_remainder a")
  case True
  have "unify_fits b a" using assms(3) by (simp add: unify_fits_def abs_minus_commute)
  with True mr_unify_ordered_sound [of b a] assms show ?thesis by (auto simp: mr_unify_def)
next
  case False
  with mr_unify_ordered_sound [of a b] assms show ?thesis by (simp add: mr_unify_def)
qed

lemma mr_unify_total: "mr_ok a \<Longrightarrow> mr_ok b \<Longrightarrow> \<exists>m. mr_unify a b = Inr m \<and> mr_ok m"
proof -
  assume ok: "mr_ok a" "mr_ok b"
  show ?thesis
  proof (cases "unify_fits a b")
    case True
    then show ?thesis using mr_unify_sound [OF ok] by blast
  next
    case False
    then have "mr_unify a b = Inr (mk_mr 0 1)"
      using ok sub_would_overflow_iff [of 64 "mr_remainder a" "mr_remainder b"]
        sub_would_overflow_iff [of 64 "mr_remainder b" "mr_remainder a"]
      by (auto simp: mr_unify_def mr_unify_ordered_def unify_fits_def mr_ok_def abs_if split: if_splits)
    then show ?thesis by (simp add: mr_ok_def s64_iff)
  qed
qed

definition div_fits :: "modulus_remainder \<Rightarrow> modulus_remainder \<Rightarrow> bool" where
  "div_fits a b \<longleftrightarrow>
     \<not> (mr_remainder b = -1 \<and> (mr_remainder a = - (2 ^ 63) \<or> mr_modulus a = - (2 ^ 63)))"

interpretation mr_add: abs_op mr_mem mr_ok "mk_mr 0" mr_add "\<lambda>x y. Some (x + y)" "\<lambda>_ _. True"
  by unfold_locales (auto intro: mr_add_sound mr_add_closed mr_const_ok)

interpretation mr_sub: abs_op mr_mem mr_ok "mk_mr 0" mr_sub "\<lambda>x y. Some (x - y)" "\<lambda>_ _. True"
  by unfold_locales (auto intro: mr_sub_sound mr_sub_closed mr_const_ok)

interpretation mr_mul: abs_op mr_mem mr_ok "mk_mr 0" mr_mul "\<lambda>x y. Some (x * y)" "\<lambda>_ _. True"
  by unfold_locales (auto intro: mr_mul_sound mr_mul_closed mr_const_ok)

interpretation mr_div: abs_op mr_mem mr_ok "mk_mr 0" mr_div
  "\<lambda>x y. if y = 0 then None else Some (ediv x y)" div_fits
  by unfold_locales
    (auto intro: mr_div_sound mr_div_closed mr_const_ok simp: div_fits_def split: if_splits)

interpretation mr_mod: abs_op mr_mem mr_ok "mk_mr 0" mr_mod
  "\<lambda>x y. if y = 0 then None else Some (emod x y)" "\<lambda>_ _. True"
  by unfold_locales (auto intro: mr_mod_sound mr_mod_closed mr_const_ok split: if_splits)

subsection \<open>The analysis\<close>

text \<open>
  The condition under which the analysis of an expression is sound, as a check that runs along with
  it: arithmetic is on types that do not wrap, no quotient overflows, the remainders \<open>unify\<close> sees
  are less than \<open>2^63\<close> apart, and a binding of a value that is not an integer does not hide a
  binding of the scope.
\<close>

fun analyze_safe :: "mr_scope \<Rightarrow> expr \<Rightarrow> bool" where
  "analyze_safe s (IntImm t v) \<longleftrightarrow> is_s64 v"
| "analyze_safe s (Variable t n r) \<longleftrightarrow> s n = None \<or> no_overflow_int t"
| "analyze_safe s (Bin op a b) \<longleftrightarrow> no_overflow_int (type_of a) \<and> analyze_safe s a \<and> analyze_safe s b \<and>
     (case (analyze s a, analyze s b) of
        (Inr x, Inr y) \<Rightarrow>
          (op = Div \<longrightarrow> div_fits x y) \<and> (op = MinOp \<or> op = MaxOp \<longrightarrow> unify_fits x y)
      | _ \<Rightarrow> True)"
| "analyze_safe s (Select c a b) \<longleftrightarrow> analyze_safe s a \<and> analyze_safe s b \<and>
     (case (analyze s a, analyze s b) of (Inr x, Inr y) \<Rightarrow> unify_fits x y | _ \<Rightarrow> True)"
| "analyze_safe s (LetE n v b) \<longleftrightarrow>
     (if is_int (type_of v)
      then analyze_safe s v \<and>
        (case analyze s v of Inr x \<Rightarrow> analyze_safe (s(n \<mapsto> x)) b | Inl _ \<Rightarrow> True)
      else s n = None \<and> analyze_safe s b)"
| "analyze_safe s e \<longleftrightarrow> True"

text \<open>A scope describes an environment when every value of a name is in the name's descriptor.\<close>

definition scope_ok :: "mr_scope \<Rightarrow> env \<Rightarrow> bool" where
  "scope_ok s \<rho> \<longleftrightarrow> (\<forall>n m. s n = Some m \<longrightarrow> mr_ok m \<and> (\<forall>i v. env_var \<rho> n i = Some v \<longrightarrow> mr_mem v m))"

lemma scope_ok_bind:
  assumes "scope_ok s \<rho>" and "mr_ok m" and "\<And>i v. f i = Some v \<Longrightarrow> mr_mem v m"
  shows "scope_ok (s(n \<mapsto> m)) (bind_var \<rho> n f)"
  using assms by (auto simp: scope_ok_def bind_var_def)

lemma scope_ok_bind_other:
  "scope_ok s \<rho> \<Longrightarrow> s n = None \<Longrightarrow> scope_ok s (bind_var \<rho> n f)"
  by (auto simp: scope_ok_def bind_var_def)

lemma wrap_no_overflow [simp]: "no_overflow_int t \<Longrightarrow> wrap_ty t z = z"
  by (simp add: wrap_ty_def)

lemma mr_unify_mem:
  assumes "mr_unify a b = Inr m" and "mr_ok a" and "mr_ok b" and "unify_fits a b"
  shows "mr_ok m" and "mr_mem x a \<or> mr_mem x b \<Longrightarrow> mr_mem x m"
  using mr_unify_sound [OF assms(2-4)] assms(1) by auto

lemma analyze_bin_cases:
  assumes "analyze s (Bin op a b) = Inr m"
  obtains x y where "analyze s a = Inr x" "analyze s b = Inr y"
    "op = Add \<and> m = mr_add x y \<or> op = Sub \<and> m = mr_sub x y \<or> op = Mul \<and> m = mr_mul x y \<or>
     op = Div \<and> m = mr_div x y \<or> op = Mod \<and> m = mr_mod x y \<or>
     (op = MinOp \<or> op = MaxOp) \<and> mr_unify x y = Inr m"
  using assms by (cases op) (auto simp: rbind_Inr_iff)

lemma analyze_sound:
  assumes "analyze s e = Inr m" and "analyze_safe s e" and "scope_ok s \<rho>"
  shows "mr_ok m \<and> (\<forall>z. eval \<rho> e i = Some z \<longrightarrow> mr_mem z m)"
  using assms
proof (induction e arbitrary: s m \<rho> i)
  case (Variable t n r)
  then show ?case by (auto simp: scope_ok_def split: option.splits)
next
  case (Bin op a b)
  obtain x y where xy: "analyze s a = Inr x" "analyze s b = Inr y" and
    m: "op = Add \<and> m = mr_add x y \<or> op = Sub \<and> m = mr_sub x y \<or> op = Mul \<and> m = mr_mul x y \<or>
     op = Div \<and> m = mr_div x y \<or> op = Mod \<and> m = mr_mod x y \<or>
     (op = MinOp \<or> op = MaxOp) \<and> mr_unify x y = Inr m"
    by (rule analyze_bin_cases [OF Bin.prems(1)])
  have a: "mr_ok x" "eval \<rho> a i = Some z \<Longrightarrow> mr_mem z x" for z
    using Bin.IH(1) [OF xy(1) _ Bin.prems(3)] Bin.prems(2) by auto
  have b: "mr_ok y" "eval \<rho> b i = Some z \<Longrightarrow> mr_mem z y" for z
    using Bin.IH(2) [OF xy(2) _ Bin.prems(3)] Bin.prems(2) by auto
  have t: "no_overflow_int (type_of a)" using Bin.prems(2) by simp
  have safe: "op = Div \<Longrightarrow> div_fits x y" "op = MinOp \<or> op = MaxOp \<Longrightarrow> unify_fits x y"
    using Bin.prems(2) xy by auto
  have "mr_ok m"
    using m a(1) b(1) safe mr_unify_mem(1) [of x y m]
    by (auto intro: mr_add.closed mr_sub.closed mr_mul.closed mr_div.closed mr_mod.closed)
  moreover have "mr_mem z m" if z: "eval \<rho> (Bin op a b) i = Some z" for z
  proof -
    obtain u v where uv: "eval \<rho> a i = Some u" "eval \<rho> b i = Some v" "bin_val op (type_of a) u v = Some z"
      using z by (auto split: option.splits)
    note mem = a(2) [OF uv(1)] b(2) [OF uv(2)]
    show ?thesis using m
    proof (elim disjE conjE)
      assume "op = Div" "m = mr_div x y"
      then show ?thesis using mr_div.sound [OF a(1) b(1) safe(1) mem] uv(3) t
        by (auto simp: bin_val_def split: if_splits)
    next
      assume "op = Mod" "m = mr_mod x y"
      then show ?thesis using mr_mod.sound [OF a(1) b(1) TrueI mem] uv(3) t
        by (auto simp: bin_val_def split: if_splits)
    next
      assume "op = MinOp" "mr_unify x y = Inr m"
      then show ?thesis using mr_unify_mem(2) [OF _ a(1) b(1) safe(2)] mem uv(3)
        by (auto simp: bin_val_def min_def split: if_splits)
    next
      assume "op = MaxOp" "mr_unify x y = Inr m"
      then show ?thesis using mr_unify_mem(2) [OF _ a(1) b(1) safe(2)] mem uv(3)
        by (auto simp: bin_val_def max_def split: if_splits)
    qed (use a(1) b(1) mem uv(3) t in
        \<open>auto simp: bin_val_def intro: mr_add_sound mr_sub_sound mr_mul_sound\<close>)
  qed
  ultimately show ?case by blast
next
  case (Select c a b)
  then obtain x y where xy: "analyze s a = Inr x" "analyze s b = Inr y" "mr_unify x y = Inr m"
    by (auto simp: rbind_Inr_iff)
  have a: "mr_ok x" "eval \<rho> a i = Some z \<Longrightarrow> mr_mem z x" for z
    using Select.IH(2) [OF xy(1) _ Select.prems(3)] Select.prems(2) by auto
  have b: "mr_ok y" "eval \<rho> b i = Some z \<Longrightarrow> mr_mem z y" for z
    using Select.IH(3) [OF xy(2) _ Select.prems(3)] Select.prems(2) by auto
  have "unify_fits x y" using Select.prems(2) xy by simp
  note u = mr_unify_mem [OF xy(3) a(1) b(1) this]
  then show ?case using a(2) b(2) by (auto split: option.splits if_splits)
next
  case (LetE n v b)
  show ?case
  proof (cases "is_int (type_of v)")
    case True
    then obtain x where x: "analyze s v = Inr x" "analyze (s(n \<mapsto> x)) b = Inr m"
      using LetE.prems(1) by (auto simp: rbind_Inr_iff)
    have "mr_ok x" "eval \<rho> v j = Some z \<Longrightarrow> mr_mem z x" for j z
      using LetE.IH(1) [OF x(1) _ LetE.prems(3)] LetE.prems(2) True by auto
    then have "scope_ok (s(n \<mapsto> x)) (bind_var \<rho> n (eval \<rho> v))"
      by (rule scope_ok_bind [OF LetE.prems(3)])
    moreover have "analyze_safe (s(n \<mapsto> x)) b" using LetE.prems(2) True x(1) by simp
    ultimately show ?thesis using LetE.IH(2) [OF x(2), of "bind_var \<rho> n (eval \<rho> v)" i] by (simp add: fun_upd_def)
  next
    case False
    then have "analyze s b = Inr m" "analyze_safe s b" "s n = None" using LetE.prems(1,2) by simp_all
    then show ?thesis
      using LetE.IH(2) [OF _ _ scope_ok_bind_other [OF LetE.prems(3)], of m n "eval \<rho> v" i] by simp
  qed
qed (auto simp: mr_const_ok)

subsection \<open>Properties\<close>


text \<open>Evaluation of the analysis on concrete expressions.\<close>

lemmas mr_eval = mr_top_def mr_mul_def mr_add_def mr_sub_def mr_unify_def mr_unify_ordered_def
  mul_would_overflow_def add_would_overflow_def sub_would_overflow_def max_val_eq min_val_eq
  halide_gcd_def gcd_loop.simps mr_mod_int_def mod_imp_eq_emod s64_iff cmod_def cdiv_def s_wrap_id
  unify_fits_def no_overflow_int_def Int_type_def type_pred_defs bin_type_def

abbreviation i32 :: "int \<Rightarrow> expr" where
  "i32 v \<equiv> IntImm (Int_type 32 1) v"

abbreviation v32 :: "string \<Rightarrow> expr" where
  "v32 n \<equiv> Variable (Int_type 32 1) n no_refs"


text \<open>
  \<open>reduce_expr_modulo\<close>: when it returns a remainder for a modulus that is not zero, every value
  of the expression leaves that remainder under Euclidean division.
\<close>

theorem reduce_expr_modulo_sound:
  assumes "reduce_expr_modulo s e n = Inr (Some r)" and "n \<noteq> 0" and "is_s64 n"
    and "analyze_safe s e" and "scope_ok s \<rho>" and "eval \<rho> e i = Some z"
  shows "emod z n = r"
proof -
  obtain m where m: "analyze s e = Inr m" "mr_mod_int (mr_modulus m) n = 0"
    "r = mr_mod_int (mr_remainder m) n"
    using assms(1) by (auto simp: reduce_expr_modulo_def rbind_Inr_iff split: if_splits)
  have ok: "mr_ok m" "mr_mem z m" using analyze_sound [OF m(1) assms(4,5)] assms(6) by auto
  have "n dvd mr_modulus m" using m(2) assms(2,3)
    by (simp add: mr_mod_int_def mod_imp_eq_emod emod_eq_0_iff)
  then have "n dvd z - mr_remainder m" using ok(2) by (auto simp: mr_mem_def intro: dvd_trans)
  then have "mr_mod_int z n = r" using mr_mod_int_eq_iff [OF assms(3)] m(3) by simp
  then show ?thesis using assms(2,3) by (simp add: mr_mod_int_def mod_imp_eq_emod)
qed

theorem reduce_expr_modulo_sound_witness:
  "reduce_expr_modulo (\<lambda>_. None) (Bin Add (Bin Mul (v32 ''x'') (i32 16)) (i32 13)) 8 = Inr (Some 5)
   \<and> emod 45 8 = 5"
proof -
  let ?e = "Bin Add (Bin Mul (v32 ''x'') (i32 16)) (i32 13)"
  let ?\<rho> = "\<lparr>env_var = \<lambda>n i. Some 2, env_mem = \<lambda>n k. None, env_call = \<lambda>n k vs i. None\<rparr>"
  have r: "reduce_expr_modulo (\<lambda>_. None) ?e 8 = Inr (Some 5)"
    by (simp add: reduce_expr_modulo_def mr_eval)
  have s: "analyze_safe (\<lambda>_. None) ?e" by (simp add: mr_eval)
  have c: "scope_ok (\<lambda>_. None) ?\<rho>" by (simp add: scope_ok_def)
  have v: "eval ?\<rho> ?e 0 = Some 45"
    by (simp add: bin_val_def wrap_ty_def no_overflow_int_def Int_type_def type_pred_defs bin_type_def)
  have "is_s64 8" by (simp add: s64_iff)
  from reduce_expr_modulo_sound [OF r _ this s c v] r show ?thesis by simp
qed

text \<open>
  C6. \<open>ModulusRemainder::unify\<close> is not conservative when the difference of the remainders overflows
  64 bits: it returns modulus 0 and remainder 1, the set holding only the number 1, instead of all
  integers, so it loses the members of both arguments.
\<close>

theorem unify_overflow_unsound:
  "\<exists>a b m. mr_ok a \<and> mr_ok b \<and> mr_unify a b = Inr m \<and>
     mr_mem (mr_remainder a) a \<and> \<not> mr_mem (mr_remainder a) m"
proof (intro exI conjI)
  let ?a = "mk_mr 0 9223372036854775807" and ?b = "mk_mr 0 (-9223372036854775807)"
  show "mr_ok ?a" "mr_ok ?b" by (simp_all add: mr_ok_def s64_iff)
  have "sub_would_overflow 64 9223372036854775807 (-9223372036854775807)"
    by (subst sub_would_overflow_iff) (simp_all add: s64_iff)
  then show "mr_unify ?a ?b = Inr (mk_mr 0 1)"
    by (simp only: mr_unify_def mr_unify_ordered_def mk_mr_simps if_True) simp
qed simp_all

end
