(* ===== verification/Pattern.thy ===== *)
theory Pattern
  imports ModRemFacts
begin

text \<open>
  The pattern language of \<open>IRMatch.h\<close>: the C++ templates whose instances are written with overloaded
  operators (\<open>x + c0\<close>, \<open>select(x, y, z)\<close>, \<open>fold(c0 * c1)\<close>) are here the constructors of a datatype,
  and a call \<open>rewrite(before, after, predicate)\<close> of a \<open>Rewriter\<close> is a value of type \<open>rule\<close>, so that a
  visit method's chain of calls is a list.
\<close>

datatype pat =
    PWild nat
  | PWildConst nat
  | PConst int
  | PBin binop pat pat
  | PNot pat
  | PSelect pat pat pat
  | PBroadcast pat "nat option"
  | PRamp pat pat "nat option"
  | PNegate pat
  | PIntrin string "pat list"
  | PFold pat
  | POverflows pat
  | PIndeterminate
  | POverflow
  | PIsConst pat
  | PCanProve pat
  | PIsFloat pat
  | PTypeMin
  | PTypeMax
  | POpA
  | POpB
  | PCastOut pat

text \<open>The overloaded operators.\<close>

instantiation pat :: "{plus, minus, uminus, times, divide, modulo}"
begin

definition plus_pat :: "pat \<Rightarrow> pat \<Rightarrow> pat" where
  "plus_pat p q = PBin Add p q"

definition minus_pat :: "pat \<Rightarrow> pat \<Rightarrow> pat" where
  "minus_pat p q = PBin Sub p q"

definition uminus_pat :: "pat \<Rightarrow> pat" where
  "uminus_pat p = PNegate p"

definition times_pat :: "pat \<Rightarrow> pat \<Rightarrow> pat" where
  "times_pat p q = PBin Mul p q"

definition divide_pat :: "pat \<Rightarrow> pat \<Rightarrow> pat" where
  "divide_pat p q = PBin Div p q"

definition modulo_pat :: "pat \<Rightarrow> pat \<Rightarrow> pat" where
  "modulo_pat p q = PBin Mod p q"

instance ..

end

lemmas pat_ops = plus_pat_def minus_pat_def uminus_pat_def times_pat_def divide_pat_def modulo_pat_def

text \<open>The wildcards \<open>x\<close>, \<open>y\<close>, \<dots>, the constants \<open>c0\<close>, \<dots> and the other operators of the rules.\<close>

abbreviation X :: pat where "X \<equiv> PWild 0"
abbreviation Y :: pat where "Y \<equiv> PWild 1"
abbreviation Z :: pat where "Z \<equiv> PWild 2"
abbreviation W :: pat where "W \<equiv> PWild 3"
abbreviation U :: pat where "U \<equiv> PWild 4"
abbreviation V :: pat where "V \<equiv> PWild 5"
abbreviation C0 :: pat where "C0 \<equiv> PWildConst 0"
abbreviation C1 :: pat where "C1 \<equiv> PWildConst 1"
abbreviation C2 :: pat where "C2 \<equiv> PWildConst 2"
abbreviation C3 :: pat where "C3 \<equiv> PWildConst 3"
abbreviation K :: "int \<Rightarrow> pat" where "K \<equiv> PConst"
abbreviation pMin :: "pat \<Rightarrow> pat \<Rightarrow> pat" where "pMin \<equiv> PBin MinOp"
abbreviation pMax :: "pat \<Rightarrow> pat \<Rightarrow> pat" where "pMax \<equiv> PBin MaxOp"
abbreviation pEQ :: "pat \<Rightarrow> pat \<Rightarrow> pat" where "pEQ \<equiv> PBin EQ"
abbreviation pNE :: "pat \<Rightarrow> pat \<Rightarrow> pat" where "pNE \<equiv> PBin NE"
abbreviation pLT :: "pat \<Rightarrow> pat \<Rightarrow> pat" where "pLT \<equiv> PBin LT"
abbreviation pLE :: "pat \<Rightarrow> pat \<Rightarrow> pat" where "pLE \<equiv> PBin LE"
abbreviation pGT :: "pat \<Rightarrow> pat \<Rightarrow> pat" where "pGT \<equiv> PBin GT"
abbreviation pGE :: "pat \<Rightarrow> pat \<Rightarrow> pat" where "pGE \<equiv> PBin GE"
abbreviation pAnd :: "pat \<Rightarrow> pat \<Rightarrow> pat" where "pAnd \<equiv> PBin AndOp"
abbreviation pOr :: "pat \<Rightarrow> pat \<Rightarrow> pat" where "pOr \<equiv> PBin OrOp"

text \<open>
  \<open>PTypeMin\<close> and \<open>PTypeMax\<close> are the expressions \<open>ty.min()\<close> and \<open>ty.max()\<close> of the type of the
  wildcards, \<open>POpA\<close> and \<open>POpB\<close> the operands \<open>a\<close> and \<open>b\<close> of the rewritten node inside a replacement,
  and \<open>PCastOut\<close> is a cast to the type of the node.

  The replacement of a rule is a pattern, one of the operands of the rewritten node (the two values
  of a select), or an integer that becomes a constant of the node's type. A guard is the condition
  on the node that the source writes in front of a group of rules: \<open>ty\<close> is the type of the operands
  of a comparison, and \<open>GNonZero\<close> the test that the bounds of the divisor exclude zero.
\<close>

datatype after = APat pat | AExprA | AExprB | AInt int

datatype guard =
    GAll
  | GNoOvf | GNoOvfInt | GNoOvfScalarInt
  | GNoOvfTy | GNoOvfIntTy | GIntTy | GFloatTy
  | GNotUInt | GNotFloat | GFloat | GBool | GBoolTy | GNonZero

datatype rule = Rule (rule_guard: guard) (rule_before: pat) (rule_after: after)
  (rule_pred: "pat option")

end
