(* ===== verification/Matcher.thy ===== *)
theory Matcher
  imports Pattern
begin

text \<open>
  The engine of \<open>IRMatch.h\<close>: matching a pattern against an expression, folding a pattern of
  constants, making an expression from a pattern, and the calls of a \<open>Rewriter\<close>. The bindings that a
  failed match leaves behind are never read by the next one, so every match starts from the empty
  state.

  Arithmetic on \<open>double\<close> is a parameter of the engine, the record \<open>float_ops\<close>: its operators, the
  conversions from and to integers, to narrower formats and to and from the bit pattern. The other
  parameters are the prover of \<open>can_prove\<close> and the running number in a call of
  \<open>indeterminate_expression\<close> or \<open>signed_integer_overflow\<close>.
\<close>

unbundle bit_operations_syntax

subsection \<open>Constants\<close>

record float_ops =
  fl_bin :: "binop \<Rightarrow> dbl \<Rightarrow> dbl \<Rightarrow> dbl"
  fl_neg :: "dbl \<Rightarrow> dbl"
  fl_of_int :: "int \<Rightarrow> dbl"
  fl_to_int :: "dbl \<Rightarrow> int"
  fl_round :: "nat \<Rightarrow> dbl \<Rightarrow> dbl"
  fl_bits :: "dbl \<Rightarrow> int"
  fl_of_bits :: "int \<Rightarrow> dbl"

text \<open>\<open>halide_scalar_value_t\<close>: 64 bits, read as a signed or unsigned integer or as a \<open>double\<close>.\<close>

datatype scalar_value = VI int | VF dbl

definition rd_i64 :: "float_ops \<Rightarrow> scalar_value \<Rightarrow> int" where
  "rd_i64 fl v = s_wrap 64 (case v of VI z \<Rightarrow> z | VF d \<Rightarrow> fl_bits fl d)"

definition rd_u64 :: "float_ops \<Rightarrow> scalar_value \<Rightarrow> int" where
  "rd_u64 fl v = u_wrap 64 (case v of VI z \<Rightarrow> z | VF d \<Rightarrow> fl_bits fl d)"

definition rd_f64 :: "float_ops \<Rightarrow> scalar_value \<Rightarrow> dbl" where
  "rd_f64 fl v = (case v of VI z \<Rightarrow> fl_of_bits fl (u_wrap 64 z) | VF d \<Rightarrow> d)"

text \<open>The operator \<open>==\<close> on \<open>double\<close>.\<close>

definition dbl_eq :: "dbl \<Rightarrow> dbl \<Rightarrow> bool" where
  "dbl_eq a b \<longleftrightarrow> a \<noteq> NaN \<and> b \<noteq> NaN \<and> dbl_key a = dbl_key b"

text \<open>The default \<open>halide_type_t\<close>, and the two flags kept in the lanes.\<close>

definition no_type :: htype where
  "no_type = \<lparr>ty_code = TInt, ty_bits = 0, ty_lanes = 0, ty_handle = None\<rparr>"

definition signed_integer_overflow :: nat where
  "signed_integer_overflow = 0x8000"

definition indeterminate_expression :: nat where
  "indeterminate_expression = 0x4000"

definition special_values_mask :: nat where
  "special_values_mask = 0xc000"

definition add_lanes :: "htype \<Rightarrow> nat \<Rightarrow> htype" where
  "add_lanes ty l = ty\<lparr>ty_lanes := ty_lanes ty OR l\<rparr>"

definition special :: "htype \<Rightarrow> bool" where
  "special ty \<longleftrightarrow> ty_lanes ty AND special_values_mask \<noteq> 0"

definition make_indeterminate_expression :: "int \<Rightarrow> htype \<Rightarrow> expr result" where
  "make_indeterminate_expression ctr t =
     rbind (make_IntImm (Int_type 32 1) ctr) (\<lambda>n.
       make_Call t ''indeterminate_expression'' [n] Intrinsic 0 no_refs)"

definition make_signed_integer_overflow :: "int \<Rightarrow> htype \<Rightarrow> expr result" where
  "make_signed_integer_overflow ctr t =
     rbind (make_IntImm (Int_type 32 1) ctr) (\<lambda>n.
       make_Call t ''signed_integer_overflow'' [n] Intrinsic 0 no_refs)"

definition make_const_special_expr :: "int \<Rightarrow> htype \<Rightarrow> expr result" where
  "make_const_special_expr ctr ty =
     (let flags = ty_lanes ty AND special_values_mask;
          t = ty\<lparr>ty_lanes := ty_lanes ty AND 0x3fff\<rparr>
      in if flags AND indeterminate_expression \<noteq> 0 then make_indeterminate_expression ctr t
         else if flags AND signed_integer_overflow \<noteq> 0 then make_signed_integer_overflow ctr t
         else Inl InternalError)"

definition make_FloatImm :: "float_ops \<Rightarrow> htype \<Rightarrow> dbl \<Rightarrow> expr result" where
  "make_FloatImm fl t value =
     assert_that (is_float t \<and> is_scalar t)
     (assert_that (ty_bits t = 16 \<or> ty_bits t = 32 \<or> ty_bits t = 64)
     (Inr (FloatImm t (if ty_bits t = 64 then value else fl_round fl (ty_bits t) value))))"

definition make_const_expr :: "float_ops \<Rightarrow> int \<Rightarrow> scalar_value \<Rightarrow> htype \<Rightarrow> expr result" where
  "make_const_expr fl ctr val ty =
     (if special ty then make_const_special_expr ctr ty
      else
        (let st = ty\<lparr>ty_lanes := 1\<rparr> in
         rbind (case ty_code ty of
             TInt \<Rightarrow> make_IntImm st (rd_i64 fl val)
           | TUInt \<Rightarrow> make_UIntImm st (rd_u64 fl val)
           | TFloat \<Rightarrow> make_FloatImm fl st (rd_f64 fl val)
           | _ \<Rightarrow> Inl InternalError)
         (\<lambda>e. if ty_lanes ty > 1 then make_Broadcast e (ty_lanes ty) else Inr e)))"

text \<open>\<open>make_const\<close> and \<open>make_zero\<close> of \<open>IROperator.cpp\<close>, for an integer value.\<close>

definition make_const_scalar :: "float_ops \<Rightarrow> htype \<Rightarrow> int \<Rightarrow> expr result" where
  "make_const_scalar fl t v =
     (if is_int t then make_IntImm t v
      else if is_uint t then make_UIntImm t (u_wrap 64 v)
      else if is_float t then make_FloatImm fl t (fl_of_int fl v)
      else Inl InternalError)"

definition make_const :: "float_ops \<Rightarrow> htype \<Rightarrow> int \<Rightarrow> expr result" where
  "make_const fl t v =
     (if is_vector t
      then rbind (make_const_scalar fl (element_of t) v) (\<lambda>e. make_Broadcast e (ty_lanes t))
      else make_const_scalar fl t v)"

fun is_const :: "expr \<Rightarrow> bool" where
  "is_const (IntImm t v) \<longleftrightarrow> True"
| "is_const (UIntImm t v) \<longleftrightarrow> True"
| "is_const (FloatImm t v) \<longleftrightarrow> True"
| "is_const (StringImm t v) \<longleftrightarrow> True"
| "is_const (Cast t v) \<longleftrightarrow> is_const v"
| "is_const (Ramp b s l) \<longleftrightarrow> is_const b \<and> is_const s"
| "is_const (Broadcast v l) \<longleftrightarrow> is_const v"
| "is_const e \<longleftrightarrow> False"

text \<open>\<open>is_zero\<close> and \<open>is_one\<close>, which differ in the number only.\<close>

fun is_number :: "int \<Rightarrow> expr \<Rightarrow> bool" where
  "is_number n (IntImm t v) \<longleftrightarrow> v = n"
| "is_number n (UIntImm t v) \<longleftrightarrow> v = n"
| "is_number n (FloatImm t v) \<longleftrightarrow> dbl_eq v (Fin (of_int n))"
| "is_number n (Cast t v) \<longleftrightarrow> is_number n v"
| "is_number n (Broadcast v l) \<longleftrightarrow> is_number n v"
| "is_number n (Call t m as ct vi r) \<longleftrightarrow>
     is_intrinsic_call ct \<and> (m = ''bool_to_mask'' \<or> m = ''cast_mask'') \<and>
     (case as of [] \<Rightarrow> False | a # _ \<Rightarrow> is_number n a)"
| "is_number n e \<longleftrightarrow> False"

definition is_zero :: "expr \<Rightarrow> bool" where
  "is_zero e \<longleftrightarrow> is_number 0 e"

definition is_one :: "expr \<Rightarrow> bool" where
  "is_one e \<longleftrightarrow> is_number 1 e"

subsection \<open>Fast equality\<close>

text \<open>
  \<open>IRMatcher::equal\<close>, which assumes well-typed expressions and looks at fewer fields than
  \<open>IRComparer\<close>. A node is equal to itself at once in the source; comparing its fields gives the same
  answer unless it holds a NaN.
\<close>

function fast_equal :: "expr \<Rightarrow> expr \<Rightarrow> bool"
  and equal_helper :: "expr \<Rightarrow> expr \<Rightarrow> bool"
  and equal_helper_vector :: "expr list \<Rightarrow> expr list \<Rightarrow> bool" where
  "fast_equal a b \<longleftrightarrow>
     type_eq (type_of a) (type_of b) \<and> node_type a = node_type b \<and> equal_helper a b"
| "equal_helper (IntImm t v) b = (case b of IntImm t' v' \<Rightarrow> v = v' | _ \<Rightarrow> False)"
| "equal_helper (UIntImm t v) b = (case b of UIntImm t' v' \<Rightarrow> v = v' | _ \<Rightarrow> False)"
| "equal_helper (FloatImm t v) b = (case b of FloatImm t' v' \<Rightarrow> dbl_eq v v' | _ \<Rightarrow> False)"
| "equal_helper (StringImm t v) b = (case b of StringImm t' v' \<Rightarrow> v = v' | _ \<Rightarrow> False)"
| "equal_helper (Cast t v) b = (case b of Cast t' v' \<Rightarrow> fast_equal v v' | _ \<Rightarrow> False)"
| "equal_helper (Variable t n r) b = (case b of Variable t' n' r' \<Rightarrow> n = n' | _ \<Rightarrow> False)"
| "equal_helper (Bin op x y) b =
     (case b of Bin op' x' y' \<Rightarrow> fast_equal x x' \<and> fast_equal y y' | _ \<Rightarrow> False)"
| "equal_helper (NotE x) b = (case b of NotE x' \<Rightarrow> fast_equal x x' | _ \<Rightarrow> False)"
| "equal_helper (Select c x y) b =
     (case b of Select c' x' y' \<Rightarrow> fast_equal c c' \<and> fast_equal x x' \<and> fast_equal y y'
      | _ \<Rightarrow> False)"
| "equal_helper (Load t n p i r al) b =
     (case b of Load t' n' p' i' r' al' \<Rightarrow> n = n' \<and> fast_equal i i' | _ \<Rightarrow> False)"
| "equal_helper (Ramp x y l) b =
     (case b of Ramp x' y' l' \<Rightarrow> fast_equal x x' \<and> fast_equal y y' | _ \<Rightarrow> False)"
| "equal_helper (Broadcast v l) b = (case b of Broadcast v' l' \<Rightarrow> fast_equal v v' | _ \<Rightarrow> False)"
| "equal_helper (Call t n as ct vi r) b =
     (case b of Call t' n' as' ct' vi' r' \<Rightarrow>
        n = n' \<and> ct = ct' \<and> vi = vi' \<and> length as = length as' \<and> equal_helper_vector as as'
      | _ \<Rightarrow> False)"
| "equal_helper (LetE n v x) b =
     (case b of LetE n' v' x' \<Rightarrow> n = n' \<and> fast_equal v v' \<and> fast_equal x x' | _ \<Rightarrow> False)"
| "equal_helper (Shuffle vs is) b =
     (case b of Shuffle vs' is' \<Rightarrow>
        length vs = length vs' \<and> equal_helper_vector vs vs' \<and> is = is'
      | _ \<Rightarrow> False)"
| "equal_helper_vector [] ys = True"
| "equal_helper_vector (x # xs) ys =
     (case ys of [] \<Rightarrow> True | y # ys' \<Rightarrow> fast_equal x y \<and> equal_helper_vector xs ys')"
  by pat_completeness auto
termination
  by (relation "measure (\<lambda>x. case x of Inl (a, b) \<Rightarrow> 2 * size a + 1
      | Inr (Inl (a, b)) \<Rightarrow> 2 * size a | Inr (Inr (xs, ys)) \<Rightarrow> 2 * size_list size xs)") auto

subsection \<open>Matching\<close>

record matcher_state =
  ms_wild :: "nat \<Rightarrow> expr option"
  ms_const :: "nat \<Rightarrow> (scalar_value \<times> htype) option"

definition empty_state :: matcher_state where
  "empty_state = \<lparr>ms_wild = (\<lambda>_. None), ms_const = (\<lambda>_. None)\<rparr>"

text \<open>
  What a \<open>Rewriter\<close> works with: the operands and the type of the rewritten node, the type of the
  wildcards, and the parameters of the engine.
\<close>

record rewriter =
  rw_a :: expr
  rw_b :: expr
  rw_out :: htype
  rw_wild :: htype
  rw_nonzero :: bool
  rw_fl :: float_ops
  rw_prover :: "expr \<Rightarrow> expr"
  rw_ctr :: int

fun strip_broadcast :: "expr \<Rightarrow> expr" where
  "strip_broadcast (Broadcast v l) = v"
| "strip_broadcast e = e"

definition bind_wild :: "nat \<Rightarrow> expr \<Rightarrow> matcher_state \<Rightarrow> matcher_state option" where
  "bind_wild i e st = (case ms_wild st i of
      None \<Rightarrow> Some (st\<lparr>ms_wild := (ms_wild st)(i \<mapsto> e)\<rparr>)
    | Some e' \<Rightarrow> if fast_equal e' e then Some st else None)"

text \<open>
  \<open>WildConst\<close>: the constant is compared with the stored one together with the type of the scalar
  constant, while the stored type is that of the whole expression.
\<close>

definition bind_const ::
  "nat \<Rightarrow> htype \<Rightarrow> scalar_value \<Rightarrow> (scalar_value \<Rightarrow> bool) \<Rightarrow> htype \<Rightarrow> matcher_state \<Rightarrow>
   matcher_state option" where
  "bind_const i t v same whole st = (case ms_const st i of
      None \<Rightarrow> Some (st\<lparr>ms_const := (ms_const st)(i \<mapsto> (v, whole))\<rparr>)
    | Some (v', t') \<Rightarrow> if type_eq t t' \<and> same v' then Some st else None)"

definition match_wild_const :: "float_ops \<Rightarrow> nat \<Rightarrow> expr \<Rightarrow> matcher_state \<Rightarrow> matcher_state option" where
  "match_wild_const fl i e st = (case strip_broadcast e of
      IntImm t v \<Rightarrow> bind_const i t (VI v) (\<lambda>w. v = rd_i64 fl w) (type_of e) st
    | UIntImm t v \<Rightarrow> bind_const i t (VI v) (\<lambda>w. v = rd_u64 fl w) (type_of e) st
    | FloatImm t v \<Rightarrow> bind_const i t (VF v) (\<lambda>w. dbl_eq v (rd_f64 fl w)) (type_of e) st
    | _ \<Rightarrow> None)"

definition match_const :: "float_ops \<Rightarrow> int \<Rightarrow> expr \<Rightarrow> bool" where
  "match_const fl z e = (case strip_broadcast e of
      IntImm t v \<Rightarrow> v = z
    | UIntImm t v \<Rightarrow> v = u_wrap 64 z
    | FloatImm t v \<Rightarrow> dbl_eq v (fl_of_int fl z)
    | _ \<Rightarrow> False)"

text \<open>\<open>Type::min\<close> and \<open>Type::max\<close>.\<close>

definition float_extreme :: "float_ops \<Rightarrow> htype \<Rightarrow> dbl \<Rightarrow> dbl \<Rightarrow> expr result" where
  "float_extreme fl t half wide =
     (if \<not> is_float t then Inl InternalError
      else if ty_bits t = 16 then make_FloatImm fl t half
      else if ty_bits t = 32 \<or> ty_bits t = 64 then make_FloatImm fl t wide
      else Inl InternalError)"

definition type_min :: "float_ops \<Rightarrow> htype \<Rightarrow> expr result" where
  "type_min fl t =
     (let s = (if is_vector t then element_of t else t) in
      rbind (if is_int s then make_IntImm s (min_int (ty_bits s))
             else if is_uint s then make_UIntImm s 0
             else float_extreme fl s (Fin (- 65504)) NInf)
        (\<lambda>e. if is_vector t then make_Broadcast e (ty_lanes t) else Inr e))"

definition type_max :: "float_ops \<Rightarrow> htype \<Rightarrow> expr result" where
  "type_max fl t =
     (let s = (if is_vector t then element_of t else t) in
      rbind (if is_int s then make_IntImm s (max_int (ty_bits s))
             else if is_uint s then make_UIntImm s (max_uint (ty_bits s))
             else float_extreme fl s (Fin 65504) PInf)
        (\<lambda>e. if is_vector t then make_Broadcast e (ty_lanes t) else Inr e))"

definition match_specific :: "expr result \<Rightarrow> expr \<Rightarrow> bool" where
  "match_specific r e = (case r of Inl _ \<Rightarrow> False | Inr e' \<Rightarrow> fast_equal e' e)"

fun pmatch :: "rewriter \<Rightarrow> pat \<Rightarrow> expr \<Rightarrow> matcher_state \<Rightarrow> matcher_state option"
  and pmatch_args :: "rewriter \<Rightarrow> pat list \<Rightarrow> expr list \<Rightarrow> matcher_state \<Rightarrow> matcher_state option" where
  "pmatch rw (PWild i) e st = bind_wild i e st"
| "pmatch rw (PWildConst i) e st = match_wild_const (rw_fl rw) i e st"
| "pmatch rw (PConst z) e st = (if match_const (rw_fl rw) z e then Some st else None)"
| "pmatch rw (PBin op p q) e st = (case e of
      Bin op' a b \<Rightarrow> if op' = op then Option.bind (pmatch rw p a st) (pmatch rw q b) else None
    | _ \<Rightarrow> None)"
| "pmatch rw (PNot p) e st = (case e of NotE a \<Rightarrow> pmatch rw p a st | _ \<Rightarrow> None)"
| "pmatch rw (PSelect p q r) e st = (case e of
      Select c a b \<Rightarrow> Option.bind (pmatch rw p c st)
        (\<lambda>st. Option.bind (pmatch rw q a st) (pmatch rw r b))
    | _ \<Rightarrow> None)"
| "pmatch rw (PBroadcast p l) e st = (case e of
      Broadcast v l' \<Rightarrow> if l = None \<or> l = Some l' then pmatch rw p v st else None
    | _ \<Rightarrow> None)"
| "pmatch rw (PRamp p q l) e st = (case e of
      Ramp a b l' \<Rightarrow>
        if l = None \<or> l = Some l' then Option.bind (pmatch rw p a st) (pmatch rw q b) else None
    | _ \<Rightarrow> None)"
| "pmatch rw (PNegate p) e st = (case e of
      Bin Sub a b \<Rightarrow> Option.bind (pmatch rw p b st) (\<lambda>st. if is_zero a then Some st else None)
    | _ \<Rightarrow> None)"
| "pmatch rw (PIntrin n ps) e st = (case e of
      Call t m as ct vi r \<Rightarrow>
        if is_intrinsic_call ct \<and> m = n then pmatch_args rw ps as st else None
    | _ \<Rightarrow> None)"
| "pmatch rw PIndeterminate e st = (case e of
      Call t m as ct vi r \<Rightarrow>
        if is_intrinsic_call ct \<and> m = ''indeterminate_expression'' then Some st else None
    | _ \<Rightarrow> None)"
| "pmatch rw POverflow e st = (case e of
      Call t m as ct vi r \<Rightarrow>
        if is_intrinsic_call ct \<and> m = ''signed_integer_overflow'' then Some st else None
    | _ \<Rightarrow> None)"
| "pmatch rw PTypeMin e st = (if match_specific (type_min (rw_fl rw) (rw_wild rw)) e then Some st else None)"
| "pmatch rw PTypeMax e st = (if match_specific (type_max (rw_fl rw) (rw_wild rw)) e then Some st else None)"
| "pmatch rw p e st = None"
| "pmatch_args rw [] es st = Some st"
| "pmatch_args rw (p # ps) (e # es) st = Option.bind (pmatch rw p e st) (pmatch_args rw ps es)"
| "pmatch_args rw (p # ps) [] st = None"

subsection \<open>Folding constants\<close>

text \<open>
  \<open>constant_fold_bin_op\<close> and \<open>constant_fold_cmp_op\<close>: the overloads for the three kinds of numbers are
  chosen by the code of the type, and a flag is set in the lanes of the type.
\<close>

definition flag_if :: "bool \<Rightarrow> nat \<Rightarrow> htype \<Rightarrow> htype" where
  "flag_if b f ty = (if b then add_lanes ty f else ty)"

definition by_code ::
  "float_ops \<Rightarrow> htype \<Rightarrow> (int \<Rightarrow> int \<Rightarrow> int \<times> htype) \<Rightarrow> (int \<Rightarrow> int \<Rightarrow> int \<times> htype) \<Rightarrow>
   (dbl \<Rightarrow> dbl \<Rightarrow> scalar_value \<times> htype) \<Rightarrow> scalar_value \<Rightarrow> scalar_value \<Rightarrow> scalar_value \<times> htype" where
  "by_code fl ty fi fu ff a b = (case ty_code ty of
      TInt \<Rightarrow> map_prod VI id (fi (rd_i64 fl a) (rd_i64 fl b))
    | TUInt \<Rightarrow> map_prod VI id (fu (rd_u64 fl a) (rd_u64 fl b))
    | TFloat \<Rightarrow> ff (rd_f64 fl a) (rd_f64 fl b)
    | _ \<Rightarrow> (a, ty))"

definition fold_Add :: "float_ops \<Rightarrow> htype \<Rightarrow> scalar_value \<Rightarrow> scalar_value \<Rightarrow> scalar_value \<times> htype" where
  "fold_Add fl t = by_code fl t
     (\<lambda>a b. (s_wrap (ty_bits t) (a + b),
             flag_if (ty_bits t \<ge> 32 \<and> add_would_overflow (ty_bits t) a b) signed_integer_overflow t))
     (\<lambda>a b. (u_wrap (ty_bits t) (a + b), t))
     (\<lambda>a b. (VF (fl_bin fl Add a b), t))"

definition fold_Sub :: "float_ops \<Rightarrow> htype \<Rightarrow> scalar_value \<Rightarrow> scalar_value \<Rightarrow> scalar_value \<times> htype" where
  "fold_Sub fl t = by_code fl t
     (\<lambda>a b. (s_wrap (ty_bits t) (a - b),
             flag_if (ty_bits t \<ge> 32 \<and> sub_would_overflow (ty_bits t) a b) signed_integer_overflow t))
     (\<lambda>a b. (u_wrap (ty_bits t) (a - b), t))
     (\<lambda>a b. (VF (fl_bin fl Sub a b), t))"

definition fold_Mul :: "float_ops \<Rightarrow> htype \<Rightarrow> scalar_value \<Rightarrow> scalar_value \<Rightarrow> scalar_value \<times> htype" where
  "fold_Mul fl t = by_code fl t
     (\<lambda>a b. (s_wrap (ty_bits t) (a * b),
             flag_if (ty_bits t \<ge> 32 \<and> mul_would_overflow (ty_bits t) a b) signed_integer_overflow t))
     (\<lambda>a b. (u_wrap (ty_bits t) (a * b), t))
     (\<lambda>a b. (VF (fl_bin fl Mul a b), t))"

definition fold_Div :: "float_ops \<Rightarrow> htype \<Rightarrow> scalar_value \<Rightarrow> scalar_value \<Rightarrow> scalar_value \<times> htype" where
  "fold_Div fl t = by_code fl t
     (\<lambda>a b. if b = 0 then (0, add_lanes t indeterminate_expression) else (div_imp a b, t))
     (\<lambda>a b. if b = 0 then (0, add_lanes t indeterminate_expression) else (a div b, t))
     (\<lambda>a b. (VF (fl_bin fl Div a b), t))"

definition fold_Mod :: "float_ops \<Rightarrow> htype \<Rightarrow> scalar_value \<Rightarrow> scalar_value \<Rightarrow> scalar_value \<times> htype" where
  "fold_Mod fl t = by_code fl t
     (\<lambda>a b. if b = 0 then (0, add_lanes t indeterminate_expression) else (mod_imp a b, t))
     (\<lambda>a b. if b = 0 then (0, add_lanes t indeterminate_expression) else (a mod b, t))
     (\<lambda>a b. (VF (fl_bin fl Mod a b), t))"

definition fold_Min :: "float_ops \<Rightarrow> htype \<Rightarrow> scalar_value \<Rightarrow> scalar_value \<Rightarrow> scalar_value \<times> htype" where
  "fold_Min fl t = by_code fl t (\<lambda>a b. (min a b, t)) (\<lambda>a b. (min a b, t))
     (\<lambda>a b. (VF (fl_bin fl MinOp a b), t))"

definition fold_Max :: "float_ops \<Rightarrow> htype \<Rightarrow> scalar_value \<Rightarrow> scalar_value \<Rightarrow> scalar_value \<times> htype" where
  "fold_Max fl t = by_code fl t (\<lambda>a b. (max a b, t)) (\<lambda>a b. (max a b, t))
     (\<lambda>a b. (VF (fl_bin fl MaxOp a b), t))"

definition fold_And :: "float_ops \<Rightarrow> htype \<Rightarrow> scalar_value \<Rightarrow> scalar_value \<Rightarrow> scalar_value \<times> htype" where
  "fold_And fl t = by_code fl t (\<lambda>a b. (a AND b AND 1, t)) (\<lambda>a b. (a AND b AND 1, t))
     (\<lambda>a b. (VI 0, add_lanes t indeterminate_expression))"

definition fold_Or :: "float_ops \<Rightarrow> htype \<Rightarrow> scalar_value \<Rightarrow> scalar_value \<Rightarrow> scalar_value \<times> htype" where
  "fold_Or fl t = by_code fl t (\<lambda>a b. ((a OR b) AND 1, t)) (\<lambda>a b. ((a OR b) AND 1, t))
     (\<lambda>a b. (VI 0, add_lanes t indeterminate_expression))"

definition int_cmp :: "binop \<Rightarrow> int \<Rightarrow> int \<Rightarrow> bool" where
  "int_cmp op a b = (case op of
      EQ \<Rightarrow> a = b | NE \<Rightarrow> a \<noteq> b | LT \<Rightarrow> a < b | LE \<Rightarrow> a \<le> b | GT \<Rightarrow> a > b | GE \<Rightarrow> a \<ge> b | _ \<Rightarrow> False)"

definition dbl_cmp :: "binop \<Rightarrow> dbl \<Rightarrow> dbl \<Rightarrow> bool" where
  "dbl_cmp op a b = (case op of
      EQ \<Rightarrow> dbl_eq a b | NE \<Rightarrow> \<not> dbl_eq a b | LT \<Rightarrow> dbl_less a b | GT \<Rightarrow> dbl_less b a
    | LE \<Rightarrow> dbl_less a b \<or> dbl_eq a b | GE \<Rightarrow> dbl_less b a \<or> dbl_eq a b | _ \<Rightarrow> False)"

definition fold_cmp ::
  "binop \<Rightarrow> float_ops \<Rightarrow> htype \<Rightarrow> scalar_value \<Rightarrow> scalar_value \<Rightarrow> scalar_value \<times> htype" where
  "fold_cmp op fl t a b =
     (let v = fst (by_code fl t (\<lambda>a b. (of_bool (int_cmp op a b), t)) (\<lambda>a b. (of_bool (int_cmp op a b), t))
                   (\<lambda>a b. (VI (of_bool (dbl_cmp op a b)), t)) a b)
      in (v, t\<lparr>ty_code := TUInt, ty_bits := 1\<rparr>))"

definition constant_fold_op ::
  "binop \<Rightarrow> float_ops \<Rightarrow> htype \<Rightarrow> scalar_value \<Rightarrow> scalar_value \<Rightarrow> scalar_value \<times> htype" where
  "constant_fold_op op = (case op of
      Add \<Rightarrow> fold_Add | Sub \<Rightarrow> fold_Sub | Mul \<Rightarrow> fold_Mul | Div \<Rightarrow> fold_Div | Mod \<Rightarrow> fold_Mod
    | MinOp \<Rightarrow> fold_Min | MaxOp \<Rightarrow> fold_Max | AndOp \<Rightarrow> fold_And | OrOp \<Rightarrow> fold_Or
    | _ \<Rightarrow> fold_cmp op)"

definition fold_negate :: "float_ops \<Rightarrow> scalar_value \<times> htype \<Rightarrow> scalar_value \<times> htype" where
  "fold_negate fl r = (case r of (v, ty) \<Rightarrow> (case ty_code ty of
      TInt \<Rightarrow>
        if ty_bits ty \<ge> 32 \<and> rd_u64 fl v \<noteq> 0 \<and> u_wrap 64 (push_bit (65 - ty_bits ty) (rd_u64 fl v)) = 0
        then (v, add_lanes ty signed_integer_overflow)
        else (VI (s_wrap (ty_bits ty) (- rd_i64 fl v)), ty)
    | TUInt \<Rightarrow> (VI (u_wrap (ty_bits ty) (- rd_u64 fl v)), ty)
    | TFloat \<Rightarrow> (VF (fl_neg fl (rd_f64 fl v)), ty)
    | _ \<Rightarrow> (v, ty)))"

definition fold_not :: "float_ops \<Rightarrow> scalar_value \<times> htype \<Rightarrow> scalar_value \<times> htype" where
  "fold_not fl r = (case r of (v, ty) \<Rightarrow>
     (VI (NOT (rd_u64 fl v) AND 1), flag_if (ty_code ty = TFloat) indeterminate_expression ty))"

text \<open>The value of a bound constant, or of a bound expression that is one.\<close>

definition fold_wild :: "expr \<Rightarrow> scalar_value \<times> htype" where
  "fold_wild e = ((case e of
      UIntImm t v \<Rightarrow> VI v | IntImm t v \<Rightarrow> VI v | FloatImm t v \<Rightarrow> VF v | _ \<Rightarrow> VI 0), type_of e)"

definition fold_const :: "float_ops \<Rightarrow> int \<Rightarrow> htype \<Rightarrow> scalar_value" where
  "fold_const fl z ty = (if ty_code ty = TFloat then VF (fl_of_int fl z) else VI z)"

fun is_PConst :: "pat \<Rightarrow> bool" where
  "is_PConst (PConst z) = True"
| "is_PConst p = False"

text \<open>\<open>And\<close> and \<open>Or\<close> do not look at the second operand when the first decides.\<close>

definition short_circuit :: "binop \<Rightarrow> float_ops \<Rightarrow> scalar_value \<Rightarrow> bool" where
  "short_circuit op fl v \<longleftrightarrow> op = AndOp \<and> rd_u64 fl v = 0 \<or> op = OrOp \<and> rd_u64 fl v = 1"

end
