(* ===== verification/Rewriter.thy ===== *)
theory Rewriter
  imports Matcher
begin

text \<open>
  The second half of the engine of \<open>IRMatch.h\<close>: folding a pattern to a constant
  (\<open>make_folded_const\<close>), making the expression of a pattern (\<open>make\<close>), deciding a predicate, and the
  call operator of \<open>Rewriter\<close> with the guard the visit methods write in front of a rule. A \<open>make\<close> that
  violates an assertion of the node it builds is an error.
\<close>

subsection \<open>Constructors the patterns use\<close>

definition make_const_double :: "float_ops \<Rightarrow> htype \<Rightarrow> dbl \<Rightarrow> expr result" where
  "make_const_double fl t v =
     (let s = (if is_vector t then element_of t else t) in
      rbind (if is_int s then make_IntImm s (fl_to_int fl v)
             else if is_uint s then make_UIntImm s (u_wrap 64 (fl_to_int fl v))
             else if is_float s then make_FloatImm fl s v
             else Inl InternalError)
        (\<lambda>e. if is_vector t then make_Broadcast e (ty_lanes t) else Inr e))"

definition make_zero :: "float_ops \<Rightarrow> htype \<Rightarrow> expr result" where
  "make_zero fl t =
     (if is_handle t
      then rbind (make_UIntImm (UInt_type 64 1) 0)
             (\<lambda>z. if ty_bits t * ty_lanes t = 64
                  then make_Call t ''reinterpret'' [z] PureIntrinsic 0 no_refs else Inl UserError)
      else make_const fl t 0)"

definition likely_call :: "string \<Rightarrow> expr \<Rightarrow> expr result" where
  "likely_call n e = make_Call (type_of e) n [e] PureIntrinsic 0 no_refs"

fun as_const_int :: "expr \<Rightarrow> int option" where
  "as_const_int (Broadcast v l) = as_const_int v"
| "as_const_int (IntImm t v) = Some v"
| "as_const_int e = None"

fun as_const_uint :: "expr \<Rightarrow> int option" where
  "as_const_uint (Broadcast v l) = as_const_uint v"
| "as_const_uint (UIntImm t v) = Some v"
| "as_const_uint e = None"

fun as_const_float :: "expr \<Rightarrow> dbl option" where
  "as_const_float (Broadcast v l) = as_const_float v"
| "as_const_float (FloatImm t v) = Some v"
| "as_const_float e = None"

text \<open>The function \<open>cast\<close> of \<open>IROperator.h\<close>, which folds constants and moves inside broadcasts.\<close>

function cast :: "float_ops \<Rightarrow> htype \<Rightarrow> expr \<Rightarrow> expr result" where
  "cast fl t a =
     (if type_eq (type_of a) t then Inr a
      else if is_handle t \<noteq> is_handle (type_of a) then Inl UserError
      else case as_const_int a of Some i \<Rightarrow> make_const fl t i
      | None \<Rightarrow> (case as_const_uint a of Some u \<Rightarrow> make_const fl t u
      | None \<Rightarrow> (case as_const_float a of Some f \<Rightarrow> make_const_double fl t f
      | None \<Rightarrow>
        if is_vector t then
          if is_scalar (type_of a)
          then rbind (cast fl (element_of t) a) (\<lambda>e. make_Broadcast e (ty_lanes t))
          else case a of
              Broadcast v l \<Rightarrow> assert_that (l = ty_lanes t)
                (rbind (cast fl (element_of t) v) (\<lambda>e. make_Broadcast e (ty_lanes t)))
            | _ \<Rightarrow> make_Cast t a
        else make_Cast t a)))"
  by pat_completeness auto
termination
  by (relation "measure (\<lambda>(fl, t, a). if is_vector t then 1 else 0)")
    (auto simp: is_vector_def element_of_def with_lanes_def mk_type_def)

text \<open>The operator nodes of a replacement: a scalar operand is broadcast to match a vector.\<close>

definition make_mixed :: "binop \<Rightarrow> expr \<Rightarrow> expr \<Rightarrow> expr result" where
  "make_mixed op ea eb =
     rbind (if is_vector (type_of ea) \<and> \<not> is_vector (type_of eb)
            then make_Broadcast eb (lanes_of ea) else Inr eb) (\<lambda>eb.
     rbind (if is_vector (type_of eb) \<and> \<not> is_vector (type_of ea)
            then make_Broadcast ea (lanes_of eb) else Inr ea) (\<lambda>ea.
     make_bin op ea eb))"

subsection \<open>Folding and making\<close>

fun pfold :: "rewriter \<Rightarrow> matcher_state \<Rightarrow> pat \<Rightarrow> htype \<Rightarrow> (scalar_value \<times> htype) result"
  and pmake :: "rewriter \<Rightarrow> matcher_state \<Rightarrow> pat \<Rightarrow> htype \<Rightarrow> expr result" where
  "pfold rw st (PWild i) ty =
     (case ms_wild st i of Some e \<Rightarrow> Inr (fold_wild e) | None \<Rightarrow> Inl InternalError)"
| "pfold rw st (PWildConst i) ty =
     (case ms_const st i of Some c \<Rightarrow> Inr c | None \<Rightarrow> Inl InternalError)"
| "pfold rw st (PConst z) ty = Inr (fold_const (rw_fl rw) z ty, ty)"
| "pfold rw st (PBin op p q) ty =
     (if is_PConst p then
        rbind (pfold rw st q ty) (\<lambda>(vb, tb).
          if short_circuit op (rw_fl rw) vb then Inr (vb, tb)
          else rbind (pfold rw st p tb) (\<lambda>(va, ta).
            Inr (constant_fold_op op (rw_fl rw) (add_lanes ta (ty_lanes tb)) va vb)))
      else
        rbind (pfold rw st p ty) (\<lambda>(va, ta).
          if short_circuit op (rw_fl rw) va then Inr (va, ta)
          else rbind (pfold rw st q ta) (\<lambda>(vb, tb).
            Inr (constant_fold_op op (rw_fl rw) (add_lanes tb (ty_lanes ta)) va vb))))"
| "pfold rw st (PNot p) ty = rbind (pfold rw st p ty) (\<lambda>r. Inr (fold_not (rw_fl rw) r))"
| "pfold rw st (PSelect c p q) ty =
     rbind (pfold rw st c no_type) (\<lambda>(vc, tc).
       rbind (if rd_u64 (rw_fl rw) vc AND 1 = 1 then pfold rw st p ty else pfold rw st q ty)
         (\<lambda>(v, t). Inr (v, add_lanes t (ty_lanes tc AND special_values_mask))))"
| "pfold rw st (PBroadcast p l) ty =
     rbind (pfold rw st p ty) (\<lambda>(v, t).
       Inr (v, t\<lparr>ty_lanes := (case l of Some n \<Rightarrow> n | None \<Rightarrow> ty_lanes ty) OR
                             (ty_lanes t AND special_values_mask)\<rparr>))"
| "pfold rw st (PNegate p) ty = rbind (pfold rw st p ty) (\<lambda>r. Inr (fold_negate (rw_fl rw) r))"
| "pfold rw st (PFold p) ty = pfold rw st p ty"
| "pfold rw st (POverflows p) ty =
     rbind (pfold rw st p ty) (\<lambda>(v, t).
       Inr (VI (of_bool (special t)), t\<lparr>ty_code := TUInt, ty_bits := 64, ty_lanes := 1\<rparr>))"
| "pfold rw st PIndeterminate ty = Inr (VI 0, add_lanes ty indeterminate_expression)"
| "pfold rw st POverflow ty = Inr (VI 0, add_lanes ty signed_integer_overflow)"
| "pfold rw st (PIsConst p) ty =
     rbind (pmake rw st p no_type) (\<lambda>e.
       Inr (VI (of_bool (is_const e)), ty\<lparr>ty_code := TUInt, ty_bits := 64, ty_lanes := 1\<rparr>))"
| "pfold rw st (PCanProve p) ty =
     rbind (pmake rw st p no_type) (\<lambda>c.
       let c' = rw_prover rw c in
       Inr (VI (of_bool (is_one c')), ty\<lparr>ty_code := TUInt, ty_bits := 1, ty_lanes := lanes_of c'\<rparr>))"
| "pfold rw st (PIsFloat p) ty =
     rbind (pmake rw st p no_type) (\<lambda>e.
       Inr (VI (of_bool (is_float (type_of e))),
            ty\<lparr>ty_code := TUInt, ty_bits := 1, ty_lanes := lanes_of e\<rparr>))"
| "pfold rw st p ty = Inl InternalError"
| "pmake rw st (PWild i) hint =
     (case ms_wild st i of Some e \<Rightarrow> Inr e | None \<Rightarrow> Inl InternalError)"
| "pmake rw st (PWildConst i) hint =
     (case ms_const st i of Some (v, t) \<Rightarrow> make_const_expr (rw_fl rw) (rw_ctr rw) v t
      | None \<Rightarrow> Inl InternalError)"
| "pmake rw st (PConst z) hint = make_const (rw_fl rw) hint z"
| "pmake rw st (PBin op p q) hint =
     (let h = (if is_compare op then no_type else hint) in
      if is_PConst p then
        rbind (pmake rw st q h) (\<lambda>eb. rbind (pmake rw st p (type_of eb)) (\<lambda>ea. make_mixed op ea eb))
      else
        rbind (pmake rw st p h) (\<lambda>ea. rbind (pmake rw st q (type_of ea)) (\<lambda>eb. make_mixed op ea eb)))"
| "pmake rw st (PNot p) hint = rbind (pmake rw st p hint) make_Not"
| "pmake rw st (PSelect c p q) hint =
     rbind (pmake rw st c no_type) (\<lambda>ec. rbind (pmake rw st p hint) (\<lambda>ea.
     rbind (pmake rw st q hint) (\<lambda>eb. make_Select ec ea eb)))"
| "pmake rw st (PBroadcast p l) hint =
     rbind (pmake rw st p (hint\<lparr>ty_lanes := 1\<rparr>))
       (\<lambda>e. make_Broadcast e (case l of Some n \<Rightarrow> n | None \<Rightarrow> ty_lanes hint))"
| "pmake rw st (PRamp p q l) hint =
     (let n = (case l of Some n \<Rightarrow> n | None \<Rightarrow> ty_lanes hint); h = hint\<lparr>ty_lanes := 1\<rparr> in
      if is_PConst p then
        rbind (pmake rw st q h) (\<lambda>eb. rbind (pmake rw st p (type_of eb)) (\<lambda>ea. make_Ramp ea eb n))
      else
        rbind (pmake rw st p h) (\<lambda>ea. rbind (pmake rw st q (type_of ea)) (\<lambda>eb. make_Ramp ea eb n)))"
| "pmake rw st (PNegate p) hint =
     rbind (pmake rw st p hint) (\<lambda>ea. rbind (make_zero (rw_fl rw) (type_of ea)) (\<lambda>z. make_bin Sub z ea))"
| "pmake rw st (PIntrin n (p # ps)) hint =
     (if n = ''likely'' \<or> n = ''likely_if_innermost''
      then rbind (pmake rw st p hint) (likely_call n)
      else Inl InternalError)"
| "pmake rw st (PCastOut p) hint =
     rbind (pmake rw st p no_type) (cast (rw_fl rw) (rw_out rw))"
| "pmake rw st (PFold p) hint =
     rbind (pfold rw st p hint) (\<lambda>(v, t). make_const_expr (rw_fl rw) (rw_ctr rw) v t)"
| "pmake rw st PIndeterminate hint =
     make_const_special_expr (rw_ctr rw) (add_lanes hint indeterminate_expression)"
| "pmake rw st POverflow hint =
     make_const_special_expr (rw_ctr rw) (add_lanes hint signed_integer_overflow)"
| "pmake rw st PTypeMin hint = type_min (rw_fl rw) (rw_wild rw)"
| "pmake rw st PTypeMax hint = type_max (rw_fl rw) (rw_wild rw)"
| "pmake rw st POpA hint = Inr (rw_a rw)"
| "pmake rw st POpB hint = Inr (rw_b rw)"
| "pmake rw st p hint = Inl InternalError"

subsection \<open>Rewriting\<close>

definition evaluate_predicate :: "rewriter \<Rightarrow> matcher_state \<Rightarrow> pat \<Rightarrow> bool result" where
  "evaluate_predicate rw st p =
     rbind (pfold rw st p (Bool_type 1)) (\<lambda>(v, t). Inr (rd_u64 (rw_fl rw) v \<noteq> 0 \<and> \<not> special t))"

definition build_replacement :: "rewriter \<Rightarrow> matcher_state \<Rightarrow> after \<Rightarrow> expr result" where
  "build_replacement rw st a = (case a of
      APat p \<Rightarrow> pmake rw st p (rw_out rw)
    | AExprA \<Rightarrow> Inr (rw_a rw)
    | AExprB \<Rightarrow> Inr (rw_b rw)
    | AInt z \<Rightarrow> make_const (rw_fl rw) (rw_out rw) z)"

definition no_overflow :: "htype \<Rightarrow> bool" where
  "no_overflow t \<longleftrightarrow> is_float t \<or> no_overflow_int t"

definition no_overflow_scalar_int :: "htype \<Rightarrow> bool" where
  "no_overflow_scalar_int t \<longleftrightarrow> is_scalar t \<and> no_overflow_int t"

definition guard_holds :: "rewriter \<Rightarrow> guard \<Rightarrow> bool" where
  "guard_holds rw g = (case g of
      GAll \<Rightarrow> True
    | GNoOvf \<Rightarrow> no_overflow (rw_out rw)
    | GNoOvfInt \<Rightarrow> no_overflow_int (rw_out rw)
    | GNoOvfScalarInt \<Rightarrow> no_overflow_scalar_int (rw_out rw)
    | GNoOvfTy \<Rightarrow> no_overflow (rw_wild rw)
    | GNoOvfIntTy \<Rightarrow> no_overflow_int (rw_wild rw)
    | GIntTy \<Rightarrow> no_overflow (rw_wild rw) \<and> is_int (rw_wild rw)
    | GFloatTy \<Rightarrow> no_overflow (rw_wild rw) \<and> is_float (rw_wild rw)
    | GNotUInt \<Rightarrow> \<not> is_uint (rw_out rw)
    | GNotFloat \<Rightarrow> \<not> is_float (rw_out rw)
    | GFloat \<Rightarrow> no_overflow (rw_out rw) \<and> is_float (rw_out rw)
    | GBool \<Rightarrow> is_bool (rw_out rw)
    | GBoolTy \<Rightarrow> is_bool (rw_wild rw)
    | GNonZero \<Rightarrow> rw_nonzero rw)"

text \<open>One call of the rewriter: \<open>None\<close> when the rule does not apply.\<close>

definition apply_rule :: "rewriter \<Rightarrow> rule \<Rightarrow> expr \<Rightarrow> expr result option" where
  "apply_rule rw r e =
     (if \<not> guard_holds rw (rule_guard r) then None
      else case pmatch rw (rule_before r) e empty_state of
        None \<Rightarrow> None
      | Some st \<Rightarrow>
          (case rule_pred r of
            None \<Rightarrow> Some (build_replacement rw st (rule_after r))
          | Some p \<Rightarrow>
              (case evaluate_predicate rw st p of
                Inl err \<Rightarrow> Some (Inl err)
              | Inr b \<Rightarrow> if b then Some (build_replacement rw st (rule_after r)) else None)))"

text \<open>A chain of calls joined by \<open>||\<close>: the first rule that applies gives the result.\<close>

fun rewrite_first :: "rewriter \<Rightarrow> rule list \<Rightarrow> expr \<Rightarrow> expr result option" where
  "rewrite_first rw [] e = None"
| "rewrite_first rw (r # rs) e =
     (case apply_rule rw r e of None \<Rightarrow> rewrite_first rw rs e | Some res \<Rightarrow> Some res)"

end
