(* ===== verification/ExprInfo.thy ===== *)
theory ExprInfo
  imports ModRem Rewriter
begin

text \<open>
  What the simplifier knows about the value of an expression (\<open>ExprInfo\<close> in \<open>Simplify_Internal.h\<close>):
  constant bounds and an alignment. Each visit method computes it for its node from what it knows about
  the operands, and takes decisions with it. The bounds are 64-bit integers; a result that does not fit
  wraps around.
\<close>

subsection \<open>The record\<close>

record expr_info =
  ei_min :: int
  ei_max :: int
  ei_min_defined :: bool
  ei_max_defined :: bool
  ei_alignment :: modulus_remainder

definition no_info :: expr_info where
  "no_info = \<lparr>ei_min = 0, ei_max = 0, ei_min_defined = False, ei_max_defined = False, ei_alignment = mr_top\<rparr>"

definition trim_min :: "modulus_remainder \<Rightarrow> int \<Rightarrow> int" where
  "trim_min al n =
     (let new_min = s_wrap 64 (n - mod_imp n (mr_modulus al) + mr_remainder al)
      in if new_min < n then s_wrap 64 (new_min + mr_modulus al) else new_min)"

definition trim_max :: "modulus_remainder \<Rightarrow> int \<Rightarrow> int" where
  "trim_max al n =
     (let new_max = s_wrap 64 (n - mod_imp n (mr_modulus al) + mr_remainder al)
      in if new_max > n then s_wrap 64 (new_max - mr_modulus al) else new_max)"

definition align_bounds :: "expr_info \<Rightarrow> expr_info" where
  "align_bounds i =
     (let al = ei_alignment i in
      if mr_modulus al = 0
      then i\<lparr>ei_min := mr_remainder al, ei_max := mr_remainder al, ei_min_defined := True, ei_max_defined := True\<rparr>
      else if mr_modulus al > 1
      then i\<lparr>ei_min := (if ei_min_defined i then trim_min al (ei_min i) else ei_min i),
             ei_max := (if ei_max_defined i then trim_max al (ei_max i) else ei_max i)\<rparr>
      else i)"

definition single_point :: "expr_info \<Rightarrow> bool" where
  "single_point i \<longleftrightarrow> ei_min_defined i \<and> ei_max_defined i \<and> ei_min i = ei_max i"

definition trim_bounds_using_alignment :: "expr_info \<Rightarrow> expr_info" where
  "trim_bounds_using_alignment i =
     (let i = align_bounds i in
      if single_point i then i\<lparr>ei_alignment := mk_mr 0 (ei_min i)\<rparr> else i)"

definition ei_intersect :: "expr_info \<Rightarrow> expr_info \<Rightarrow> expr_info" where
  "ei_intersect i other = trim_bounds_using_alignment (i\<lparr>
     ei_min := (if ei_min_defined i \<and> ei_min_defined other then max (ei_min i) (ei_min other)
                else if ei_min_defined other then ei_min other else ei_min i),
     ei_max := (if ei_max_defined i \<and> ei_max_defined other then min (ei_max i) (ei_max other)
                else if ei_max_defined other then ei_max other else ei_max i),
     ei_min_defined := ei_min_defined i \<or> ei_min_defined other,
     ei_max_defined := ei_max_defined i \<or> ei_max_defined other,
     ei_alignment := mr_intersect (ei_alignment i) (ei_alignment other)\<rparr>)"

subsection \<open>Constants, ramps and sums\<close>

definition info_point :: "int \<Rightarrow> expr_info" where
  "info_point v = \<lparr>ei_min = v, ei_max = v, ei_min_defined = True, ei_max_defined = True, ei_alignment = mk_mr 0 v\<rparr>"

definition info_IntImm :: "htype \<Rightarrow> int \<Rightarrow> expr_info \<Rightarrow> expr_info" where
  "info_IntImm t v i = (if no_overflow_int t then info_point v else i)"

definition info_UIntImm :: "int \<Rightarrow> expr_info \<Rightarrow> expr_info" where
  "info_UIntImm v i = (if can_represent_u (Int_type 64 1) v then info_point v else i)"

definition info_Ramp :: "nat \<Rightarrow> expr_info \<Rightarrow> expr_info \<Rightarrow> expr_info" where
  "info_Ramp lanes base stride =
     (let n = int lanes - 1;
          m = halide_gcd (halide_gcd (mr_modulus (ei_alignment stride)) (mr_remainder (ei_alignment stride)))
                (mr_modulus (ei_alignment base));
          r = mr_remainder (ei_alignment base)
      in \<lparr>ei_min = min (ei_min base) (s_wrap 64 (ei_min base + s_wrap 64 (n * ei_min stride))),
          ei_max = max (ei_max base) (s_wrap 64 (ei_max base + s_wrap 64 (n * ei_max stride))),
          ei_min_defined = (ei_min_defined base \<and> ei_min_defined stride),
          ei_max_defined = (ei_max_defined base \<and> ei_max_defined stride),
          ei_alignment = mk_mr m (if m \<noteq> 0 then mod_imp r m else r)\<rparr>)"

definition info_Add :: "expr_info \<Rightarrow> expr_info \<Rightarrow> expr_info" where
  "info_Add a b = trim_bounds_using_alignment
     \<lparr>ei_min = s_wrap 64 (ei_min a + ei_min b), ei_max = s_wrap 64 (ei_max a + ei_max b),
      ei_min_defined = (ei_min_defined a \<and> ei_min_defined b), ei_max_defined = (ei_max_defined a \<and> ei_max_defined b),
      ei_alignment = mr_add (ei_alignment a) (ei_alignment b)\<rparr>"

definition info_Sub :: "expr_info \<Rightarrow> expr_info \<Rightarrow> expr_info" where
  "info_Sub a b = trim_bounds_using_alignment
     \<lparr>ei_min = s_wrap 64 (ei_min a - ei_max b), ei_max = s_wrap 64 (ei_max a - ei_min b),
      ei_min_defined = (ei_min_defined a \<and> ei_max_defined b), ei_max_defined = (ei_max_defined a \<and> ei_min_defined b),
      ei_alignment = mr_sub (ei_alignment a) (ei_alignment b)\<rparr>"

subsection \<open>Products, quotients and remainders\<close>

text \<open>A product with one bound known leaves the other bound of the information it is given alone.\<close>

definition ei_positive :: "expr_info \<Rightarrow> bool" where
  "ei_positive i \<longleftrightarrow> ei_min_defined i \<and> ei_min i > 0"

definition ei_bounded :: "expr_info \<Rightarrow> bool" where
  "ei_bounded i \<longleftrightarrow> ei_min_defined i \<and> ei_max_defined i"

definition mul_bounds :: "expr_info \<Rightarrow> expr_info \<Rightarrow> expr_info \<Rightarrow> expr_info" where
  "mul_bounds i a b =
     (if ei_bounded a \<and> ei_bounded b then
        (let v1 = s_wrap 64 (ei_min a * ei_min b); v2 = s_wrap 64 (ei_min a * ei_max b);
             v3 = s_wrap 64 (ei_max a * ei_min b); v4 = s_wrap 64 (ei_max a * ei_max b)
         in i\<lparr>ei_min_defined := True, ei_max_defined := True,
              ei_min := min (min v1 v2) (min v3 v4), ei_max := max (max v1 v2) (max v3 v4)\<rparr>)
      else if ei_max_defined a \<and> ei_bounded b \<and> ei_positive b \<or> ei_max_defined b \<and> ei_bounded a \<and> ei_positive a
      then i\<lparr>ei_max_defined := True, ei_max := s_wrap 64 (ei_max a * ei_max b)\<rparr>
      else if ei_min_defined a \<and> ei_bounded b \<and> ei_positive b \<or> ei_min_defined b \<and> ei_bounded a \<and> ei_positive a
      then i\<lparr>ei_min_defined := True, ei_min := s_wrap 64 (ei_min a * ei_min b)\<rparr>
      else i)"

definition info_Mul :: "expr_info \<Rightarrow> expr_info \<Rightarrow> expr_info \<Rightarrow> expr_info" where
  "info_Mul i a b = trim_bounds_using_alignment
     ((mul_bounds i a b)\<lparr>ei_alignment := mr_mul (ei_alignment a) (ei_alignment b)\<rparr>)"

definition ei_negative :: "expr_info \<Rightarrow> bool" where
  "ei_negative i \<longleftrightarrow> ei_max_defined i \<and> ei_max i < 0"

text \<open>The values the quotient takes at the ends of its operands.\<close>

definition div_ends :: "expr_info \<Rightarrow> expr_info \<Rightarrow> int list" where
  "div_ends a b =
     (if ei_min_defined a \<and> ei_min_defined b \<and> ei_min b \<noteq> 0 then [div_imp (ei_min a) (ei_min b)] else []) @
     (if ei_min_defined a \<and> ei_max_defined b \<and> ei_max b \<noteq> 0 then [div_imp (ei_min a) (ei_max b)] else []) @
     (if ei_max_defined a \<and> ei_max_defined b \<and> ei_max b \<noteq> 0 then [div_imp (ei_max a) (ei_max b)] else []) @
     (if ei_max_defined a \<and> ei_min_defined b \<and> ei_min b \<noteq> 0 then [div_imp (ei_max a) (ei_min b)] else []) @
     (if ei_positive b \<and> \<not> ei_max_defined b \<or> ei_negative b \<and> \<not> ei_min_defined b then [0] else [])"

definition div_bounds :: "expr_info \<Rightarrow> expr_info \<Rightarrow> expr_info \<Rightarrow> expr_info" where
  "div_bounds i a b = i\<lparr>
     ei_min := foldl min (2 ^ 63 - 1) (div_ends a b), ei_max := foldl max (- (2 ^ 63)) (div_ends a b),
     ei_min_defined := ei_min_defined a \<and> ei_positive b \<or> ei_max_defined a \<and> ei_negative b,
     ei_max_defined := ei_max_defined a \<and> ei_positive b \<or> ei_min_defined a \<and> ei_negative b\<rparr>"

text \<open>The visit of a quotient ends when its bounds meet, with the number or with an overflow.\<close>

definition info_Div :: "expr_info \<Rightarrow> expr_info \<Rightarrow> expr_info \<Rightarrow> expr_info" where
  "info_Div i a b =
     (let d = div_bounds i a b in
      if single_point d then d
      else trim_bounds_using_alignment (d\<lparr>
        ei_min := (if ei_min_defined d then ei_min d else 0), ei_max := (if ei_max_defined d then ei_max d else 0),
        ei_alignment := mr_div (ei_alignment a) (ei_alignment b)\<rparr>))"

definition div_constant :: "float_ops \<Rightarrow> int \<Rightarrow> htype \<Rightarrow> expr_info \<Rightarrow> expr_info \<Rightarrow> expr_info \<Rightarrow> expr result option" where
  "div_constant fl ctr t i a b =
     (let d = div_bounds i a b in
      if no_overflow_int t \<and> single_point d
      then Some (if can_represent_i t (ei_min d) then make_const fl t (ei_min d)
                 else assert_that (is_int t) (make_signed_integer_overflow ctr t))
      else None)"

definition denominator_non_zero :: "expr_info \<Rightarrow> bool" where
  "denominator_non_zero b \<longleftrightarrow> ei_min_defined b \<and> ei_min b > 0 \<or> ei_max_defined b \<and> ei_max b < 0 \<or>
     mr_remainder (ei_alignment b) \<noteq> 0"

definition info_Mod :: "expr_info \<Rightarrow> expr_info \<Rightarrow> expr_info" where
  "info_Mod a b =
     (let known = ei_min_defined b \<and> ei_max_defined b \<and> (ei_min b > 0 \<or> ei_max b < 0) in
      trim_bounds_using_alignment
        \<lparr>ei_min = 0, ei_max = s_wrap 64 (max \<bar>ei_min b\<bar> \<bar>ei_max b\<bar> - 1), ei_min_defined = known, ei_max_defined = known,
         ei_alignment = mr_mod (ei_alignment a) (ei_alignment b)\<rparr>)"

definition mod_unchanged :: "expr_info \<Rightarrow> expr_info \<Rightarrow> bool" where
  "mod_unchanged a b \<longleftrightarrow> ei_min_defined a \<and> ei_min a \<ge> 0 \<and> ei_max_defined a \<and> ei_min_defined b \<and> ei_max a < ei_min b"

subsection \<open>Minima, maxima, selections and comparisons\<close>

definition info_Min :: "expr_info \<Rightarrow> expr_info \<Rightarrow> expr_info result" where
  "info_Min a b = rbind (mr_unify (ei_alignment a) (ei_alignment b)) (\<lambda>al.
     Inr (trim_bounds_using_alignment
       \<lparr>ei_min = min (ei_min a) (ei_min b),
        ei_max = (if ei_max_defined a \<and> ei_max_defined b then min (ei_max a) (ei_max b)
                  else if ei_max_defined a then ei_max a else ei_max b),
        ei_min_defined = (ei_min_defined a \<and> ei_min_defined b), ei_max_defined = (ei_max_defined a \<or> ei_max_defined b),
        ei_alignment = al\<rparr>))"

definition info_Max :: "expr_info \<Rightarrow> expr_info \<Rightarrow> expr_info result" where
  "info_Max a b = rbind (mr_unify (ei_alignment a) (ei_alignment b)) (\<lambda>al.
     Inr (trim_bounds_using_alignment
       \<lparr>ei_min = (if ei_min_defined a \<and> ei_min_defined b then max (ei_min a) (ei_min b)
                  else if ei_min_defined a then ei_min a else ei_min b),
        ei_max = max (ei_max a) (ei_max b),
        ei_min_defined = (ei_min_defined a \<or> ei_min_defined b), ei_max_defined = (ei_max_defined a \<and> ei_max_defined b),
        ei_alignment = al\<rparr>))"

definition info_Select :: "expr_info \<Rightarrow> expr_info \<Rightarrow> expr_info result" where
  "info_Select t f = rbind (mr_unify (ei_alignment t) (ei_alignment f)) (\<lambda>al.
     Inr (trim_bounds_using_alignment
       \<lparr>ei_min = min (ei_min t) (ei_min f), ei_max = max (ei_max t) (ei_max f),
        ei_min_defined = (ei_min_defined t \<and> ei_min_defined f), ei_max_defined = (ei_max_defined t \<and> ei_max_defined f),
        ei_alignment = al\<rparr>))"

text \<open>
  What is known about an operation after its visit: \<open>i\<close> is what was known before, which stays as it is when
  the type wraps around and for comparisons.
\<close>

definition info_Bin :: "binop \<Rightarrow> htype \<Rightarrow> expr_info \<Rightarrow> expr_info \<Rightarrow> expr_info \<Rightarrow> expr_info result" where
  "info_Bin op t i a b = (case op of
       MinOp \<Rightarrow> info_Min a b
     | MaxOp \<Rightarrow> info_Max a b
     | _ \<Rightarrow> Inr (if \<not> no_overflow_int t then i
               else case op of Add \<Rightarrow> info_Add a b | Sub \<Rightarrow> info_Sub a b | Mul \<Rightarrow> info_Mul i a b
                 | Div \<Rightarrow> info_Div i a b | Mod \<Rightarrow> info_Mod a b | _ \<Rightarrow> i))"

text \<open>One operand is known to be at most the other: the visits of a minimum and a maximum end with one of them.\<close>

definition known_le :: "expr_info \<Rightarrow> expr_info \<Rightarrow> bool" where
  "known_le a b \<longleftrightarrow> ei_max_defined a \<and> ei_min_defined b \<and> ei_max a \<le> ei_min b"

definition min_early :: "expr_info \<Rightarrow> expr_info \<Rightarrow> expr \<Rightarrow> expr \<Rightarrow> expr option" where
  "min_early ia ib a b = (if known_le ia ib then Some a else if known_le ib ia then Some b else None)"

definition max_early :: "expr_info \<Rightarrow> expr_info \<Rightarrow> expr \<Rightarrow> expr \<Rightarrow> expr option" where
  "max_early ia ib a b = (if known_le ia ib then Some b else if known_le ib ia then Some a else None)"

definition lt_known :: "expr_info \<Rightarrow> expr_info \<Rightarrow> bool option" where
  "lt_known a b =
     (if ei_max_defined a \<and> ei_min_defined b \<and> ei_max a < ei_min b then Some True
      else if ei_min_defined a \<and> ei_max_defined b \<and> ei_min a \<ge> ei_max b then Some False
      else None)"

text \<open>An equality is refuted by what is known about the difference of its sides.\<close>

definition eq_refuted :: "expr_info \<Rightarrow> bool" where
  "eq_refuted d \<longleftrightarrow> ei_min_defined d \<and> ei_min d > 0 \<or> ei_max_defined d \<and> ei_max d < 0 \<or>
     mr_remainder (ei_alignment d) \<noteq> 0"

end
