(* ===== verification/ScopedFact.thy ===== *)
theory ScopedFact
  imports ExprInfo
begin

text \<open>
  The state of the simplifier (\<open>Simplify_Internal.h\<close>, \<open>Simplify.cpp\<close>): scopes with what is known about
  variables, and the conditions known to be true and to be false. A condition is learnt for the lifetime of
  a \<open>ScopedFact\<close>, which remembers what it pushed and takes it back when it ends. The recursive visit of an
  expression, \<open>Simplify::mutate\<close>, is a parameter: it returns the new expression, what is known about it when
  that is asked for, and the state, in which it counts the uses of variables.
\<close>

subsection \<open>Scopes\<close>

text \<open>A scope keeps a stack of values for each name, the innermost first (\<open>Scope.h\<close>).\<close>

type_synonym 'a scope = "string \<Rightarrow> 'a list"

definition scope_contains :: "string \<Rightarrow> 'a scope \<Rightarrow> bool" where
  "scope_contains n sc \<longleftrightarrow> sc n \<noteq> []"

definition scope_get :: "string \<Rightarrow> 'a scope \<Rightarrow> 'a result" where
  "scope_get n sc = (case sc n of [] \<Rightarrow> Inl InternalError | x # _ \<Rightarrow> Inr x)"

definition scope_ref :: "string \<Rightarrow> ('a \<Rightarrow> 'a) \<Rightarrow> 'a scope \<Rightarrow> 'a scope result" where
  "scope_ref n f sc = (case sc n of [] \<Rightarrow> Inl InternalError | x # xs \<Rightarrow> Inr (sc(n := f x # xs)))"

definition scope_push :: "string \<Rightarrow> 'a \<Rightarrow> 'a scope \<Rightarrow> 'a scope" where
  "scope_push n v sc = sc(n := v # sc n)"

definition scope_pop :: "string \<Rightarrow> 'a scope \<Rightarrow> 'a scope result" where
  "scope_pop n sc = (case sc n of [] \<Rightarrow> Inl InternalError | x # xs \<Rightarrow> Inr (sc(n := xs)))"

subsection \<open>Sets of conditions\<close>

text \<open>The sets are ordered by \<open>IRDeepCompare\<close>: expressions neither of which is less than the other are one.\<close>

definition equivalent :: "expr \<Rightarrow> expr \<Rightarrow> bool" where
  "equivalent a b \<longleftrightarrow> \<not> deep_compare_expr a b \<and> \<not> deep_compare_expr b a"

definition set_count :: "expr \<Rightarrow> expr list \<Rightarrow> bool" where
  "set_count e xs \<longleftrightarrow> list_ex (equivalent e) xs"

definition set_erase :: "expr \<Rightarrow> expr list \<Rightarrow> expr list" where
  "set_erase e xs = filter (\<lambda>x. \<not> equivalent e x) xs"

subsection \<open>The state\<close>

record var_info =
  vi_replacement :: "expr option"
  vi_old_uses :: int
  vi_new_uses :: int

record simplify_state =
  ss_remove_dead_lets :: bool
  ss_no_float_simplify :: bool
  ss_var_info :: "var_info scope"
  ss_bounds :: "expr_info scope"
  ss_truths :: "expr list"
  ss_falsehoods :: "expr list"

type_synonym mutator = "expr \<Rightarrow> expr_info option \<Rightarrow> simplify_state \<Rightarrow> (expr \<times> expr_info option \<times> simplify_state) result"

text \<open>The constructor takes over the constant bounds and the alignments of the enclosing scopes.\<close>

definition interval_info :: "expr \<Rightarrow> expr \<Rightarrow> modulus_remainder option \<Rightarrow> expr_info" where
  "interval_info mn mx al = \<lparr>
     ei_min = (case as_const_int mn of Some i \<Rightarrow> i | None \<Rightarrow> 0), ei_max = (case as_const_int mx of Some i \<Rightarrow> i | None \<Rightarrow> 0),
     ei_min_defined = (as_const_int mn \<noteq> None), ei_max_defined = (as_const_int mx \<noteq> None),
     ei_alignment = (case al of Some m \<Rightarrow> m | None \<Rightarrow> mr_top)\<rparr>"

definition initial_info :: "(expr \<times> expr) option \<Rightarrow> modulus_remainder option \<Rightarrow> expr_info list" where
  "initial_info bi ai =
     (let useful = (\<lambda>b. ei_min_defined b \<or> ei_max_defined b \<or> mr_modulus (ei_alignment b) \<noteq> 1);
          aligned = (case ai of Some m \<Rightarrow> [no_info\<lparr>ei_alignment := m\<rparr>] | None \<Rightarrow> [])
      in case bi of
          Some (mn, mx) \<Rightarrow> (let b = interval_info mn mx ai in if useful b then [b] else aligned)
        | None \<Rightarrow> aligned)"

definition new_simplify :: "bool \<Rightarrow> (string \<Rightarrow> (expr \<times> expr) option) \<Rightarrow> (string \<Rightarrow> modulus_remainder option) \<Rightarrow> simplify_state" where
  "new_simplify r bi ai = \<lparr>ss_remove_dead_lets = r, ss_no_float_simplify = False,
     ss_var_info = \<lambda>_. [], ss_bounds = \<lambda>n. initial_info (bi n) (ai n), ss_truths = [], ss_falsehoods = []\<rparr>"

text \<open>A use of a buffer counts as a use of the variables that describe it.\<close>

definition count_old_use :: "string \<Rightarrow> simplify_state \<Rightarrow> simplify_state result" where
  "count_old_use n s =
     (if scope_contains n (ss_var_info s)
      then rbind (scope_ref n (\<lambda>i. i\<lparr>vi_old_uses := vi_old_uses i + 1\<rparr>) (ss_var_info s)) (\<lambda>sc. Inr (s\<lparr>ss_var_info := sc\<rparr>))
      else Inr s)"

text \<open>Decimal digits, as \<open>std::to_string\<close> writes them.\<close>

fun nat_digits :: "nat \<Rightarrow> string" where
  "nat_digits n = (if n < 10 then [char_of (48 + n)] else nat_digits (n div 10) @ [char_of (48 + n mod 10)])"

fun found_dimensions :: "string \<Rightarrow> nat list \<Rightarrow> simplify_state \<Rightarrow> simplify_state result" where
  "found_dimensions n [] s = Inr s"
| "found_dimensions n (i # is) s =
     rbind (count_old_use (n @ ''.stride.'' @ nat_digits i) s) (\<lambda>s.
     rbind (count_old_use (n @ ''.min.'' @ nat_digits i) s) (found_dimensions n is))"

definition found_buffer_reference :: "string \<Rightarrow> nat \<Rightarrow> simplify_state \<Rightarrow> simplify_state result" where
  "found_buffer_reference n dimensions s = rbind (found_dimensions n [0..<dimensions] s) (count_old_use n)"

subsection \<open>Variables\<close>

text \<open>
  The visit of a variable: a number when its bounds meet, its replacement, or the variable itself. A pointer
  to the bounds that is not null receives what is known, also when the replacement is visited next.
\<close>

definition visit_Variable :: "float_ops \<Rightarrow> mutator \<Rightarrow> htype \<Rightarrow> string \<Rightarrow> node_refs \<Rightarrow> expr_info option \<Rightarrow> simplify_state \<Rightarrow>
    (expr \<times> expr_info option \<times> simplify_state) result" where
  "visit_Variable fl mut t n r bounds s =
     (let known = (if scope_contains n (ss_bounds s) then Some (hd (ss_bounds s n)) else None);
          bounds = (case known of Some b \<Rightarrow> map_option (\<lambda>_. b) bounds | None \<Rightarrow> bounds)
      in if (case known of Some b \<Rightarrow> single_point b | None \<Rightarrow> False)
      then rbind (make_const fl t (ei_min (the known))) (\<lambda>e. Inr (e, bounds, s))
      else if scope_contains n (ss_var_info s)
      then (case vi_replacement (hd (ss_var_info s n)) of
          Some e \<Rightarrow> assert_that (type_eq (type_of e) t)
            (rbind (scope_ref n (\<lambda>i. i\<lparr>vi_new_uses := vi_new_uses i + 1\<rparr>) (ss_var_info s))
              (\<lambda>sc. mut e bounds (s\<lparr>ss_var_info := sc\<rparr>)))
        | None \<Rightarrow> rbind (scope_ref n (\<lambda>i. i\<lparr>vi_old_uses := vi_old_uses i + 1\<rparr>) (ss_var_info s))
            (\<lambda>sc. Inr (Variable t n r, bounds, s\<lparr>ss_var_info := sc\<rparr>)))
      else Inr (Variable t n r, bounds, s))"

subsection \<open>Facts\<close>

record scoped_fact =
  sf_pop_list :: "string list"
  sf_bounds_pop_list :: "string list"
  sf_truths :: "expr list"
  sf_falsehoods :: "expr list"

definition new_fact :: scoped_fact where
  "new_fact = \<lparr>sf_pop_list = [], sf_bounds_pop_list = [], sf_truths = [], sf_falsehoods = []\<rparr>"

type_synonym learning = "simplify_state \<times> scoped_fact"

definition const_bool :: "bool \<Rightarrow> nat \<Rightarrow> expr" where
  "const_bool b lanes =
     (if lanes = 1 then UIntImm (Bool_type 1) (of_bool b) else Broadcast (UIntImm (Bool_type 1) (of_bool b)) lanes)"

definition learn_replacement :: "string \<Rightarrow> expr \<Rightarrow> learning \<Rightarrow> learning" where
  "learn_replacement n e l = (case l of (s, f) \<Rightarrow>
     (s\<lparr>ss_var_info := scope_push n \<lparr>vi_replacement = Some e, vi_old_uses = 0, vi_new_uses = 0\<rparr> (ss_var_info s)\<rparr>,
      f\<lparr>sf_pop_list := sf_pop_list f @ [n]\<rparr>))"

text \<open>What was already known about the variable is not suppressed.\<close>

definition learn_info :: "string \<Rightarrow> expr_info \<Rightarrow> learning \<Rightarrow> learning" where
  "learn_info n b l = (case l of (s, f) \<Rightarrow>
     (s\<lparr>ss_bounds := scope_push n (if scope_contains n (ss_bounds s) then ei_intersect b (hd (ss_bounds s n)) else b) (ss_bounds s)\<rparr>,
      f\<lparr>sf_bounds_pop_list := sf_bounds_pop_list f @ [n]\<rparr>))"

definition learn_upper_bound :: "string \<Rightarrow> int \<Rightarrow> learning \<Rightarrow> learning" where
  "learn_upper_bound n v = learn_info n (no_info\<lparr>ei_max_defined := True, ei_max := v\<rparr>)"

definition learn_lower_bound :: "string \<Rightarrow> int \<Rightarrow> learning \<Rightarrow> learning" where
  "learn_lower_bound n v = learn_info n (no_info\<lparr>ei_min_defined := True, ei_min := v\<rparr>)"

definition insert_truth :: "expr \<Rightarrow> learning \<Rightarrow> learning" where
  "insert_truth e l = (case l of (s, f) \<Rightarrow>
     if set_count e (ss_truths s) then (s, f)
     else (s\<lparr>ss_truths := e # ss_truths s\<rparr>, f\<lparr>sf_truths := sf_truths f @ [e]\<rparr>))"

definition insert_falsehood :: "expr \<Rightarrow> learning \<Rightarrow> learning" where
  "insert_falsehood e l = (case l of (s, f) \<Rightarrow>
     if set_count e (ss_falsehoods s) then (s, f)
     else (s\<lparr>ss_falsehoods := e # ss_falsehoods s\<rparr>, f\<lparr>sf_falsehoods := sf_falsehoods f @ [e]\<rparr>))"

text \<open>A comparison of a variable with a constant, on either side.\<close>

definition with_var_const :: "(string \<Rightarrow> int \<Rightarrow> learning \<Rightarrow> learning) \<Rightarrow> expr \<Rightarrow> expr \<Rightarrow> learning \<Rightarrow> learning" where
  "with_var_const learn v c l = (case (v, as_const_int c) of (Variable t n r, Some i) \<Rightarrow> learn n i l | _ \<Rightarrow> l)"

definition learn_not_equal_false :: "expr \<Rightarrow> expr \<Rightarrow> learning \<Rightarrow> learning" where
  "learn_not_equal_false a b l = (case a of Variable t n r \<Rightarrow> if is_const b then learn_replacement n b l else l | _ \<Rightarrow> l)"

definition learn_equal :: "mutator \<Rightarrow> expr \<Rightarrow> expr \<Rightarrow> learning \<Rightarrow> learning result" where
  "learn_equal mut a b l = (case a of
       Variable t n r \<Rightarrow>
         if is_const b \<or> (case b of Variable _ _ _ \<Rightarrow> True | _ \<Rightarrow> False) then Inr (learn_replacement n b l)
         else if is_int t then
           (case l of (s, f) \<Rightarrow> rbind (mut b (Some no_info) s) (\<lambda>(_, info, s). Inr (learn_info n (case info of Some i \<Rightarrow> i | None \<Rightarrow> no_info) (s, f))))
         else Inr l
     | Bin Mod x m \<Rightarrow>
         (case (x, as_const_int m, as_const_int b) of
            (Variable t n r, Some modulus, Some remainder) \<Rightarrow>
              Inr (learn_info n (no_info\<lparr>ei_alignment := mk_mr modulus remainder\<rparr>) l)
          | _ \<Rightarrow> Inr l)
     | _ \<Rightarrow> Inr l)"

fun learn_true :: "mutator \<Rightarrow> expr \<Rightarrow> learning \<Rightarrow> learning result"
  and learn_false :: "mutator \<Rightarrow> expr \<Rightarrow> learning \<Rightarrow> learning result" where
  "learn_true mut (Variable t n r) l = Inr (learn_replacement n (const_bool True (ty_lanes t)) l)"
| "learn_true mut (Bin op a b) l = (case op of
      EQ \<Rightarrow> learn_equal mut a b l
    | LT \<Rightarrow> Inr (with_var_const (\<lambda>n i. learn_lower_bound n (s_wrap 64 (i + 1))) b a
             (with_var_const (\<lambda>n i. learn_upper_bound n (s_wrap 64 (i - 1))) a b l))
    | LE \<Rightarrow> Inr (with_var_const learn_lower_bound b a (with_var_const learn_upper_bound a b l))
    | AndOp \<Rightarrow> rbind (learn_true mut a l) (learn_true mut b)
    | _ \<Rightarrow> Inr (insert_truth (Bin op a b) l))"
| "learn_true mut (NotE a) l = learn_false mut a l"
| "learn_true mut e l = Inr (insert_truth e l)"
| "learn_false mut (Variable t n r) l = Inr (learn_replacement n (const_bool False (ty_lanes t)) l)"
| "learn_false mut (Bin op a b) l = (case op of
      NE \<Rightarrow> Inr (learn_not_equal_false a b l)
    | LT \<Rightarrow> Inr (with_var_const learn_upper_bound b a (with_var_const learn_lower_bound a b l))
    | LE \<Rightarrow> Inr (with_var_const (\<lambda>n i. learn_upper_bound n (s_wrap 64 (i - 1))) b a
             (with_var_const (\<lambda>n i. learn_lower_bound n (s_wrap 64 (i + 1))) a b l))
    | OrOp \<Rightarrow> rbind (learn_false mut a l) (learn_false mut b)
    | _ \<Rightarrow> Inr (insert_falsehood (Bin op a b) l))"
| "learn_false mut (NotE a) l = learn_true mut a l"
| "learn_false mut e l = Inr (insert_falsehood e l)"

definition scoped_truth :: "mutator \<Rightarrow> expr \<Rightarrow> simplify_state \<Rightarrow> learning result" where
  "scoped_truth mut e s = learn_true mut e (s, new_fact)"

definition scoped_falsehood :: "mutator \<Rightarrow> expr \<Rightarrow> simplify_state \<Rightarrow> learning result" where
  "scoped_falsehood mut e s = learn_false mut e (s, new_fact)"

text \<open>The destructor.\<close>

fun pop_all :: "string list \<Rightarrow> 'a scope \<Rightarrow> 'a scope result" where
  "pop_all [] sc = Inr sc"
| "pop_all (n # ns) sc = rbind (scope_pop n sc) (pop_all ns)"

definition end_fact :: "learning \<Rightarrow> simplify_state result" where
  "end_fact l = (case l of (s, f) \<Rightarrow>
     rbind (pop_all (sf_pop_list f) (ss_var_info s)) (\<lambda>vi.
     rbind (pop_all (sf_bounds_pop_list f) (ss_bounds s)) (\<lambda>bi.
     Inr (s\<lparr>ss_var_info := vi, ss_bounds := bi, ss_truths := fold set_erase (sf_truths f) (ss_truths s),
            ss_falsehoods := fold set_erase (sf_falsehoods f) (ss_falsehoods s)\<rparr>))))"

end
