(* ===== verification/RuleSem.thy ===== *)
theory RuleSem
  imports Pattern
begin

text \<open>
  The meaning of patterns and rules over integers. A context gives every wildcard a value and the
  kind (code and width) of its type; a pattern then has a value at a kind, and a rule is correct
  when, whenever its left-hand side is defined and its predicate holds, its right-hand side is
  defined and has the same value.
\<close>

type_synonym kind = "type_code \<times> nat"

definition kwrap :: "kind \<Rightarrow> int \<Rightarrow> int" where
  "kwrap k z =
     (if fst k = TInt then (if snd k \<ge> 32 then z else s_wrap (snd k) z)
      else if fst k = TUInt then u_wrap (snd k) z
      else z)"

definition kbool :: kind where
  "kbool = (TUInt, 1)"

record rctx =
  cx_wk :: "nat \<Rightarrow> kind"
  cx_ck :: "nat \<Rightarrow> kind"
  cx_w :: "nat \<Rightarrow> int"
  cx_c :: "nat \<Rightarrow> int"
  cx_lane :: int

text \<open>The kind of a pattern, unknown for an untyped constant.\<close>

fun pkind :: "rctx \<Rightarrow> pat \<Rightarrow> kind option" where
  "pkind x (PWild n) = Some (cx_wk x n)"
| "pkind x (PWildConst n) = Some (cx_ck x n)"
| "pkind x (PConst z) = None"
| "pkind x (PBin op a b) =
     (if is_compare op \<or> is_logical op then Some kbool
      else case pkind x a of Some k \<Rightarrow> Some k | None \<Rightarrow> pkind x b)"
| "pkind x (PNot a) = Some kbool"
| "pkind x (PSelect c a b) = (case pkind x a of Some k \<Rightarrow> Some k | None \<Rightarrow> pkind x b)"
| "pkind x (PBroadcast a l) = pkind x a"
| "pkind x (PRamp a b l) = (case pkind x a of Some k \<Rightarrow> Some k | None \<Rightarrow> pkind x b)"
| "pkind x (PNegate a) = pkind x a"
| "pkind x (PFold a) = pkind x a"
| "pkind x (PCastOut a) = pkind x a"
| "pkind x (PIntrin n ps) = (case ps of p # _ \<Rightarrow> pkind x p | [] \<Rightarrow> None)"
| "pkind x p = None"

text \<open>The kind of the operands of a comparison.\<close>

definition okind :: "rctx \<Rightarrow> pat \<Rightarrow> pat \<Rightarrow> kind" where
  "okind x a b = (case pkind x a of Some k \<Rightarrow> k
     | None \<Rightarrow> (case pkind x b of Some k \<Rightarrow> k | None \<Rightarrow> (TInt, 32)))"

definition binv :: "binop \<Rightarrow> kind \<Rightarrow> int \<Rightarrow> int \<Rightarrow> int" where
  "binv op k x y = (case op of
      Add \<Rightarrow> kwrap k (x + y)
    | Sub \<Rightarrow> kwrap k (x - y)
    | Mul \<Rightarrow> kwrap k (x * y)
    | Div \<Rightarrow> kwrap k (ediv x y)
    | Mod \<Rightarrow> kwrap k (emod x y)
    | MinOp \<Rightarrow> min x y
    | MaxOp \<Rightarrow> max x y
    | EQ \<Rightarrow> of_bool (x = y)
    | NE \<Rightarrow> of_bool (x \<noteq> y)
    | LT \<Rightarrow> of_bool (x < y)
    | LE \<Rightarrow> of_bool (x \<le> y)
    | GT \<Rightarrow> of_bool (x > y)
    | GE \<Rightarrow> of_bool (x \<ge> y)
    | AndOp \<Rightarrow> of_bool (x \<noteq> 0 \<and> y \<noteq> 0)
    | OrOp \<Rightarrow> of_bool (x \<noteq> 0 \<or> y \<noteq> 0))"

text \<open>The kind at which the operands of a node of a given kind are evaluated.\<close>

definition sub_kind :: "rctx \<Rightarrow> binop \<Rightarrow> kind \<Rightarrow> pat \<Rightarrow> pat \<Rightarrow> kind" where
  "sub_kind x op k a b = (if is_compare op then okind x a b else if is_logical op then kbool else k)"

definition kmin :: "kind \<Rightarrow> int" where
  "kmin k = (if fst k = TInt then - (2 ^ (snd k - 1)) else 0)"

definition kmax :: "kind \<Rightarrow> int" where
  "kmax k = (if fst k = TInt then 2 ^ (snd k - 1) - 1 else 2 ^ snd k - 1)"

fun pval :: "rctx \<Rightarrow> kind \<Rightarrow> pat \<Rightarrow> int" where
  "pval x k (PWild n) = cx_w x n"
| "pval x k (PWildConst n) = cx_c x n"
| "pval x k (PConst z) = kwrap k z"
| "pval x k (PBin op a b) =
     (let k' = sub_kind x op k a b in binv op k' (pval x k' a) (pval x k' b))"
| "pval x k (PNot a) = of_bool (pval x kbool a = 0)"
| "pval x k (PSelect c a b) = (if pval x kbool c \<noteq> 0 then pval x k a else pval x k b)"
| "pval x k (PBroadcast a l) = pval x k a"
| "pval x k (PRamp a b l) = kwrap k (pval x k a + cx_lane x * pval x k b)"
| "pval x k (PNegate a) = kwrap k (- pval x k a)"
| "pval x k (PFold a) = pval x k a"
| "pval x k (PIntrin n ps) = (case ps of [p] \<Rightarrow> pval x k p | _ \<Rightarrow> 0)"
| "pval x k PTypeMin = kmin k"
| "pval x k PTypeMax = kmax k"
| "pval x k (PCastOut a) = pval x kbool a"
| "pval x k p = 0"

text \<open>A pattern is defined when no divisor in it is zero and it is not an indeterminate value.\<close>

fun pdef :: "rctx \<Rightarrow> kind \<Rightarrow> pat \<Rightarrow> bool" where
  "pdef x k (PBin op a b) \<longleftrightarrow>
     (let k' = sub_kind x op k a b in
      pdef x k' a \<and> pdef x k' b \<and> (op = Div \<or> op = Mod \<longrightarrow> pval x k' b \<noteq> 0))"
| "pdef x k (PNot a) \<longleftrightarrow> pdef x kbool a"
| "pdef x k (PSelect c a b) \<longleftrightarrow> pdef x kbool c \<and> pdef x k a \<and> pdef x k b"
| "pdef x k (PBroadcast a l) \<longleftrightarrow> pdef x k a"
| "pdef x k (PRamp a b l) \<longleftrightarrow> pdef x k a \<and> pdef x k b"
| "pdef x k (PNegate a) \<longleftrightarrow> pdef x k a"
| "pdef x k (PFold a) \<longleftrightarrow> pdef x k a"
| "pdef x k (PIntrin n ps) \<longleftrightarrow> (case ps of [p] \<Rightarrow> pdef x k p | _ \<Rightarrow> True)"
| "pdef x k (PCastOut a) \<longleftrightarrow> pdef x kbool a"
| "pdef x k PIndeterminate \<longleftrightarrow> False"
| "pdef x k POverflow \<longleftrightarrow> False"
| "pdef x k p \<longleftrightarrow> True"

text \<open>A pattern is well typed at a kind when the values of its wildcards are values of their kinds.\<close>

fun pwt :: "rctx \<Rightarrow> kind \<Rightarrow> pat \<Rightarrow> bool" where
  "pwt x k (PWild n) \<longleftrightarrow> cx_wk x n = k \<and> kwrap k (cx_w x n) = cx_w x n"
| "pwt x k (PWildConst n) \<longleftrightarrow> cx_ck x n = k \<and> kwrap k (cx_c x n) = cx_c x n"
| "pwt x k (PConst z) \<longleftrightarrow> True"
| "pwt x k (PBin op a b) \<longleftrightarrow>
     (let k' = sub_kind x op k a b in pwt x k' a \<and> pwt x k' b) \<and>
     (is_compare op \<or> is_logical op \<longrightarrow> k = kbool)"
| "pwt x k (PNot a) \<longleftrightarrow> pwt x kbool a \<and> k = kbool"
| "pwt x k (PSelect c a b) \<longleftrightarrow> pwt x kbool c \<and> pwt x k a \<and> pwt x k b"
| "pwt x k (PBroadcast a l) \<longleftrightarrow> pwt x k a"
| "pwt x k (PRamp a b l) \<longleftrightarrow> pwt x k a \<and> pwt x k b"
| "pwt x k (PNegate a) \<longleftrightarrow> pwt x k a"
| "pwt x k (PFold a) \<longleftrightarrow> pwt x k a"
| "pwt x k (PIntrin n ps) \<longleftrightarrow> (case ps of [p] \<Rightarrow> pwt x k p | _ \<Rightarrow> True)"
| "pwt x k (PCastOut a) \<longleftrightarrow> pwt x kbool a"
| "pwt x k p \<longleftrightarrow> True"

text \<open>
  Folding a pattern of constants does not overflow: every intermediate result of a type that does
  not wrap fits the type, and no divisor is zero.
\<close>

fun pfits :: "rctx \<Rightarrow> kind \<Rightarrow> pat \<Rightarrow> bool" where
  "pfits x k (PBin op a b) \<longleftrightarrow>
     (let k' = sub_kind x op k a b; u = pval x k' a; v = pval x k' b in
      pfits x k' a \<and> pfits x k' b \<and> (op = Div \<or> op = Mod \<longrightarrow> v \<noteq> 0) \<and>
      (fst k' = TInt \<and> snd k' \<ge> 32 \<longrightarrow>
        (op = Add \<longrightarrow> in_s (snd k') (u + v)) \<and> (op = Sub \<longrightarrow> in_s (snd k') (u - v)) \<and>
        (op = Mul \<longrightarrow> in_s (snd k') (u * v)) \<and> (op = Div \<longrightarrow> in_s (snd k') (ediv u v))))"
| "pfits x k (PNegate a) \<longleftrightarrow> pfits x k a \<and>
     (fst k = TInt \<and> snd k \<ge> 32 \<longrightarrow> in_s (snd k) (- pval x k a))"
| "pfits x k (PFold a) \<longleftrightarrow> pfits x k a"
| "pfits x k PIndeterminate \<longleftrightarrow> False"
| "pfits x k POverflow \<longleftrightarrow> False"
| "pfits x k p \<longleftrightarrow> True"

text \<open>What a predicate that was found true says.\<close>

fun phold :: "rctx \<Rightarrow> pat \<Rightarrow> bool" where
  "phold x (PBin op a b) \<longleftrightarrow>
     (if op = AndOp then phold x a \<and> phold x b
      else if op = OrOp then phold x a \<or> phold x b
      else pfits x kbool (PBin op a b) \<and> pval x kbool (PBin op a b) \<noteq> 0)"
| "phold x (PNot a) \<longleftrightarrow> (case a of POverflows p \<Rightarrow> pfits x (okind x p p) p | _ \<Rightarrow> True)"
| "phold x (PCanProve p) \<longleftrightarrow> (pdef x kbool p \<longrightarrow> pval x kbool p \<noteq> 0)"
| "phold x p \<longleftrightarrow> True"

text \<open>A guard, for a node of kind \<open>k\<close> with \<open>l\<close> lanes whose operands have kind \<open>ko\<close>.\<close>

definition kno_ovf :: "kind \<Rightarrow> bool" where
  "kno_ovf k \<longleftrightarrow> fst k = TInt \<and> 32 \<le> snd k"

fun guard_ok :: "guard \<Rightarrow> nat \<Rightarrow> kind \<Rightarrow> kind \<Rightarrow> bool" where
  "guard_ok GAll l k ko \<longleftrightarrow> True"
| "guard_ok GNoOvf l k ko \<longleftrightarrow> kno_ovf k"
| "guard_ok GNoOvfInt l k ko \<longleftrightarrow> kno_ovf k"
| "guard_ok GNoOvfScalarInt l k ko \<longleftrightarrow> kno_ovf k \<and> l = 1"
| "guard_ok GNoOvfTy l k ko \<longleftrightarrow> kno_ovf ko"
| "guard_ok GNoOvfIntTy l k ko \<longleftrightarrow> kno_ovf ko"
| "guard_ok GIntTy l k ko \<longleftrightarrow> kno_ovf ko"
| "guard_ok GFloatTy l k ko \<longleftrightarrow> False"
| "guard_ok GNotUInt l k ko \<longleftrightarrow> fst k \<noteq> TUInt"
| "guard_ok GNotFloat l k ko \<longleftrightarrow> True"
| "guard_ok GFloat l k ko \<longleftrightarrow> False"
| "guard_ok GBool l k ko \<longleftrightarrow> k = kbool"
| "guard_ok GBoolTy l k ko \<longleftrightarrow> ko = kbool"
| "guard_ok GNonZero l k ko \<longleftrightarrow> True"

definition is_ikind :: "kind \<Rightarrow> bool" where
  "is_ikind k \<longleftrightarrow> (fst k = TInt \<and> 8 \<le> snd k \<or> fst k = TUInt \<and> 1 \<le> snd k) \<and> snd k \<le> 64"

text \<open>The operands of the rewritten node, inside a replacement.\<close>

fun opA :: "pat \<Rightarrow> pat" where
  "opA (PBin op p q) = p"
| "opA (PSelect c p q) = p"
| "opA b = b"

fun opB :: "pat \<Rightarrow> pat" where
  "opB (PBin op p q) = q"
| "opB (PSelect c p q) = q"
| "opB b = b"

fun subst_ops :: "pat \<Rightarrow> pat \<Rightarrow> pat" where
  "subst_ops b POpA = opA b"
| "subst_ops b POpB = opB b"
| "subst_ops b (PBin op p q) = PBin op (subst_ops b p) (subst_ops b q)"
| "subst_ops b p = p"

fun after_pat :: "pat \<Rightarrow> after \<Rightarrow> pat" where
  "after_pat b (APat p) = subst_ops b p"
| "after_pat b AExprA = opA b"
| "after_pat b AExprB = opB b"
| "after_pat b (AInt z) = PConst z"

text \<open>The kind of the operands of the node a rule rewrites.\<close>

fun node_kind :: "rctx \<Rightarrow> kind \<Rightarrow> pat \<Rightarrow> kind" where
  "node_kind x k (PBin op a b) = sub_kind x op k a b"
| "node_kind x k b = k"

definition ctx_ok :: "nat \<Rightarrow> rctx \<Rightarrow> bool" where
  "ctx_ok l x \<longleftrightarrow> 0 \<le> cx_lane x \<and> cx_lane x < int l \<and>
     (\<forall>n. is_ikind (cx_wk x n)) \<and> (\<forall>n. is_ikind (cx_ck x n))"

text \<open>
  A rule is correct on the contexts that satisfy \<open>P\<close>: whenever its left-hand side is well typed and
  defined and its guard and predicate hold, its right-hand side is well typed, defined and has the
  same value. The scopes are: everything; the types that do not wrap; those and the unsigned types;
  wildcards that have a value in the range of their type; and a constant \<open>c2\<close> that is not positive.
\<close>

definition rule_ok_on :: "(kind \<Rightarrow> rctx \<Rightarrow> bool) \<Rightarrow> nat \<Rightarrow> rule \<Rightarrow> bool" where
  "rule_ok_on P l r \<longleftrightarrow> (\<forall>x k. ctx_ok l x \<and> is_ikind k \<and>
     P (node_kind x k (rule_before r)) x \<and>
     guard_ok (rule_guard r) l k (node_kind x k (rule_before r)) \<and>
     pwt x k (rule_before r) \<and> pdef x k (rule_before r) \<and>
     (case rule_pred r of None \<Rightarrow> True | Some p \<Rightarrow> phold x p) \<longrightarrow>
     pwt x k (after_pat (rule_before r) (rule_after r)) \<and>
     pdef x k (after_pat (rule_before r) (rule_after r)) \<and>
     pval x k (after_pat (rule_before r) (rule_after r)) = pval x k (rule_before r))"

definition rule_ok :: "nat \<Rightarrow> rule \<Rightarrow> bool" where
  "rule_ok = rule_ok_on (\<lambda>_ _. True)"

definition no_wrap_scope :: "kind \<Rightarrow> rctx \<Rightarrow> bool" where
  "no_wrap_scope ko x \<longleftrightarrow> kno_ovf ko"

definition no_narrow_scope :: "kind \<Rightarrow> rctx \<Rightarrow> bool" where
  "no_narrow_scope ko x \<longleftrightarrow> kno_ovf ko \<or> fst ko = TUInt"

definition range_scope :: "kind \<Rightarrow> rctx \<Rightarrow> bool" where
  "range_scope ko x \<longleftrightarrow> (\<forall>n. kmin ko \<le> cx_w x n \<and> cx_w x n \<le> kmax ko)"

definition no_raise_scope :: "kind \<Rightarrow> rctx \<Rightarrow> bool" where
  "no_raise_scope ko x \<longleftrightarrow> cx_c x 2 \<le> 0"

end
