(* ===== verification/RuleProof.thy ===== *)
theory RuleProof
  imports RuleSem
begin

text \<open>
  The automation for the correctness of rules: the laws of the wrap-around of a kind, the Euclidean
  laws in the form the simplifier uses them, and an introduction rule for \<open>rule_ok\<close>. A table of
  rules is then proved by the same few methods.
\<close>

lemma rule_ok_onI:
  assumes "\<And>x k. 0 \<le> cx_lane x \<Longrightarrow> cx_lane x < int l \<Longrightarrow> (\<And>n. is_ikind (cx_wk x n)) \<Longrightarrow>
     (\<And>n. is_ikind (cx_ck x n)) \<Longrightarrow> is_ikind k \<Longrightarrow> P (node_kind x k b) x \<Longrightarrow>
     guard_ok g l k (node_kind x k b) \<Longrightarrow>
     pwt x k b \<Longrightarrow> pdef x k b \<Longrightarrow> (case p of None \<Rightarrow> True | Some p \<Rightarrow> phold x p) \<Longrightarrow>
     pwt x k (after_pat b a) \<and> pdef x k (after_pat b a) \<and> pval x k (after_pat b a) = pval x k b"
  shows "rule_ok_on P l (Rule g b a p)"
  using assms by (auto simp: rule_ok_on_def ctx_ok_def)

lemmas rule_okI = rule_ok_onI [where P = "\<lambda>_ _. True", folded rule_ok_def]

lemma list_all_intros: "list_all P []" "P x \<Longrightarrow> list_all P xs \<Longrightarrow> list_all P (x # xs)"
  by simp_all

subsection \<open>Wrap-around\<close>

interpretation kwrap: wrapping "kwrap k" for k
proof -
  have "kwrap k = (\<lambda>z. z) \<or> kwrap k = s_wrap (snd k) \<or> kwrap k = u_wrap (snd k)"
    by (auto simp: kwrap_def fun_eq_iff)
  then show "wrapping (kwrap k)"
    using id_wrap.wrapping_axioms s_wrap.wrapping_axioms u_wrap.wrapping_axioms by metis
qed

lemma kwrap_noovf [simp]: "kno_ovf k \<Longrightarrow> kwrap k z = z"
  by (simp add: kwrap_def kno_ovf_def)

lemma kno_ovf_kbool [simp]: "\<not> kno_ovf kbool"
  by (simp add: kno_ovf_def kbool_def)

lemma is_ikind_kbool [simp]: "is_ikind kbool"
  by (simp add: is_ikind_def kbool_def)

lemma kwrap_cases:
  assumes "is_ikind k"
  obtains "kno_ovf k" | "fst k = TInt" "8 \<le> snd k" "snd k < 32" "\<And>z. kwrap k z = s_wrap (snd k) z"
    | "fst k = TUInt" "1 \<le> snd k" "\<And>z. kwrap k z = u_wrap (snd k) z"
  using assms unfolding is_ikind_def kno_ovf_def kwrap_def by (cases "32 \<le> snd k") auto

lemma kwrap_range:
  assumes "is_ikind k" and "kwrap k z = z" and "\<not> kno_ovf k"
  shows "kmin k \<le> z \<and> z \<le> kmax k"
  using assms(1)
proof (cases rule: kwrap_cases)
  case 2
  then show ?thesis using assms(2) s_wrap_range [of "snd k" z] by (auto simp: kmin_def kmax_def)
next
  case 3
  then show ?thesis using assms(2) u_wrap_range [of "snd k" z] by (auto simp: kmin_def kmax_def)
qed (use assms(3) in simp)

lemma kwrap_id: "is_ikind k \<Longrightarrow> kmin k \<le> z \<Longrightarrow> z \<le> kmax k \<Longrightarrow> kwrap k z = z"
  by (auto simp: kwrap_def kmin_def kmax_def is_ikind_def s_wrap_id u_wrap_id split: if_splits)

lemma kwrap_between:
  assumes "is_ikind k" and "kwrap k x = x" and "kwrap k y = y" and "x \<le> z" and "z \<le> y"
  shows "kwrap k z = z"
proof (cases "kno_ovf k")
  case False
  then show ?thesis using assms kwrap_range [of k x] kwrap_range [of k y] by (intro kwrap_id) auto
qed simp

lemma kwrap_0 [simp]: "kwrap k 0 = 0"
  by (simp add: kwrap_def s_wrap_def u_wrap_def)

lemma kwrap_1 [simp]: "is_ikind k \<Longrightarrow> kwrap k 1 = 1"
proof (rule kwrap_id)
  assume k: "is_ikind k"
  have "(2::int) ^ 1 \<le> 2 ^ snd k" if "1 \<le> snd k" using that by (intro power_increasing) auto
  moreover have "(2::int) ^ 1 \<le> 2 ^ (snd k - 1)" if "8 \<le> snd k"
    using that by (intro power_increasing) auto
  ultimately show "kmin k \<le> 1" "1 \<le> kmax k" using k
    by (auto simp: kmin_def kmax_def is_ikind_def)
qed

lemma kwrap_kbool [simp]: "kwrap kbool z = z mod 2"
  by (simp add: kwrap_def kbool_def u_wrap_mod)

lemma kbool_range: "(z mod 2 = (z::int)) = (z = 0 \<or> z = 1)"
  by presburger

lemma kwrap_diff_eq_0:
  assumes "kwrap k x = x" and "kwrap k y = y"
  shows "kwrap k (x - y) = 0 \<longleftrightarrow> x = y"
  using kwrap.wr_cong_diff [of k x y] assms by auto

lemma kwrap_lin:
  "kwrap k (a + c * kwrap k b) = kwrap k (a + c * b)"
  "kwrap k (c * kwrap k b + a) = kwrap k (c * b + a)"
  "kwrap k (a - c * kwrap k b) = kwrap k (a - c * b)"
  by (metis kwrap.wr_add_right kwrap.wr_mult_right kwrap.wr_add_left kwrap.wr_diff_right)+

lemma emod_le_abs: "b \<noteq> 0 \<Longrightarrow> emod a b \<le> \<bar>b\<bar> - 1"
  using emod_less [of b a] by simp

lemma kmin_le_0: "kmin k \<le> 0"
  by (simp add: kmin_def)

lemma kwrap_emod [simp]:
  assumes "is_ikind k" and "kwrap k b = b" and "b \<noteq> 0"
  shows "kwrap k (emod a b) = emod a b"
proof (cases "kno_ovf k")
  case False
  then have "\<bar>b\<bar> - 1 \<le> kmax k"
    using kwrap_range [OF assms(1,2)] by (auto simp: kmin_def kmax_def split: if_splits)
  then show ?thesis using assms emod_nonneg [of b a] emod_le_abs [of b a]
      kmin_le_0 [of k] by (intro kwrap_id) auto
qed simp

subsection \<open>Euclidean division\<close>

lemma mult_ediv: "y * ediv x y = x - emod x y" "ediv x y * y = x - emod x y"
  using ediv_emod_eq [of x y] by (simp_all add: mult.commute)

lemma mult_div_int: "y * (x div y) = x - x mod (y::int)" "(x div y) * y = x - x mod (y::int)"
  by (simp_all add: minus_mod_eq_mult_div minus_mod_eq_div_mult)

lemma ediv_shiftI:
  assumes "b \<noteq> 0" and "a = a' + k * b"
  shows "ediv a b = ediv a' b + k" "ediv a b = k + ediv a' b"
    "ediv a' b + k = ediv a b" "k + ediv a' b = ediv a b"
    "ediv a b - k = ediv a' b" "ediv a' b = ediv a b - k"
  using assms ediv_add_multiple [of b a' k] by auto

lemma ediv_self_mult [simp]: "b \<noteq> 0 \<Longrightarrow> ediv (b * k) b = k"
  using ediv_mult_self [of b k] by (simp only: mult.commute simp_thms)

lemma emod_self_mult [simp]: "emod (b * k) b = 0" "emod (k * b) b = 0" "emod b b = 0"
  by (simp_all add: emod_eq_0_iff)

lemma emod_eqI: "b dvd a - a' \<Longrightarrow> emod a b = emod a' b"
  using emod_add_multiple [of a' _ b] by (auto elim!: dvdE simp: algebra_simps)

lemma emod_mult_mult: "0 < c \<Longrightarrow> emod (x * c) (c * k) = emod x k * c"
  by (simp add: emod_def abs_mult mult.commute [of x c] mult_mod_right [symmetric])

lemma div_mono_ediv: "0 < c \<Longrightarrow> x \<le> y \<Longrightarrow> ediv x c \<le> ediv y c" "c < 0 \<Longrightarrow> x \<le> y \<Longrightarrow> ediv y c \<le> ediv x c"
  by (simp_all add: ediv_neg zdiv_mono1)

lemma ediv_min_max:
  "0 < c \<Longrightarrow> ediv (min x y) c = min (ediv x c) (ediv y c)"
  "0 < c \<Longrightarrow> ediv (max x y) c = max (ediv x c) (ediv y c)"
  "c < 0 \<Longrightarrow> ediv (min x y) c = max (ediv x c) (ediv y c)"
  "c < 0 \<Longrightarrow> ediv (max x y) c = min (ediv x c) (ediv y c)"
  using div_mono_ediv [of c x y] div_mono_ediv [of c y x]
  by (auto simp: min_def max_def simp del: ediv_pos)

text \<open>Stair-step functions: rounding down to a multiple.\<close>

lemma stair_le:
  assumes "0 < (c::int)"
  shows "a + b \<le> 0 \<Longrightarrow> ((x + a) div c) * c + b \<le> x" "b \<le> 0 \<Longrightarrow> (x div c) * c + b \<le> x"
    "a \<le> 0 \<Longrightarrow> ((x + a) div c) * c \<le> x" "(x div c) * c \<le> x"
  using pos_mod_sign [OF assms, of "x + a"] pos_mod_sign [OF assms, of x]
  unfolding mult_div_int by linarith+

lemma stair_ge:
  assumes "0 < (c::int)"
  shows "c - 1 \<le> a + b \<Longrightarrow> x \<le> ((x + a) div c) * c + b" "c - 1 \<le> b \<Longrightarrow> x \<le> (x div c) * c + b"
    "c - 1 \<le> a \<Longrightarrow> x \<le> ((x + a) div c) * c"
  using pos_mod_bound [OF assms, of "x + a"] pos_mod_bound [OF assms, of x]
  unfolding mult_div_int by linarith+

lemma le_div_iff:
  assumes "0 < (c::int)"
  shows "x \<le> y div c \<longleftrightarrow> x * c \<le> y"
proof
  assume "x \<le> y div c"
  then have "x * c \<le> (y div c) * c" using assms by simp
  then show "x * c \<le> y" using stair_le(4) [OF assms, of y] by linarith
next
  assume "x * c \<le> y"
  from zdiv_mono1 [OF this assms] show "x \<le> y div c" using assms by simp
qed

text \<open>Comparisons with products, quotients and ramps.\<close>

lemma mult_less_iff:
  assumes "0 < (c::int)"
  shows "x * c < y \<longleftrightarrow> x < (y + c - 1) div c" "y < x * c \<longleftrightarrow> y div c < x"
  using le_div_iff [OF assms, of "x + 1" "y + c - 1"] le_div_iff [OF assms, of x y]
  by (auto simp: algebra_simps)

lemma div_less_iff:
  assumes "0 < (c::int)"
  shows "x div c < y \<longleftrightarrow> x < y * c" "y < x div c \<longleftrightarrow> (y + 1) * c - 1 < x"
    "x * c < y * c + e \<longleftrightarrow> x < y + (e + c - 1) div c" "x * c + e < y * c \<longleftrightarrow> x + e div c < y"
  using le_div_iff [OF assms, of y x] le_div_iff [OF assms, of "y + 1" x]
    mult_less_iff(1) [OF assms, of "x - y" e] mult_less_iff(2) [OF assms, of e "y - x"]
  by (auto simp: algebra_simps)

lemma div_less_div:
  assumes "0 < (c::int)"
  shows "b \<le> a \<Longrightarrow> (a div c < b div c) = False" "a + c \<le> b \<Longrightarrow> (a div c < b div c) = True"
    "b + e * c \<le> a \<Longrightarrow> (a div c < b div c + e) = False"
    "a + c \<le> b + e * c \<Longrightarrow> (a div c < b div c + e) = True"
proof -
  have "a div c < b div c" if "a + c \<le> b" for a b
    using zdiv_mono1 [OF that assms] assms by simp
  moreover have "\<not> a div c < b div c" if "b \<le> a" for a b
    using zdiv_mono1 [OF that assms] by simp
  moreover have "b div c + e = (b + e * c) div c" using assms by simp
  ultimately show "b \<le> a \<Longrightarrow> (a div c < b div c) = False" "a + c \<le> b \<Longrightarrow> (a div c < b div c) = True"
    "b + e * c \<le> a \<Longrightarrow> (a div c < b div c + e) = False"
    "a + c \<le> b + e * c \<Longrightarrow> (a div c < b div c + e) = True" by auto
qed

lemma ramp_bound:
  assumes "0 \<le> (i::int)" and "i < l"
  shows "x \<le> z \<Longrightarrow> x + y * (l - 1) \<le> z \<Longrightarrow> x + i * y \<le> z"
    "z \<le> x \<Longrightarrow> z \<le> x + y * (l - 1) \<Longrightarrow> z \<le> x + i * y"
proof -
  have "0 \<le> y \<Longrightarrow> i * y \<le> (l - 1) * y" "0 \<le> y \<Longrightarrow> 0 \<le> i * y"
    using assms by (simp_all add: mult_right_mono)
  moreover have "y \<le> 0 \<Longrightarrow> (l - 1) * y \<le> i * y" "y \<le> 0 \<Longrightarrow> i * y \<le> 0"
    using assms by (simp_all add: mult_right_mono_neg mult_nonneg_nonpos)
  ultimately show "x \<le> z \<Longrightarrow> x + y * (l - 1) \<le> z \<Longrightarrow> x + i * y \<le> z"
    "z \<le> x \<Longrightarrow> z \<le> x + y * (l - 1) \<Longrightarrow> z \<le> x + i * y"
    by (cases "0 \<le> y"; simp add: mult.commute [of y]; linarith)+
qed

text \<open>Differences of quotients.\<close>

lemma diff_div:
  assumes "0 < (c::int)"
  shows "a - b div c = (a * c - b + (c - 1)) div c"
  using pos_mod_sign [OF assms, of b] pos_mod_bound [OF assms, of b] mult_div_int(1) [of c b]
  by (intro int_div_pos_eq [symmetric, of _ _ _ "c - 1 - b mod c"]) (auto simp: algebra_simps)

lemma div_diff:
  assumes "0 < (c::int)"
  shows "a div c - b div c = (a - b + b mod c) div c"
  using div_mult_self4 [of c "- (b div c)" a] assms mult_div_int(1) [of c b]
  by (simp add: algebra_simps)

lemma dvd_E: "b dvd a \<Longrightarrow> (\<And>k. a = b * k \<Longrightarrow> P) \<Longrightarrow> P"
  by (auto elim: dvdE)

lemma ediv_self [simp]: "b \<noteq> 0 \<Longrightarrow> ediv b b = 1"
  using ediv_self_mult [of b 1] by simp

lemma ediv_add_simps:
  "b \<noteq> 0 \<Longrightarrow> ediv (a + b * k) b = ediv a b + k" "b \<noteq> 0 \<Longrightarrow> ediv (b * k + a) b = ediv a b + k"
  using ediv_add_multiple [of b a k] by (simp_all add: mult.commute add.commute)

lemma ediv_mult_cancel: "0 < c \<Longrightarrow> k \<noteq> 0 \<Longrightarrow> ediv (x * c) (c * k) = ediv x k"
  by (simp add: ediv_def abs_mult sgn_mult mult.commute [of x])

lemma div_mult_cancel: "0 < c \<Longrightarrow> 0 < c * k \<Longrightarrow> (x * c + e) div (c * k) = (x + e div c) div (k::int)"
  by (simp add: zdiv_zmult2_eq zero_less_mult_iff)

lemma ediv_minus1: "y \<noteq> 0 \<Longrightarrow> ediv (-1) y = (if y < 0 then 1 else -1)"
  using ediv_unique(1) [of "-1" "if y < 0 then 1 else -1" y "\<bar>y\<bar> - 1"] by auto

lemma emod_ramp: "emod (a + i * z) c = emod (a + i * emod z c) c"
proof (rule emod_eqI)
  have "i * z = i * emod z c + i * ediv z c * c"
    using ediv_emod_eq [of z c] by (metis add.commute distrib_left mult.assoc)
  then show "c dvd a + i * z - (a + i * emod z c)" by simp
qed

lemma emod_drop:
  "emod (y + x * (c * k) + b) c = emod (y + b) c" "emod (x * (c * k) + y + b) c = emod (y + b) c"
  by (rule emod_eqI; simp)+

text \<open>A ramp whose first and last lanes fall into the same block of the divisor.\<close>

lemma ramp_in_block:
  assumes "0 \<le> (i::int)" "i < l" "c \<noteq> 0" "ediv (emod x c + y * (l - 1)) c = 0"
  shows "ediv (x + i * y) c = ediv x c" "emod (x + i * y) c = emod x c + i * y"
proof -
  have e: "emod (emod x c + y * (l - 1)) c = emod x c + y * (l - 1)"
    using ediv_emod_eq [of "emod x c + y * (l - 1)" c] assms(4) by simp
  then have b: "0 \<le> emod x c + y * (l - 1)" "emod x c + y * (l - 1) \<le> \<bar>c\<bar> - 1"
    using emod_nonneg [OF assms(3)] emod_le_abs [OF assms(3)] by metis+
  have "0 \<le> emod x c + i * y" "emod x c + i * y \<le> \<bar>c\<bar> - 1"
    using ramp_bound(1) [OF assms(1,2), of "emod x c" "\<bar>c\<bar> - 1" y] b
      ramp_bound(2) [OF assms(1,2), of 0 "emod x c" y] emod_nonneg [OF assms(3), of x]
      emod_le_abs [OF assms(3), of x]
    by auto
  moreover have "x + i * y = ediv x c * c + (emod x c + i * y)" using ediv_emod_eq [of x c] by simp
  ultimately show "ediv (x + i * y) c = ediv x c" "emod (x + i * y) c = emod x c + i * y"
    using ediv_unique [of "x + i * y" "ediv x c" c "emod x c + i * y"] by auto
qed

lemma ramp_block_less:
  assumes "0 \<le> (i::int)" "i < l" "0 < c" "d mod c = 0"
    and "e mod c + y * (l - 1) < c" "0 \<le> e mod c + y * (l - 1)"
  shows "x * d + e + i * y < z * c \<longleftrightarrow> x * (d div c) + e div c < z"
proof -
  have "0 \<le> e mod c + i * y" "e mod c + i * y \<le> c - 1"
    using ramp_bound(1) [OF assms(1,2), of "e mod c" "c - 1" y]
      ramp_bound(2) [OF assms(1,2), of 0 "e mod c" y] assms
    by (auto simp: zle_diff1_eq)
  then have "(e + i * y) div c = e div c"
    using mult_div_int(1) [of c e] by (intro int_div_pos_eq [of _ _ _ "e mod c + i * y"]) auto
  moreover have "x * d = x * (d div c) * c" using mult_div_int(2) [of d c] assms(4) by simp
  ultimately show ?thesis
    using div_less_iff(4) [OF assms(3), of "x * (d div c)" "e + i * y" z] by (metis add.assoc)
qed

lemmas ramp_block_less_0 = ramp_block_less [where e = 0, simplified]

text \<open>Factoring a common term out of a minimum or maximum.\<close>

lemma min_max_factor:
  assumes "c0 * c1 = (c2::int)"
  shows "min ((x * c0 + y) * c1) (x * c2 + z) = min (y * c1) z + x * c2"
    "min ((x * c0 + y) * c1) (z + x * c2) = min (y * c1) z + x * c2"
    "min ((y + x * c0) * c1) (x * c2 + z) = min (y * c1) z + x * c2"
    "min ((y + x * c0) * c1) (z + x * c2) = min (y * c1) z + x * c2"
    "max ((x * c0 + y) * c1) (x * c2 + z) = max (y * c1) z + x * c2"
    "max ((x * c0 + y) * c1) (z + x * c2) = max (y * c1) z + x * c2"
    "max ((y + x * c0) * c1) (x * c2 + z) = max (y * c1) z + x * c2"
    "max ((y + x * c0) * c1) (z + x * c2) = max (y * c1) z + x * c2"
  using assms by (auto simp: min_def max_def algebra_simps)

lemma stair_neq: "0 < (c::int) \<Longrightarrow> (x div c) * c < x \<longleftrightarrow> x mod c \<noteq> 0"
  using pos_mod_sign [of c x] unfolding mult_div_int by linarith

lemma div_less_minmax:
  assumes "0 < (c::int)"
  shows "b + e * c \<le> a \<Longrightarrow> (a div c < min (b div c) y + e) = False"
    "b + e * c \<le> a \<Longrightarrow> (a div c < min y (b div c) + e) = False"
    "a + c \<le> b + e * c \<Longrightarrow> (a div c < max (b div c) y + e) = True"
    "a + c \<le> b + e * c \<Longrightarrow> (a div c < max y (b div c) + e) = True"
  using div_less_div(3,4) [OF assms, of b e a] div_less_div(4) [OF assms, of a b e] by auto

lemma ceil_mod:
  assumes "0 < (c::int)" "e + 1 = c"
  shows "(x + e) div c * c - x = - x mod c"
proof -
  have "x + e = 0 * c - (- x) + (c - 1)" using assms(2) by simp
  then have "(x + e) div c = - ((- x) div c)" using diff_div [OF assms(1), of 0 "- x"] by simp
  then show ?thesis using mult_div_int(2) [of "- x" c] by simp
qed

lemma div_diff_ceil:
  assumes "0 < (c::int)"
  shows "(x + e) div c - b div c = (e + (c - 1) - (b - x) - (x + e) mod c) div c"
    "x div c - b div c = ((c - 1) - (b - x) - x mod c) div c"
  using diff_div [OF assms, of "(x + e) div c" b] diff_div [OF assms, of "x div c" b]
  by (simp_all add: mult_div_int algebra_simps)

text \<open>Constants next to the ends of the range of a type that wraps.\<close>

lemma kwrap_gap:
  "b \<le> kwrap k (a + 1) \<Longrightarrow> a < x \<Longrightarrow> x < b \<Longrightarrow> is_ikind k \<Longrightarrow> kwrap k a = a \<Longrightarrow> kwrap k x = x \<Longrightarrow> False"
  using kwrap_between [of k a x "a + 1"] by simp

lemma kwrap_add_eq_0: "kwrap k x = x \<Longrightarrow> kwrap k (x + c) = 0 \<longleftrightarrow> x = kwrap k (- c)"
  using kwrap.wr_cong_diff [of k x "- c"] kwrap.wr_add_left [of k "- c" c] by auto

lemma kwrap_sum_eq_0: "kwrap k x = x \<Longrightarrow> kwrap k (x - y + c) = 0 \<longleftrightarrow> x = kwrap k (y - c)"
  using kwrap_add_eq_0 [of k x "c - y"] by (simp add: algebra_simps)

lemma kwrap_min_max:
  "kwrap k x = x \<Longrightarrow> kwrap k y = y \<Longrightarrow> kwrap k (max x y) = max x y"
  "kwrap k x = x \<Longrightarrow> kwrap k y = y \<Longrightarrow> kwrap k (min x y) = min x y"
  by (auto simp: min_def max_def)

text \<open>Rounding down to a multiple stays in the range of an unsigned type.\<close>

lemma kwrap_round:
  assumes "is_ikind k" and "no_narrow_scope k x" and "0 < c" and "kwrap k z = z"
  shows "kwrap k (z div c * c) = z div c * c" and "kwrap k (z div c) = z div c"
proof -
  have "kwrap k (z div c * c) = z div c * c \<and> kwrap k (z div c) = z div c"
  proof (cases "kno_ovf k")
    case False
    then have "0 \<le> z"
      using assms kwrap_range [of k z] by (auto simp: no_narrow_scope_def kmin_def)
    then have "0 \<le> z div c" "0 \<le> z div c * c" "z div c * c \<le> z" "z div c \<le> z"
      using \<open>0 < c\<close> stair_le(4) [of c z] zdiv_mono2 [of z 1 c]
      by (auto simp: pos_imp_zdiv_nonneg_iff)
    then show ?thesis using kwrap_between [OF assms(1) kwrap_0 assms(4)] by blast
  qed simp
  then show "kwrap k (z div c * c) = z div c * c" "kwrap k (z div c) = z div c" by simp_all
qed

subsection \<open>The method's collections\<close>

lemmas rule_eval = kwrap_lin pat_ops sub_kind_def okind_def binv_def Let_def kwrap.wr_simps
  kbool_range kwrap_diff_eq_0 emod_eq_0_iff

lemmas rule_minmax = min_absorb1 min_absorb2 max_absorb1 max_absorb2 stair_le stair_ge ediv_min_max
  min_mult_distrib_left min_mult_distrib_right max_mult_distrib_left max_mult_distrib_right

lemmas rule_ediv = mult_ediv mult_div_int

lemmas rule_less = div_less_div div_less_minmax min_less_iff_disj less_max_iff_disj

text \<open>
  Rules are proved with divisors kept symbolic: a divisibility hypothesis is turned into a multiple
  and quotients are compared by shifting them.
\<close>

lemmas rule_intros = ediv_shiftI emod_eqI

declare ediv_pos [simp del] emod_pos [simp del] dvd_E [elim!]

lemmas pos_div = ediv_pos emod_pos

end
