(* ===== verification/RulesArith.thy ===== *)
theory RulesArith
  imports RuleProof
begin

text \<open>
  The rules of \<open>Simplify_Add.cpp\<close> and \<open>Simplify_Mul.cpp\<close>, in the order the code tries them. The rules
  of \<open>add_result\<close> and \<open>mul_result\<close> give the result of the visit, those of \<open>add_mutate\<close> and \<open>mul_mutate\<close>
  an expression that is simplified again.
\<close>

subsection \<open>Sums\<close>

definition add_result :: "nat \<Rightarrow> rule list" where
  "add_result l =
    [Rule GAll (C0 + C1) (APat (PFold (C0 + C1))) None,
     Rule GAll (PIndeterminate + X) (AExprA) None,
     Rule GAll (X + PIndeterminate) (AExprB) None,
     Rule GAll (POverflow + X) (AExprA) None,
     Rule GAll (X + POverflow) (AExprB) None,
     Rule GAll (X + K 0) (APat X) None,
     Rule GAll (K 0 + X) (APat X) None]"

definition add_select :: "nat \<Rightarrow> rule list" where
  "add_select l =
    [Rule GAll (X + X) (APat (X * K 2)) None,
     Rule GAll (PRamp X Y None + PRamp Z W None) (APat (PRamp (X + Z) (Y + W) (Some l))) None,
     Rule GAll (PRamp X Y None + PBroadcast Z None) (APat (PRamp (X + Z) Y (Some l))) None,
     Rule GAll (PBroadcast X None + PBroadcast Y None) (APat (PBroadcast (X + Y) (Some l))) None,
     Rule GAll (PSelect X Y Z + PSelect X W U) (APat (PSelect X (Y + W) (Z + U))) None,
     Rule GAll (PSelect X C0 C1 + C2) (APat (PSelect X (PFold (C0 + C2)) (PFold (C1 + C2)))) None,
     Rule GAll (PSelect X Y C1 + C2) (APat (PSelect X (Y + C2) (PFold (C1 + C2)))) None,
     Rule GAll (PSelect X C0 Y + C2) (APat (PSelect X (PFold (C0 + C2)) (Y + C2))) None,
     Rule GAll ((PSelect X Y Z + W) + PSelect X U V) (APat (PSelect X (Y + U) (Z + V) + W)) None,
     Rule GAll ((W + PSelect X Y Z) + PSelect X U V) (APat (PSelect X (Y + U) (Z + V) + W)) None,
     Rule GAll (PSelect X Y Z + (PSelect X U V + W)) (APat (PSelect X (Y + U) (Z + V) + W)) None,
     Rule GAll (PSelect X Y Z + (W + PSelect X U V)) (APat (PSelect X (Y + U) (Z + V) + W)) None,
     Rule GAll ((PSelect X Y Z - W) + PSelect X U V) (APat (PSelect X (Y + U) (Z + V) - W)) None,
     Rule GAll (PSelect X Y Z + (PSelect X U V - W)) (APat (PSelect X (Y + U) (Z + V) - W)) None,
     Rule GAll ((W - PSelect X Y Z) + PSelect X U V) (APat (PSelect X (U - Y) (V - Z) + W)) None,
     Rule GAll (PSelect X Y Z + (W - PSelect X U V)) (APat (PSelect X (Y - U) (Z - V) + W)) None]"

definition add_linear :: "nat \<Rightarrow> rule list" where
  "add_linear l =
    [Rule GAll ((X + C0) + C1) (APat (X + PFold (C0 + C1))) None,
     Rule GAll ((X + C0) + Y) (APat ((X + Y) + C0)) None,
     Rule GAll (X + (Y + C0)) (APat ((X + Y) + C0)) None,
     Rule GAll ((C0 - X) + C1) (APat (PFold (C0 + C1) - X)) None,
     Rule GAll ((C0 - X) + Y) (APat ((Y - X) + C0)) None,
     Rule GAll ((X - Y) + Y) (APat X) None,
     Rule GAll (X + (Y - X)) (APat Y) None,
     Rule GAll (X + (C0 - Y)) (APat ((X - Y) + C0)) None,
     Rule GAll ((X - Y) + (Y - Z)) (APat (X - Z)) None,
     Rule GAll ((X - Y) + (Z - X)) (APat (Z - Y)) None,
     Rule GAll (X + (Y * C0)) (APat (X - (Y * (- C0)))) (Some (pAnd (pLT C0 (K 0)) (pGT (- C0) (K 0)))),
     Rule GAll ((X * C0) + Y) (APat (Y - (X * (- C0)))) (Some (pAnd (pAnd (pLT C0 (K 0)) (pGT (- C0) (K 0))) (PNot (PIsConst Y)))),
     Rule GAll ((X * Y) + (Z * Y)) (APat ((X + Z) * Y)) None,
     Rule GAll ((X * Y) + (Y * Z)) (APat ((X + Z) * Y)) None,
     Rule GAll ((Y * X) + (Z * Y)) (APat (Y * (X + Z))) None,
     Rule GAll ((Y * X) + (Y * Z)) (APat (Y * (X + Z))) None,
     Rule GAll ((X * C0) + (Y * C1)) (APat ((X + (Y * PFold (C1 div C0))) * C0)) (Some (pEQ (C1 mod C0) (K 0))),
     Rule GAll ((X * C0) + (Y * C1)) (APat (((X * PFold (C0 div C1)) + Y) * C1)) (Some (pEQ (C0 mod C1) (K 0)))]"

definition add_no_overflow :: "nat \<Rightarrow> rule list" where
  "add_no_overflow l =
    [Rule GNoOvf (X + (X * Y)) (APat (X * (Y + K 1))) None,
     Rule GNoOvf (X + (Y * X)) (APat ((Y + K 1) * X)) None,
     Rule GNoOvf ((X * Y) + X) (APat (X * (Y + K 1))) None,
     Rule GNoOvf ((Y * X) + X) (APat ((Y + K 1) * X)) (Some (PNot (PIsConst X))),
     Rule GNoOvf (((X + C0) div C1) + C2) (APat ((X + PFold (C0 + (C1 * C2))) div C1)) None,
     Rule GNoOvf ((X + ((Y + C0) div C1)) + C2) (APat (X + ((Y + PFold (C0 + (C1 * C2))) div C1))) None,
     Rule GNoOvf ((((Y + C0) div C1) + X) + C2) (APat (X + ((Y + PFold (C0 + (C1 * C2))) div C1))) None,
     Rule GNoOvf (((C0 - X) div C1) + C2) (APat ((PFold (C0 + (C1 * C2)) - X) div C1)) (Some (pAnd (pNE C0 (K 0)) (pNE C1 (K 0)))),
     Rule GNoOvf (X + ((X + Y) div C0)) (APat (((PFold (C0 + K 1) * X) + Y) div C0)) None,
     Rule GNoOvf (X + ((Y + X) div C0)) (APat (((PFold (C0 + K 1) * X) + Y) div C0)) None,
     Rule GNoOvf (X + ((Y - X) div C0)) (APat (((PFold (C0 - K 1) * X) + Y) div C0)) None,
     Rule GNoOvf (X + ((X - Y) div C0)) (APat (((PFold (C0 + K 1) * X) - Y) div C0)) None,
     Rule GNoOvf (((X - Y) div C0) + X) (APat (((PFold (C0 + K 1) * X) - Y) div C0)) None,
     Rule GNoOvf (((Y - X) div C0) + X) (APat ((Y + (PFold (C0 - K 1) * X)) div C0)) None,
     Rule GNoOvf (((X + Y) div C0) + X) (APat (((PFold (C0 + K 1) * X) + Y) div C0)) None,
     Rule GNoOvf (((Y + X) div C0) + X) (APat ((Y + (PFold (C0 + K 1) * X)) div C0)) None,
     Rule GNoOvf (pMin X (Y - Z) + Z) (APat (pMin (X + Z) Y)) None,
     Rule GNoOvf (pMin (Y - Z) X + Z) (APat (pMin Y (X + Z))) None,
     Rule GNoOvf (pMin X (Y + C0) + C1) (APat (pMin (X + C1) Y)) (Some (pEQ (C0 + C1) (K 0))),
     Rule GNoOvf (pMin (Y + C0) X + C1) (APat (pMin Y (X + C1))) (Some (pEQ (C0 + C1) (K 0))),
     Rule GNoOvf (Z + pMin X (Y - Z)) (APat (pMin (Z + X) Y)) None,
     Rule GNoOvf (Z + pMin (Y - Z) X) (APat (pMin Y (Z + X))) None,
     Rule GNoOvf (Z + pMax X (Y - Z)) (APat (pMax (Z + X) Y)) None,
     Rule GNoOvf (Z + pMax (Y - Z) X) (APat (pMax Y (Z + X))) None,
     Rule GNoOvf (pMax X (Y - Z) + Z) (APat (pMax (X + Z) Y)) None,
     Rule GNoOvf (pMax (Y - Z) X + Z) (APat (pMax Y (X + Z))) None,
     Rule GNoOvf (pMax X (Y + C0) + C1) (APat (pMax (X + C1) Y)) (Some (pEQ (C0 + C1) (K 0))),
     Rule GNoOvf (pMax (Y + C0) X + C1) (APat (pMax Y (X + C1))) (Some (pEQ (C0 + C1) (K 0))),
     Rule GNoOvf (pMax X Y + pMin X Y) (APat (X + Y)) None,
     Rule GNoOvf (pMax X Y + pMin Y X) (APat (X + Y)) None]"

definition add_no_overflow_int :: "nat \<Rightarrow> rule list" where
  "add_no_overflow_int l =
    [Rule GNoOvfInt (((X div Y) * Y) + (X mod Y)) (APat X) None,
     Rule GNoOvfInt (((Z + (X div Y)) * Y) + (X mod Y)) (APat ((Z * Y) + X)) None,
     Rule GNoOvfInt ((((X div Y) + Z) * Y) + (X mod Y)) (APat (X + (Z * Y))) None,
     Rule GNoOvfInt ((X mod Y) + (((X div Y) * Y) + Z)) (APat (X + Z)) None,
     Rule GNoOvfInt ((X mod Y) + (((X div Y) * Y) - Z)) (APat (X - Z)) None,
     Rule GNoOvfInt ((X mod Y) + (Z + ((X div Y) * Y))) (APat (X + Z)) None,
     Rule GNoOvfInt (((X div Y) * Y) + ((X mod Y) + Z)) (APat (X + Z)) None,
     Rule GNoOvfInt (((X div Y) * Y) + ((X mod Y) - Z)) (APat (X - Z)) None,
     Rule GNoOvfInt (((X div Y) * Y) + (Z + (X mod Y))) (APat (X + Z)) None,
     Rule GNoOvfInt ((X div K 2) + (X mod K 2)) (APat ((X + K 1) div K 2)) None,
     Rule GNoOvfInt (X + (((C0 - X) div C1) * C1)) (APat (C0 - ((C0 - X) mod C1))) (Some (pGT C1 (K 0))),
     Rule GNoOvfInt (X + ((((C0 - X) div C1) + Y) * C1)) (APat (((Y * C1) - ((C0 - X) mod C1)) + C0)) (Some (pGT C1 (K 0))),
     Rule GNoOvfInt (X + ((Y + ((C0 - X) div C1)) * C1)) (APat (((Y * C1) - ((C0 - X) mod C1)) + C0)) (Some (pGT C1 (K 0)))]"

definition add_mutate :: "nat \<Rightarrow> rule list" where
  "add_mutate l = add_select l @ add_linear l @ add_no_overflow l @ add_no_overflow_int l"


subsection \<open>Products\<close>

definition mul_result :: "nat \<Rightarrow> rule list" where
  "mul_result l =
    [Rule GAll (C0 * C1) (APat (PFold (C0 * C1))) None,
     Rule GAll (PIndeterminate * X) (AExprA) None,
     Rule GAll (X * PIndeterminate) (AExprB) None,
     Rule GAll (POverflow * X) (AExprA) None,
     Rule GAll (X * POverflow) (AExprB) None,
     Rule GAll (K 0 * X) (AInt 0) None,
     Rule GAll (K 1 * X) (APat X) None,
     Rule GAll (X * K 0) (AInt 0) None,
     Rule GAll (X * K 1) (APat X) None]"

definition mul_mutate :: "nat \<Rightarrow> rule list" where
  "mul_mutate l =
    [Rule GAll ((X + C0) * C1) (APat ((X * C1) + PFold (C0 * C1))) (Some (PNot (POverflows (C0 * C1)))),
     Rule GAll ((X - Y) * C0) (APat ((Y - X) * PFold (- C0))) (Some (pAnd (pLT C0 (K 0)) (pGT (- C0) (K 0)))),
     Rule GAll ((X * C0) * C1) (APat (X * PFold (C0 * C1))) (Some (PNot (POverflows (C0 * C1)))),
     Rule GAll ((X * C0) * Y) (APat ((X * Y) * C0)) (Some (PNot (PIsConst Y))),
     Rule GAll (X * (Y * C0)) (APat ((X * Y) * C0)) None,
     Rule GAll (pMax X Y * pMin X Y) (APat (X * Y)) None,
     Rule GAll (pMax X Y * pMin Y X) (APat (Y * X)) None,
     Rule GAll (PBroadcast X None * PBroadcast Y None) (APat (PBroadcast (X * Y) (Some l))) None,
     Rule GAll (PRamp X Y None * PBroadcast Z None) (APat (PRamp (X * Z) (Y * Z) (Some l))) None]"

subsection \<open>Correctness\<close>

lemma add_rule_81: "rule_ok l (Rule GNoOvfInt ((X div K 2) + (X mod K 2)) (APat ((X + K 1) div K 2)) None)"
  by (rule rule_okI; auto simp: rule_eval pos_div; presburger)

lemma add_result_ok: "list_all (rule_ok l) (add_result l)"
  unfolding add_result_def
  by (intro list_all_intros; (rule rule_okI; auto simp: rule_eval intro!: rule_intros; simp add: algebra_simps))

lemma add_select_ok: "list_all (rule_ok l) (add_select l)"
  unfolding add_select_def
  by (intro list_all_intros; (rule rule_okI; auto simp: rule_eval intro!: rule_intros; simp add: algebra_simps))

lemma add_linear_ok: "list_all (rule_ok l) (add_linear l)"
  unfolding add_linear_def
  by (intro list_all_intros; (rule rule_okI; auto simp: rule_eval intro!: rule_intros; simp add: algebra_simps))

lemma add_no_overflow_ok: "list_all (rule_ok l) (add_no_overflow l)"
  unfolding add_no_overflow_def
  by (intro list_all_intros; (rule rule_okI; auto simp: rule_eval intro!: rule_intros; simp add: algebra_simps))

lemma add_no_overflow_int_ok: "list_all (rule_ok l) (add_no_overflow_int l)"
  unfolding add_no_overflow_int_def
  by (intro list_all_intros; ((rule add_rule_81)
      | (rule rule_okI; auto simp: rule_eval rule_ediv algebra_simps)))

lemma mul_result_ok: "list_all (rule_ok l) (mul_result l)"
  unfolding mul_result_def
  by (intro list_all_intros; (rule rule_okI; auto simp: rule_eval intro!: rule_intros; simp add: algebra_simps))

lemma mul_mutate_ok: "list_all (rule_ok l) (mul_mutate l)"
  unfolding mul_mutate_def
  by (intro list_all_intros; ((rule rule_okI; auto simp: rule_eval intro!: rule_intros; simp add: algebra_simps; fail)
      | (rule rule_okI; auto simp: rule_eval min_def max_def algebra_simps; fail)
      | (rule rule_okI; auto simp: rule_eval rule_ediv algebra_simps)))

lemmas add_mul_ok = add_result_ok add_select_ok add_linear_ok add_no_overflow_ok add_no_overflow_int_ok
  mul_result_ok mul_mutate_ok

text \<open>
  C12. Every rule of \<open>Simplify_Add.cpp\<close> and \<open>Simplify_Mul.cpp\<close> is correct for every number of lanes and
  every integer type: when its left-hand side matches a defined expression and its guard and
  predicate hold, the replacement is defined and has the same value, with the wrap-around of the
  type.
\<close>

theorem add_mul_rules_correct:
  "list_all (rule_ok l) (add_result l @ add_mutate l @ mul_result l @ mul_mutate l)"
  by (simp add: add_mutate_def add_mul_ok)

end
