(* ===== verification/RulesSub.thy ===== *)
theory RulesSub
  imports RuleProof
begin

text \<open>
  The rules of \<open>Simplify_Sub.cpp\<close>, in the order the code tries them: those of \<open>sub_result\<close> give the
  result of the visit, those of \<open>sub_mutate\<close> an expression that is simplified again. The rules of
  \<open>sub_min_min\<close> and \<open>sub_max_max\<close> ask the simplifier itself to prove their predicate.
\<close>

subsection \<open>Differences\<close>

definition sub_result :: "nat \<Rightarrow> rule list" where
  "sub_result l =
    [Rule GAll (C0 - C1) (APat (PFold (C0 - C1))) None,
     Rule GAll (PIndeterminate - X) (AExprA) None,
     Rule GAll (X - PIndeterminate) (AExprB) None,
     Rule GAll (POverflow - X) (AExprA) None,
     Rule GAll (X - POverflow) (AExprB) None,
     Rule GAll (X - K 0) (APat X) None]"

definition sub_select :: "nat \<Rightarrow> rule list" where
  "sub_select l =
    [Rule GNotUInt (X - C0) (APat (X + PFold (- C0))) (Some (PNot (POverflows (- C0)))),
     Rule GAll (X - X) (AInt 0) None,
     Rule GAll (PRamp X Y None - PRamp Z W None) (APat (PRamp (X - Z) (Y - W) (Some l))) None,
     Rule GAll (PRamp X Y None - PBroadcast Z None) (APat (PRamp (X - Z) Y (Some l))) None,
     Rule GAll (PBroadcast X None - PRamp Z W None) (APat (PRamp (X - Z) (- W) (Some l))) None,
     Rule GAll (PBroadcast X None - PBroadcast Y None) (APat (PBroadcast (X - Y) (Some l))) None,
     Rule GAll (PSelect X Y Z - PSelect X W U) (APat (PSelect X (Y - W) (Z - U))) None,
     Rule GAll (PSelect X Y Z - Y) (APat (PSelect X (K 0) (Z - Y))) None,
     Rule GAll (PSelect X Y Z - Z) (APat (PSelect X (Y - Z) (K 0))) None,
     Rule GAll (Y - PSelect X Y Z) (APat (PSelect X (K 0) (Y - Z))) None,
     Rule GAll (Z - PSelect X Y Z) (APat (PSelect X (Z - Y) (K 0))) None,
     Rule GAll ((X + Y) - X) (APat Y) None,
     Rule GAll ((X + Y) - Y) (APat X) None,
     Rule GAll (X - (X + Y)) (APat (- Y)) None,
     Rule GAll (Y - (X + Y)) (APat (- X)) None,
     Rule GAll ((X - Y) - X) (APat (- Y)) None,
     Rule GAll ((PSelect X Y Z + W) - PSelect X U V) (APat (PSelect X (Y - U) (Z - V) + W)) None,
     Rule GAll ((W + PSelect X Y Z) - PSelect X U V) (APat (PSelect X (Y - U) (Z - V) + W)) None,
     Rule GAll (PSelect X Y Z - (PSelect X U V + W)) (APat (PSelect X (Y - U) (Z - V) - W)) None,
     Rule GAll (PSelect X Y Z - (W + PSelect X U V)) (APat (PSelect X (Y - U) (Z - V) - W)) None,
     Rule GAll ((PSelect X Y Z - W) - PSelect X U V) (APat (PSelect X (Y - U) (Z - V) - W)) None,
     Rule GAll (C0 - PSelect X C1 C2) (APat (PSelect X (PFold (C0 - C1)) (PFold (C0 - C2)))) None]"

definition sub_linear :: "nat \<Rightarrow> rule list" where
  "sub_linear l =
    [Rule GAll ((X + C0) - C1) (APat (X + PFold (C0 - C1))) None,
     Rule GAll ((X + C0) - (C1 - Y)) (APat ((X + Y) + PFold (C0 - C1))) None,
     Rule GAll ((X + C0) - (Y + C1)) (APat ((X - Y) + PFold (C0 - C1))) None,
     Rule GAll ((X + C0) - Y) (APat ((X - Y) + C0)) None,
     Rule GAll ((C0 - X) - (C1 - Y)) (APat ((Y - X) + PFold (C0 - C1))) None,
     Rule GAll ((C0 - X) - (Y + C1)) (APat (PFold (C0 - C1) - (X + Y))) None,
     Rule GAll (X - (Y - Z)) (APat (X + (Z - Y))) None,
     Rule GAll (X - (Y * C0)) (APat (X + (Y * PFold (- C0)))) (Some (pAnd (pLT C0 (K 0)) (pGT (- C0) (K 0)))),
     Rule GAll (X - (Y + C0)) (APat ((X - Y) - C0)) None,
     Rule GAll ((C0 - X) - C1) (APat (PFold (C0 - C1) - X)) None,
     Rule GAll ((X * Y) - (Z * Y)) (APat ((X - Z) * Y)) None,
     Rule GAll ((X * Y) - (Y * Z)) (APat ((X - Z) * Y)) None,
     Rule GAll ((Y * X) - (Z * Y)) (APat (Y * (X - Z))) None,
     Rule GAll ((Y * X) - (Y * Z)) (APat (Y * (X - Z))) None,
     Rule GAll ((X + Y) - (X + Z)) (APat (Y - Z)) None,
     Rule GAll ((X + Y) - (Z + X)) (APat (Y - Z)) None,
     Rule GAll ((Y + X) - (X + Z)) (APat (Y - Z)) None,
     Rule GAll ((Y + X) - (Z + X)) (APat (Y - Z)) None,
     Rule GAll (((X + Y) + Z) - X) (APat (Y + Z)) None,
     Rule GAll (((Y + X) + Z) - X) (APat (Y + Z)) None,
     Rule GAll ((Z + (X + Y)) - X) (APat (Z + Y)) None,
     Rule GAll ((Z + (Y + X)) - X) (APat (Z + Y)) None]"

definition sub_no_overflow :: "nat \<Rightarrow> rule list" where
  "sub_no_overflow l =
    [Rule GNoOvf (pMax X Y - X) (APat (pMax (K 0) (Y - X))) None,
     Rule GNoOvf (pMin X Y - X) (APat (pMin (K 0) (Y - X))) None,
     Rule GNoOvf (pMax X Y - Y) (APat (pMax (X - Y) (K 0))) None,
     Rule GNoOvf (pMin X Y - Y) (APat (pMin (X - Y) (K 0))) None,
     Rule GNoOvf (X - pMax X Y) (APat (pMin (K 0) (X - Y))) (Some (PNot (PIsConst X))),
     Rule GNoOvf (X - pMin X Y) (APat (pMax (K 0) (X - Y))) (Some (PNot (PIsConst X))),
     Rule GNoOvf (Y - pMax X Y) (APat (pMin (Y - X) (K 0))) (Some (PNot (PIsConst Y))),
     Rule GNoOvf (Y - pMin X Y) (APat (pMax (Y - X) (K 0))) (Some (PNot (PIsConst Y))),
     Rule GNoOvf ((X * Y) - X) (APat (X * (Y - K 1))) None,
     Rule GNoOvf ((X * Y) - Y) (APat ((X - K 1) * Y)) None,
     Rule GNoOvf (X - (X * Y)) (APat (X * (K 1 - Y))) None,
     Rule GNoOvf (X - (Y * X)) (APat ((K 1 - Y) * X)) None,
     Rule GNoOvf (X - pMin (X + Y) Z) (APat (pMax (- Y) (X - Z))) None,
     Rule GNoOvf (X - pMin (Y + X) Z) (APat (pMax (- Y) (X - Z))) None,
     Rule GNoOvf (X - pMin Z (X + Y)) (APat (pMax (X - Z) (- Y))) None,
     Rule GNoOvf (X - pMin Z (Y + X)) (APat (pMax (X - Z) (- Y))) None,
     Rule GNoOvf (pMin (X + Y) Z - X) (APat (pMin Y (Z - X))) None,
     Rule GNoOvf (pMin (Y + X) Z - X) (APat (pMin Y (Z - X))) None,
     Rule GNoOvf (pMin Z (X + Y) - X) (APat (pMin (Z - X) Y)) None,
     Rule GNoOvf (pMin Z (Y + X) - X) (APat (pMin (Z - X) Y)) None,
     Rule GNoOvf (pMin X Y - pMin Y X) (AInt 0) None,
     Rule GNoOvf (pMin X Y - pMin Z W) (APat (Y - W)) (Some (PCanProve (pEQ (X - Y) (Z - W)))),
     Rule GNoOvf (pMin X Y - pMin W Z) (APat (Y - W)) (Some (PCanProve (pEQ (X - Y) (Z - W)))),
     Rule GNoOvf (X - pMax (X + Y) Z) (APat (pMin (- Y) (X - Z))) None,
     Rule GNoOvf (X - pMax (Y + X) Z) (APat (pMin (- Y) (X - Z))) None,
     Rule GNoOvf (X - pMax Z (X + Y)) (APat (pMin (X - Z) (- Y))) None,
     Rule GNoOvf (X - pMax Z (Y + X)) (APat (pMin (X - Z) (- Y))) None,
     Rule GNoOvf (pMax (X + Y) Z - X) (APat (pMax Y (Z - X))) None,
     Rule GNoOvf (pMax (Y + X) Z - X) (APat (pMax Y (Z - X))) None,
     Rule GNoOvf (pMax Z (X + Y) - X) (APat (pMax (Z - X) Y)) None,
     Rule GNoOvf (pMax Z (Y + X) - X) (APat (pMax (Z - X) Y)) None,
     Rule GNoOvf (pMax X Y - pMax Y X) (AInt 0) None,
     Rule GNoOvf (pMax X Y - pMax Z W) (APat (Y - W)) (Some (PCanProve (pEQ (X - Y) (Z - W)))),
     Rule GNoOvf (pMax X Y - pMax W Z) (APat (Y - W)) (Some (PCanProve (pEQ (X - Y) (Z - W))))]"

definition sub_min_min :: "nat \<Rightarrow> rule list" where
  "sub_min_min l =
    [Rule GNoOvf (pMin X Y - pMin X W) (APat (pMin (K 0) (Y - pMin X W))) (Some (PCanProve (pLE Y W))),
     Rule GNoOvf (pMin X Y - pMin X W) (APat (pMax (K 0) (pMin X Y - W))) (Some (PCanProve (pGE Y W))),
     Rule GNoOvf (pMin (X + C0) Y - pMin X W) (APat (pMin C0 (Y - pMin X W))) (Some (PCanProve (pLE Y (W + C0)))),
     Rule GNoOvf (pMin (X + C0) Y - pMin X W) (APat (pMax C0 (pMin (X + C0) Y - W))) (Some (PCanProve (pGE Y (W + C0)))),
     Rule GNoOvf (pMin X Y - pMin (X + C1) W) (APat (pMin (PFold (- C1)) (Y - pMin (X + C1) W))) (Some (PCanProve (pLE (Y + C1) W))),
     Rule GNoOvf (pMin X Y - pMin (X + C1) W) (APat (pMax (PFold (- C1)) (pMin X Y - W))) (Some (PCanProve (pGE (Y + C1) W))),
     Rule GNoOvf (pMin (X + C0) Y - pMin (X + C1) W) (APat (pMin (PFold (C0 - C1)) (Y - pMin (X + C1) W))) (Some (PCanProve (pLE (Y + C1) (W + C0)))),
     Rule GNoOvf (pMin (X + C0) Y - pMin (X + C1) W) (APat (pMax (PFold (C0 - C1)) (pMin (X + C0) Y - W))) (Some (PCanProve (pGE (Y + C1) (W + C0)))),
     Rule GNoOvf (pMin Y X - pMin W X) (APat (pMin (K 0) (Y - pMin X W))) (Some (PCanProve (pLE Y W))),
     Rule GNoOvf (pMin Y X - pMin W X) (APat (pMax (K 0) (pMin X Y - W))) (Some (PCanProve (pGE Y W))),
     Rule GNoOvf (pMin Y (X + C0) - pMin W X) (APat (pMin C0 (Y - pMin X W))) (Some (PCanProve (pLE Y (W + C0)))),
     Rule GNoOvf (pMin Y (X + C0) - pMin W X) (APat (pMax C0 (pMin (X + C0) Y - W))) (Some (PCanProve (pGE Y (W + C0)))),
     Rule GNoOvf (pMin Y X - pMin W (X + C1)) (APat (pMin (PFold (- C1)) (Y - pMin (X + C1) W))) (Some (PCanProve (pLE (Y + C1) W))),
     Rule GNoOvf (pMin Y X - pMin W (X + C1)) (APat (pMax (PFold (- C1)) (pMin X Y - W))) (Some (PCanProve (pGE (Y + C1) W))),
     Rule GNoOvf (pMin Y (X + C0) - pMin W (X + C1)) (APat (pMin (PFold (C0 - C1)) (Y - pMin (X + C1) W))) (Some (PCanProve (pLE (Y + C1) (W + C0)))),
     Rule GNoOvf (pMin Y (X + C0) - pMin W (X + C1)) (APat (pMax (PFold (C0 - C1)) (pMin (X + C0) Y - W))) (Some (PCanProve (pGE (Y + C1) (W + C0)))),
     Rule GNoOvf (pMin X Y - pMin W X) (APat (pMin (K 0) (Y - pMin X W))) (Some (PCanProve (pLE Y W))),
     Rule GNoOvf (pMin X Y - pMin W X) (APat (pMax (K 0) (pMin X Y - W))) (Some (PCanProve (pGE Y W))),
     Rule GNoOvf (pMin (X + C0) Y - pMin W X) (APat (pMin C0 (Y - pMin X W))) (Some (PCanProve (pLE Y (W + C0)))),
     Rule GNoOvf (pMin (X + C0) Y - pMin W X) (APat (pMax C0 (pMin (X + C0) Y - W))) (Some (PCanProve (pGE Y (W + C0)))),
     Rule GNoOvf (pMin X Y - pMin W (X + C1)) (APat (pMin (PFold (- C1)) (Y - pMin (X + C1) W))) (Some (PCanProve (pLE (Y + C1) W))),
     Rule GNoOvf (pMin X Y - pMin W (X + C1)) (APat (pMax (PFold (- C1)) (pMin X Y - W))) (Some (PCanProve (pGE (Y + C1) W))),
     Rule GNoOvf (pMin (X + C0) Y - pMin W (X + C1)) (APat (pMin (PFold (C0 - C1)) (Y - pMin (X + C1) W))) (Some (PCanProve (pLE (Y + C1) (W + C0)))),
     Rule GNoOvf (pMin (X + C0) Y - pMin W (X + C1)) (APat (pMax (PFold (C0 - C1)) (pMin (X + C0) Y - W))) (Some (PCanProve (pGE (Y + C1) (W + C0)))),
     Rule GNoOvf (pMin Y X - pMin X W) (APat (pMin (K 0) (Y - pMin X W))) (Some (PCanProve (pLE Y W))),
     Rule GNoOvf (pMin Y X - pMin X W) (APat (pMax (K 0) (pMin X Y - W))) (Some (PCanProve (pGE Y W))),
     Rule GNoOvf (pMin Y (X + C0) - pMin X W) (APat (pMin C0 (Y - pMin X W))) (Some (PCanProve (pLE Y (W + C0)))),
     Rule GNoOvf (pMin Y (X + C0) - pMin X W) (APat (pMax C0 (pMin (X + C0) Y - W))) (Some (PCanProve (pGE Y (W + C0)))),
     Rule GNoOvf (pMin Y X - pMin (X + C1) W) (APat (pMin (PFold (- C1)) (Y - pMin (X + C1) W))) (Some (PCanProve (pLE (Y + C1) W))),
     Rule GNoOvf (pMin Y X - pMin (X + C1) W) (APat (pMax (PFold (- C1)) (pMin X Y - W))) (Some (PCanProve (pGE (Y + C1) W))),
     Rule GNoOvf (pMin Y (X + C0) - pMin (X + C1) W) (APat (pMin (PFold (C0 - C1)) (Y - pMin (X + C1) W))) (Some (PCanProve (pLE (Y + C1) (W + C0)))),
     Rule GNoOvf (pMin Y (X + C0) - pMin (X + C1) W) (APat (pMax (PFold (C0 - C1)) (pMin (X + C0) Y - W))) (Some (PCanProve (pGE (Y + C1) (W + C0))))]"

definition sub_max_max :: "nat \<Rightarrow> rule list" where
  "sub_max_max l =
    [Rule GNoOvf (pMax X Y - pMax X W) (APat (pMax (K 0) (Y - pMax X W))) (Some (PCanProve (pGE Y W))),
     Rule GNoOvf (pMax X Y - pMax X W) (APat (pMin (K 0) (pMax X Y - W))) (Some (PCanProve (pLE Y W))),
     Rule GNoOvf (pMax (X + C0) Y - pMax X W) (APat (pMax C0 (Y - pMax X W))) (Some (PCanProve (pGE Y (W + C0)))),
     Rule GNoOvf (pMax (X + C0) Y - pMax X W) (APat (pMin C0 (pMax (X + C0) Y - W))) (Some (PCanProve (pLE Y (W + C0)))),
     Rule GNoOvf (pMax X Y - pMax (X + C1) W) (APat (pMax (PFold (- C1)) (Y - pMax (X + C1) W))) (Some (PCanProve (pGE (Y + C1) W))),
     Rule GNoOvf (pMax X Y - pMax (X + C1) W) (APat (pMin (PFold (- C1)) (pMax X Y - W))) (Some (PCanProve (pLE (Y + C1) W))),
     Rule GNoOvf (pMax (X + C0) Y - pMax (X + C1) W) (APat (pMax (PFold (C0 - C1)) (Y - pMax (X + C1) W))) (Some (PCanProve (pGE (Y + C1) (W + C0)))),
     Rule GNoOvf (pMax (X + C0) Y - pMax (X + C1) W) (APat (pMin (PFold (C0 - C1)) (pMax (X + C0) Y - W))) (Some (PCanProve (pLE (Y + C1) (W + C0)))),
     Rule GNoOvf (pMax Y X - pMax W X) (APat (pMax (K 0) (Y - pMax X W))) (Some (PCanProve (pGE Y W))),
     Rule GNoOvf (pMax Y X - pMax W X) (APat (pMin (K 0) (pMax X Y - W))) (Some (PCanProve (pLE Y W))),
     Rule GNoOvf (pMax Y (X + C0) - pMax W X) (APat (pMax C0 (Y - pMax X W))) (Some (PCanProve (pGE Y (W + C0)))),
     Rule GNoOvf (pMax Y (X + C0) - pMax W X) (APat (pMin C0 (pMax (X + C0) Y - W))) (Some (PCanProve (pLE Y (W + C0)))),
     Rule GNoOvf (pMax Y X - pMax W (X + C1)) (APat (pMax (PFold (- C1)) (Y - pMax (X + C1) W))) (Some (PCanProve (pGE (Y + C1) W))),
     Rule GNoOvf (pMax Y X - pMax W (X + C1)) (APat (pMin (PFold (- C1)) (pMax X Y - W))) (Some (PCanProve (pLE (Y + C1) W))),
     Rule GNoOvf (pMax Y (X + C0) - pMax W (X + C1)) (APat (pMax (PFold (C0 - C1)) (Y - pMax (X + C1) W))) (Some (PCanProve (pGE (Y + C1) (W + C0)))),
     Rule GNoOvf (pMax Y (X + C0) - pMax W (X + C1)) (APat (pMin (PFold (C0 - C1)) (pMax (X + C0) Y - W))) (Some (PCanProve (pLE (Y + C1) (W + C0)))),
     Rule GNoOvf (pMax X Y - pMax W X) (APat (pMax (K 0) (Y - pMax X W))) (Some (PCanProve (pGE Y W))),
     Rule GNoOvf (pMax X Y - pMax W X) (APat (pMin (K 0) (pMax X Y - W))) (Some (PCanProve (pLE Y W))),
     Rule GNoOvf (pMax (X + C0) Y - pMax W X) (APat (pMax C0 (Y - pMax X W))) (Some (PCanProve (pGE Y (W + C0)))),
     Rule GNoOvf (pMax (X + C0) Y - pMax W X) (APat (pMin C0 (pMax (X + C0) Y - W))) (Some (PCanProve (pLE Y (W + C0)))),
     Rule GNoOvf (pMax X Y - pMax W (X + C1)) (APat (pMax (PFold (- C1)) (Y - pMax (X + C1) W))) (Some (PCanProve (pGE (Y + C1) W))),
     Rule GNoOvf (pMax X Y - pMax W (X + C1)) (APat (pMin (PFold (- C1)) (pMax X Y - W))) (Some (PCanProve (pLE (Y + C1) W))),
     Rule GNoOvf (pMax (X + C0) Y - pMax W (X + C1)) (APat (pMax (PFold (C0 - C1)) (Y - pMax (X + C1) W))) (Some (PCanProve (pGE (Y + C1) (W + C0)))),
     Rule GNoOvf (pMax (X + C0) Y - pMax W (X + C1)) (APat (pMin (PFold (C0 - C1)) (pMax (X + C0) Y - W))) (Some (PCanProve (pLE (Y + C1) (W + C0)))),
     Rule GNoOvf (pMax Y X - pMax X W) (APat (pMax (K 0) (Y - pMax X W))) (Some (PCanProve (pGE Y W))),
     Rule GNoOvf (pMax Y X - pMax X W) (APat (pMin (K 0) (pMax X Y - W))) (Some (PCanProve (pLE Y W))),
     Rule GNoOvf (pMax Y (X + C0) - pMax X W) (APat (pMax C0 (Y - pMax X W))) (Some (PCanProve (pGE Y (W + C0)))),
     Rule GNoOvf (pMax Y (X + C0) - pMax X W) (APat (pMin C0 (pMax (X + C0) Y - W))) (Some (PCanProve (pLE Y (W + C0)))),
     Rule GNoOvf (pMax Y X - pMax (X + C1) W) (APat (pMax (PFold (- C1)) (Y - pMax (X + C1) W))) (Some (PCanProve (pGE (Y + C1) W))),
     Rule GNoOvf (pMax Y X - pMax (X + C1) W) (APat (pMin (PFold (- C1)) (pMax X Y - W))) (Some (PCanProve (pLE (Y + C1) W))),
     Rule GNoOvf (pMax Y (X + C0) - pMax (X + C1) W) (APat (pMax (PFold (C0 - C1)) (Y - pMax (X + C1) W))) (Some (PCanProve (pGE (Y + C1) (W + C0)))),
     Rule GNoOvf (pMax Y (X + C0) - pMax (X + C1) W) (APat (pMin (PFold (C0 - C1)) (pMax (X + C0) Y - W))) (Some (PCanProve (pLE (Y + C1) (W + C0))))]"

definition sub_div :: "nat \<Rightarrow> rule list" where
  "sub_div l =
    [Rule GNoOvfInt (C0 - ((C1 - X) div C2)) (APat ((PFold ((((C0 * C2) - C1) + C2) - K 1) + X) div C2)) (Some (pGT C2 (K 0))),
     Rule GNoOvfInt (C0 - ((X + C1) div C2)) (APat ((PFold ((((C0 * C2) - C1) + C2) - K 1) - X) div C2)) (Some (pGT C2 (K 0))),
     Rule GNoOvfInt (X - ((X + Y) div C0)) (APat ((((X * PFold (C0 - K 1)) - Y) + PFold (C0 - K 1)) div C0)) (Some (pGT C0 (K 0))),
     Rule GNoOvfInt (X - ((X - Y) div C0)) (APat ((((X * PFold (C0 - K 1)) + Y) + PFold (C0 - K 1)) div C0)) (Some (pGT C0 (K 0))),
     Rule GNoOvfInt (X - ((Y + X) div C0)) (APat ((((X * PFold (C0 - K 1)) - Y) + PFold (C0 - K 1)) div C0)) (Some (pGT C0 (K 0))),
     Rule GNoOvfInt (X - ((Y - X) div C0)) (APat ((((X * PFold (C0 + K 1)) - Y) + PFold (C0 - K 1)) div C0)) (Some (pGT C0 (K 0))),
     Rule GNoOvfInt (((X + Y) div C0) - X) (APat (((X * PFold (K 1 - C0)) + Y) div C0)) None,
     Rule GNoOvfInt (((Y + X) div C0) - X) (APat ((Y + (X * PFold (K 1 - C0))) div C0)) None,
     Rule GNoOvfInt (((X - Y) div C0) - X) (APat (((X * PFold (K 1 - C0)) - Y) div C0)) None,
     Rule GNoOvfInt (((Y - X) div C0) - X) (APat ((Y - (X * PFold (K 1 + C0))) div C0)) None,
     Rule GNoOvfInt (((X div C0) * C0) - X) (APat (- (X mod C0))) (Some (pGT C0 (K 0))),
     Rule GNoOvfInt (X - ((X div C0) * C0)) (APat (X mod C0)) (Some (pGT C0 (K 0))),
     Rule GNoOvfInt ((((X + C0) div C1) * C1) - X) (APat ((- X) mod C1)) (Some (pAnd (pGT C1 (K 0)) (pEQ (C0 + K 1) C1))),
     Rule GNoOvfInt (X - (((X + C0) div C1) * C1)) (APat (((X + C0) mod C1) + PFold (- C0))) (Some (pAnd (pGT C1 (K 0)) (pEQ (C0 + K 1) C1))),
     Rule GNoOvfInt ((X * C0) - (Y * C1)) (APat (((X * PFold (C0 div C1)) - Y) * C1)) (Some (pEQ (C0 mod C1) (K 0))),
     Rule GNoOvfInt ((X * C0) - (Y * C1)) (APat ((X - (Y * PFold (C1 div C0))) * C0)) (Some (pEQ (C1 mod C0) (K 0)))]"

definition sub_div_div :: "nat \<Rightarrow> rule list" where
  "sub_div_div l =
    [Rule GNoOvfInt ((((X + Y) + Z) div C0) - (((Y + X) + W) div C0)) (APat ((((X + Y) + Z) div C0) - (((X + Y) + W) div C0))) (Some (pGT C0 (K 0))),
     Rule GNoOvfInt (((X + Y) div C0) - ((Y + X) div C0)) (AInt 0) (Some (pNE C0 (K 0))),
     Rule GNoOvfInt (((X + Y) div C0) - ((X + C1) div C0)) (APat ((((X + PFold (C1 mod C0)) mod C0) + (Y - C1)) div C0)) (Some (pGT C0 (K 0))),
     Rule GNoOvfInt (((X + C1) div C0) - ((X + Y) div C0)) (APat (((PFold ((C0 + C1) - K 1) - Y) - ((X + PFold (C1 mod C0)) mod C0)) div C0)) (Some (pGT C0 (K 0))),
     Rule GNoOvfInt (((X - Y) div C0) - ((X + C1) div C0)) (APat (((((X + PFold (C1 mod C0)) mod C0) - Y) - C1) div C0)) (Some (pGT C0 (K 0))),
     Rule GNoOvfInt (((X + C1) div C0) - ((X - Y) div C0)) (APat (((Y + PFold ((C0 + C1) - K 1)) - ((X + PFold (C1 mod C0)) mod C0)) div C0)) (Some (pGT C0 (K 0))),
     Rule GNoOvfInt ((X div C0) - ((X + Y) div C0)) (APat (((PFold (C0 - K 1) - Y) - (X mod C0)) div C0)) (Some (pGT C0 (K 0))),
     Rule GNoOvfInt (((X + Y) div C0) - (X div C0)) (APat (((X mod C0) + Y) div C0)) (Some (pGT C0 (K 0))),
     Rule GNoOvfInt ((X div C0) - ((X - Y) div C0)) (APat (((Y + PFold (C0 - K 1)) - (X mod C0)) div C0)) (Some (pGT C0 (K 0))),
     Rule GNoOvfInt (((X - Y) div C0) - (X div C0)) (APat (((X mod C0) - Y) div C0)) (Some (pGT C0 (K 0)))]"

definition sub_mutate :: "nat \<Rightarrow> rule list" where
  "sub_mutate l = sub_select l @ sub_linear l @ sub_no_overflow l @ sub_min_min l @ sub_max_max l @ sub_div l @ sub_div_div l"

subsection \<open>Correctness\<close>

lemma sub_rule_161: "rule_ok l (Rule GNoOvfInt ((((X + C0) div C1) * C1) - X) (APat ((- X) mod C1)) (Some (pAnd (pGT C1 (K 0)) (pEQ (C0 + K 1) C1))))"
  by (rule rule_okI; auto simp: rule_eval pos_div ceil_mod)

lemma sub_rule_168: "rule_ok l (Rule GNoOvfInt (((X + C1) div C0) - ((X + Y) div C0)) (APat (((PFold ((C0 + C1) - K 1) - Y) - ((X + PFold (C1 mod C0)) mod C0)) div C0)) (Some (pGT C0 (K 0))))"
  by (rule rule_okI; auto simp: rule_eval pos_div div_diff_ceil mod_simps; simp add: algebra_simps)

lemma sub_rule_170: "rule_ok l (Rule GNoOvfInt (((X + C1) div C0) - ((X - Y) div C0)) (APat (((Y + PFold ((C0 + C1) - K 1)) - ((X + PFold (C1 mod C0)) mod C0)) div C0)) (Some (pGT C0 (K 0))))"
  by (rule rule_okI; auto simp: rule_eval pos_div div_diff_ceil mod_simps; simp add: algebra_simps)

lemma sub_rule_171: "rule_ok l (Rule GNoOvfInt ((X div C0) - ((X + Y) div C0)) (APat (((PFold (C0 - K 1) - Y) - (X mod C0)) div C0)) (Some (pGT C0 (K 0))))"
  by (rule rule_okI; auto simp: rule_eval pos_div div_diff_ceil mod_simps; simp add: algebra_simps)

lemma sub_rule_173: "rule_ok l (Rule GNoOvfInt ((X div C0) - ((X - Y) div C0)) (APat (((Y + PFold (C0 - K 1)) - (X mod C0)) div C0)) (Some (pGT C0 (K 0))))"
  by (rule rule_okI; auto simp: rule_eval pos_div div_diff_ceil mod_simps; simp add: algebra_simps)

lemma sub_result_ok: "list_all (rule_ok l) (sub_result l)"
  unfolding sub_result_def
  by (intro list_all_intros; (rule rule_okI; auto simp: rule_eval intro!: rule_intros; simp add: algebra_simps))

lemma sub_select_ok: "list_all (rule_ok l) (sub_select l)"
  unfolding sub_select_def
  by (intro list_all_intros; (rule rule_okI; auto simp: rule_eval intro!: rule_intros; simp add: algebra_simps))

lemma sub_linear_ok: "list_all (rule_ok l) (sub_linear l)"
  unfolding sub_linear_def
  by (intro list_all_intros; (rule rule_okI; auto simp: rule_eval intro!: rule_intros; simp add: algebra_simps))

lemma sub_no_overflow_ok: "list_all (rule_ok l) (sub_no_overflow l)"
  unfolding sub_no_overflow_def
  by (intro list_all_intros; (rule rule_okI; auto simp: rule_eval intro!: rule_intros; simp add: algebra_simps))

lemma sub_min_min_ok: "list_all (rule_ok l) (sub_min_min l)"
  unfolding sub_min_min_def
  by (intro list_all_intros; (rule rule_okI; auto simp: rule_eval intro!: rule_intros; simp add: algebra_simps))

lemma sub_max_max_ok: "list_all (rule_ok l) (sub_max_max l)"
  unfolding sub_max_max_def
  by (intro list_all_intros; (rule rule_okI; auto simp: rule_eval intro!: rule_intros; simp add: algebra_simps))

lemma sub_div_ok: "list_all (rule_ok l) (sub_div l)"
  unfolding sub_div_def
  by (intro list_all_intros; ((rule sub_rule_161)
      | (rule rule_okI; auto simp: rule_eval pos_div diff_div; simp add: algebra_simps; fail)
      | (rule rule_okI; auto simp: rule_eval intro!: rule_intros; simp add: algebra_simps)))

lemma sub_div_div_ok: "list_all (rule_ok l) (sub_div_div l)"
  unfolding sub_div_div_def
  by (intro list_all_intros; ((rule sub_rule_168 sub_rule_170 sub_rule_171 sub_rule_173)
      | (rule rule_okI; auto simp: rule_eval pos_div div_diff mod_simps; simp add: algebra_simps; fail)
      | (rule rule_okI; auto simp: rule_eval intro!: rule_intros; simp add: algebra_simps)))

lemmas sub_ok = sub_result_ok sub_select_ok sub_linear_ok sub_no_overflow_ok sub_min_min_ok sub_max_max_ok
  sub_div_ok sub_div_div_ok

text \<open>
  C13. Every rule of \<open>Simplify_Sub.cpp\<close> is correct for every number of lanes and every integer type,
  those whose predicate is handed to the prover included.
\<close>

theorem sub_rules_correct: "list_all (rule_ok l) (sub_result l @ sub_mutate l)"
  by (simp add: sub_mutate_def sub_ok)

end
