(* ===== verification/RulesDiv.thy ===== *)
theory RulesDiv
  imports RuleProof
begin

text \<open>
  The rules of \<open>Simplify_Div.cpp\<close> and \<open>Simplify_Mod.cpp\<close>, in the order the code tries them. The rules
  of \<open>div_result\<close> and \<open>mod_result\<close> give the result of the visit, those of \<open>div_mutate\<close> and \<open>mod_mutate\<close>
  an expression that is simplified again. Division rounds so that the remainder is never negative.
\<close>

subsection \<open>Quotients\<close>

definition div_result :: "nat \<Rightarrow> rule list" where
  "div_result l =
    [Rule GAll (PIndeterminate div X) (AExprA) None,
     Rule GAll (X div PIndeterminate) (AExprB) None,
     Rule GAll (POverflow div X) (AExprA) None,
     Rule GAll (X div POverflow) (AExprB) None,
     Rule GAll (X div K 1) (APat X) None,
     Rule GNotFloat (X div K 0) (APat PIndeterminate) None,
     Rule GNonZero (K 0 div X) (AInt 0) None,
     Rule GNonZero (X div X) (AInt 1) None,
     Rule GAll (C0 div C1) (APat (PFold (C0 div C1))) None]"

definition div_broadcast :: "nat \<Rightarrow> rule list" where
  "div_broadcast l =
    [Rule GAll (PBroadcast X None div PBroadcast Y None) (APat (PBroadcast (X div Y) (Some l))) None,
     Rule GAll (PSelect X C0 C1 div C2) (APat (PSelect X (PFold (C0 div C2)) (PFold (C1 div C2)))) None]"

definition div_nested :: "nat \<Rightarrow> rule list" where
  "div_nested l =
    [Rule GNoOvf ((X div C0) div C2) (APat (X div PFold (C0 * C2))) (Some (pAnd (pAnd (pGT C0 (K 0)) (pGT C2 (K 0))) (PNot (POverflows (C0 * C2))))),
     Rule GNoOvf (((X div C0) + C1) div C2) (APat ((X + PFold (C1 * C0)) div PFold (C0 * C2))) (Some (pAnd (pAnd (pAnd (pGT C0 (K 0)) (pGT C2 (K 0))) (PNot (POverflows (C0 * C2)))) (PNot (POverflows (C0 * C1))))),
     Rule GNoOvf ((X * C0) div C1) (APat (X div PFold (C1 div C0))) (Some (pAnd (pAnd (pEQ (C1 mod C0) (K 0)) (pGT C0 (K 0))) (pNE (C1 div C0) (K 0)))),
     Rule GNoOvf ((X * C0) div C1) (APat (X * PFold (C0 div C1))) (Some (pAnd (pEQ (C0 mod C1) (K 0)) (pGT C1 (K 0))))]"

definition div_multiple :: "nat \<Rightarrow> rule list" where
  "div_multiple l =
    [Rule GNoOvf (((X * C0) + Y) div C1) (APat ((Y div C1) + (X * PFold (C0 div C1)))) (Some (pAnd (pEQ (C0 mod C1) (K 0)) (pGT C1 (K 0)))),
     Rule GNoOvf (((X * C0) - Y) div C1) (APat (((- Y) div C1) + (X * PFold (C0 div C1)))) (Some (pAnd (pEQ (C0 mod C1) (K 0)) (pGT C1 (K 0)))),
     Rule GNoOvf ((Y + (X * C0)) div C1) (APat ((Y div C1) + (X * PFold (C0 div C1)))) (Some (pAnd (pEQ (C0 mod C1) (K 0)) (pGT C1 (K 0)))),
     Rule GNoOvf ((Y - (X * C0)) div C1) (APat ((Y div C1) - (X * PFold (C0 div C1)))) (Some (pAnd (pEQ (C0 mod C1) (K 0)) (pGT C1 (K 0)))),
     Rule GNoOvf ((((X * C0) + Y) + Z) div C1) (APat (((Y + Z) div C1) + (X * PFold (C0 div C1)))) (Some (pAnd (pEQ (C0 mod C1) (K 0)) (pGT C1 (K 0)))),
     Rule GNoOvf ((((X * C0) - Y) + Z) div C1) (APat (((Z - Y) div C1) + (X * PFold (C0 div C1)))) (Some (pAnd (pEQ (C0 mod C1) (K 0)) (pGT C1 (K 0)))),
     Rule GNoOvf ((((X * C0) + Y) - Z) div C1) (APat (((Y - Z) div C1) + (X * PFold (C0 div C1)))) (Some (pAnd (pEQ (C0 mod C1) (K 0)) (pGT C1 (K 0)))),
     Rule GNoOvf ((((X * C0) - Y) - Z) div C1) (APat ((((- Y) - Z) div C1) + (X * PFold (C0 div C1)))) (Some (pAnd (pEQ (C0 mod C1) (K 0)) (pGT C1 (K 0)))),
     Rule GNoOvf (((Y + (X * C0)) + Z) div C1) (APat (((Y + Z) div C1) + (X * PFold (C0 div C1)))) (Some (pAnd (pEQ (C0 mod C1) (K 0)) (pGT C1 (K 0)))),
     Rule GNoOvf (((Y + (X * C0)) - Z) div C1) (APat (((Y - Z) div C1) + (X * PFold (C0 div C1)))) (Some (pAnd (pEQ (C0 mod C1) (K 0)) (pGT C1 (K 0)))),
     Rule GNoOvf (((Y - (X * C0)) - Z) div C1) (APat (((Y - Z) div C1) - (X * PFold (C0 div C1)))) (Some (pAnd (pEQ (C0 mod C1) (K 0)) (pGT C1 (K 0)))),
     Rule GNoOvf (((Y - (X * C0)) + Z) div C1) (APat (((Y + Z) div C1) - (X * PFold (C0 div C1)))) (Some (pAnd (pEQ (C0 mod C1) (K 0)) (pGT C1 (K 0)))),
     Rule GNoOvf ((Z + ((X * C0) + Y)) div C1) (APat (((Z + Y) div C1) + (X * PFold (C0 div C1)))) (Some (pAnd (pEQ (C0 mod C1) (K 0)) (pGT C1 (K 0)))),
     Rule GNoOvf ((Z + ((X * C0) - Y)) div C1) (APat (((Z - Y) div C1) + (X * PFold (C0 div C1)))) (Some (pAnd (pEQ (C0 mod C1) (K 0)) (pGT C1 (K 0)))),
     Rule GNoOvf ((Z - ((X * C0) - Y)) div C1) (APat (((Z + Y) div C1) - (X * PFold (C0 div C1)))) (Some (pAnd (pEQ (C0 mod C1) (K 0)) (pGT C1 (K 0)))),
     Rule GNoOvf ((Z - ((X * C0) + Y)) div C1) (APat (((Z - Y) div C1) - (X * PFold (C0 div C1)))) (Some (pAnd (pEQ (C0 mod C1) (K 0)) (pGT C1 (K 0)))),
     Rule GNoOvf ((Z + (Y + (X * C0))) div C1) (APat (((Z + Y) div C1) + (X * PFold (C0 div C1)))) (Some (pAnd (pEQ (C0 mod C1) (K 0)) (pGT C1 (K 0)))),
     Rule GNoOvf ((Z - (Y + (X * C0))) div C1) (APat (((Z - Y) div C1) - (X * PFold (C0 div C1)))) (Some (pAnd (pEQ (C0 mod C1) (K 0)) (pGT C1 (K 0)))),
     Rule GNoOvf ((Z + (Y - (X * C0))) div C1) (APat (((Z + Y) div C1) - (X * PFold (C0 div C1)))) (Some (pAnd (pEQ (C0 mod C1) (K 0)) (pGT C1 (K 0)))),
     Rule GNoOvf ((Z - (Y - (X * C0))) div C1) (APat (((Z - Y) div C1) + (X * PFold (C0 div C1)))) (Some (pAnd (pEQ (C0 mod C1) (K 0)) (pGT C1 (K 0))))]"

definition div_multiple_sum :: "nat \<Rightarrow> rule list" where
  "div_multiple_sum l =
    [Rule GNoOvf (((((X * C0) + Y) + Z) + W) div C1) (APat ((((Y + Z) + W) div C1) + (X * PFold (C0 div C1)))) (Some (pAnd (pEQ (C0 mod C1) (K 0)) (pGT C1 (K 0)))),
     Rule GNoOvf ((((Y + (X * C0)) + Z) + W) div C1) (APat ((((Y + Z) + W) div C1) + (X * PFold (C0 div C1)))) (Some (pAnd (pEQ (C0 mod C1) (K 0)) (pGT C1 (K 0)))),
     Rule GNoOvf (((Z + ((X * C0) + Y)) + W) div C1) (APat ((((Y + Z) + W) div C1) + (X * PFold (C0 div C1)))) (Some (pAnd (pEQ (C0 mod C1) (K 0)) (pGT C1 (K 0)))),
     Rule GNoOvf (((Z + (Y + (X * C0))) + W) div C1) (APat ((((Y + Z) + W) div C1) + (X * PFold (C0 div C1)))) (Some (pAnd (pEQ (C0 mod C1) (K 0)) (pGT C1 (K 0)))),
     Rule GNoOvf ((W + (((X * C0) + Y) + Z)) div C1) (APat ((((Y + Z) + W) div C1) + (X * PFold (C0 div C1)))) (Some (pAnd (pEQ (C0 mod C1) (K 0)) (pGT C1 (K 0)))),
     Rule GNoOvf ((W + ((Y + (X * C0)) + Z)) div C1) (APat ((((Y + Z) + W) div C1) + (X * PFold (C0 div C1)))) (Some (pAnd (pEQ (C0 mod C1) (K 0)) (pGT C1 (K 0)))),
     Rule GNoOvf ((W + (Z + ((X * C0) + Y))) div C1) (APat ((((Y + Z) + W) div C1) + (X * PFold (C0 div C1)))) (Some (pAnd (pEQ (C0 mod C1) (K 0)) (pGT C1 (K 0)))),
     Rule GNoOvf ((W + (Z + (Y + (X * C0)))) div C1) (APat ((((Y + Z) + W) div C1) + (X * PFold (C0 div C1)))) (Some (pAnd (pEQ (C0 mod C1) (K 0)) (pGT C1 (K 0)))),
     Rule GNoOvf ((X + C0) div C1) (APat ((X div C1) + PFold (C0 div C1))) (Some (pEQ (C0 mod C1) (K 0)))]"

definition div_variable :: "nat \<Rightarrow> rule list" where
  "div_variable l =
    [Rule GNoOvf ((X + Y) div X) (APat ((Y div X) + K 1)) None,
     Rule GNoOvf ((Y + X) div X) (APat ((Y div X) + K 1)) None,
     Rule GNoOvf ((X - Y) div X) (APat (((- Y) div X) + K 1)) None,
     Rule GNoOvf ((Y - X) div X) (APat ((Y div X) - K 1)) None,
     Rule GNoOvf (((X + Y) + Z) div X) (APat (((Y + Z) div X) + K 1)) None,
     Rule GNoOvf (((Y + X) + Z) div X) (APat (((Y + Z) div X) + K 1)) None,
     Rule GNoOvf ((Z + (X + Y)) div X) (APat (((Z + Y) div X) + K 1)) None,
     Rule GNoOvf ((Z + (Y + X)) div X) (APat (((Z + Y) div X) + K 1)) None,
     Rule GNoOvf ((X * Y) div X) (APat Y) None,
     Rule GNoOvf ((Y * X) div X) (APat Y) None,
     Rule GNoOvf (((X * Y) + Z) div X) (APat (Y + (Z div X))) None,
     Rule GNoOvf (((Y * X) + Z) div X) (APat (Y + (Z div X))) None,
     Rule GNoOvf ((Z + (X * Y)) div X) (APat ((Z div X) + Y)) None,
     Rule GNoOvf ((Z + (Y * X)) div X) (APat ((Z div X) + Y)) None,
     Rule GNoOvf (((X * Y) - Z) div X) (APat (Y + ((- Z) div X))) None,
     Rule GNoOvf (((Y * X) - Z) div X) (APat (Y + ((- Z) div X))) None,
     Rule GNoOvf ((Z - (X * Y)) div X) (APat ((Z div X) - Y)) None,
     Rule GNoOvf ((Z - (Y * X)) div X) (APat ((Z div X) - Y)) None,
     Rule GFloat (X div C0) (APat (X * PFold (K 1 div C0))) None]"

definition div_ramp :: "nat \<Rightarrow> rule list" where
  "div_ramp l =
    [Rule GNoOvfInt (PRamp X C0 None div PBroadcast C1 None) (APat (PRamp (X div C1) (PFold (C0 div C1)) (Some l))) (Some (pEQ (C0 mod C1) (K 0))),
     Rule GNoOvfInt (PRamp X C0 None div PBroadcast C1 None) (APat (PBroadcast (X div C1) (Some l))) (Some (PCanProve (pEQ (((X mod C1) + (C0 * K (int l - 1))) div C1) (K 0))))]"

definition div_scalar :: "nat \<Rightarrow> rule list" where
  "div_scalar l =
    [Rule GNoOvfScalarInt (X div K (- 1)) (APat (- X)) None,
     Rule GNoOvfScalarInt (C0 div Y) (APat (PSelect (pLT Y (K 0)) (PFold (- C0)) C0)) (Some (pEQ C0 (K (- 1)))),
     Rule GNoOvfScalarInt (((X * C0) + C1) div C2) (APat ((X + PFold (C1 div C0)) div PFold (C2 div C0))) (Some (pAnd (pAnd (pGT C2 (K 0)) (pGT C0 (K 0))) (pEQ (C2 mod C0) (K 0)))),
     Rule GNoOvfScalarInt (((X * C0) + C1) div C2) (APat ((X * PFold (C0 div C2)) + PFold (C1 div C2))) (Some (pAnd (pGT C2 (K 0)) (pEQ (C0 mod C2) (K 0)))),
     Rule GNoOvfScalarInt (((X mod K 2) + C0) div K 2) (APat ((X mod K 2) + PFold (C0 div K 2))) (Some (pEQ (C0 mod K 2) (K 1)))]"

definition div_mutate :: "nat \<Rightarrow> rule list" where
  "div_mutate l = div_broadcast l @ div_nested l @ div_multiple l @ div_multiple_sum l @ div_variable l @ div_ramp l @ div_scalar l"


subsection \<open>Remainders\<close>

definition mod_result :: "nat \<Rightarrow> rule list" where
  "mod_result l =
    [Rule GAll (C0 mod C1) (APat (PFold (C0 mod C1))) None,
     Rule GAll (PIndeterminate mod X) (AExprA) None,
     Rule GAll (X mod PIndeterminate) (AExprB) None,
     Rule GAll (POverflow mod X) (AExprA) None,
     Rule GAll (X mod POverflow) (AExprB) None,
     Rule GNonZero (K 0 mod X) (AInt 0) None,
     Rule GNonZero (X mod X) (AInt 0) None,
     Rule GNotFloat (X mod K 0) (APat PIndeterminate) None,
     Rule GNotFloat (X mod K 1) (AInt 0) None]"

definition mod_linear :: "nat \<Rightarrow> rule list" where
  "mod_linear l =
    [Rule GAll (PBroadcast X None mod PBroadcast Y None) (APat (PBroadcast (X mod Y) (Some l))) None,
     Rule GNoOvfInt ((X * C0) mod C1) (APat ((X * PFold (C0 mod C1)) mod C1)) (Some (pAnd (pGT C1 (K 0)) (pOr (pGE C0 C1) (pLT C0 (K 0))))),
     Rule GNoOvfInt ((X + C0) mod C1) (APat ((X + PFold (C0 mod C1)) mod C1)) (Some (pAnd (pGT C1 (K 0)) (pOr (pGE C0 C1) (pLT C0 (K 0))))),
     Rule GNoOvfInt ((X * C0) mod C1) (APat ((X mod PFold (C1 div C0)) * C0)) (Some (pAnd (pGT C0 (K 0)) (pEQ (C1 mod C0) (K 0)))),
     Rule GNoOvfInt (((X * C0) + Y) mod C1) (APat (Y mod C1)) (Some (pEQ (C0 mod C1) (K 0))),
     Rule GNoOvfInt ((Y + (X * C0)) mod C1) (APat (Y mod C1)) (Some (pEQ (C0 mod C1) (K 0))),
     Rule GNoOvfInt (((X * C0) - Y) mod C1) (APat ((- Y) mod C1)) (Some (pEQ (C0 mod C1) (K 0))),
     Rule GNoOvfInt ((Y - (X * C0)) mod C1) (APat (Y mod C1)) (Some (pEQ (C0 mod C1) (K 0))),
     Rule GNoOvfInt ((X - Y) mod K 2) (APat ((X + Y) mod K 2)) None]"

definition mod_ramp :: "nat \<Rightarrow> rule list" where
  "mod_ramp l =
    [Rule GNoOvfInt (PRamp X C0 None mod PBroadcast C1 None) (APat (PBroadcast X (Some l) mod C1)) (Some (pEQ (C0 mod C1) (K 0))),
     Rule GNoOvfInt (PRamp X C0 None mod PBroadcast C1 None) (APat (PRamp (X mod C1) C0 (Some l))) (Some (PCanProve (pEQ (((X mod C1) + (C0 * K (int l - 1))) div C1) (K 0)))),
     Rule GNoOvfInt (PRamp (X * C0) C2 None mod PBroadcast C1 None) (APat (PRamp (X * PFold (C0 mod C1)) (PFold (C2 mod C1)) (Some l) mod C1)) (Some (pAnd (pGT C1 (K 0)) (pOr (pGE C0 C1) (pLT C0 (K 0))))),
     Rule GNoOvfInt (PRamp (X + C0) C2 None mod PBroadcast C1 None) (APat (PRamp (X + PFold (C0 mod C1)) (PFold (C2 mod C1)) (Some l) mod C1)) (Some (pAnd (pGT C1 (K 0)) (pOr (pGE C0 C1) (pLT C0 (K 0))))),
     Rule GNoOvfInt (PRamp ((X * C0) + Y) C2 None mod PBroadcast C1 None) (APat (PRamp Y (PFold (C2 mod C1)) (Some l) mod C1)) (Some (pEQ (C0 mod C1) (K 0))),
     Rule GNoOvfInt (PRamp (Y + (X * C0)) C2 None mod PBroadcast C1 None) (APat (PRamp Y (PFold (C2 mod C1)) (Some l) mod C1)) (Some (pEQ (C0 mod C1) (K 0)))]"

definition mod_mutate :: "nat \<Rightarrow> rule list" where
  "mod_mutate l = mod_linear l @ mod_ramp l"

subsection \<open>Correctness\<close>

lemma div_rule_8: "rule_ok l (Rule GNonZero (X div X) (AInt 1) None)"
  by (rule rule_okI; auto simp: rule_eval)

lemma div_rule_12: "rule_ok l (Rule GNoOvf ((X div C0) div C2) (APat (X div PFold (C0 * C2))) (Some (pAnd (pAnd (pGT C0 (K 0)) (pGT C2 (K 0))) (PNot (POverflows (C0 * C2))))))"
  by (rule rule_okI; auto simp: rule_eval pos_div zdiv_zmult2_eq)

lemma div_rule_13: "rule_ok l (Rule GNoOvf (((X div C0) + C1) div C2) (APat ((X + PFold (C1 * C0)) div PFold (C0 * C2))) (Some (pAnd (pAnd (pAnd (pGT C0 (K 0)) (pGT C2 (K 0))) (PNot (POverflows (C0 * C2)))) (PNot (POverflows (C0 * C1))))))"
  by (rule rule_okI; auto simp: rule_eval pos_div zdiv_zmult2_eq add.commute)

lemma div_rule_14: "rule_ok l (Rule GNoOvf ((X * C0) div C1) (APat (X div PFold (C1 div C0))) (Some (pAnd (pAnd (pEQ (C1 mod C0) (K 0)) (pGT C0 (K 0))) (pNE (C1 div C0) (K 0)))))"
  by (rule rule_okI; auto simp: rule_eval ediv_mult_cancel)

lemma div_rule_44: "rule_ok l (Rule GNoOvf ((X + C0) div C1) (APat ((X div C1) + PFold (C0 div C1))) (Some (pEQ (C0 mod C1) (K 0))))"
  by (rule rule_okI; auto simp: rule_eval ediv_add_simps)

lemma div_rule_65: "rule_ok l (Rule GNoOvfInt (PRamp X C0 None div PBroadcast C1 None) (APat (PBroadcast (X div C1) (Some l))) (Some (PCanProve (pEQ (((X mod C1) + (C0 * K (int l - 1))) div C1) (K 0)))))"
  by (rule rule_okI; auto simp: rule_eval ramp_in_block)

lemma div_rule_66: "rule_ok l (Rule GNoOvfScalarInt (X div K (- 1)) (APat (- X)) None)"
  by (rule rule_okI; auto simp: rule_eval ediv_neg)

lemma div_rule_67: "rule_ok l (Rule GNoOvfScalarInt (C0 div Y) (APat (PSelect (pLT Y (K 0)) (PFold (- C0)) C0)) (Some (pEQ C0 (K (- 1)))))"
  by (rule rule_okI; auto simp: rule_eval ediv_minus1)

lemma div_rule_68: "rule_ok l (Rule GNoOvfScalarInt (((X * C0) + C1) div C2) (APat ((X + PFold (C1 div C0)) div PFold (C2 div C0))) (Some (pAnd (pAnd (pGT C2 (K 0)) (pGT C0 (K 0))) (pEQ (C2 mod C0) (K 0)))))"
  by (rule rule_okI; auto simp: rule_eval div_mult_cancel zero_less_mult_iff pos_div)

lemma div_rule_70: "rule_ok l (Rule GNoOvfScalarInt (((X mod K 2) + C0) div K 2) (APat ((X mod K 2) + PFold (C0 div K 2))) (Some (pEQ (C0 mod K 2) (K 1))))"
  by (rule rule_okI; auto simp: rule_eval pos_div; presburger)

lemma div_result_ok: "list_all (rule_ok l) (div_result l)"
  unfolding div_result_def
  by (intro list_all_intros; ((rule div_rule_8)
      | (rule rule_okI; auto simp: rule_eval intro!: rule_intros; simp add: algebra_simps; fail)
      | (rule rule_okI; auto simp: rule_eval rule_minmax pos_div)))

lemma div_broadcast_ok: "list_all (rule_ok l) (div_broadcast l)"
  unfolding div_broadcast_def
  by (intro list_all_intros; (rule rule_okI; auto simp: rule_eval intro!: rule_intros; simp add: algebra_simps))

lemma div_nested_ok: "list_all (rule_ok l) (div_nested l)"
  unfolding div_nested_def
  by (intro list_all_intros; ((rule div_rule_12 div_rule_13 div_rule_14)
      | (rule rule_okI; auto simp: rule_eval rule_minmax pos_div)))

lemma div_multiple_ok: "list_all (rule_ok l) (div_multiple l)"
  unfolding div_multiple_def
  by (intro list_all_intros; (rule rule_okI; auto simp: rule_eval intro!: rule_intros; simp add: algebra_simps))

lemma div_multiple_sum_ok: "list_all (rule_ok l) (div_multiple_sum l)"
  unfolding div_multiple_sum_def
  by (intro list_all_intros; ((rule div_rule_44)
      | (rule rule_okI; auto simp: rule_eval intro!: rule_intros; simp add: algebra_simps)))

lemma div_variable_ok: "list_all (rule_ok l) (div_variable l)"
  unfolding div_variable_def
  by (intro list_all_intros; (rule rule_okI; auto simp: rule_eval intro!: rule_intros; simp add: algebra_simps))

lemma div_ramp_ok: "list_all (rule_ok l) (div_ramp l)"
  unfolding div_ramp_def
  by (intro list_all_intros; ((rule div_rule_65)
      | (rule rule_okI; auto simp: rule_eval intro!: rule_intros; simp add: algebra_simps)))

lemma div_scalar_ok: "list_all (rule_ok l) (div_scalar l)"
  unfolding div_scalar_def
  by (intro list_all_intros; ((rule div_rule_66 div_rule_67 div_rule_68 div_rule_70)
      | (rule rule_okI; auto simp: rule_eval intro!: rule_intros; simp add: algebra_simps)))

lemma mod_rule_13: "rule_ok l (Rule GNoOvfInt ((X * C0) mod C1) (APat ((X mod PFold (C1 div C0)) * C0)) (Some (pAnd (pGT C0 (K 0)) (pEQ (C1 mod C0) (K 0)))))"
  by (rule rule_okI; auto simp: rule_eval emod_mult_mult)

lemma mod_rule_20: "rule_ok l (Rule GNoOvfInt (PRamp X C0 None mod PBroadcast C1 None) (APat (PRamp (X mod C1) C0 (Some l))) (Some (PCanProve (pEQ (((X mod C1) + (C0 * K (int l - 1))) div C1) (K 0)))))"
  by (rule rule_okI; auto simp: rule_eval ramp_in_block)

lemma mod_rule_21: "rule_ok l (Rule GNoOvfInt (PRamp (X * C0) C2 None mod PBroadcast C1 None) (APat (PRamp (X * PFold (C0 mod C1)) (PFold (C2 mod C1)) (Some l) mod C1)) (Some (pAnd (pGT C1 (K 0)) (pOr (pGE C0 C1) (pLT C0 (K 0))))))"
  by (rule rule_okI; auto simp: rule_eval pos_div; intro mod_add_cong; simp add: mod_simps)

lemma mod_rule_22: "rule_ok l (Rule GNoOvfInt (PRamp (X + C0) C2 None mod PBroadcast C1 None) (APat (PRamp (X + PFold (C0 mod C1)) (PFold (C2 mod C1)) (Some l) mod C1)) (Some (pAnd (pGT C1 (K 0)) (pOr (pGE C0 C1) (pLT C0 (K 0))))))"
  by (rule rule_okI; auto simp: rule_eval pos_div; intro mod_add_cong; simp add: mod_simps)

lemma mod_rule_23: "rule_ok l (Rule GNoOvfInt (PRamp ((X * C0) + Y) C2 None mod PBroadcast C1 None) (APat (PRamp Y (PFold (C2 mod C1)) (Some l) mod C1)) (Some (pEQ (C0 mod C1) (K 0))))"
  by (rule rule_okI; auto simp: rule_eval emod_drop emod_ramp [symmetric])

lemma mod_rule_24: "rule_ok l (Rule GNoOvfInt (PRamp (Y + (X * C0)) C2 None mod PBroadcast C1 None) (APat (PRamp Y (PFold (C2 mod C1)) (Some l) mod C1)) (Some (pEQ (C0 mod C1) (K 0))))"
  by (rule rule_okI; auto simp: rule_eval emod_drop emod_ramp [symmetric])

lemma mod_result_ok: "list_all (rule_ok l) (mod_result l)"
  unfolding mod_result_def
  by (intro list_all_intros; (rule rule_okI; auto simp: rule_eval intro!: rule_intros; simp add: algebra_simps))

lemma mod_linear_ok: "list_all (rule_ok l) (mod_linear l)"
  unfolding mod_linear_def
  by (intro list_all_intros; ((rule mod_rule_13)
      | (rule rule_okI; auto simp: rule_eval intro!: rule_intros; simp add: algebra_simps; fail)
      | (rule rule_okI; auto simp: rule_eval pos_div mod_simps)))

lemma mod_ramp_ok: "list_all (rule_ok l) (mod_ramp l)"
  unfolding mod_ramp_def
  by (intro list_all_intros; ((rule mod_rule_20 mod_rule_21 mod_rule_22 mod_rule_23 mod_rule_24)
      | (rule rule_okI; auto simp: rule_eval intro!: rule_intros; simp add: algebra_simps)))

lemmas div_mod_ok = div_result_ok div_broadcast_ok div_nested_ok div_multiple_ok div_multiple_sum_ok
  div_variable_ok div_ramp_ok div_scalar_ok mod_result_ok mod_linear_ok mod_ramp_ok

text \<open>
  C14. Every rule of \<open>Simplify_Div.cpp\<close> and \<open>Simplify_Mod.cpp\<close> is correct for every number of lanes and
  every integer type, with Euclidean division and remainder.
\<close>

theorem div_mod_rules_correct:
  "list_all (rule_ok l) (div_result l @ div_mutate l @ mod_result l @ mod_mutate l)"
  by (simp add: div_mutate_def mod_mutate_def div_mod_ok)

end
