(* ===== verification/RulesMin.thy ===== *)
theory RulesMin
  imports RuleProof
begin

text \<open>
  The rules of \<open>Simplify_Min.cpp\<close>, in the order the code tries them: those of \<open>min_result\<close> give the
  result of the visit, those of \<open>min_mutate\<close> an expression that is simplified again. The rules of
  \<open>min_extreme\<close> rest on the operand being in the range of its type, those of \<open>min_round\<close> on the
  rounding not wrapping around.
\<close>

subsection \<open>Minima\<close>

definition min_const :: "nat \<Rightarrow> rule list" where
  "min_const l =
    [Rule GAll (pMin X X) (APat X) None,
     Rule GAll (pMin C0 C1) (APat (PFold (pMin C0 C1))) None,
     Rule GAll (pMin PIndeterminate X) (AExprA) None,
     Rule GAll (pMin X PIndeterminate) (AExprB) None,
     Rule GAll (pMin POverflow X) (AExprA) None,
     Rule GAll (pMin X POverflow) (AExprB) None]"

definition min_extreme :: "nat \<Rightarrow> rule list" where
  "min_extreme l =
    [Rule GAll (pMin X PTypeMin) (AExprB) None,
     Rule GAll (pMin X PTypeMax) (APat X) None]"

definition min_round :: "nat \<Rightarrow> rule list" where
  "min_round l =
    [Rule GAll (pMin ((X div C0) * C0) X) (AExprA) (Some (pGT C0 (K 0))),
     Rule GAll (pMin X ((X div C0) * C0)) (AExprB) (Some (pGT C0 (K 0)))]"

definition min_absorb :: "nat \<Rightarrow> rule list" where
  "min_absorb l =
    [Rule GAll (pMin (pMin X Y) X) (AExprA) None,
     Rule GAll (pMin (pMin X Y) Y) (AExprA) None,
     Rule GAll (pMin (pMin (pMin X Y) Z) X) (AExprA) None,
     Rule GAll (pMin (pMin (pMin X Y) Z) Y) (AExprA) None,
     Rule GAll (pMin (pMin (pMin (pMin X Y) Z) W) X) (AExprA) None,
     Rule GAll (pMin (pMin (pMin (pMin X Y) Z) W) Y) (AExprA) None,
     Rule GAll (pMin (pMin (pMin (pMin (pMin X Y) Z) W) U) X) (AExprA) None,
     Rule GAll (pMin (pMin (pMin (pMin (pMin X Y) Z) W) U) Y) (AExprA) None,
     Rule GAll (pMin X (pMax X Y)) (AExprA) None,
     Rule GAll (pMin X (pMax Y X)) (AExprA) None,
     Rule GAll (pMin (pMax X Y) (pMin X Y)) (AExprB) None,
     Rule GAll (pMin (pMax X Y) (pMin Y X)) (AExprB) None,
     Rule GAll (pMin (pMax X Y) X) (AExprB) None,
     Rule GAll (pMin (pMax Y X) X) (AExprB) None,
     Rule GAll (pMin (pMax X C0) C1) (AExprB) (Some (pLE C1 C0)),
     Rule GAll (pMin (PIntrin ''likely'' [X]) X) (AExprA) None,
     Rule GAll (pMin X (PIntrin ''likely'' [X])) (AExprB) None,
     Rule GAll (pMin (PIntrin ''likely_if_innermost'' [X]) X) (AExprA) None,
     Rule GAll (pMin X (PIntrin ''likely_if_innermost'' [X])) (AExprB) None]"

definition min_stair :: "nat \<Rightarrow> rule list" where
  "min_stair l =
    [Rule GNoOvf (pMin (PRamp X Y None) (PBroadcast Z None)) (AExprA) (Some (PCanProve (pAnd (pLE (X + (Y * K (int l - 1))) Z) (pLE X Z)))),
     Rule GNoOvf (pMin (PRamp X Y None) (PBroadcast Z None)) (AExprB) (Some (PCanProve (pAnd (pGE (X + (Y * K (int l - 1))) Z) (pGE X Z)))),
     Rule GNoOvf (pMin ((((X + C0) div C1) * C1) + C2) X) (AExprB) (Some (pAnd (pGT C1 (K 0)) (pGE (C0 + C2) (C1 - K 1)))),
     Rule GNoOvf (pMin X ((((X + C0) div C1) * C1) + C2)) (AExprA) (Some (pAnd (pGT C1 (K 0)) (pGE (C0 + C2) (C1 - K 1)))),
     Rule GNoOvf (pMin ((((X + C0) div C1) * C1) + C2) X) (AExprA) (Some (pAnd (pGT C1 (K 0)) (pLE (C0 + C2) (K 0)))),
     Rule GNoOvf (pMin X ((((X + C0) div C1) * C1) + C2)) (AExprB) (Some (pAnd (pGT C1 (K 0)) (pLE (C0 + C2) (K 0)))),
     Rule GNoOvf (pMin (((X div C1) * C1) + C2) X) (AExprB) (Some (pAnd (pGT C1 (K 0)) (pGE C2 (C1 - K 1)))),
     Rule GNoOvf (pMin X (((X div C1) * C1) + C2)) (AExprA) (Some (pAnd (pGT C1 (K 0)) (pGE C2 (C1 - K 1)))),
     Rule GNoOvf (pMin (((X + C0) div C1) * C1) X) (AExprB) (Some (pAnd (pGT C1 (K 0)) (pGE C0 (C1 - K 1)))),
     Rule GNoOvf (pMin X (((X + C0) div C1) * C1)) (AExprA) (Some (pAnd (pGT C1 (K 0)) (pGE C0 (C1 - K 1)))),
     Rule GNoOvf (pMin (((X div C1) * C1) + C2) X) (AExprA) (Some (pAnd (pGT C1 (K 0)) (pLE C2 (K 0)))),
     Rule GNoOvf (pMin X (((X div C1) * C1) + C2)) (AExprB) (Some (pAnd (pGT C1 (K 0)) (pLE C2 (K 0)))),
     Rule GNoOvf (pMin (((X + C0) div C1) * C1) X) (AExprA) (Some (pAnd (pGT C1 (K 0)) (pLE C0 (K 0)))),
     Rule GNoOvf (pMin X (((X + C0) div C1) * C1)) (AExprB) (Some (pAnd (pGT C1 (K 0)) (pLE C0 (K 0))))]"

definition min_lattice :: "nat \<Rightarrow> rule list" where
  "min_lattice l =
    [Rule GAll (pMin (pMin X C0) C1) (APat (pMin X (PFold (pMin C0 C1)))) None,
     Rule GAll (pMin (pMin X C0) Y) (APat (pMin (pMin X Y) C0)) None,
     Rule GAll (pMin (pMin X Y) (pMin X Z)) (APat (pMin (pMin Y Z) X)) None,
     Rule GAll (pMin (pMin Y X) (pMin X Z)) (APat (pMin (pMin Y Z) X)) None,
     Rule GAll (pMin (pMin X Y) (pMin Z X)) (APat (pMin (pMin Y Z) X)) None,
     Rule GAll (pMin (pMin Y X) (pMin Z X)) (APat (pMin (pMin Y Z) X)) None,
     Rule GAll (pMin (pMin X Y) (pMin Z W)) (APat (pMin (pMin (pMin X Y) Z) W)) None,
     Rule GAll (pMin (PBroadcast X None) (PBroadcast Y None)) (APat (PBroadcast (pMin X Y) (Some l))) None,
     Rule GAll (pMin (PBroadcast X None) (PRamp Y Z None)) (APat (pMin POpB POpA)) None,
     Rule GAll (pMin (pMin X (PBroadcast Y None)) (PBroadcast Z None)) (APat (pMin X (PBroadcast (pMin Y Z) (Some l)))) None,
     Rule GAll (pMin (pMax X Y) (pMax X Z)) (APat (pMax X (pMin Y Z))) None,
     Rule GAll (pMin (pMax X Y) (pMax Z X)) (APat (pMax X (pMin Y Z))) None,
     Rule GAll (pMin (pMax Y X) (pMax X Z)) (APat (pMax (pMin Y Z) X)) None,
     Rule GAll (pMin (pMax Y X) (pMax Z X)) (APat (pMax (pMin Y Z) X)) None,
     Rule GAll (pMin (pMax (pMin X Y) Z) Y) (APat (pMin (pMax X Z) Y)) None,
     Rule GAll (pMin (pMax (pMin Y X) Z) Y) (APat (pMin Y (pMax X Z))) None,
     Rule GAll (pMin (pMin X C0) C1) (APat (pMin X (PFold (pMin C0 C1)))) None,
     Rule GAll (pMin (pMax X C0) C1) (APat (pMax (pMin X C1) C0)) (Some (pLE C0 C1))]"

definition min_shift :: "nat \<Rightarrow> rule list" where
  "min_shift l =
    [Rule GNoOvf (pMin (pMin X Y + C0) X) (APat (pMin X (Y + C0))) (Some (pGT C0 (K 0))),
     Rule GNoOvf (pMin (pMin X Y + C0) X) (APat (pMin X Y + C0)) (Some (pLT C0 (K 0))),
     Rule GNoOvf (pMin (pMin Y X + C0) X) (APat (pMin (Y + C0) X)) (Some (pGT C0 (K 0))),
     Rule GNoOvf (pMin (pMin Y X + C0) X) (APat (pMin Y X + C0)) (Some (pLT C0 (K 0))),
     Rule GNoOvf (pMin X (pMin X Y + C0)) (APat (pMin X (Y + C0))) (Some (pGT C0 (K 0))),
     Rule GNoOvf (pMin X (pMin X Y + C0)) (APat (pMin X Y + C0)) (Some (pLT C0 (K 0))),
     Rule GNoOvf (pMin X (pMin Y X + C0)) (APat (pMin X (Y + C0))) (Some (pGT C0 (K 0))),
     Rule GNoOvf (pMin X (pMin Y X + C0)) (APat (pMin X Y + C0)) (Some (pLT C0 (K 0))),
     Rule GNoOvf (pMin (X + C0) C1) (APat (pMin X (PFold (C1 - C0)) + C0)) None,
     Rule GNoOvf (pMin (X + C0) (Y + C1)) (APat (pMin X (Y + PFold (C1 - C0)) + C0)) (Some (pGT C1 C0)),
     Rule GNoOvf (pMin (X + C0) (Y + C1)) (APat (pMin (X + PFold (C0 - C1)) Y + C1)) (Some (pGT C0 C1)),
     Rule GNoOvf (pMin (X + Y) (X + Z)) (APat (X + pMin Y Z)) None,
     Rule GNoOvf (pMin (X + Y) (Z + X)) (APat (X + pMin Y Z)) None,
     Rule GNoOvf (pMin (Y + X) (X + Z)) (APat (pMin Y Z + X)) None,
     Rule GNoOvf (pMin (Y + X) (Z + X)) (APat (pMin Y Z + X)) None,
     Rule GNoOvf (pMin X (X + Z)) (APat (X + pMin Z (K 0))) None,
     Rule GNoOvf (pMin X (Z + X)) (APat (X + pMin Z (K 0))) None,
     Rule GNoOvf (pMin (Y + X) X) (APat (pMin Y (K 0) + X)) None,
     Rule GNoOvf (pMin (X + Y) X) (APat (X + pMin Y (K 0))) None,
     Rule GNoOvf (pMin (((X * C0) + Y) * C1) ((X * C2) + Z)) (APat (pMin (Y * C1) Z + (X * C2))) (Some (pEQ (C0 * C1) C2)),
     Rule GNoOvf (pMin ((Y + (X * C0)) * C1) ((X * C2) + Z)) (APat (pMin (Y * C1) Z + (X * C2))) (Some (pEQ (C0 * C1) C2)),
     Rule GNoOvf (pMin (((X * C0) + Y) * C1) (Z + (X * C2))) (APat (pMin (Y * C1) Z + (X * C2))) (Some (pEQ (C0 * C1) C2)),
     Rule GNoOvf (pMin ((Y + (X * C0)) * C1) (Z + (X * C2))) (APat (pMin (Y * C1) Z + (X * C2))) (Some (pEQ (C0 * C1) C2))]"

definition min_common :: "nat \<Rightarrow> rule list" where
  "min_common l =
    [Rule GNoOvf (pMin (pMin (X + Y) Z) (X + W)) (APat (pMin (X + pMin Y W) Z)) None,
     Rule GNoOvf (pMin (pMin Z (X + Y)) (X + W)) (APat (pMin (X + pMin Y W) Z)) None,
     Rule GNoOvf (pMin (pMin (X + Y) Z) (W + X)) (APat (pMin (X + pMin Y W) Z)) None,
     Rule GNoOvf (pMin (pMin Z (X + Y)) (W + X)) (APat (pMin (X + pMin Y W) Z)) None,
     Rule GNoOvf (pMin (pMin (Y + X) Z) (X + W)) (APat (pMin (pMin Y W + X) Z)) None,
     Rule GNoOvf (pMin (pMin Z (Y + X)) (X + W)) (APat (pMin (pMin Y W + X) Z)) None,
     Rule GNoOvf (pMin (pMin (Y + X) Z) (W + X)) (APat (pMin (pMin Y W + X) Z)) None,
     Rule GNoOvf (pMin (pMin Z (Y + X)) (W + X)) (APat (pMin (pMin Y W + X) Z)) None,
     Rule GNoOvf (pMin ((X + W) + Y) (X + Z)) (APat (X + pMin (W + Y) Z)) None,
     Rule GNoOvf (pMin ((W + X) + Y) (X + Z)) (APat (pMin (W + Y) Z + X)) None,
     Rule GNoOvf (pMin ((X + W) + Y) (Z + X)) (APat (X + pMin (W + Y) Z)) None,
     Rule GNoOvf (pMin ((W + X) + Y) (Z + X)) (APat (pMin (W + Y) Z + X)) None,
     Rule GNoOvf (pMin ((X + W) + Y) X) (APat (X + pMin (W + Y) (K 0))) None,
     Rule GNoOvf (pMin ((W + X) + Y) X) (APat (X + pMin (W + Y) (K 0))) None,
     Rule GNoOvf (pMin (X + Y) ((W + X) + Z)) (APat (X + pMin (W + Z) Y)) None,
     Rule GNoOvf (pMin (X + Y) ((X + W) + Z)) (APat (X + pMin (W + Z) Y)) None,
     Rule GNoOvf (pMin (Y + X) ((W + X) + Z)) (APat (pMin (W + Z) Y + X)) None,
     Rule GNoOvf (pMin (Y + X) ((X + W) + Z)) (APat (pMin (W + Z) Y + X)) None,
     Rule GNoOvf (pMin X ((W + X) + Z)) (APat (X + pMin (W + Z) (K 0))) None,
     Rule GNoOvf (pMin X ((X + W) + Z)) (APat (X + pMin (W + Z) (K 0))) None,
     Rule GNoOvf (pMin (Y - X) (Z - X)) (APat (pMin Y Z - X)) None,
     Rule GNoOvf (pMin (X - Y) (X - Z)) (APat (X - pMax Y Z)) None,
     Rule GNoOvf (pMin X (X - Y)) (APat (X - pMax (K 0) Y)) None,
     Rule GNoOvf (pMin (X - Y) X) (APat (X - pMax (K 0) Y)) None,
     Rule GNoOvf (pMin X ((X - Y) + Z)) (APat (X + pMin (K 0) (Z - Y))) None,
     Rule GNoOvf (pMin X (Z + (X - Y))) (APat (X + pMin (K 0) (Z - Y))) None,
     Rule GNoOvf (pMin X ((X - Y) - Z)) (APat (X - pMax (K 0) (Y + Z))) None,
     Rule GNoOvf (pMin ((X - Y) + Z) X) (APat (pMin (K 0) (Z - Y) + X)) None,
     Rule GNoOvf (pMin (Z + (X - Y)) X) (APat (pMin (K 0) (Z - Y) + X)) None,
     Rule GNoOvf (pMin ((X - Y) - Z) X) (APat (X - pMax (K 0) (Y + Z))) None]"

definition min_scale :: "nat \<Rightarrow> rule list" where
  "min_scale l =
    [Rule GNoOvf (pMin (X * C0) C1) (APat (pMin X (PFold (C1 div C0)) * C0)) (Some (pAnd (pGT C0 (K 0)) (pEQ (C1 mod C0) (K 0)))),
     Rule GNoOvf (pMin (X * C0) C1) (APat (pMax X (PFold (C1 div C0)) * C0)) (Some (pAnd (pLT C0 (K 0)) (pEQ (C1 mod C0) (K 0)))),
     Rule GNoOvf (pMin (X * C0) (Y * C1)) (APat (pMin X (Y * PFold (C1 div C0)) * C0)) (Some (pAnd (pGT C0 (K 0)) (pEQ (C1 mod C0) (K 0)))),
     Rule GNoOvf (pMin (X * C0) (Y * C1)) (APat (pMax X (Y * PFold (C1 div C0)) * C0)) (Some (pAnd (pLT C0 (K 0)) (pEQ (C1 mod C0) (K 0)))),
     Rule GNoOvf (pMin (X * C0) (Y * C1)) (APat (pMin (X * PFold (C0 div C1)) Y * C1)) (Some (pAnd (pGT C1 (K 0)) (pEQ (C0 mod C1) (K 0)))),
     Rule GNoOvf (pMin (X * C0) (Y * C1)) (APat (pMax (X * PFold (C0 div C1)) Y * C1)) (Some (pAnd (pLT C1 (K 0)) (pEQ (C0 mod C1) (K 0)))),
     Rule GNoOvf (pMin (X * C0) ((Y * C0) + C1)) (APat (pMin X (Y + PFold (C1 div C0)) * C0)) (Some (pAnd (pGT C0 (K 0)) (pEQ (C1 mod C0) (K 0)))),
     Rule GNoOvf (pMin (X * C0) ((Y * C0) + C1)) (APat (pMax X (Y + PFold (C1 div C0)) * C0)) (Some (pAnd (pLT C0 (K 0)) (pEQ (C1 mod C0) (K 0)))),
     Rule GNoOvf (pMin (X div C0) (Y div C0)) (APat (pMin X Y div C0)) (Some (pGT C0 (K 0))),
     Rule GNoOvf (pMin (X div C0) (Y div C0)) (APat (pMax X Y div C0)) (Some (pLT C0 (K 0))),
     Rule GNoOvf (pMin (X div C0) ((Y div C0) + C1)) (APat (pMin X (Y + PFold (C1 * C0)) div C0)) (Some (pAnd (pGT C0 (K 0)) (PNot (POverflows (C1 * C0))))),
     Rule GNoOvf (pMin (X div C0) ((Y div C0) + C1)) (APat (pMax X (Y + PFold (C1 * C0)) div C0)) (Some (pAnd (pLT C0 (K 0)) (PNot (POverflows (C1 * C0))))),
     Rule GNoOvf (pMin (PSelect X Y Z) (PSelect X W U)) (APat (PSelect X (pMin Y W) (pMin Z U))) None,
     Rule GNoOvf (pMin (C0 - X) C1) (APat (C0 - pMax X (PFold (C0 - C1)))) None]"

definition min_result :: "nat \<Rightarrow> rule list" where
  "min_result l = min_const l @ min_extreme l @ min_round l @ min_absorb l @ min_stair l"

definition min_mutate :: "nat \<Rightarrow> rule list" where
  "min_mutate l = min_lattice l @ min_shift l @ min_common l @ min_scale l"

subsection \<open>Correctness\<close>

lemma min_rule_7: "rule_ok_on range_scope l (Rule GAll (pMin X PTypeMin) (AExprB) None)"
  by (rule rule_ok_onI; auto simp: rule_eval range_scope_def min_absorb1 min_absorb2 max_absorb1 max_absorb2)

lemma min_rule_8: "rule_ok_on range_scope l (Rule GAll (pMin X PTypeMax) (APat X) None)"
  by (rule rule_ok_onI; auto simp: rule_eval range_scope_def min_absorb1 min_absorb2 max_absorb1 max_absorb2)

lemma min_rule_9: "rule_ok_on no_narrow_scope l (Rule GAll (pMin ((X div C0) * C0) X) (AExprA) (Some (pGT C0 (K 0))))"
  by (rule rule_ok_onI; auto simp: rule_eval pos_div kwrap_round stair_le min_absorb1 min_absorb2 max_absorb1 max_absorb2)

lemma min_rule_10: "rule_ok_on no_narrow_scope l (Rule GAll (pMin X ((X div C0) * C0)) (AExprB) (Some (pGT C0 (K 0))))"
  by (rule rule_ok_onI; auto simp: rule_eval pos_div kwrap_round stair_le min_absorb1 min_absorb2 max_absorb1 max_absorb2)

lemma min_rule_30: "rule_ok l (Rule GNoOvf (pMin (PRamp X Y None) (PBroadcast Z None)) (AExprA) (Some (PCanProve (pAnd (pLE (X + (Y * K (int l - 1))) Z) (pLE X Z)))))"
  by (rule rule_okI; auto simp: rule_eval ramp_bound min_absorb1 min_absorb2 max_absorb1 max_absorb2)

lemma min_rule_31: "rule_ok l (Rule GNoOvf (pMin (PRamp X Y None) (PBroadcast Z None)) (AExprB) (Some (PCanProve (pAnd (pGE (X + (Y * K (int l - 1))) Z) (pGE X Z)))))"
  by (rule rule_okI; auto simp: rule_eval ramp_bound min_absorb1 min_absorb2 max_absorb1 max_absorb2)

lemma min_rule_81: "rule_ok l (Rule GNoOvf (pMin (((X * C0) + Y) * C1) ((X * C2) + Z)) (APat (pMin (Y * C1) Z + (X * C2))) (Some (pEQ (C0 * C1) C2)))"
  by (rule rule_okI; auto simp: rule_eval min_max_factor)

lemma min_rule_82: "rule_ok l (Rule GNoOvf (pMin ((Y + (X * C0)) * C1) ((X * C2) + Z)) (APat (pMin (Y * C1) Z + (X * C2))) (Some (pEQ (C0 * C1) C2)))"
  by (rule rule_okI; auto simp: rule_eval min_max_factor)

lemma min_rule_83: "rule_ok l (Rule GNoOvf (pMin (((X * C0) + Y) * C1) (Z + (X * C2))) (APat (pMin (Y * C1) Z + (X * C2))) (Some (pEQ (C0 * C1) C2)))"
  by (rule rule_okI; auto simp: rule_eval min_max_factor)

lemma min_rule_84: "rule_ok l (Rule GNoOvf (pMin ((Y + (X * C0)) * C1) (Z + (X * C2))) (APat (pMin (Y * C1) Z + (X * C2))) (Some (pEQ (C0 * C1) C2)))"
  by (rule rule_okI; auto simp: rule_eval min_max_factor)

lemma min_rule_125: "rule_ok l (Rule GNoOvf (pMin (X div C0) ((Y div C0) + C1)) (APat (pMin X (Y + PFold (C1 * C0)) div C0)) (Some (pAnd (pGT C0 (K 0)) (PNot (POverflows (C1 * C0))))))"
  by (rule rule_okI; auto simp: rule_eval ediv_min_max ediv_add_multiple)

lemma min_rule_126: "rule_ok l (Rule GNoOvf (pMin (X div C0) ((Y div C0) + C1)) (APat (pMax X (Y + PFold (C1 * C0)) div C0)) (Some (pAnd (pLT C0 (K 0)) (PNot (POverflows (C1 * C0))))))"
  by (rule rule_okI; auto simp: rule_eval ediv_min_max ediv_add_multiple)

lemma min_const_ok: "list_all (rule_ok l) (min_const l)"
  unfolding min_const_def
  by (intro list_all_intros; (rule rule_okI; auto simp: rule_eval rule_minmax pos_div))

lemma min_extreme_ok: "list_all (rule_ok_on range_scope l) (min_extreme l)"
  unfolding min_extreme_def
  by (intro list_all_intros; (rule min_rule_7 min_rule_8))

lemma min_round_ok: "list_all (rule_ok_on no_narrow_scope l) (min_round l)"
  unfolding min_round_def
  by (intro list_all_intros; (rule min_rule_9 min_rule_10))

lemma min_absorb_ok: "list_all (rule_ok l) (min_absorb l)"
  unfolding min_absorb_def
  by (intro list_all_intros; ((rule rule_okI; auto simp: rule_eval rule_minmax pos_div; fail)
      | (rule rule_okI; auto simp: rule_eval min_def max_def algebra_simps)))

lemma min_stair_ok: "list_all (rule_ok l) (min_stair l)"
  unfolding min_stair_def
  by (intro list_all_intros; ((rule min_rule_30 min_rule_31)
      | (rule rule_okI; auto simp: rule_eval rule_minmax pos_div)))

lemma min_lattice_ok: "list_all (rule_ok l) (min_lattice l)"
  unfolding min_lattice_def
  by (intro list_all_intros; (rule rule_okI; auto simp: rule_eval rule_minmax pos_div))

lemma min_shift_ok: "list_all (rule_ok l) (min_shift l)"
  unfolding min_shift_def
  by (intro list_all_intros; ((rule min_rule_81 min_rule_82 min_rule_83 min_rule_84)
      | (rule rule_okI; auto simp: rule_eval rule_minmax pos_div)))

lemma min_common_ok: "list_all (rule_ok l) (min_common l)"
  unfolding min_common_def
  by (intro list_all_intros; (rule rule_okI; auto simp: rule_eval rule_minmax pos_div))

lemma min_scale_ok: "list_all (rule_ok l) (min_scale l)"
  unfolding min_scale_def
  by (intro list_all_intros; ((rule min_rule_125 min_rule_126)
      | (rule rule_okI; auto simp: rule_eval rule_minmax intro!: ediv_shiftI; simp add: algebra_simps; fail)
      | (rule rule_okI; auto simp: rule_eval rule_minmax pos_div)))

lemmas min_ok = min_const_ok min_absorb_ok min_stair_ok min_lattice_ok min_shift_ok min_common_ok
  min_scale_ok

end
