(* ===== verification/RulesMax.thy ===== *)
theory RulesMax
  imports RuleProof
begin

text \<open>
  The rules of \<open>Simplify_Max.cpp\<close>, in the order the code tries them: those of \<open>max_result\<close> give the
  result of the visit, those of \<open>max_mutate\<close> an expression that is simplified again. The rules of
  \<open>max_extreme\<close> rest on the operand being in the range of its type, those of \<open>max_round\<close> on the
  rounding not wrapping around.
\<close>

subsection \<open>Maxima\<close>

definition max_const :: "nat \<Rightarrow> rule list" where
  "max_const l =
    [Rule GAll (pMax X X) (APat X) None,
     Rule GAll (pMax C0 C1) (APat (PFold (pMax C0 C1))) None,
     Rule GAll (pMax PIndeterminate X) (AExprA) None,
     Rule GAll (pMax X PIndeterminate) (AExprB) None,
     Rule GAll (pMax POverflow X) (AExprA) None,
     Rule GAll (pMax X POverflow) (AExprB) None]"

definition max_extreme :: "nat \<Rightarrow> rule list" where
  "max_extreme l =
    [Rule GAll (pMax X PTypeMax) (AExprB) None,
     Rule GAll (pMax X PTypeMin) (APat X) None]"

definition max_round :: "nat \<Rightarrow> rule list" where
  "max_round l =
    [Rule GAll (pMax ((X div C0) * C0) X) (AExprB) (Some (pGT C0 (K 0))),
     Rule GAll (pMax X ((X div C0) * C0)) (AExprA) (Some (pGT C0 (K 0)))]"

definition max_absorb :: "nat \<Rightarrow> rule list" where
  "max_absorb l =
    [Rule GAll (pMax (pMax X Y) X) (AExprA) None,
     Rule GAll (pMax (pMax X Y) Y) (AExprA) None,
     Rule GAll (pMax (pMax (pMax X Y) Z) X) (AExprA) None,
     Rule GAll (pMax (pMax (pMax X Y) Z) Y) (AExprA) None,
     Rule GAll (pMax (pMax (pMax (pMax X Y) Z) W) X) (AExprA) None,
     Rule GAll (pMax (pMax (pMax (pMax X Y) Z) W) Y) (AExprA) None,
     Rule GAll (pMax (pMax (pMax (pMax (pMax X Y) Z) W) U) X) (AExprA) None,
     Rule GAll (pMax (pMax (pMax (pMax (pMax X Y) Z) W) U) Y) (AExprA) None,
     Rule GAll (pMax X (pMin X Y)) (AExprA) None,
     Rule GAll (pMax X (pMin Y X)) (AExprA) None,
     Rule GAll (pMax (pMax X Y) (pMin X Y)) (AExprA) None,
     Rule GAll (pMax (pMax X Y) (pMin Y X)) (AExprA) None,
     Rule GAll (pMax (pMin X Y) X) (AExprB) None,
     Rule GAll (pMax (pMin Y X) X) (AExprB) None,
     Rule GAll (pMax (pMin X C0) C1) (AExprB) (Some (pGE C1 C0)),
     Rule GAll (pMax (PIntrin ''likely'' [X]) X) (AExprA) None,
     Rule GAll (pMax X (PIntrin ''likely'' [X])) (AExprB) None,
     Rule GAll (pMax (PIntrin ''likely_if_innermost'' [X]) X) (AExprA) None,
     Rule GAll (pMax X (PIntrin ''likely_if_innermost'' [X])) (AExprB) None]"

definition max_stair :: "nat \<Rightarrow> rule list" where
  "max_stair l =
    [Rule GNoOvf (pMax (PRamp X Y None) (PBroadcast Z None)) (AExprA) (Some (PCanProve (pAnd (pGE (X + (Y * K (int l - 1))) Z) (pGE X Z)))),
     Rule GNoOvf (pMax (PRamp X Y None) (PBroadcast Z None)) (AExprB) (Some (PCanProve (pAnd (pLE (X + (Y * K (int l - 1))) Z) (pLE X Z)))),
     Rule GNoOvf (pMax ((((X + C0) div C1) * C1) + C2) X) (AExprA) (Some (pAnd (pGT C1 (K 0)) (pGE (C0 + C2) (C1 - K 1)))),
     Rule GNoOvf (pMax X ((((X + C0) div C1) * C1) + C2)) (AExprB) (Some (pAnd (pGT C1 (K 0)) (pGE (C0 + C2) (C1 - K 1)))),
     Rule GNoOvf (pMax ((((X + C0) div C1) * C1) + C2) X) (AExprB) (Some (pAnd (pGT C1 (K 0)) (pLE (C0 + C2) (K 0)))),
     Rule GNoOvf (pMax X ((((X + C0) div C1) * C1) + C2)) (AExprA) (Some (pAnd (pGT C1 (K 0)) (pLE (C0 + C2) (K 0)))),
     Rule GNoOvf (pMax (((X div C1) * C1) + C2) X) (AExprA) (Some (pAnd (pGT C1 (K 0)) (pGE C2 (C1 - K 1)))),
     Rule GNoOvf (pMax X (((X div C1) * C1) + C2)) (AExprB) (Some (pAnd (pGT C1 (K 0)) (pGE C2 (C1 - K 1)))),
     Rule GNoOvf (pMax (((X + C0) div C1) * C1) X) (AExprA) (Some (pAnd (pGT C1 (K 0)) (pGE C0 (C1 - K 1)))),
     Rule GNoOvf (pMax X (((X + C0) div C1) * C1)) (AExprB) (Some (pAnd (pGT C1 (K 0)) (pGE C0 (C1 - K 1)))),
     Rule GNoOvf (pMax (((X div C1) * C1) + C2) X) (AExprB) (Some (pAnd (pGT C1 (K 0)) (pLE C2 (K 0)))),
     Rule GNoOvf (pMax X (((X div C1) * C1) + C2)) (AExprA) (Some (pAnd (pGT C1 (K 0)) (pLE C2 (K 0)))),
     Rule GNoOvf (pMax (((X + C0) div C1) * C1) X) (AExprB) (Some (pAnd (pGT C1 (K 0)) (pLE C0 (K 0)))),
     Rule GNoOvf (pMax X (((X + C0) div C1) * C1)) (AExprA) (Some (pAnd (pGT C1 (K 0)) (pLE C0 (K 0))))]"

definition max_lattice :: "nat \<Rightarrow> rule list" where
  "max_lattice l =
    [Rule GAll (pMax (pMax X C0) C1) (APat (pMax X (PFold (pMax C0 C1)))) None,
     Rule GAll (pMax (pMax X C0) Y) (APat (pMax (pMax X Y) C0)) None,
     Rule GAll (pMax (pMax X Y) (pMax X Z)) (APat (pMax (pMax Y Z) X)) None,
     Rule GAll (pMax (pMax Y X) (pMax X Z)) (APat (pMax (pMax Y Z) X)) None,
     Rule GAll (pMax (pMax X Y) (pMax Z X)) (APat (pMax (pMax Y Z) X)) None,
     Rule GAll (pMax (pMax Y X) (pMax Z X)) (APat (pMax (pMax Y Z) X)) None,
     Rule GAll (pMax (pMax X Y) (pMax Z W)) (APat (pMax (pMax (pMax X Y) Z) W)) None,
     Rule GAll (pMax (PBroadcast X None) (PBroadcast Y None)) (APat (PBroadcast (pMax X Y) (Some l))) None,
     Rule GAll (pMax (PBroadcast X None) (PRamp Y Z None)) (APat (pMax POpB POpA)) None,
     Rule GAll (pMax (pMax X (PBroadcast Y None)) (PBroadcast Z None)) (APat (pMax X (PBroadcast (pMax Y Z) (Some l)))) None,
     Rule GAll (pMax (pMin X Y) (pMin X Z)) (APat (pMin X (pMax Y Z))) None,
     Rule GAll (pMax (pMin X Y) (pMin Z X)) (APat (pMin X (pMax Y Z))) None,
     Rule GAll (pMax (pMin Y X) (pMin X Z)) (APat (pMin (pMax Y Z) X)) None,
     Rule GAll (pMax (pMin Y X) (pMin Z X)) (APat (pMin (pMax Y Z) X)) None,
     Rule GAll (pMax (pMin (pMax X Y) Z) Y) (APat (pMax (pMin X Z) Y)) None,
     Rule GAll (pMax (pMin (pMax Y X) Z) Y) (APat (pMax Y (pMin X Z))) None,
     Rule GAll (pMax (pMax X C0) C1) (APat (pMax X (PFold (pMax C0 C1)))) None]"

definition max_shift :: "nat \<Rightarrow> rule list" where
  "max_shift l =
    [Rule GNoOvf (pMax (pMax X Y + C0) X) (APat (pMax X (Y + C0))) (Some (pLT C0 (K 0))),
     Rule GNoOvf (pMax (pMax X Y + C0) X) (APat (pMax X Y + C0)) (Some (pGT C0 (K 0))),
     Rule GNoOvf (pMax (pMax Y X + C0) X) (APat (pMax (Y + C0) X)) (Some (pLT C0 (K 0))),
     Rule GNoOvf (pMax (pMax Y X + C0) X) (APat (pMax Y X + C0)) (Some (pGT C0 (K 0))),
     Rule GNoOvf (pMax X (pMax X Y + C0)) (APat (pMax X (Y + C0))) (Some (pLT C0 (K 0))),
     Rule GNoOvf (pMax X (pMax X Y + C0)) (APat (pMax X Y + C0)) (Some (pGT C0 (K 0))),
     Rule GNoOvf (pMax X (pMax Y X + C0)) (APat (pMax X (Y + C0))) (Some (pLT C0 (K 0))),
     Rule GNoOvf (pMax X (pMax Y X + C0)) (APat (pMax X Y + C0)) (Some (pGT C0 (K 0))),
     Rule GNoOvf (pMax (X + C0) C1) (APat (pMax X (PFold (C1 - C0)) + C0)) None,
     Rule GNoOvf (pMax (X + C0) (Y + C1)) (APat (pMax X (Y + PFold (C1 - C0)) + C0)) (Some (pGT C1 C0)),
     Rule GNoOvf (pMax (X + C0) (Y + C1)) (APat (pMax (X + PFold (C0 - C1)) Y + C1)) (Some (pGT C0 C1)),
     Rule GNoOvf (pMax (X + Y) (X + Z)) (APat (X + pMax Y Z)) None,
     Rule GNoOvf (pMax (X + Y) (Z + X)) (APat (X + pMax Y Z)) None,
     Rule GNoOvf (pMax (Y + X) (X + Z)) (APat (pMax Y Z + X)) None,
     Rule GNoOvf (pMax (Y + X) (Z + X)) (APat (pMax Y Z + X)) None,
     Rule GNoOvf (pMax X (X + Z)) (APat (X + pMax Z (K 0))) None,
     Rule GNoOvf (pMax X (Z + X)) (APat (X + pMax Z (K 0))) None,
     Rule GNoOvf (pMax (Y + X) X) (APat (pMax Y (K 0) + X)) None,
     Rule GNoOvf (pMax (X + Y) X) (APat (X + pMax Y (K 0))) None,
     Rule GNoOvf (pMax (((X * C0) + Y) * C1) ((X * C2) + Z)) (APat (pMax (Y * C1) Z + (X * C2))) (Some (pEQ (C0 * C1) C2)),
     Rule GNoOvf (pMax ((Y + (X * C0)) * C1) ((X * C2) + Z)) (APat (pMax (Y * C1) Z + (X * C2))) (Some (pEQ (C0 * C1) C2)),
     Rule GNoOvf (pMax (((X * C0) + Y) * C1) (Z + (X * C2))) (APat (pMax (Y * C1) Z + (X * C2))) (Some (pEQ (C0 * C1) C2)),
     Rule GNoOvf (pMax ((Y + (X * C0)) * C1) (Z + (X * C2))) (APat (pMax (Y * C1) Z + (X * C2))) (Some (pEQ (C0 * C1) C2))]"

definition max_common :: "nat \<Rightarrow> rule list" where
  "max_common l =
    [Rule GNoOvf (pMax (pMax (X + Y) Z) (X + W)) (APat (pMax (X + pMax Y W) Z)) None,
     Rule GNoOvf (pMax (pMax Z (X + Y)) (X + W)) (APat (pMax (X + pMax Y W) Z)) None,
     Rule GNoOvf (pMax (pMax (X + Y) Z) (W + X)) (APat (pMax (X + pMax Y W) Z)) None,
     Rule GNoOvf (pMax (pMax Z (X + Y)) (W + X)) (APat (pMax (X + pMax Y W) Z)) None,
     Rule GNoOvf (pMax (pMax (Y + X) Z) (X + W)) (APat (pMax (pMax Y W + X) Z)) None,
     Rule GNoOvf (pMax (pMax Z (Y + X)) (X + W)) (APat (pMax (pMax Y W + X) Z)) None,
     Rule GNoOvf (pMax (pMax (Y + X) Z) (W + X)) (APat (pMax (pMax Y W + X) Z)) None,
     Rule GNoOvf (pMax (pMax Z (Y + X)) (W + X)) (APat (pMax (pMax Y W + X) Z)) None,
     Rule GNoOvf (pMax ((X + W) + Y) (X + Z)) (APat (X + pMax (W + Y) Z)) None,
     Rule GNoOvf (pMax ((W + X) + Y) (X + Z)) (APat (pMax (W + Y) Z + X)) None,
     Rule GNoOvf (pMax ((X + W) + Y) (Z + X)) (APat (X + pMax (W + Y) Z)) None,
     Rule GNoOvf (pMax ((W + X) + Y) (Z + X)) (APat (pMax (W + Y) Z + X)) None,
     Rule GNoOvf (pMax ((X + W) + Y) X) (APat (X + pMax (W + Y) (K 0))) None,
     Rule GNoOvf (pMax ((W + X) + Y) X) (APat (X + pMax (W + Y) (K 0))) None,
     Rule GNoOvf (pMax (X + Y) ((W + X) + Z)) (APat (X + pMax (W + Z) Y)) None,
     Rule GNoOvf (pMax (X + Y) ((X + W) + Z)) (APat (X + pMax (W + Z) Y)) None,
     Rule GNoOvf (pMax (Y + X) ((W + X) + Z)) (APat (pMax (W + Z) Y + X)) None,
     Rule GNoOvf (pMax (Y + X) ((X + W) + Z)) (APat (pMax (W + Z) Y + X)) None,
     Rule GNoOvf (pMax X ((W + X) + Z)) (APat (X + pMax (W + Z) (K 0))) None,
     Rule GNoOvf (pMax X ((X + W) + Z)) (APat (X + pMax (W + Z) (K 0))) None,
     Rule GNoOvf (pMax (Y - X) (Z - X)) (APat (pMax Y Z - X)) None,
     Rule GNoOvf (pMax (X - Y) (X - Z)) (APat (X - pMin Y Z)) None,
     Rule GNoOvf (pMax X (X - Y)) (APat (X - pMin (K 0) Y)) None,
     Rule GNoOvf (pMax (X - Y) X) (APat (X - pMin (K 0) Y)) None,
     Rule GNoOvf (pMax X ((X - Y) + Z)) (APat (X + pMax (K 0) (Z - Y))) None,
     Rule GNoOvf (pMax X (Z + (X - Y))) (APat (X + pMax (K 0) (Z - Y))) None,
     Rule GNoOvf (pMax X ((X - Y) - Z)) (APat (X - pMin (K 0) (Y + Z))) None,
     Rule GNoOvf (pMax ((X - Y) + Z) X) (APat (pMax (K 0) (Z - Y) + X)) None,
     Rule GNoOvf (pMax (Z + (X - Y)) X) (APat (pMax (K 0) (Z - Y) + X)) None,
     Rule GNoOvf (pMax ((X - Y) - Z) X) (APat (X - pMin (K 0) (Y + Z))) None]"

definition max_scale :: "nat \<Rightarrow> rule list" where
  "max_scale l =
    [Rule GNoOvf (pMax (X * C0) C1) (APat (pMax X (PFold (C1 div C0)) * C0)) (Some (pAnd (pGT C0 (K 0)) (pEQ (C1 mod C0) (K 0)))),
     Rule GNoOvf (pMax (X * C0) C1) (APat (pMin X (PFold (C1 div C0)) * C0)) (Some (pAnd (pLT C0 (K 0)) (pEQ (C1 mod C0) (K 0)))),
     Rule GNoOvf (pMax (X * C0) (Y * C1)) (APat (pMax X (Y * PFold (C1 div C0)) * C0)) (Some (pAnd (pGT C0 (K 0)) (pEQ (C1 mod C0) (K 0)))),
     Rule GNoOvf (pMax (X * C0) (Y * C1)) (APat (pMin X (Y * PFold (C1 div C0)) * C0)) (Some (pAnd (pLT C0 (K 0)) (pEQ (C1 mod C0) (K 0)))),
     Rule GNoOvf (pMax (X * C0) (Y * C1)) (APat (pMax (X * PFold (C0 div C1)) Y * C1)) (Some (pAnd (pGT C1 (K 0)) (pEQ (C0 mod C1) (K 0)))),
     Rule GNoOvf (pMax (X * C0) (Y * C1)) (APat (pMin (X * PFold (C0 div C1)) Y * C1)) (Some (pAnd (pLT C1 (K 0)) (pEQ (C0 mod C1) (K 0)))),
     Rule GNoOvf (pMax (X * C0) ((Y * C0) + C1)) (APat (pMax X (Y + PFold (C1 div C0)) * C0)) (Some (pAnd (pGT C0 (K 0)) (pEQ (C1 mod C0) (K 0)))),
     Rule GNoOvf (pMax (X * C0) ((Y * C0) + C1)) (APat (pMin X (Y + PFold (C1 div C0)) * C0)) (Some (pAnd (pLT C0 (K 0)) (pEQ (C1 mod C0) (K 0)))),
     Rule GNoOvf (pMax (X div C0) (Y div C0)) (APat (pMax X Y div C0)) (Some (pGT C0 (K 0))),
     Rule GNoOvf (pMax (X div C0) (Y div C0)) (APat (pMin X Y div C0)) (Some (pLT C0 (K 0))),
     Rule GNoOvf (pMax (X div C0) ((Y div C0) + C1)) (APat (pMax X (Y + PFold (C1 * C0)) div C0)) (Some (pAnd (pGT C0 (K 0)) (PNot (POverflows (C1 * C0))))),
     Rule GNoOvf (pMax (X div C0) ((Y div C0) + C1)) (APat (pMin X (Y + PFold (C1 * C0)) div C0)) (Some (pAnd (pLT C0 (K 0)) (PNot (POverflows (C1 * C0))))),
     Rule GNoOvf (pMax (PSelect X Y Z) (PSelect X W U)) (APat (PSelect X (pMax Y W) (pMax Z U))) None,
     Rule GNoOvf (pMax (C0 - X) C1) (APat (C0 - pMin X (PFold (C0 - C1)))) None]"

definition max_result :: "nat \<Rightarrow> rule list" where
  "max_result l = max_const l @ max_extreme l @ max_round l @ max_absorb l @ max_stair l"

definition max_mutate :: "nat \<Rightarrow> rule list" where
  "max_mutate l = max_lattice l @ max_shift l @ max_common l @ max_scale l"

subsection \<open>Correctness\<close>

lemma max_rule_7: "rule_ok_on range_scope l (Rule GAll (pMax X PTypeMax) (AExprB) None)"
  by (rule rule_ok_onI; auto simp: rule_eval range_scope_def min_absorb1 min_absorb2 max_absorb1 max_absorb2)

lemma max_rule_8: "rule_ok_on range_scope l (Rule GAll (pMax X PTypeMin) (APat X) None)"
  by (rule rule_ok_onI; auto simp: rule_eval range_scope_def min_absorb1 min_absorb2 max_absorb1 max_absorb2)

lemma max_rule_9: "rule_ok_on no_narrow_scope l (Rule GAll (pMax ((X div C0) * C0) X) (AExprB) (Some (pGT C0 (K 0))))"
  by (rule rule_ok_onI; auto simp: rule_eval pos_div kwrap_round stair_le min_absorb1 min_absorb2 max_absorb1 max_absorb2)

lemma max_rule_10: "rule_ok_on no_narrow_scope l (Rule GAll (pMax X ((X div C0) * C0)) (AExprA) (Some (pGT C0 (K 0))))"
  by (rule rule_ok_onI; auto simp: rule_eval pos_div kwrap_round stair_le min_absorb1 min_absorb2 max_absorb1 max_absorb2)

lemma max_rule_30: "rule_ok l (Rule GNoOvf (pMax (PRamp X Y None) (PBroadcast Z None)) (AExprA) (Some (PCanProve (pAnd (pGE (X + (Y * K (int l - 1))) Z) (pGE X Z)))))"
  by (rule rule_okI; auto simp: rule_eval ramp_bound min_absorb1 min_absorb2 max_absorb1 max_absorb2)

lemma max_rule_31: "rule_ok l (Rule GNoOvf (pMax (PRamp X Y None) (PBroadcast Z None)) (AExprB) (Some (PCanProve (pAnd (pLE (X + (Y * K (int l - 1))) Z) (pLE X Z)))))"
  by (rule rule_okI; auto simp: rule_eval ramp_bound min_absorb1 min_absorb2 max_absorb1 max_absorb2)

lemma max_rule_80: "rule_ok l (Rule GNoOvf (pMax (((X * C0) + Y) * C1) ((X * C2) + Z)) (APat (pMax (Y * C1) Z + (X * C2))) (Some (pEQ (C0 * C1) C2)))"
  by (rule rule_okI; auto simp: rule_eval min_max_factor)

lemma max_rule_81: "rule_ok l (Rule GNoOvf (pMax ((Y + (X * C0)) * C1) ((X * C2) + Z)) (APat (pMax (Y * C1) Z + (X * C2))) (Some (pEQ (C0 * C1) C2)))"
  by (rule rule_okI; auto simp: rule_eval min_max_factor)

lemma max_rule_82: "rule_ok l (Rule GNoOvf (pMax (((X * C0) + Y) * C1) (Z + (X * C2))) (APat (pMax (Y * C1) Z + (X * C2))) (Some (pEQ (C0 * C1) C2)))"
  by (rule rule_okI; auto simp: rule_eval min_max_factor)

lemma max_rule_83: "rule_ok l (Rule GNoOvf (pMax ((Y + (X * C0)) * C1) (Z + (X * C2))) (APat (pMax (Y * C1) Z + (X * C2))) (Some (pEQ (C0 * C1) C2)))"
  by (rule rule_okI; auto simp: rule_eval min_max_factor)

lemma max_rule_124: "rule_ok l (Rule GNoOvf (pMax (X div C0) ((Y div C0) + C1)) (APat (pMax X (Y + PFold (C1 * C0)) div C0)) (Some (pAnd (pGT C0 (K 0)) (PNot (POverflows (C1 * C0))))))"
  by (rule rule_okI; auto simp: rule_eval ediv_min_max ediv_add_multiple)

lemma max_rule_125: "rule_ok l (Rule GNoOvf (pMax (X div C0) ((Y div C0) + C1)) (APat (pMin X (Y + PFold (C1 * C0)) div C0)) (Some (pAnd (pLT C0 (K 0)) (PNot (POverflows (C1 * C0))))))"
  by (rule rule_okI; auto simp: rule_eval ediv_min_max ediv_add_multiple)

lemma max_const_ok: "list_all (rule_ok l) (max_const l)"
  unfolding max_const_def
  by (intro list_all_intros; (rule rule_okI; auto simp: rule_eval rule_minmax pos_div))

lemma max_extreme_ok: "list_all (rule_ok_on range_scope l) (max_extreme l)"
  unfolding max_extreme_def
  by (intro list_all_intros; (rule max_rule_7 max_rule_8))

lemma max_round_ok: "list_all (rule_ok_on no_narrow_scope l) (max_round l)"
  unfolding max_round_def
  by (intro list_all_intros; (rule max_rule_9 max_rule_10))

lemma max_absorb_ok: "list_all (rule_ok l) (max_absorb l)"
  unfolding max_absorb_def
  by (intro list_all_intros; ((rule rule_okI; auto simp: rule_eval rule_minmax pos_div; fail)
      | (rule rule_okI; auto simp: rule_eval min_def max_def algebra_simps)))

lemma max_stair_ok: "list_all (rule_ok l) (max_stair l)"
  unfolding max_stair_def
  by (intro list_all_intros; ((rule max_rule_30 max_rule_31)
      | (rule rule_okI; auto simp: rule_eval rule_minmax pos_div)))

lemma max_lattice_ok: "list_all (rule_ok l) (max_lattice l)"
  unfolding max_lattice_def
  by (intro list_all_intros; (rule rule_okI; auto simp: rule_eval rule_minmax pos_div))

lemma max_shift_ok: "list_all (rule_ok l) (max_shift l)"
  unfolding max_shift_def
  by (intro list_all_intros; ((rule max_rule_80 max_rule_81 max_rule_82 max_rule_83)
      | (rule rule_okI; auto simp: rule_eval rule_minmax pos_div)))

lemma max_common_ok: "list_all (rule_ok l) (max_common l)"
  unfolding max_common_def
  by (intro list_all_intros; (rule rule_okI; auto simp: rule_eval rule_minmax pos_div))

lemma max_scale_ok: "list_all (rule_ok l) (max_scale l)"
  unfolding max_scale_def
  by (intro list_all_intros; ((rule max_rule_124 max_rule_125)
      | (rule rule_okI; auto simp: rule_eval rule_minmax intro!: ediv_shiftI; simp add: algebra_simps; fail)
      | (rule rule_okI; auto simp: rule_eval rule_minmax pos_div)))

lemmas max_ok = max_const_ok max_absorb_ok max_stair_ok max_lattice_ok max_shift_ok max_common_ok
  max_scale_ok

end
