(* ===== verification/RulesLT.thy ===== *)
theory RulesLT
  imports RuleProof
begin

text \<open>
  The rules of \<open>Simplify_LT.cpp\<close>, in the order the code tries them: those of \<open>lt_result\<close> give the result
  of the visit, those of \<open>lt_mutate\<close> an expression that is simplified again. The rules of \<open>lt_extreme\<close>
  rest on the operand being in the range of its type; the rules of \<open>lt_ramp\<close> test the type of the
  comparison, a boolean, and never apply; those of \<open>lt_min_sum\<close> and \<open>lt_max_sum\<close> are correct only when
  the added constant is not positive.
\<close>

subsection \<open>Comparisons\<close>

definition lt_const :: "nat \<Rightarrow> rule list" where
  "lt_const l =
    [Rule GAll (pLT C0 C1) (APat (PFold (pLT C0 C1))) None,
     Rule GAll (pLT X X) (AInt 0) None]"

definition lt_extreme :: "nat \<Rightarrow> rule list" where
  "lt_extreme l =
    [Rule GAll (pLT X PTypeMin) (AInt 0) None,
     Rule GAll (pLT PTypeMax X) (AInt 0) None]"

definition lt_self :: "nat \<Rightarrow> rule list" where
  "lt_self l =
    [Rule GAll (pLT (pMax X Y) X) (AInt 0) None,
     Rule GAll (pLT (pMax Y X) X) (AInt 0) None,
     Rule GAll (pLT X (pMin X Y)) (AInt 0) None,
     Rule GAll (pLT X (pMin Y X)) (AInt 0) None]"

definition lt_ramp :: "nat \<Rightarrow> rule list" where
  "lt_ramp l =
    [Rule GNoOvf (pLT (PRamp X C1 None) (PBroadcast Z None)) (AInt 1) (Some (PCanProve (pLT (X + PFold (pMax (K 0) (C1 * K (int l - 1)))) Z))),
     Rule GNoOvf (pLT (PRamp X C1 None) (PBroadcast Z None)) (AInt 0) (Some (PCanProve (pGE (X + PFold (pMin (K 0) (C1 * K (int l - 1)))) Z))),
     Rule GNoOvf (pLT (PBroadcast Z None) (PRamp X C1 None)) (AInt 1) (Some (PCanProve (pLT Z (X + PFold (pMin (K 0) (C1 * K (int l - 1))))))),
     Rule GNoOvf (pLT (PBroadcast Z None) (PRamp X C1 None)) (AInt 0) (Some (PCanProve (pGE Z (X + PFold (pMax (K 0) (C1 * K (int l - 1)))))))]"

definition lt_difference :: "nat \<Rightarrow> rule list" where
  "lt_difference l =
    [Rule GAll (pLT (PBroadcast X None) (PBroadcast Y None)) (APat (PBroadcast (pLT X Y) (Some l))) None,
     Rule GNoOvfTy (pLT (PRamp X Y None) (PRamp Z Y None)) (APat (PBroadcast (pLT X Z) (Some l))) None,
     Rule GNoOvfTy (pLT (X + C0) Y) (APat (pLT X (Y + PFold (- C0)))) None,
     Rule GNoOvfTy (pLT C0 (X + C1)) (APat (pLT (PFold (C0 - C1)) X)) None,
     Rule GNoOvfTy (pLT (X - Y) Z) (APat (pLT X (Z + Y))) None,
     Rule GNoOvfTy (pLT Z (X - Y)) (APat (pLT (Z + Y) X)) None,
     Rule GNoOvfTy (pLT ((X - Y) + Z) W) (APat (pLT (X + Z) (Y + W))) None,
     Rule GNoOvfTy (pLT (Z + (X - Y)) W) (APat (pLT (X + Z) (Y + W))) None,
     Rule GNoOvfTy (pLT W ((X - Y) + Z)) (APat (pLT (W + Y) (X + Z))) None,
     Rule GNoOvfTy (pLT W (Z + (X - Y))) (APat (pLT (W + Y) (X + Z))) None,
     Rule GNoOvfTy (pLT (((X - Y) + Z) + U) W) (APat (pLT ((X + Z) + U) (W + Y))) None,
     Rule GNoOvfTy (pLT ((Z + (X - Y)) + U) W) (APat (pLT ((X + Z) + U) (W + Y))) None,
     Rule GNoOvfTy (pLT (U + ((X - Y) + Z)) W) (APat (pLT ((X + Z) + U) (W + Y))) None,
     Rule GNoOvfTy (pLT (U + (Z + (X - Y))) W) (APat (pLT ((X + Z) + U) (W + Y))) None,
     Rule GNoOvfTy (pLT W (((X - Y) + Z) + U)) (APat (pLT (W + Y) ((X + Z) + U))) None,
     Rule GNoOvfTy (pLT W ((Z + (X - Y)) + U)) (APat (pLT (W + Y) ((X + Z) + U))) None,
     Rule GNoOvfTy (pLT W (U + ((X - Y) + Z))) (APat (pLT (W + Y) ((X + Z) + U))) None,
     Rule GNoOvfTy (pLT W (U + (Z + (X - Y)))) (APat (pLT (W + Y) ((X + Z) + U))) None]"

definition lt_cancel :: "nat \<Rightarrow> rule list" where
  "lt_cancel l =
    [Rule GNoOvfTy (pLT X (X + Y)) (APat (pLT (K 0) Y)) None,
     Rule GNoOvfTy (pLT X (Y + X)) (APat (pLT (K 0) Y)) None,
     Rule GNoOvfTy (pLT (X + Y) X) (APat (pLT Y (K 0))) None,
     Rule GNoOvfTy (pLT (Y + X) X) (APat (pLT Y (K 0))) None,
     Rule GNoOvfTy (pLT (X + Y) (X + Z)) (APat (pLT Y Z)) None,
     Rule GNoOvfTy (pLT (X + Y) (Z + X)) (APat (pLT Y Z)) None,
     Rule GNoOvfTy (pLT (Y + X) (X + Z)) (APat (pLT Y Z)) None,
     Rule GNoOvfTy (pLT (Y + X) (Z + X)) (APat (pLT Y Z)) None,
     Rule GNoOvfTy (pLT ((X + Y) + W) (X + Z)) (APat (pLT (Y + W) Z)) None,
     Rule GNoOvfTy (pLT ((Y + X) + W) (X + Z)) (APat (pLT (Y + W) Z)) None,
     Rule GNoOvfTy (pLT (W + (X + Y)) (X + Z)) (APat (pLT (Y + W) Z)) None,
     Rule GNoOvfTy (pLT (W + (Y + X)) (X + Z)) (APat (pLT (Y + W) Z)) None,
     Rule GNoOvfTy (pLT ((X + Y) + W) (Z + X)) (APat (pLT (Y + W) Z)) None,
     Rule GNoOvfTy (pLT ((Y + X) + W) (Z + X)) (APat (pLT (Y + W) Z)) None,
     Rule GNoOvfTy (pLT (W + (X + Y)) (Z + X)) (APat (pLT (Y + W) Z)) None,
     Rule GNoOvfTy (pLT (W + (Y + X)) (Z + X)) (APat (pLT (Y + W) Z)) None,
     Rule GNoOvfTy (pLT (X + Z) ((X + Y) + W)) (APat (pLT Z (Y + W))) None,
     Rule GNoOvfTy (pLT (X + Z) ((Y + X) + W)) (APat (pLT Z (Y + W))) None,
     Rule GNoOvfTy (pLT (X + Z) (W + (X + Y))) (APat (pLT Z (Y + W))) None,
     Rule GNoOvfTy (pLT (X + Z) (W + (Y + X))) (APat (pLT Z (Y + W))) None,
     Rule GNoOvfTy (pLT (Z + X) ((X + Y) + W)) (APat (pLT Z (Y + W))) None,
     Rule GNoOvfTy (pLT (Z + X) ((Y + X) + W)) (APat (pLT Z (Y + W))) None,
     Rule GNoOvfTy (pLT (Z + X) (W + (X + Y))) (APat (pLT Z (Y + W))) None,
     Rule GNoOvfTy (pLT (Z + X) (W + (Y + X))) (APat (pLT Z (Y + W))) None]"

definition lt_cancel_sum :: "nat \<Rightarrow> rule list" where
  "lt_cancel_sum l =
    [Rule GNoOvfTy (pLT ((X + Y) + W) ((X + Z) + U)) (APat (pLT (Y + W) (Z + U))) None,
     Rule GNoOvfTy (pLT ((Y + X) + W) ((X + Z) + U)) (APat (pLT (Y + W) (Z + U))) None,
     Rule GNoOvfTy (pLT ((X + Y) + W) ((Z + X) + U)) (APat (pLT (Y + W) (Z + U))) None,
     Rule GNoOvfTy (pLT ((Y + X) + W) ((Z + X) + U)) (APat (pLT (Y + W) (Z + U))) None,
     Rule GNoOvfTy (pLT (W + (X + Y)) ((X + Z) + U)) (APat (pLT (Y + W) (Z + U))) None,
     Rule GNoOvfTy (pLT (W + (Y + X)) ((X + Z) + U)) (APat (pLT (Y + W) (Z + U))) None,
     Rule GNoOvfTy (pLT (W + (X + Y)) ((Z + X) + U)) (APat (pLT (Y + W) (Z + U))) None,
     Rule GNoOvfTy (pLT (W + (Y + X)) ((Z + X) + U)) (APat (pLT (Y + W) (Z + U))) None,
     Rule GNoOvfTy (pLT ((X + Y) + W) (U + (X + Z))) (APat (pLT (Y + W) (Z + U))) None,
     Rule GNoOvfTy (pLT ((Y + X) + W) (U + (X + Z))) (APat (pLT (Y + W) (Z + U))) None,
     Rule GNoOvfTy (pLT ((X + Y) + W) (U + (Z + X))) (APat (pLT (Y + W) (Z + U))) None,
     Rule GNoOvfTy (pLT ((Y + X) + W) (U + (Z + X))) (APat (pLT (Y + W) (Z + U))) None,
     Rule GNoOvfTy (pLT (W + (X + Y)) (U + (X + Z))) (APat (pLT (Y + W) (Z + U))) None,
     Rule GNoOvfTy (pLT (W + (Y + X)) (U + (X + Z))) (APat (pLT (Y + W) (Z + U))) None,
     Rule GNoOvfTy (pLT (W + (X + Y)) (U + (Z + X))) (APat (pLT (Y + W) (Z + U))) None,
     Rule GNoOvfTy (pLT (W + (Y + X)) (U + (Z + X))) (APat (pLT (Y + W) (Z + U))) None]"

definition lt_scale :: "nat \<Rightarrow> rule list" where
  "lt_scale l =
    [Rule GNoOvfTy (pLT (X * C0) (Y * C0)) (APat (pLT X Y)) (Some (pGT C0 (K 0))),
     Rule GNoOvfTy (pLT (X * C0) (Y * C0)) (APat (pLT Y X)) (Some (pLT C0 (K 0))),
     Rule GIntTy (pLT (X * C0) C1) (APat (pLT X (PFold (((C1 + C0) - K 1) div C0)))) (Some (pGT C0 (K 0))),
     Rule GFloatTy (pLT (X * C0) C1) (APat (pLT X (PFold (C1 div C0)))) (Some (pGT C0 (K 0))),
     Rule GNoOvfTy (pLT C1 (X * C0)) (APat (pLT (PFold (C1 div C0)) X)) (Some (pGT C0 (K 0))),
     Rule GNoOvfTy (pLT (X div C0) C1) (APat (pLT X (C1 * C0))) (Some (pGT C0 (K 0))),
     Rule GIntTy (pLT C0 (X div C1)) (APat (pLT (PFold (((C0 + K 1) * C1) - K 1)) X)) (Some (pGT C1 (K 0))),
     Rule GFloatTy (pLT C0 (X div C1)) (APat (pLT (PFold (C0 * C1)) X)) (Some (pGT C1 (K 0)))]"

definition lt_minmax :: "nat \<Rightarrow> rule list" where
  "lt_minmax l =
    [Rule GNoOvfTy (pLT (pMin (X + C0) Y) (X + C1)) (APat (pOr (PFold (pLT C0 C1)) (pLT Y (X + C1)))) None,
     Rule GNoOvfTy (pLT (pMin Y (X + C0)) (X + C1)) (APat (pOr (PFold (pLT C0 C1)) (pLT Y (X + C1)))) None,
     Rule GNoOvfTy (pLT (pMax (X + C0) Y) (X + C1)) (APat (pAnd (PFold (pLT C0 C1)) (pLT Y (X + C1)))) None,
     Rule GNoOvfTy (pLT (pMax Y (X + C0)) (X + C1)) (APat (pAnd (PFold (pLT C0 C1)) (pLT Y (X + C1)))) None,
     Rule GNoOvfTy (pLT X (pMin (X + C0) Y + C1)) (APat (pAnd (PFold (pLT (K 0) (C0 + C1))) (pLT X (Y + C1)))) None,
     Rule GNoOvfTy (pLT X (pMin Y (X + C0) + C1)) (APat (pAnd (PFold (pLT (K 0) (C0 + C1))) (pLT X (Y + C1)))) None,
     Rule GNoOvfTy (pLT X (pMax (X + C0) Y + C1)) (APat (pOr (PFold (pLT (K 0) (C0 + C1))) (pLT X (Y + C1)))) None,
     Rule GNoOvfTy (pLT X (pMax Y (X + C0) + C1)) (APat (pOr (PFold (pLT (K 0) (C0 + C1))) (pLT X (Y + C1)))) None,
     Rule GNoOvfTy (pLT (pMin X Y) (X + C1)) (APat (pOr (PFold (pLT (K 0) C1)) (pLT Y (X + C1)))) None,
     Rule GNoOvfTy (pLT (pMin Y X) (X + C1)) (APat (pOr (PFold (pLT (K 0) C1)) (pLT Y (X + C1)))) None,
     Rule GNoOvfTy (pLT (pMax X Y) (X + C1)) (APat (pAnd (PFold (pLT (K 0) C1)) (pLT Y (X + C1)))) None,
     Rule GNoOvfTy (pLT (pMax Y X) (X + C1)) (APat (pAnd (PFold (pLT (K 0) C1)) (pLT Y (X + C1)))) None,
     Rule GNoOvfTy (pLT X (pMin X Y + C1)) (APat (pAnd (PFold (pLT (K 0) C1)) (pLT X (Y + C1)))) None,
     Rule GNoOvfTy (pLT X (pMin Y X + C1)) (APat (pAnd (PFold (pLT (K 0) C1)) (pLT X (Y + C1)))) None,
     Rule GNoOvfTy (pLT X (pMax X Y + C1)) (APat (pOr (PFold (pLT (K 0) C1)) (pLT X (Y + C1)))) None,
     Rule GNoOvfTy (pLT X (pMax Y X + C1)) (APat (pOr (PFold (pLT (K 0) C1)) (pLT X (Y + C1)))) None,
     Rule GNoOvfTy (pLT (pMin (X + C0) Y) X) (APat (pOr (PFold (pLT C0 (K 0))) (pLT Y X))) None,
     Rule GNoOvfTy (pLT (pMin Y (X + C0)) X) (APat (pOr (PFold (pLT C0 (K 0))) (pLT Y X))) None,
     Rule GNoOvfTy (pLT (pMax (X + C0) Y) X) (APat (pAnd (PFold (pLT C0 (K 0))) (pLT Y X))) None,
     Rule GNoOvfTy (pLT (pMax Y (X + C0)) X) (APat (pAnd (PFold (pLT C0 (K 0))) (pLT Y X))) None,
     Rule GNoOvfTy (pLT X (pMin (X + C0) Y)) (APat (pAnd (PFold (pLT (K 0) C0)) (pLT X Y))) None,
     Rule GNoOvfTy (pLT X (pMin Y (X + C0))) (APat (pAnd (PFold (pLT (K 0) C0)) (pLT X Y))) None,
     Rule GNoOvfTy (pLT X (pMax (X + C0) Y)) (APat (pOr (PFold (pLT (K 0) C0)) (pLT X Y))) None,
     Rule GNoOvfTy (pLT X (pMax Y (X + C0))) (APat (pOr (PFold (pLT (K 0) C0)) (pLT X Y))) None,
     Rule GNoOvfTy (pLT (pMin X Y) X) (APat (pLT Y X)) None,
     Rule GNoOvfTy (pLT (pMin Y X) X) (APat (pLT Y X)) None,
     Rule GNoOvfTy (pLT X (pMax X Y)) (APat (pLT X Y)) None,
     Rule GNoOvfTy (pLT X (pMax Y X)) (APat (pLT X Y)) None,
     Rule GNoOvfTy (pLT (pMin Y C0) C1) (APat (pOr (PFold (pLT C0 C1)) (pLT Y C1))) None,
     Rule GNoOvfTy (pLT (pMax Y C0) C1) (APat (pAnd (PFold (pLT C0 C1)) (pLT Y C1))) None,
     Rule GNoOvfTy (pLT C1 (pMin Y C0)) (APat (pAnd (PFold (pLT C1 C0)) (pLT C1 Y))) None,
     Rule GNoOvfTy (pLT C1 (pMax Y C0)) (APat (pOr (PFold (pLT C1 C0)) (pLT C1 Y))) None]"

definition lt_select :: "nat \<Rightarrow> rule list" where
  "lt_select l =
    [Rule GNoOvfTy (pLT X (PSelect Y (X + C0) Z)) (APat (pAnd (PNot Y) (pLT X Z))) (Some (pLE C0 (K 0))),
     Rule GNoOvfTy (pLT X (PSelect Y (X + C0) Z)) (APat (pOr Y (pLT X Z))) (Some (pGT C0 (K 0))),
     Rule GNoOvfTy (pLT X (PSelect Y Z (X + C0))) (APat (pAnd Y (pLT X Z))) (Some (pLE C0 (K 0))),
     Rule GNoOvfTy (pLT X (PSelect Y Z (X + C0))) (APat (pOr (PNot Y) (pLT X Z))) (Some (pGT C0 (K 0))),
     Rule GNoOvfTy (pLT X (PSelect Y (X + C0) Z + C1)) (APat (pAnd (PNot Y) (pLT X (Z + C1)))) (Some (pLE (C0 + C1) (K 0))),
     Rule GNoOvfTy (pLT X (PSelect Y (X + C0) Z + C1)) (APat (pOr Y (pLT X (Z + C1)))) (Some (pGT (C0 + C1) (K 0))),
     Rule GNoOvfTy (pLT X (PSelect Y Z (X + C0) + C1)) (APat (pAnd Y (pLT X (Z + C1)))) (Some (pLE (C0 + C1) (K 0))),
     Rule GNoOvfTy (pLT X (PSelect Y Z (X + C0) + C1)) (APat (pOr (PNot Y) (pLT X (Z + C1)))) (Some (pGT (C0 + C1) (K 0))),
     Rule GNoOvfTy (pLT (PSelect Y (X + C0) Z) X) (APat (pAnd (PNot Y) (pLT Z X))) (Some (pGE C0 (K 0))),
     Rule GNoOvfTy (pLT (PSelect Y (X + C0) Z) X) (APat (pOr Y (pLT Z X))) (Some (pLT C0 (K 0))),
     Rule GNoOvfTy (pLT (PSelect Y Z (X + C0)) X) (APat (pAnd Y (pLT Z X))) (Some (pGE C0 (K 0))),
     Rule GNoOvfTy (pLT (PSelect Y Z (X + C0)) X) (APat (pOr (PNot Y) (pLT Z X))) (Some (pLT C0 (K 0))),
     Rule GNoOvfTy (pLT (PSelect Y (X + C0) Z) (X + C1)) (APat (pAnd (PNot Y) (pLT Z (X + C1)))) (Some (pGE C0 C1)),
     Rule GNoOvfTy (pLT (PSelect Y (X + C0) Z) (X + C1)) (APat (pOr Y (pLT Z (X + C1)))) (Some (pLT C0 C1)),
     Rule GNoOvfTy (pLT (PSelect Y Z (X + C0)) (X + C1)) (APat (pAnd Y (pLT Z (X + C1)))) (Some (pGE C0 C1)),
     Rule GNoOvfTy (pLT (PSelect Y Z (X + C0)) (X + C1)) (APat (pOr (PNot Y) (pLT Z (X + C1)))) (Some (pLT C0 C1)),
     Rule GNoOvfTy (pLT (PRamp X Y None) (PRamp Z W None)) (APat (pLT (PRamp (X - Z) (Y - W) (Some l)) (K 0))) None]"

definition lt_linear :: "nat \<Rightarrow> rule list" where
  "lt_linear l =
    [Rule GNoOvfIntTy (pLT (X * C0) (Y * C1)) (APat (pLT X (Y * PFold (C1 div C0)))) (Some (pAnd (pEQ (C1 mod C0) (K 0)) (pGT C0 (K 0)))),
     Rule GNoOvfIntTy (pLT (X * C0) (Y * C1)) (APat (pLT (X * PFold (C0 div C1)) Y)) (Some (pAnd (pEQ (C0 mod C1) (K 0)) (pGT C1 (K 0)))),
     Rule GNoOvfIntTy (pLT (X * C0) ((Y * C0) + C1)) (APat (pLT X (Y + PFold (((C1 + C0) - K 1) div C0)))) (Some (pGT C0 (K 0))),
     Rule GNoOvfIntTy (pLT ((X * C0) + C1) (Y * C0)) (APat (pLT (X + PFold (C1 div C0)) Y)) (Some (pGT C0 (K 0)))]"

definition lt_stair :: "nat \<Rightarrow> rule list" where
  "lt_stair l =
    [Rule GNoOvfIntTy (pLT ((((X + C0) div C1) * C1) + W) (X + Z)) (APat (pLT (W + C0) (((X + C0) mod C1) + Z))) (Some (pGT C1 (K 0))),
     Rule GNoOvfIntTy (pLT (W + (((X + C0) div C1) * C1)) (X + Z)) (APat (pLT (W + C0) (((X + C0) mod C1) + Z))) (Some (pGT C1 (K 0))),
     Rule GNoOvfIntTy (pLT ((((X + C0) div C1) * C1) + W) (Z + X)) (APat (pLT (W + C0) (((X + C0) mod C1) + Z))) (Some (pGT C1 (K 0))),
     Rule GNoOvfIntTy (pLT (W + (((X + C0) div C1) * C1)) (Z + X)) (APat (pLT (W + C0) (((X + C0) mod C1) + Z))) (Some (pGT C1 (K 0))),
     Rule GNoOvfIntTy (pLT (X + Z) ((((X + C0) div C1) * C1) + W)) (APat (pLT (((X + C0) mod C1) + Z) (W + C0))) (Some (pGT C1 (K 0))),
     Rule GNoOvfIntTy (pLT (X + Z) (W + (((X + C0) div C1) * C1))) (APat (pLT (((X + C0) mod C1) + Z) (W + C0))) (Some (pGT C1 (K 0))),
     Rule GNoOvfIntTy (pLT (Z + X) ((((X + C0) div C1) * C1) + W)) (APat (pLT (((X + C0) mod C1) + Z) (W + C0))) (Some (pGT C1 (K 0))),
     Rule GNoOvfIntTy (pLT (Z + X) (W + (((X + C0) div C1) * C1))) (APat (pLT (((X + C0) mod C1) + Z) (W + C0))) (Some (pGT C1 (K 0))),
     Rule GNoOvfIntTy (pLT (((X + C0) div C1) * C1) (X + Z)) (APat (pLT C0 (((X + C0) mod C1) + Z))) (Some (pGT C1 (K 0))),
     Rule GNoOvfIntTy (pLT (((X + C0) div C1) * C1) (Z + X)) (APat (pLT C0 (((X + C0) mod C1) + Z))) (Some (pGT C1 (K 0))),
     Rule GNoOvfIntTy (pLT (X + Z) (((X + C0) div C1) * C1)) (APat (pLT (((X + C0) mod C1) + Z) C0)) (Some (pGT C1 (K 0))),
     Rule GNoOvfIntTy (pLT (Z + X) (((X + C0) div C1) * C1)) (APat (pLT (((X + C0) mod C1) + Z) C0)) (Some (pGT C1 (K 0))),
     Rule GNoOvfIntTy (pLT ((((X + C0) div C1) * C1) + W) X) (APat (pLT (W + C0) ((X + C0) mod C1))) (Some (pGT C1 (K 0))),
     Rule GNoOvfIntTy (pLT (W + (((X + C0) div C1) * C1)) X) (APat (pLT (W + C0) ((X + C0) mod C1))) (Some (pGT C1 (K 0))),
     Rule GNoOvfIntTy (pLT X ((((X + C0) div C1) * C1) + W)) (APat (pLT ((X + C0) mod C1) (W + C0))) (Some (pGT C1 (K 0))),
     Rule GNoOvfIntTy (pLT X (W + (((X + C0) div C1) * C1))) (APat (pLT ((X + C0) mod C1) (W + C0))) (Some (pGT C1 (K 0))),
     Rule GNoOvfIntTy (pLT (((X div C1) * C1) + W) (X + Z)) (APat (pLT W ((X mod C1) + Z))) (Some (pGT C1 (K 0))),
     Rule GNoOvfIntTy (pLT (W + ((X div C1) * C1)) (X + Z)) (APat (pLT W ((X mod C1) + Z))) (Some (pGT C1 (K 0))),
     Rule GNoOvfIntTy (pLT (((X div C1) * C1) + W) (Z + X)) (APat (pLT W ((X mod C1) + Z))) (Some (pGT C1 (K 0))),
     Rule GNoOvfIntTy (pLT (W + ((X div C1) * C1)) (Z + X)) (APat (pLT W ((X mod C1) + Z))) (Some (pGT C1 (K 0))),
     Rule GNoOvfIntTy (pLT (X + Z) (((X div C1) * C1) + W)) (APat (pLT ((X mod C1) + Z) W)) (Some (pGT C1 (K 0))),
     Rule GNoOvfIntTy (pLT (X + Z) (W + ((X div C1) * C1))) (APat (pLT ((X mod C1) + Z) W)) (Some (pGT C1 (K 0))),
     Rule GNoOvfIntTy (pLT (Z + X) (((X div C1) * C1) + W)) (APat (pLT ((X mod C1) + Z) W)) (Some (pGT C1 (K 0))),
     Rule GNoOvfIntTy (pLT (Z + X) (W + ((X div C1) * C1))) (APat (pLT ((X mod C1) + Z) W)) (Some (pGT C1 (K 0))),
     Rule GNoOvfIntTy (pLT (((X + C0) div C1) * C1) X) (APat (pLT C0 ((X + C0) mod C1))) (Some (pGT C1 (K 0))),
     Rule GNoOvfIntTy (pLT X (((X + C0) div C1) * C1)) (APat (pLT ((X + C0) mod C1) C0)) (Some (pGT C1 (K 0))),
     Rule GNoOvfIntTy (pLT ((X div C1) * C1) (X + Z)) (APat (pLT (K 0) ((X mod C1) + Z))) (Some (pGT C1 (K 0))),
     Rule GNoOvfIntTy (pLT ((X div C1) * C1) (Z + X)) (APat (pLT (K 0) ((X mod C1) + Z))) (Some (pGT C1 (K 0))),
     Rule GNoOvfIntTy (pLT (X + Z) ((X div C1) * C1)) (APat (pLT ((X mod C1) + Z) (K 0))) (Some (pGT C1 (K 0))),
     Rule GNoOvfIntTy (pLT (Z + X) ((X div C1) * C1)) (APat (pLT ((X mod C1) + Z) (K 0))) (Some (pGT C1 (K 0))),
     Rule GNoOvfIntTy (pLT (((X div C1) * C1) + W) X) (APat (pLT W (X mod C1))) (Some (pGT C1 (K 0))),
     Rule GNoOvfIntTy (pLT (W + ((X div C1) * C1)) X) (APat (pLT W (X mod C1))) (Some (pGT C1 (K 0))),
     Rule GNoOvfIntTy (pLT X (((X div C1) * C1) + W)) (APat (pLT (X mod C1) W)) (Some (pGT C1 (K 0))),
     Rule GNoOvfIntTy (pLT X (W + ((X div C1) * C1))) (APat (pLT (X mod C1) W)) (Some (pGT C1 (K 0))),
     Rule GNoOvfIntTy (pLT ((X div C1) * C1) X) (APat (pNE (X mod C1) (K 0))) (Some (pGT C1 (K 0))),
     Rule GNoOvfIntTy (pLT X ((X div C1) * C1)) (AInt 0) (Some (pGT C1 (K 0)))]"

definition lt_div_div :: "nat \<Rightarrow> rule list" where
  "lt_div_div l =
    [Rule GNoOvfIntTy (pLT ((X + C1) div C0) ((X + C2) div C0)) (AInt 0) (Some (pAnd (pGT C0 (K 0)) (pGE C1 C2))),
     Rule GNoOvfIntTy (pLT ((X + C1) div C0) ((X + C2) div C0)) (AInt 1) (Some (pAnd (pGT C0 (K 0)) (pLE C1 (C2 - C0)))),
     Rule GNoOvfIntTy (pLT (X div C0) ((X + C2) div C0)) (AInt 0) (Some (pAnd (pGT C0 (K 0)) (pGE (K 0) C2))),
     Rule GNoOvfIntTy (pLT (X div C0) ((X + C2) div C0)) (AInt 1) (Some (pAnd (pGT C0 (K 0)) (pLE (K 0) (C2 - C0)))),
     Rule GNoOvfIntTy (pLT ((X + C1) div C0) (X div C0)) (AInt 0) (Some (pAnd (pGT C0 (K 0)) (pGE C1 (K 0)))),
     Rule GNoOvfIntTy (pLT ((X + C1) div C0) (X div C0)) (AInt 1) (Some (pAnd (pGT C0 (K 0)) (pLE C1 (K 0 - C0)))),
     Rule GNoOvfIntTy (pLT ((X + C1) div C0) ((X div C0) + C2)) (AInt 0) (Some (pAnd (pGT C0 (K 0)) (pGE C1 (C2 * C0)))),
     Rule GNoOvfIntTy (pLT ((X + C1) div C0) ((X div C0) + C2)) (AInt 1) (Some (pAnd (pGT C0 (K 0)) (pLE C1 ((C2 * C0) - C0)))),
     Rule GNoOvfIntTy (pLT ((X + C1) div C0) (pMin (X div C0) Y + C2)) (AInt 0) (Some (pAnd (pGT C0 (K 0)) (pGE C1 (C2 * C0)))),
     Rule GNoOvfIntTy (pLT ((X + C1) div C0) (pMax (X div C0) Y + C2)) (AInt 1) (Some (pAnd (pGT C0 (K 0)) (pLE C1 ((C2 * C0) - C0)))),
     Rule GNoOvfIntTy (pLT ((X + C1) div C0) (pMin ((X + C2) div C0) Y)) (AInt 0) (Some (pAnd (pGT C0 (K 0)) (pGE C1 C2))),
     Rule GNoOvfIntTy (pLT ((X + C1) div C0) (pMax ((X + C2) div C0) Y)) (AInt 1) (Some (pAnd (pGT C0 (K 0)) (pLE C1 (C2 - C0)))),
     Rule GNoOvfIntTy (pLT ((X + C1) div C0) (pMin (X div C0) Y)) (AInt 0) (Some (pAnd (pGT C0 (K 0)) (pGE C1 (K 0)))),
     Rule GNoOvfIntTy (pLT ((X + C1) div C0) (pMax (X div C0) Y)) (AInt 1) (Some (pAnd (pGT C0 (K 0)) (pLE C1 (K 0 - C0)))),
     Rule GNoOvfIntTy (pLT ((X + C1) div C0) (pMin Y (X div C0) + C2)) (AInt 0) (Some (pAnd (pGT C0 (K 0)) (pGE C1 (C2 * C0)))),
     Rule GNoOvfIntTy (pLT ((X + C1) div C0) (pMax Y (X div C0) + C2)) (AInt 1) (Some (pAnd (pGT C0 (K 0)) (pLE C1 ((C2 * C0) - C0)))),
     Rule GNoOvfIntTy (pLT ((X + C1) div C0) (pMin Y ((X + C2) div C0))) (AInt 0) (Some (pAnd (pGT C0 (K 0)) (pGE C1 C2))),
     Rule GNoOvfIntTy (pLT ((X + C1) div C0) (pMax Y ((X + C2) div C0))) (AInt 1) (Some (pAnd (pGT C0 (K 0)) (pLE C1 (C2 - C0)))),
     Rule GNoOvfIntTy (pLT ((X + C1) div C0) (pMin Y (X div C0))) (AInt 0) (Some (pAnd (pGT C0 (K 0)) (pGE C1 (K 0)))),
     Rule GNoOvfIntTy (pLT ((X + C1) div C0) (pMax Y (X div C0))) (AInt 1) (Some (pAnd (pGT C0 (K 0)) (pLE C1 (K 0 - C0))))]"

definition lt_minmax_div :: "nat \<Rightarrow> rule list" where
  "lt_minmax_div l =
    [Rule GNoOvfIntTy (pLT (pMax ((X + C2) div C0) Y) ((X + C1) div C0)) (AInt 0) (Some (pAnd (pGT C0 (K 0)) (pGE C2 C1))),
     Rule GNoOvfIntTy (pLT (pMin ((X + C2) div C0) Y) ((X + C1) div C0)) (AInt 1) (Some (pAnd (pGT C0 (K 0)) (pLE C2 (C1 - C0)))),
     Rule GNoOvfIntTy (pLT (pMax (X div C0) Y) ((X + C1) div C0)) (AInt 0) (Some (pAnd (pGT C0 (K 0)) (pGE (K 0) C1))),
     Rule GNoOvfIntTy (pLT (pMin (X div C0) Y) ((X + C1) div C0)) (AInt 1) (Some (pAnd (pGT C0 (K 0)) (pLE (K 0) (C1 - C0)))),
     Rule GNoOvfIntTy (pLT (pMax Y ((X + C2) div C0)) ((X + C1) div C0)) (AInt 0) (Some (pAnd (pGT C0 (K 0)) (pGE C2 C1))),
     Rule GNoOvfIntTy (pLT (pMin Y ((X + C2) div C0)) ((X + C1) div C0)) (AInt 1) (Some (pAnd (pGT C0 (K 0)) (pLE C2 (C1 - C0)))),
     Rule GNoOvfIntTy (pLT (pMax Y (X div C0)) ((X + C1) div C0)) (AInt 0) (Some (pAnd (pGT C0 (K 0)) (pGE (K 0) C1))),
     Rule GNoOvfIntTy (pLT (pMin Y (X div C0)) ((X + C1) div C0)) (AInt 1) (Some (pAnd (pGT C0 (K 0)) (pLE (K 0) (C1 - C0)))),
     Rule GNoOvfIntTy (pLT (pMax ((X + C2) div C0) Y) ((X div C0) + C1)) (AInt 0) (Some (pAnd (pGT C0 (K 0)) (pGE C2 (C1 * C0)))),
     Rule GNoOvfIntTy (pLT (pMin ((X + C2) div C0) Y) ((X div C0) + C1)) (AInt 1) (Some (pAnd (pGT C0 (K 0)) (pLE C2 ((C1 * C0) - C0)))),
     Rule GNoOvfIntTy (pLT (pMax Y ((X + C2) div C0)) ((X div C0) + C1)) (AInt 0) (Some (pAnd (pGT C0 (K 0)) (pGE C2 (C1 * C0)))),
     Rule GNoOvfIntTy (pLT (pMin Y ((X + C2) div C0)) ((X div C0) + C1)) (AInt 1) (Some (pAnd (pGT C0 (K 0)) (pLE C2 ((C1 * C0) - C0)))),
     Rule GNoOvfIntTy (pLT (X div C0) (pMin ((X + C2) div C0) Y)) (AInt 0) (Some (pAnd (pGT C0 (K 0)) (pLT C2 (K 0)))),
     Rule GNoOvfIntTy (pLT (X div C0) (pMax ((X + C2) div C0) Y)) (AInt 1) (Some (pAnd (pGT C0 (K 0)) (pLE C0 C2))),
     Rule GNoOvfIntTy (pLT (X div C0) (pMin Y ((X + C2) div C0))) (AInt 0) (Some (pAnd (pGT C0 (K 0)) (pLT C2 (K 0)))),
     Rule GNoOvfIntTy (pLT (X div C0) (pMax Y ((X + C2) div C0))) (AInt 1) (Some (pAnd (pGT C0 (K 0)) (pLE C0 C2))),
     Rule GNoOvfIntTy (pLT (pMax ((X + C2) div C0) Y) (X div C0)) (AInt 0) (Some (pAnd (pGT C0 (K 0)) (pGE C2 (K 0)))),
     Rule GNoOvfIntTy (pLT (pMin ((X + C2) div C0) Y) (X div C0)) (AInt 1) (Some (pAnd (pGT C0 (K 0)) (pLE (C2 + C0) (K 0)))),
     Rule GNoOvfIntTy (pLT (pMax Y ((X + C2) div C0)) (X div C0)) (AInt 0) (Some (pAnd (pGT C0 (K 0)) (pGE C2 (K 0)))),
     Rule GNoOvfIntTy (pLT (pMin Y ((X + C2) div C0)) (X div C0)) (AInt 1) (Some (pAnd (pGT C0 (K 0)) (pLE (C2 + C0) (K 0))))]"

definition lt_min_const :: "nat \<Rightarrow> rule list" where
  "lt_min_const l =
    [Rule GNoOvfIntTy (pLT (pMin X C0) (pMin X C1)) (AInt 0) (Some (pGE C0 C1))]"

definition lt_min_sum :: "nat \<Rightarrow> rule list" where
  "lt_min_sum l =
    [Rule GNoOvfIntTy (pLT (pMin X C0) (pMin X C1 + C2)) (AInt 0) (Some (pGE C0 (C1 + C2)))]"

definition lt_max_const :: "nat \<Rightarrow> rule list" where
  "lt_max_const l =
    [Rule GNoOvfIntTy (pLT (pMax X C0) (pMax X C1)) (AInt 0) (Some (pGE C0 C1))]"

definition lt_max_sum :: "nat \<Rightarrow> rule list" where
  "lt_max_sum l =
    [Rule GNoOvfIntTy (pLT (pMax X C0) (pMax X C1 + C2)) (AInt 0) (Some (pGE C0 (C1 + C2)))]"

definition lt_block :: "nat \<Rightarrow> rule list" where
  "lt_block l =
    [Rule GNoOvfIntTy (pLT (PRamp ((X * C3) + C2) C1 None) (PBroadcast (Z * C0) None)) (APat (PBroadcast (pLT ((X * PFold (C3 div C0)) + PFold (C2 div C0)) Z) (Some l))) (Some (pAnd (pAnd (pAnd (pGT C0 (K 0)) (pEQ (C3 mod C0) (K 0))) (pLT ((C2 mod C0) + (C1 * K (int l - 1))) C0)) (pGE ((C2 mod C0) + (C1 * K (int l - 1))) (K 0)))),
     Rule GNoOvfIntTy (pLT (PRamp (X * C3) C1 None) (PBroadcast (Z * C0) None)) (APat (PBroadcast (pLT (X * PFold (C3 div C0)) Z) (Some l))) (Some (pAnd (pAnd (pAnd (pGT C0 (K 0)) (pEQ (C3 mod C0) (K 0))) (pLT (C1 * K (int l - 1)) C0)) (pGE (C1 * K (int l - 1)) (K 0))))]"

definition lt_result :: "nat \<Rightarrow> rule list" where
  "lt_result l = lt_const l @ lt_extreme l @ lt_self l @ lt_ramp l"

definition lt_mutate :: "nat \<Rightarrow> rule list" where
  "lt_mutate l = lt_difference l @ lt_cancel l @ lt_cancel_sum l @ lt_scale l @ lt_minmax l @ lt_select l @ lt_linear l @ lt_stair l @ lt_div_div l @ lt_minmax_div l @ lt_min_const l @ lt_min_sum l @ lt_max_const l @ lt_max_sum l @ lt_block l"

subsection \<open>Correctness\<close>

lemma lt_rule_3: "rule_ok_on range_scope l (Rule GAll (pLT X PTypeMin) (AInt 0) None)"
  by (rule rule_ok_onI; auto simp: rule_eval range_scope_def not_less)

lemma lt_rule_4: "rule_ok_on range_scope l (Rule GAll (pLT PTypeMax X) (AInt 0) None)"
  by (rule rule_ok_onI; auto simp: rule_eval range_scope_def not_less)

lemma lt_rule_166: "rule_ok l (Rule GNoOvfIntTy (pLT ((X div C1) * C1) X) (APat (pNE (X mod C1) (K 0))) (Some (pGT C1 (K 0))))"
  by (rule rule_okI; auto simp: rule_eval pos_div stair_neq)

lemma lt_rule_209: "rule_ok_on no_raise_scope l (Rule GNoOvfIntTy (pLT (pMin X C0) (pMin X C1 + C2)) (AInt 0) (Some (pGE C0 (C1 + C2))))"
  by (rule rule_ok_onI; auto simp: rule_eval no_raise_scope_def)

lemma lt_rule_211: "rule_ok_on no_raise_scope l (Rule GNoOvfIntTy (pLT (pMax X C0) (pMax X C1 + C2)) (AInt 0) (Some (pGE C0 (C1 + C2))))"
  by (rule rule_ok_onI; auto simp: rule_eval no_raise_scope_def)

lemma lt_rule_212: "rule_ok l (Rule GNoOvfIntTy (pLT (PRamp ((X * C3) + C2) C1 None) (PBroadcast (Z * C0) None)) (APat (PBroadcast (pLT ((X * PFold (C3 div C0)) + PFold (C2 div C0)) Z) (Some l))) (Some (pAnd (pAnd (pAnd (pGT C0 (K 0)) (pEQ (C3 mod C0) (K 0))) (pLT ((C2 mod C0) + (C1 * K (int l - 1))) C0)) (pGE ((C2 mod C0) + (C1 * K (int l - 1))) (K 0)))))"
  by (rule rule_okI, simp (no_asm_use) add: rule_eval, elim conjE, (thin_tac "_ \<longrightarrow> _")+,
      simp only: kwrap_noovf pos_div ramp_block_less [where l = "int l"]
        ramp_block_less_0 [where l = "int l"] simp_thms)

lemma lt_rule_213: "rule_ok l (Rule GNoOvfIntTy (pLT (PRamp (X * C3) C1 None) (PBroadcast (Z * C0) None)) (APat (PBroadcast (pLT (X * PFold (C3 div C0)) Z) (Some l))) (Some (pAnd (pAnd (pAnd (pGT C0 (K 0)) (pEQ (C3 mod C0) (K 0))) (pLT (C1 * K (int l - 1)) C0)) (pGE (C1 * K (int l - 1)) (K 0)))))"
  by (rule rule_okI, simp (no_asm_use) add: rule_eval, elim conjE, (thin_tac "_ \<longrightarrow> _")+,
      simp only: kwrap_noovf pos_div ramp_block_less [where l = "int l"]
        ramp_block_less_0 [where l = "int l"] simp_thms)

lemma lt_const_ok: "list_all (rule_ok l) (lt_const l)"
  unfolding lt_const_def
  by (intro list_all_intros; (rule rule_okI; auto simp: rule_eval min_def max_def algebra_simps))

lemma lt_extreme_ok: "list_all (rule_ok_on range_scope l) (lt_extreme l)"
  unfolding lt_extreme_def
  by (intro list_all_intros; (rule lt_rule_3 lt_rule_4))

lemma lt_self_ok: "list_all (rule_ok l) (lt_self l)"
  unfolding lt_self_def
  by (intro list_all_intros; (rule rule_okI; auto simp: rule_eval min_def max_def algebra_simps))

lemma lt_ramp_ok: "list_all (rule_ok l) (lt_ramp l)"
  unfolding lt_ramp_def
  by (intro list_all_intros; (rule rule_okI; auto simp: rule_eval min_def max_def algebra_simps))

lemma lt_difference_ok: "list_all (rule_ok l) (lt_difference l)"
  unfolding lt_difference_def
  by (intro list_all_intros; (rule rule_okI; auto simp: rule_eval min_def max_def algebra_simps))

lemma lt_cancel_ok: "list_all (rule_ok l) (lt_cancel l)"
  unfolding lt_cancel_def
  by (intro list_all_intros; (rule rule_okI; auto simp: rule_eval min_def max_def algebra_simps))

lemma lt_cancel_sum_ok: "list_all (rule_ok l) (lt_cancel_sum l)"
  unfolding lt_cancel_sum_def
  by (intro list_all_intros; (rule rule_okI; auto simp: rule_eval min_def max_def algebra_simps))

lemma lt_scale_ok: "list_all (rule_ok l) (lt_scale l)"
  unfolding lt_scale_def
  by (intro list_all_intros; ((rule rule_okI; auto simp: rule_eval min_def max_def algebra_simps; fail)
      | (rule rule_okI; auto simp: rule_eval pos_div mult_less_iff; fail)
      | (rule rule_okI; auto simp: rule_eval pos_div div_less_iff)))

lemma lt_minmax_ok: "list_all (rule_ok l) (lt_minmax l)"
  unfolding lt_minmax_def
  by (intro list_all_intros; (rule rule_okI; auto simp: rule_eval min_def max_def algebra_simps))

lemma lt_select_ok: "list_all (rule_ok l) (lt_select l)"
  unfolding lt_select_def
  by (intro list_all_intros; (rule rule_okI; auto simp: rule_eval min_def max_def algebra_simps))

lemma lt_linear_ok: "list_all (rule_ok l) (lt_linear l)"
  unfolding lt_linear_def
  by (intro list_all_intros; ((rule rule_okI; auto simp: rule_eval min_def max_def algebra_simps; fail)
      | (rule rule_okI; auto simp: rule_eval pos_div div_less_iff; fail)
      | (rule rule_okI; auto simp: rule_eval pos_div mult_less_iff)))

lemma lt_stair_ok: "list_all (rule_ok l) (lt_stair l)"
  unfolding lt_stair_def
  by (intro list_all_intros; ((rule lt_rule_166)
      | (rule rule_okI; auto simp: rule_eval rule_ediv algebra_simps; fail)
      | (rule rule_okI; auto simp: rule_eval pos_div mult_less_iff)))

lemma lt_div_div_ok: "list_all (rule_ok l) (lt_div_div l)"
  unfolding lt_div_div_def
  by (intro list_all_intros; (rule rule_okI; auto simp: rule_eval pos_div rule_less))

lemma lt_minmax_div_ok: "list_all (rule_ok l) (lt_minmax_div l)"
  unfolding lt_minmax_div_def
  by (intro list_all_intros; (rule rule_okI; auto simp: rule_eval pos_div rule_less))

lemma lt_min_const_ok: "list_all (rule_ok l) (lt_min_const l)"
  unfolding lt_min_const_def
  by (intro list_all_intros; (rule rule_okI; auto simp: rule_eval min_def max_def algebra_simps))

lemma lt_min_sum_ok: "list_all (rule_ok_on no_raise_scope l) (lt_min_sum l)"
  unfolding lt_min_sum_def
  by (intro list_all_intros; (rule lt_rule_209))

lemma lt_max_const_ok: "list_all (rule_ok l) (lt_max_const l)"
  unfolding lt_max_const_def
  by (intro list_all_intros; (rule rule_okI; auto simp: rule_eval min_def max_def algebra_simps))

lemma lt_max_sum_ok: "list_all (rule_ok_on no_raise_scope l) (lt_max_sum l)"
  unfolding lt_max_sum_def
  by (intro list_all_intros; (rule lt_rule_211))

lemma lt_block_ok: "list_all (rule_ok l) (lt_block l)"
  unfolding lt_block_def
  by (intro list_all_intros; (rule lt_rule_212 lt_rule_213))

lemmas lt_ok = lt_const_ok lt_self_ok lt_ramp_ok lt_difference_ok lt_cancel_ok lt_cancel_sum_ok lt_scale_ok
  lt_minmax_ok lt_select_ok lt_linear_ok lt_stair_ok lt_div_div_ok lt_minmax_div_ok lt_min_const_ok
  lt_max_const_ok lt_block_ok

end
