(* ===== verification/RulesBool.thy ===== *)
theory RulesBool
  imports RuleProof
begin

text \<open>
  The rules of \<open>Simplify_And.cpp\<close>, \<open>Simplify_Or.cpp\<close> and \<open>Simplify_Not.cpp\<close>, in the order the code tries
  them. The rules of the \<open>_result\<close> tables give the result of the visit, those of the \<open>_mutate\<close> tables an
  expression that is simplified again.
\<close>

subsection \<open>Conjunctions\<close>

definition and_absorb :: "nat \<Rightarrow> rule list" where
  "and_absorb l =
    [Rule GAll (pAnd X (K 1)) (AExprA) None,
     Rule GAll (pAnd X (K 0)) (AExprB) None,
     Rule GAll (pAnd X X) (AExprA) None,
     Rule GAll (pAnd (pAnd X Y) X) (AExprA) None,
     Rule GAll (pAnd X (pAnd X Y)) (AExprB) None,
     Rule GAll (pAnd (pAnd X Y) Y) (AExprA) None,
     Rule GAll (pAnd Y (pAnd X Y)) (AExprB) None,
     Rule GAll (pAnd (pAnd (pAnd X Y) Z) X) (AExprA) None,
     Rule GAll (pAnd X (pAnd (pAnd X Y) Z)) (AExprB) None,
     Rule GAll (pAnd (pAnd Z (pAnd X Y)) X) (AExprA) None,
     Rule GAll (pAnd X (pAnd Z (pAnd X Y))) (AExprB) None,
     Rule GAll (pAnd (pAnd (pAnd X Y) Z) Y) (AExprA) None,
     Rule GAll (pAnd Y (pAnd (pAnd X Y) Z)) (AExprB) None,
     Rule GAll (pAnd (pAnd Z (pAnd X Y)) Y) (AExprA) None,
     Rule GAll (pAnd Y (pAnd Z (pAnd X Y))) (AExprB) None,
     Rule GAll (pAnd (pOr X Y) X) (AExprB) None,
     Rule GAll (pAnd X (pOr X Y)) (AExprA) None,
     Rule GAll (pAnd (pOr X Y) Y) (AExprB) None,
     Rule GAll (pAnd Y (pOr X Y)) (AExprA) None]"

definition and_contradiction :: "nat \<Rightarrow> rule list" where
  "and_contradiction l =
    [Rule GAll (pAnd (pNE X Y) (pEQ X Y)) (AInt 0) None,
     Rule GAll (pAnd (pNE X Y) (pEQ Y X)) (AInt 0) None,
     Rule GAll (pAnd (pAnd Z (pNE X Y)) (pEQ X Y)) (AInt 0) None,
     Rule GAll (pAnd (pAnd Z (pNE X Y)) (pEQ Y X)) (AInt 0) None,
     Rule GAll (pAnd (pAnd (pNE X Y) Z) (pEQ X Y)) (AInt 0) None,
     Rule GAll (pAnd (pAnd (pNE X Y) Z) (pEQ Y X)) (AInt 0) None,
     Rule GAll (pAnd (pAnd Z (pEQ X Y)) (pNE X Y)) (AInt 0) None,
     Rule GAll (pAnd (pAnd Z (pEQ X Y)) (pNE Y X)) (AInt 0) None,
     Rule GAll (pAnd (pAnd (pEQ X Y) Z) (pNE X Y)) (AInt 0) None,
     Rule GAll (pAnd (pAnd (pEQ X Y) Z) (pNE Y X)) (AInt 0) None,
     Rule GAll (pAnd X (PNot X)) (AInt 0) None,
     Rule GAll (pAnd (PNot X) X) (AInt 0) None,
     Rule GAll (pAnd (pLE Y X) (pLT X Y)) (AInt 0) None,
     Rule GAll (pAnd (pNE X C0) (pEQ X C1)) (AExprB) (Some (pNE C0 C1))]"

definition and_interval :: "nat \<Rightarrow> rule list" where
  "and_interval l =
    [Rule GAll (pAnd (pLT C0 X) (pLT X C1)) (AInt 0) (Some (pAnd (PNot (PIsFloat X)) (pLE C1 (C0 + K 1)))),
     Rule GAll (pAnd (pLT X C1) (pLT C0 X)) (AInt 0) (Some (pAnd (PNot (PIsFloat X)) (pLE C1 (C0 + K 1)))),
     Rule GAll (pAnd (pLE X C1) (pLT C0 X)) (AInt 0) (Some (pLE C1 C0)),
     Rule GAll (pAnd (pLE C0 X) (pLT X C1)) (AInt 0) (Some (pLE C1 C0)),
     Rule GAll (pAnd (pLE C0 X) (pLE X C1)) (AInt 0) (Some (pLT C1 C0)),
     Rule GAll (pAnd (pLE X C1) (pLE C0 X)) (AInt 0) (Some (pLT C1 C0)),
     Rule GAll (pAnd (pLT C0 X) (pLT C1 X)) (APat (pLT (PFold (pMax C0 C1)) X)) None,
     Rule GAll (pAnd (pLE C0 X) (pLE C1 X)) (APat (pLE (PFold (pMax C0 C1)) X)) None,
     Rule GAll (pAnd (pLT X C0) (pLT X C1)) (APat (pLT X (PFold (pMin C0 C1)))) None,
     Rule GAll (pAnd (pLE X C0) (pLE X C1)) (APat (pLE X (PFold (pMin C0 C1)))) None]"

definition and_mutate :: "nat \<Rightarrow> rule list" where
  "and_mutate l =
    [Rule GAll (pAnd (PBroadcast X None) (PBroadcast Y None)) (APat (PBroadcast (pAnd X Y) (Some l))) None,
     Rule GAll (pAnd (pOr X (pAnd Y Z)) Y) (APat (pAnd (pOr X Z) Y)) None,
     Rule GAll (pAnd (pOr X (pAnd Z Y)) Y) (APat (pAnd (pOr X Z) Y)) None,
     Rule GAll (pAnd Y (pOr X (pAnd Y Z))) (APat (pAnd Y (pOr X Z))) None,
     Rule GAll (pAnd Y (pOr X (pAnd Z Y))) (APat (pAnd Y (pOr X Z))) None,
     Rule GAll (pAnd (pOr (pAnd Y Z) X) Y) (APat (pAnd (pOr Z X) Y)) None,
     Rule GAll (pAnd (pOr (pAnd Z Y) X) Y) (APat (pAnd (pOr Z X) Y)) None,
     Rule GAll (pAnd Y (pOr (pAnd Y Z) X)) (APat (pAnd Y (pOr Z X))) None,
     Rule GAll (pAnd Y (pOr (pAnd Z Y) X)) (APat (pAnd Y (pOr Z X))) None,
     Rule GAll (pAnd (pAnd X (pOr Y Z)) Y) (APat (pAnd X Y)) None,
     Rule GAll (pAnd (pAnd X (pOr Z Y)) Y) (APat (pAnd X Y)) None,
     Rule GAll (pAnd Y (pAnd X (pOr Y Z))) (APat (pAnd Y X)) None,
     Rule GAll (pAnd Y (pAnd X (pOr Z Y))) (APat (pAnd Y X)) None,
     Rule GAll (pAnd (pAnd (pOr Y Z) X) Y) (APat (pAnd X Y)) None,
     Rule GAll (pAnd (pAnd (pOr Z Y) X) Y) (APat (pAnd X Y)) None,
     Rule GAll (pAnd Y (pAnd (pOr Y Z) X)) (APat (pAnd Y X)) None,
     Rule GAll (pAnd Y (pAnd (pOr Z Y) X)) (APat (pAnd Y X)) None,
     Rule GAll (pAnd (pOr X Y) (pOr X Z)) (APat (pOr X (pAnd Y Z))) None,
     Rule GAll (pAnd (pOr X Y) (pOr Z X)) (APat (pOr X (pAnd Y Z))) None,
     Rule GAll (pAnd (pOr Y X) (pOr X Z)) (APat (pOr X (pAnd Y Z))) None,
     Rule GAll (pAnd (pOr Y X) (pOr Z X)) (APat (pOr X (pAnd Y Z))) None,
     Rule GAll (pAnd (pLT X Y) (pLT X Z)) (APat (pLT X (pMin Y Z))) None,
     Rule GAll (pAnd (pLT Y X) (pLT Z X)) (APat (pLT (pMax Y Z) X)) None,
     Rule GAll (pAnd (pLE X Y) (pLE X Z)) (APat (pLE X (pMin Y Z))) None,
     Rule GAll (pAnd (pLE Y X) (pLE Z X)) (APat (pLE (pMax Y Z) X)) None]"

definition and_result :: "nat \<Rightarrow> rule list" where
  "and_result l = and_absorb l @ and_contradiction l @ and_interval l"


subsection \<open>Disjunctions\<close>

definition or_absorb :: "nat \<Rightarrow> rule list" where
  "or_absorb l =
    [Rule GAll (pOr X (K 1)) (AExprB) None,
     Rule GAll (pOr X (K 0)) (AExprA) None,
     Rule GAll (pOr X X) (AExprA) None,
     Rule GAll (pOr (pOr X Y) X) (AExprA) None,
     Rule GAll (pOr X (pOr X Y)) (AExprB) None,
     Rule GAll (pOr (pOr X Y) Y) (AExprA) None,
     Rule GAll (pOr Y (pOr X Y)) (AExprB) None,
     Rule GAll (pOr (pOr (pOr X Y) Z) X) (AExprA) None,
     Rule GAll (pOr X (pOr (pOr X Y) Z)) (AExprB) None,
     Rule GAll (pOr (pOr Z (pOr X Y)) X) (AExprA) None,
     Rule GAll (pOr X (pOr Z (pOr X Y))) (AExprB) None,
     Rule GAll (pOr (pOr (pOr X Y) Z) Y) (AExprA) None,
     Rule GAll (pOr Y (pOr (pOr X Y) Z)) (AExprB) None,
     Rule GAll (pOr (pOr Z (pOr X Y)) Y) (AExprA) None,
     Rule GAll (pOr Y (pOr Z (pOr X Y))) (AExprB) None,
     Rule GAll (pOr (pAnd X Y) X) (AExprB) None,
     Rule GAll (pOr X (pAnd X Y)) (AExprA) None,
     Rule GAll (pOr (pAnd X Y) Y) (AExprB) None,
     Rule GAll (pOr Y (pAnd X Y)) (AExprA) None,
     Rule GAll (pOr (pOr (pOr X Y) Z) X) (AExprA) None,
     Rule GAll (pOr X (pOr (pOr X Y) Z)) (AExprB) None,
     Rule GAll (pOr (pOr Z (pOr X Y)) X) (AExprA) None,
     Rule GAll (pOr X (pOr Z (pOr X Y))) (AExprB) None,
     Rule GAll (pOr (pOr (pOr X Y) Z) Y) (AExprA) None,
     Rule GAll (pOr Y (pOr (pOr X Y) Z)) (AExprB) None,
     Rule GAll (pOr (pOr Z (pOr X Y)) Y) (AExprA) None,
     Rule GAll (pOr Y (pOr Z (pOr X Y))) (AExprB) None]"

definition or_tautology :: "nat \<Rightarrow> rule list" where
  "or_tautology l =
    [Rule GAll (pOr (pNE X Y) (pEQ X Y)) (AInt 1) None,
     Rule GAll (pOr (pNE X Y) (pEQ Y X)) (AInt 1) None,
     Rule GAll (pOr (pOr Z (pNE X Y)) (pEQ X Y)) (AInt 1) None,
     Rule GAll (pOr (pOr Z (pNE X Y)) (pEQ Y X)) (AInt 1) None,
     Rule GAll (pOr (pOr (pNE X Y) Z) (pEQ X Y)) (AInt 1) None,
     Rule GAll (pOr (pOr (pNE X Y) Z) (pEQ Y X)) (AInt 1) None,
     Rule GAll (pOr (pOr Z (pEQ X Y)) (pNE X Y)) (AInt 1) None,
     Rule GAll (pOr (pOr Z (pEQ X Y)) (pNE Y X)) (AInt 1) None,
     Rule GAll (pOr (pOr (pEQ X Y) Z) (pNE X Y)) (AInt 1) None,
     Rule GAll (pOr (pOr (pEQ X Y) Z) (pNE Y X)) (AInt 1) None,
     Rule GAll (pOr X (PNot X)) (AInt 1) None,
     Rule GAll (pOr (PNot X) X) (AInt 1) None,
     Rule GAll (pOr (pLE Y X) (pLT X Y)) (AInt 1) None,
     Rule GAll (pOr (pNE X C0) (pEQ X C1)) (AExprA) (Some (pNE C0 C1))]"

definition or_interval :: "nat \<Rightarrow> rule list" where
  "or_interval l =
    [Rule GAll (pOr (pLE X C0) (pLE C1 X)) (AInt 1) (Some (pAnd (PNot (PIsFloat X)) (pLE C1 (C0 + K 1)))),
     Rule GAll (pOr (pLE C1 X) (pLE X C0)) (AInt 1) (Some (pAnd (PNot (PIsFloat X)) (pLE C1 (C0 + K 1)))),
     Rule GAll (pOr (pLE X C0) (pLT C1 X)) (AInt 1) (Some (pLE C1 C0)),
     Rule GAll (pOr (pLE C1 X) (pLT X C0)) (AInt 1) (Some (pLE C1 C0)),
     Rule GAll (pOr (pLT X C0) (pLT C1 X)) (AInt 1) (Some (pLT C1 C0)),
     Rule GAll (pOr (pLT C1 X) (pLT X C0)) (AInt 1) (Some (pLT C1 C0)),
     Rule GAll (pOr (pLT C0 X) (pLT C1 X)) (APat (pLT (PFold (pMin C0 C1)) X)) None,
     Rule GAll (pOr (pLE C0 X) (pLE C1 X)) (APat (pLE (PFold (pMin C0 C1)) X)) None,
     Rule GAll (pOr (pLT X C0) (pLT X C1)) (APat (pLT X (PFold (pMax C0 C1)))) None,
     Rule GAll (pOr (pLE X C0) (pLE X C1)) (APat (pLE X (PFold (pMax C0 C1)))) None]"

definition or_mutate :: "nat \<Rightarrow> rule list" where
  "or_mutate l =
    [Rule GAll (pOr (PBroadcast X None) (PBroadcast Y None)) (APat (PBroadcast (pOr X Y) (Some l))) None,
     Rule GAll (pOr (pAnd X (pOr Y Z)) Y) (APat (pOr (pAnd X Z) Y)) None,
     Rule GAll (pOr (pAnd X (pOr Z Y)) Y) (APat (pOr (pAnd X Z) Y)) None,
     Rule GAll (pOr Y (pAnd X (pOr Y Z))) (APat (pOr Y (pAnd X Z))) None,
     Rule GAll (pOr Y (pAnd X (pOr Z Y))) (APat (pOr Y (pAnd X Z))) None,
     Rule GAll (pOr (pAnd (pOr Y Z) X) Y) (APat (pOr (pAnd Z X) Y)) None,
     Rule GAll (pOr (pAnd (pOr Z Y) X) Y) (APat (pOr (pAnd Z X) Y)) None,
     Rule GAll (pOr Y (pAnd (pOr Y Z) X)) (APat (pOr Y (pAnd Z X))) None,
     Rule GAll (pOr Y (pAnd (pOr Z Y) X)) (APat (pOr Y (pAnd Z X))) None,
     Rule GAll (pOr (pOr X (pAnd Y Z)) Y) (APat (pOr X Y)) None,
     Rule GAll (pOr (pOr X (pAnd Z Y)) Y) (APat (pOr X Y)) None,
     Rule GAll (pOr Y (pOr X (pAnd Y Z))) (APat (pOr Y X)) None,
     Rule GAll (pOr Y (pOr X (pAnd Z Y))) (APat (pOr Y X)) None,
     Rule GAll (pOr (pOr (pAnd Y Z) X) Y) (APat (pOr X Y)) None,
     Rule GAll (pOr (pOr (pAnd Z Y) X) Y) (APat (pOr X Y)) None,
     Rule GAll (pOr Y (pOr (pAnd Y Z) X)) (APat (pOr Y X)) None,
     Rule GAll (pOr Y (pOr (pAnd Z Y) X)) (APat (pOr Y X)) None,
     Rule GAll (pOr (pAnd X Y) (pAnd X Z)) (APat (pAnd X (pOr Y Z))) None,
     Rule GAll (pOr (pAnd X Y) (pAnd Z X)) (APat (pAnd X (pOr Y Z))) None,
     Rule GAll (pOr (pAnd Y X) (pAnd X Z)) (APat (pAnd X (pOr Y Z))) None,
     Rule GAll (pOr (pAnd Y X) (pAnd Z X)) (APat (pAnd X (pOr Y Z))) None,
     Rule GAll (pOr (pLT X Y) (pLT X Z)) (APat (pLT X (pMax Y Z))) None,
     Rule GAll (pOr (pLT Y X) (pLT Z X)) (APat (pLT (pMin Y Z) X)) None,
     Rule GAll (pOr (pLE X Y) (pLE X Z)) (APat (pLE X (pMax Y Z))) None,
     Rule GAll (pOr (pLE Y X) (pLE Z X)) (APat (pLE (pMin Y Z) X)) None]"

definition or_result :: "nat \<Rightarrow> rule list" where
  "or_result l = or_absorb l @ or_tautology l @ or_interval l"


subsection \<open>Negations\<close>

definition not_result :: "nat \<Rightarrow> rule list" where
  "not_result l =
    [Rule GAll (PNot C0) (APat (PFold (PNot C0))) None,
     Rule GAll (PNot (pLT X Y)) (APat (pLE Y X)) None,
     Rule GAll (PNot (pLE X Y)) (APat (pLT Y X)) None,
     Rule GAll (PNot (pGT X Y)) (APat (pGE Y X)) None,
     Rule GAll (PNot (pGE X Y)) (APat (pGT Y X)) None,
     Rule GAll (PNot (pEQ X Y)) (APat (pNE X Y)) None,
     Rule GAll (PNot (pNE X Y)) (APat (pEQ X Y)) None,
     Rule GAll (PNot (PNot X)) (APat X) None]"

definition not_mutate :: "nat \<Rightarrow> rule list" where
  "not_mutate l =
    [Rule GAll (PNot (PBroadcast X None)) (APat (PBroadcast (PNot X) (Some l))) None,
     Rule GAll (PNot (PIntrin ''likely'' [X])) (APat (PIntrin ''likely'' [PNot X])) None,
     Rule GAll (PNot (PIntrin ''likely_if_innermost'' [X])) (APat (PIntrin ''likely_if_innermost'' [PNot X])) None]"

subsection \<open>Correctness\<close>

lemma and_rule_34: "rule_ok l (Rule GAll (pAnd (pLT C0 X) (pLT X C1)) (AInt 0) (Some (pAnd (PNot (PIsFloat X)) (pLE C1 (C0 + K 1)))))"
  by (rule rule_okI; auto simp: rule_eval; metis kwrap_gap not_le)

lemma and_rule_35: "rule_ok l (Rule GAll (pAnd (pLT X C1) (pLT C0 X)) (AInt 0) (Some (pAnd (PNot (PIsFloat X)) (pLE C1 (C0 + K 1)))))"
  by (rule rule_okI; auto simp: rule_eval; metis kwrap_gap not_le)

lemma and_absorb_ok: "list_all (rule_ok l) (and_absorb l)"
  unfolding and_absorb_def
  by (intro list_all_intros; (rule rule_okI; auto simp: rule_eval intro!: rule_intros; simp add: algebra_simps))

lemma and_contradiction_ok: "list_all (rule_ok l) (and_contradiction l)"
  unfolding and_contradiction_def
  by (intro list_all_intros; ((rule rule_okI; simp (no_asm_use) add: rule_eval; elim conjE; thin_tac "cx_wk _ 0 = cx_wk _ (Suc 0)"; auto simp: rule_eval; fail)
      | (rule rule_okI; auto simp: rule_eval intro!: rule_intros; simp add: algebra_simps)))

lemma and_interval_ok: "list_all (rule_ok l) (and_interval l)"
  unfolding and_interval_def
  by (intro list_all_intros; ((rule and_rule_34 and_rule_35)
      | (rule rule_okI; auto simp: rule_eval intro!: rule_intros; simp add: algebra_simps)))

lemma and_mutate_ok: "list_all (rule_ok l) (and_mutate l)"
  unfolding and_mutate_def
  by (intro list_all_intros; (rule rule_okI; auto simp: rule_eval intro!: rule_intros; simp add: algebra_simps))

lemma or_rule_42: "rule_ok l (Rule GAll (pOr (pLE X C0) (pLE C1 X)) (AInt 1) (Some (pAnd (PNot (PIsFloat X)) (pLE C1 (C0 + K 1)))))"
  by (rule rule_okI; auto simp: rule_eval; metis kwrap_gap not_le)

lemma or_rule_43: "rule_ok l (Rule GAll (pOr (pLE C1 X) (pLE X C0)) (AInt 1) (Some (pAnd (PNot (PIsFloat X)) (pLE C1 (C0 + K 1)))))"
  by (rule rule_okI; auto simp: rule_eval; metis kwrap_gap not_le)

lemma or_absorb_ok: "list_all (rule_ok l) (or_absorb l)"
  unfolding or_absorb_def
  by (intro list_all_intros; (rule rule_okI; auto simp: rule_eval intro!: rule_intros; simp add: algebra_simps))

lemma or_tautology_ok: "list_all (rule_ok l) (or_tautology l)"
  unfolding or_tautology_def
  by (intro list_all_intros; ((rule rule_okI; simp (no_asm_use) add: rule_eval; elim conjE; thin_tac "cx_wk _ 0 = cx_wk _ (Suc 0)"; auto simp: rule_eval; fail)
      | (rule rule_okI; auto simp: rule_eval intro!: rule_intros; simp add: algebra_simps)))

lemma or_interval_ok: "list_all (rule_ok l) (or_interval l)"
  unfolding or_interval_def
  by (intro list_all_intros; ((rule or_rule_42 or_rule_43)
      | (rule rule_okI; auto simp: rule_eval intro!: rule_intros; simp add: algebra_simps)))

lemma or_mutate_ok: "list_all (rule_ok l) (or_mutate l)"
  unfolding or_mutate_def
  by (intro list_all_intros; (rule rule_okI; auto simp: rule_eval intro!: rule_intros; simp add: algebra_simps))

lemma not_result_ok: "list_all (rule_ok l) (not_result l)"
  unfolding not_result_def
  by (intro list_all_intros; (rule rule_okI; auto simp: rule_eval intro!: rule_intros; simp add: algebra_simps))

lemma not_mutate_ok: "list_all (rule_ok l) (not_mutate l)"
  unfolding not_mutate_def
  by (intro list_all_intros; (rule rule_okI; auto simp: rule_eval intro!: rule_intros; simp add: algebra_simps))

lemmas bool_ok = and_absorb_ok and_contradiction_ok and_interval_ok and_mutate_ok or_absorb_ok
  or_tautology_ok or_interval_ok or_mutate_ok not_result_ok not_mutate_ok

text \<open>
  C17. Every rule of \<open>Simplify_And.cpp\<close>, \<open>Simplify_Or.cpp\<close> and \<open>Simplify_Not.cpp\<close> is correct for every
  number of lanes, whatever the integer type of the comparisons inside.
\<close>

theorem bool_rules_correct:
  "list_all (rule_ok l) (and_result l @ and_mutate l @ or_result l @ or_mutate l @
     not_result l @ not_mutate l)"
  by (simp add: and_result_def or_result_def bool_ok)

end
