(* ===== verification/RulesSelect.thy ===== *)
theory RulesSelect
  imports RuleProof
begin

text \<open>
  The rules of \<open>Simplify_Select.cpp\<close> and of the equality part of \<open>Simplify_EQ.cpp\<close>, in the order the
  code tries them. A visit of an equality first moves everything to one side, so its rules rewrite
  \<open>delta == 0\<close>; the rules of \<open>eq_shifted\<close> hold only where the arithmetic does not wrap around.
\<close>

subsection \<open>Selections\<close>

definition select_result :: "nat \<Rightarrow> rule list" where
  "select_result l =
    [Rule GAll (PSelect (PIntrin ''likely'' [K 1]) X Y) (APat X) None,
     Rule GAll (PSelect (PIntrin ''likely'' [K 0]) X Y) (APat Y) None,
     Rule GAll (PSelect (PIntrin ''likely_if_innermost'' [K 1]) X Y) (APat X) None,
     Rule GAll (PSelect (PIntrin ''likely_if_innermost'' [K 0]) X Y) (APat Y) None,
     Rule GAll (PSelect (K 1) X Y) (APat X) None,
     Rule GAll (PSelect (K 0) X Y) (APat Y) None,
     Rule GAll (PSelect X Y Y) (APat Y) None,
     Rule GAll (PSelect X (PIntrin ''likely'' [Y]) Y) (AExprA) None,
     Rule GAll (PSelect X Y (PIntrin ''likely'' [Y])) (AExprB) None,
     Rule GAll (PSelect X (PIntrin ''likely_if_innermost'' [Y]) Y) (AExprA) None,
     Rule GAll (PSelect X Y (PIntrin ''likely_if_innermost'' [Y])) (AExprB) None,
     Rule GAll (PSelect X Y PIndeterminate) (APat Y) None,
     Rule GAll (PSelect X PIndeterminate Y) (APat Y) None]"

definition select_nested :: "nat \<Rightarrow> rule list" where
  "select_nested l =
    [Rule GAll (PSelect (PBroadcast X None) Y Z) (APat (PSelect X Y Z)) None,
     Rule GAll (PSelect (pNE X Y) Z W) (APat (PSelect (pEQ X Y) W Z)) None,
     Rule GAll (PSelect (pLE X Y) Z W) (APat (PSelect (pLT Y X) W Z)) None,
     Rule GAll (PSelect X (PSelect Y Z W) Z) (APat (PSelect (pAnd X (PNot Y)) W Z)) None,
     Rule GAll (PSelect X (PSelect Y Z W) W) (APat (PSelect (pAnd X Y) Z W)) None,
     Rule GAll (PSelect X Y (PSelect Z Y W)) (APat (PSelect (pOr X Z) Y W)) None,
     Rule GAll (PSelect X Y (PSelect Z W Y)) (APat (PSelect (pOr X (PNot Z)) Y W)) None,
     Rule GAll (PSelect X (PSelect X Y Z) W) (APat (PSelect X Y W)) None,
     Rule GAll (PSelect X Y (PSelect X Z W)) (APat (PSelect X Y W)) None]"

definition select_common :: "nat \<Rightarrow> rule list" where
  "select_common l =
    [Rule GAll (PSelect X (Y + Z) (Y + W)) (APat (Y + PSelect X Z W)) None,
     Rule GAll (PSelect X (Y + Z) (W + Y)) (APat (Y + PSelect X Z W)) None,
     Rule GAll (PSelect X (Z + Y) (Y + W)) (APat (Y + PSelect X Z W)) None,
     Rule GAll (PSelect X (Z + Y) (W + Y)) (APat (PSelect X Z W + Y)) None,
     Rule GAll (PSelect X (Y - Z) (Y - W)) (APat (Y - PSelect X Z W)) None,
     Rule GAll (PSelect X (Y - Z) (Y + W)) (APat (Y + PSelect X (- Z) W)) None,
     Rule GAll (PSelect X (Y + Z) (Y - W)) (APat (Y + PSelect X Z (- W))) None,
     Rule GAll (PSelect X (Y - Z) (W + Y)) (APat (Y + PSelect X (- Z) W)) None,
     Rule GAll (PSelect X (Z + Y) (Y - W)) (APat (Y + PSelect X Z (- W))) None,
     Rule GAll (PSelect X (Z - Y) (W - Y)) (APat (PSelect X Z W - Y)) None,
     Rule GAll (PSelect X (Y * Z) (Y * W)) (APat (Y * PSelect X Z W)) None,
     Rule GAll (PSelect X (Y * Z) (W * Y)) (APat (Y * PSelect X Z W)) None,
     Rule GAll (PSelect X (Z * Y) (Y * W)) (APat (Y * PSelect X Z W)) None,
     Rule GAll (PSelect X (Z * Y) (W * Y)) (APat (PSelect X Z W * Y)) None,
     Rule GAll (PSelect X (Z div Y) (W div Y)) (APat (PSelect X Z W div Y)) None,
     Rule GAll (PSelect X (Z mod Y) (W mod Y)) (APat (PSelect X Z W mod Y)) None,
     Rule GAll (PSelect (pLT X Y) X Y) (APat (pMin X Y)) None,
     Rule GAll (PSelect (pLT X Y) Y X) (APat (pMax X Y)) None]"

definition select_no_overflow_int :: "nat \<Rightarrow> rule list" where
  "select_no_overflow_int l =
    [Rule GNoOvfInt (PSelect X (Y * C0) C1) (APat (PSelect X Y (PFold (C1 div C0)) * C0)) (Some (pEQ (C1 mod C0) (K 0))),
     Rule GNoOvfInt (PSelect X C0 (Y * C1)) (APat (PSelect X (PFold (C0 div C1)) Y * C1)) (Some (pEQ (C0 mod C1) (K 0))),
     Rule GNoOvfInt (PSelect (pLT C0 X) (X + C1) C2) (APat (pMax (X + C1) C2)) (Some (pOr (pEQ C2 (C0 + C1)) (pEQ C2 ((C0 + C1) + K 1)))),
     Rule GNoOvfInt (PSelect (pLT X C0) C1 (X + C2)) (APat (pMax (X + C2) C1)) (Some (pOr (pEQ C1 (C0 + C2)) (pEQ (C1 + K 1) (C0 + C2)))),
     Rule GNoOvfInt (PSelect (pLT C0 X) C1 (X + C2)) (APat (pMin (X + C2) C1)) (Some (pOr (pEQ C1 (C0 + C2)) (pEQ C1 ((C0 + C2) + K 1)))),
     Rule GNoOvfInt (PSelect (pLT X C0) (X + C1) C2) (APat (pMin (X + C1) C2)) (Some (pOr (pEQ C2 (C0 + C1)) (pEQ (C2 + K 1) (C0 + C1)))),
     Rule GNoOvfInt (PSelect (pLT C0 X) X C1) (APat (pMax X C1)) (Some (pEQ C1 (C0 + K 1))),
     Rule GNoOvfInt (PSelect (pLT X C0) C1 X) (APat (pMax X C1)) (Some (pEQ (C1 + K 1) C0)),
     Rule GNoOvfInt (PSelect (pLT C0 X) C1 X) (APat (pMin X C1)) (Some (pEQ C1 (C0 + K 1))),
     Rule GNoOvfInt (PSelect (pLT X C0) X C1) (APat (pMin X C1)) (Some (pEQ (C1 + K 1) C0))]"

definition select_bool :: "nat \<Rightarrow> rule list" where
  "select_bool l =
    [Rule GBool (PSelect X (K 1) (K 0)) (APat (PCastOut X)) None,
     Rule GBool (PSelect X (K 0) (K 1)) (APat (PCastOut (PNot X))) None,
     Rule GBool (PSelect X Y (K 0)) (APat (pAnd X Y)) None,
     Rule GBool (PSelect X Y (K 1)) (APat (pOr (PNot X) Y)) None,
     Rule GBool (PSelect X (K 0) Y) (APat (pAnd (PNot X) Y)) None,
     Rule GBool (PSelect X (K 1) Y) (APat (pOr X Y)) None]"

definition select_mutate :: "nat \<Rightarrow> rule list" where
  "select_mutate l = select_nested l @ select_common l @ select_no_overflow_int l @ select_bool l"


subsection \<open>Equalities\<close>

definition eq_bool :: "nat \<Rightarrow> rule list" where
  "eq_bool l =
    [Rule GBoolTy (pEQ X (K 1)) (APat X) None,
     Rule GBoolTy (pEQ X (K 0)) (APat (PNot X)) None,
     Rule GBoolTy (pEQ X X) (AInt 1) None]"

definition eq_zero :: "nat \<Rightarrow> rule list" where
  "eq_zero l =
    [Rule GAll (pEQ (PBroadcast X None) (K 0)) (APat (PBroadcast (pEQ X (K 0)) (Some l))) None,
     Rule GNoOvfTy (pEQ (X * Y) (K 0)) (APat (pOr (pEQ X (K 0)) (pEQ Y (K 0)))) None,
     Rule GAll (pEQ (PSelect X (K 0) Y) (K 0)) (APat (pOr X (pEQ Y (K 0)))) None,
     Rule GAll (pEQ (PSelect X C0 Y) (K 0)) (APat (pAnd (PNot X) (pEQ Y (K 0)))) (Some (pNE C0 (K 0))),
     Rule GAll (pEQ (PSelect X Y (K 0)) (K 0)) (APat (pOr (PNot X) (pEQ Y (K 0)))) None,
     Rule GAll (pEQ (PSelect X Y C0) (K 0)) (APat (pAnd X (pEQ Y (K 0)))) (Some (pNE C0 (K 0))),
     Rule GAll (pEQ (pMax X Y - Y) (K 0)) (APat (pLE X Y)) None,
     Rule GAll (pEQ (pMin X Y - Y) (K 0)) (APat (pLE Y X)) None,
     Rule GAll (pEQ (pMax Y X - Y) (K 0)) (APat (pLE X Y)) None,
     Rule GAll (pEQ (pMin Y X - Y) (K 0)) (APat (pLE Y X)) None,
     Rule GAll (pEQ (Y - pMax X Y) (K 0)) (APat (pLE X Y)) None,
     Rule GAll (pEQ (Y - pMin X Y) (K 0)) (APat (pLE Y X)) None,
     Rule GAll (pEQ (Y - pMax Y X) (K 0)) (APat (pLE X Y)) None,
     Rule GAll (pEQ (Y - pMin Y X) (K 0)) (APat (pLE Y X)) None]"

definition eq_shifted :: "nat \<Rightarrow> rule list" where
  "eq_shifted l =
    [Rule GAll (pEQ (pMax X C0 + C1) (K 0)) (APat (pEQ X (PFold (- C1)))) (Some (pLT (C0 + C1) (K 0))),
     Rule GAll (pEQ (pMin X C0 + C1) (K 0)) (APat (pEQ X (PFold (- C1)))) (Some (pGT (C0 + C1) (K 0)))]"

definition eq_minmax :: "nat \<Rightarrow> rule list" where
  "eq_minmax l =
    [Rule GAll (pEQ (pMax X C0 + C1) (K 0)) (APat (pLE X C0)) (Some (pEQ (C0 + C1) (K 0))),
     Rule GAll (pEQ (pMin X C0 + C1) (K 0)) (APat (pLE C0 X)) (Some (pEQ (C0 + C1) (K 0))),
     Rule GAll (pEQ (pMax X (K 0)) (K 0)) (APat (pLE X (K 0))) None,
     Rule GAll (pEQ (pMin X (K 0)) (K 0)) (APat (pLE (K 0) X)) None]"

definition eq_result :: "nat \<Rightarrow> rule list" where
  "eq_result l =
    [Rule GAll (pEQ C0 (K 0)) (APat (PFold (pEQ C0 (K 0)))) None,
     Rule GAll (pEQ ((X - Y) + C0) (K 0)) (APat (pEQ X (Y + PFold (- C0)))) None,
     Rule GAll (pEQ (X + C0) (K 0)) (APat (pEQ X (PFold (- C0)))) None,
     Rule GAll (pEQ (C0 - X) (K 0)) (APat (pEQ X C0)) None]"

definition eq_mutate :: "nat \<Rightarrow> rule list" where
  "eq_mutate l = eq_zero l @ eq_shifted l @ eq_minmax l"

subsection \<open>Correctness\<close>

lemma select_result_ok: "list_all (rule_ok l) (select_result l)"
  unfolding select_result_def
  by (intro list_all_intros; (rule rule_okI; auto simp: rule_eval intro!: rule_intros; simp add: algebra_simps))

lemma select_nested_ok: "list_all (rule_ok l) (select_nested l)"
  unfolding select_nested_def
  by (intro list_all_intros; (rule rule_okI; auto simp: rule_eval intro!: rule_intros; simp add: algebra_simps))

lemma select_common_ok: "list_all (rule_ok l) (select_common l)"
  unfolding select_common_def
  by (intro list_all_intros; (rule rule_okI; auto simp: rule_eval intro!: rule_intros; simp add: algebra_simps))

lemma select_no_overflow_int_ok: "list_all (rule_ok l) (select_no_overflow_int l)"
  unfolding select_no_overflow_int_def
  by (intro list_all_intros; (rule rule_okI; auto simp: rule_eval intro!: rule_intros; simp add: algebra_simps))

lemma select_bool_ok: "list_all (rule_ok l) (select_bool l)"
  unfolding select_bool_def
  by (intro list_all_intros; (rule rule_okI; auto simp: rule_eval intro!: rule_intros; simp add: algebra_simps))

lemma eq_rule_18: "rule_ok_on no_wrap_scope l (Rule GAll (pEQ (pMax X C0 + C1) (K 0)) (APat (pEQ X (PFold (- C1)))) (Some (pLT (C0 + C1) (K 0))))"
  by (rule rule_ok_onI; auto simp: rule_eval no_wrap_scope_def)

lemma eq_rule_19: "rule_ok_on no_wrap_scope l (Rule GAll (pEQ (pMin X C0 + C1) (K 0)) (APat (pEQ X (PFold (- C1)))) (Some (pGT (C0 + C1) (K 0))))"
  by (rule rule_ok_onI; auto simp: rule_eval no_wrap_scope_def)

lemma eq_rule_20: "rule_ok l (Rule GAll (pEQ (pMax X C0 + C1) (K 0)) (APat (pLE X C0)) (Some (pEQ (C0 + C1) (K 0))))"
  by (rule rule_okI; auto simp: rule_eval kwrap_add_eq_0 kwrap_min_max)

lemma eq_rule_21: "rule_ok l (Rule GAll (pEQ (pMin X C0 + C1) (K 0)) (APat (pLE C0 X)) (Some (pEQ (C0 + C1) (K 0))))"
  by (rule rule_okI; auto simp: rule_eval kwrap_add_eq_0 kwrap_min_max)

lemma eq_rule_25: "rule_ok l (Rule GAll (pEQ ((X - Y) + C0) (K 0)) (APat (pEQ X (Y + PFold (- C0)))) None)"
  by (rule rule_okI; auto simp: rule_eval kwrap_add_eq_0 kwrap_sum_eq_0)

lemma eq_rule_26: "rule_ok l (Rule GAll (pEQ (X + C0) (K 0)) (APat (pEQ X (PFold (- C0)))) None)"
  by (rule rule_okI; auto simp: rule_eval kwrap_add_eq_0 kwrap_sum_eq_0)

lemma eq_bool_ok: "list_all (rule_ok l) (eq_bool l)"
  unfolding eq_bool_def
  by (intro list_all_intros; (rule rule_okI; auto simp: rule_eval intro!: rule_intros; simp add: algebra_simps))

lemma eq_zero_ok: "list_all (rule_ok l) (eq_zero l)"
  unfolding eq_zero_def
  by (intro list_all_intros; (rule rule_okI; auto simp: rule_eval intro!: rule_intros; simp add: algebra_simps))

lemma eq_shifted_ok: "list_all (rule_ok_on no_wrap_scope l) (eq_shifted l)"
  unfolding eq_shifted_def
  by (intro list_all_intros; (rule eq_rule_18 eq_rule_19))

lemma eq_minmax_ok: "list_all (rule_ok l) (eq_minmax l)"
  unfolding eq_minmax_def
  by (intro list_all_intros; ((rule eq_rule_20 eq_rule_21)
      | (rule rule_okI; auto simp: rule_eval intro!: rule_intros; simp add: algebra_simps)))

lemma eq_result_ok: "list_all (rule_ok l) (eq_result l)"
  unfolding eq_result_def
  by (intro list_all_intros; ((rule eq_rule_25 eq_rule_26)
      | (rule rule_okI; auto simp: rule_eval intro!: rule_intros; simp add: algebra_simps)))

lemmas select_eq_ok = select_result_ok select_nested_ok select_common_ok select_no_overflow_int_ok
  select_bool_ok eq_bool_ok eq_zero_ok eq_minmax_ok eq_result_ok

text \<open>
  C18. The rules of \<open>Simplify_Select.cpp\<close> and of the equality part of \<open>Simplify_EQ.cpp\<close> are correct for
  every number of lanes and every integer type, except the two rules of \<open>eq_shifted\<close>, which are
  correct on the types that do not wrap around.
\<close>

theorem select_eq_rules_correct:
  "list_all (rule_ok l) (select_result l @ select_mutate l @ eq_bool l @ eq_zero l @ eq_minmax l @
     eq_result l) \<and>
   list_all (rule_ok_on no_wrap_scope l) (eq_shifted l)"
  by (simp add: select_mutate_def select_eq_ok eq_shifted_ok)

end
