(* ===== verification/SimplifyVisit.thy ===== *)
theory SimplifyVisit
  imports ScopedFact RulesArith RulesSub RulesDiv RulesMin RulesMax RulesLT RulesBool RulesSelect
begin

text \<open>
  The visit methods of the simplifier (\<open>Simplify_Add.cpp\<close> to \<open>Simplify_Select.cpp\<close>, \<open>Simplify_Exprs.cpp\<close>). A
  method visits the operands, combines what is known about them, takes the decisions that this allows,
  runs its rules with the engine, visits the result of a rule once more where the source does, and makes the
  node otherwise. The visit of an operand is a parameter, \<open>mut\<close>; \<open>mutate\<close> closes the recursion, with a bound on its
  depth. Two nodes that are the same object and two nodes that are equal are not told apart, and the type of a node
  is read off its visited operands: \<open>mutate\<close> keeps types.
\<close>

subsection \<open>Helpers\<close>

definition may_simplify :: "simplify_state \<Rightarrow> htype \<Rightarrow> bool" where
  "may_simplify s t \<longleftrightarrow> \<not> ss_no_float_simplify s \<or> \<not> is_float t"

definition should_commute :: "expr \<Rightarrow> expr \<Rightarrow> bool" where
  "should_commute a b =
     (if node_type a < node_type b then True
      else if node_type a > node_type b then False
      else case (a, b) of (Variable t n r, Variable t' n' r') \<Rightarrow> compare_names n n' = GreaterThan | _ \<Rightarrow> False)"

definition commuted :: "simplify_state \<Rightarrow> htype \<Rightarrow> expr \<Rightarrow> expr \<Rightarrow> expr \<times> expr" where
  "commuted s t a b = (if may_simplify s t \<and> should_commute a b then (b, a) else (a, b))"

definition known :: "expr_info option \<Rightarrow> expr_info" where
  "known i = (case i of Some i \<Rightarrow> i | None \<Rightarrow> no_info)"

definition visit_operands :: "mutator \<Rightarrow> expr \<Rightarrow> expr \<Rightarrow> simplify_state \<Rightarrow>
    (expr \<times> expr_info \<times> expr \<times> expr_info \<times> simplify_state) result" where
  "visit_operands mut a b s =
     rbind (mut a (Some no_info) s) (\<lambda>(a, ia, s).
     rbind (mut b (Some no_info) s) (\<lambda>(b, ib, s). Inr (a, known ia, b, known ib, s)))"

text \<open>The operands of a condition: nobody asks for their bounds.\<close>

definition visit_plain :: "mutator \<Rightarrow> expr \<Rightarrow> expr \<Rightarrow> simplify_state \<Rightarrow> (expr \<times> expr \<times> simplify_state) result" where
  "visit_plain mut a b s =
     rbind (mut a None s) (\<lambda>(a, _, s). rbind (mut b None s) (\<lambda>(b, _, s). Inr (a, b, s)))"

text \<open>A slice of a vector in both operands is taken of the result instead.\<close>

fun make_slices :: "binop \<Rightarrow> expr list \<Rightarrow> expr list \<Rightarrow> expr list result" where
  "make_slices op (a # as) (b # bs) = rbind (make_bin op a b) (\<lambda>e. rbind (make_slices op as bs) (\<lambda>es. Inr (e # es)))"
| "make_slices op as bs = Inr []"

definition hoist_slice_vector :: "binop \<Rightarrow> expr list \<Rightarrow> int list \<Rightarrow> expr list \<Rightarrow> int list \<Rightarrow> expr \<Rightarrow> expr result" where
  "hoist_slice_vector op va ia vb ib e =
     (if ia \<noteq> ib \<or> length va \<noteq> length vb \<or> list_ex (\<lambda>(a, b). type_neq (type_of a) (type_of b)) (zip va vb)
      then Inr e
      else rbind (make_slices op va vb) (\<lambda>vs. make_Shuffle vs ia))"

definition make_hoisted :: "binop \<Rightarrow> expr \<Rightarrow> expr \<Rightarrow> expr result" where
  "make_hoisted op a b = rbind (make_bin op a b) (\<lambda>e. case (a, b) of
       (Shuffle va ia, Shuffle vb ib) \<Rightarrow> if is_slice va ia \<and> is_slice vb ib then hoist_slice_vector op va ia vb ib e else Inr e
     | _ \<Rightarrow> Inr e)"

text \<open>
  The rewriter of a visit. A rule that asks for a proof has the simplifier visit the condition; the uses of
  variables counted on the way are dropped, and a visit that fails proves nothing.
\<close>

definition prover_of :: "mutator \<Rightarrow> simplify_state \<Rightarrow> expr \<Rightarrow> expr" where
  "prover_of mut s c = (case mut c None s of Inr (e, _, _) \<Rightarrow> e | Inl _ \<Rightarrow> const_bool False 1)"

definition visit_rewriter :: "float_ops \<Rightarrow> int \<Rightarrow> mutator \<Rightarrow> simplify_state \<Rightarrow> bool \<Rightarrow> htype \<Rightarrow> htype \<Rightarrow> expr \<Rightarrow> expr \<Rightarrow> rewriter" where
  "visit_rewriter fl ctr mut s nonzero out wild a b =
     \<lparr>rw_a = a, rw_b = b, rw_out = out, rw_wild = wild, rw_nonzero = nonzero, rw_fl = fl, rw_prover = prover_of mut s, rw_ctr = ctr\<rparr>"

type_synonym visited = "(expr \<times> expr_info option \<times> simplify_state) result"

text \<open>The rules whose result is final, those whose result is visited again, and what happens when none applies.\<close>

definition run_result :: "rewriter \<Rightarrow> rule list \<Rightarrow> expr \<Rightarrow> expr_info option \<Rightarrow> simplify_state \<Rightarrow> visited \<Rightarrow> visited" where
  "run_result rw rs e bounds s otherwise =
     (case rewrite_first rw rs e of Some r \<Rightarrow> rbind r (\<lambda>e. Inr (e, bounds, s)) | None \<Rightarrow> otherwise)"

definition run_mutate :: "mutator \<Rightarrow> rewriter \<Rightarrow> rule list \<Rightarrow> expr \<Rightarrow> expr_info option \<Rightarrow> simplify_state \<Rightarrow> visited \<Rightarrow> visited" where
  "run_mutate mut rw rs e bounds s otherwise =
     (case rewrite_first rw rs e of Some r \<Rightarrow> rbind r (\<lambda>e. mut e bounds s) | None \<Rightarrow> otherwise)"

definition finish :: "expr result \<Rightarrow> expr_info option \<Rightarrow> simplify_state \<Rightarrow> visited" where
  "finish r bounds s = rbind r (\<lambda>e. Inr (e, bounds, s))"

text \<open>Bounds are combined only if they are asked for.\<close>

definition combine :: "expr_info option \<Rightarrow> expr_info result \<Rightarrow> expr_info option result" where
  "combine bounds r = (case bounds of None \<Rightarrow> Inr None | Some _ \<Rightarrow> rbind r (\<lambda>i. Inr (Some i)))"

subsection \<open>Arithmetic\<close>

text \<open>A sum is hoisted out of slices only where it may be simplified, other operations always.\<close>

definition visit_Add :: "float_ops \<Rightarrow> int \<Rightarrow> mutator \<Rightarrow> expr \<Rightarrow> expr \<Rightarrow> expr_info option \<Rightarrow> simplify_state \<Rightarrow> visited" where
  "visit_Add fl ctr mut a b bounds s = rbind (visit_operands mut a b s) (\<lambda>(a, ia, b, ib, s).
     let t = type_of a; lanes = ty_lanes t;
         bounds = (if no_overflow_int t then map_option (\<lambda>_. info_Add ia ib) bounds else bounds);
         (a, b) = commuted s t a b;
         rw = visit_rewriter fl ctr mut s False t t a b
     in if may_simplify s t
        then run_result rw (add_result lanes) (Bin Add a b) bounds s
            (run_mutate mut rw (add_mutate lanes) (Bin Add a b) bounds s (finish (make_hoisted Add a b) bounds s))
        else finish (make_bin Add a b) bounds s)"

definition visit_Sub :: "float_ops \<Rightarrow> int \<Rightarrow> mutator \<Rightarrow> expr \<Rightarrow> expr \<Rightarrow> expr_info option \<Rightarrow> simplify_state \<Rightarrow> visited" where
  "visit_Sub fl ctr mut a b bounds s = rbind (visit_operands mut a b s) (\<lambda>(a, ia, b, ib, s).
     let t = type_of a; lanes = ty_lanes t;
         bounds = (if no_overflow_int t then map_option (\<lambda>_. info_Sub ia ib) bounds else bounds);
         rw = visit_rewriter fl ctr mut s False t t a b;
         otherwise = finish (make_hoisted Sub a b) bounds s
     in if may_simplify s t
        then run_result rw (sub_result lanes) (Bin Sub a b) bounds s
            (run_mutate mut rw (sub_mutate lanes) (Bin Sub a b) bounds s otherwise)
        else otherwise)"

definition visit_Mul :: "float_ops \<Rightarrow> int \<Rightarrow> mutator \<Rightarrow> expr \<Rightarrow> expr \<Rightarrow> expr_info option \<Rightarrow> simplify_state \<Rightarrow> visited" where
  "visit_Mul fl ctr mut a b bounds s = rbind (visit_operands mut a b s) (\<lambda>(a, ia, b, ib, s).
     let t = type_of a; lanes = ty_lanes t;
         bounds = (if no_overflow_int t then map_option (\<lambda>i. info_Mul i ia ib) bounds else bounds);
         (a, b) = commuted s t a b;
         rw = visit_rewriter fl ctr mut s False t t a b;
         otherwise = finish (make_hoisted Mul a b) bounds s
     in if may_simplify s t
        then run_result rw (mul_result lanes) (Bin Mul a b) bounds s
            (run_mutate mut rw (mul_mutate lanes) (Bin Mul a b) bounds s otherwise)
        else otherwise)"

definition visit_Div :: "float_ops \<Rightarrow> int \<Rightarrow> mutator \<Rightarrow> expr \<Rightarrow> expr \<Rightarrow> expr_info option \<Rightarrow> simplify_state \<Rightarrow> visited" where
  "visit_Div fl ctr mut a b bounds s = rbind (visit_operands mut a b s) (\<lambda>(a, ia, b, ib, s).
     let t = type_of a; lanes = ty_lanes t;
         early = (case bounds of None \<Rightarrow> None | Some i \<Rightarrow> div_constant fl ctr t i ia ib);
         bounds = (if no_overflow_int t then map_option (\<lambda>i. info_Div i ia ib) bounds else bounds);
         rw = visit_rewriter fl ctr mut s (denominator_non_zero ib) t t a b;
         otherwise = finish (make_bin Div a b) bounds s
     in case early of
          Some r \<Rightarrow> finish r bounds s
        | None \<Rightarrow>
            if may_simplify s t
            then run_result rw (div_result lanes) (Bin Div a b) bounds s
                (run_mutate mut rw (div_mutate lanes) (Bin Div a b) bounds s otherwise)
            else otherwise)"

definition visit_Mod :: "float_ops \<Rightarrow> int \<Rightarrow> mutator \<Rightarrow> expr \<Rightarrow> expr \<Rightarrow> expr_info option \<Rightarrow> simplify_state \<Rightarrow> visited" where
  "visit_Mod fl ctr mut a b bounds s = rbind (visit_operands mut a b s) (\<lambda>(a, ia, b, ib, s).
     let t = type_of a; lanes = ty_lanes t;
         mod_bounds = (if no_overflow_int t then info_Mod ia ib else no_info);
         bounds = (if no_overflow_int t then map_option (\<lambda>_. mod_bounds) bounds else bounds);
         rw = visit_rewriter fl ctr mut s (denominator_non_zero ib) t t a b;
         otherwise = finish (make_bin Mod a b) bounds s
     in if may_simplify s t
        then if mod_unchanged ia ib then finish (Inr a) bounds s
          else if single_point mod_bounds then finish (make_const fl t (ei_min mod_bounds)) bounds s
          else run_result rw (mod_result lanes) (Bin Mod a b) bounds s
              (run_mutate mut rw (mod_mutate lanes) (Bin Mod a b) bounds s otherwise)
        else otherwise)"

definition visit_Min :: "float_ops \<Rightarrow> int \<Rightarrow> mutator \<Rightarrow> expr \<Rightarrow> expr \<Rightarrow> expr_info option \<Rightarrow> simplify_state \<Rightarrow> visited" where
  "visit_Min fl ctr mut a b bounds s = rbind (visit_operands mut a b s) (\<lambda>(a, ia, b, ib, s).
     rbind (combine bounds (info_Min ia ib)) (\<lambda>bounds.
     case min_early ia ib a b of
       Some e \<Rightarrow> finish (Inr e) bounds s
     | None \<Rightarrow>
         (let t = type_of a; lanes = ty_lanes t;
              (a, b) = commuted s t a b;
              rw = visit_rewriter fl ctr mut s False t t a b;
              otherwise = finish (make_hoisted MinOp a b) bounds s
          in if may_simplify s t
             then run_result rw (min_result lanes) (Bin MinOp a b) bounds s
                 (run_mutate mut rw (min_mutate lanes) (Bin MinOp a b) bounds s otherwise)
             else otherwise)))"

definition visit_Max :: "float_ops \<Rightarrow> int \<Rightarrow> mutator \<Rightarrow> expr \<Rightarrow> expr \<Rightarrow> expr_info option \<Rightarrow> simplify_state \<Rightarrow> visited" where
  "visit_Max fl ctr mut a b bounds s = rbind (visit_operands mut a b s) (\<lambda>(a, ia, b, ib, s).
     rbind (combine bounds (info_Max ia ib)) (\<lambda>bounds.
     case max_early ia ib a b of
       Some e \<Rightarrow> finish (Inr e) bounds s
     | None \<Rightarrow>
         (let t = type_of a; lanes = ty_lanes t;
              (a, b) = commuted s t a b;
              rw = visit_rewriter fl ctr mut s False t t a b;
              otherwise = finish (make_hoisted MaxOp a b) bounds s
          in if may_simplify s t
             then run_result rw (max_result lanes) (Bin MaxOp a b) bounds s
                 (run_mutate mut rw (max_mutate lanes) (Bin MaxOp a b) bounds s otherwise)
             else otherwise)))"

subsection \<open>Comparisons\<close>

text \<open>A condition that is known, of the given operands, in the set of truths or of falsehoods.\<close>

definition known_condition :: "simplify_state \<Rightarrow> expr \<Rightarrow> bool option" where
  "known_condition s e = (if set_count e (ss_truths s) then Some True else if set_count e (ss_falsehoods s) then Some False else None)"

definition visit_LT :: "float_ops \<Rightarrow> int \<Rightarrow> mutator \<Rightarrow> expr \<Rightarrow> expr \<Rightarrow> expr_info option \<Rightarrow> simplify_state \<Rightarrow> visited" where
  "visit_LT fl ctr mut a0 b0 bounds s = rbind (visit_operands mut a0 b0 s) (\<lambda>(a, ia, b, ib, s).
     let out = type_of (Bin LT a0 b0); lanes = ty_lanes out; t = type_of a;
         rw = visit_rewriter fl ctr mut s False out t a b;
         otherwise = finish (make_bin LT a b) bounds s
     in case known_condition s (Bin LT a0 b0) of
          Some v \<Rightarrow> finish (Inr (const_bool v lanes)) bounds s
        | None \<Rightarrow>
            if may_simplify s t
            then (case lt_known ia ib of
                Some v \<Rightarrow> finish (Inr (const_bool v lanes)) bounds s
              | None \<Rightarrow> run_result rw (lt_result lanes) (Bin LT a b) bounds s
                  (run_mutate mut rw (lt_mutate lanes) (Bin LT a b) bounds s otherwise))
            else otherwise)"

text \<open>The visits that only make the node again, of a comparison of floating-point numbers that must not be touched.\<close>

definition visit_untouched :: "binop \<Rightarrow> mutator \<Rightarrow> expr \<Rightarrow> expr \<Rightarrow> expr_info option \<Rightarrow> simplify_state \<Rightarrow> visited" where
  "visit_untouched op mut a b bounds s = rbind (visit_plain mut a b s) (\<lambda>(a, b, s). finish (make_bin op a b) bounds s)"

definition visit_LE :: "mutator \<Rightarrow> expr \<Rightarrow> expr \<Rightarrow> expr_info option \<Rightarrow> simplify_state \<Rightarrow> visited" where
  "visit_LE mut a b bounds s =
     (if \<not> may_simplify s (type_of a) then visit_untouched LE mut a b bounds s
      else rbind (make_bin LT b a) (\<lambda>lt. rbind (make_Not lt) (\<lambda>e. mut e bounds s)))"

definition visit_GT :: "mutator \<Rightarrow> expr \<Rightarrow> expr \<Rightarrow> expr_info option \<Rightarrow> simplify_state \<Rightarrow> visited" where
  "visit_GT mut a b bounds s =
     (if \<not> may_simplify s (type_of a) then visit_untouched GT mut a b bounds s
      else rbind (make_bin LT b a) (\<lambda>e. mut e bounds s))"

definition visit_GE :: "mutator \<Rightarrow> expr \<Rightarrow> expr \<Rightarrow> expr_info option \<Rightarrow> simplify_state \<Rightarrow> visited" where
  "visit_GE mut a b bounds s =
     (if \<not> may_simplify s (type_of a) then visit_untouched GE mut a b bounds s
      else rbind (make_bin LT a b) (\<lambda>lt. rbind (make_Not lt) (\<lambda>e. mut e bounds s)))"

definition visit_NE :: "mutator \<Rightarrow> expr \<Rightarrow> expr \<Rightarrow> expr_info option \<Rightarrow> simplify_state \<Rightarrow> visited" where
  "visit_NE mut a b bounds s =
     (if \<not> may_simplify s (type_of a) then visit_untouched NE mut a b bounds s
      else rbind (make_bin EQ a b) (\<lambda>eq. rbind (make_Not eq) (\<lambda>e. mut e bounds s)))"

text \<open>An equality of booleans, and an equality of numbers, which is decided by the difference of its sides.\<close>

definition visit_EQ_bool :: "float_ops \<Rightarrow> int \<Rightarrow> mutator \<Rightarrow> expr \<Rightarrow> expr \<Rightarrow> expr_info option \<Rightarrow> simplify_state \<Rightarrow> visited" where
  "visit_EQ_bool fl ctr mut a b bounds s = rbind (visit_plain mut a b s) (\<lambda>(a, b, s).
     let out = type_of (Bin EQ a b); rules = eq_bool (ty_lanes out);
         rw = visit_rewriter fl ctr mut s False out out a b
     in run_result rw (take 1 rules) (Bin EQ a b) bounds s
       (run_mutate mut rw (take 1 (drop 1 rules)) (Bin EQ a b) bounds s
       (run_result rw (drop 2 rules) (Bin EQ a b) bounds s
       (finish (make_bin EQ a b) bounds s))))"

definition finish_EQ :: "float_ops \<Rightarrow> htype \<Rightarrow> expr \<Rightarrow> expr result" where
  "finish_EQ fl t delta = (case delta of
       Bin Sub a b \<Rightarrow> make_bin EQ a b
     | _ \<Rightarrow> rbind (make_zero fl t) (\<lambda>z. make_bin EQ delta z))"

definition visit_EQ_delta :: "float_ops \<Rightarrow> int \<Rightarrow> mutator \<Rightarrow> expr \<Rightarrow> expr \<Rightarrow> expr_info option \<Rightarrow> simplify_state \<Rightarrow> visited" where
  "visit_EQ_delta fl ctr mut a b bounds s =
     rbind (make_bin Sub a b) (\<lambda>d. rbind (mut d (Some no_info) s) (\<lambda>(delta, di, s).
     let out = type_of (Bin EQ a b); lanes = ty_lanes out
     in if is_zero delta then finish (Inr (const_bool True lanes)) bounds s
        else if eq_refuted (known di) then finish (Inr (const_bool False lanes)) bounds s
        else rbind (make_zero fl (type_of delta)) (\<lambda>z.
          let rw = visit_rewriter fl ctr mut s False out (type_of delta) delta z
          in run_mutate mut rw (eq_mutate lanes) (Bin EQ delta z) bounds s
            (run_result rw (eq_result lanes) (Bin EQ delta z) bounds s
            (finish (finish_EQ fl (type_of a) delta) bounds s)))))"

definition visit_EQ :: "float_ops \<Rightarrow> int \<Rightarrow> mutator \<Rightarrow> expr \<Rightarrow> expr \<Rightarrow> expr_info option \<Rightarrow> simplify_state \<Rightarrow> visited" where
  "visit_EQ fl ctr mut a b bounds s =
     (case known_condition s (Bin EQ a b) of
        Some v \<Rightarrow> finish (Inr (const_bool v (lanes_of (Bin EQ a b)))) bounds s
      | None \<Rightarrow>
          if \<not> may_simplify s (type_of a) then visit_untouched EQ mut a b bounds s
          else if is_bool (type_of a) then visit_EQ_bool fl ctr mut a b bounds s
          else visit_EQ_delta fl ctr mut a b bounds s)"

subsection \<open>Conditions\<close>

definition visit_And :: "float_ops \<Rightarrow> int \<Rightarrow> mutator \<Rightarrow> expr \<Rightarrow> expr \<Rightarrow> expr_info option \<Rightarrow> simplify_state \<Rightarrow> visited" where
  "visit_And fl ctr mut a0 b0 bounds s =
     (if set_count (Bin AndOp a0 b0) (ss_falsehoods s) then finish (Inr (const_bool False (lanes_of (Bin AndOp a0 b0)))) bounds s
      else rbind (visit_plain mut a0 b0 s) (\<lambda>(a, b, s).
        let (a, b) = (if should_commute a b then (b, a) else (a, b));
            t = type_of (Bin AndOp a b); lanes = ty_lanes t;
            rw = visit_rewriter fl ctr mut s False t t a b
        in run_result rw (and_result lanes) (Bin AndOp a b) bounds s
          (run_mutate mut rw (and_mutate lanes) (Bin AndOp a b) bounds s
          (finish (make_bin AndOp a b) bounds s))))"

definition visit_Or :: "float_ops \<Rightarrow> int \<Rightarrow> mutator \<Rightarrow> expr \<Rightarrow> expr \<Rightarrow> expr_info option \<Rightarrow> simplify_state \<Rightarrow> visited" where
  "visit_Or fl ctr mut a0 b0 bounds s =
     (if set_count (Bin OrOp a0 b0) (ss_truths s) then finish (Inr (const_bool True (lanes_of (Bin OrOp a0 b0)))) bounds s
      else rbind (visit_plain mut a0 b0 s) (\<lambda>(a, b, s).
        let (a, b) = (if should_commute a b then (b, a) else (a, b));
            t = type_of (Bin OrOp a b); lanes = ty_lanes t;
            rw = visit_rewriter fl ctr mut s False t t a b
        in run_result rw (or_result lanes) (Bin OrOp a b) bounds s
          (run_mutate mut rw (or_mutate lanes) (Bin OrOp a b) bounds s
          (finish (make_bin OrOp a b) bounds s))))"

definition visit_Not :: "float_ops \<Rightarrow> int \<Rightarrow> mutator \<Rightarrow> expr \<Rightarrow> expr_info option \<Rightarrow> simplify_state \<Rightarrow> visited" where
  "visit_Not fl ctr mut a bounds s = rbind (mut a None s) (\<lambda>(a, _, s).
     let t = type_of (NotE a); lanes = ty_lanes t;
         rw = visit_rewriter fl ctr mut s False t t a a
     in run_result rw (not_result lanes) (NotE a) bounds s
       (run_mutate mut rw (not_mutate lanes) (NotE a) bounds s
       (finish (make_Not a) bounds s)))"

definition visit_Select :: "float_ops \<Rightarrow> int \<Rightarrow> mutator \<Rightarrow> expr \<Rightarrow> expr \<Rightarrow> expr \<Rightarrow> expr_info option \<Rightarrow> simplify_state \<Rightarrow> visited" where
  "visit_Select fl ctr mut c a b bounds s =
     rbind (mut c None s) (\<lambda>(c, _, s).
     rbind (visit_operands mut a b s) (\<lambda>(a, ia, b, ib, s).
     rbind (combine bounds (info_Select ia ib)) (\<lambda>bounds.
     let t = type_of a; lanes = ty_lanes t;
         rw = visit_rewriter fl ctr mut s False t t a b;
         otherwise = finish (make_Select c a b) bounds s
     in if may_simplify s t
        then run_result rw (select_result lanes) (Select c a b) bounds s
            (run_mutate mut rw (select_mutate lanes) (Select c a b) bounds s otherwise)
        else otherwise)))"

subsection \<open>Vectors and loads\<close>

definition visit_Broadcast :: "mutator \<Rightarrow> expr \<Rightarrow> nat \<Rightarrow> expr_info option \<Rightarrow> simplify_state \<Rightarrow> visited" where
  "visit_Broadcast mut v lanes bounds s = rbind (mut v bounds s) (\<lambda>(v, bounds, s). finish (make_Broadcast v lanes) bounds s)"

definition ramp_result :: "nat \<Rightarrow> rule list" where
  "ramp_result l = [Rule GAll (PRamp (PWild 0) (PConst 0) None) (APat (PBroadcast (PWild 0) (Some l))) None]"

definition visit_Ramp :: "float_ops \<Rightarrow> int \<Rightarrow> mutator \<Rightarrow> expr \<Rightarrow> expr \<Rightarrow> nat \<Rightarrow> expr_info option \<Rightarrow> simplify_state \<Rightarrow> visited" where
  "visit_Ramp fl ctr mut base stride lanes bounds s = rbind (visit_operands mut base stride s) (\<lambda>(base, ib, stride, is, s).
     let t = type_of (Ramp base stride lanes);
         bounds = (if no_overflow_int t then map_option (\<lambda>_. info_Ramp lanes ib is) bounds else bounds);
         rw = visit_rewriter fl ctr mut s False t t base stride
     in run_result rw (ramp_result lanes) (Ramp base stride lanes) bounds s
       (finish (make_Ramp base stride lanes) bounds s))"

definition make_undef :: "htype \<Rightarrow> expr result" where
  "make_undef t = make_Call t ''undef'' [] PureIntrinsic 0 no_refs"

definition load_base :: "mutator \<Rightarrow> expr \<Rightarrow> simplify_state \<Rightarrow> (expr_info \<times> simplify_state) result" where
  "load_base mut index s = (case index of
       Ramp b st l \<Rightarrow> rbind (mut b (Some no_info) s) (\<lambda>(_, bi, s). Inr (known bi, s))
     | _ \<Rightarrow> Inr (no_info, s))"

definition finish_Load :: "htype \<Rightarrow> string \<Rightarrow> expr \<Rightarrow> expr \<Rightarrow> node_refs \<Rightarrow> modulus_remainder \<Rightarrow> expr result" where
  "finish_Load t n predicate index r align =
     (if is_zero predicate then make_undef t
      else case (index, predicate) of
          (Broadcast iv l, Broadcast pv l') \<Rightarrow> rbind (make_Load (element_of t) n iv r pv align) (\<lambda>e. make_Broadcast e l)
        | _ \<Rightarrow> make_Load t n index r predicate align)"

definition visit_Load :: "mutator \<Rightarrow> htype \<Rightarrow> string \<Rightarrow> expr \<Rightarrow> expr \<Rightarrow> node_refs \<Rightarrow> modulus_remainder \<Rightarrow>
    expr_info option \<Rightarrow> simplify_state \<Rightarrow> visited" where
  "visit_Load mut t n predicate index r al bounds s =
     rbind (found_buffer_reference n 0 s) (\<lambda>s.
     rbind (mut predicate None s) (\<lambda>(predicate, _, s).
     rbind (mut index (Some no_info) s) (\<lambda>(index, ii, s).
     rbind (load_base mut index s) (\<lambda>(base_info, s).
     let align = mr_intersect al (mr_intersect (ei_alignment base_info) (ei_alignment (known ii)))
     in finish (finish_Load t n predicate index r align) bounds s))))"

subsection \<open>The recursion\<close>

text \<open>
  The visits of calls, shuffles, lets and conversions are a parameter. The depth of the recursion is bounded
  by the first argument.
\<close>

definition visit :: "float_ops \<Rightarrow> int \<Rightarrow> (mutator \<Rightarrow> mutator) \<Rightarrow> mutator \<Rightarrow> mutator" where
  "visit fl ctr other mut e bounds s = (case e of
       IntImm t v \<Rightarrow> Inr (e, map_option (info_IntImm t v) bounds, s)
     | UIntImm t v \<Rightarrow> Inr (e, map_option (info_UIntImm v) bounds, s)
     | FloatImm t v \<Rightarrow> Inr (e, bounds, s)
     | StringImm t v \<Rightarrow> Inr (e, bounds, s)
     | Broadcast v l \<Rightarrow> visit_Broadcast mut v l bounds s
     | Variable t n r \<Rightarrow> visit_Variable fl mut t n r bounds s
     | Bin op a b \<Rightarrow> (case op of
           Add \<Rightarrow> visit_Add fl ctr mut a b bounds s
         | Sub \<Rightarrow> visit_Sub fl ctr mut a b bounds s
         | Mul \<Rightarrow> visit_Mul fl ctr mut a b bounds s
         | Div \<Rightarrow> visit_Div fl ctr mut a b bounds s
         | Mod \<Rightarrow> visit_Mod fl ctr mut a b bounds s
         | MinOp \<Rightarrow> visit_Min fl ctr mut a b bounds s
         | MaxOp \<Rightarrow> visit_Max fl ctr mut a b bounds s
         | EQ \<Rightarrow> visit_EQ fl ctr mut a b bounds s
         | NE \<Rightarrow> visit_NE mut a b bounds s
         | LT \<Rightarrow> visit_LT fl ctr mut a b bounds s
         | LE \<Rightarrow> visit_LE mut a b bounds s
         | GT \<Rightarrow> visit_GT mut a b bounds s
         | GE \<Rightarrow> visit_GE mut a b bounds s
         | AndOp \<Rightarrow> visit_And fl ctr mut a b bounds s
         | OrOp \<Rightarrow> visit_Or fl ctr mut a b bounds s)
     | NotE a \<Rightarrow> visit_Not fl ctr mut a bounds s
     | Select c a b \<Rightarrow> visit_Select fl ctr mut c a b bounds s
     | Load t n p i r al \<Rightarrow> visit_Load mut t n p i r al bounds s
     | Ramp b st l \<Rightarrow> visit_Ramp fl ctr mut b st l bounds s
     | _ \<Rightarrow> other mut e bounds s)"

fun mutate :: "float_ops \<Rightarrow> int \<Rightarrow> (mutator \<Rightarrow> mutator) \<Rightarrow> nat \<Rightarrow> mutator" where
  "mutate fl ctr other 0 e bounds s = Inl DepthExceeded"
| "mutate fl ctr other (Suc n) e bounds s =
     rbind (visit fl ctr other (mutate fl ctr other n) e bounds s) (\<lambda>(e', bounds, s).
       assert_that (type_eq (type_of e') (type_of e)) (Inr (e', bounds, s)))"

definition simplify :: "float_ops \<Rightarrow> int \<Rightarrow> (mutator \<Rightarrow> mutator) \<Rightarrow> nat \<Rightarrow> expr \<Rightarrow> bool \<Rightarrow>
    (string \<Rightarrow> (expr \<times> expr) option) \<Rightarrow> (string \<Rightarrow> modulus_remainder option) \<Rightarrow> expr result" where
  "simplify fl ctr other n e remove_dead_lets bi ai =
     rbind (mutate fl ctr other n e None (new_simplify remove_dead_lets bi ai)) (\<lambda>(e, _, _). Inr e)"

end
