(* ===== verification/ExprInfoFacts.thy ===== *)
theory ExprInfoFacts
  imports ExprInfo ModRemFacts
begin

text \<open>
  What the simplifier computes about the values of its operands is true of them, as long as the bounds of the
  operands are small enough for 64-bit arithmetic: soundness of every visit, and of the decisions taken
  with the result. One visit is not sound, that of a product with one bound.
\<close>

subsection \<open>Membership\<close>

definition info_mem :: "int \<Rightarrow> expr_info \<Rightarrow> bool" where
  "info_mem v i \<longleftrightarrow> (ei_min_defined i \<longrightarrow> ei_min i \<le> v) \<and> (ei_max_defined i \<longrightarrow> v \<le> ei_max i) \<and>
     mr_mem v (ei_alignment i)"

text \<open>A normal alignment has its remainder between zero and the modulus.\<close>

definition mr_normal :: "modulus_remainder \<Rightarrow> bool" where
  "mr_normal m \<longleftrightarrow> mr_modulus m = 0 \<or> 0 \<le> mr_remainder m \<and> mr_remainder m < mr_modulus m"

definition bounds_within :: "int \<Rightarrow> expr_info \<Rightarrow> bool" where
  "bounds_within n i \<longleftrightarrow> (ei_min_defined i \<longrightarrow> \<bar>ei_min i\<bar> \<le> n) \<and> (ei_max_defined i \<longrightarrow> \<bar>ei_max i\<bar> \<le> n)"

definition info_within :: "int \<Rightarrow> expr_info \<Rightarrow> bool" where
  "info_within n i \<longleftrightarrow> bounds_within n i \<and> mr_normal (ei_alignment i) \<and>
     mr_modulus (ei_alignment i) \<le> n \<and> \<bar>mr_remainder (ei_alignment i)\<bar> \<le> n"

lemma info_memD:
  "info_mem v i \<Longrightarrow> ei_min_defined i \<Longrightarrow> ei_min i \<le> v" "info_mem v i \<Longrightarrow> ei_max_defined i \<Longrightarrow> v \<le> ei_max i"
  "info_mem v i \<Longrightarrow> mr_mem v (ei_alignment i)"
  by (auto simp: info_mem_def)

lemma info_mem_no_info [simp]: "info_mem v no_info"
  by (simp add: info_mem_def no_info_def)

lemma info_mem_point [simp]: "info_mem v (info_point c) \<longleftrightarrow> v = c"
  by (auto simp: info_mem_def info_point_def)

lemma within_mr_ok: "info_within n i \<Longrightarrow> n \<le> 2 ^ 62 \<Longrightarrow> mr_ok (ei_alignment i)"
  by (auto simp: info_within_def mr_normal_def mr_ok_def s64_iff)

subsection \<open>Trimming\<close>

text \<open>Rounding up and down to the next number with the given remainder.\<close>

lemma trim_step:
  assumes "1 < mr_modulus al" and "mr_modulus al \<le> 2 ^ 62" and "0 \<le> mr_remainder al" and "mr_remainder al < mr_modulus al"
    and "\<bar>n\<bar> \<le> 2 ^ 62"
  shows "trim_min al n = n + (mr_remainder al - n) mod mr_modulus al"
    and "trim_max al n = n - (n - mr_remainder al) mod mr_modulus al"
proof -
  let ?m = "mr_modulus al" and ?r = "mr_remainder al"
  let ?t = "n - n mod ?m + ?r"
  have m: "mod_imp n ?m = n mod ?m" using assms(1,2) by (simp add: mod_imp_eq_emod s64_iff emod_def)
  have b: "0 \<le> n mod ?m" "n mod ?m < ?m" using assms(1) by simp_all
  then have t: "n - ?m < ?t" "?t < n + ?m" using assms(3,4) by linarith+
  have w: "s_wrap 64 ?t = ?t" "?t < n \<Longrightarrow> s_wrap 64 (?t + ?m) = ?t + ?m" "n < ?t \<Longrightarrow> s_wrap 64 (?t - ?m) = ?t - ?m"
    using t assms(2,5) by (auto intro!: s_wrap_id simp: s64_iff in_s_def)
  have c: "(?t - n) mod ?m = (?r - n) mod ?m" "(n - ?t) mod ?m = (n - ?r) mod ?m"
    by (simp_all add: mod_diff_eq mod_diff_right_eq mod_diff_left_eq)
  have up: "(z :: int) mod ?m = z + ?m" if "z < 0" "- ?m < z" for z
    using mod_pos_pos_trivial [of "z + ?m" ?m] that by simp
  have same: "(z :: int) mod ?m = z" if "0 \<le> z" "z < ?m" for z using that by (rule mod_pos_pos_trivial)
  show "trim_min al n = n + (?r - n) mod ?m"
    using c(1) w t up [of "?t - n"] same [of "?t - n"] by (cases "?t < n") (simp_all add: trim_min_def Let_def m)
  show "trim_max al n = n - (n - ?r) mod ?m"
    using c(2) w t up [of "n - ?t"] same [of "n - ?t"] by (cases "?t > n") (simp_all add: trim_max_def Let_def m)
qed

definition trimmable :: "modulus_remainder \<Rightarrow> bool" where
  "trimmable al \<longleftrightarrow> (1 < mr_modulus al \<longrightarrow> 0 \<le> mr_remainder al \<and> mr_remainder al < mr_modulus al \<and> mr_modulus al \<le> 2 ^ 62)"

lemma trim_sound:
  assumes v: "info_mem v i" and b: "bounds_within (2 ^ 62) i" and t: "trimmable (ei_alignment i)"
  shows "info_mem v (trim_bounds_using_alignment i)"
proof -
  let ?m = "mr_modulus (ei_alignment i)" and ?r = "mr_remainder (ei_alignment i)"
  have c: "?m dvd v - ?r" using info_memD(3) [OF v] by (simp add: mr_mem_def)
  have "info_mem v (align_bounds i)"
  proof (cases "?m = 0 \<or> \<not> 1 < ?m")
    case True
    then show ?thesis using v c by (auto simp: align_bounds_def Let_def info_mem_def mr_mem_def)
  next
    case False
    then have m: "1 < ?m" by simp
    then have r: "?m \<le> 2 ^ 62" "0 \<le> ?r" "?r < ?m" using t by (auto simp: trimmable_def)
    have "(?r - n) mod ?m = (v - n) mod ?m" "(n - ?r) mod ?m = (n - v) mod ?m" for n
      using c by (auto simp: mod_eq_dvd_iff dvd_diff_commute)
    moreover have "z mod ?m \<le> z" if "0 \<le> z" for z using m that by (intro zmod_le_nonneg_dividend)
    ultimately have "trim_min (ei_alignment i) n \<le> v" if "n \<le> v" "\<bar>n\<bar> \<le> 2 ^ 62" for n
      using trim_step(1) [OF m r that(2)] that(1) by (metis add_le_cancel_left diff_add_cancel diff_ge_0_iff_ge add.commute)
    moreover have "v \<le> trim_max (ei_alignment i) n" if "v \<le> n" "\<bar>n\<bar> \<le> 2 ^ 62" for n
    proof -
      have "(n - ?r) mod ?m \<le> n - v"
        using that(1) \<open>\<And>n. (n - ?r) mod ?m = (n - v) mod ?m\<close> [of n] m by (simp add: zmod_le_nonneg_dividend)
      then show ?thesis using trim_step(2) [OF m r that(2)] by linarith
    qed
    ultimately show ?thesis using v b m by (auto simp: align_bounds_def Let_def info_mem_def bounds_within_def)
  qed
  then show ?thesis by (auto simp: trim_bounds_using_alignment_def Let_def single_point_def info_mem_def)
qed

subsection \<open>Alignments that can be trimmed\<close>

lemma gcd_within: "\<bar>a\<bar> \<le> n \<Longrightarrow> \<bar>b\<bar> \<le> n \<Longrightarrow> \<bar>halide_gcd a b\<bar> \<le> n"
  using dvd_imp_le_int [of a "halide_gcd a b"] dvd_imp_le_int [of b "halide_gcd a b"]
  by (cases "a = 0 \<and> b = 0") (auto simp: halide_gcd_abs)

lemma normal_modulus: "mr_normal m \<Longrightarrow> 0 \<le> mr_modulus m"
  by (auto simp: mr_normal_def)

lemma trimmable_mod: "\<bar>m\<bar> \<le> 2 ^ 62 \<Longrightarrow> trimmable (mk_mr m (mr_mod_int r m))"
  using emod_nonneg [of m r] emod_less [of m r]
  by (auto simp: trimmable_def mr_mod_int_def mod_imp_eq_emod s64_iff)

lemma trimmable_top [simp]: "trimmable mr_top" "trimmable (mk_mr 1 0)"
  by (simp_all add: trimmable_def mr_top_def)

lemma within_gcd:
  "info_within n a \<Longrightarrow> info_within n b \<Longrightarrow>
   \<bar>halide_gcd (mr_modulus (ei_alignment a)) (mr_modulus (ei_alignment b))\<bar> \<le> n"
  using normal_modulus [of "ei_alignment a"] normal_modulus [of "ei_alignment b"] by (intro gcd_within) (auto simp: info_within_def)

lemma trimmable_add:
  assumes "info_within (2 ^ 31) a" and "info_within (2 ^ 31) b"
  shows "trimmable (mr_add (ei_alignment a) (ei_alignment b))" "trimmable (mr_sub (ei_alignment a) (ei_alignment b))"
  using within_gcd [OF assms] by (auto simp: mr_add_def mr_sub_def Let_def intro!: trimmable_mod)

lemma trimmable_modulo:
  assumes "info_within (2 ^ 31) a" and "info_within (2 ^ 31) b"
  shows "trimmable (mr_mod (ei_alignment a) (ei_alignment b))"
proof -
  have "\<bar>mr_remainder (ei_alignment b)\<bar> \<le> 2 ^ 31" using assms(2) by (simp add: info_within_def)
  from gcd_within [OF within_gcd [OF assms] this] show ?thesis by (simp add: mr_mod_def Let_def trimmable_mod)
qed

lemma trimmable_unify:
  assumes "info_within (2 ^ 31) a" and "info_within (2 ^ 31) b" and "mr_unify (ei_alignment a) (ei_alignment b) = Inr m"
  shows "trimmable m"
proof -
  have "trimmable n" if "mr_unify_ordered (ei_alignment x) (ei_alignment y) = Inr n"
    "info_within (2 ^ 31) x" "info_within (2 ^ 31) y" for x y n
  proof -
    let ?d = "mr_remainder (ei_alignment x) - mr_remainder (ei_alignment y)"
    have "\<bar>?d\<bar> \<le> 2 ^ 62" using that(2,3) by (auto simp: info_within_def)
    moreover have "\<bar>halide_gcd (mr_modulus (ei_alignment x)) (mr_modulus (ei_alignment y))\<bar> \<le> 2 ^ 62"
      using within_gcd [OF that(2,3)] by simp
    ultimately show ?thesis using that(1) gcd_within
      by (auto simp: mr_unify_ordered_def Let_def assert_that_def trimmable_mod split: if_splits) (simp add: trimmable_def)
  qed
  then show ?thesis using assms by (auto simp: mr_unify_def split: if_splits)
qed

lemma trimmable_mul:
  assumes a: "info_within (2 ^ 31) a" and b: "info_within (2 ^ 31) b"
  shows "trimmable (mr_mul (ei_alignment a) (ei_alignment b))"
proof -
  let ?ma = "mr_modulus (ei_alignment a)" and ?mb = "mr_modulus (ei_alignment b)"
  let ?ra = "mr_remainder (ei_alignment a)" and ?rb = "mr_remainder (ei_alignment b)"
  have n: "\<bar>?ma\<bar> \<le> 2 ^ 31" "\<bar>?mb\<bar> \<le> 2 ^ 31" "\<bar>?ra\<bar> \<le> 2 ^ 31" "\<bar>?rb\<bar> \<le> 2 ^ 31"
    using a b normal_modulus [of "ei_alignment a"] normal_modulus [of "ei_alignment b"] by (auto simp: info_within_def)
  have p: "\<bar>x * y\<bar> \<le> 2 ^ 62" if "\<bar>x\<bar> \<le> 2 ^ 31" "\<bar>y\<bar> \<le> (2 ^ 31 :: int)" for x y
    using mult_mono [OF that] by (simp add: abs_mult)
  have scaled: "trimmable (mk_mr (r * mr_modulus m) (r * mr_remainder m))"
    if "\<bar>r\<bar> \<le> 2 ^ 31" "\<bar>mr_modulus m\<bar> \<le> 2 ^ 31" "mr_normal m" for r m
  proof -
    have "0 \<le> r * mr_remainder m \<and> r * mr_remainder m < r * mr_modulus m" if "1 < r * mr_modulus m"
    proof -
      have "0 < r" "0 \<le> mr_remainder m" "mr_remainder m < mr_modulus m"
        using that \<open>mr_normal m\<close> by (auto simp: mr_normal_def zero_less_mult_iff dest!: order.strict_trans [OF zero_less_one])
      then show ?thesis by simp
    qed
    then show ?thesis using p [OF that(1,2)] by (auto simp: trimmable_def)
  qed
  have zero: "trimmable (mk_mr (x * y) 0)" if "\<bar>x\<bar> \<le> 2 ^ 31" "\<bar>y\<bar> \<le> 2 ^ 31" for x y
    using p [OF that] by (auto simp: trimmable_def)
  have norm: "mr_normal (ei_alignment a)" "mr_normal (ei_alignment b)" using a b by (simp_all add: info_within_def)
  have g: "\<bar>halide_gcd ?mb ?rb\<bar> \<le> 2 ^ 31" "\<bar>halide_gcd ?ma ?ra\<bar> \<le> 2 ^ 31" "\<bar>halide_gcd ?ma ?mb\<bar> \<le> 2 ^ 62"
    using gcd_within [OF n(2,4)] gcd_within [OF n(1,3)] within_gcd [OF a b] by simp_all
  show ?thesis
  proof (cases rule: mr_mul_cases [of "ei_alignment a" "ei_alignment b"])
    case 1
    then show ?thesis by simp
  next
    case 2
    then show ?thesis using scaled [OF n(3,2) norm(2)] by simp
  next
    case 3
    then show ?thesis using scaled [OF n(4,1) norm(1)] by (simp add: mult.commute)
  next
    case 4
    then show ?thesis using zero [OF n(1,2)] by simp
  next
    case 5
    then show ?thesis using zero [OF n(1) g(1)] by simp
  next
    case 6
    then show ?thesis using zero [OF n(2) g(2)] by simp
  next
    case 7
    then show ?thesis using trimmable_mod [OF g(3)] by simp
  qed
qed

lemma trimmable_div:
  assumes a: "info_within (2 ^ 31) a" and b: "info_within (2 ^ 31) b"
  shows "trimmable (mr_div (ei_alignment a) (ei_alignment b))"
proof (cases "mr_div (ei_alignment a) (ei_alignment b) = mr_top")
  case False
  let ?m = "mr_modulus (ei_alignment a)" and ?ra = "mr_remainder (ei_alignment a)" and ?r = "mr_remainder (ei_alignment b)"
  let ?q = "cdiv ?m ?r"
  have r: "?r \<noteq> 0" "mr_mod_int ?m ?r = 0"
    and eq: "mr_div (ei_alignment a) (ei_alignment b) = mk_mr (s_wrap 64 ?q) (div_imp ?ra ?r)"
    using False by (auto simp: mr_div_def split: if_splits)
  have n: "0 \<le> ?m" "?m \<le> 2 ^ 31" "\<bar>?ra\<bar> \<le> 2 ^ 31" "\<bar>?r\<bar> \<le> 2 ^ 31"
    using a b normal_modulus [of "ei_alignment a"] by (auto simp: info_within_def)
  have "is_s64 ?r" using n(4) by (auto simp: s64_iff)
  then have d: "?r dvd ?m" using r emod_eq_0_iff [of ?m ?r] mod_imp_eq_emod [of ?r ?m] by (auto simp: mr_mod_int_def)
  have q: "?m = ?q * ?r" using cdiv_dvd [OF d] r(1) by simp
  have "\<bar>?q\<bar> * 1 \<le> \<bar>?q\<bar> * \<bar>?r\<bar>" using r(1) by (intro mult_left_mono) auto
  then have "\<bar>?q\<bar> \<le> ?m" using q n(1) by (metis abs_mult abs_of_nonneg mult_1_right)
  then have qs: "\<bar>?q\<bar> \<le> 2 ^ 31" "s_wrap 64 ?q = ?q" using n(2) by (auto intro!: s_wrap_in_s_id simp: s64_iff)
  have "0 \<le> div_imp ?ra ?r \<and> div_imp ?ra ?r < ?q" if p: "1 < ?q"
  proof -
    have "0 < ?m" using q r(1) p n(1) by (cases "?m = 0") auto
    then have "0 < ?r" using q p by (metis zero_less_mult_pos order.strict_trans zero_less_one)
    moreover have "0 \<le> ?ra" "?ra < ?q * ?r" using a \<open>0 < ?m\<close> q by (auto simp: info_within_def mr_normal_def)
    moreover have "div_imp ?ra ?r = ediv ?ra ?r" using n r(1) by (intro div_imp_eq_ediv) (auto simp: s64_iff)
    moreover have "?ra div ?r * ?r \<le> ?ra" using pos_mod_sign [of ?r ?ra] \<open>0 < ?r\<close> div_mult_mod_eq [of ?ra ?r] by linarith
    then have "?ra div ?r < ?q" using \<open>?ra < ?q * ?r\<close> \<open>0 < ?r\<close> by (smt (verit) mult_right_mono)
    ultimately show ?thesis by (simp add: pos_imp_zdiv_nonneg_iff)
  qed
  then show ?thesis using qs by (auto simp: eq trimmable_def)
qed simp

subsection \<open>Sums, differences and ramps\<close>

lemma within_mono: "bounds_within n i \<Longrightarrow> n \<le> m \<Longrightarrow> bounds_within m i"
  by (auto simp: bounds_within_def)

lemma small_wrap: "\<bar>z\<bar> \<le> 2 ^ 62 \<Longrightarrow> s_wrap 64 z = z"
  by (intro s_wrap_in_s_id) (auto simp: s64_iff)

lemma withinD:
  "info_within n i \<Longrightarrow> ei_min_defined i \<Longrightarrow> \<bar>ei_min i\<bar> \<le> n" "info_within n i \<Longrightarrow> ei_max_defined i \<Longrightarrow> \<bar>ei_max i\<bar> \<le> n"
  by (auto simp: info_within_def bounds_within_def)

lemma small_mr_ok: "info_within (2 ^ 31) i \<Longrightarrow> mr_ok (ei_alignment i)"
  by (erule within_mr_ok) simp

lemma small_sum: "\<bar>x\<bar> \<le> 2 ^ 31 \<Longrightarrow> \<bar>y\<bar> \<le> 2 ^ 31 \<Longrightarrow> \<bar>x + y\<bar> \<le> (2 ^ 62 :: int)" "\<bar>x\<bar> \<le> 2 ^ 31 \<Longrightarrow> \<bar>y\<bar> \<le> 2 ^ 31 \<Longrightarrow> \<bar>x - y\<bar> \<le> (2 ^ 62 :: int)"
  by auto

lemma small_product: "\<bar>x\<bar> \<le> 2 ^ 31 \<Longrightarrow> \<bar>y\<bar> \<le> 2 ^ 31 \<Longrightarrow> \<bar>x * y\<bar> \<le> (2 ^ 62 :: int)"
  using mult_mono [of "\<bar>x\<bar>" "2 ^ 31" "\<bar>y\<bar>" "2 ^ 31"] by (simp add: abs_mult)

lemma info_Add_sound:
  assumes a: "info_within (2 ^ 31) a" "info_mem x a" and b: "info_within (2 ^ 31) b" "info_mem y b"
  shows "info_mem (x + y) (info_Add a b)"
  unfolding info_Add_def
proof (rule trim_sound)
  note s = small_sum(1) [OF withinD(1) [OF a(1)] withinD(1) [OF b(1)]] small_sum(1) [OF withinD(2) [OF a(1)] withinD(2) [OF b(1)]]
  show "bounds_within (2 ^ 62) \<lparr>ei_min = s_wrap 64 (ei_min a + ei_min b), ei_max = s_wrap 64 (ei_max a + ei_max b),
      ei_min_defined = ei_min_defined a \<and> ei_min_defined b, ei_max_defined = ei_max_defined a \<and> ei_max_defined b,
      ei_alignment = mr_add (ei_alignment a) (ei_alignment b)\<rparr>"
    using s small_wrap by (auto simp: bounds_within_def)
  show "info_mem (x + y) \<lparr>ei_min = s_wrap 64 (ei_min a + ei_min b), ei_max = s_wrap 64 (ei_max a + ei_max b),
      ei_min_defined = ei_min_defined a \<and> ei_min_defined b, ei_max_defined = ei_max_defined a \<and> ei_max_defined b,
      ei_alignment = mr_add (ei_alignment a) (ei_alignment b)\<rparr>"
    using s small_wrap info_memD [OF a(2)] info_memD [OF b(2)] mr_add_sound [OF small_mr_ok [OF a(1)] small_mr_ok [OF b(1)]]
    by (auto simp: info_mem_def intro!: add_mono)
qed (simp add: trimmable_add(1) [OF a(1) b(1)])

lemma info_Sub_sound:
  assumes a: "info_within (2 ^ 31) a" "info_mem x a" and b: "info_within (2 ^ 31) b" "info_mem y b"
  shows "info_mem (x - y) (info_Sub a b)"
  unfolding info_Sub_def
proof (rule trim_sound)
  note s = small_sum(2) [OF withinD(1) [OF a(1)] withinD(2) [OF b(1)]] small_sum(2) [OF withinD(2) [OF a(1)] withinD(1) [OF b(1)]]
  show "bounds_within (2 ^ 62) \<lparr>ei_min = s_wrap 64 (ei_min a - ei_max b), ei_max = s_wrap 64 (ei_max a - ei_min b),
      ei_min_defined = ei_min_defined a \<and> ei_max_defined b, ei_max_defined = ei_max_defined a \<and> ei_min_defined b,
      ei_alignment = mr_sub (ei_alignment a) (ei_alignment b)\<rparr>"
    using s small_wrap by (auto simp: bounds_within_def)
  show "info_mem (x - y) \<lparr>ei_min = s_wrap 64 (ei_min a - ei_max b), ei_max = s_wrap 64 (ei_max a - ei_min b),
      ei_min_defined = ei_min_defined a \<and> ei_max_defined b, ei_max_defined = ei_max_defined a \<and> ei_min_defined b,
      ei_alignment = mr_sub (ei_alignment a) (ei_alignment b)\<rparr>"
    using s small_wrap info_memD [OF a(2)] info_memD [OF b(2)] mr_sub_sound [OF small_mr_ok [OF a(1)] small_mr_ok [OF b(1)]]
    by (auto simp: info_mem_def intro!: diff_mono)
qed (simp add: trimmable_add(2) [OF a(1) b(1)])

subsection \<open>Products\<close>

lemma mult_between:
  fixes x y :: int
  assumes "a1 \<le> x" and "x \<le> a2"
  shows "min (a1 * y) (a2 * y) \<le> x * y" "x * y \<le> max (a1 * y) (a2 * y)"
  using mult_right_mono [OF assms(1), of y] mult_right_mono [OF assms(2), of y]
    mult_right_mono_neg [OF assms(1), of y] mult_right_mono_neg [OF assms(2), of y] by linarith+

lemma product_between:
  fixes x y :: int
  assumes "a1 \<le> x" and "x \<le> a2" and "b1 \<le> y" and "y \<le> b2"
  shows "min (min (a1 * b1) (a1 * b2)) (min (a2 * b1) (a2 * b2)) \<le> x * y"
    "x * y \<le> max (max (a1 * b1) (a1 * b2)) (max (a2 * b1) (a2 * b2))"
  using mult_between [OF assms(1,2), of y] mult_between [OF assms(3,4), of a1] mult_between [OF assms(3,4), of a2]
  by (simp_all only: mult.commute [of a1] mult.commute [of a2])

text \<open>
  A product of which one operand has both bounds and the other only one. The code takes the product of the
  two ends it knows, which is a bound of the product only if these ends are not negative.
\<close>

definition mul_ends_fit :: "expr_info \<Rightarrow> expr_info \<Rightarrow> bool" where
  "mul_ends_fit a b \<longleftrightarrow> ei_bounded a \<and> ei_bounded b \<or>
     (ei_min_defined a \<longrightarrow> 0 \<le> ei_min a) \<and> (ei_max_defined a \<longrightarrow> 0 \<le> ei_max a) \<and>
     (ei_min_defined b \<longrightarrow> 0 \<le> ei_min b) \<and> (ei_max_defined b \<longrightarrow> 0 \<le> ei_max b)"

lemma upper_product:
  fixes x y :: int
  assumes "x \<le> a2" and "0 \<le> a2" and "0 \<le> y" and "y \<le> b2"
  shows "x * y \<le> a2 * b2"
  using mult_right_mono [OF assms(1,3)] mult_left_mono [OF assms(4,2)] by linarith

lemma mul_bounds_sound:
  assumes a: "info_within (2 ^ 31) a" "info_mem x a" and b: "info_within (2 ^ 31) b" "info_mem y b"
    and i: "info_mem (x * y) i" "bounds_within (2 ^ 62) i" and fit: "mul_ends_fit a b"
  shows "(ei_min_defined (mul_bounds i a b) \<longrightarrow> ei_min (mul_bounds i a b) \<le> x * y) \<and>
     (ei_max_defined (mul_bounds i a b) \<longrightarrow> x * y \<le> ei_max (mul_bounds i a b)) \<and> bounds_within (2 ^ 62) (mul_bounds i a b)"
proof -
  note A = withinD [OF a(1)] info_memD(1,2) [OF a(2)] and B = withinD [OF b(1)] info_memD(1,2) [OF b(2)]
  note I = info_memD(1,2) [OF i(1)] and W = i(2) [unfolded bounds_within_def]
  note ps = small_product [OF A(1) B(1)] small_product [OF A(1) B(2)] small_product [OF A(2) B(1)] small_product [OF A(2) B(2)]
  show ?thesis
  proof (cases "ei_bounded a \<and> ei_bounded b")
    case True
    then have d: "ei_min_defined a" "ei_max_defined a" "ei_min_defined b" "ei_max_defined b" by (auto simp: ei_bounded_def)
    then have "min (min (ei_min a * ei_min b) (ei_min a * ei_max b)) (min (ei_max a * ei_min b) (ei_max a * ei_max b)) \<le> x * y"
      "x * y \<le> max (max (ei_min a * ei_min b) (ei_min a * ei_max b)) (max (ei_max a * ei_min b) (ei_max a * ei_max b))"
      using product_between A(3,4) B(3,4) by blast+
    then show ?thesis using True ps(1) [OF d(1,3)] ps(2) [OF d(1,4)] ps(3) [OF d(2,3)] ps(4) [OF d(2,4)]
      by (simp add: mul_bounds_def Let_def small_wrap bounds_within_def min_def max_def)
  next
    case False
    then have f: "ei_min_defined a \<longrightarrow> 0 \<le> ei_min a" "ei_max_defined a \<longrightarrow> 0 \<le> ei_max a"
      "ei_min_defined b \<longrightarrow> 0 \<le> ei_min b" "ei_max_defined b \<longrightarrow> 0 \<le> ei_max b" using fit by (auto simp: mul_ends_fit_def)
    let ?up = "ei_max_defined a \<and> ei_bounded b \<and> ei_positive b \<or> ei_max_defined b \<and> ei_bounded a \<and> ei_positive a"
    let ?low = "ei_min_defined a \<and> ei_bounded b \<and> ei_positive b \<or> ei_min_defined b \<and> ei_bounded a \<and> ei_positive a"
    consider ?up | "\<not> ?up" ?low | "\<not> ?up" "\<not> ?low" by blast
    then show ?thesis
    proof cases
      case 1
      then have d: "ei_max_defined a" "ei_max_defined b" and s: "0 \<le> x \<or> 0 \<le> y"
        using A(3) B(3) by (auto simp: ei_bounded_def ei_positive_def)
      have e: "x \<le> ei_max a" "y \<le> ei_max b" "0 \<le> ei_max a" "0 \<le> ei_max b" using d A(4) B(4) f by auto
      have "x * y \<le> ei_max a * ei_max b"
        using s upper_product [OF e(1,3) _ e(2)] upper_product [OF e(2,4) _ e(1)] mult.commute [of x y] mult.commute [of "ei_max a"]
        by metis
      moreover have "mul_bounds i a b = i\<lparr>ei_max_defined := True, ei_max := ei_max a * ei_max b\<rparr>"
        using 1 False small_wrap [OF ps(4) [OF d]] unfolding mul_bounds_def by (simp only: if_True if_False)
      ultimately show ?thesis using I W ps(4) [OF d] by (simp add: bounds_within_def)
    next
      case 2
      then have d: "ei_min_defined a" "ei_min_defined b" by (auto simp: ei_bounded_def)
      then have "ei_min a * ei_min b \<le> x * y" using A(3) B(3) f by (intro mult_mono) auto
      moreover have "mul_bounds i a b = i\<lparr>ei_min_defined := True, ei_min := ei_min a * ei_min b\<rparr>"
        using 2 False small_wrap [OF ps(1) [OF d]] unfolding mul_bounds_def by (simp only: if_True if_False)
      ultimately show ?thesis using I W ps(1) [OF d] by (simp add: bounds_within_def)
    next
      case 3
      then have "mul_bounds i a b = i" using False unfolding mul_bounds_def by (simp only: if_False)
      then show ?thesis using I W by (simp add: bounds_within_def)
    qed
  qed
qed

lemma info_Mul_sound:
  assumes a: "info_within (2 ^ 31) a" "info_mem x a" and b: "info_within (2 ^ 31) b" "info_mem y b"
    and i: "info_mem (x * y) i" "bounds_within (2 ^ 62) i" and fit: "mul_ends_fit a b"
  shows "info_mem (x * y) (info_Mul i a b)"
  unfolding info_Mul_def
proof (rule trim_sound)
  show "info_mem (x * y) ((mul_bounds i a b)\<lparr>ei_alignment := mr_mul (ei_alignment a) (ei_alignment b)\<rparr>)"
    "bounds_within (2 ^ 62) ((mul_bounds i a b)\<lparr>ei_alignment := mr_mul (ei_alignment a) (ei_alignment b)\<rparr>)"
    using mul_bounds_sound [OF assms] mr_mul_sound [OF small_mr_ok [OF a(1)] small_mr_ok [OF b(1)]]
      info_memD(3) [OF a(2)] info_memD(3) [OF b(2)] by (auto simp: info_mem_def bounds_within_def)
qed (simp add: trimmable_mul [OF a(1) b(1)])

subsection \<open>Quotients and remainders\<close>

lemma div_mono_num: "(x :: int) \<le> x' \<Longrightarrow> 0 < y \<Longrightarrow> x div y \<le> x' div y"
  by (rule zdiv_mono1)

lemma div_antimono_den:
  fixes x :: int
  assumes "0 < y" and "y \<le> y'"
  shows "0 \<le> x \<Longrightarrow> x div y' \<le> x div y" "x < 0 \<Longrightarrow> x div y \<le> x div y'"
  using assms by (auto intro: zdiv_mono2 zdiv_mono2_neg)

text \<open>A quotient by a positive number is between the quotients at the ends, or zero when there is no last one.\<close>

lemma div_lower:
  fixes x y :: int
  assumes "a1 \<le> x" and "0 < b1" and "b1 \<le> y" and "y \<le> b2 \<or> m \<le> 0" and "m \<le> a1 div b1" and "y \<le> b2 \<Longrightarrow> m \<le> a1 div b2"
  shows "m \<le> x div y"
proof -
  have y: "0 < y" using assms(2,3) by simp
  have 1: "a1 div y \<le> x div y" by (rule div_mono_num [OF assms(1) y])
  show ?thesis
  proof (cases "a1 < 0")
    case True
    then show ?thesis using div_antimono_den(2) [OF assms(2,3)] assms(5) 1 by force
  next
    case False
    then have "m \<le> a1 div y"
      using div_antimono_den(1) [OF y, of b2 a1] assms(4,6) pos_imp_zdiv_nonneg_iff [OF y, of a1] by linarith
    then show ?thesis using 1 by linarith
  qed
qed

lemma div_upper:
  fixes x y :: int
  assumes "x \<le> a2" and "0 < b1" and "b1 \<le> y" and "y \<le> b2 \<or> 0 \<le> m" and "a2 div b1 \<le> m" and "y \<le> b2 \<Longrightarrow> a2 div b2 \<le> m"
  shows "x div y \<le> m"
proof -
  have y: "0 < y" using assms(2,3) by simp
  have 1: "x div y \<le> a2 div y" by (rule div_mono_num [OF assms(1) y])
  show ?thesis
  proof (cases "a2 < 0")
    case True
    then have "a2 div y \<le> m"
      using div_antimono_den(2) [OF y, of b2 a2] assms(4,6) pos_imp_zdiv_neg_iff [OF y, of a2] by linarith
    then show ?thesis using 1 by linarith
  next
    case False
    then show ?thesis using div_antimono_den(1) [OF assms(2,3), of a2] assms(5) 1 by linarith
  qed
qed

lemma div_imp_small: "\<bar>u\<bar> \<le> 2 ^ 31 \<Longrightarrow> \<bar>v\<bar> \<le> 2 ^ 31 \<Longrightarrow> v \<noteq> 0 \<Longrightarrow> div_imp u v = ediv u v"
  by (rule div_imp_eq_ediv) (auto simp: s64_iff)

lemma ediv_small: "\<bar>u\<bar> \<le> n \<Longrightarrow> v \<noteq> 0 \<Longrightarrow> \<bar>ediv u v\<bar> \<le> (n :: int)"
proof -
  assume u: "\<bar>u\<bar> \<le> n" and v: "v \<noteq> 0"
  have "\<bar>u div w\<bar> \<le> n" if "0 < w" for w :: int
    using div_lower [of "-n" u 1 w 0 "-n"] div_upper [of u n 1 w 0 n] u that by (simp add: abs_le_iff)
  then show ?thesis using v ediv_neg [of v u] by (cases "0 < v") auto
qed

lemma div_ends_bound:
  assumes "info_within (2 ^ 31) a" and "info_within (2 ^ 31) b" and "e \<in> set (div_ends a b)"
  shows "\<bar>e\<bar> \<le> 2 ^ 31"
  using assms(3) withinD [OF assms(1)] withinD [OF assms(2)] ediv_small div_imp_small
  by (auto simp: div_ends_def split: if_splits)

lemma div_end:
  assumes "info_within (2 ^ 31) a" and "info_within (2 ^ 31) b"
  shows "ei_min_defined a \<Longrightarrow> ei_min_defined b \<Longrightarrow> ei_min b \<noteq> 0 \<Longrightarrow> ediv (ei_min a) (ei_min b) \<in> set (div_ends a b)"
    and "ei_min_defined a \<Longrightarrow> ei_max_defined b \<Longrightarrow> ei_max b \<noteq> 0 \<Longrightarrow> ediv (ei_min a) (ei_max b) \<in> set (div_ends a b)"
    and "ei_max_defined a \<Longrightarrow> ei_max_defined b \<Longrightarrow> ei_max b \<noteq> 0 \<Longrightarrow> ediv (ei_max a) (ei_max b) \<in> set (div_ends a b)"
    and "ei_max_defined a \<Longrightarrow> ei_min_defined b \<Longrightarrow> ei_min b \<noteq> 0 \<Longrightarrow> ediv (ei_max a) (ei_min b) \<in> set (div_ends a b)"
    and "ei_positive b \<and> \<not> ei_max_defined b \<or> ei_negative b \<and> \<not> ei_min_defined b \<Longrightarrow> 0 \<in> set (div_ends a b)"
  using withinD [OF assms(1)] withinD [OF assms(2)] by (simp_all add: div_ends_def flip: div_imp_small)

lemma div_ends_pos:
  assumes w: "info_within (2 ^ 31) a" "info_within (2 ^ 31) b" and y: "info_mem y b" "ei_positive b"
  shows "ei_min_defined a \<Longrightarrow> ei_min a \<le> x \<Longrightarrow> \<forall>e \<in> set (div_ends a b). m \<le> e \<Longrightarrow> m \<le> ediv x y"
    and "ei_max_defined a \<Longrightarrow> x \<le> ei_max a \<Longrightarrow> \<forall>e \<in> set (div_ends a b). e \<le> m \<Longrightarrow> ediv x y \<le> m"
proof -
  have b: "ei_min_defined b" "0 < ei_min b" "ei_min b \<le> y" using y by (auto simp: ei_positive_def info_memD(1))
  define t where "t = (if ei_max_defined b then ei_max b else y - 1)"
  have mx: "ei_max_defined b \<Longrightarrow> y \<le> ei_max b" using info_memD(2) [OF y(1)] .
  note e = div_end [OF w]
  have p: "ei_max_defined b \<Longrightarrow> 0 < ei_max b" "ediv x y = x div y" using b mx by auto
  show "m \<le> ediv x y" if a: "ei_min_defined a" "ei_min a \<le> x" "\<forall>e \<in> set (div_ends a b). m \<le> e"
  proof -
    have "m \<le> ei_min a div ei_min b" using e(1) [OF a(1) b(1)] b(2) a(3) by force
    moreover have "m \<le> ei_min a div t" if "y \<le> t"
      using that e(2) [OF a(1)] p(1) a(3) by (force simp: t_def split: if_splits)
    moreover have "y \<le> t \<or> m \<le> 0" using mx e(5) y(2) a(3) by (force simp: t_def)
    ultimately show ?thesis using div_lower [OF a(2) b(2,3), of t m] p(2) by linarith
  qed
  show "ediv x y \<le> m" if a: "ei_max_defined a" "x \<le> ei_max a" "\<forall>e \<in> set (div_ends a b). e \<le> m"
  proof -
    have "ei_max a div ei_min b \<le> m" using e(4) [OF a(1) b(1)] b(2) a(3) by force
    moreover have "ei_max a div t \<le> m" if "y \<le> t"
      using that e(3) [OF a(1)] p(1) a(3) by (force simp: t_def split: if_splits)
    moreover have "y \<le> t \<or> 0 \<le> m" using mx e(5) y(2) a(3) by (force simp: t_def)
    ultimately show ?thesis using div_upper [OF a(2) b(2,3), of t m] p(2) by linarith
  qed
qed

lemma div_ends_neg:
  assumes w: "info_within (2 ^ 31) a" "info_within (2 ^ 31) b" and y: "info_mem y b" "ei_negative b"
  shows "ei_max_defined a \<Longrightarrow> x \<le> ei_max a \<Longrightarrow> \<forall>e \<in> set (div_ends a b). m \<le> e \<Longrightarrow> m \<le> ediv x y"
    and "ei_min_defined a \<Longrightarrow> ei_min a \<le> x \<Longrightarrow> \<forall>e \<in> set (div_ends a b). e \<le> m \<Longrightarrow> ediv x y \<le> m"
proof -
  have b: "ei_max_defined b" "0 < - ei_max b" "- ei_max b \<le> - y" using y by (auto simp: ei_negative_def info_memD(2))
  have q: "ediv x y = - (x div - y)" using b by (intro ediv_neg) simp
  define t where "t = (if ei_min_defined b then - ei_min b else - y - 1)"
  have mn: "ei_min_defined b \<Longrightarrow> ei_min b \<le> y" using info_memD(1) [OF y(1)] .
  note e = div_end [OF w]
  have n: "ei_max b < 0" "ei_min_defined b \<Longrightarrow> ei_min b < 0" using b mn by auto
  show "m \<le> ediv x y" if a: "ei_max_defined a" "x \<le> ei_max a" "\<forall>e \<in> set (div_ends a b). m \<le> e"
  proof -
    have "ei_max a div - ei_max b \<le> - m" using e(3) [OF a(1) b(1)] n(1) a(3) ediv_neg [OF n(1)] by force
    moreover have "ei_max a div t \<le> - m" if "- y \<le> t"
      using that e(4) [OF a(1)] n(2) a(3) ediv_neg [of "ei_min b"] by (force simp: t_def split: if_splits)
    moreover have "- y \<le> t \<or> 0 \<le> - m" using mn e(5) y(2) a(3) by (force simp: t_def)
    ultimately show ?thesis using div_upper [OF a(2) b(2,3), of t "- m"] q by linarith
  qed
  show "ediv x y \<le> m" if a: "ei_min_defined a" "ei_min a \<le> x" "\<forall>e \<in> set (div_ends a b). e \<le> m"
  proof -
    have "- m \<le> ei_min a div - ei_max b" using e(2) [OF a(1) b(1)] n(1) a(3) ediv_neg [OF n(1)] by force
    moreover have "- m \<le> ei_min a div t" if "- y \<le> t"
      using that e(1) [OF a(1)] n(2) a(3) ediv_neg [of "ei_min b"] by (force simp: t_def split: if_splits)
    moreover have "- y \<le> t \<or> - m \<le> 0" using mn e(5) y(2) a(3) by (force simp: t_def)
    ultimately show ?thesis using div_lower [OF a(2) b(2,3), of t "- m"] q by linarith
  qed
qed

lemma foldl_min:
  fixes m :: int
  shows "foldl min m es \<in> insert m (set es)" and "foldl min m es \<le> m" and "e \<in> set es \<Longrightarrow> foldl min m es \<le> e"
proof -
  have "foldl min m es \<in> insert m (set es) \<and> foldl min m es \<le> m \<and> (\<forall>e \<in> set es. foldl min m es \<le> e)"
    by (induction es arbitrary: m) (force simp: min_def)+
  then show "foldl min m es \<in> insert m (set es)" "foldl min m es \<le> m" "e \<in> set es \<Longrightarrow> foldl min m es \<le> e" by blast+
qed

lemma foldl_max:
  fixes m :: int
  shows "foldl max m es \<in> insert m (set es)" and "m \<le> foldl max m es" and "e \<in> set es \<Longrightarrow> e \<le> foldl max m es"
proof -
  have "foldl max m es \<in> insert m (set es) \<and> m \<le> foldl max m es \<and> (\<forall>e \<in> set es. e \<le> foldl max m es)"
    by (induction es arbitrary: m) (force simp: max_def)+
  then show "foldl max m es \<in> insert m (set es)" "m \<le> foldl max m es" "e \<in> set es \<Longrightarrow> e \<le> foldl max m es" by blast+
qed

text \<open>What a quotient is known to be, before its bounds are trimmed.\<close>

lemma div_bounds_sound:
  fixes i :: expr_info
  assumes a: "info_within (2 ^ 31) a" "info_mem x a" and b: "info_within (2 ^ 31) b" "info_mem y b"
  defines "d \<equiv> div_bounds i a b"
  shows "(ei_min_defined d \<longrightarrow> ei_min d \<le> ediv x y) \<and> (ei_max_defined d \<longrightarrow> ediv x y \<le> ei_max d) \<and> bounds_within (2 ^ 31) d"
proof -
  let ?l = "foldl min (2 ^ 63 - 1) (div_ends a b)" and ?u = "foldl max (- (2 ^ 63)) (div_ends a b)"
  have l: "\<forall>e \<in> set (div_ends a b). ?l \<le> e" and u: "\<forall>e \<in> set (div_ends a b). e \<le> ?u" using foldl_min(3) foldl_max(3) by blast+
  have e: "\<bar>?l\<bar> \<le> 2 ^ 31" "\<bar>?u\<bar> \<le> 2 ^ 31" if e: "e \<in> set (div_ends a b)" for e
  proof -
    have "?l \<le> e" "e \<le> ?u" using l u e by blast+
    moreover have "\<bar>e\<bar> \<le> 2 ^ 31" by (rule div_ends_bound [OF a(1) b(1) e])
    ultimately have "?l \<noteq> 2 ^ 63 - 1" "?u \<noteq> - (2 ^ 63)" by (auto simp del: foldl_Cons)
    then have "?l \<in> set (div_ends a b)" "?u \<in> set (div_ends a b)"
      using foldl_min(1) [of "2 ^ 63 - 1" "div_ends a b"] foldl_max(1) [of "- (2 ^ 63)" "div_ends a b"] by blast+
    then show "\<bar>?l\<bar> \<le> 2 ^ 31" "\<bar>?u\<bar> \<le> 2 ^ 31" using div_ends_bound [OF a(1) b(1)] by blast+
  qed
  have ne: "div_ends a b \<noteq> []" if "ei_min_defined a \<or> ei_max_defined a" "ei_positive b \<or> ei_negative b"
    using that by (auto simp: div_ends_def ei_positive_def ei_negative_def)
  then have w: "\<bar>?l\<bar> \<le> 2 ^ 31" "\<bar>?u\<bar> \<le> 2 ^ 31" if "ei_min_defined a \<or> ei_max_defined a" "ei_positive b \<or> ei_negative b"
    using that e by (metis list.set_sel(1))+
  show ?thesis
    unfolding d_def div_bounds_def
    using div_ends_pos [OF a(1) b, where x = x] div_ends_neg [OF a(1) b, where x = x] info_memD(1,2) [OF a(2)] l u w
    by (auto simp: bounds_within_def)
qed

lemma div_fits_small:
  "info_within (2 ^ 31) a \<Longrightarrow> \<not> (mr_remainder (ei_alignment b) = -1 \<and>
     (mr_remainder (ei_alignment a) = - (2 ^ 63) \<or> mr_modulus (ei_alignment a) = - (2 ^ 63)))"
  using normal_modulus [of "ei_alignment a"] by (auto simp: info_within_def)

lemma info_Div_sound:
  assumes a: "info_within (2 ^ 31) a" "info_mem x a" and b: "info_within (2 ^ 31) b" "info_mem y b"
    and y: "y \<noteq> 0" and i: "info_mem (ediv x y) i"
  shows "info_mem (ediv x y) (info_Div i a b)"
proof -
  let ?d = "div_bounds i a b"
  note d = div_bounds_sound [OF a b, of i]
  show ?thesis
  proof (cases "single_point ?d")
    case True
    moreover have "ei_alignment ?d = ei_alignment i" by (simp add: div_bounds_def)
    ultimately show ?thesis using d info_memD(3) [OF i] by (simp add: info_Div_def info_mem_def)
  next
    case False
    let ?e = "?d\<lparr>ei_min := if ei_min_defined ?d then ei_min ?d else 0, ei_max := if ei_max_defined ?d then ei_max ?d else 0,
        ei_alignment := mr_div (ei_alignment a) (ei_alignment b)\<rparr>"
    have "mr_mem (ediv x y) (mr_div (ei_alignment a) (ei_alignment b))"
      by (rule mr_div_sound [OF small_mr_ok [OF a(1)] small_mr_ok [OF b(1)] info_memD(3) [OF a(2)] info_memD(3) [OF b(2)] y
            div_fits_small [OF a(1)]])
    then have "info_mem (ediv x y) ?e" using d by (simp add: info_mem_def)
    moreover have "bounds_within (2 ^ 62) ?e" using d by (auto simp: bounds_within_def)
    ultimately have "info_mem (ediv x y) (trim_bounds_using_alignment ?e)"
      by (rule trim_sound) (simp add: trimmable_div [OF a(1) b(1)])
    then show ?thesis using False by (simp add: info_Div_def Let_def)
  qed
qed

lemma info_Mod_sound:
  assumes a: "info_within (2 ^ 31) a" "info_mem x a" and b: "info_within (2 ^ 31) b" "info_mem y b" and y: "y \<noteq> 0"
  shows "info_mem (emod x y) (info_Mod a b)"
proof -
  define known where "known \<longleftrightarrow> ei_min_defined b \<and> ei_max_defined b \<and> (ei_min b > 0 \<or> ei_max b < 0)"
  let ?e = "\<lparr>ei_min = 0, ei_max = s_wrap 64 (max \<bar>ei_min b\<bar> \<bar>ei_max b\<bar> - 1), ei_min_defined = known, ei_max_defined = known,
      ei_alignment = mr_mod (ei_alignment a) (ei_alignment b)\<rparr>"
  have w: "\<bar>max \<bar>ei_min b\<bar> \<bar>ei_max b\<bar> - 1\<bar> \<le> 2 ^ 62" "\<bar>y\<bar> \<le> max \<bar>ei_min b\<bar> \<bar>ei_max b\<bar>" if known
    using that withinD [OF b(1)] info_memD(1,2) [OF b(2)] by (auto simp: known_def)
  have "mr_mem (emod x y) (mr_mod (ei_alignment a) (ei_alignment b))"
    by (rule mr_mod_sound [OF small_mr_ok [OF a(1)] small_mr_ok [OF b(1)] info_memD(3) [OF a(2)] info_memD(3) [OF b(2)]])
  then have "info_mem (emod x y) ?e"
    using w emod_nonneg [OF y, of x] emod_less [OF y, of x] by (auto simp: info_mem_def small_wrap)
  moreover have "bounds_within (2 ^ 62) ?e" using w(1) by (auto simp: bounds_within_def small_wrap)
  ultimately have "info_mem (emod x y) (trim_bounds_using_alignment ?e)"
    by (rule trim_sound) (simp add: trimmable_modulo [OF a(1) b(1)])
  then show ?thesis by (simp add: info_Mod_def Let_def known_def)
qed

subsection \<open>Minima, maxima, selections and ramps\<close>

lemma unify_small:
  assumes a: "info_within (2 ^ 31) a" and b: "info_within (2 ^ 31) b"
  obtains m where "mr_unify (ei_alignment a) (ei_alignment b) = Inr m" "trimmable m"
    "\<And>x. mr_mem x (ei_alignment a) \<or> mr_mem x (ei_alignment b) \<Longrightarrow> mr_mem x m"
proof -
  have "unify_fits (ei_alignment a) (ei_alignment b)" using a b by (auto simp: info_within_def unify_fits_def s64_iff)
  from mr_unify_sound [OF small_mr_ok [OF a] small_mr_ok [OF b] this] obtain m
    where m: "mr_unify (ei_alignment a) (ei_alignment b) = Inr m" "\<forall>x. mr_mem x (ei_alignment a) \<or> mr_mem x (ei_alignment b) \<longrightarrow> mr_mem x m"
    by blast
  then show thesis using that [OF m(1) trimmable_unify [OF a b m(1)]] by blast
qed

lemma info_choice_sound:
  assumes a: "info_within (2 ^ 31) a" "info_mem x a" and b: "info_within (2 ^ 31) b" "info_mem y b"
  shows "\<exists>i. info_Min a b = Inr i \<and> info_mem (min x y) i" "\<exists>i. info_Max a b = Inr i \<and> info_mem (max x y) i"
    "\<exists>i. info_Select a b = Inr i \<and> info_mem (if c then x else y) i"
proof -
  obtain m where m: "mr_unify (ei_alignment a) (ei_alignment b) = Inr m" "trimmable m"
    "\<And>x. mr_mem x (ei_alignment a) \<or> mr_mem x (ei_alignment b) \<Longrightarrow> mr_mem x m"
    using unify_small [OF a(1) b(1)] by blast
  note A = withinD [OF a(1)] info_memD(1,2) [OF a(2)] and B = withinD [OF b(1)] info_memD(1,2) [OF b(2)]
  have mm: "mr_mem x m" "mr_mem y m" using m(3) info_memD(3) [OF a(2)] info_memD(3) [OF b(2)] by blast+
  then have al: "mr_mem (min x y) m" "mr_mem (max x y) m" "mr_mem (if c then x else y) m" by (simp_all add: min_def max_def)
  have "info_mem (min x y) (trim_bounds_using_alignment \<lparr>ei_min = min (ei_min a) (ei_min b),
        ei_max = (if ei_max_defined a \<and> ei_max_defined b then min (ei_max a) (ei_max b)
                  else if ei_max_defined a then ei_max a else ei_max b),
        ei_min_defined = (ei_min_defined a \<and> ei_min_defined b), ei_max_defined = (ei_max_defined a \<or> ei_max_defined b),
        ei_alignment = m\<rparr>)"
    by (rule trim_sound) (use A B al(1) m(2) in \<open>auto simp: info_mem_def bounds_within_def min_def\<close>)
  then show "\<exists>i. info_Min a b = Inr i \<and> info_mem (min x y) i" by (simp add: info_Min_def m(1))
  have "info_mem (max x y) (trim_bounds_using_alignment
       \<lparr>ei_min = (if ei_min_defined a \<and> ei_min_defined b then max (ei_min a) (ei_min b)
                  else if ei_min_defined a then ei_min a else ei_min b),
        ei_max = max (ei_max a) (ei_max b),
        ei_min_defined = (ei_min_defined a \<or> ei_min_defined b), ei_max_defined = (ei_max_defined a \<and> ei_max_defined b),
        ei_alignment = m\<rparr>)"
    by (rule trim_sound) (use A B al(2) m(2) in \<open>auto simp: info_mem_def bounds_within_def max_def\<close>)
  then show "\<exists>i. info_Max a b = Inr i \<and> info_mem (max x y) i" by (simp add: info_Max_def m(1))
  have "info_mem (if c then x else y) (trim_bounds_using_alignment
       \<lparr>ei_min = min (ei_min a) (ei_min b), ei_max = max (ei_max a) (ei_max b),
        ei_min_defined = (ei_min_defined a \<and> ei_min_defined b), ei_max_defined = (ei_max_defined a \<and> ei_max_defined b),
        ei_alignment = m\<rparr>)"
    by (rule trim_sound) (use A B al(3) m(2) in \<open>auto simp: info_mem_def bounds_within_def min_def max_def\<close>)
  then show "\<exists>i. info_Select a b = Inr i \<and> info_mem (if c then x else y) i" by (simp add: info_Select_def m(1))
qed

lemma lane_between:
  fixes y :: int
  assumes "l < lanes" and "s \<le> y"
  shows "min 0 ((int lanes - 1) * s) \<le> int l * y"
proof -
  have "int l * s \<le> int l * y" using assms(2) by (simp add: mult_left_mono)
  moreover have "min 0 ((int lanes - 1) * s) \<le> int l * s"
    using assms(1) mult_right_mono_neg [of "int l" "int lanes - 1" s] by (cases "0 \<le> s") (auto simp: min_le_iff_disj)
  ultimately show ?thesis by linarith
qed

lemma info_Ramp_sound:
  assumes a: "info_within (2 ^ 31) a" "info_mem x a" and b: "info_within (2 ^ 31) b" "info_mem y b"
    and l: "l < lanes" "lanes \<le> 2 ^ 16"
  shows "info_mem (x + int l * y) (info_Ramp lanes a b)"
proof -
  let ?n = "int lanes - 1"
  have n: "\<bar>?n\<bar> \<le> 2 ^ 16" using l by auto
  have s: "\<bar>?n * s\<bar> \<le> 2 ^ 47" if "\<bar>s\<bar> \<le> 2 ^ 31" for s using mult_mono [OF n that] by (simp add: abs_mult)
  have w: "s_wrap 64 (c + s_wrap 64 (?n * s)) = c + ?n * s" if "\<bar>s\<bar> \<le> 2 ^ 31" "\<bar>c\<bar> \<le> 2 ^ 31" for c s
    using s [OF that(1)] that(2) by (simp add: small_wrap)
  note A = withinD [OF a(1)] info_memD(1,2) [OF a(2)] and B = withinD [OF b(1)] info_memD(1,2) [OF b(2)]
  have lo: "min (ei_min a) (ei_min a + ?n * ei_min b) \<le> x + int l * y" if "ei_min_defined a" "ei_min_defined b"
    using lane_between [OF l(1) B(3) [OF that(2)]] A(3) [OF that(1)] by linarith
  have hi: "x + int l * y \<le> max (ei_max a) (ei_max a + ?n * ei_max b)" if "ei_max_defined a" "ei_max_defined b"
    using lane_between [OF l(1), of "- ei_max b" "- y"] A(4) [OF that(1)] B(4) [OF that(2)] by simp
  let ?g = "halide_gcd (mr_modulus (ei_alignment b)) (mr_remainder (ei_alignment b))"
  let ?m = "halide_gcd ?g (mr_modulus (ei_alignment a))"
  have "?m dvd y - mr_remainder (ei_alignment b)" "?m dvd mr_remainder (ei_alignment b)"
    using info_memD(3) [OF b(2)] by (auto simp: mr_mem_def intro: halide_gcd_dvd_trans dvd_trans)
  then have "?m dvd y" by (metis diff_add_cancel dvd_add)
  moreover have "?m dvd x - mr_remainder (ei_alignment a)"
    using info_memD(3) [OF a(2)] by (auto simp: mr_mem_def intro: halide_gcd_dvd_trans)
  ultimately have "?m dvd x - mr_remainder (ei_alignment a) + int l * y" by simp
  then have d: "?m dvd x + int l * y - mr_remainder (ei_alignment a)" by (simp add: algebra_simps)
  have "is_s64 ?m" using small_mr_ok [OF a(1)] small_mr_ok [OF b(1)] by (simp add: mr_ok_def)
  from mr_mod_int_cong [OF this, THEN iffD1, OF d]
  have "mr_mem (x + int l * y) (mk_mr ?m (mr_mod_int (mr_remainder (ei_alignment a)) ?m))" by (simp add: mr_mem_def)
  moreover have "mk_mr ?m (mr_mod_int (mr_remainder (ei_alignment a)) ?m) = ei_alignment (info_Ramp lanes a b)"
    by (simp add: info_Ramp_def Let_def mr_mod_int_def)
  moreover have "ei_min (info_Ramp lanes a b) \<le> x + int l * y" if "ei_min_defined a" "ei_min_defined b"
    using lo [OF that] w [OF B(1) A(1)] that by (simp add: info_Ramp_def Let_def)
  moreover have "x + int l * y \<le> ei_max (info_Ramp lanes a b)" if "ei_max_defined a" "ei_max_defined b"
    using hi [OF that] w [OF B(2) A(2)] that by (simp add: info_Ramp_def Let_def)
  ultimately show ?thesis unfolding info_mem_def by (simp add: info_Ramp_def Let_def)
qed

subsection \<open>Decisions\<close>

lemma normal_nonzero: "mr_normal m \<Longrightarrow> mr_mem v m \<Longrightarrow> mr_remainder m \<noteq> 0 \<Longrightarrow> v \<noteq> 0"
  using zdvd_not_zless [of "mr_remainder m" "mr_modulus m"] by (auto simp: mr_normal_def mr_mem_def)

lemma known_le_sound: "known_le a b \<Longrightarrow> info_mem x a \<Longrightarrow> info_mem y b \<Longrightarrow> x \<le> y"
  using info_memD(2) [of x a] info_memD(1) [of y b] by (auto simp: known_le_def)

lemma lt_known_sound: "lt_known a b = Some t \<Longrightarrow> info_mem x a \<Longrightarrow> info_mem y b \<Longrightarrow> x < y \<longleftrightarrow> t"
  by (auto simp: lt_known_def info_mem_def split: if_splits)

lemma mod_unchanged_sound: "mod_unchanged a b \<Longrightarrow> info_mem x a \<Longrightarrow> info_mem y b \<Longrightarrow> emod x y = x"
  by (auto simp: mod_unchanged_def info_mem_def emod_def)

lemma non_zero_sound:
  assumes "info_within n i" and "info_mem v i"
  shows "denominator_non_zero i \<Longrightarrow> v \<noteq> 0" and "eq_refuted i \<Longrightarrow> v \<noteq> 0"
  using normal_nonzero [of "ei_alignment i" v] assms
  by (auto simp: denominator_non_zero_def eq_refuted_def info_within_def info_mem_def)

subsection \<open>Properties\<close>


lemmas info_eval = info_Add_def info_Mul_def info_Mod_def info_Min_def mul_bounds_def ei_bounded_def ei_positive_def
  trim_bounds_using_alignment_def align_bounds_def single_point_def trim_min_def trim_max_def info_point_def
  no_info_def mr_mod_def mr_eval




text \<open>
  C27. The visit of a product is not sound when an operand is bounded on one side only by a negative number.
  For \<open>min(x, -5) * (y % 10 + 1)\<close> it concludes that the product is at most \<open>-50\<close>, and so the simplifier replaces
  the comparison of this product with \<open>-30\<close> by \<open>true\<close>; but for \<open>x = 0\<close> and \<open>y = 0\<close> the product is \<open>-5\<close>.
\<close>

theorem mul_one_sided_unsound:
  "\<exists>a. info_Min no_info (info_point (-5)) = Inr a \<and>
     (let b = info_Add (info_Mod no_info (info_point 10)) (info_point 1); m = info_Mul no_info a b in
      info_mem (min 0 (-5)) a \<and> info_mem (emod 0 10 + 1) b \<and>
      ei_max_defined m \<and> ei_max m = -50 \<and> lt_known m (info_point (-30)) = Some True \<and>
      \<not> min 0 (-5) * (emod 0 10 + 1) < (-30 :: int))"
proof -
  let ?a = "\<lparr>ei_min = -5, ei_max = -5, ei_min_defined = False, ei_max_defined = True, ei_alignment = mr_top\<rparr>"
  let ?b = "\<lparr>ei_min = 1, ei_max = 10, ei_min_defined = True, ei_max_defined = True, ei_alignment = mr_top\<rparr>"
  have a: "info_Min no_info (info_point (-5)) = Inr ?a" by (simp add: info_eval)
  have b: "info_Add (info_Mod no_info (info_point 10)) (info_point 1) = ?b" by (simp add: info_eval)
  have m: "ei_max_defined (info_Mul no_info ?a ?b)" "ei_max (info_Mul no_info ?a ?b) = -50" by (simp_all add: info_eval)
  show ?thesis
    unfolding a b Let_def using m by (auto simp: info_mem_def lt_known_def info_point_def emod_def)
qed

text \<open>
  The bounds themselves overflow: for \<open>x\<close> between 0 and \<open>2^22\<close>, the largest value computed for \<open>x * x * x\<close> is
  \<open>2^66\<close>, which wraps around to 0, and the comparison of the product with 1 is replaced by \<open>true\<close>, also for
  \<open>x = 1\<close>, where nothing overflows in the program.
\<close>

lemma mul_bounds_overflow:
  defines "x \<equiv> \<lparr>ei_min = 0, ei_max = 2 ^ 22, ei_min_defined = True, ei_max_defined = True, ei_alignment = mr_top\<rparr>"
  shows "info_mem 1 x \<and> lt_known (info_Mul no_info (info_Mul no_info x x) x) (info_point 1) = Some True \<and> \<not> 1 * 1 * 1 < (1 :: int)"
proof -
  let ?y = "\<lparr>ei_min = 0, ei_max = 2 ^ 44, ei_min_defined = True, ei_max_defined = True, ei_alignment = mr_top\<rparr>"
  have top: "mr_mul mr_top mr_top = mr_top" by (simp add: mr_eval)
  have w: "s_wrap 64 73786976294838206464 = 0" by (simp add: s_wrap_def)
  have "info_Mul no_info x x = ?y"
    unfolding x_def info_Mul_def by (simp add: top) (simp add: info_eval)
  moreover have "ei_max (info_Mul no_info ?y x) = 0 \<and> ei_max_defined (info_Mul no_info ?y x)"
    unfolding x_def info_Mul_def by (simp add: top) (simp add: info_eval w)
  ultimately show ?thesis by (simp add: lt_known_def info_point_def info_mem_def x_def)
qed

end
