(* ===== verification/ScopedFactFacts.thy ===== *)
theory ScopedFactFacts
  imports ScopedFact ExprInfoFacts
begin

text \<open>
  A fact is learnt for a time: when it ends the simplifier knows what it knew before. And everything it
  knows while the fact lasts is true wherever the condition is.
\<close>

subsection \<open>Comparing a condition with itself\<close>

lemma compare_each_refl: "(\<And>x. f x x = Equal) \<Longrightarrow> compare_each f xs xs = Equal"
  by (induction xs) simp_all

lemma compare_scalar_refl [simp]: "compare_scalar x x = Equal" for x :: "'a::linorder"
  by (simp add: compare_scalar_def)

lemma compare_double_refl [simp]: "compare_double x x = Equal"
  by (simp add: compare_double_def dbl_less_def)

lemma compare_types_refl [simp]: "compare_types t t = Equal"
  by (cases "ty_handle t") (simp_all add: compare_types_def compare_handles_def same_pointer_def)

lemma compare_expr_refl [simp]: "compare_expr e e = Equal"
proof (induction e)
  case (Call t n as ct vi r)
  have "compare_expr_loop as as = Equal" using Call by (induction as) simp_all
  then show ?case by (simp add: compare_expr.simps)
next
  case (Shuffle vs "is")
  have "compare_expr_loop vs vs = Equal" using Shuffle by (induction vs) simp_all
  then show ?case by (simp add: compare_expr.simps compare_each_refl)
qed (simp_all add: compare_expr.simps)

lemma equivalent_refl [simp]: "equivalent e e"
  by (simp add: equivalent_def deep_compare_expr_def)

subsection \<open>Restoring what was known\<close>

text \<open>What the simplifier knows, apart from the numbers of uses it counts.\<close>

definition replacements :: "simplify_state \<Rightarrow> string \<Rightarrow> expr option list" where
  "replacements s n = map vi_replacement (ss_var_info s n)"

definition same_knowledge :: "simplify_state \<Rightarrow> simplify_state \<Rightarrow> bool" where
  "same_knowledge s s' \<longleftrightarrow> replacements s = replacements s' \<and> ss_bounds s = ss_bounds s' \<and>
     ss_truths s = ss_truths s' \<and> ss_falsehoods s = ss_falsehoods s'"

lemma pop_all_drop:
  "(\<And>n. count_list ns n \<le> length (sc n)) \<Longrightarrow> pop_all ns sc = Inr (\<lambda>n. drop (count_list ns n) (sc n))"
proof (induction ns arbitrary: sc)
  case (Cons m ns)
  from Cons.prems [of m] obtain x xs where m: "sc m = x # xs" by (cases "sc m") simp_all
  have "count_list ns n \<le> length ((sc(m := xs)) n)" for n
    using Cons.prems [of n] m by (auto split: if_splits)
  from Cons.IH [OF this] show ?case using m by (auto simp: scope_pop_def fun_eq_iff simp del: fun_upd_apply) (simp_all add: fun_eq_iff)
qed simp

text \<open>What a fact has pushed lies on top of what was known before it.\<close>

definition on_top :: "string list \<Rightarrow> (string \<Rightarrow> 'a list) \<Rightarrow> (string \<Rightarrow> 'a list) \<Rightarrow> bool" where
  "on_top ns old sc \<longleftrightarrow> (\<forall>n. count_list ns n \<le> length (sc n) \<and> drop (count_list ns n) (sc n) = old n)"

definition newly :: "expr list \<Rightarrow> expr list \<Rightarrow> expr list \<Rightarrow> bool" where
  "newly es old xs \<longleftrightarrow> xs = rev es @ old \<and> (\<forall>e\<in>set es. \<not> set_count e old)"

definition learnt_over :: "simplify_state \<Rightarrow> learning \<Rightarrow> bool" where
  "learnt_over s0 l \<longleftrightarrow> (case l of (s, f) \<Rightarrow>
     on_top (sf_pop_list f) (replacements s0) (replacements s) \<and> on_top (sf_bounds_pop_list f) (ss_bounds s0) (ss_bounds s) \<and>
     newly (sf_truths f) (ss_truths s0) (ss_truths s) \<and> newly (sf_falsehoods f) (ss_falsehoods s0) (ss_falsehoods s))"

lemma on_top_push: "on_top ns old sc \<Longrightarrow> on_top (ns @ [n]) old (scope_push n x sc)"
  by (auto simp: on_top_def scope_push_def)

lemma newly_insert:
  "newly es old xs \<Longrightarrow> \<not> set_count e xs \<Longrightarrow> newly (es @ [e]) old (e # xs)"
  by (auto simp: newly_def set_count_def)

lemma erase_newly: "newly es old xs \<Longrightarrow> fold set_erase es xs = old"
proof -
  have "fold set_erase es xs = filter (\<lambda>x. \<not> list_ex (\<lambda>e. equivalent e x) es) xs" for xs
    by (induction es arbitrary: xs) (auto simp: set_erase_def intro: filter_cong)
  moreover have "\<exists>e\<in>set es. equivalent e x" if "x \<in> set es" for x using that equivalent_refl by blast
  moreover assume "newly es old xs"
  ultimately show ?thesis
    by (auto simp: newly_def set_count_def list_ex_iff filter_empty_conv filter_id_conv)
qed

lemma replacements_push:
  "replacements (s\<lparr>ss_var_info := scope_push n v (ss_var_info s)\<rparr>) = scope_push n (vi_replacement v) (replacements s)"
  by (auto simp: replacements_def scope_push_def fun_eq_iff)

lemma replacements_update [simp]:
  "replacements (s\<lparr>ss_bounds := b\<rparr>) = replacements s" "replacements (s\<lparr>ss_truths := t\<rparr>) = replacements s"
  "replacements (s\<lparr>ss_falsehoods := t\<rparr>) = replacements s"
  by (simp_all add: replacements_def fun_eq_iff)

lemma learnt_replacement: "learnt_over s0 l \<Longrightarrow> learnt_over s0 (learn_replacement n e l)"
  by (cases l) (simp add: learnt_over_def learn_replacement_def replacements_push on_top_push)

lemma learnt_info: "learnt_over s0 l \<Longrightarrow> learnt_over s0 (learn_info n b l)"
  by (cases l) (simp add: learnt_over_def learn_info_def on_top_push)

lemma learnt_truth: "learnt_over s0 l \<Longrightarrow> learnt_over s0 (insert_truth e l)"
  by (cases l) (simp add: learnt_over_def insert_truth_def newly_insert)

lemma learnt_falsehood: "learnt_over s0 l \<Longrightarrow> learnt_over s0 (insert_falsehood e l)"
  by (cases l) (simp add: learnt_over_def insert_falsehood_def newly_insert)

lemma learnt_known: "learnt_over s0 (s, f) \<Longrightarrow> same_knowledge s s' \<Longrightarrow> learnt_over s0 (s', f)"
  by (simp add: learnt_over_def same_knowledge_def)

lemmas learnt_steps = learnt_replacement learnt_info learnt_truth learnt_falsehood

lemma learnt_var_const:
  "learnt_over s0 l \<Longrightarrow> (\<And>n i l. learnt_over s0 l \<Longrightarrow> learnt_over s0 (learn n i l)) \<Longrightarrow> learnt_over s0 (with_var_const learn v c l)"
  by (auto simp: with_var_const_def split: expr.splits option.splits)

lemma learnt_bound:
  "learnt_over s0 l \<Longrightarrow> learnt_over s0 (learn_upper_bound n i l)" "learnt_over s0 l \<Longrightarrow> learnt_over s0 (learn_lower_bound n i l)"
  by (simp_all add: learn_upper_bound_def learn_lower_bound_def learnt_info)

text \<open>A visit that returns leaves what is known as it was.\<close>

definition mutate_keeps :: "mutator \<Rightarrow> bool" where
  "mutate_keeps mut \<longleftrightarrow> (\<forall>e b s e' b' s'. mut e b s = Inr (e', b', s') \<longrightarrow> same_knowledge s s')"

lemma learnt_equal:
  assumes "mutate_keeps mut" and "learnt_over s0 l" and "learn_equal mut a b l = Inr l'"
  shows "learnt_over s0 l'"
proof -
  obtain s f where l: "l = (s, f)" by (cases l)
  have "learnt_over s0 (s', f)" if "mut b (Some no_info) s = Inr (e', b', s')" for e' b' s'
    using assms(1,2) learnt_known that l unfolding mutate_keeps_def by blast
  then show ?thesis using assms(2,3) l
    by (auto simp: learn_equal_def learnt_steps rbind_Inr_iff simp del: split_paired_Ex split: expr.splits option.splits binop.splits if_splits)
qed

lemma learnt_true_false:
  assumes "mutate_keeps mut" and "learnt_over s0 l"
  shows "(\<forall>l'. learn_true mut e l = Inr l' \<longrightarrow> learnt_over s0 l') \<and> (\<forall>l'. learn_false mut e l = Inr l' \<longrightarrow> learnt_over s0 l')"
  using assms(2)
proof (induction e arbitrary: l)
  case (Bin op a b)
  have "learn_true mut a l = Inr la \<Longrightarrow> learn_true mut b la = Inr l' \<Longrightarrow> learnt_over s0 l'"
    "learn_false mut a l = Inr la \<Longrightarrow> learn_false mut b la = Inr l' \<Longrightarrow> learnt_over s0 l'" for la l'
    using Bin.IH Bin.prems by blast+
  then show ?case using Bin.prems learnt_equal [OF assms(1) Bin.prems]
    by (cases op)
      (auto simp: learnt_steps learnt_bound learnt_var_const learn_not_equal_false_def rbind_Inr_iff
        simp del: split_paired_All split_paired_Ex split: expr.splits)
next
  case (NotE a)
  from NotE.IH [OF NotE.prems] show ?case unfolding learn_true.simps learn_false.simps by (rule conj_commute [THEN iffD1])
qed (simp (no_asm), (intro conjI learnt_steps; assumption))+

text \<open>Learning fails only if a visit does.\<close>

lemma learn_returns:
  assumes "\<And>e b s. \<exists>r. mut e b s = Inr r"
  shows "(\<exists>l'. learn_true mut e l = Inr l') \<and> (\<exists>l'. learn_false mut e l = Inr l')"
proof (induction e arbitrary: l)
  case (Bin op a b)
  have "\<exists>l'. learn_equal mut a b l = Inr l'"
    using assms [of b "Some no_info" "fst l"]
    by (cases l) (auto simp: learn_equal_def rbind_Inr_iff simp del: split_paired_Ex split: expr.splits option.splits binop.splits)
  moreover obtain la lb where "learn_true mut a l = Inr la" "learn_true mut b la = Inr lb" using Bin.IH by blast
  moreover obtain fa fb where "learn_false mut a l = Inr fa" "learn_false mut b fa = Inr fb" using Bin.IH by blast
  ultimately show ?case by (cases op) simp_all
qed auto

lemma end_learnt:
  assumes "learnt_over s0 (s, f)"
  shows "\<exists>s'. end_fact (s, f) = Inr s' \<and> same_knowledge s' s0"
proof -
  have v: "count_list (sf_pop_list f) n \<le> length (ss_var_info s n)"
    "drop (count_list (sf_pop_list f) n) (replacements s n) = replacements s0 n" for n
    using assms by (auto simp: learnt_over_def on_top_def replacements_def)
  have b: "count_list (sf_bounds_pop_list f) n \<le> length (ss_bounds s n)"
    "drop (count_list (sf_bounds_pop_list f) n) (ss_bounds s n) = ss_bounds s0 n" for n
    using assms by (auto simp: learnt_over_def on_top_def)
  have "map vi_replacement (drop (count_list (sf_pop_list f) n) (ss_var_info s n)) = replacements s0 n" for n
    using v(2) [of n] by (simp add: replacements_def drop_map)
  then show ?thesis using b(2) assms
    by (simp add: end_fact_def pop_all_drop [OF v(1)] pop_all_drop [OF b(1)] same_knowledge_def learnt_over_def erase_newly
        replacements_def fun_eq_iff)
qed

lemma learnt_over_new: "learnt_over s (s, new_fact)"
  by (simp add: learnt_over_def new_fact_def on_top_def newly_def)

text \<open>
  C22. What a scoped fact adds is taken back when it ends. Learning a condition, true or false, fails only if a
  visit does; and if the visits made while the fact lasts leave in place what the simplifier knows, as nested facts do,
  the end of the fact runs without a failed assertion, although it pops and erases entry by entry, and the
  simplifier then knows what it knew before: the replacements and bounds of every variable and both sets of
  conditions, with an equal condition that was known already left in.
\<close>

theorem scoped_fact_restores:
  assumes "mutate_keeps mut" and "learn \<in> {scoped_truth, scoped_falsehood}"
  shows "((\<forall>e b s. \<exists>r. mut e b s = Inr r) \<longrightarrow> (\<exists>s1 f. learn mut c s = Inr (s1, f))) \<and>
    (\<forall>s1 f s2. learn mut c s = Inr (s1, f) \<longrightarrow> same_knowledge s1 s2 \<longrightarrow> (\<exists>s3. end_fact (s2, f) = Inr s3 \<and> same_knowledge s3 s))"
proof -
  have "learnt_over s l" if "learn mut c s = Inr l" for l
    using learnt_true_false [OF assms(1) learnt_over_new] that assms(2) unfolding scoped_truth_def scoped_falsehood_def by blast
  then have "\<exists>s3. end_fact (s2, f) = Inr s3 \<and> same_knowledge s3 s" if "learn mut c s = Inr (s1, f)" "same_knowledge s1 s2" for s1 s2 f
    using that learnt_known end_learnt by blast
  moreover have "\<exists>l. learn mut c s = Inr l" if "\<forall>e b s. \<exists>r. mut e b s = Inr r"
    using learn_returns [of mut c "(s, new_fact)"] that assms(2) unfolding scoped_truth_def scoped_falsehood_def by blast
  ultimately show ?thesis by fast
qed

theorem scoped_fact_restores_witness:
  "let s = new_simplify False (\<lambda>_. None) (\<lambda>_. None);
       s1 = s\<lparr>ss_bounds := scope_push ''x'' (no_info\<lparr>ei_max_defined := True, ei_max := 4\<rparr>) (ss_bounds s)\<rparr>;
       f = new_fact\<lparr>sf_bounds_pop_list := [''x'']\<rparr>
   in scoped_truth (\<lambda>e b s. Inr (e, b, s)) (Bin LT (Variable (Int_type 32 1) ''x'' no_refs) (IntImm (Int_type 32 1) 5)) s = Inr (s1, f) \<and>
      (\<exists>s3. end_fact (s1, f) = Inr s3 \<and> same_knowledge s3 s)"
proof -
  define s where "s = new_simplify False (\<lambda>_. None) (\<lambda>_. None)"
  let ?mut = "\<lambda>e b s. Inr (e, b, s)" and ?c = "Bin LT (Variable (Int_type 32 1) ''x'' no_refs) (IntImm (Int_type 32 1) 5)"
  let ?f = "new_fact\<lparr>sf_bounds_pop_list := [''x'']\<rparr>"
  let ?s = "s\<lparr>ss_bounds := scope_push ''x'' (no_info\<lparr>ei_max_defined := True, ei_max := 4\<rparr>) (ss_bounds s)\<rparr>"
  have x: "ss_bounds s ''x'' = []" by (simp add: s_def new_simplify_def initial_info_def)
  have l: "scoped_truth ?mut ?c s = Inr (?s, ?f)"
    using x by (simp add: scoped_truth_def with_var_const_def learn_upper_bound_def learn_info_def scope_contains_def new_fact_def s_wrap_def)
  have k: "mutate_keeps ?mut" "same_knowledge ?s ?s" by (simp_all add: mutate_keeps_def same_knowledge_def)
  have "\<exists>s3. end_fact (?s, ?f) = Inr s3 \<and> same_knowledge s3 s" using scoped_fact_restores [OF k(1), of scoped_truth ?c s] l k(2) by blast
  then show ?thesis using l unfolding s_def [symmetric] Let_def by blast
qed

subsection \<open>What is learnt is true\<close>

text \<open>The value of a variable in a lane, at the type its name has.\<close>

definition var_val :: "env \<Rightarrow> (string \<Rightarrow> htype) \<Rightarrow> nat \<Rightarrow> string \<Rightarrow> int option" where
  "var_val \<rho> \<Gamma> i n = map_option (wrap_ty (\<Gamma> n)) (env_var \<rho> n (lane_in (\<Gamma> n) i))"

definition info_true :: "env \<Rightarrow> (string \<Rightarrow> htype) \<Rightarrow> nat \<Rightarrow> string \<Rightarrow> expr_info \<Rightarrow> bool" where
  "info_true \<rho> \<Gamma> i n b \<longleftrightarrow> info_within (2 ^ 62) b \<and> (\<forall>v. var_val \<rho> \<Gamma> i n = Some v \<longrightarrow> info_mem v b)"

definition replacement_true :: "env \<Rightarrow> (string \<Rightarrow> htype) \<Rightarrow> nat \<Rightarrow> string \<Rightarrow> expr \<Rightarrow> bool" where
  "replacement_true \<rho> \<Gamma> i n e \<longleftrightarrow> wf_expr e \<and> ty_code (type_of e) = ty_code (\<Gamma> n) \<and> ty_bits (type_of e) = ty_bits (\<Gamma> n) \<and>
     lanes_of e = ty_lanes (\<Gamma> n) \<and> eval \<rho> e i = var_val \<rho> \<Gamma> i n"

text \<open>Everything the simplifier knows is true in a lane of an environment.\<close>

definition knows_truth :: "env \<Rightarrow> (string \<Rightarrow> htype) \<Rightarrow> nat \<Rightarrow> simplify_state \<Rightarrow> bool" where
  "knows_truth \<rho> \<Gamma> i s \<longleftrightarrow>
     (\<forall>n. \<forall>b \<in> set (ss_bounds s n). info_true \<rho> \<Gamma> i n b) \<and>
     (\<forall>n. \<forall>e. Some e \<in> set (replacements s n) \<longrightarrow> replacement_true \<rho> \<Gamma> i n e) \<and>
     (\<forall>e \<in> set (ss_truths s). eval \<rho> e i = Some 1) \<and> (\<forall>e \<in> set (ss_falsehoods s). eval \<rho> e i = Some 0)"

text \<open>
  The conditions that are learnt from: every variable has the type of its name, constants are below \<open>2 ^ 62\<close>,
  and a remainder is taken modulo a positive number.
\<close>

definition small_const :: "expr \<Rightarrow> bool" where
  "small_const e \<longleftrightarrow> (case as_const_int e of Some c \<Rightarrow> \<bar>c\<bar> < 2 ^ 62 | None \<Rightarrow> True)"

definition positive_const :: "expr \<Rightarrow> bool" where
  "positive_const e \<longleftrightarrow> (case as_const_int e of Some c \<Rightarrow> 0 < c | None \<Rightarrow> True)"

fun condition_fits :: "(string \<Rightarrow> htype) \<Rightarrow> expr \<Rightarrow> bool" where
  "condition_fits \<Gamma> (Variable t n r) \<longleftrightarrow> t = \<Gamma> n"
| "condition_fits \<Gamma> (Bin op a b) \<longleftrightarrow> condition_fits \<Gamma> a \<and> condition_fits \<Gamma> b \<and> small_const a \<and> small_const b \<and>
     (op = Mod \<longrightarrow> positive_const b)"
| "condition_fits \<Gamma> (NotE a) \<longleftrightarrow> condition_fits \<Gamma> a"
| "condition_fits \<Gamma> _ \<longleftrightarrow> True"

definition small_env :: "env \<Rightarrow> (string \<Rightarrow> htype) \<Rightarrow> nat \<Rightarrow> bool" where
  "small_env \<rho> \<Gamma> i \<longleftrightarrow> (\<forall>n v. is_int (\<Gamma> n) \<longrightarrow> var_val \<rho> \<Gamma> i n = Some v \<longrightarrow> \<bar>v\<bar> \<le> 2 ^ 62)"

text \<open>What a visit returns about an expression is true, and the visit learns nothing that is not.\<close>

definition mutate_true :: "env \<Rightarrow> (string \<Rightarrow> htype) \<Rightarrow> nat \<Rightarrow> mutator \<Rightarrow> bool" where
  "mutate_true \<rho> \<Gamma> i mut \<longleftrightarrow> (\<forall>e s e' b' s'. wf_expr e \<longrightarrow> knows_truth \<rho> \<Gamma> i s \<longrightarrow> mut e (Some no_info) s = Inr (e', b', s') \<longrightarrow>
     knows_truth \<rho> \<Gamma> i s' \<and> (\<exists>b. b' = Some b \<and> info_within (2 ^ 62) b \<and> (\<forall>v. eval \<rho> e i = Some v \<longrightarrow> info_mem v b)))"

lemma know_replacement:
  "knows_truth \<rho> \<Gamma> i (fst l) \<Longrightarrow> replacement_true \<rho> \<Gamma> i n e \<Longrightarrow> knows_truth \<rho> \<Gamma> i (fst (learn_replacement n e l))"
  by (cases l) (auto simp: knows_truth_def learn_replacement_def replacements_push scope_push_def [of n "Some e"])

lemma know_truth:
  "knows_truth \<rho> \<Gamma> i (fst l) \<Longrightarrow> eval \<rho> c i = Some 1 \<Longrightarrow> knows_truth \<rho> \<Gamma> i (fst (insert_truth c l))"
  by (cases l) (auto simp: knows_truth_def insert_truth_def)

lemma know_falsehood:
  "knows_truth \<rho> \<Gamma> i (fst l) \<Longrightarrow> eval \<rho> c i = Some 0 \<Longrightarrow> knows_truth \<rho> \<Gamma> i (fst (insert_falsehood c l))"
  by (cases l) (auto simp: knows_truth_def insert_falsehood_def)

text \<open>Trimming the bounds of a value that is small leaves them small: they only move towards the value.\<close>

lemma trim_within:
  assumes "info_mem v b" and "info_within (2 ^ 62) b" and "\<bar>v\<bar> \<le> 2 ^ 62"
  shows "info_within (2 ^ 62) (trim_bounds_using_alignment b)"
proof -
  let ?al = "ei_alignment b" and ?t = "align_bounds b"
  have t: "trimmable ?al" "bounds_within (2 ^ 62) b" using assms(2) by (auto simp: trimmable_def info_within_def mr_normal_def)
  have "info_mem v (trim_bounds_using_alignment b)" using trim_sound [OF assms(1) t(2,1)] .
  then have m: "ei_min_defined ?t \<Longrightarrow> ei_min ?t \<le> v" "ei_max_defined ?t \<Longrightarrow> v \<le> ei_max ?t"
    by (auto simp: trim_bounds_using_alignment_def Let_def info_mem_def split: if_splits)
  have "(ei_min_defined ?t \<longrightarrow> - (2 ^ 62) \<le> ei_min ?t) \<and> (ei_max_defined ?t \<longrightarrow> ei_max ?t \<le> 2 ^ 62) \<and> ei_alignment ?t = ?al"
  proof (cases "1 < mr_modulus ?al")
    case True
    then have r: "mr_modulus ?al \<le> 2 ^ 62" "0 \<le> mr_remainder ?al" "mr_remainder ?al < mr_modulus ?al"
      using t(1) by (auto simp: trimmable_def)
    have "n \<le> trim_min ?al n" "trim_max ?al n \<le> n" if "\<bar>n\<bar> \<le> 2 ^ 62" for n
      using trim_step [OF True r that] True by simp_all
    then show ?thesis using True t(2) by (fastforce simp: align_bounds_def Let_def bounds_within_def)
  next
    case False
    then show ?thesis using assms(2) by (auto simp: align_bounds_def Let_def info_within_def bounds_within_def)
  qed
  then have "bounds_within (2 ^ 62) ?t" "ei_alignment ?t = ?al" using m assms(3) by (auto simp: bounds_within_def)
  then show ?thesis using assms(2)
    by (auto simp: trim_bounds_using_alignment_def Let_def info_within_def bounds_within_def mr_normal_def single_point_def)
qed

lemma intersect_mem:
  assumes i: "info_mem v i" "info_within (2 ^ 62) i" and j: "info_mem v j" "info_within (2 ^ 62) j" and v: "\<bar>v\<bar> \<le> 2 ^ 62"
  shows "info_mem v (ei_intersect i j)" "info_within (2 ^ 62) (ei_intersect i j)"
proof -
  let ?k = "i\<lparr>
     ei_min := (if ei_min_defined i \<and> ei_min_defined j then max (ei_min i) (ei_min j)
                else if ei_min_defined j then ei_min j else ei_min i),
     ei_max := (if ei_max_defined i \<and> ei_max_defined j then min (ei_max i) (ei_max j)
                else if ei_max_defined j then ei_max j else ei_max i),
     ei_min_defined := ei_min_defined i \<or> ei_min_defined j,
     ei_max_defined := ei_max_defined i \<or> ei_max_defined j,
     ei_alignment := mr_intersect (ei_alignment i) (ei_alignment j)\<rparr>"
  have al: "mr_mem v (ei_alignment ?k)" "mr_normal (ei_alignment ?k)" "mr_modulus (ei_alignment ?k) \<le> 2 ^ 62"
     "\<bar>mr_remainder (ei_alignment ?k)\<bar> \<le> 2 ^ 62"
    using i j by (auto simp: mr_intersect_def info_mem_def info_within_def)
  have m: "info_mem v ?k" using i(1) j(1) al(1) by (auto simp: info_mem_def)
  have b: "bounds_within (2 ^ 62) ?k" using i(2) j(2) by (auto simp: info_within_def bounds_within_def)
  have "trimmable (ei_alignment ?k)" using al by (auto simp: trimmable_def mr_normal_def)
  then show "info_mem v (ei_intersect i j)" unfolding ei_intersect_def using trim_sound [OF m b] by blast
  have "info_within (2 ^ 62) ?k" using b al by (simp add: info_within_def)
  then show "info_within (2 ^ 62) (ei_intersect i j)"
    unfolding ei_intersect_def using trim_within [OF m _ v] by blast
qed

lemma know_info:
  assumes k: "knows_truth \<rho> \<Gamma> i (fst l)" and v: "var_val \<rho> \<Gamma> i n = Some v" "\<bar>v\<bar> \<le> 2 ^ 62"
    and b: "info_mem v b" "info_within (2 ^ 62) b"
  shows "knows_truth \<rho> \<Gamma> i (fst (learn_info n b l))"
proof -
  obtain s f where l: "l = (s, f)" by (cases l)
  let ?b = "if scope_contains n (ss_bounds s) then ei_intersect b (hd (ss_bounds s n)) else b"
  have "info_true \<rho> \<Gamma> i n x" if "x \<in> set (ss_bounds s n)" for x using k that l by (auto simp: knows_truth_def)
  then have "info_true \<rho> \<Gamma> i n ?b"
    using b v intersect_mem [OF b] by (cases "ss_bounds s n") (auto simp: scope_contains_def info_true_def)
  then show ?thesis using k l by (auto simp: knows_truth_def learn_info_def scope_push_def)
qed

subsection \<open>Reading a condition\<close>

lemma as_const_int_value:
  "as_const_int c = Some k \<Longrightarrow> eval \<rho> c i = Some k" "as_const_int c = Some k \<Longrightarrow> wf_expr c \<Longrightarrow> is_int (type_of c)"
  "as_const_int c = Some k \<Longrightarrow> wf_expr c \<Longrightarrow> s_wrap (ty_bits (type_of c)) k = k"
proof -
  show "as_const_int c = Some k \<Longrightarrow> eval \<rho> c i = Some k" by (induction c rule: as_const_int.induct) auto
  have "as_const_int c = Some k \<Longrightarrow> wf_expr c \<Longrightarrow> is_int (type_of c) \<and> s_wrap (ty_bits (type_of c)) k = k"
  proof (induction c rule: as_const_int.induct)
    case (1 v l)
    then show ?case using wf_type_ok [of v] by (auto simp: type_pred_defs ty_ok_def)
  qed auto
  then show "as_const_int c = Some k \<Longrightarrow> wf_expr c \<Longrightarrow> is_int (type_of c)"
    "as_const_int c = Some k \<Longrightarrow> wf_expr c \<Longrightarrow> s_wrap (ty_bits (type_of c)) k = k" by blast+
qed

lemma wrap_below:
  assumes "is_int t" and "s_wrap (ty_bits t) m = m" and "0 \<le> r" and "r < m"
  shows "wrap_ty t r = r"
proof -
  have "m < 2 ^ (ty_bits t - 1)" using signed_take_bit_int_less_exp [of "ty_bits t - 1" m] assms(2) by (metis s_wrap_def)
  moreover have "- (2 ^ (ty_bits t - 1)) \<le> (0 :: int)" by simp
  ultimately have "s_wrap (ty_bits t) r = r" using assms(3,4) by (intro s_wrap_id) linarith+
  then show ?thesis using assms(1) by (simp add: wrap_ty_def)
qed

lemma small_constD: "small_const c \<Longrightarrow> as_const_int c = Some k \<Longrightarrow> \<bar>k\<bar> < 2 ^ 62"
  by (simp add: small_const_def)

lemma operand_types:
  assumes "wf_expr (Bin op a b)"
  shows "ty_code (type_of b) = ty_code (type_of a)" "ty_bits (type_of b) = ty_bits (type_of a)" "lanes_of b = lanes_of a"
  using assms type_eqD [of "type_of a" "type_of b"] wf_type_ok by auto

lemma know_var_const:
  assumes k: "knows_truth \<rho> \<Gamma> i (fst l)" and e: "small_env \<rho> \<Gamma> i" and v: "condition_fits \<Gamma> v" "eval \<rho> v i = Some x"
    and t: "ty_code (type_of v) = ty_code (type_of c)" "wf_expr c"
    and b: "\<And>k. as_const_int c = Some k \<Longrightarrow> info_mem x (g k) \<and> info_within (2 ^ 62) (g k)"
  shows "knows_truth \<rho> \<Gamma> i (fst (with_var_const (\<lambda>n k. learn_info n (g k)) v c l))"
proof -
  have "knows_truth \<rho> \<Gamma> i (fst (learn_info n (g k) l))" if "v = Variable t n r" "as_const_int c = Some k" for t n r k
  proof -
    have "is_int (\<Gamma> n)" using as_const_int_value(2) [OF that(2) t(2)] that(1) t(1) v(1) by (simp add: type_pred_defs)
    moreover have "var_val \<rho> \<Gamma> i n = Some x" using v that(1) by (simp add: var_val_def)
    ultimately show ?thesis using know_info [OF k] e b [OF that(2)] by (auto simp: small_env_def)
  qed
  then show ?thesis using k by (auto simp: with_var_const_def split: expr.split option.split)
qed

lemma bound_info:
  "\<bar>k\<bar> \<le> 2 ^ 62 \<Longrightarrow> x \<le> k \<Longrightarrow>
     info_mem x (no_info\<lparr>ei_max_defined := True, ei_max := k\<rparr>) \<and> info_within (2 ^ 62) (no_info\<lparr>ei_max_defined := True, ei_max := k\<rparr>)"
  "\<bar>k\<bar> \<le> 2 ^ 62 \<Longrightarrow> k \<le> x \<Longrightarrow>
     info_mem x (no_info\<lparr>ei_min_defined := True, ei_min := k\<rparr>) \<and> info_within (2 ^ 62) (no_info\<lparr>ei_min_defined := True, ei_min := k\<rparr>)"
  by (simp_all add: info_mem_def no_info_def info_within_def bounds_within_def mr_normal_def mr_top_def mr_mem_def)

text \<open>What an inequality between the operands gives: a bound for a variable on either side.\<close>

lemma know_upper:
  assumes k: "knows_truth \<rho> \<Gamma> i (fst l)" and e: "small_env \<rho> \<Gamma> i" and v: "condition_fits \<Gamma> v" "eval \<rho> v i = Some x"
    and c: "wf_expr c" "small_const c" "ty_code (type_of v) = ty_code (type_of c)" "eval \<rho> c i = Some y"
    and d: "x + d \<le> y" "0 \<le> d" "d \<le> 1"
  shows "knows_truth \<rho> \<Gamma> i (fst (with_var_const (\<lambda>n k. learn_upper_bound n (s_wrap 64 (k - d))) v c l))"
  unfolding learn_upper_bound_def
proof (rule know_var_const [OF k e v c(3,1)])
  fix k assume "as_const_int c = Some k"
  then have "y = k" "\<bar>k - d\<bar> \<le> 2 ^ 62" using as_const_int_value(1) [of c k \<rho> i] c(2,4) d by (auto simp: small_const_def)
  then show "info_mem x (no_info\<lparr>ei_max_defined := True, ei_max := s_wrap 64 (k - d)\<rparr>) \<and>
      info_within (2 ^ 62) (no_info\<lparr>ei_max_defined := True, ei_max := s_wrap 64 (k - d)\<rparr>)"
    using bound_info(1) [of "k - d" x] small_wrap [of "k - d"] d(1) by simp
qed

lemma know_lower:
  assumes k: "knows_truth \<rho> \<Gamma> i (fst l)" and e: "small_env \<rho> \<Gamma> i" and v: "condition_fits \<Gamma> v" "eval \<rho> v i = Some x"
    and c: "wf_expr c" "small_const c" "ty_code (type_of v) = ty_code (type_of c)" "eval \<rho> c i = Some y"
    and d: "y + d \<le> x" "0 \<le> d" "d \<le> 1"
  shows "knows_truth \<rho> \<Gamma> i (fst (with_var_const (\<lambda>n k. learn_lower_bound n (s_wrap 64 (k + d))) v c l))"
  unfolding learn_lower_bound_def
proof (rule know_var_const [OF k e v c(3,1)])
  fix k assume "as_const_int c = Some k"
  then have "y = k" "\<bar>k + d\<bar> \<le> 2 ^ 62" using as_const_int_value(1) [of c k \<rho> i] c(2,4) d by (auto simp: small_const_def)
  then show "info_mem x (no_info\<lparr>ei_min_defined := True, ei_min := s_wrap 64 (k + d)\<rparr>) \<and>
      info_within (2 ^ 62) (no_info\<lparr>ei_min_defined := True, ei_min := s_wrap 64 (k + d)\<rparr>)"
    using bound_info(2) [of "k + d" x] small_wrap [of "k + d"] d(1) by simp
qed

text \<open>Without a step the constants are taken as they are; small ones do not wrap.\<close>

lemma with_const_wrap:
  "small_const c \<Longrightarrow> with_var_const (\<lambda>n k. g n (s_wrap 64 k)) v c l = with_var_const g v c l"
  using small_wrap by (auto simp: with_var_const_def small_const_def split: expr.split option.split)

lemma know_at_most:
  assumes "knows_truth \<rho> \<Gamma> i (fst l)" and "small_env \<rho> \<Gamma> i" and "wf_expr (Bin op a b)" and "condition_fits \<Gamma> (Bin op a b)"
    and "eval \<rho> a i = Some x" and "eval \<rho> b i = Some y" and "x + d \<le> y" and "0 \<le> d" and "d \<le> 1"
  shows "knows_truth \<rho> \<Gamma> i (fst (with_var_const (\<lambda>n k. learn_lower_bound n (s_wrap 64 (k + d))) b a
    (with_var_const (\<lambda>n k. learn_upper_bound n (s_wrap 64 (k - d))) a b l)))"
  using assms operand_types(1) [OF assms(3)] by (intro know_lower [where x = y and y = x] know_upper [where x = x and y = y]) auto

lemma know_at_least:
  assumes "knows_truth \<rho> \<Gamma> i (fst l)" and "small_env \<rho> \<Gamma> i" and "wf_expr (Bin op a b)" and "condition_fits \<Gamma> (Bin op a b)"
    and "eval \<rho> a i = Some x" and "eval \<rho> b i = Some y" and "y + d \<le> x" and "0 \<le> d" and "d \<le> 1"
  shows "knows_truth \<rho> \<Gamma> i (fst (with_var_const (\<lambda>n k. learn_upper_bound n (s_wrap 64 (k - d))) b a
    (with_var_const (\<lambda>n k. learn_lower_bound n (s_wrap 64 (k + d))) a b l)))"
  using assms operand_types(1) [OF assms(3)] by (intro know_upper [where x = y and y = x] know_lower [where x = x and y = y]) auto

lemma bin_true_values:
  assumes "eval \<rho> (Bin op a b) i = Some z"
  obtains x y where "eval \<rho> a i = Some x" "eval \<rho> b i = Some y" "bin_val op (type_of a) x y = Some z"
  using assms by (auto split: option.splits)

lemma know_equal:
  assumes k: "knows_truth \<rho> \<Gamma> i (fst l)" and e: "small_env \<rho> \<Gamma> i" and m: "mutate_true \<rho> \<Gamma> i mut"
    and w: "wf_expr (Bin EQ a b)" "condition_fits \<Gamma> (Bin EQ a b)"
    and v: "eval \<rho> a i = Some x" "eval \<rho> b i = Some x" and r: "learn_equal mut a b l = Inr l'"
  shows "knows_truth \<rho> \<Gamma> i (fst l')"
proof (cases a)
  case (Variable t n rf)
  obtain s f where l: "l = (s, f)" by (cases l)
  have n: "t = \<Gamma> n" "var_val \<rho> \<Gamma> i n = Some x" using w(2) v(1) Variable by (simp_all add: var_val_def)
  have "replacement_true \<rho> \<Gamma> i n b" using w(1) operand_types [OF w(1)] v n Variable by (simp add: replacement_true_def)
  note rep = know_replacement [OF k this]
  let ?subst = "is_const b \<or> (case b of Variable _ _ _ \<Rightarrow> True | _ \<Rightarrow> False)"
  consider ?subst | "\<not> ?subst" "is_int t" | "\<not> ?subst" "\<not> is_int t" by blast
  then show ?thesis
  proof cases
    case 1
    then show ?thesis using r rep unfolding learn_equal_def Variable by (simp only: expr.case if_True sum.inject)
  next
    case 2
    then obtain e' b' s' where mu: "mut b (Some no_info) s = Inr (e', b', s')"
      and l': "l' = learn_info n (case b' of Some i \<Rightarrow> i | None \<Rightarrow> no_info) (s', f)"
      using r l unfolding learn_equal_def Variable by (simp only: expr.case if_True if_False) (auto simp: rbind_Inr_iff)
    moreover have "wf_expr b" using w(1) by simp
    ultimately obtain bi where "knows_truth \<rho> \<Gamma> i s'" "b' = Some bi" "info_within (2 ^ 62) bi" "info_mem x bi"
      using m k l v(2) unfolding mutate_true_def by (metis fst_conv)
    then show ?thesis using l' know_info [of \<rho> \<Gamma> i "(s', f)" n x bi] n e 2(2) by (simp add: small_env_def)
  next
    case 3
    then show ?thesis using r k unfolding learn_equal_def Variable by (simp only: expr.case if_False) auto
  qed
next
  case (Bin op p q)
  show ?thesis
  proof (cases "op = Mod \<and> (\<exists>t n rf md rm. p = Variable t n rf \<and> as_const_int q = Some md \<and> as_const_int b = Some rm)")
    case True
    then obtain t n rf md rm where M: "op = Mod" "p = Variable t n rf" "as_const_int q = Some md" "as_const_int b = Some rm" by blast
    from v(1) [unfolded Bin] obtain z y where "eval \<rho> p i = Some z" "eval \<rho> q i = Some y" "bin_val op (type_of p) z y = Some x"
      by (rule bin_true_values)
    then have z: "var_val \<rho> \<Gamma> i n = Some z" "x = wrap_ty t (emod z md)"
      using Bin M as_const_int_value(1) [OF M(3), of \<rho> i] w(2) by (simp_all add: bin_val_def var_val_def split: if_splits)
    have q: "wf_expr q" "wf_expr p" "type_eq (type_of p) (type_of q)" "0 < md" "md < 2 ^ 62"
      using w M Bin by (auto simp: positive_const_def small_const_def)
    have t: "is_int t" "s_wrap (ty_bits t) md = md" "t = \<Gamma> n"
      using as_const_int_value(2,3) [OF M(3) q(1)] type_eqD [OF q(3)] wf_type_ok q(1,2) M(2) w(2) Bin by (auto simp: type_pred_defs)
    have "rm = z mod md" using z(2) v(2) as_const_int_value(1) [OF M(4), of \<rho> i] wrap_below [OF t(1,2), of "z mod md"] q(4)
      by (simp add: emod_def)
    moreover have "0 \<le> z mod md" "z mod md < md" "z mod md \<le> 2 ^ 62"
      using q(4,5) pos_mod_bound [of md z] pos_mod_sign [of md z] by linarith+
    ultimately have "info_mem z (no_info\<lparr>ei_alignment := mk_mr md rm\<rparr>)" "info_within (2 ^ 62) (no_info\<lparr>ei_alignment := mk_mr md rm\<rparr>)"
      using q(4,5) by (auto simp: info_mem_def no_info_def mr_mem_def info_within_def bounds_within_def mr_normal_def minus_mod_eq_mult_div)
    moreover have "l' = learn_info n (no_info\<lparr>ei_alignment := mk_mr md rm\<rparr>) l" using r M Bin by (simp add: learn_equal_def)
    ultimately show ?thesis using know_info [OF k z(1)] e z(1) t by (auto simp: small_env_def)
  next
    case False
    then show ?thesis using r k Bin by (auto simp: learn_equal_def split: expr.splits option.splits binop.splits)
  qed
qed (use r k in \<open>simp_all add: learn_equal_def\<close>)

lemma know_both:
  assumes "small_env \<rho> \<Gamma> i" and "mutate_true \<rho> \<Gamma> i mut"
  shows "wf_expr c \<Longrightarrow> is_bool (type_of c) \<Longrightarrow> condition_fits \<Gamma> c \<Longrightarrow> knows_truth \<rho> \<Gamma> i (fst l) \<Longrightarrow>
    (\<forall>l'. eval \<rho> c i = Some 1 \<longrightarrow> learn_true mut c l = Inr l' \<longrightarrow> knows_truth \<rho> \<Gamma> i (fst l')) \<and>
    (\<forall>l'. eval \<rho> c i = Some 0 \<longrightarrow> learn_false mut c l = Inr l' \<longrightarrow> knows_truth \<rho> \<Gamma> i (fst l'))"
proof (induction c arbitrary: l)
  case (Variable t n r)
  have "replacement_true \<rho> \<Gamma> i n (const_bool b (ty_lanes t))" if "eval \<rho> (Variable t n r) i = Some (of_bool b)" for b
    using that Variable by (auto simp: replacement_true_def const_bool_def var_val_def type_pred_defs ty_ok_def is_scalar_def u_wrap_mod)
  from this [of True] this [of False] show ?case using know_replacement [OF Variable.prems(4)] by auto
next
  case (NotE a)
  have a: "wf_expr a" "is_bool (type_of a)" "condition_fits \<Gamma> a" using NotE.prems(1-3) by simp_all
  have "(eval \<rho> (NotE a) i = Some 1 \<longrightarrow> eval \<rho> a i = Some 0) \<and> (eval \<rho> (NotE a) i = Some 0 \<longrightarrow> eval \<rho> a i = Some 1)"
    using eval_bool [OF a(1,2), of \<rho> i] by (cases "eval \<rho> a i") auto
  then show ?case using NotE.IH [OF a NotE.prems(4)] by (simp only: learn_true.simps learn_false.simps) blast
next
  case (Bin op a b)
  note k = Bin.prems(4) and w = Bin.prems(1,3)
  note w = Bin.prems(1,3)
  have sub: "wf_expr a" "wf_expr b" "condition_fits \<Gamma> a" "condition_fits \<Gamma> b" using w by simp_all
  have logical: "is_bool (type_of a)" "is_bool (type_of b)" if "is_logical op"
    using w(1) that operand_types [OF w(1)] by (auto simp: type_pred_defs)
  note both = Bin.IH(1) [OF sub(1) _ sub(3)] Bin.IH(2) [OF sub(2) _ sub(4)]
  show ?case
  proof (intro conjI allI impI)
    fix l' assume v: "eval \<rho> (Bin op a b) i = Some 1" and r: "learn_true mut (Bin op a b) l = Inr l'"
    obtain x y where xy: "eval \<rho> a i = Some x" "eval \<rho> b i = Some y" "bin_val op (type_of a) x y = Some 1" by (rule bin_true_values [OF v])
    note at_most = know_at_most [OF k assms(1) w xy(1,2)]
    show "knows_truth \<rho> \<Gamma> i (fst l')"
    proof (cases op)
      case EQ
      then have "x = y" using xy(3) by (simp add: bin_val_def)
      then show ?thesis using know_equal [OF k assms w [unfolded EQ] xy(1)] xy(2) r EQ by simp
    next
      case LT
      then show ?thesis using at_most [of 1] xy(3) r by (simp add: bin_val_def)
    next
      case LE
      then show ?thesis using at_most [of 0] xy(3) r w(2) by (simp add: bin_val_def with_const_wrap)
    next
      case AndOp
      then have "x \<noteq> 0" "y \<noteq> 0" "is_logical op" using xy(3) by (simp_all add: bin_val_def)
      then have ev: "eval \<rho> a i = Some 1" "eval \<rho> b i = Some 1" and lg: "is_bool (type_of a)" "is_bool (type_of b)"
        using eval_bool [OF sub(1) _ xy(1)] eval_bool [OF sub(2) _ xy(2)] logical xy(1,2) by auto
      obtain la where "learn_true mut a l = Inr la" "learn_true mut b la = Inr l'" using r AndOp by (auto simp: rbind_Inr_iff)
      then show ?thesis using both(1) [OF lg(1) k] both(2) [OF lg(2)] ev by blast
    qed (use know_truth [OF k v] r in auto)
  next
    fix l' assume v: "eval \<rho> (Bin op a b) i = Some 0" and r: "learn_false mut (Bin op a b) l = Inr l'"
    obtain x y where xy: "eval \<rho> a i = Some x" "eval \<rho> b i = Some y" "bin_val op (type_of a) x y = Some 0" by (rule bin_true_values [OF v])
    note at_least = know_at_least [OF k assms(1) w xy(1,2)]
    show "knows_truth \<rho> \<Gamma> i (fst l')"
    proof (cases op)
      case NE
      then have "x = y" using xy(3) by (simp add: bin_val_def)
      then have "replacement_true \<rho> \<Gamma> i n b" if "a = Variable t n rf" for t n rf
        using that w operand_types [OF w(1)] xy by (auto simp: replacement_true_def var_val_def)
      then show ?thesis using know_replacement [OF k] k r NE by (auto simp: learn_not_equal_false_def split: expr.splits if_splits)
    next
      case LT
      then show ?thesis using at_least [of 0] xy(3) r w(2) by (simp add: bin_val_def with_const_wrap)
    next
      case LE
      then show ?thesis using at_least [of 1] xy(3) r by (simp add: bin_val_def)
    next
      case OrOp
      then have ev: "eval \<rho> a i = Some 0" "eval \<rho> b i = Some 0" and lg: "is_bool (type_of a)" "is_bool (type_of b)"
        using xy logical by (auto simp: bin_val_def)
      obtain la where "learn_false mut a l = Inr la" "learn_false mut b la = Inr l'" using r OrOp by (auto simp: rbind_Inr_iff)
      then show ?thesis using both(1) [OF lg(1) k] both(2) [OF lg(2)] ev by blast
    qed (use know_falsehood [OF k v] r in auto)
  qed
qed (auto simp: know_truth know_falsehood)

subsection \<open>The constructor and the visit of a variable\<close>

text \<open>The bounds and alignments handed to the constructor are true.\<close>

definition given_true :: "env \<Rightarrow> (string \<Rightarrow> htype) \<Rightarrow> nat \<Rightarrow> (string \<Rightarrow> (expr \<times> expr) option) \<Rightarrow> (string \<Rightarrow> modulus_remainder option) \<Rightarrow> bool" where
  "given_true \<rho> \<Gamma> i bi ai \<longleftrightarrow>
     (\<forall>n mn mx. bi n = Some (mn, mx) \<longrightarrow> small_const mn \<and> small_const mx \<and>
        (\<forall>v c. var_val \<rho> \<Gamma> i n = Some v \<longrightarrow> (as_const_int mn = Some c \<longrightarrow> c \<le> v) \<and> (as_const_int mx = Some c \<longrightarrow> v \<le> c))) \<and>
     (\<forall>n al. ai n = Some al \<longrightarrow> info_true \<rho> \<Gamma> i n (no_info\<lparr>ei_alignment := al\<rparr>))"

lemma interval_info_true:
  assumes "given_true \<rho> \<Gamma> i bi ai" and "bi n = Some (mn, mx)"
  shows "info_true \<rho> \<Gamma> i n (interval_info mn mx (ai n))"
proof -
  have al: "info_true \<rho> \<Gamma> i n (no_info\<lparr>ei_alignment := (case ai n of Some m \<Rightarrow> m | None \<Rightarrow> mr_top)\<rparr>)"
    using assms(1) by (cases "ai n") (auto simp: given_true_def info_true_def info_mem_def no_info_def info_within_def
        bounds_within_def mr_normal_def mr_top_def mr_mem_def)
  have "small_const mn" "small_const mx" using assms by (auto simp: given_true_def)
  then have "bounds_within (2 ^ 62) (interval_info mn mx (ai n))"
    by (auto simp: bounds_within_def interval_info_def small_const_def split: option.splits)
  moreover have "\<forall>v. var_val \<rho> \<Gamma> i n = Some v \<longrightarrow> (\<forall>c. as_const_int mn = Some c \<longrightarrow> c \<le> v) \<and> (\<forall>c. as_const_int mx = Some c \<longrightarrow> v \<le> c)"
    using assms by (auto simp: given_true_def)
  ultimately show ?thesis using al by (auto simp: info_true_def info_mem_def info_within_def interval_info_def no_info_def)
qed

lemma new_simplify_true: "given_true \<rho> \<Gamma> i bi ai \<Longrightarrow> knows_truth \<rho> \<Gamma> i (new_simplify rdl bi ai)"
  using interval_info_true [of \<rho> \<Gamma> i bi ai]
  by (auto simp: knows_truth_def new_simplify_def replacements_def initial_info_def Let_def given_true_def
      split: option.splits if_splits)



text \<open>A visit keeps the value of every expression that has one.\<close>

definition mutate_value :: "env \<Rightarrow> (string \<Rightarrow> htype) \<Rightarrow> nat \<Rightarrow> mutator \<Rightarrow> bool" where
  "mutate_value \<rho> \<Gamma> i mut \<longleftrightarrow> (\<forall>e b s e' b' s' v. wf_expr e \<longrightarrow> knows_truth \<rho> \<Gamma> i s \<longrightarrow> eval \<rho> e i = Some v \<longrightarrow>
     mut e b s = Inr (e', b', s') \<longrightarrow> eval \<rho> e' i = Some v)"

lemma make_const_value:
  "make_const fl t z = Inr e \<Longrightarrow> is_int t \<Longrightarrow> ty_ok t \<Longrightarrow> s_wrap (ty_bits t) z = z \<Longrightarrow> eval \<rho> e i = Some z"
  by (auto simp: make_const_def make_const_scalar_def make_IntImm_eq make_Broadcast_def rbind_Inr_iff assert_that_def
      element_of_def ty_ok_def type_pred_defs split: if_splits)

lemma scope_ref_uses:
  assumes "scope_ref n g (ss_var_info s) = Inr sc" and "\<And>x. vi_replacement (g x) = vi_replacement x"
  shows "same_knowledge s (s\<lparr>ss_var_info := sc\<rparr>)"
proof -
  obtain x xs where "ss_var_info s n = x # xs" "sc = (ss_var_info s)(n := g x # xs)"
    using assms(1) by (auto simp: scope_ref_def split: list.splits)
  then show ?thesis using assms(2) [of x] by (simp add: same_knowledge_def replacements_def fun_eq_iff)
qed

lemma knows_truth_same: "same_knowledge s s' \<Longrightarrow> knows_truth \<rho> \<Gamma> i s \<Longrightarrow> knows_truth \<rho> \<Gamma> i s'"
  by (simp add: knows_truth_def same_knowledge_def)

text \<open>
  The visit of a variable keeps its value: a number for bounds that meet, the expression that stands for it,
  visited once more, or the variable itself.
\<close>

theorem visit_Variable_value:
  assumes "knows_truth \<rho> \<Gamma> i s" and "mutate_value \<rho> \<Gamma> i mut" and "ty_ok (\<Gamma> n)" and "is_int (\<Gamma> n)"
    and "eval \<rho> (Variable (\<Gamma> n) n r) i = Some v" and "s_wrap (ty_bits (\<Gamma> n)) v = v"
    and "visit_Variable fl mut (\<Gamma> n) n r b s = Inr (e', b', s')"
  shows "eval \<rho> e' i = Some v"
proof -
  have v: "var_val \<rho> \<Gamma> i n = Some v" using assms(5) by (simp add: var_val_def)
  let ?known = "if scope_contains n (ss_bounds s) then Some (hd (ss_bounds s n)) else None"
  show ?thesis
  proof (cases "case ?known of Some b \<Rightarrow> single_point b | None \<Rightarrow> False")
    case True
    then obtain k where k: "?known = Some k" "single_point k" "k \<in> set (ss_bounds s n)"
      by (auto simp: scope_contains_def split: if_splits)
    then have "info_mem v k" using assms(1) v by (auto simp: knows_truth_def info_true_def)
    then have "ei_min k = v" using k(2) by (auto simp: info_mem_def single_point_def)
    then have "make_const fl (\<Gamma> n) v = Inr e'"
      using assms(7) True k(1) unfolding visit_Variable_def Let_def by (simp only: if_True option.sel) (auto simp: rbind_Inr_iff)
    then show ?thesis using make_const_value assms(3,4,6) by blast
  next
    case False
    show ?thesis
    proof (cases "\<exists>e. ss_var_info s n \<noteq> [] \<and> vi_replacement (hd (ss_var_info s n)) = Some e")
      case True
      then obtain e where e: "ss_var_info s n \<noteq> []" "vi_replacement (hd (ss_var_info s n)) = Some e" by blast
      have "Some e \<in> set (replacements s n)" using e by (cases "ss_var_info s n") (simp_all add: replacements_def)
      then have re: "wf_expr e" "eval \<rho> e i = Some v" using assms(1) v by (auto simp: knows_truth_def replacement_true_def)
      obtain sc b1 where sc: "scope_ref n (\<lambda>i. i\<lparr>vi_new_uses := vi_new_uses i + 1\<rparr>) (ss_var_info s) = Inr sc"
        "mut e b1 (s\<lparr>ss_var_info := sc\<rparr>) = Inr (e', b', s')"
        using assms(7) False e unfolding visit_Variable_def Let_def
        by (simp only: if_False) (auto simp: scope_contains_def rbind_Inr_iff assert_that_def split: if_splits)
      have "knows_truth \<rho> \<Gamma> i (s\<lparr>ss_var_info := sc\<rparr>)"
        using knows_truth_same [OF scope_ref_uses [OF sc(1)] assms(1)] by simp
      then show ?thesis using assms(2) re sc(2) unfolding mutate_value_def by blast
    next
      case none: False
      then have "e' = Variable (\<Gamma> n) n r"
        using assms(7) False unfolding visit_Variable_def Let_def
        by (simp only: if_False) (auto simp: scope_contains_def rbind_Inr_iff split: if_splits option.splits)
      then show ?thesis using assms(5) by simp
    qed
  qed
qed

text \<open>A variable with the bounds 7 and 7 becomes the number 7.\<close>

theorem visit_Variable_value_witness:
  "\<forall>fl. \<exists>e' b' s'. visit_Variable fl (\<lambda>e b s. Inr (e, b, s)) (Int_type 32 1) ''x'' no_refs None
       (new_simplify False (\<lambda>_. Some (IntImm (Int_type 32 1) 7, IntImm (Int_type 32 1) 7)) (\<lambda>_. None)) = Inr (e', b', s') \<and>
     e' = IntImm (Int_type 32 1) 7 \<and>
     eval \<lparr>env_var = \<lambda>_ _. Some 7, env_mem = \<lambda>_ _. None, env_call = \<lambda>_ _ _ _. None\<rparr> e' 0 = Some 7"
proof -
  define \<rho> where "\<rho> = \<lparr>env_var = \<lambda>(_ :: string) (_ :: nat). Some (7 :: int), env_mem = \<lambda>_ _. None, env_call = \<lambda>_ _ _ _. None\<rparr>"
  define \<Gamma> where "\<Gamma> = (\<lambda>_ :: string. Int_type 32 1)"
  define s where "s = new_simplify False (\<lambda>_. Some (IntImm (Int_type 32 1) 7, IntImm (Int_type 32 1) 7)) (\<lambda>_. None)"
  let ?mut = "\<lambda>e b s. Inr (e, b, s)"
  have ty: "is_int (Int_type 32 1)" "ty_ok (Int_type 32 1)" "ty_bits (Int_type 32 1) = 32" "is_scalar (Int_type 32 1)" "\<not> is_vector (Int_type 32 1)"
      "wrap_ty (Int_type 32 1) z = z" for z
    by (simp_all add: Int_type_def type_pred_defs no_overflow_int_def wrap_ty_def ty_ok_def)
  note ty = ty ty [unfolded One_nat_def]
  have "given_true \<rho> \<Gamma> 0 (\<lambda>_. Some (IntImm (Int_type 32 1) 7, IntImm (Int_type 32 1) 7)) (\<lambda>_. None)"
    by (simp add: given_true_def small_const_def var_val_def \<rho>_def \<Gamma>_def ty)
  note k = new_simplify_true [OF this, of False, folded s_def]
  have m: "mutate_value \<rho> \<Gamma> 0 ?mut" by (simp add: mutate_value_def)
  have "scope_contains ''x'' (ss_bounds s)" "single_point (hd (ss_bounds s ''x''))" "ei_min (hd (ss_bounds s ''x'')) = 7"
    by (simp_all add: s_def new_simplify_def initial_info_def interval_info_def Let_def scope_contains_def single_point_def)
  then have r: "visit_Variable fl ?mut (\<Gamma> ''x'') ''x'' no_refs None s = Inr (IntImm (Int_type 32 1) 7, None, s)" for fl
    by (simp add: visit_Variable_def make_const_def make_const_scalar_def \<Gamma>_def ty) (simp add: make_IntImm_eq [THEN iffD2] ty s_wrap_def imm_bits_def)
  have "eval \<rho> (IntImm (Int_type 32 1) 7) 0 = Some 7"
    by (rule visit_Variable_value [OF k m _ _ _ _ r]) (simp_all add: \<Gamma>_def \<rho>_def ty s_wrap_def)
  then show ?thesis using r unfolding s_def \<rho>_def \<Gamma>_def by (intro allI exI conjI) (assumption | simp)+
qed

end
