(* ===== verification/RewriteMatch.thy ===== *)
theory RewriteMatch
  imports RuleProof Rewriter
begin

text \<open>
  The correctness of matching: when a pattern matches a defined integer expression, the bindings give
  a context of the rule semantics in which the pattern is well typed, defined and has the value of
  the expression. The context is taken lane by lane: a scalar has the same value in every lane.
\<close>

subsection \<open>Expressions in the scope of the semantics\<close>

definition kind_of :: "htype \<Rightarrow> kind" where
  "kind_of t = (ty_code t, ty_bits t)"

abbreviation ekind :: "expr \<Rightarrow> kind" where
  "ekind e \<equiv> kind_of (type_of e)"

text \<open>
  Every load has a predicate that is constantly true, and a likely call has the type of its argument,
  as the functions \<open>likely\<close> and \<open>likely_if_innermost\<close> make it.
\<close>

definition plain_pred :: "expr \<Rightarrow> bool" where
  "plain_pred p \<longleftrightarrow> (case strip_broadcast p of UIntImm t v \<Rightarrow> v = 1 | _ \<Rightarrow> False)"

fun tame :: "expr \<Rightarrow> bool" where
  "tame (Cast t v) \<longleftrightarrow> tame v"
| "tame (Broadcast v l) \<longleftrightarrow> tame v"
| "tame (Bin op a b) \<longleftrightarrow> tame a \<and> tame b"
| "tame (NotE a) \<longleftrightarrow> tame a"
| "tame (Select c a b) \<longleftrightarrow> tame c \<and> tame a \<and> tame b"
| "tame (Load t n p i r al) \<longleftrightarrow> plain_pred p \<and> tame i"
| "tame (Ramp b s l) \<longleftrightarrow> tame b \<and> tame s"
| "tame (Call t n as ct vi r) \<longleftrightarrow> list_all tame as \<and>
     (is_likely_call n \<longrightarrow> length as = 1 \<and> type_eq t (type_of (hd as)))"
| "tame (LetE n v b) \<longleftrightarrow> tame v \<and> tame b"
| "tame (Shuffle vs is) \<longleftrightarrow> list_all tame vs"
| "tame e \<longleftrightarrow> True"

text \<open>The operators of the expression work on integers.\<close>

fun ints :: "expr \<Rightarrow> bool" where
  "ints (Broadcast v l) \<longleftrightarrow> ints v"
| "ints (Bin op a b) \<longleftrightarrow> ints a \<and> ints b"
| "ints (NotE a) \<longleftrightarrow> ints a"
| "ints (Select c a b) \<longleftrightarrow> ints c \<and> ints a \<and> ints b"
| "ints (Ramp b s l) \<longleftrightarrow> ints b \<and> ints s"
| "ints (Call t n as ct vi r) \<longleftrightarrow> is_ikind (kind_of t) \<and>
     (is_likely_call n \<longrightarrow> list_all ints as)"
| "ints e \<longleftrightarrow> is_ikind (ekind e)"

lemma kwrap_kind_of: "is_ikind (kind_of t) \<Longrightarrow> kwrap (kind_of t) = wrap_ty t"
  by (auto simp: fun_eq_iff kwrap_def wrap_ty_def kind_of_def no_overflow_int_def type_pred_defs
      is_ikind_def)

lemma type_eq_kind:
  assumes "type_eq t u" and "ty_ok t" and "ty_ok u"
  shows "kind_of t = kind_of u"
  using type_eqD [OF assms] by (simp add: kind_of_def)

lemma kind_with_lanes [simp]: "ty_ok t \<Longrightarrow> kind_of (with_lanes t l) = kind_of t"
  by (auto simp: kind_of_def ty_ok_def)

lemma kind_Bool [simp]: "kind_of (Bool_type l) = kbool"
  by (simp add: kind_of_def kbool_def)

lemma is_bool_kind: "ty_ok t \<Longrightarrow> is_bool t \<longleftrightarrow> kind_of t = kbool"
  by (auto simp: kind_of_def kbool_def type_pred_defs)

lemma kind_bin_type: "kind_of (bin_type op t) = (if is_compare op \<or> is_logical op then kbool else kind_of t)"
  by (simp add: bin_type_def)

lemma ints_kind: "wf_expr e \<Longrightarrow> ints e \<Longrightarrow> is_ikind (ekind e)"
  by (induction e) (auto simp: kind_bin_type wf_type_ok)

lemma plain_pred_eval: "plain_pred p \<Longrightarrow> eval \<rho> p i = Some 1"
  by (cases p) (auto simp: plain_pred_def split: expr.splits)

subsection \<open>Fast equality\<close>

lemma type_eq_eval:
  assumes "type_eq t u" and "ty_ok t" and "ty_ok u"
  shows "wrap_ty t = wrap_ty u" "lane_in t = lane_in u" "cast_val t = cast_val u"
    "cast_val w t = cast_val w u" "bin_val op t = bin_val op u"
proof -
  note e = type_eqD [OF assms]
  from e show w: "wrap_ty t = wrap_ty u" by (intro wrap_ty_cong)
  from e show "lane_in t = lane_in u" "cast_val t = cast_val u" "cast_val w t = cast_val w u"
    by (auto simp: lane_in_def cast_val_def fun_eq_iff no_overflow_int_def type_pred_defs)
  from w show "bin_val op t = bin_val op u"
    by (auto simp: bin_val_def fun_eq_iff split: binop.splits)
qed

lemma fast_equalD:
  "fast_equal a b \<Longrightarrow> wf_expr a \<Longrightarrow> wf_expr b \<Longrightarrow> lanes_of a = lanes_of b"
  using type_eqD(3) [of "type_of a" "type_of b"] wf_type_ok by simp

lemma fast_equal_eval_induct:
  "fast_equal a b \<Longrightarrow> wf_expr a \<Longrightarrow> wf_expr b \<Longrightarrow> tame a \<Longrightarrow> tame b \<Longrightarrow> eval \<rho> a = eval \<rho> b"
  "node_type a = node_type b \<Longrightarrow> type_eq (type_of a) (type_of b) \<Longrightarrow> equal_helper a b \<Longrightarrow>
     wf_expr a \<Longrightarrow> wf_expr b \<Longrightarrow> tame a \<Longrightarrow> tame b \<Longrightarrow> eval \<rho> a = eval \<rho> b"
  "length as = length bs \<Longrightarrow> equal_helper_vector as bs \<Longrightarrow> list_all wf_expr as \<Longrightarrow> list_all wf_expr bs \<Longrightarrow>
     list_all tame as \<Longrightarrow> list_all tame bs \<Longrightarrow>
     map (eval \<rho>) as = map (eval \<rho>) bs \<and> map lanes_of as = map lanes_of bs"
proof (induction a b and a b and as bs arbitrary: \<rho> and \<rho> and \<rho>
    rule: fast_equal_equal_helper_equal_helper_vector.induct)
  case (1 a b)
  then show ?case by simp
next
  case (6 t v b)
  then obtain t' v' where b: "b = Cast t' v'" by auto
  have "cast_val t (type_of v) = cast_val t' (type_of v')"
    using 6(3,4,5,6) type_eq_eval(3) [of t t'] type_eq_eval(4) [of "type_of v" "type_of v'"] wf_type_ok
    by (auto simp: b)
  moreover have "eval \<rho> v = eval \<rho> v'" using 6 b by auto
  ultimately show ?case unfolding b by (intro ext) simp
next
  case (7 t n r b)
  then obtain t' n' r' where b: "b = Variable t' n' r'" by auto
  show ?case using 7 b type_eq_eval [of t t'] by (intro ext) auto
next
  case (8 op x y b)
  then obtain x' y' where b: "b = Bin op x' y'" by (auto split: expr.splits)
  have "bin_val op (type_of x) = bin_val op (type_of x')"
    using 8 b wf_type_ok by (intro type_eq_eval(5)) auto
  moreover have "eval \<rho> x = eval \<rho> x'" "eval \<rho> y = eval \<rho> y'" using 8 b by auto
  ultimately show ?case unfolding b by (intro ext) (simp cong: option.case_cong)
next
  case (10 c x y b)
  then obtain c' x' y' where b: "b = Select c' x' y'" by auto
  have "eval \<rho> c = eval \<rho> c'" "eval \<rho> x = eval \<rho> x'" "eval \<rho> y = eval \<rho> y'" using 10 b by auto
  then show ?case unfolding b by (intro ext) simp
next
  case (11 t n p i r al b)
  then obtain t' n' p' i' r' al' where b: "b = Load t' n' p' i' r' al'" by auto
  have "eval \<rho> i = eval \<rho> i'" "n = n'" "wrap_ty t = wrap_ty t'"
    using 11 b type_eq_eval(1) [of t t'] by auto
  then show ?case unfolding b using 11 b by (intro ext) (simp add: plain_pred_eval cong: option.case_cong)
next
  case (12 x y l b)
  then obtain x' y' l' where b: "b = Ramp x' y' l'" by auto
  have "wrap_ty (type_of x) = wrap_ty (type_of x')"
    using 12 b wf_type_ok by (intro type_eq_eval(1)) auto
  moreover have "eval \<rho> x = eval \<rho> x'" "eval \<rho> y = eval \<rho> y'" using 12 b by auto
  ultimately show ?case unfolding b by (intro ext) (simp cong: option.case_cong)
next
  case (14 t n as ct vi r b)
  then obtain t' n' as' ct' vi' r' where b: "b = Call t' n' as' ct' vi' r'" by auto
  have m: "length as = length as'" "map (eval \<rho>) as = map (eval \<rho>) as'" using 14 b by auto
  then have "hd (map (\<lambda>a. eval \<rho> a k) as) = hd (map (\<lambda>a. eval \<rho> a k) as')" if "length as = 1" for k
    using that by (cases as; cases as') auto
  then show ?case unfolding b using 14 b m type_eq_eval(1,2) [of t t'] by (intro ext) simp
next
  case (15 n v x b)
  then obtain n' v' x' where b: "b = LetE n' v' x'" by auto
  have "eval \<sigma> v = eval \<sigma> v'" "eval \<sigma> x = eval \<sigma> x'" "n = n'" for \<sigma> using 15 b by auto
  then show ?case unfolding b by (intro ext) simp
next
  case (16 vs "is" b)
  then obtain vs' is' where b: "b = Shuffle vs' is'" by auto
  have l: "length vs = length vs'" "is = is'" "map (eval \<rho>) vs = map (eval \<rho>) vs'"
    "map lanes_of vs = map lanes_of vs'" using 16 b by auto
  then have "map (\<lambda>v. (lanes_of v, eval \<rho> v)) vs = map (\<lambda>v. (lanes_of v, eval \<rho> v)) vs'"
    by (induction vs vs' rule: list_induct2) auto
  then show ?case using b l by (auto simp: fun_eq_iff)
next
  case (18 x xs ys)
  then show ?case by (cases ys) (auto dest: fast_equalD simp del: fast_equal.simps)
qed (auto simp: fun_eq_iff)

lemmas fast_equal_eval = fast_equal_eval_induct(1)

subsection \<open>The context of a match\<close>

definition ctx_of :: "env \<Rightarrow> nat \<Rightarrow> matcher_state \<Rightarrow> rctx" where
  "ctx_of \<rho> i st =
     \<lparr>cx_wk = (\<lambda>n. case ms_wild st n of Some e \<Rightarrow> ekind e | None \<Rightarrow> (TInt, 32)),
      cx_ck = (\<lambda>n. case ms_const st n of Some (v, t) \<Rightarrow> kind_of t | None \<Rightarrow> (TInt, 32)),
      cx_w = (\<lambda>n. case ms_wild st n of
         Some e \<Rightarrow> (case eval \<rho> e i of Some v \<Rightarrow> v | None \<Rightarrow> 0) | None \<Rightarrow> 0),
      cx_c = (\<lambda>n. case ms_const st n of Some (VI z, t) \<Rightarrow> z | _ \<Rightarrow> 0),
      cx_lane = int i\<rparr>"

text \<open>An integer in the range of a kind, with the kinds that do not wrap bounded too.\<close>

definition kfits :: "kind \<Rightarrow> int \<Rightarrow> bool" where
  "kfits k z \<longleftrightarrow> is_ikind k \<and> (if fst k = TInt then s_wrap (snd k) z = z else u_wrap (snd k) z = z)"

definition const_ok :: "scalar_value \<times> htype \<Rightarrow> bool" where
  "const_ok c \<longleftrightarrow> (\<exists>z t. c = (VI z, t) \<and> ty_ok t \<and> kfits (kind_of t) z)"

definition wild_ok :: "env \<Rightarrow> nat \<Rightarrow> expr \<Rightarrow> bool" where
  "wild_ok \<rho> i e \<longleftrightarrow> wf_expr e \<and> tame e \<and> ints e \<and> eval \<rho> e i \<noteq> None"

definition st_ok :: "env \<Rightarrow> nat \<Rightarrow> matcher_state \<Rightarrow> bool" where
  "st_ok \<rho> i st \<longleftrightarrow> (\<forall>n e. ms_wild st n = Some e \<longrightarrow> wild_ok \<rho> i e) \<and>
     (\<forall>n c. ms_const st n = Some c \<longrightarrow> const_ok c)"

definition st_le :: "matcher_state \<Rightarrow> matcher_state \<Rightarrow> bool" where
  "st_le s s' \<longleftrightarrow> ms_wild s \<subseteq>\<^sub>m ms_wild s' \<and> ms_const s \<subseteq>\<^sub>m ms_const s'"

lemma st_le_refl [simp]: "st_le s s"
  by (simp add: st_le_def)

lemma st_le_trans [trans]: "st_le s s' \<Longrightarrow> st_le s' s'' \<Longrightarrow> st_le s s''"
  by (auto simp: st_le_def intro: map_le_trans)

lemma st_le_wild: "st_le s s' \<Longrightarrow> ms_wild s n = Some e \<Longrightarrow> ms_wild s' n = Some e"
  by (auto simp: st_le_def map_le_def dom_def)

lemma st_le_const: "st_le s s' \<Longrightarrow> ms_const s n = Some e \<Longrightarrow> ms_const s' n = Some e"
  by (auto simp: st_le_def map_le_def dom_def)

lemma empty_state_ok [simp]: "st_ok \<rho> i empty_state"
  by (simp add: st_ok_def empty_state_def)

lemma kfits_kwrap: "kfits k z \<Longrightarrow> kwrap k z = z"
  by (auto simp: kfits_def kwrap_def is_ikind_def split: if_splits)

lemma is_ikind_default [simp]: "is_ikind (TInt, 32)"
  by (simp add: is_ikind_def)

lemma ctx_of_ok: "st_ok \<rho> i st \<Longrightarrow> i < l \<Longrightarrow> ctx_ok l (ctx_of \<rho> i st)"
  unfolding ctx_ok_def st_ok_def wild_ok_def const_ok_def kfits_def
  by (auto simp: ctx_of_def ints_kind split: option.splits; blast)

text \<open>What a pattern that matched an expression means in the context of the final bindings.\<close>

definition means :: "rctx \<Rightarrow> pat \<Rightarrow> kind \<Rightarrow> int \<Rightarrow> bool" where
  "means x p k v \<longleftrightarrow> (pkind x p = None \<or> pkind x p = Some k) \<and> pwt x k p \<and> pdef x k p \<and> pval x k p = v"

definition match_sound :: "env \<Rightarrow> nat \<Rightarrow> pat \<Rightarrow> expr \<Rightarrow> int \<Rightarrow> matcher_state \<Rightarrow> matcher_state \<Rightarrow> bool" where
  "match_sound \<rho> i p e v s s' \<longleftrightarrow> st_le s s' \<and> st_ok \<rho> i s' \<and>
     (\<forall>s''. st_le s' s'' \<and> st_ok \<rho> i s'' \<longrightarrow> means (ctx_of \<rho> i s'') p (ekind e) v)"

text \<open>A comparison inside a pattern has an operand that fixes the kind.\<close>

fun typed :: "pat \<Rightarrow> bool" where
  "typed (PWild n) \<longleftrightarrow> True"
| "typed (PWildConst n) \<longleftrightarrow> True"
| "typed (PBin op p q) \<longleftrightarrow> is_compare op \<or> is_logical op \<or> typed p \<or> typed q"
| "typed (PNot p) \<longleftrightarrow> True"
| "typed (PSelect c p q) \<longleftrightarrow> typed p \<or> typed q"
| "typed (PBroadcast p l) \<longleftrightarrow> typed p"
| "typed (PRamp p q l) \<longleftrightarrow> typed p \<or> typed q"
| "typed (PNegate p) \<longleftrightarrow> typed p"
| "typed (PFold p) \<longleftrightarrow> typed p"
| "typed (PIntrin n (p # ps)) \<longleftrightarrow> typed p"
| "typed p \<longleftrightarrow> False"

fun match_pat :: "pat \<Rightarrow> bool" where
  "match_pat (PWild n) \<longleftrightarrow> True"
| "match_pat (PWildConst n) \<longleftrightarrow> True"
| "match_pat (PConst z) \<longleftrightarrow> True"
| "match_pat (PBin op p q) \<longleftrightarrow> match_pat p \<and> match_pat q \<and> (is_compare op \<longrightarrow> typed p \<or> typed q)"
| "match_pat (PNot p) \<longleftrightarrow> match_pat p"
| "match_pat (PSelect c p q) \<longleftrightarrow> match_pat c \<and> match_pat p \<and> match_pat q"
| "match_pat (PBroadcast p l) \<longleftrightarrow> match_pat p"
| "match_pat (PRamp p q l) \<longleftrightarrow> match_pat p \<and> match_pat q"
| "match_pat (PIntrin n ps) \<longleftrightarrow> is_likely_call n \<and> (case ps of [p] \<Rightarrow> match_pat p | _ \<Rightarrow> False)"
| "match_pat PIndeterminate \<longleftrightarrow> True"
| "match_pat POverflow \<longleftrightarrow> True"
| "match_pat PTypeMin \<longleftrightarrow> True"
| "match_pat PTypeMax \<longleftrightarrow> True"
| "match_pat p \<longleftrightarrow> False"

lemma typed_pkind: "typed p \<Longrightarrow> pkind x p \<noteq> None"
  by (induction p rule: typed.induct) (auto split: option.splits)

subsection \<open>Matching leaves\<close>

lemma match_soundI:
  assumes "st_le s s'" and "st_ok \<rho> i s'"
    and "\<And>s''. st_le s' s'' \<Longrightarrow> st_ok \<rho> i s'' \<Longrightarrow> means (ctx_of \<rho> i s'') p (ekind e) v"
  shows "match_sound \<rho> i p e v s s'"
  using assms by (simp add: match_sound_def)

lemma eval_kwrap: "wf_expr e \<Longrightarrow> ints e \<Longrightarrow> eval \<rho> e i = Some v \<Longrightarrow> kwrap (ekind e) v = v"
  by (simp add: kwrap_kind_of ints_kind eval_norm)

lemma means_wild:
  assumes "wild_ok \<rho> i e'" and "ms_wild s n = Some e'" and "eval \<rho> e' i = Some v" and "ekind e' = k"
  shows "means (ctx_of \<rho> i s) (PWild n) k v"
  using assms eval_kwrap [of e'] by (auto simp: means_def ctx_of_def wild_ok_def)

lemma bind_wild_sound:
  assumes b: "bind_wild n e s = Some s'" and e: "wild_ok \<rho> i e" "eval \<rho> e i = Some v"
    and s: "st_ok \<rho> i s"
  shows "match_sound \<rho> i (PWild n) e v s s'"
proof (cases "ms_wild s n")
  case None
  then have s': "s' = s\<lparr>ms_wild := (ms_wild s)(n \<mapsto> e)\<rparr>" using b by (simp add: bind_wild_def)
  have "st_le s s'" "st_ok \<rho> i s'"
    using None s e by (auto simp: s' st_le_def st_ok_def map_le_def)
  then show ?thesis
    using e by (intro match_soundI means_wild [OF e(1)]) (auto simp: s' dest: st_le_wild [of _ _ n e])
next
  case (Some e')
  then have "s' = s" and q: "fast_equal e' e"
    using b by (auto simp: bind_wild_def simp del: fast_equal.simps split: if_splits)
  have e': "wild_ok \<rho> i e'" using s Some by (simp add: st_ok_def)
  have "eval \<rho> e' i = Some v" "ekind e' = ekind e"
    using fast_equal_eval [OF q] type_eq_kind [of "type_of e'" "type_of e"] q e e' wf_type_ok
    by (auto simp: wild_ok_def)
  then show ?thesis unfolding \<open>s' = s\<close>
    using Some s by (intro match_soundI means_wild [OF e']) (auto dest: st_le_wild)
qed

text \<open>A constant and the expression it is read from.\<close>

definition imm_expr :: "expr \<Rightarrow> htype \<Rightarrow> int \<Rightarrow> bool" where
  "imm_expr e t z \<longleftrightarrow> strip_broadcast e = IntImm t z \<or> strip_broadcast e = UIntImm t z"

lemma imm_expr_ok:
  assumes "imm_expr e t z" and "wf_expr e" and "ints e"
  shows "ekind e = kind_of t" "kfits (kind_of t) z" "eval \<rho> e i = Some z" "ty_ok t" "ty_ok (type_of e)"
proof -
  have "ekind e = kind_of t \<and> wf_expr (strip_broadcast e) \<and> eval \<rho> e i = Some z \<and> ints (strip_broadcast e)"
    using assms by (cases e) (auto simp: imm_expr_def)
  then show "ekind e = kind_of t" "kfits (kind_of t) z" "eval \<rho> e i = Some z" "ty_ok t"
    using assms(1) by (auto simp: imm_expr_def kfits_def kind_of_def type_pred_defs)
  show "ty_ok (type_of e)" using assms(2) by (rule wf_type_ok)
qed

lemma kfits_rd:
  assumes "kfits k z"
  shows "fst k = TInt \<Longrightarrow> rd_i64 fl (VI z) = z" "fst k \<noteq> TInt \<Longrightarrow> rd_u64 fl (VI z) = z"
proof -
  assume k: "fst k = TInt"
  then have "in_s (snd k) z" using assms s_wrap_in_s [of "snd k" z] by (auto simp: kfits_def is_ikind_def)
  then have "in_s 64 z" using assms in_s_mono [of "snd k" z 64] by (simp add: kfits_def is_ikind_def)
  then show "rd_i64 fl (VI z) = z" by (simp add: rd_i64_def s_wrap_in_s_id)
next
  assume k: "fst k \<noteq> TInt"
  then have "0 \<le> z" "z < 2 ^ snd k" using assms u_wrap_range [of "snd k" z] by (auto simp: kfits_def)
  moreover have "(2::int) ^ snd k \<le> 2 ^ 64"
    using assms by (intro power_increasing) (auto simp: kfits_def is_ikind_def)
  ultimately have "u_wrap 64 z = z" by (intro u_wrap_id) linarith+
  then show "rd_u64 fl (VI z) = z" by (simp add: rd_u64_def)
qed

lemma means_const:
  assumes "ms_const s n = Some (VI z, t)" and "kfits (kind_of t) z" and "kind_of t = k"
  shows "means (ctx_of \<rho> i s) (PWildConst n) k z"
  using assms kfits_kwrap by (auto simp: means_def ctx_of_def)

lemma bind_const_sound:
  assumes b: "bind_const n t (VI z) same (type_of e) s = Some s'"
    and same: "\<And>z' t'. kfits (kind_of t') z' \<Longrightarrow> kind_of t' = kind_of t \<Longrightarrow> same (VI z') \<Longrightarrow> z' = z"
    and e: "imm_expr e t z" "wf_expr e" "ints e" and s: "st_ok \<rho> i s"
  shows "match_sound \<rho> i (PWildConst n) e z s s'"
proof (cases "ms_const s n")
  case None
  then have s': "s' = s\<lparr>ms_const := (ms_const s)(n \<mapsto> (VI z, type_of e))\<rparr>"
    using b by (simp add: bind_const_def)
  have "st_le s s'" "st_ok \<rho> i s'"
    using None s imm_expr_ok [OF e] by (auto simp: s' st_le_def st_ok_def map_le_def const_ok_def)
  then show ?thesis
    using imm_expr_ok [OF e]
    by (intro match_soundI means_const [where t = "type_of e"])
      (auto simp: s' dest: st_le_const [of _ _ n "(VI z, type_of e)"])
next
  case (Some c)
  then obtain z' t' where c: "c = (VI z', t')" "ty_ok t'" "kfits (kind_of t') z'"
    using s Some unfolding st_ok_def const_ok_def by blast
  with Some b have "s' = s" and q: "type_eq t t'" "same (VI z')"
    by (auto simp: bind_const_def split: if_splits)
  have k: "kind_of t' = kind_of t" using type_eq_kind [OF q(1)] imm_expr_ok(4) [OF e] c(2) by simp
  then have "z' = z" using same c(3) q(2) by blast
  then show ?thesis unfolding \<open>s' = s\<close>
    using Some s c k imm_expr_ok [OF e]
    by (intro match_soundI means_const [where t = t']) (auto dest: st_le_const)
qed

lemma match_wild_const_sound:
  assumes "match_wild_const fl n e s = Some s'" and e: "wf_expr e" "ints e" and "st_ok \<rho> i s"
    and "eval \<rho> e i = Some v"
  shows "match_sound \<rho> i (PWildConst n) e v s s'"
proof -
  have nf: "strip_broadcast e \<noteq> FloatImm t d" for t d
    using e by (cases e) (auto simp: kind_of_def is_ikind_def type_pred_defs)
  show ?thesis
  proof (cases "strip_broadcast e")
    case (IntImm t z)
    then have i: "imm_expr e t z" by (simp add: imm_expr_def)
    have "fst (kind_of t) = TInt" using i e IntImm by (cases e) (auto simp: kind_of_def type_pred_defs)
    moreover have "v = z" using assms(5) imm_expr_ok(3) [OF i e, of \<rho> i] by simp
    ultimately show ?thesis
      using assms IntImm by (auto simp: match_wild_const_def kfits_rd intro!: bind_const_sound [OF _ _ i e])
  next
    case (UIntImm t z)
    then have i: "imm_expr e t z" by (simp add: imm_expr_def)
    have "fst (kind_of t) \<noteq> TInt" using i e UIntImm by (cases e) (auto simp: kind_of_def type_pred_defs)
    moreover have "v = z" using assms(5) imm_expr_ok(3) [OF i e, of \<rho> i] by simp
    ultimately show ?thesis
      using assms UIntImm by (auto simp: match_wild_const_def kfits_rd intro!: bind_const_sound [OF _ _ i e])
  qed (use assms nf in \<open>auto simp: match_wild_const_def\<close>)
qed

text \<open>A constant made for a type: an immediate, or the broadcast of one for a vector type.\<close>

definition imm_of :: "htype \<Rightarrow> int \<Rightarrow> expr \<Rightarrow> bool" where
  "imm_of T w m \<longleftrightarrow> (\<exists>s u. (u = IntImm s w \<or> u = UIntImm s w) \<and> wf_expr u \<and> kind_of s = kind_of T \<and>
     (m = u \<and> ty_lanes T = 1 \<or>
      m = Broadcast u (ty_lanes T) \<and> ty_lanes T \<noteq> 1 \<and> ty_lanes T < 2 ^ 16))"

lemma imm_ikind:
  "wf_expr (IntImm s w) \<Longrightarrow> is_ikind (kind_of s)" "wf_expr (UIntImm s w) \<Longrightarrow> is_ikind (kind_of s)"
  by (auto simp: is_ikind_def kind_of_def type_pred_defs imm_bits_def)

lemma imm_of_ok:
  assumes "imm_of T w m"
  shows "wf_expr m" "tame m" "ints m" "ekind m = kind_of T" "lanes_of m = ty_lanes T"
    "eval \<rho> m i = Some w"
proof -
  obtain s u where u: "u = IntImm s w \<or> u = UIntImm s w" "wf_expr u" "kind_of s = kind_of T"
    "m = u \<and> ty_lanes T = 1 \<or> m = Broadcast u (ty_lanes T) \<and> ty_lanes T \<noteq> 1 \<and> ty_lanes T < 2 ^ 16"
    using assms unfolding imm_of_def by blast
  have "tame u" "ints u" "ekind u = kind_of T" "lanes_of u = 1" "eval \<rho> u i = Some w"
    using u imm_ikind [of s w] by (auto simp: is_scalar_def)
  then show "wf_expr m" "tame m" "ints m" "ekind m = kind_of T" "lanes_of m = ty_lanes T"
    "eval \<rho> m i = Some w"
    using u(2,4) wf_type_ok [OF u(2)] by (auto simp: is_scalar_def)
qed

lemma imm_ofI:
  assumes "make_IntImm s a = Inr u \<and> w = s_wrap (ty_bits T) a \<or>
      make_UIntImm s a = Inr u \<and> w = u_wrap (ty_bits T) a"
    and "s = (if is_vector T then element_of T else T)" and "ty_ok T"
    and "m = u \<and> \<not> is_vector T \<or> make_Broadcast u (ty_lanes T) = Inr m \<and> is_vector T"
  shows "imm_of T w m"
proof -
  have s: "kind_of s = kind_of T" "ty_ok s" "ty_bits s = ty_bits T"
    using assms(2,3) by (auto simp: kind_of_def element_of_def ty_ok_def)
  then have "u = IntImm s w \<and> wf_expr u \<or> u = UIntImm s w \<and> wf_expr u"
    using assms(1) by (auto simp: make_IntImm_eq make_UIntImm_eq s_wrap.wr_wr u_wrap.wr_wr)
  then show ?thesis
    unfolding imm_of_def using s assms(3,4)
    by (intro exI [of _ s] exI [of _ u]) (auto simp: is_vector_def make_Broadcast_def ty_ok_def)
qed

lemma int_extreme_sound:
  assumes "ty_ok T" and "\<not> is_float T"
  shows "type_min fl T = Inr m \<Longrightarrow> imm_of T (kmin (kind_of T)) m"
    "type_max fl T = Inr m \<Longrightarrow> imm_of T (kmax (kind_of T)) m"
proof -
  let ?s = "if is_vector T then element_of T else T"
  have b: "ty_bits ?s = ty_bits T" "is_int ?s = is_int T" "is_uint ?s = is_uint T" "\<not> is_float ?s"
    using assms by (auto simp: element_of_def ty_ok_def type_pred_defs)
  have r: "1 \<le> ty_bits T \<and> ty_bits T \<le> 64" if "ty_bits T \<in> set (1 # imm_bits)"
    using that by (auto simp: imm_bits_def)
  { assume "type_min fl T = Inr m"
    then obtain a u where "make_IntImm ?s a = Inr u \<and> a = min_int (ty_bits T) \<or>
        make_UIntImm ?s a = Inr u \<and> a = 0"
      and "m = u \<and> \<not> is_vector T \<or> make_Broadcast u (ty_lanes T) = Inr m \<and> is_vector T"
      using b by (auto simp: type_min_def float_extreme_def Let_def rbind_Inr_iff split: if_splits)
    moreover from this have "make_IntImm ?s a = Inr u \<and> kmin (kind_of T) = s_wrap (ty_bits T) a \<or>
        make_UIntImm ?s a = Inr u \<and> kmin (kind_of T) = u_wrap (ty_bits T) a"
      using b r by (auto simp: make_IntImm_eq make_UIntImm_eq min_int_eq kmin_def kind_of_def
          type_pred_defs s_wrap_id u_wrap_mod)
    ultimately show "imm_of T (kmin (kind_of T)) m" using assms by (intro imm_ofI) auto }
  { assume "type_max fl T = Inr m"
    then obtain a u where "make_IntImm ?s a = Inr u \<and> a = max_int (ty_bits T) \<or>
        make_UIntImm ?s a = Inr u \<and> a = max_uint (ty_bits T)"
      and "m = u \<and> \<not> is_vector T \<or> make_Broadcast u (ty_lanes T) = Inr m \<and> is_vector T"
      using b by (auto simp: type_max_def float_extreme_def Let_def rbind_Inr_iff split: if_splits)
    moreover from this have "make_IntImm ?s a = Inr u \<and> kmax (kind_of T) = s_wrap (ty_bits T) a \<or>
        make_UIntImm ?s a = Inr u \<and> kmax (kind_of T) = u_wrap (ty_bits T) a"
      using b r by (auto simp: make_IntImm_eq make_UIntImm_eq max_int_eq max_uint_eq kmax_def kind_of_def
          type_pred_defs s_wrap_id u_wrap_id)
    ultimately show "imm_of T (kmax (kind_of T)) m" using assms by (intro imm_ofI) auto }
qed

definition float_expr :: "expr \<Rightarrow> bool" where
  "float_expr m \<longleftrightarrow> ty_code (type_of m) = TFloat \<and> ty_ok (type_of m)"

lemma float_extreme_float:
  assumes "ty_ok T" and "is_float T"
    and "rbind (float_extreme fl (if is_vector T then element_of T else T) h w)
      (\<lambda>e. if is_vector T then make_Broadcast e (ty_lanes T) else Inr e) = Inr m"
  shows "float_expr m"
  using assms
  by (auto simp: float_extreme_def make_FloatImm_def make_Broadcast_def rbind_Inr_iff float_expr_def element_of_def
      ty_ok_def is_float_def split: if_splits)

lemma type_extreme_sound:
  assumes "ty_ok T"
  shows "type_min fl T = Inr m \<Longrightarrow> imm_of T (kmin (kind_of T)) m \<or> float_expr m"
    "type_max fl T = Inr m \<Longrightarrow> imm_of T (kmax (kind_of T)) m \<or> float_expr m"
proof -
  have f: "\<not> is_int (if is_vector T then element_of T else T)" "\<not> is_uint (if is_vector T then element_of T else T)"
    if "is_float T" using that assms by (auto simp: element_of_def ty_ok_def type_pred_defs)
  show "type_min fl T = Inr m \<Longrightarrow> imm_of T (kmin (kind_of T)) m \<or> float_expr m"
    using int_extreme_sound(1) [OF assms] float_extreme_float [OF assms] f
    by (cases "is_float T") (auto simp: type_min_def Let_def simp del: if_split)
  show "type_max fl T = Inr m \<Longrightarrow> imm_of T (kmax (kind_of T)) m \<or> float_expr m"
    using int_extreme_sound(2) [OF assms] float_extreme_float [OF assms] f
    by (cases "is_float T") (auto simp: type_max_def Let_def simp del: if_split)
qed

lemma match_specific_sound:
  assumes "match_specific r e" and "\<And>m. r = Inr m \<Longrightarrow> imm_of T w m \<or> float_expr m"
    and "wf_expr e" and "tame e" and "ints e" and "eval \<rho> e i = Some v"
  shows "ekind e = kind_of T \<and> v = w"
proof -
  obtain m where m': "imm_of T w m \<or> float_expr m" and q: "fast_equal m e"
    using assms(1,2) by (auto simp: match_specific_def simp del: fast_equal.simps split: sum.splits)
  have "ekind m = ekind e" if "ty_ok (type_of m)"
    using type_eq_kind [of "type_of m" "type_of e"] q that assms(3) wf_type_ok by auto
  then have "\<not> float_expr m" using ints_kind [OF assms(3,5)] by (auto simp: float_expr_def is_ikind_def kind_of_def)
  with m' q have m: "imm_of T w m" "fast_equal m e" by blast+
  have "eval \<rho> m i = eval \<rho> e i" "ekind m = ekind e"
    using fast_equal_eval [OF m(2)] imm_of_ok [OF m(1)] assms(3,4) m(2)
      type_eq_kind [of "type_of m" "type_of e"] wf_type_ok by auto
  then show ?thesis using imm_of_ok [OF m(1)] assms(6) by simp
qed

lemma match_const_sound:
  assumes "match_const fl z e" and "wf_expr e" and "ints e" and "eval \<rho> e i = Some v"
  shows "kwrap (ekind e) z = v"
proof -
  have "(\<exists>t. imm_expr e t z) \<or> (\<exists>t. strip_broadcast e = UIntImm t (u_wrap 64 z)) \<or>
      (\<exists>t d. strip_broadcast e = FloatImm t d)"
    using assms(1) by (auto simp: match_const_def imm_expr_def split: expr.splits)
  then consider t where "imm_expr e t z" | t where "strip_broadcast e = UIntImm t (u_wrap 64 z)"
    | t d where "strip_broadcast e = FloatImm t d" by blast
  then show ?thesis
  proof cases
    case 1
    then show ?thesis using imm_expr_ok [OF 1 assms(2,3)] assms(4) kfits_kwrap by simp
  next
    case 2
    then have i: "imm_expr e t (u_wrap 64 z)" by (simp add: imm_expr_def)
    note o = imm_expr_ok [OF i assms(2,3)]
    have c: "ty_code t = TUInt" "ty_bits t \<le> 64"
      using 2 assms(2,3) by (cases e; auto simp: type_pred_defs imm_bits_def)+
    then have "u_wrap (ty_bits t) (u_wrap 64 z) = u_wrap (ty_bits t) z"
      by (simp add: u_wrap_def min_def)
    then show ?thesis
      using o(1,2) o(3) [of \<rho> i] assms(4) c by (simp add: kfits_def kwrap_def kind_of_def)
  next
    case 3
    then show ?thesis using assms by (cases e) (auto simp: kind_of_def is_ikind_def type_pred_defs)
  qed
qed

subsection \<open>Matching nodes\<close>

lemma bin_val_binv:
  assumes "bin_val op t u w = Some v" and "is_ikind (kind_of t)"
  shows "v = binv op (kind_of t) u w" "op = Div \<or> op = Mod \<longrightarrow> w \<noteq> 0"
  using assms by (cases op; auto simp: bin_val_def binv_def kwrap_kind_of split: if_splits)+

lemma means_pkind: "means x p k u \<Longrightarrow> typed p \<Longrightarrow> pkind x p = Some k"
  using typed_pkind [of p x] by (auto simp: means_def)

lemma pkind_or_else:
  assumes "a = None \<or> a = Some k" and "b = None \<or> b = Some (k :: kind)"
  shows "(case a of Some k \<Rightarrow> Some k | None \<Rightarrow> b) = None \<or> (case a of Some k \<Rightarrow> Some k | None \<Rightarrow> b) = Some k"
  using assms by (elim disjE) simp_all

lemma means_or_else:
  "means x p k u \<Longrightarrow> means x q k w \<Longrightarrow>
     (case pkind x p of Some k \<Rightarrow> Some k | None \<Rightarrow> pkind x q) = None \<or>
     (case pkind x p of Some k \<Rightarrow> Some k | None \<Rightarrow> pkind x q) = Some k"
  unfolding means_def by (intro pkind_or_else) blast+

lemma means_okind:
  assumes m: "means x p k u" "means x q k w" and "typed p \<or> typed q"
  shows "okind x p q = k"
proof -
  have p: "pkind x p = None \<or> pkind x p = Some k" "pkind x q = None \<or> pkind x q = Some k"
    using m by (simp_all add: means_def)
  with assms(3) means_pkind [OF m(1)] means_pkind [OF m(2)] show ?thesis
    unfolding okind_def by (elim disjE) simp_all
qed

lemma means_bin:
  assumes m: "means x p k u" "means x q k w" and "v = binv op k u w" and "op = Div \<or> op = Mod \<longrightarrow> w \<noteq> 0"
    and "is_compare op \<longrightarrow> typed p \<or> typed q" and "is_logical op \<longrightarrow> k = kbool"
  shows "means x (PBin op p q) (if is_compare op \<or> is_logical op then kbool else k) v"
proof -
  have "sub_kind x op (if is_compare op \<or> is_logical op then kbool else k) p q = k"
    using means_okind [OF m] assms(5,6)
    by (simp add: sub_kind_def del: is_compare.simps is_logical.simps)
  then show ?thesis
    using assms means_or_else [OF m] unfolding means_def
    by (simp add: Let_def del: is_compare.simps is_logical.simps)
qed

lemma match_sound_pair:
  assumes m: "match_sound \<rho> i p a u s s1" "match_sound \<rho> i q b w s1 s2"
    and r: "\<And>x. cx_lane x = int i \<Longrightarrow> means x p (ekind a) u \<Longrightarrow> means x q (ekind b) w \<Longrightarrow>
      means x r (ekind e) v"
  shows "match_sound \<rho> i r e v s s2"
proof (rule match_soundI)
  show "st_le s s2" "st_ok \<rho> i s2" using m st_le_trans unfolding match_sound_def by blast+
  fix s''
  assume s: "st_le s2 s''" "st_ok \<rho> i s''"
  then have "st_le s1 s''" using m(2) st_le_trans unfolding match_sound_def by blast
  with m s show "means (ctx_of \<rho> i s'') r (ekind e) v"
    by (intro r) (auto simp: match_sound_def ctx_of_def)
qed

lemma match_sound_one:
  assumes "match_sound \<rho> i p a u s s'"
    and "\<And>x. means x p (ekind a) u \<Longrightarrow> means x r (ekind e) v"
  shows "match_sound \<rho> i r e v s s'"
  using assms unfolding match_sound_def by blast

lemma bin_match_sound:
  assumes e: "wf_expr (Bin op a b)" "ints (Bin op a b)" "eval \<rho> (Bin op a b) i = Some v"
    and p: "is_compare op \<longrightarrow> typed p \<or> typed q"
    and m: "\<And>u. eval \<rho> a i = Some u \<Longrightarrow> match_sound \<rho> i p a u s s1"
      "\<And>w. eval \<rho> b i = Some w \<Longrightarrow> match_sound \<rho> i q b w s1 s2"
  shows "match_sound \<rho> i (PBin op p q) (Bin op a b) v s s2"
proof -
  obtain u w where uw: "eval \<rho> a i = Some u" "eval \<rho> b i = Some w" "bin_val op (type_of a) u w = Some v"
    using e(3) by (auto split: option.splits)
  have k: "ekind b = ekind a" "is_ikind (ekind a)"
    using e type_eq_kind [of "type_of a" "type_of b"] wf_type_ok ints_kind by auto
  have "is_logical op \<longrightarrow> ekind a = kbool"
    using e(1) is_bool_kind [of "type_of a"] wf_type_ok by simp
  then show ?thesis
    using bin_val_binv [OF uw(3) k(2)] k(1) p
    by (intro match_sound_pair [OF m(1) [OF uw(1)] m(2) [OF uw(2)]])
      (simp add: kind_bin_type means_bin del: is_compare.simps is_logical.simps)
qed

lemma ramp_match_sound:
  assumes e: "wf_expr (Ramp a b n)" "ints (Ramp a b n)" "eval \<rho> (Ramp a b n) i = Some v"
    and m: "\<And>u. eval \<rho> a i = Some u \<Longrightarrow> match_sound \<rho> i p a u s s1"
      "\<And>w. eval \<rho> b i = Some w \<Longrightarrow> match_sound \<rho> i q b w s1 s2"
  shows "match_sound \<rho> i (PRamp p q l) (Ramp a b n) v s s2"
proof -
  obtain u w where uw: "eval \<rho> a i = Some u" "eval \<rho> b i = Some w" "v = wrap_ty (type_of a) (u + int i * w)"
    using e(3) by (auto split: option.splits)
  have k: "ekind b = ekind a" "is_ikind (ekind a)" "ekind (Ramp a b n) = ekind a"
    using e type_eq_kind [of "type_of b" "type_of a"] wf_type_ok ints_kind by auto
  show ?thesis
    using uw(3) k
    by (intro match_sound_pair [OF m(1) [OF uw(1)] m(2) [OF uw(2)]])
      (use means_or_else in \<open>fastforce simp: means_def kwrap_kind_of\<close>)
qed

lemma select_match_sound:
  assumes e: "wf_expr (Select c a b)" "ints (Select c a b)" "eval \<rho> (Select c a b) i = Some v"
    and m: "\<And>z. eval \<rho> c i = Some z \<Longrightarrow> match_sound \<rho> i r c z s s1"
      "\<And>u. eval \<rho> a i = Some u \<Longrightarrow> match_sound \<rho> i p a u s1 s2"
      "\<And>w. eval \<rho> b i = Some w \<Longrightarrow> match_sound \<rho> i q b w s2 s3"
  shows "match_sound \<rho> i (PSelect r p q) (Select c a b) v s s3"
proof -
  obtain z u w where v: "eval \<rho> c i = Some z" "eval \<rho> a i = Some u" "eval \<rho> b i = Some w"
    "v = (if z \<noteq> 0 then u else w)"
    using e(3) by (auto split: option.splits)
  have k: "ekind b = ekind a" "ekind c = kbool"
    using e type_eq_kind [of "type_of b" "type_of a"] is_bool_kind [of "type_of c"] wf_type_ok by auto
  note m1 = m(1) [OF v(1)] and m2 = m(2) [OF v(2)] and m3 = m(3) [OF v(3)]
  show ?thesis
  proof (rule match_soundI)
    show "st_le s s3" "st_ok \<rho> i s3" using m1 m2 m3 st_le_trans unfolding match_sound_def by blast+
    fix s''
    assume s: "st_le s3 s''" "st_ok \<rho> i s''"
    then have "st_le s1 s''" "st_le s2 s''" using m2 m3 st_le_trans unfolding match_sound_def by blast+
    with m1 m2 m3 s k have "means (ctx_of \<rho> i s'') r kbool z" "means (ctx_of \<rho> i s'') p (ekind a) u"
      "means (ctx_of \<rho> i s'') q (ekind a) w"
      by (auto simp: match_sound_def)
    with means_or_else [OF this(2,3)] v(4)
    show "means (ctx_of \<rho> i s'') (PSelect r p q) (ekind (Select c a b)) v"
      by (simp add: means_def)
  qed
qed

lemma likely_match_sound:
  assumes e: "wf_expr (Call t n [a] ct vi r)" "tame (Call t n [a] ct vi r)" "ints (Call t n [a] ct vi r)"
    "eval \<rho> (Call t n [a] ct vi r) i = Some v" "is_likely_call n"
    and m: "\<And>u. eval \<rho> a i = Some u \<Longrightarrow> match_sound \<rho> i p a u s s'"
  shows "match_sound \<rho> i (PIntrin n [p]) (Call t n [a] ct vi r) v s s'"
proof -
  have n: "\<not> is_undef_call n" using e(5) by (auto simp: is_likely_call_def is_undef_call_def)
  have a: "wf_expr a" "ints a" "type_eq t (type_of a)" "ty_ok t" using e by auto
  have l: "eval \<rho> a (lane_in t i) = eval \<rho> a i"
    using eval_scalar_lane [OF a(1)] type_eqD(3) [OF a(3,4) wf_type_ok [OF a(1)]]
    by (auto simp: lane_in_def is_scalar_def)
  then obtain u where u: "eval \<rho> a i = Some u" "v = wrap_ty t u" using e(4,5) n by auto
  have "v = u" using u eval_norm [OF a(1) u(1)] type_eq_eval(1) [OF a(3,4) wf_type_ok [OF a(1)]] by simp
  moreover have "kind_of t = ekind a" by (rule type_eq_kind [OF a(3,4) wf_type_ok [OF a(1)]])
  ultimately show ?thesis
    by (intro match_sound_one [OF m [OF u(1)]]) (simp add: means_def)
qed

lemma trivial_match_sound:
  assumes "st_ok \<rho> i s" and "\<And>x. means x p (ekind e) v"
  shows "match_sound \<rho> i p e v s s"
  using assms by (intro match_soundI) auto

text \<open>Matching is sound for every pattern the rules use on the left.\<close>

theorem pmatch_sound:
  assumes T: "ty_ok (rw_wild rw)"
  shows "pmatch rw p e s = Some s' \<Longrightarrow> match_pat p \<Longrightarrow> wf_expr e \<Longrightarrow> tame e \<Longrightarrow> ints e \<Longrightarrow>
    eval \<rho> e i = Some v \<Longrightarrow> st_ok \<rho> i s \<Longrightarrow> match_sound \<rho> i p e v s s'"
proof (induction p arbitrary: e s s' v)
  case (PWild n)
  then show ?case by (intro bind_wild_sound) (auto simp: wild_ok_def)
next
  case (PWildConst n)
  then show ?case using match_wild_const_sound by simp
next
  case (PConst z)
  then have "kwrap (ekind e) z = v" "s' = s"
    using match_const_sound [of "rw_fl rw" z e \<rho> i v] by (auto split: if_splits)
  with PConst show ?case by (auto intro!: trivial_match_sound simp: means_def)
next
  case (PBin op p q)
  then obtain a b s1 where e: "e = Bin op a b" and m: "pmatch rw p a s = Some s1" "pmatch rw q b s1 = Some s'"
    by (auto split: expr.splits if_splits bind_splits)
  have sub: "wf_expr a" "wf_expr b" "tame a" "tame b" "ints a" "ints b"
    "match_pat p" "match_pat q" "is_compare op \<longrightarrow> typed p \<or> typed q"
    using PBin.prems by (auto simp: e)
  obtain u where "eval \<rho> a i = Some u" using PBin.prems(6) by (auto simp: e split: option.splits)
  with PBin.IH(1) [OF m(1)] sub PBin.prems(7) have s1: "st_ok \<rho> i s1" by (simp add: match_sound_def)
  show ?case unfolding e
    using PBin.prems(3,5,6) [unfolded e]
    by (rule bin_match_sound [OF _ _ _ sub(9) PBin.IH(1) [OF m(1) sub(7,1,3,5) _ PBin.prems(7)]
          PBin.IH(2) [OF m(2) sub(8,2,4,6) _ s1]])
next
  case (PNot p)
  then obtain a where e: "e = NotE a" and m: "pmatch rw p a s = Some s'" by (auto split: expr.splits)
  obtain u where u: "eval \<rho> a i = Some u" "v = of_bool (u = 0)" using PNot.prems(6) by (auto simp: e)
  have "ekind a = kbool" using PNot.prems is_bool_kind [of "type_of a"] wf_type_ok by (auto simp: e)
  then show ?case unfolding e
    using PNot u m by (intro match_sound_one [OF PNot.IH [OF m]]) (auto simp: e means_def)
next
  case (PSelect r p q)
  then obtain c a b s1 s2 where e: "e = Select c a b"
    and m: "pmatch rw r c s = Some s1" "pmatch rw p a s1 = Some s2" "pmatch rw q b s2 = Some s'"
    by (auto split: expr.splits bind_splits)
  have sub: "wf_expr c" "wf_expr a" "wf_expr b" "tame c" "tame a" "tame b" "ints c" "ints a" "ints b"
    "match_pat r" "match_pat p" "match_pat q"
    using PSelect.prems by (auto simp: e)
  obtain z u where zu: "eval \<rho> c i = Some z" "eval \<rho> a i = Some u"
    using PSelect.prems(6) by (auto simp: e split: option.splits)
  have s1: "st_ok \<rho> i s1"
    using PSelect.IH(1) [OF m(1)] sub zu PSelect.prems(7) by (simp add: match_sound_def)
  then have s2: "st_ok \<rho> i s2" using PSelect.IH(2) [OF m(2)] sub zu by (simp add: match_sound_def)
  show ?case unfolding e
    using PSelect.prems(3,5,6) [unfolded e]
    by (rule select_match_sound [OF _ _ _ PSelect.IH(1) [OF m(1) sub(10,1,4,7) _ PSelect.prems(7)]
          PSelect.IH(2) [OF m(2) sub(11,2,5,8) _ s1] PSelect.IH(3) [OF m(3) sub(12,3,6,9) _ s2]])
next
  case (PBroadcast p l)
  then obtain a n where e: "e = Broadcast a n" and m: "pmatch rw p a s = Some s'"
    by (auto split: expr.splits if_splits)
  show ?case unfolding e
    using PBroadcast m wf_type_ok [of a]
    by (intro match_sound_one [OF PBroadcast.IH [OF m]]) (auto simp: e means_def)
next
  case (PRamp p q l)
  then obtain a b n s1 where e: "e = Ramp a b n" and m: "pmatch rw p a s = Some s1" "pmatch rw q b s1 = Some s'"
    by (auto split: expr.splits if_splits bind_splits)
  have sub: "wf_expr a" "wf_expr b" "tame a" "tame b" "ints a" "ints b" "match_pat p" "match_pat q"
    using PRamp.prems by (auto simp: e)
  obtain u where "eval \<rho> a i = Some u" using PRamp.prems(6) by (auto simp: e split: option.splits)
  with PRamp.IH(1) [OF m(1)] sub PRamp.prems(7) have s1: "st_ok \<rho> i s1" by (simp add: match_sound_def)
  show ?case unfolding e
    using PRamp.prems(3,5,6) [unfolded e]
    by (rule ramp_match_sound [OF _ _ _ PRamp.IH(1) [OF m(1) sub(7,1,3,5) _ PRamp.prems(7)]
          PRamp.IH(2) [OF m(2) sub(8,2,4,6) _ s1]])
next
  case (PIntrin n ps)
  then obtain p where ps: "ps = [p]" "is_likely_call n" "match_pat p" by (auto split: list.splits)
  with PIntrin obtain t as ct vi r where e: "e = Call t n as ct vi r"
    and as: "pmatch_args rw [p] as s = Some s'" by (auto split: expr.splits if_splits)
  with PIntrin.prems(4) ps(2) obtain a where a: "as = [a]" by (auto simp: length_Suc_conv)
  have m: "pmatch rw p a s = Some s'" using as a by (auto split: bind_splits)
  show ?case unfolding ps(1) e a
    using PIntrin.prems ps e a by (intro likely_match_sound PIntrin.IH [OF _ m]) auto
next
  case PIndeterminate
  then show ?case by (auto simp: is_undef_call_def split: expr.splits if_splits)
next
  case POverflow
  then show ?case by (auto simp: is_undef_call_def split: expr.splits if_splits)
next
  case PTypeMin
  then have m: "match_specific (type_min (rw_fl rw) (rw_wild rw)) e" and s: "s' = s" by (auto split: if_splits)
  show ?case unfolding s
    using match_specific_sound [OF m type_extreme_sound(1) [OF T] PTypeMin.prems(3-6)] PTypeMin.prems(7)
    by (intro trivial_match_sound) (simp_all add: means_def)
next
  case PTypeMax
  then have m: "match_specific (type_max (rw_fl rw) (rw_wild rw)) e" and s: "s' = s" by (auto split: if_splits)
  show ?case unfolding s
    using match_specific_sound [OF m type_extreme_sound(2) [OF T] PTypeMax.prems(3-6)] PTypeMax.prems(7)
    by (intro trivial_match_sound) (simp_all add: means_def)
qed simp_all

end
