(* ===== verification/RewriteFold.thy ===== *)
theory RewriteFold
  imports RewriteMatch
begin

text \<open>
  The correctness of constant folding: a pattern of constants that folds without a flag folds to its
  value, and no intermediate result overflowed. The one exception is the quotient of the smallest
  number of a signed type by \<open>-1\<close>, which the fold of a division does not flag.
\<close>

unbundle bit_operations_syntax

subsection \<open>Flags\<close>

lemma bit_special_values_mask: "bit special_values_mask n \<longleftrightarrow> n = 14 \<or> n = 15"
proof -
  have m: "special_values_mask = 2 ^ 14 OR 2 ^ 15" by (simp add: special_values_mask_def)
  show ?thesis unfolding m bit_or_iff bit_exp_iff by auto
qed

lemma special_iff: "special t \<longleftrightarrow> bit (ty_lanes t) 14 \<or> bit (ty_lanes t) 15"
  unfolding special_def bit_eq_iff by (auto simp: bit_and_iff bit_special_values_mask)

lemma special_add_lanes: "special (add_lanes t l) \<longleftrightarrow> special t \<or> bit l 14 \<or> bit l 15"
  by (auto simp: special_iff add_lanes_def bit_simps)

lemma special_flag [simp]:
  "special (add_lanes t signed_integer_overflow)" "special (add_lanes t indeterminate_expression)"
  by (simp_all add: special_add_lanes signed_integer_overflow_def indeterminate_expression_def bit_iff_odd)

lemma special_or: "special (add_lanes t (ty_lanes u)) \<longleftrightarrow> special t \<or> special u"
  by (simp add: special_add_lanes special_iff [of u])

lemma flag_if_special: "\<not> special (flag_if b signed_integer_overflow t) \<longleftrightarrow> \<not> b \<and> \<not> special t"
  by (simp add: flag_if_def)

lemma kind_add_lanes [simp]: "kind_of (add_lanes t l) = kind_of t"
  by (simp add: kind_of_def add_lanes_def)

lemma kind_flag_if [simp]: "kind_of (flag_if b f t) = kind_of t"
  by (simp add: flag_if_def)

subsection \<open>Ranges\<close>

lemma kfits_iff:
  assumes "is_ikind k"
  shows "kfits k z \<longleftrightarrow> kmin k \<le> z \<and> z \<le> kmax k"
  using assms s_wrap_range [of "snd k" z] u_wrap_range [of "snd k" z]
  by (auto simp: kfits_def kmin_def kmax_def is_ikind_def s_wrap_id u_wrap_id)

lemma kfits_ikind: "kfits k z \<Longrightarrow> is_ikind k"
  by (simp add: kfits_def)

lemma kfits_in_s: "kfits k z \<Longrightarrow> fst k = TInt \<Longrightarrow> in_s (snd k) z"
  using s_wrap_in_s [of "snd k" z] by (auto simp: kfits_def is_ikind_def)

lemma kfits_s64: "kfits k z \<Longrightarrow> fst k = TInt \<Longrightarrow> is_s64 z"
  using kfits_in_s in_s_mono [of "snd k" z 64] by (auto simp: kfits_def is_ikind_def)

lemma kfits_nonneg: "kfits k z \<Longrightarrow> fst k \<noteq> TInt \<Longrightarrow> 0 \<le> z"
  using kfits_iff [of k z] by (auto simp: kfits_def kmin_def)

lemma kfits_between: "kfits k x \<Longrightarrow> kfits k y \<Longrightarrow> x \<le> z \<Longrightarrow> z \<le> y \<Longrightarrow> kfits k z"
  using kfits_iff [of k] kfits_ikind [of k x] by auto

lemma kfits_s_wrap: "is_ikind k \<Longrightarrow> fst k = TInt \<Longrightarrow> kfits k (s_wrap (snd k) z)"
  by (simp add: kfits_def s_wrap.wr_wr)

lemma kfits_u_wrap: "is_ikind k \<Longrightarrow> fst k \<noteq> TInt \<Longrightarrow> kfits k (u_wrap (snd k) z)"
  by (simp add: kfits_def u_wrap.wr_wr)

lemma kfits_minmax:
  "kfits k x \<Longrightarrow> kfits k y \<Longrightarrow> kfits k (min x y)" "kfits k x \<Longrightarrow> kfits k y \<Longrightarrow> kfits k (max x y)"
  by (auto simp: min_def max_def)

lemma kfits_0: "is_ikind k \<Longrightarrow> kfits k 0" and kfits_1: "is_ikind k \<Longrightarrow> kfits k 1"
proof -
  assume k: "is_ikind k"
  have "(2::int) ^ 1 \<le> 2 ^ snd k" if "1 \<le> snd k" using that by (intro power_increasing) auto
  moreover have "(2::int) ^ 1 \<le> 2 ^ (snd k - 1)" if "8 \<le> snd k"
    using that by (intro power_increasing) auto
  ultimately show "kfits k 0" "kfits k 1"
    using k by (auto simp: kfits_iff kmin_def kmax_def is_ikind_def)
qed

lemma kfits_bool [simp]: "kfits kbool (of_bool b)"
  by (cases b) (simp_all add: kfits_0 kfits_1)

lemma kfits_emod:
  assumes "kfits k b" and "b \<noteq> 0"
  shows "kfits k (emod a b)"
proof -
  have "\<bar>b\<bar> - 1 \<le> kmax k"
    using assms kfits_iff [of k b] kfits_ikind [of k b] by (auto simp: kmin_def kmax_def split: if_splits)
  then show ?thesis
    using assms emod_nonneg [of b a] emod_le_abs [of b a] kmin_le_0 [of k] kfits_ikind [of k b]
    by (auto simp: kfits_iff)
qed

lemma kfits_ediv:
  assumes a: "kfits k a" and b: "kfits k b" "b \<noteq> 0" "b \<noteq> -1"
  shows "kfits k (ediv a b)"
proof (cases "0 < b")
  case True
  have "0 \<le> a div b" "a div b \<le> a" if "0 \<le> a"
    using that True zdiv_mono2 [of a 1 b] by (auto simp: pos_imp_zdiv_nonneg_iff)
  moreover have "a \<le> a div b" "a div b \<le> 0" if "a < 0"
    using that True le_div_iff [OF True, of a a] mult_left_mono_neg [of 1 b a] div_nonpos_pos_le0 [of a b] by auto
  ultimately have "min 0 a \<le> ediv a b" "ediv a b \<le> max 0 a" using True by (cases "0 \<le> a"; simp add: ediv_pos)+
  then show ?thesis
    using kfits_between [OF kfits_minmax(1) [OF kfits_0 a] kfits_minmax(2) [OF kfits_0 a]] kfits_ikind [OF a]
    by simp
next
  case False
  with b have c: "2 \<le> - b" by simp
  have "fst k = TInt" using False b kfits_nonneg [of k b] by auto
  then have neg: "kmin k = - kmax k - 1" by (simp add: kmin_def kmax_def)
  have k: "kmin k \<le> a" "a \<le> kmax k" "1 \<le> kmax k"
    using a kfits_1 [OF kfits_ikind [OF a]] kfits_ikind [OF a] by (auto simp: kfits_iff)
  consider "0 \<le> a" | "a = -1" | "a \<le> -2" by linarith
  then have "kmin k \<le> - (a div - b) \<and> - (a div - b) \<le> kmax k"
  proof cases
    case 1
    then have "0 \<le> a div - b" "a div - b \<le> a"
      using c zdiv_mono2 [of a 1 "- b"] pos_imp_zdiv_nonneg_iff [of "- b" a] by auto
    then show ?thesis using k neg by auto
  next
    case 2
    have "(-1) div (- b) = -1" using c by (intro div_eq_minus1) simp
    then show ?thesis unfolding 2 using k neg by simp
  next
    case 3
    have "(a + 1) * - b \<le> (a + 1) * 2" using 3 c by (intro mult_left_mono_neg) auto
    also have "\<dots> \<le> a" using 3 by simp
    finally have "a + 1 \<le> a div - b" using le_div_iff [of "- b" "a + 1" a] c by simp
    moreover have "a div - b \<le> 0" using 3 c by (intro div_nonpos_pos_le0) auto
    ultimately show ?thesis using k neg by auto
  qed
  then show ?thesis using False b kfits_ikind [OF a] by (simp add: ediv_neg kfits_iff)
qed

lemma rd_0 [simp]: "rd_i64 fl (VI 0) = 0" "rd_u64 fl (VI 0) = 0"
  by (simp_all add: rd_i64_def rd_u64_def s_wrap_def u_wrap_def)

subsection \<open>Folding an operator\<close>

text \<open>What folding an operator without a flag says of its operands.\<close>

definition bin_fits :: "binop \<Rightarrow> kind \<Rightarrow> int \<Rightarrow> int \<Rightarrow> bool" where
  "bin_fits op k u v \<longleftrightarrow> (op = Div \<or> op = Mod \<longrightarrow> v \<noteq> 0) \<and>
      (fst k = TInt \<and> snd k \<ge> 32 \<longrightarrow>
        (op = Add \<longrightarrow> in_s (snd k) (u + v)) \<and> (op = Sub \<longrightarrow> in_s (snd k) (u - v)) \<and>
        (op = Mul \<longrightarrow> in_s (snd k) (u * v)) \<and> (op = Div \<longrightarrow> in_s (snd k) (ediv u v)))"

lemma pfits_bin:
  "pfits x k (PBin op a b) \<longleftrightarrow>
     (let k' = sub_kind x op k a b in
      pfits x k' a \<and> pfits x k' b \<and> bin_fits op k' (pval x k' a) (pval x k' b))"
  by (auto simp: bin_fits_def Let_def)

lemma kwrap_TInt:
  "fst k = TInt \<Longrightarrow> (32 \<le> snd k \<longrightarrow> in_s (snd k) z) \<Longrightarrow> s_wrap (snd k) z = kwrap k z"
  by (auto simp: kwrap_def s_wrap_in_s_id)

lemma kwrap_TUInt: "fst k = TUInt \<Longrightarrow> u_wrap (snd k) z = kwrap k z"
  by (simp add: kwrap_def)

text \<open>The cases of the operators.\<close>

definition fold_ok :: "binop \<Rightarrow> kind \<Rightarrow> htype \<Rightarrow> int \<Rightarrow> int \<Rightarrow> scalar_value \<times> htype \<Rightarrow> bool" where
  "fold_ok op k t u w r \<longleftrightarrow> (\<not> special (snd r) \<longrightarrow>
     fst r = VI (binv op k u w) \<and> kind_of (snd r) = (if is_compare op then kbool else k) \<and> \<not> special t \<and>
     kfits (if is_compare op then kbool else k) (binv op k u w) \<and> bin_fits op k u w)"

lemma fold_compare_ok:
  assumes "is_compare op" and "kind_of t = k" and uw: "kfits k u" "kfits k w"
  shows "fold_ok op k t u w (fold_cmp op fl t (VI u) (VI w))"
proof -
  have "fst k = TInt \<or> fst k = TUInt" using kfits_ikind [OF uw(1)] by (auto simp: is_ikind_def)
  moreover have "ty_code t = fst k" "special (t\<lparr>ty_code := TUInt, ty_bits := 1\<rparr>) = special t"
    using assms(2) by (auto simp: kind_of_def special_def)
  moreover have "int_cmp op u w \<longleftrightarrow> binv op k u w = 1" "binv op k u w = of_bool (binv op k u w = 1)"
    using assms(1) by (auto simp: int_cmp_def binv_def)
  moreover have "bin_fits op k u w" using assms(1) by (auto simp: bin_fits_def)
  ultimately show ?thesis
    using assms(1) kfits_rd [OF uw(1)] kfits_rd [OF uw(2)] kfits_bool [of "binv op k u w = 1"]
    by (auto simp: fold_ok_def fold_cmp_def by_code_def Let_def kind_of_def kbool_def
        simp del: is_compare.simps kfits_bool)
qed

lemma fold_arith_ok:
  assumes "op \<in> {Add, Sub, Mul}" and k: "kind_of t = k" and uw: "kfits k u" "kfits k w"
  shows "fold_ok op k t u w (constant_fold_op op fl t (VI u) (VI w))"
proof -
  have c: "ty_code t = fst k" "ty_bits t = snd k" using k by (auto simp: kind_of_def)
  have ik: "is_ikind k" by (rule kfits_ikind [OF uw(1)])
  then have b: "1 \<le> snd k" "snd k \<le> 64" by (auto simp: is_ikind_def)
  show ?thesis
  proof (cases "fst k = TInt")
    case True
    note rd = kfits_rd(1) [OF uw(1) True] kfits_rd(1) [OF uw(2) True]
    note i = kfits_in_s [OF uw(1) True] kfits_in_s [OF uw(2) True]
    note ov = add_would_overflow_iff [OF b i(1)] sub_would_overflow_iff [OF b i(1)]
      mul_would_overflow_iff [OF b i]
    have w: "s_wrap (snd k) z = kwrap k z" "kfits k (kwrap k z)" if "32 \<le> snd k \<longrightarrow> in_s (snd k) z" for z
      using kwrap_TInt [OF True that] kfits_s_wrap [OF ik True, of z] by simp_all
    show ?thesis
      using assms(1)
      by (elim insertE emptyE; simp add: fold_ok_def constant_fold_op_def fold_Add_def fold_Sub_def
          fold_Mul_def by_code_def c rd ov True flag_if_special k binv_def bin_fits_def w)
  next
    case False
    then have u: "fst k = TUInt" using ik by (auto simp: is_ikind_def)
    note rd = kfits_rd(2) [OF uw(1) False] kfits_rd(2) [OF uw(2) False]
    have w: "u_wrap (snd k) z = kwrap k z" "kfits k (kwrap k z)" for z
      using kwrap_TUInt [OF u, of z] kfits_u_wrap [OF ik False, of z] by simp_all
    show ?thesis
      using assms(1)
      by (elim insertE emptyE; simp add: fold_ok_def constant_fold_op_def fold_Add_def fold_Sub_def
          fold_Mul_def by_code_def c rd u k binv_def bin_fits_def w)
  qed
qed

lemma fold_div_ok:
  assumes "op \<in> {Div, Mod}" and k: "kind_of t = k" and uw: "kfits k u" "kfits k w" and d: "op = Div \<longrightarrow> w \<noteq> -1"
  shows "fold_ok op k t u w (constant_fold_op op fl t (VI u) (VI w))"
proof -
  have c: "ty_code t = fst k" using k by (auto simp: kind_of_def)
  have ik: "is_ikind k" by (rule kfits_ikind [OF uw(1)])
  have q: "kfits k (ediv u w)" if "op = Div" "w \<noteq> 0" using that d kfits_ediv [OF uw] by simp
  have m: "kfits k (emod u w)" if "w \<noteq> 0" using that kfits_emod [OF uw(2)] by simp
  show ?thesis
  proof (cases "fst k = TInt")
    case True
    note rd = kfits_rd(1) [OF uw(1) True] kfits_rd(1) [OF uw(2) True]
    note s64 = kfits_s64 [OF uw(1) True] kfits_s64 [OF uw(2) True]
    have "div_imp u w = kwrap k (ediv u w)" "in_s (snd k) (ediv u w)" if "op = Div" "w \<noteq> 0"
      using that d div_imp_eq_ediv [OF s64] kfits_kwrap [OF q [OF that]] kfits_in_s [OF q [OF that] True]
      by auto
    moreover have "mod_imp u w = kwrap k (emod u w)" if "w \<noteq> 0"
      using that mod_imp_eq_emod [OF s64(2)] kfits_kwrap [OF m] by simp
    ultimately show ?thesis
      using assms(1) q m kfits_kwrap [OF q] kfits_kwrap [OF m]
      by (elim insertE emptyE; cases "w = 0"; simp add: fold_ok_def constant_fold_op_def fold_Div_def
          fold_Mod_def by_code_def c rd True k binv_def bin_fits_def)
  next
    case False
    then have u: "fst k = TUInt" using ik by (auto simp: is_ikind_def)
    note rd = kfits_rd(2) [OF uw(1) False] kfits_rd(2) [OF uw(2) False]
    have "0 < w" if "w \<noteq> 0" using that kfits_nonneg [OF uw(2) False] by simp
    then show ?thesis
      using assms(1) q m kfits_kwrap [OF q] kfits_kwrap [OF m]
      by (elim insertE emptyE; cases "w = 0"; simp add: fold_ok_def constant_fold_op_def fold_Div_def
          fold_Mod_def by_code_def c rd u k binv_def bin_fits_def pos_div)
  qed
qed

lemma fold_minmax_ok:
  assumes "op \<in> {MinOp, MaxOp}" and k: "kind_of t = k" and uw: "kfits k u" "kfits k w"
  shows "fold_ok op k t u w (constant_fold_op op fl t (VI u) (VI w))"
proof -
  have "fst k = TInt \<or> fst k = TUInt" using kfits_ikind [OF uw(1)] by (auto simp: is_ikind_def)
  moreover have "ty_code t = fst k" using k by (auto simp: kind_of_def)
  ultimately show ?thesis
    using assms(1) kfits_rd [OF uw(1)] kfits_rd [OF uw(2)] kfits_minmax [OF uw]
    by (auto simp: fold_ok_def constant_fold_op_def fold_Min_def fold_Max_def by_code_def
        k binv_def bin_fits_def)
qed

lemma fold_op_ok:
  assumes "kind_of t = k" and "kfits k u" and "kfits k w" and "op = Div \<longrightarrow> w \<noteq> -1"
    and "\<not> is_logical op"
  shows "fold_ok op k t u w (constant_fold_op op fl t (VI u) (VI w))"
proof -
  have "constant_fold_op op = fold_cmp op" if "is_compare op"
    using that by (auto simp: constant_fold_op_def)
  then show ?thesis
    using assms fold_compare_ok [of op t k u w fl] fold_arith_ok [of op t k u w fl]
      fold_div_ok [of op t k u w fl] fold_minmax_ok [of op t k u w fl]
    by (cases op) auto
qed

lemma special_retype: "special (t\<lparr>ty_code := c, ty_bits := b\<rparr>) = special t"
  by (simp add: special_def)

lemma fold_unflagged:
  assumes k: "kind_of t = k" and uw: "kfits k u" "kfits k w" and f: "bin_fits op k u w"
    and op: "\<not> is_logical op" and s: "\<not> special t"
  shows "\<not> special (snd (constant_fold_op op fl t (VI u) (VI w)))"
proof -
  have c: "ty_code t = fst k" "ty_bits t = snd k" using k by (auto simp: kind_of_def)
  have ik: "is_ikind k" by (rule kfits_ikind [OF uw(1)])
  then have b: "1 \<le> snd k" "snd k \<le> 64" by (auto simp: is_ikind_def)
  note defs = constant_fold_op_def fold_Add_def fold_Sub_def fold_Mul_def fold_Div_def fold_Mod_def fold_Min_def
    fold_Max_def fold_cmp_def by_code_def c Let_def flag_if_def special_retype
  show ?thesis
  proof (cases "fst k = TInt")
    case True
    note i = kfits_in_s [OF uw(1) True] kfits_in_s [OF uw(2) True]
    note ov = add_would_overflow_iff [OF b i(1)] sub_would_overflow_iff [OF b i(1)]
      mul_would_overflow_iff [OF b i]
    show ?thesis
      using f op s by (cases op) (auto simp: defs True kfits_rd(1) [OF uw(1) True] kfits_rd(1) [OF uw(2) True] ov bin_fits_def)
  next
    case False
    then have u: "fst k = TUInt" using ik by (auto simp: is_ikind_def)
    show ?thesis
      using f op s by (cases op) (auto simp: defs u kfits_rd(2) [OF uw(1) False] kfits_rd(2) [OF uw(2) False] bin_fits_def)
  qed
qed



text \<open>
  The quotient of the smallest 32-bit integer by \<open>-1\<close> is folded without a flag to a number that does
  not fit the type.
\<close>

theorem constant_fold_div_unflagged:
  "constant_fold_op Div fl (Int_type 32 1) (VI (- (2 ^ 31))) (VI (-1)) = (VI (2 ^ 31), Int_type 32 1) \<and>
   \<not> special (Int_type 32 1) \<and> \<not> in_s 32 (2 ^ 31)"
  by (simp add: constant_fold_op_def fold_Div_def by_code_def Int_type_def mk_type_def rd_i64_def s_wrap_def
      div_imp_def cdiv_def special_def special_values_mask_def in_s_def)

lemma negate_flag:
  assumes "1 \<le> b" and "b \<le> 64"
  shows "u_wrap 64 (push_bit (65 - b) (u_wrap 64 (- (2 ^ (b - 1))))) = 0"
proof -
  have "(2::int) ^ (b - 1) * 2 ^ (65 - b) = 2 ^ 64"
    using assms by (simp flip: power_add)
  then have "- (2 ^ (b - 1)) * 2 ^ (65 - b) mod (2::int) ^ 64 = 0" by simp
  then show ?thesis by (simp only: u_wrap_mod push_bit_eq_mult mod_mult_left_eq)
qed

lemma fold_negate_ok:
  assumes k: "kind_of t = k" and u: "kfits k u" and f: "fold_negate fl (VI u, t) = (v, t')"
    and s: "\<not> special t'"
  shows "v = VI (kwrap k (- u)) \<and> kind_of t' = k \<and> \<not> special t \<and> kfits k (kwrap k (- u)) \<and>
    (fst k = TInt \<and> snd k \<ge> 32 \<longrightarrow> in_s (snd k) (- u))"
proof -
  have c: "ty_code t = fst k" "ty_bits t = snd k" using k by (auto simp: kind_of_def)
  have ik: "is_ikind k" by (rule kfits_ikind [OF u])
  then have b: "1 \<le> snd k" "snd k \<le> 64" by (auto simp: is_ikind_def)
  show ?thesis
  proof (cases "fst k = TInt")
    case True
    let ?m = "32 \<le> snd k \<and> rd_u64 fl (VI u) \<noteq> 0 \<and>
      u_wrap 64 (push_bit (65 - snd k) (rd_u64 fl (VI u))) = 0"
    have m: "\<not> ?m" using f s c True by (auto simp: fold_negate_def split: if_splits)
    have "u \<noteq> - (2 ^ (snd k - 1))" if "32 \<le> snd k"
    proof
      assume e: "u = - (2 ^ (snd k - 1))"
      have "u_wrap 64 (push_bit (65 - snd k) (rd_u64 fl (VI u))) = 0"
        using negate_flag [OF b] e by (simp add: rd_u64_def)
      with m that have "rd_u64 fl (VI u) = 0" by blast
      moreover have "(2::int) ^ (snd k - 1) < 2 ^ 64" using b by (intro power_strict_increasing) auto
      ultimately show False using e by (simp add: rd_u64_def u_wrap_mod zmod_zminus1_eq_if)
    qed
    then have i: "32 \<le> snd k \<longrightarrow> in_s (snd k) (- u)"
      using kfits_in_s [OF u True] by (auto simp: in_s_def)
    show ?thesis
      using m f s c True kfits_rd(1) [OF u True] k i kwrap_TInt [OF True i] kfits_s_wrap [OF ik True, of "- u"]
      by (auto simp: fold_negate_def)
  next
    case False
    then have ut: "fst k = TUInt" using ik by (auto simp: is_ikind_def)
    show ?thesis
      using f s c ut kfits_rd(2) [OF u False] k kwrap_TUInt [OF ut, of "- u"] kfits_u_wrap [OF ik False, of "- u"]
      by (auto simp: fold_negate_def)
  qed
qed

lemma kfits_bool_cases: "kfits kbool u \<Longrightarrow> u = 0 \<or> u = 1"
  by (auto simp: kfits_iff kmin_def kmax_def kbool_def is_ikind_def)

lemma fold_not_ok:
  assumes "kind_of t = kbool" and "kfits kbool u" and "fold_not fl (VI u, t) = (v, t')"
  shows "v = VI (of_bool (u = 0)) \<and> kind_of t' = kbool \<and> t' = t"
proof -
  have "ty_code t \<noteq> TFloat" using assms(1) by (auto simp: kind_of_def kbool_def)
  moreover have "rd_u64 fl (VI u) = u" using kfits_rd(2) [OF assms(2)] by (simp add: kbool_def)
  ultimately show ?thesis
    using assms(1,3) kfits_bool_cases [OF assms(2)] by (auto simp: fold_not_def flag_if_def)
qed

subsection \<open>Folding a pattern\<close>

text \<open>
  A foldable pattern is well typed in a context when its constants have the kind at which they are
  used. The flag \<open>h\<close> says that the type the fold starts from has the kind of the pattern; a fold that
  does not start from one has to meet a bound constant before a number.
\<close>

fun fwt :: "rctx \<Rightarrow> kind \<Rightarrow> pat \<Rightarrow> bool" where
  "fwt x k (PWildConst n) \<longleftrightarrow> cx_ck x n = k"
| "fwt x k (PConst z) \<longleftrightarrow> kfits k z"
| "fwt x k (PBin op p q) \<longleftrightarrow>
     (let k' = sub_kind x op k p q in is_ikind k' \<and> fwt x k' p \<and> fwt x k' q) \<and> (is_compare op \<longrightarrow> k = kbool)"
| "fwt x k (PNot p) \<longleftrightarrow> k = kbool \<and> fwt x k p"
| "fwt x k (PNegate p) \<longleftrightarrow> fwt x k p"
| "fwt x k (PFold p) \<longleftrightarrow> fwt x k p"
| "fwt x k p \<longleftrightarrow> False"

fun simple_divisor :: "pat \<Rightarrow> bool" where
  "simple_divisor (PWildConst n) \<longleftrightarrow> True"
| "simple_divisor (PConst z) \<longleftrightarrow> z \<noteq> -1"
| "simple_divisor p \<longleftrightarrow> False"

fun fold_pat :: "bool \<Rightarrow> pat \<Rightarrow> bool" where
  "fold_pat h (PWildConst n) \<longleftrightarrow> True"
| "fold_pat h (PConst z) \<longleftrightarrow> h"
| "fold_pat h (PBin op p q) \<longleftrightarrow> \<not> is_logical op \<and> (op = Div \<longrightarrow> simple_divisor q) \<and>
     (let h' = (h \<and> \<not> is_compare op) in
      if is_PConst p then fold_pat h' q else fold_pat h' p \<and> fold_pat True q)"
| "fold_pat h (PNot p) \<longleftrightarrow> fold_pat h p"
| "fold_pat h (PNegate p) \<longleftrightarrow> fold_pat h p"
| "fold_pat h (PFold p) \<longleftrightarrow> fold_pat h p"
| "fold_pat h p \<longleftrightarrow> False"

text \<open>A division by a bound constant.\<close>

fun const_div :: "pat \<Rightarrow> bool" where
  "const_div (PBin op p q) \<longleftrightarrow> op = Div \<and> \<not> is_PConst q \<or> const_div p \<or> const_div q"
| "const_div (PNot p) \<longleftrightarrow> const_div p"
| "const_div (PSelect c p q) \<longleftrightarrow> const_div c \<or> const_div p \<or> const_div q"
| "const_div (PBroadcast p l) \<longleftrightarrow> const_div p"
| "const_div (PRamp p q l) \<longleftrightarrow> const_div p \<or> const_div q"
| "const_div (PNegate p) \<longleftrightarrow> const_div p"
| "const_div (PFold p) \<longleftrightarrow> const_div p"
| "const_div (POverflows p) \<longleftrightarrow> const_div p"
| "const_div p \<longleftrightarrow> False"

definition no_minus_one :: "rctx \<Rightarrow> bool" where
  "no_minus_one x \<longleftrightarrow> (\<forall>n. cx_c x n \<noteq> -1)"

definition folded :: "rctx \<Rightarrow> kind \<Rightarrow> pat \<Rightarrow> scalar_value \<times> htype \<Rightarrow> bool" where
  "folded x k p r \<longleftrightarrow>
     fst r = VI (pval x k p) \<and> kind_of (snd r) = k \<and> kfits k (pval x k p) \<and> pfits x k p"

lemma fold_bin_sound:
  assumes f: "folded x k' p (va, ta)" "folded x k' q (vb, tb)"
    and k': "sub_kind x op k p q = k'" and t: "kind_of t = k'" "special t \<longleftrightarrow> special ta \<or> special tb"
    and r: "constant_fold_op op fl t va vb = r" "\<not> special (snd r)"
    and op: "\<not> is_logical op" "op = Div \<longrightarrow> pval x k' q \<noteq> -1" "is_compare op \<longrightarrow> k = kbool"
  shows "folded x k (PBin op p q) r \<and> \<not> special ta \<and> \<not> special tb"
proof -
  let ?u = "pval x k' p" and ?w = "pval x k' q"
  have uw: "va = VI ?u" "vb = VI ?w" "kfits k' ?u" "kfits k' ?w" "pfits x k' p" "pfits x k' q"
    using f by (auto simp: folded_def)
  have "fold_ok op k' t ?u ?w r" using fold_op_ok [OF t(1) uw(3,4) op(2,1), of fl] r(1) uw(1,2) by simp
  moreover have "(if is_compare op then kbool else k') = k"
    using k' op(1,3) by (auto simp: sub_kind_def)
  ultimately show ?thesis
    using r(2) k' uw(5,6) t(2) by (auto simp: fold_ok_def folded_def pfits_bin Let_def simp del: pfits.simps(1))
qed

lemma fold_op_sticky: "special t \<Longrightarrow> special (snd (constant_fold_op op fl t a b))"
proof -
  assume "special t"
  then have s: "special (add_lanes t f)" "special (flag_if c f t)"
    "special (t\<lparr>ty_code := TUInt, ty_bits := 1\<rparr>)" for f c
    by (auto simp: special_add_lanes flag_if_def) (simp add: special_def)
  then show ?thesis using \<open>special t\<close>
    by (cases op; cases "ty_code t")
      (simp_all add: constant_fold_op_def fold_Add_def fold_Sub_def fold_Mul_def fold_Div_def fold_Mod_def
        fold_Min_def fold_Max_def fold_And_def fold_Or_def fold_cmp_def by_code_def Let_def)
qed

lemma simple_divisor_value:
  assumes "simple_divisor q" and "fwt x k q" and "const_div (PBin Div p q) \<longrightarrow> no_minus_one x"
  shows "pval x k q \<noteq> -1"
  using assms by (cases q) (auto simp: no_minus_one_def kfits_kwrap)

lemma pfold_const_sound:
  assumes "fwt x k (PConst z)" and "kind_of ty = k"
  shows "folded x k (PConst z) (fold_const fl z ty, ty)"
proof -
  have "ty_code ty \<noteq> TFloat" using assms kfits_ikind [of k z] by (auto simp: kind_of_def is_ikind_def)
  then show ?thesis using assms by (auto simp: folded_def fold_const_def kfits_kwrap)
qed

lemma pfold_wild_const_sound:
  assumes "st_ok \<rho> i st" and "pfold rw st (PWildConst n) ty = Inr r" and "fwt (ctx_of \<rho> i st) k (PWildConst n)"
  shows "folded (ctx_of \<rho> i st) k (PWildConst n) r"
proof -
  have m: "ms_const st n = Some r" using assms(2) by (auto split: option.splits)
  then have "const_ok r" using assms(1) unfolding st_ok_def by blast
  then obtain z t where "r = (VI z, t)" "kfits (kind_of t) z" unfolding const_ok_def by blast
  then show ?thesis using m assms(3) by (auto simp: folded_def ctx_of_def)
qed

theorem pfold_sound:
  assumes st: "st_ok \<rho> i st" and x: "x = ctx_of \<rho> i st"
  shows "pfold rw st p ty = Inr r \<Longrightarrow> fold_pat h p \<Longrightarrow> fwt x k p \<Longrightarrow> h \<longrightarrow> kind_of ty = k \<Longrightarrow> is_ikind k \<Longrightarrow>
    const_div p \<longrightarrow> no_minus_one x \<Longrightarrow> \<not> special (snd r) \<Longrightarrow> folded x k p r"
proof (induction p arbitrary: k h ty r)
  case (PWildConst n)
  then show ?case unfolding x using pfold_wild_const_sound [OF st] by blast
next
  case (PConst z)
  then show ?case using pfold_const_sound [of x k z ty "rw_fl rw"] by auto
next
  case (PBin op p q)
  define k' where "k' = sub_kind x op k p q"
  have w: "is_ikind k'" "fwt x k' p" "fwt x k' q" "is_compare op \<longrightarrow> k = kbool" "\<not> is_logical op"
    "op = Div \<longrightarrow> simple_divisor q"
    "const_div p \<longrightarrow> no_minus_one x" "const_div q \<longrightarrow> no_minus_one x"
    using PBin.prems by (auto simp: k'_def Let_def)
  have d: "op = Div \<longrightarrow> pval x k' q \<noteq> -1"
    using simple_divisor_value [of q x k' p] w(3,6) PBin.prems(6) by blast
  have h': "h \<and> \<not> is_compare op \<longrightarrow> kind_of ty = k'"
    using PBin.prems(4) w(5) by (auto simp: k'_def sub_kind_def)
  have nl: "\<not> short_circuit op (rw_fl rw) v" for v using w(5) by (auto simp: short_circuit_def)
  show ?case
  proof (cases "is_PConst p")
    case True
    then obtain va ta vb tb where m: "pfold rw st q ty = Inr (vb, tb)" "pfold rw st p tb = Inr (va, ta)"
      and r: "constant_fold_op op (rw_fl rw) (add_lanes ta (ty_lanes tb)) va vb = r"
      using PBin.prems(1) nl by (auto simp: rbind_Inr_iff)
    have s: "\<not> special ta" "\<not> special tb"
      using fold_op_sticky [of "add_lanes ta (ty_lanes tb)" op "rw_fl rw" va vb] r PBin.prems(7)
      by (auto simp: special_or)
    have fq: "folded x k' q (vb, tb)"
      using PBin.IH(2) [OF m(1) _ w(3) h' w(1) w(8)] PBin.prems(2) True s by (simp add: Let_def)
    then have fp: "folded x k' p (va, ta)"
      using PBin.IH(1) [OF m(2), of True, OF _ w(2) _ w(1) w(7)] True s by (cases p) (auto simp: folded_def)
    then show ?thesis
      using fold_bin_sound [OF fp fq k'_def [symmetric] _ _ r PBin.prems(7) w(5) d w(4)]
      by (auto simp: special_or folded_def)
  next
    case False
    then obtain va ta vb tb where m: "pfold rw st p ty = Inr (va, ta)" "pfold rw st q ta = Inr (vb, tb)"
      and r: "constant_fold_op op (rw_fl rw) (add_lanes tb (ty_lanes ta)) va vb = r"
      using PBin.prems(1) nl by (auto simp: rbind_Inr_iff)
    have s: "\<not> special ta" "\<not> special tb"
      using fold_op_sticky [of "add_lanes tb (ty_lanes ta)" op "rw_fl rw" va vb] r PBin.prems(7)
      by (auto simp: special_or)
    have fp: "folded x k' p (va, ta)"
      using PBin.IH(1) [OF m(1) _ w(2) h' w(1) w(7)] PBin.prems(2) False s by (simp add: Let_def)
    then have fq: "folded x k' q (vb, tb)"
      using PBin.IH(2) [OF m(2), of True, OF _ w(3) _ w(1) w(8)] PBin.prems(2) False s
      by (auto simp: folded_def Let_def)
    then show ?thesis
      using fold_bin_sound [OF fp fq k'_def [symmetric] _ _ r PBin.prems(7) w(5) d w(4)]
      by (auto simp: special_or folded_def)
  qed
next
  case (PNot p)
  then obtain v t where m: "pfold rw st p ty = Inr (v, t)" and r: "r = fold_not (rw_fl rw) (v, t)"
    by (auto simp: rbind_Inr_iff)
  have s: "\<not> special t" using PNot.prems(7) r by (auto simp: fold_not_def flag_if_def special_add_lanes split: if_splits)
  have k: "k = kbool" "fwt x kbool p" using PNot.prems(3) by auto
  have f: "folded x kbool p (v, t)"
    using PNot.IH [OF m _ k(2), of h] PNot.prems k s by auto
  then have "fold_not (rw_fl rw) (v, t) = (VI (of_bool (pval x kbool p = 0)), t)"
    using fold_not_ok [of t "pval x kbool p" "rw_fl rw"] by (metis folded_def prod.collapse fst_conv snd_conv)
  then show ?case using f r k by (simp add: folded_def)
next
  case (PNegate p)
  then obtain v t where m: "pfold rw st p ty = Inr (v, t)" and r: "fold_negate (rw_fl rw) (v, t) = r"
    by (auto simp: rbind_Inr_iff)
  have s: "\<not> special t"
    using PNegate.prems(7) r by (auto simp: fold_negate_def special_add_lanes split: type_code.splits if_splits)
  have f: "folded x k p (v, t)" using PNegate.IH [OF m, of h] PNegate.prems s by auto
  then show ?case
    using fold_negate_ok [of t k "pval x k p" "rw_fl rw" "fst r" "snd r"] r PNegate.prems(7)
    by (auto simp: folded_def)
next
  case (PFold p)
  then show ?case by (auto simp: folded_def)
qed simp_all

end
