(* ===== verification/RewriteMake.thy ===== *)
theory RewriteMake
  imports RewriteFold
begin

text \<open>
  The correctness of the replacement: the expression made from a pattern is well formed, has the kind
  of the pattern, and its value is the value of the pattern in the context of the match. A constant
  whose fold overflows becomes a call without a value; a pattern without folds always has one.
\<close>

unbundle bit_operations_syntax

subsection \<open>The type of a fold\<close>

lemma or_less_16: "m < 2 ^ 16 \<Longrightarrow> n < 2 ^ 16 \<Longrightarrow> m OR n < (2 ^ 16 :: nat)"
proof -
  assume "m < 2 ^ 16" "n < 2 ^ 16"
  then have "take_bit 16 m = m" "take_bit 16 n = n" by (simp_all add: take_bit_nat_eq_self_iff)
  then have "take_bit 16 (m OR n) = m OR n" by (simp add: take_bit_or)
  then show ?thesis by (simp only: take_bit_nat_eq_self_iff)
qed

lemma add_lanes_ok: "ty_ok t \<Longrightarrow> l < 2 ^ 16 \<Longrightarrow> ty_ok (add_lanes t l)"
  using or_less_16 by (simp add: ty_ok_def add_lanes_def)

lemma flag_ok: "ty_ok t \<Longrightarrow> ty_ok (add_lanes t signed_integer_overflow)"
  "ty_ok t \<Longrightarrow> ty_ok (add_lanes t indeterminate_expression)"
  by (auto intro!: add_lanes_ok simp: signed_integer_overflow_def indeterminate_expression_def)

lemma fold_op_type:
  assumes "constant_fold_op op fl t a b = (v, t')" and "ty_ok t" and "\<not> is_logical op"
    and "is_ikind (kind_of t)"
  shows "ty_ok t' \<and> kind_of t' = (if is_compare op then kbool else kind_of t)"
proof -
  have o: "ty_ok (flag_if c signed_integer_overflow t)" "ty_ok (t\<lparr>ty_code := TUInt, ty_bits := 1\<rparr>)" for c
    using assms(2) flag_ok [of t] by (auto simp: flag_if_def) (simp add: ty_ok_def)
  have "ty_code t = TInt \<or> ty_code t = TUInt" using assms(4) by (auto simp: is_ikind_def kind_of_def)
  then show ?thesis using assms(1,2,3) o flag_ok [of t]
    by (cases op)
      (auto simp: constant_fold_op_def fold_Add_def fold_Sub_def fold_Mul_def fold_Div_def fold_Mod_def
        fold_Min_def fold_Max_def fold_cmp_def by_code_def Let_def kind_of_def kbool_def add_lanes_def
        flag_if_def split: if_splits)
qed

lemma fold_negate_type:
  assumes "ty_ok t"
  shows "ty_ok (snd (fold_negate fl (v, t)))" "kind_of (snd (fold_negate fl (v, t))) = kind_of t"
  using assms flag_ok [of t]
  by (auto simp: fold_negate_def kind_of_def add_lanes_def split: type_code.split)

lemma pfold_type:
  assumes st: "st_ok \<rho> i st" and x: "x = ctx_of \<rho> i st"
  shows "pfold rw st p ty = Inr (v, t) \<Longrightarrow> fold_pat h p \<Longrightarrow> fwt x k p \<Longrightarrow> h \<longrightarrow> kind_of ty = k \<Longrightarrow>
    ty_ok ty \<Longrightarrow> is_ikind k \<Longrightarrow> ty_ok t \<and> kind_of t = k"
proof (induction p arbitrary: k h ty v t)
  case (PWildConst n)
  then have m: "ms_const st n = Some (v, t)" by (auto split: option.splits)
  then have "const_ok (v, t)" using st unfolding st_ok_def by blast
  then show ?case using m PWildConst.prems(3) by (auto simp: const_ok_def x ctx_of_def)
next
  case (PBin op p q)
  define k' where "k' = sub_kind x op k p q"
  have w: "is_ikind k'" "fwt x k' p" "fwt x k' q" "is_compare op \<longrightarrow> k = kbool" "\<not> is_logical op"
    using PBin.prems by (auto simp: k'_def Let_def)
  have kk: "(if is_compare op then kbool else k') = k" using w(4,5) by (auto simp: k'_def sub_kind_def)
  have h': "h \<and> \<not> is_compare op \<longrightarrow> kind_of ty = k'"
    using PBin.prems(4) w(5) by (auto simp: k'_def sub_kind_def)
  have nl: "\<not> short_circuit op (rw_fl rw) v" for v using w(5) by (auto simp: short_circuit_def)
  show ?case
  proof (cases "is_PConst p")
    case True
    then obtain va ta vb tb where m: "pfold rw st q ty = Inr (vb, tb)" "pfold rw st p tb = Inr (va, ta)"
      and r: "constant_fold_op op (rw_fl rw) (add_lanes ta (ty_lanes tb)) va vb = (v, t)"
      using PBin.prems(1) nl by (auto simp: rbind_Inr_iff)
    have b: "ty_ok tb \<and> kind_of tb = k'"
      using PBin.IH(2) [OF m(1) _ w(3) h' PBin.prems(5) w(1)] PBin.prems(2) True by (simp add: Let_def)
    then have a: "ty_ok ta \<and> kind_of ta = k'"
      using PBin.IH(1) [OF m(2), of True k'] w True by (cases p) auto
    have "ty_ok (add_lanes ta (ty_lanes tb))" using a b by (intro add_lanes_ok) (auto simp: ty_ok_def)
    then show ?thesis using fold_op_type [OF r _ w(5)] a w(1) kk by (auto simp del: is_compare.simps)
  next
    case False
    then obtain va ta vb tb where m: "pfold rw st p ty = Inr (va, ta)" "pfold rw st q ta = Inr (vb, tb)"
      and r: "constant_fold_op op (rw_fl rw) (add_lanes tb (ty_lanes ta)) va vb = (v, t)"
      using PBin.prems(1) nl by (auto simp: rbind_Inr_iff)
    have a: "ty_ok ta \<and> kind_of ta = k'"
      using PBin.IH(1) [OF m(1) _ w(2) h' PBin.prems(5) w(1)] PBin.prems(2) False by (simp add: Let_def)
    then have b: "ty_ok tb \<and> kind_of tb = k'"
      using PBin.IH(2) [OF m(2), of True k'] w PBin.prems(2) False by (auto simp: Let_def)
    have "ty_ok (add_lanes tb (ty_lanes ta))" using a b by (intro add_lanes_ok) (auto simp: ty_ok_def)
    then show ?thesis using fold_op_type [OF r _ w(5)] b w(1) kk by (auto simp del: is_compare.simps)
  qed
next
  case (PNot p)
  then obtain v0 t0 where m: "pfold rw st p ty = Inr (v0, t0)" and r: "(v, t) = fold_not (rw_fl rw) (v0, t0)"
    by (auto simp: rbind_Inr_iff)
  have "ty_ok t0 \<and> kind_of t0 = kbool" using PNot.IH [OF m, of h kbool] PNot.prems by auto
  then show ?case using r flag_ok [of t0] PNot.prems(3) by (auto simp: fold_not_def flag_if_def)
next
  case (PNegate p)
  then obtain v0 t0 where m: "pfold rw st p ty = Inr (v0, t0)" and r: "(v, t) = fold_negate (rw_fl rw) (v0, t0)"
    by (auto simp: rbind_Inr_iff)
  then show ?case
    using PNegate.IH [OF m, of h k] PNegate.prems fold_negate_type [of t0 "rw_fl rw" v0] by (metis fold_pat.simps(5) fwt.simps(5) snd_conv)
qed auto

subsection \<open>Made constants\<close>

text \<open>An expression that stands for a pattern: of its kind, with its value or, below a fold, without one.\<close>

fun has_fold :: "pat \<Rightarrow> bool" where
  "has_fold (PFold p) \<longleftrightarrow> True"
| "has_fold (PBin op p q) \<longleftrightarrow> has_fold p \<or> has_fold q"
| "has_fold (PNot p) \<longleftrightarrow> has_fold p"
| "has_fold (PSelect c p q) \<longleftrightarrow> has_fold c \<or> has_fold p \<or> has_fold q"
| "has_fold (PBroadcast p l) \<longleftrightarrow> has_fold p"
| "has_fold (PRamp p q l) \<longleftrightarrow> has_fold p \<or> has_fold q"
| "has_fold (PNegate p) \<longleftrightarrow> has_fold p"
| "has_fold (PIntrin n (p # ps)) \<longleftrightarrow> has_fold p"
| "has_fold (PCastOut p) \<longleftrightarrow> has_fold p"
| "has_fold p \<longleftrightarrow> False"

definition stands_for :: "env \<Rightarrow> nat \<Rightarrow> expr \<Rightarrow> kind \<Rightarrow> int \<Rightarrow> bool \<Rightarrow> bool" where
  "stands_for \<rho> i e k v fld \<longleftrightarrow> wf_expr e \<and> tame e \<and> ints e \<and> ekind e = k \<and>
     (eval \<rho> e i = Some v \<or> eval \<rho> e i = None \<and> fld)"

lemma imm_stands_for: "imm_of T v e \<Longrightarrow> kind_of T = k \<Longrightarrow> stands_for \<rho> i e k v fld"
  using imm_of_ok [of T v e] by (simp add: stands_for_def)

lemma and_3fff_less: "n AND 0x3fff < (2 ^ 16 :: nat)"
proof -
  have "n AND 0x3fff = take_bit 14 n" by (simp add: take_bit_eq_mask mask_eq_exp_minus_1)
  also have "\<dots> < 2 ^ 14" by (rule take_bit_nat_less_exp)
  finally show ?thesis by simp
qed

lemma special_expr_stands_for:
  assumes "make_const_special_expr ctr t = Inr e" and "ty_ok t" and "kind_of t = k" and "is_ikind k" and fld
  shows "stands_for \<rho> i e k v fld"
proof -
  let ?t = "t\<lparr>ty_lanes := ty_lanes t AND 0x3fff\<rparr>"
  obtain n c where e: "e = Call ?t n [c] Intrinsic 0 no_refs" and n: "is_undef_call n"
    and c: "make_IntImm (Int_type 32 1) ctr = Inr c"
    using assms(1)
    by (auto simp: make_const_special_expr_def make_indeterminate_expression_def
        make_signed_integer_overflow_def make_Call_def is_undef_call_def Let_def rbind_Inr_iff split: if_splits)
  have "wf_expr c" "tame c" using c by (auto simp: make_IntImm_eq s_wrap.wr_wr Int_type_def)
  moreover have "\<not> is_likely_call n" using n by (auto simp: is_undef_call_def is_likely_call_def)
  moreover have "ty_ok ?t" "kind_of ?t = k"
    using assms(2,3) and_3fff_less [of "ty_lanes t"] by (auto simp: ty_ok_def kind_of_def)
  ultimately show ?thesis using assms(4,5) n by (auto simp: e stands_for_def)
qed

lemma make_const_expr_stands_for:
  assumes "make_const_expr fl ctr (VI z) t = Inr e" and "ty_ok t" and "kind_of t = k" and "kfits k z" and "\<not> special t"
  shows "stands_for \<rho> i e k z fld"
proof -
  let ?st = "t\<lparr>ty_lanes := 1\<rparr>"
  let ?T = "t\<lparr>ty_lanes := if ty_lanes t > 1 then ty_lanes t else 1\<rparr>"
  have k: "ty_code t = fst k" "ty_bits t = snd k" using assms(3) by (auto simp: kind_of_def)
  have ik: "is_ikind k" by (rule kfits_ikind [OF assms(4)])
  have o: "ty_ok ?st" "kind_of ?st = k" using assms(2,3) by (auto simp: ty_ok_def kind_of_def)
  have z: "rd_i64 fl (VI z) = z \<and> s_wrap (snd k) z = z" if "fst k = TInt"
    using kfits_rd(1) [OF assms(4) that, of fl] assms(4) that by (simp add: kfits_def)
  have z': "rd_u64 fl (VI z) = z \<and> u_wrap (snd k) z = z" if "fst k = TUInt"
    using kfits_rd(2) [OF assms(4), of fl] assms(4) that by (simp add: kfits_def)
  obtain u where m: "fst k = TInt \<and> make_IntImm ?st z = Inr u \<or> fst k = TUInt \<and> make_UIntImm ?st z = Inr u"
    and e: "e = (if ty_lanes t > 1 then Broadcast u (ty_lanes t) else u)"
  proof -
    have "fst k = TInt \<or> fst k = TUInt" using ik by (auto simp: is_ikind_def)
    then have "\<exists>u. (fst k = TInt \<and> make_IntImm ?st z = Inr u \<or> fst k = TUInt \<and> make_UIntImm ?st z = Inr u) \<and>
        e = (if ty_lanes t > 1 then Broadcast u (ty_lanes t) else u)"
      using assms(1,5) k z z'
      by (elim disjE) (auto simp: make_const_expr_def Let_def rbind_Inr_iff make_Broadcast_def split: if_splits)
    then show thesis using that by blast
  qed
  have u: "u = IntImm ?st z \<or> u = UIntImm ?st z" "wf_expr u"
    using m z z' o(1) k(2) by (auto simp: make_IntImm_eq make_UIntImm_eq)
  have "imm_of ?T z e"
    unfolding imm_of_def using u e o assms(2,3)
    by (intro exI [of _ ?st] exI [of _ u]) (auto simp: kind_of_def ty_ok_def)
  then show ?thesis by (rule imm_stands_for) (use assms(3) in \<open>simp add: kind_of_def\<close>)
qed

lemma make_const_stands_for:
  assumes "make_const fl t z = Inr e" and "ty_ok t" and "kind_of t = k" and "is_ikind k" and "in_s 32 z"
  shows "stands_for \<rho> i e k (kwrap k z) fld"
proof -
  let ?s = "if is_vector t then element_of t else t"
  have k: "ty_code ?s = fst k" "ty_bits ?s = snd k" "ty_code t = fst k" "ty_bits t = snd k"
    using assms(2,3) by (auto simp: kind_of_def element_of_def ty_ok_def)
  have b: "fst k = TInt \<or> fst k = TUInt" "snd k \<le> 64" using assms(4) by (auto simp: is_ikind_def)
  obtain u where u: "make_const_scalar fl ?s z = Inr u"
    and e: "e = u \<and> \<not> is_vector t \<or> make_Broadcast u (ty_lanes t) = Inr e \<and> is_vector t"
    using assms(1) by (auto simp: make_const_def rbind_Inr_iff split: if_splits)
  have "make_IntImm ?s a = Inr u \<and> kwrap k z = s_wrap (ty_bits t) a \<or>
      make_UIntImm ?s a = Inr u \<and> kwrap k z = u_wrap (ty_bits t) a"
    if "a = (if fst k = TInt then z else u_wrap 64 z)" for a
    using b(1)
  proof
    assume i: "fst k = TInt"
    have "s_wrap (snd k) z = kwrap k z" using assms(5) in_s_mono [of 32 z "snd k"] by (intro kwrap_TInt [OF i]) auto
    then show ?thesis using u i k that by (auto simp: make_const_scalar_def type_pred_defs)
  next
    assume i: "fst k = TUInt"
    have "u_wrap (snd k) (u_wrap 64 z) = u_wrap (snd k) z" using b(2) by (simp add: u_wrap_def min_def)
    then show ?thesis using u i k that kwrap_TUInt [OF i, of z] by (auto simp: make_const_scalar_def type_pred_defs)
  qed
  then have "imm_of t (kwrap k z) e" using e assms(2) by (intro imm_ofI) auto
  then show ?thesis using assms(3) by (rule imm_stands_for)
qed

subsection \<open>Made nodes\<close>

lemma stands_for_kind: "stands_for \<rho> i e k v fld \<Longrightarrow> ty_ok (type_of e) \<and> kind_of (type_of e) = k"
  by (auto simp: stands_for_def wf_type_ok)

lemma broadcast_stands_for:
  assumes "stands_for \<rho> i e k v fld" and "make_Broadcast e l = Inr e'" and "l < 2 ^ 16"
  shows "stands_for \<rho> i e' k v fld"
  using assms wf_type_ok [of e] by (auto simp: stands_for_def make_Broadcast_def)

lemma binv_bin_val:
  assumes "is_ikind (kind_of t)" and "op = Div \<or> op = Mod \<longrightarrow> w \<noteq> 0"
  shows "bin_val op t u w = Some (binv op (kind_of t) u w)"
  using assms by (cases op) (auto simp: bin_val_def binv_def kwrap_kind_of)

lemma bin_stands_for:
  assumes a: "stands_for \<rho> i ea k u fa" and b: "stands_for \<rho> i eb k w fb" and m: "make_bin op ea eb = Inr e"
    and d: "op = Div \<or> op = Mod \<longrightarrow> w \<noteq> 0"
  shows "stands_for \<rho> i e (if is_compare op \<or> is_logical op then kbool else k) (binv op k u w) (fa \<or> fb)"
proof -
  have e: "e = Bin op ea eb" "type_eq (type_of ea) (type_of eb)" "is_logical op \<longrightarrow> is_bool (type_of ea)"
    using m by (auto simp: make_bin_def)
  have "is_ikind (ekind ea)" "ekind ea = k" using a ints_kind [of ea] by (auto simp: stands_for_def)
  then have "bin_val op (type_of ea) u w = Some (binv op k u w)" using binv_bin_val [OF _ d] by simp
  moreover have "ekind e = (if is_compare op \<or> is_logical op then kbool else k)"
    using e(1) \<open>ekind ea = k\<close> by (simp add: kind_bin_type del: is_compare.simps is_logical.simps)
  ultimately show ?thesis
    using a b e by (auto simp: stands_for_def simp del: is_compare.simps is_logical.simps split: option.split)
qed

lemma mixed_stands_for:
  assumes a: "stands_for \<rho> i ea k u fa" and b: "stands_for \<rho> i eb k w fb" and m: "make_mixed op ea eb = Inr e"
    and d: "op = Div \<or> op = Mod \<longrightarrow> w \<noteq> 0"
  shows "stands_for \<rho> i e (if is_compare op \<or> is_logical op then kbool else k) (binv op k u w) (fa \<or> fb)"
proof -
  obtain ea' eb' where b': "eb' = eb \<or> make_Broadcast eb (lanes_of ea) = Inr eb'"
    and a': "ea' = ea \<or> make_Broadcast ea (lanes_of eb') = Inr ea'" and e: "make_bin op ea' eb' = Inr e"
    using m by (auto simp: make_mixed_def rbind_Inr_iff split: if_splits)
  have "lanes_of ea < 2 ^ 16" using stands_for_kind [OF a] by (simp add: ty_ok_def)
  then have sb: "stands_for \<rho> i eb' k w fb" using b' b broadcast_stands_for by blast
  then have "lanes_of eb' < 2 ^ 16" using stands_for_kind by (auto simp: ty_ok_def)
  then have "stands_for \<rho> i ea' k u fa" using a' a broadcast_stands_for by blast
  from bin_stands_for [OF this sb e d] show ?thesis .
qed

lemma not_stands_for:
  assumes "stands_for \<rho> i ea kbool u fld" and "make_Not ea = Inr e"
  shows "stands_for \<rho> i e kbool (of_bool (u = 0)) fld"
  using assms by (auto simp: stands_for_def make_Not_def)

lemma select_stands_for:
  assumes "stands_for \<rho> i ec kbool z fc" and "stands_for \<rho> i ea k u fa" and "stands_for \<rho> i eb k w fb"
    and "make_Select ec ea eb = Inr e"
  shows "stands_for \<rho> i e k (if z \<noteq> 0 then u else w) (fc \<or> fa \<or> fb)"
  using assms by (auto simp: stands_for_def make_Select_def split: option.split)

lemma ramp_stands_for:
  assumes a: "stands_for \<rho> i ea k u fa" and b: "stands_for \<rho> i eb k w fb" and m: "make_Ramp ea eb l = Inr e"
    and "l < 2 ^ 16"
  shows "stands_for \<rho> i e k (kwrap k (u + int i * w)) (fa \<or> fb)"
proof -
  have "is_ikind (ekind ea)" "ekind ea = k" "ty_ok (type_of ea)"
    using a ints_kind [of ea] wf_type_ok [of ea] by (auto simp: stands_for_def)
  then have "wrap_ty (type_of ea) = kwrap k" using kwrap_kind_of [of "type_of ea"] by simp
  then show ?thesis
    using a b m assms(4) \<open>ty_ok (type_of ea)\<close>
    by (auto simp: stands_for_def make_Ramp_def split: option.split)
qed

lemma likely_stands_for:
  assumes a: "stands_for \<rho> i ea k u fld" and m: "likely_call n ea = Inr e" and n: "is_likely_call n"
  shows "stands_for \<rho> i e k u fld"
proof -
  have e: "e = Call (type_of ea) n [ea] PureIntrinsic 0 no_refs"
    using m by (auto simp: likely_call_def make_Call_def)
  have n': "\<not> is_undef_call n" using n by (auto simp: is_likely_call_def is_undef_call_def)
  have w: "wf_expr ea" using a by (simp add: stands_for_def)
  have "eval \<rho> ea (lane_in (type_of ea) i) = eval \<rho> ea i"
    using eval_scalar_lane [OF w] by (auto simp: lane_in_def)
  then have "eval \<rho> e i = eval \<rho> ea i"
    using n n' eval_norm [OF w] by (cases "eval \<rho> ea i") (auto simp: e)
  moreover have "type_eq t t" for t by (simp add: type_eq_def same_handle_type_def)
  ultimately show ?thesis using a n ints_kind [of ea] wf_type_ok [OF w] by (auto simp: e stands_for_def)
qed

lemma negate_stands_for:
  assumes a: "stands_for \<rho> i ea k u fld" and m: "make_zero fl (type_of ea) = Inr z" "make_bin Sub z ea = Inr e"
  shows "stands_for \<rho> i e k (kwrap k (- u)) fld"
proof -
  have k: "is_ikind k" "ty_ok (type_of ea)" "kind_of (type_of ea) = k"
    using a ints_kind [of ea] wf_type_ok [of ea] by (auto simp: stands_for_def)
  have "\<not> is_handle (type_of ea)" using k by (auto simp: is_ikind_def kind_of_def type_pred_defs)
  then have "stands_for \<rho> i z k (kwrap k 0) False"
    using m(1) k by (intro make_const_stands_for [of fl "type_of ea" 0]) (auto simp: make_zero_def in_s_def)
  from bin_stands_for [OF this a m(2)] show ?thesis by (simp add: binv_def)
qed


text \<open>A cast between booleans only changes the number of lanes.\<close>

lemma bool_const_value:
  assumes "stands_for \<rho> i a kbool v fld"
  shows "as_const_int a = None" "as_const_float a = None"
    "as_const_uint a = Some u \<Longrightarrow> u = v \<and> kwrap kbool u = u \<and> in_s 32 u"
proof -
  have a: "wf_expr a" "ekind a = kbool" "eval \<rho> a i = Some v \<or> eval \<rho> a i = None"
    using assms by (auto simp: stands_for_def)
  then have "as_const_int a = None \<and> as_const_float a = None \<and>
      (\<forall>u. as_const_uint a = Some u \<longrightarrow> eval \<rho> a i = Some u \<and> u_wrap 1 u = u)"
  proof (induction a rule: as_const_uint.induct)
    case (1 w l)
    then show ?case by (simp add: wf_type_ok)
  qed (simp_all add: kind_of_def kbool_def type_pred_defs)
  moreover have "in_s 32 u" if "u_wrap 1 u = u" for u
    using that u_wrap_range [of 1 u] by (auto simp: in_s_def)
  ultimately show "as_const_int a = None" "as_const_float a = None"
    "as_const_uint a = Some u \<Longrightarrow> u = v \<and> kwrap kbool u = u \<and> in_s 32 u"
    using a(3) by (auto simp: kwrap_def kbool_def)
qed

lemma cast_stands_for:
  assumes "cast fl T a = Inr e" and "stands_for \<rho> i a kbool v fld" and "ty_ok T" and "kind_of T = kbool"
  shows "stands_for \<rho> i e kbool v fld"
  using assms
proof (induction fl T a arbitrary: e rule: cast.induct)
  case (1 fl t a)
  note c = bool_const_value [OF "1.prems"(2)]
  have E: "ty_ok (element_of t)" "kind_of (element_of t) = kbool" "ty_lanes t < 2 ^ 16"
    using "1.prems"(3,4) by (auto simp: ty_ok_def kind_of_def element_of_def)
  show ?case
  proof (cases "type_eq (type_of a) t")
    case False
    have h: "is_handle t = is_handle (type_of a)"
      using "1.prems" False by (auto split: if_splits)
    show ?thesis
    proof (cases "as_const_uint a")
      case (Some u)
      then have "make_const fl t u = Inr e" using "1.prems"(1) False h c by simp
      from make_const_stands_for [OF this "1.prems"(3,4), of \<rho> i fld] show ?thesis
        using c(3) [OF Some] by (auto simp: kbool_def is_ikind_def)
    next
      case None
      note s = "1.prems"(1) [unfolded cast.simps [of fl t a], simplified False h c(1,2) None, simplified]
      show ?thesis
      proof (cases "is_vector t \<and> is_scalar (type_of a)")
        case True
        then obtain e' where e': "cast fl (element_of t) a = Inr e'" "make_Broadcast e' (ty_lanes t) = Inr e"
          using s by (auto simp: rbind_Inr_iff simp del: cast.simps)
        have "stands_for \<rho> i e' kbool v fld"
          using "1.IH"(1) [OF False _ c(1) None c(2) _ _ e'(1) "1.prems"(2) E(1,2)] True h by simp
        then show ?thesis using broadcast_stands_for e'(2) E(3) by blast
      next
        case nb: False
        show ?thesis
        proof (cases "is_vector t \<and> (\<exists>w l. a = Broadcast w l)")
          case True
          then obtain w l e' where w: "a = Broadcast w l" "cast fl (element_of t) w = Inr e'"
            "make_Broadcast e' (ty_lanes t) = Inr e" "is_vector t" "\<not> is_scalar (type_of a)" "l = ty_lanes t"
            using s nb by (auto simp: rbind_Inr_iff simp del: cast.simps)
          have "stands_for \<rho> i w kbool v fld"
            using "1.prems"(2) wf_type_ok [of w] by (auto simp: stands_for_def w(1))
          then have "stands_for \<rho> i e' kbool v fld"
            using "1.IH"(2) [OF False _ c(1) None c(2) w(4,5,1) w(2) _ E(1,2)] h by simp
          then show ?thesis using broadcast_stands_for w(3) E(3) by blast
        next
          case False
          then have "make_Cast t a = Inr e" using s nb by (auto simp del: cast.simps split: expr.splits if_splits)
          then have "ty_lanes t = lanes_of a" by (auto simp: make_Cast_def)
          then have "type_eq (type_of a) t"
            using stands_for_kind [OF "1.prems"(2)] "1.prems"(4)
            by (auto simp: type_eq_def as_u32_def kind_of_def kbool_def)
          then show ?thesis using \<open>\<not> type_eq (type_of a) t\<close> by blast
        qed
      qed
    qed
  qed (use "1.prems" in simp)
qed


subsection \<open>Making a pattern\<close>

text \<open>
  A pattern that can be made from a type that has its kind (\<open>h\<close>) or from none, and a pattern whose
  folds are well typed.
\<close>

fun make_pat :: "bool \<Rightarrow> pat \<Rightarrow> bool" where
  "make_pat h (PWild n) \<longleftrightarrow> True"
| "make_pat h (PWildConst n) \<longleftrightarrow> True"
| "make_pat h (PConst z) \<longleftrightarrow> h \<and> in_s 32 z"
| "make_pat h (PBin op p q) \<longleftrightarrow>
     (let h' = (h \<and> \<not> is_compare op) in
      if is_PConst p then make_pat h' q \<and> make_pat True p else make_pat h' p \<and> make_pat True q)"
| "make_pat h (PNot p) \<longleftrightarrow> make_pat h p"
| "make_pat h (PSelect c p q) \<longleftrightarrow> make_pat False c \<and> make_pat h p \<and> make_pat h q"
| "make_pat h (PBroadcast p l) \<longleftrightarrow> make_pat h p \<and> (\<forall>n \<in> set_option l. n < 2 ^ 16)"
| "make_pat h (PRamp p q l) \<longleftrightarrow> (\<forall>n \<in> set_option l. n < 2 ^ 16) \<and>
     (if is_PConst p then make_pat h q \<and> make_pat True p else make_pat h p \<and> make_pat True q)"
| "make_pat h (PNegate p) \<longleftrightarrow> make_pat h p"
| "make_pat h (PIntrin n ps) \<longleftrightarrow> (case ps of [p] \<Rightarrow> make_pat h p | _ \<Rightarrow> False)"
| "make_pat h (PCastOut p) \<longleftrightarrow> make_pat False p"
| "make_pat h (PFold p) \<longleftrightarrow> fold_pat h p"
| "make_pat h PIndeterminate \<longleftrightarrow> True"
| "make_pat h POverflow \<longleftrightarrow> True"
| "make_pat h p \<longleftrightarrow> False"

fun folds_wt :: "rctx \<Rightarrow> kind \<Rightarrow> pat \<Rightarrow> bool" where
  "folds_wt x k (PBin op p q) \<longleftrightarrow>
     (let k' = sub_kind x op k p q in folds_wt x k' p \<and> folds_wt x k' q)"
| "folds_wt x k (PNot p) \<longleftrightarrow> folds_wt x kbool p"
| "folds_wt x k (PSelect c p q) \<longleftrightarrow> folds_wt x kbool c \<and> folds_wt x k p \<and> folds_wt x k q"
| "folds_wt x k (PBroadcast p l) \<longleftrightarrow> folds_wt x k p"
| "folds_wt x k (PRamp p q l) \<longleftrightarrow> folds_wt x k p \<and> folds_wt x k q"
| "folds_wt x k (PNegate p) \<longleftrightarrow> folds_wt x k p"
| "folds_wt x k (PIntrin n ps) \<longleftrightarrow> (case ps of [p] \<Rightarrow> folds_wt x k p | _ \<Rightarrow> True)"
| "folds_wt x k (PCastOut p) \<longleftrightarrow> k = kbool \<and> folds_wt x kbool p"
| "folds_wt x k (PFold p) \<longleftrightarrow> fwt x k p"
| "folds_wt x k p \<longleftrightarrow> True"

lemma pkind_ikind: "ctx_ok l x \<Longrightarrow> pkind x p = Some k \<Longrightarrow> is_ikind k"
proof (induction x p rule: pkind.induct)
  case (12 x n ps)
  then show ?case by (cases ps) auto
qed (auto simp: ctx_ok_def kbool_def is_ikind_def split: if_splits option.splits)

lemma kbool_ikind [simp]: "is_ikind kbool"
  by (simp add: kbool_def is_ikind_def)

lemma sub_kind_ikind: "ctx_ok l x \<Longrightarrow> is_ikind k \<Longrightarrow> is_ikind (sub_kind x op k p q)"
  using pkind_ikind [of l x] by (auto simp: sub_kind_def okind_def split: option.split)

fun has_cast :: "pat \<Rightarrow> bool" where
  "has_cast (PBin op p q) \<longleftrightarrow> has_cast p \<or> has_cast q"
| "has_cast (PNot p) \<longleftrightarrow> has_cast p"
| "has_cast (PSelect c p q) \<longleftrightarrow> has_cast c \<or> has_cast p \<or> has_cast q"
| "has_cast (PBroadcast p l) \<longleftrightarrow> has_cast p"
| "has_cast (PRamp p q l) \<longleftrightarrow> has_cast p \<or> has_cast q"
| "has_cast (PNegate p) \<longleftrightarrow> has_cast p"
| "has_cast (PIntrin n ps) \<longleftrightarrow> (case ps of [p] \<Rightarrow> has_cast p | _ \<Rightarrow> False)"
| "has_cast (PCastOut p) \<longleftrightarrow> True"
| "has_cast p \<longleftrightarrow> False"

text \<open>A fold divides by a bound constant.\<close>

fun fold_div :: "pat \<Rightarrow> bool" where
  "fold_div (PBin op p q) \<longleftrightarrow> fold_div p \<or> fold_div q"
| "fold_div (PNot p) \<longleftrightarrow> fold_div p"
| "fold_div (PSelect c p q) \<longleftrightarrow> fold_div c \<or> fold_div p \<or> fold_div q"
| "fold_div (PBroadcast p l) \<longleftrightarrow> fold_div p"
| "fold_div (PRamp p q l) \<longleftrightarrow> fold_div p \<or> fold_div q"
| "fold_div (PNegate p) \<longleftrightarrow> fold_div p"
| "fold_div (PIntrin n ps) \<longleftrightarrow> (case ps of [p] \<Rightarrow> fold_div p | _ \<Rightarrow> False)"
| "fold_div (PCastOut p) \<longleftrightarrow> fold_div p"
| "fold_div (PFold p) \<longleftrightarrow> const_div p"
| "fold_div p \<longleftrightarrow> False"

definition unflagged :: "matcher_state \<Rightarrow> bool" where
  "unflagged st \<longleftrightarrow> (\<forall>n c. ms_const st n = Some c \<longrightarrow> \<not> special (snd c))"

lemma fold_stands_for:
  assumes "pfold rw st p hint = Inr (v, t)" and "make_const_expr (rw_fl rw) (rw_ctr rw) v t = Inr e"
    and st: "st_ok \<rho> i st" and x: "x = ctx_of \<rho> i st"
    and p: "fold_pat h p" "fwt x k p" "h \<longrightarrow> kind_of hint = k" "ty_ok hint" "is_ikind k"
    and d: "const_div p \<longrightarrow> no_minus_one x"
  shows "stands_for \<rho> i e k (pval x k p) True"
proof (cases "special t")
  case True
  then show ?thesis
    using assms(2) pfold_type [OF st x assms(1) p] p(5)
    by (intro special_expr_stands_for [of "rw_ctr rw" t]) (auto simp: make_const_expr_def)
next
  case False
  then have "folded x k p (v, t)" using pfold_sound [OF st x assms(1) p(1-3,5) d] by simp
  then show ?thesis
    using assms(2) pfold_type [OF st x assms(1) p] False
    by (intro make_const_expr_stands_for [of "rw_fl rw" "rw_ctr rw" _ t]) (auto simp: folded_def)
qed

lemma wild_stands_for:
  assumes "ms_wild st n = Some e" and "st_ok \<rho> i st" and "pwt (ctx_of \<rho> i st) k (PWild n)"
  shows "stands_for \<rho> i e k (pval (ctx_of \<rho> i st) k (PWild n)) False"
proof -
  have "wild_ok \<rho> i e" using assms(1,2) unfolding st_ok_def by blast
  then obtain v where "eval \<rho> e i = Some v" "wf_expr e" "tame e" "ints e" by (auto simp: wild_ok_def)
  then show ?thesis using assms(1,3) by (auto simp: stands_for_def ctx_of_def)
qed

lemma wild_const_stands_for:
  assumes "ms_const st n = Some (v, t)" and "make_const_expr fl ctr v t = Inr e" and "st_ok \<rho> i st"
    and "unflagged st" and "pwt (ctx_of \<rho> i st) k (PWildConst n)"
  shows "stands_for \<rho> i e k (pval (ctx_of \<rho> i st) k (PWildConst n)) False"
proof -
  have "const_ok (v, t)" using assms(1,3) unfolding st_ok_def by blast
  then obtain z where z: "v = VI z" "ty_ok t" "kfits (kind_of t) z" by (auto simp: const_ok_def)
  moreover have "\<not> special t" using assms(1,4) by (auto simp: unflagged_def)
  ultimately show ?thesis
    using assms(1,2,5) make_const_expr_stands_for [of fl ctr z t e] by (auto simp: ctx_of_def)
qed


theorem pmake_sound:
  assumes st: "st_ok \<rho> i st" "unflagged st" and x: "x = ctx_of \<rho> i st" "i < l"
    and out: "ty_ok (rw_out rw)" "has_cast p \<longrightarrow> kind_of (rw_out rw) = kbool"
  shows "pmake rw st p hint = Inr e \<Longrightarrow> make_pat h p \<Longrightarrow> pwt x k p \<Longrightarrow> folds_wt x k p \<Longrightarrow> pdef x k p \<Longrightarrow>
    h \<longrightarrow> kind_of hint = k \<Longrightarrow> ty_ok hint \<Longrightarrow> is_ikind k \<Longrightarrow> fold_div p \<longrightarrow> no_minus_one x \<Longrightarrow>
    stands_for \<rho> i e k (pval x k p) (has_fold p)"
  using out(2)
proof (induction p arbitrary: k h hint e)
  case (PWild n)
  then have "ms_wild st n = Some e" by (auto split: option.splits)
  then show ?case using wild_stands_for [OF _ st(1)] PWild.prems(3) by (simp add: x(1) del: pwt.simps pval.simps)
next
  case (PWildConst n)
  then obtain v t where "ms_const st n = Some (v, t)" "make_const_expr (rw_fl rw) (rw_ctr rw) v t = Inr e"
    by (auto split: option.splits)
  then show ?case
    using wild_const_stands_for [OF _ _ st] PWildConst.prems(3) by (simp add: x(1) del: pwt.simps pval.simps)
next
  case (PConst z)
  then show ?case by (auto intro!: make_const_stands_for)
next
  case (PBin op p q)
  define k' where "k' = sub_kind x op k p q"
  have w: "pwt x k' p" "pwt x k' q" "folds_wt x k' p" "folds_wt x k' q" "pdef x k' p" "pdef x k' q"
    "op = Div \<or> op = Mod \<longrightarrow> pval x k' q \<noteq> 0" "is_compare op \<or> is_logical op \<longrightarrow> k = kbool"
    "fold_div p \<longrightarrow> no_minus_one x" "fold_div q \<longrightarrow> no_minus_one x"
    "has_cast p \<longrightarrow> kind_of (rw_out rw) = kbool" "has_cast q \<longrightarrow> kind_of (rw_out rw) = kbool"
    using PBin.prems by (auto simp: k'_def Let_def)
  have k': "is_ikind k'" using sub_kind_ikind [OF ctx_of_ok [OF st(1) x(2)] PBin.prems(8), of op p q] by (simp add: k'_def x(1))
  let ?hint = "if is_compare op then no_type else hint"
  have h': "h \<and> \<not> is_compare op \<longrightarrow> kind_of ?hint = k'"
    using PBin.prems(6) w(8) by (auto simp: k'_def sub_kind_def)
  have hint: "ty_ok ?hint" using PBin.prems(7) by (simp add: no_type_def ty_ok_def)
  have kk: "(if is_compare op \<or> is_logical op then kbool else k') = k" using w(8) by (auto simp: k'_def sub_kind_def)
  obtain ea eb where ab: "stands_for \<rho> i ea k' (pval x k' p) (has_fold p)"
    "stands_for \<rho> i eb k' (pval x k' q) (has_fold q)" and m: "make_mixed op ea eb = Inr e"
  proof (cases "is_PConst p")
    case True
    then obtain ea eb where m: "pmake rw st q ?hint = Inr eb" "pmake rw st p (type_of eb) = Inr ea"
      "make_mixed op ea eb = Inr e" using PBin.prems(1) by (auto simp: rbind_Inr_iff Let_def)
    have b: "stands_for \<rho> i eb k' (pval x k' q) (has_fold q)"
      using PBin.IH(2) [OF m(1) _ w(2,4,6) h' hint k' w(10,12)] PBin.prems(2) True by (simp add: Let_def)
    have "stands_for \<rho> i ea k' (pval x k' p) (has_fold p)"
      using PBin.IH(1) [OF m(2), of True k'] w(1,3,5,9,11) stands_for_kind [OF b] k' PBin.prems(2) True
      by (simp add: Let_def)
    with b m(3) show thesis using that by blast
  next
    case False
    then obtain ea eb where m: "pmake rw st p ?hint = Inr ea" "pmake rw st q (type_of ea) = Inr eb"
      "make_mixed op ea eb = Inr e" using PBin.prems(1) by (auto simp: rbind_Inr_iff Let_def)
    have a: "stands_for \<rho> i ea k' (pval x k' p) (has_fold p)"
      using PBin.IH(1) [OF m(1) _ w(1,3,5) h' hint k' w(9,11)] PBin.prems(2) False by (simp add: Let_def)
    have "stands_for \<rho> i eb k' (pval x k' q) (has_fold q)"
      using PBin.IH(2) [OF m(2), of True k'] w(2,4,6,10,12) stands_for_kind [OF a] k' PBin.prems(2) False
      by (simp add: Let_def)
    with a m(3) show thesis using that by blast
  qed
  show ?case using mixed_stands_for [OF ab m w(7)] unfolding kk by (simp add: k'_def Let_def)
next
  case (PNot p)
  then obtain ea where "pmake rw st p hint = Inr ea" "make_Not ea = Inr e" by (auto simp: rbind_Inr_iff)
  then show ?case using PNot.IH [of hint ea h kbool] PNot.prems not_stands_for by auto
next
  case (PSelect c p q)
  then obtain ec ea eb where m: "pmake rw st c no_type = Inr ec" "pmake rw st p hint = Inr ea"
    "pmake rw st q hint = Inr eb" "make_Select ec ea eb = Inr e" by (auto simp: rbind_Inr_iff)
  have "stands_for \<rho> i ec kbool (pval x kbool c) (has_fold c)"
    using PSelect.IH(1) [OF m(1), of False kbool] PSelect.prems by (auto simp: no_type_def ty_ok_def)
  moreover have "stands_for \<rho> i ea k (pval x k p) (has_fold p)"
    using PSelect.IH(2) [OF m(2), of h k] PSelect.prems by auto
  moreover have "stands_for \<rho> i eb k (pval x k q) (has_fold q)"
    using PSelect.IH(3) [OF m(3), of h k] PSelect.prems by auto
  ultimately show ?case using select_stands_for [OF _ _ _ m(4)] by simp
next
  case (PBroadcast p n)
  then obtain ea where m: "pmake rw st p (hint\<lparr>ty_lanes := 1\<rparr>) = Inr ea"
    "make_Broadcast ea (case n of Some n \<Rightarrow> n | None \<Rightarrow> ty_lanes hint) = Inr e" by (auto simp: rbind_Inr_iff)
  have "stands_for \<rho> i ea k (pval x k p) (has_fold p)"
    using PBroadcast.IH [OF m(1), of h k] PBroadcast.prems by (auto simp: kind_of_def ty_ok_def)
  then show ?case using broadcast_stands_for [OF _ m(2)] PBroadcast.prems by (auto simp: ty_ok_def split: option.splits)
next
  case (PRamp p q n)
  let ?n = "case n of Some n \<Rightarrow> n | None \<Rightarrow> ty_lanes hint"
  let ?hint = "hint\<lparr>ty_lanes := 1\<rparr>"
  have hint: "ty_ok ?hint" "h \<longrightarrow> kind_of ?hint = k" "?n < 2 ^ 16"
    using PRamp.prems by (auto simp: kind_of_def ty_ok_def split: option.splits)
  obtain ea eb where ab: "stands_for \<rho> i ea k (pval x k p) (has_fold p)"
    "stands_for \<rho> i eb k (pval x k q) (has_fold q)" and m: "make_Ramp ea eb ?n = Inr e"
  proof (cases "is_PConst p")
    case True
    then obtain ea eb where m: "pmake rw st q ?hint = Inr eb" "pmake rw st p (type_of eb) = Inr ea"
      "make_Ramp ea eb ?n = Inr e" using PRamp.prems(1) by (auto simp: rbind_Inr_iff Let_def)
    have b: "stands_for \<rho> i eb k (pval x k q) (has_fold q)"
      using PRamp.IH(2) [OF m(1), of h k] PRamp.prems hint True by auto
    have "stands_for \<rho> i ea k (pval x k p) (has_fold p)"
      using PRamp.IH(1) [OF m(2), of True k] stands_for_kind [OF b] PRamp.prems True by auto
    with b m(3) show thesis using that by blast
  next
    case False
    then obtain ea eb where m: "pmake rw st p ?hint = Inr ea" "pmake rw st q (type_of ea) = Inr eb"
      "make_Ramp ea eb ?n = Inr e" using PRamp.prems(1) by (auto simp: rbind_Inr_iff Let_def)
    have a: "stands_for \<rho> i ea k (pval x k p) (has_fold p)"
      using PRamp.IH(1) [OF m(1), of h k] PRamp.prems hint False by auto
    have "stands_for \<rho> i eb k (pval x k q) (has_fold q)"
      using PRamp.IH(2) [OF m(2), of True k] stands_for_kind [OF a] PRamp.prems False by auto
    with a m(3) show thesis using that by blast
  qed
  show ?case using ramp_stands_for [OF ab m hint(3)] by (simp add: x(1) ctx_of_def)
next
  case (PNegate p)
  then obtain ea z where m: "pmake rw st p hint = Inr ea" "make_zero (rw_fl rw) (type_of ea) = Inr z"
    "make_bin Sub z ea = Inr e" by (auto simp: rbind_Inr_iff)
  then show ?case using PNegate.IH [OF m(1), of h k] PNegate.prems negate_stands_for [OF _ m(2,3)] by auto
next
  case (PIntrin n ps)
  then obtain p where p: "ps = [p]" by (auto split: list.splits)
  with PIntrin.prems obtain ea where m: "pmake rw st p hint = Inr ea" "likely_call n ea = Inr e" "is_likely_call n"
    by (auto simp: rbind_Inr_iff is_likely_call_def split: if_splits)
  then have "stands_for \<rho> i ea k (pval x k p) (has_fold p)"
    using PIntrin.IH [of p hint ea h k] PIntrin.prems p by auto
  then show ?case using likely_stands_for m(2,3) p by auto
next
  case (PCastOut p)
  then obtain ea where m: "pmake rw st p no_type = Inr ea" "cast (rw_fl rw) (rw_out rw) ea = Inr e"
    by (auto simp: rbind_Inr_iff simp del: cast.simps)
  have "stands_for \<rho> i ea kbool (pval x kbool p) (has_fold p)"
    using PCastOut.IH [OF m(1), of False kbool] PCastOut.prems by (auto simp: no_type_def ty_ok_def)
  then show ?case using cast_stands_for [OF m(2)] PCastOut.prems out by auto
next
  case (PFold p)
  then obtain v t where "pfold rw st p hint = Inr (v, t)" "make_const_expr (rw_fl rw) (rw_ctr rw) v t = Inr e"
    by (auto simp: rbind_Inr_iff)
  then show ?case using fold_stands_for [OF _ _ st(1) x(1)] PFold.prems by auto
qed auto

end
