(* ===== verification/RulesFacts.thy ===== *)
theory RulesFacts
  imports RulesArith RulesSub RulesDiv RulesMin RulesMax RulesLT RulesBool RulesSelect
begin

text \<open>
  The rules that are correct on part of their domain only: what holds of the tables of
  \<open>Simplify_Min.cpp\<close>, \<open>Simplify_Max.cpp\<close> and \<open>Simplify_LT.cpp\<close> as a whole, and an input for every rule
  that changes the value of an expression.
\<close>

text \<open>
  C15. Every rule of \<open>Simplify_Min.cpp\<close> and \<open>Simplify_Max.cpp\<close> is correct for every number of lanes and
  every integer type, with two exceptions: the comparison with the extreme values of the type needs
  an operand in its range (which overflow of a 32-bit integer could leave), and rounding down to a
  multiple needs a type that does not wrap below its minimum.
\<close>

theorem min_max_rules_correct:
  "list_all (rule_ok l) (min_const l @ min_absorb l @ min_stair l @ min_mutate l) \<and>
   list_all (rule_ok l) (max_const l @ max_absorb l @ max_stair l @ max_mutate l) \<and>
   list_all (rule_ok_on range_scope l) (min_extreme l @ max_extreme l) \<and>
   list_all (rule_ok_on no_narrow_scope l) (min_round l @ max_round l)"
  by (simp add: min_mutate_def max_mutate_def min_ok max_ok min_extreme_ok max_extreme_ok
      min_round_ok max_round_ok)

text \<open>
  C16. Every rule of \<open>Simplify_LT.cpp\<close> is correct for every number of lanes and every integer type, with
  two exceptions: the comparison with the extreme values of the type needs an operand in its range,
  and the rules that compare \<open>min(x, c0)\<close> with \<open>min(x, c1) + c2\<close>, and the same for \<open>max\<close>, need a constant
  \<open>c2\<close> that is not positive.
\<close>

theorem lt_rules_correct:
  "list_all (rule_ok l) (lt_const l @ lt_self l @ lt_ramp l @ lt_difference l @ lt_cancel l @
     lt_cancel_sum l @ lt_scale l @ lt_minmax l @ lt_select l @ lt_linear l @ lt_stair l @ lt_div_div l @
     lt_minmax_div l @ lt_min_const l @ lt_max_const l @ lt_block l) \<and>
   list_all (rule_ok_on range_scope l) (lt_extreme l) \<and>
   list_all (rule_ok_on no_raise_scope l) (lt_min_sum l @ lt_max_sum l)"
  by (simp add: lt_ok lt_extreme_ok lt_min_sum_ok lt_max_sum_ok)

subsection \<open>Inputs on which a rule changes the value\<close>

definition int_ctx :: "nat \<Rightarrow> int \<Rightarrow> int \<Rightarrow> int \<Rightarrow> int \<Rightarrow> rctx" where
  "int_ctx b x c0 c1 c2 =
     \<lparr>cx_wk = (\<lambda>_. (TInt, b)), cx_ck = (\<lambda>_. (TInt, b)), cx_w = (\<lambda>_. x),
      cx_c = (\<lambda>n. if n = 0 then c0 else if n = 1 then c1 else c2), cx_lane = 0\<rparr>"

lemma rule_not_ok:
  assumes "ctx_ok l x" and "is_ikind k" and "guard_ok g l k (node_kind x k b)"
    and "pwt x k b" and "pdef x k b" and "case p of None \<Rightarrow> True | Some p \<Rightarrow> phold x p"
    and "pval x k (after_pat b a) \<noteq> pval x k b"
  shows "\<not> rule_ok l (Rule g b a p)"
  using assms unfolding rule_ok_def rule_ok_on_def rule.sel by blast

lemmas int_ctx_eval = int_ctx_def ctx_ok_def is_ikind_def sub_kind_def okind_def binv_def Let_def
  kwrap_def kbool_def kno_ovf_def pat_ops s_wrap_def u_wrap_def in_s_def

text \<open>
  C33. The rules \<open>min(x, c0) < min(x, c1) + c2 \<longrightarrow> false\<close> and \<open>max(x, c0) < max(x, c1) + c2 \<longrightarrow> false\<close>, both
  under \<open>c0 >= c1 + c2\<close>, are wrong for a positive \<open>c2\<close>: with \<open>c0 = 100\<close>, \<open>c1 = 0\<close>, \<open>c2 = 5\<close> the first
  comparison is true at \<open>x = -10\<close>, and the second at \<open>x = 200\<close>.
\<close>

theorem lt_minmax_sum_unsound:
  "\<not> rule_ok 1 (lt_min_sum 1 ! 0) \<and> \<not> rule_ok 1 (lt_max_sum 1 ! 0)"
proof
  show "\<not> rule_ok 1 (lt_min_sum 1 ! 0)"
    unfolding lt_min_sum_def nth_Cons_0
    by (rule rule_not_ok [where x = "int_ctx 32 (-10) 100 0 5" and k = kbool])
      (simp_all add: int_ctx_eval)
  show "\<not> rule_ok 1 (lt_max_sum 1 ! 0)"
    unfolding lt_max_sum_def nth_Cons_0
    by (rule rule_not_ok [where x = "int_ctx 32 200 100 0 5" and k = kbool])
      (simp_all add: int_ctx_eval)
qed

text \<open>
  C34. The rules that replace \<open>min((x / c0) * c0, x)\<close> and \<open>max((x / c0) * c0, x)\<close> by an operand apply to
  every type, and are wrong for 8-bit signed integers: at \<open>x = -128\<close> and \<open>c0 = 3\<close> the product wraps
  around to 127.
\<close>

theorem min_max_round_unsound:
  "\<not> rule_ok 1 (min_round 1 ! 0) \<and> \<not> rule_ok 1 (max_round 1 ! 0)"
proof
  show "\<not> rule_ok 1 (min_round 1 ! 0)"
    unfolding min_round_def nth_Cons_0
    by (rule rule_not_ok [where x = "int_ctx 8 (-128) 3 0 0" and k = "(TInt, 8)"])
      (simp_all add: int_ctx_eval ediv_pos)
  show "\<not> rule_ok 1 (max_round 1 ! 0)"
    unfolding max_round_def nth_Cons_0
    by (rule rule_not_ok [where x = "int_ctx 8 (-128) 3 0 0" and k = "(TInt, 8)"])
      (simp_all add: int_ctx_eval ediv_pos)
qed

text \<open>
  The rule \<open>max(x, c0) + c1 == 0 \<longrightarrow> x == fold(-c1)\<close> under \<open>c0 + c1 < 0\<close>, and its version for \<open>min\<close>, are
  wrong for 8-bit signed integers, where \<open>c0 + c1\<close> wraps around: with \<open>c0 = c1 = 100\<close> the sum is never
  zero and the replacement is true at \<open>x = -100\<close>.
\<close>

theorem eq_shifted_unsound:
  "\<not> rule_ok 1 (eq_shifted 1 ! 0) \<and> \<not> rule_ok 1 (eq_shifted 1 ! 1)"
proof
  show "\<not> rule_ok 1 (eq_shifted 1 ! 0)"
    unfolding eq_shifted_def nth_Cons_0
    by (rule rule_not_ok [where x = "int_ctx 8 (-100) 100 100 0" and k = kbool])
      (simp_all add: int_ctx_eval)
  show "\<not> rule_ok 1 (eq_shifted 1 ! 1)"
    unfolding eq_shifted_def nth_Cons_0 One_nat_def nth_Cons_Suc
    by (rule rule_not_ok [where x = "int_ctx 8 100 (-100) (-100) 0" and k = kbool])
      (simp_all add: int_ctx_eval)
qed

end
