(* ===== verification/RewriteSound.thy ===== *)
theory RewriteSound
  imports RewriteMake RulesFacts
begin

text \<open>
  The correctness of one step of the rewriter: when a rule of the tables fires on a defined integer
  expression, the expression it makes is well formed, has the kind of the original, and has its value
  wherever it is defined.
\<close>

unbundle bit_operations_syntax

subsection \<open>What a match can bind\<close>

text \<open>
  The constants of an expression that a pattern can bind: their lanes leave the two flag bits of a
  type free and, where the rule divides by them, they are not \<open>-1\<close>.
\<close>

fun plain_consts :: "bool \<Rightarrow> expr \<Rightarrow> bool" where
  "plain_consts nm (IntImm t v) \<longleftrightarrow> nm \<longrightarrow> v \<noteq> -1"
| "plain_consts nm (Broadcast v l) \<longleftrightarrow> plain_consts nm v \<and> l < 2 ^ 14"
| "plain_consts nm (Bin op a b) \<longleftrightarrow> plain_consts nm a \<and> plain_consts nm b"
| "plain_consts nm (NotE a) \<longleftrightarrow> plain_consts nm a"
| "plain_consts nm (Select c a b) \<longleftrightarrow> plain_consts nm c \<and> plain_consts nm a \<and> plain_consts nm b"
| "plain_consts nm (Ramp a b l) \<longleftrightarrow> plain_consts nm a \<and> plain_consts nm b"
| "plain_consts nm (Call t n as ct vi r) \<longleftrightarrow> list_all (plain_consts nm) as"
| "plain_consts nm e \<longleftrightarrow> True"

text \<open>The lane \<open>i\<close> is one of the expression, or the expression is a scalar.\<close>

definition lane_in_range :: "nat \<Rightarrow> nat \<Rightarrow> bool" where
  "lane_in_range i n \<longleftrightarrow> n = 1 \<or> i < n"

definition const_plain :: "bool \<Rightarrow> nat \<Rightarrow> scalar_value \<times> htype \<Rightarrow> bool" where
  "const_plain nm i c \<longleftrightarrow>
     lane_in_range i (ty_lanes (snd c)) \<and> \<not> special (snd c) \<and> (nm \<longrightarrow> fst c \<noteq> VI (-1))"

definition st_plain :: "bool \<Rightarrow> nat \<Rightarrow> matcher_state \<Rightarrow> bool" where
  "st_plain nm i st \<longleftrightarrow> (\<forall>n e. ms_wild st n = Some e \<longrightarrow> lane_in_range i (lanes_of e)) \<and>
     (\<forall>n c. ms_const st n = Some c \<longrightarrow> const_plain nm i c)"

lemma small_not_special: "ty_lanes t < 2 ^ 14 \<Longrightarrow> \<not> special t"
proof -
  assume "ty_lanes t < 2 ^ 14"
  then have "take_bit 14 (ty_lanes t) = ty_lanes t" by (simp add: take_bit_nat_eq_self_iff)
  then have "bit (ty_lanes t) n \<Longrightarrow> n < 14" for n by (metis bit_take_bit_iff)
  from this [of 14] this [of 15] show ?thesis by (auto simp: special_iff)
qed

lemma st_plain_unflagged: "st_plain nm i st \<Longrightarrow> unflagged st"
  unfolding st_plain_def unflagged_def const_plain_def by blast

lemma st_plain_no_minus_one: "st_plain True i st \<Longrightarrow> no_minus_one (ctx_of \<rho> i st)"
proof -
  assume s: "st_plain True i st"
  have "cx_c (ctx_of \<rho> i st) n \<noteq> -1" for n
  proof (cases "ms_const st n")
    case (Some c)
    then have "const_plain True i c" using s unfolding st_plain_def by blast
    then show ?thesis
      using Some by (auto simp: ctx_of_def const_plain_def split: prod.split scalar_value.split)
  qed (simp add: ctx_of_def)
  then show ?thesis by (simp add: no_minus_one_def)
qed

lemma wild_const_plain:
  assumes "match_wild_const fl n e s = Some s'" and "wf_expr e" and "ints e" and "plain_consts nm e"
    and "lane_in_range i (lanes_of e)" and "st_plain nm i s"
  shows "st_plain nm i s'"
proof -
  obtain t z where e: "strip_broadcast e = IntImm t z \<or> strip_broadcast e = UIntImm t z"
    and b: "\<exists>same. bind_const n t (VI z) same (type_of e) s = Some s'"
    using assms(1,2,3)
    by (cases e) (auto simp: match_wild_const_def kind_of_def is_ikind_def type_pred_defs split: expr.splits)
  have "u_wrap b (-1) \<noteq> -1" for b using u_wrap_range [of b "-1"] by simp
  then have nm: "nm \<longrightarrow> z \<noteq> -1"
    using e assms(2,4) by (cases e) (auto simp: type_pred_defs)
  have "ty_lanes (type_of e) < 2 ^ 14"
    using e assms(2,4) by (cases e) (auto simp: type_pred_defs)
  then have "\<not> special (type_of e)" by (rule small_not_special)
  then have c: "const_plain nm i (VI z, type_of e)" using nm assms(5) by (simp add: const_plain_def)
  have "s' = s \<or> s' = s\<lparr>ms_const := (ms_const s)(n \<mapsto> (VI z, type_of e))\<rparr>"
    using b by (cases "ms_const s n") (auto simp: bind_const_def split: if_splits)
  then show ?thesis using c assms(6) by (auto simp: st_plain_def split: if_splits)
qed

lemma bin_lanes:
  assumes "wf_expr (Bin op a b)"
  shows "lanes_of (Bin op a b) = lanes_of a" "lanes_of (Bin op a b) = lanes_of b"
proof -
  have w: "ty_ok (type_of a)" "ty_ok (type_of b)" "type_eq (type_of a) (type_of b)"
    using assms wf_type_ok by auto
  then have "lanes_of a mod 2 ^ 16 = lanes_of a" by (simp add: ty_ok_def)
  then show "lanes_of (Bin op a b) = lanes_of a" by (simp add: bin_type_def del: is_compare.simps is_logical.simps)
  then show "lanes_of (Bin op a b) = lanes_of b" using type_eqD(3) [OF w(3,1,2)] by simp
qed

theorem pmatch_plain:
  "pmatch rw p e s = Some s' \<Longrightarrow> match_pat p \<Longrightarrow> wf_expr e \<Longrightarrow> tame e \<Longrightarrow> ints e \<Longrightarrow> plain_consts nm e \<Longrightarrow>
     lane_in_range i (lanes_of e) \<Longrightarrow> st_plain nm i s \<Longrightarrow> st_plain nm i s'"
proof (induction p arbitrary: e s s')
  case (PWild n)
  then show ?case by (auto simp: bind_wild_def st_plain_def split: option.splits if_splits)
next
  case (PWildConst n)
  then show ?case using wild_const_plain by simp
next
  case (PBin op p q)
  then obtain a b s1 where e: "e = Bin op a b" and m: "pmatch rw p a s = Some s1" "pmatch rw q b s1 = Some s'"
    by (auto split: expr.splits if_splits bind_splits)
  have l: "lanes_of e = lanes_of a" "lanes_of e = lanes_of b"
    using bin_lanes PBin.prems(3) unfolding e by auto
  have sub: "wf_expr a" "wf_expr b" "tame a" "tame b" "ints a" "ints b" "match_pat p" "match_pat q"
    "plain_consts nm a" "plain_consts nm b"
    using PBin.prems by (simp_all add: e)
  have "st_plain nm i s1" using PBin.IH(1) [OF m(1)] sub PBin.prems(7,8) l by simp
  then show ?case using PBin.IH(2) [OF m(2)] sub PBin.prems(7) l by simp
next
  case (PNot p)
  then obtain a where e: "e = NotE a" and m: "pmatch rw p a s = Some s'" by (auto split: expr.splits)
  have "lanes_of a mod 2 ^ 16 = lanes_of a" using PNot.prems(3) wf_type_ok [of a] by (simp add: e ty_ok_def)
  then show ?case using PNot.IH [OF m] PNot.prems by (simp add: e)
next
  case (PSelect r p q)
  then obtain c a b s1 s2 where e: "e = Select c a b"
    and m: "pmatch rw r c s = Some s1" "pmatch rw p a s1 = Some s2" "pmatch rw q b s2 = Some s'"
    by (auto split: expr.splits bind_splits)
  have "lanes_of a = lanes_of b" "lanes_of c = 1 \<or> lanes_of c = lanes_of a"
    using PSelect.prems(3) wf_type_ok type_eqD(3) [of "type_of b" "type_of a"] by (auto simp: e is_scalar_def)
  then show ?case
    using PSelect.IH(1) [OF m(1)] PSelect.IH(2) [OF m(2)] PSelect.IH(3) [OF m(3)] PSelect.prems
    by (auto simp: e lane_in_range_def)
next
  case (PBroadcast p l)
  then obtain a n where e: "e = Broadcast a n" and m: "pmatch rw p a s = Some s'"
    by (auto split: expr.splits if_splits)
  then show ?case using PBroadcast.IH [OF m] PBroadcast.prems by (simp add: e lane_in_range_def is_scalar_def)
next
  case (PRamp p q l)
  then obtain a b n s1 where e: "e = Ramp a b n" and m: "pmatch rw p a s = Some s1" "pmatch rw q b s1 = Some s'"
    by (auto split: expr.splits if_splits bind_splits)
  then show ?case
    using PRamp.IH(1) [OF m(1)] PRamp.IH(2) [OF m(2)] PRamp.prems by (auto simp: e lane_in_range_def is_scalar_def)
next
  case (PIntrin n ps)
  then obtain p where p: "ps = [p]" "is_likely_call n" "match_pat p" by (auto split: list.splits)
  then obtain t a as ct vi r where e: "e = Call t n (a # as) ct vi r" and m: "pmatch rw p a s = Some s'"
    using PIntrin.prems(1) by (auto split: expr.splits if_splits bind_splits elim!: pmatch_args.elims)
  then show ?case
    using PIntrin.IH [OF _ m] p PIntrin.prems type_eqD(3) [of t "type_of a"] wf_type_ok [of a] by (auto simp: e)
qed (simp_all split: expr.splits if_splits)

subsection \<open>Predicates\<close>

text \<open>
  The prover that a rule consults is sound: what it reduces to one is true, in every lane in which it
  has a value.
\<close>

definition prover_sound :: "env \<Rightarrow> (expr \<Rightarrow> expr) \<Rightarrow> bool" where
  "prover_sound \<rho> pr \<longleftrightarrow> (\<forall>c i v. wf_expr c \<and> is_one (pr c) \<and> i < lanes_of c \<and> eval \<rho> c i = Some v \<longrightarrow> v \<noteq> 0)"

fun prove_pat :: "pat \<Rightarrow> bool" where
  "prove_pat (PWild n) \<longleftrightarrow> True"
| "prove_pat (PWildConst n) \<longleftrightarrow> True"
| "prove_pat (PConst z) \<longleftrightarrow> True"
| "prove_pat (PBin op p q) \<longleftrightarrow> prove_pat p \<and> prove_pat q"
| "prove_pat p \<longleftrightarrow> False"

lemma prove_pat_plain: "prove_pat p \<Longrightarrow> folds_wt x k p \<and> \<not> has_fold p \<and> \<not> fold_div p \<and> \<not> has_cast p"
  by (induction p arbitrary: k) (auto simp: Let_def)

lemma pred_true_made:
  assumes "prover_sound \<rho> pr" and "stands_for \<rho> i c kbool v False" and "is_one (pr c)"
    and "lane_in_range i (lanes_of c)"
  shows "v \<noteq> 0"
proof -
  have c: "wf_expr c" "eval \<rho> c i = Some v" using assms(2) by (auto simp: stands_for_def)
  show ?thesis
  proof (cases "i < lanes_of c")
    case False
    then have "lanes_of c = 1" using assms(4) by (simp add: lane_in_range_def)
    moreover from this have "eval \<rho> c 0 = Some v" using c eval_scalar_lane [OF c(1), of \<rho> 0 i] by (simp add: is_scalar_def)
    ultimately show ?thesis using assms(1,3) c(1) unfolding prover_sound_def by (metis less_one)
  qed (use assms(1,3) c in \<open>auto simp: prover_sound_def\<close>)
qed

abbreviation lanes_good :: "nat \<Rightarrow> htype \<Rightarrow> bool" where
  "lanes_good i t \<equiv> ty_ok t \<and> lane_in_range i (ty_lanes t)"

lemma make_mixed_lanes:
  assumes "make_mixed op ea eb = Inr e" and "lanes_good i (type_of ea)" and "lanes_good i (type_of eb)"
  shows "lanes_good i (type_of e)"
proof -
  obtain ea' eb' where b': "eb' = eb \<or> make_Broadcast eb (lanes_of ea) = Inr eb'"
    and a': "ea' = ea \<or> make_Broadcast ea (lanes_of eb') = Inr ea'" and e: "make_bin op ea' eb' = Inr e"
    using assms(1) by (auto simp: make_mixed_def rbind_Inr_iff split: if_splits)
  have "lanes_good i (type_of eb')" using b' assms(2,3) by (auto simp: make_Broadcast_def ty_ok_def)
  then have "lanes_good i (type_of ea')" using a' assms(2) by (auto simp: make_Broadcast_def ty_ok_def)
  then show ?thesis
    using e by (auto simp: make_bin_def bin_type_def ty_ok_def simp del: is_compare.simps is_logical.simps)
qed

lemma make_const_lanes:
  assumes "make_const fl t z = Inr e" and "lanes_good i t"
  shows "lanes_good i (type_of e)"
  using assms
  by (auto simp: make_const_def make_const_scalar_def make_IntImm_eq make_UIntImm_eq make_FloatImm_def
      make_Broadcast_def rbind_Inr_iff type_pred_defs lane_in_range_def ty_ok_def element_of_def split: if_splits)

lemma make_const_expr_lanes:
  assumes "make_const_expr fl ctr v t = Inr e" and "\<not> special t" and "lanes_good i t"
  shows "lanes_good i (type_of e)"
  using assms
  by (auto simp: make_const_expr_def Let_def make_IntImm_eq make_UIntImm_eq make_FloatImm_def ty_ok_def
      make_Broadcast_def rbind_Inr_iff lane_in_range_def split: if_splits type_code.splits)

lemma pmake_lanes:
  assumes st: "st_ok \<rho> i st" "st_plain nm i st"
  shows "pmake rw st p hint = Inr e \<Longrightarrow> prove_pat p \<Longrightarrow> make_pat h p \<Longrightarrow> h \<longrightarrow> lanes_good i hint \<Longrightarrow>
    lanes_good i (type_of e)"
proof (induction p arbitrary: h hint e)
  case (PWild n)
  then have "ms_wild st n = Some e" by (auto split: option.splits)
  then show ?case using st unfolding st_ok_def st_plain_def wild_ok_def by (auto intro: wf_type_ok)
next
  case (PWildConst n)
  then obtain v t where n: "ms_const st n = Some (v, t)" and m: "make_const_expr (rw_fl rw) (rw_ctr rw) v t = Inr e"
    by (auto split: option.splits)
  then have "const_ok (v, t)" "const_plain nm i (v, t)" using st unfolding st_ok_def st_plain_def by blast+
  then show ?case using make_const_expr_lanes [OF m] by (auto simp: const_ok_def const_plain_def)
next
  case (PConst z)
  then show ?case using make_const_lanes [of "rw_fl rw" hint z e i] by auto
next
  case (PBin op p q)
  show ?case
  proof (cases "is_PConst p")
    case True
    then obtain ea eb h' where m: "pmake rw st q h' = Inr eb" "pmake rw st p (type_of eb) = Inr ea"
      "make_mixed op ea eb = Inr e" and h': "h \<and> \<not> is_compare op \<longrightarrow> h' = hint"
      using PBin.prems(1) by (auto simp: rbind_Inr_iff Let_def)
    have b: "lanes_good i (type_of eb)"
      using PBin.IH(2) [OF m(1), of "h \<and> \<not> is_compare op"] PBin.prems h' True by (auto simp: Let_def)
    then have "lanes_good i (type_of ea)"
      using PBin.IH(1) [OF m(2), of True] PBin.prems True by (auto simp: Let_def)
    then show ?thesis using make_mixed_lanes m(3) b by blast
  next
    case False
    then obtain ea eb h' where m: "pmake rw st p h' = Inr ea" "pmake rw st q (type_of ea) = Inr eb"
      "make_mixed op ea eb = Inr e" and h': "h \<and> \<not> is_compare op \<longrightarrow> h' = hint"
      using PBin.prems(1) by (auto simp: rbind_Inr_iff Let_def)
    have a: "lanes_good i (type_of ea)"
      using PBin.IH(1) [OF m(1), of "h \<and> \<not> is_compare op"] PBin.prems h' False by (auto simp: Let_def)
    then have "lanes_good i (type_of eb)"
      using PBin.IH(2) [OF m(2), of True] PBin.prems False by (auto simp: Let_def)
    then show ?thesis using make_mixed_lanes m(3) a by blast
  qed
qed auto

text \<open>The predicates of the rules: conjunctions and disjunctions of conditions on constants and of proofs.\<close>

fun pred_ok :: "rctx \<Rightarrow> pat \<Rightarrow> bool" where
  "pred_ok x (PBin op p q) \<longleftrightarrow>
     (if is_logical op then pred_ok x p \<and> pred_ok x q
      else is_compare op \<and> fold_pat False (PBin op p q) \<and> fwt x kbool (PBin op p q))"
| "pred_ok x (PNot p) \<longleftrightarrow>
     (case p of POverflows q \<Rightarrow> fold_pat False q \<and> fwt x (okind x q q) q
      | PIsConst q \<Rightarrow> True | PIsFloat q \<Rightarrow> True | _ \<Rightarrow> False)"
| "pred_ok x (PCanProve p) \<longleftrightarrow> prove_pat p \<and> make_pat False p \<and> pwt x kbool p"
| "pred_ok x (PIsConst p) \<longleftrightarrow> True"
| "pred_ok x (PIsFloat p) \<longleftrightarrow> True"
| "pred_ok x p \<longleftrightarrow> False"

fun pred_div :: "pat \<Rightarrow> bool" where
  "pred_div (PBin op p q) \<longleftrightarrow> (if is_logical op then pred_div p \<or> pred_div q else const_div (PBin op p q))"
| "pred_div (PNot p) \<longleftrightarrow> (case p of POverflows q \<Rightarrow> const_div q | _ \<Rightarrow> False)"
| "pred_div p \<longleftrightarrow> False"


lemma fold_compare_code:
  assumes "is_compare op" and "pfold rw st (PBin op p q) ty = Inr (v, t)"
  shows "ty_code t = TUInt"
proof -
  have "\<not> short_circuit op (rw_fl rw) w" for w using assms(1) by (auto simp: short_circuit_def)
  moreover have "constant_fold_op op = fold_cmp op" using assms(1) by (auto simp: constant_fold_op_def)
  ultimately show ?thesis
    using assms(2) by (auto simp: rbind_Inr_iff fold_cmp_def Let_def split: if_splits)
qed

lemma rd_u64_flag [simp]: "rd_u64 fl (VI (of_bool b)) = of_bool b"
  by (simp add: rd_u64_def u_wrap_id)

lemma okind_ikind: "ctx_ok l x \<Longrightarrow> is_ikind (okind x p q)"
  using pkind_ikind [of l x] by (auto simp: okind_def split: option.split)

lemma rd_u64_0 [simp]: "rd_u64 fl (VI 0) = 0"
  by (simp add: rd_u64_def u_wrap_id)

lemma odd_and: "(a AND b AND 1 :: int) \<noteq> 0 \<Longrightarrow> a \<noteq> 0 \<and> b \<noteq> 0"
  by auto

lemma odd_or: "((a OR b) AND 1 :: int) \<noteq> 0 \<Longrightarrow> a \<noteq> 0 \<or> b \<noteq> 0"
  by auto

definition holds :: "float_ops \<Rightarrow> scalar_value \<times> htype \<Rightarrow> bool" where
  "holds fl r \<longleftrightarrow> rd_u64 fl (fst r) \<noteq> 0 \<and> \<not> special (snd r)"

lemma rd_u64_nonzero: "rd_u64 fl (VI z) \<noteq> 0 \<Longrightarrow> z \<noteq> 0"
  by (auto simp: rd_u64_def u_wrap_id)

lemma logical_holds:
  assumes r: "constant_fold_op op fl (add_lanes tb (ty_lanes ta)) va vb = r" and op: "op = AndOp \<or> op = OrOp"
    and t: "ty_code tb = TUInt" and h: "holds fl r"
  shows "if op = AndOp then holds fl (va, ta) \<and> holds fl (vb, tb) else holds fl (va, ta) \<or> holds fl (vb, tb)"
proof -
  have s: "\<not> special ta" "\<not> special tb"
    using h r fold_op_sticky [of "add_lanes tb (ty_lanes ta)" op fl va vb] by (auto simp: holds_def special_or)
  have c: "ty_code (add_lanes tb (ty_lanes ta)) = TUInt" using t by (simp add: add_lanes_def)
  from op show ?thesis
  proof
    assume "op = AndOp"
    then show ?thesis
      using r h c s by (auto simp: constant_fold_op_def fold_And_def by_code_def holds_def dest!: rd_u64_nonzero odd_and)
  next
    assume "op = OrOp"
    then show ?thesis
      using r h c s by (auto simp: constant_fold_op_def fold_Or_def by_code_def holds_def dest!: rd_u64_nonzero odd_or)
  qed
qed

lemma logical_code:
  assumes "constant_fold_op op fl (add_lanes tb l) va vb = (v, t)" and "op = AndOp \<or> op = OrOp" and "ty_code tb = TUInt"
  shows "ty_code t = TUInt"
  using assms by (auto simp: constant_fold_op_def fold_And_def fold_Or_def by_code_def add_lanes_def)

lemma can_prove_sound:
  assumes st: "st_ok \<rho> i st" "st_plain nm i st" and x: "x = ctx_of \<rho> i st" "i < l" and out: "ty_ok (rw_out rw)"
    and pr: "prover_sound \<rho> (rw_prover rw)" and m: "pmake rw st p no_type = Inr c" "is_one (rw_prover rw c)"
    and p: "pred_ok x (PCanProve p)" "pdef x kbool p"
  shows "pval x kbool p \<noteq> 0"
proof -
  have no: "ty_ok no_type" by (simp add: no_type_def ty_ok_def)
  have "stands_for \<rho> i c kbool (pval x kbool p) (has_fold p)"
    using pmake_sound [OF st(1) st_plain_unflagged [OF st(2)] x out _ m(1), of False kbool] p prove_pat_plain no by simp
  moreover have "lanes_good i (type_of c)" using pmake_lanes [OF st m(1), of False] p(1) by simp
  ultimately show ?thesis using pred_true_made [OF pr _ m(2)] prove_pat_plain [of p] p(1) by auto
qed

lemma pred_sound:
  assumes st: "st_ok \<rho> i st" "st_plain nm i st" and x: "x = ctx_of \<rho> i st" "i < l" and out: "ty_ok (rw_out rw)"
    and pr: "prover_sound \<rho> (rw_prover rw)"
  shows "pfold rw st p ty = Inr (v, t) \<Longrightarrow> pred_ok x p \<Longrightarrow> pred_div p \<longrightarrow> nm \<Longrightarrow>
    ty_code t = TUInt \<and> (holds (rw_fl rw) (v, t) \<longrightarrow> phold x p)"
proof (induction p arbitrary: ty v t)
  case (PBin op p q)
  have c: "ctx_ok l x" using ctx_of_ok [OF st(1) x(2)] x(1) by simp
  show ?case
  proof (cases "is_logical op")
    case True
    then have op: "op = AndOp \<or> op = OrOp" by (cases op) auto
    have pq: "pred_ok x p" "pred_ok x q" "pred_div p \<longrightarrow> nm" "pred_div q \<longrightarrow> nm" "\<not> is_PConst p"
      using PBin.prems True by (cases p; auto)+
    obtain va ta where a: "pfold rw st p ty = Inr (va, ta)"
      using PBin.prems(1) pq(5) by (auto simp: rbind_Inr_iff split: if_splits)
    note ia = PBin.IH(1) [OF a pq(1,3)]
    show ?thesis
    proof (cases "short_circuit op (rw_fl rw) va")
      case True
      then have "v = va" "t = ta" using PBin.prems(1) pq(5) a by auto
      then show ?thesis using ia True op by (auto simp: short_circuit_def holds_def)
    next
      case False
      then obtain vb tb where b: "pfold rw st q ta = Inr (vb, tb)"
        and r: "constant_fold_op op (rw_fl rw) (add_lanes tb (ty_lanes ta)) va vb = (v, t)"
        using PBin.prems(1) pq(5) a by (auto simp: rbind_Inr_iff)
      note ib = PBin.IH(2) [OF b pq(2,4)]
      show ?thesis
        using logical_code [OF r op] logical_holds [OF r op] ia ib op by (auto split: if_splits)
    qed
  next
    case False
    then have f: "is_compare op" "fold_pat False (PBin op p q)" "fwt x kbool (PBin op p q)"
      "const_div (PBin op p q) \<longrightarrow> nm" "op \<noteq> AndOp" "op \<noteq> OrOp"
      using PBin.prems by (auto simp del: fold_pat.simps fwt.simps const_div.simps is_compare.simps)
    have "phold x (PBin op p q)" if "holds (rw_fl rw) (v, t)"
    proof -
      have "folded x kbool (PBin op p q) (v, t)"
        using pfold_sound [OF st(1) x(1) PBin.prems(1) f(2,3)] that f(4) st_plain_no_minus_one [of i st \<rho>] st(2) x(1)
        by (auto simp: holds_def simp del: const_div.simps pfold.simps)
      then show ?thesis
        using that f(5,6) by (auto simp: folded_def holds_def simp del: pfits.simps pval.simps dest: rd_u64_nonzero)
    qed
    then show ?thesis using fold_compare_code [OF f(1) PBin.prems(1)] by blast
  qed
next
  case (PNot p)
  show ?case
  proof (cases "\<exists>q. p = POverflows q")
    case True
    then obtain q where q: "p = POverflows q" "fold_pat False q" "fwt x (okind x q q) q" "const_div q \<longrightarrow> nm"
      using PNot.prems by auto
    obtain w u where m: "pfold rw st q ty = Inr (w, u)"
      and r: "(v, t) = fold_not (rw_fl rw) (VI (of_bool (special u)), u\<lparr>ty_code := TUInt, ty_bits := 64, ty_lanes := 1\<rparr>)"
      using PNot.prems(1) by (auto simp: q(1) rbind_Inr_iff)
    have "pfits x (okind x q q) q" if "\<not> special u"
      using pfold_sound [OF st(1) x(1) m q(2,3)] that q(4) st_plain_no_minus_one [of i st \<rho>] st(2) x(1)
        okind_ikind [OF ctx_of_ok [OF st(1) x(2)], of q q]
      by (auto simp: folded_def)
    then show ?thesis using r by (auto simp: q(1) fold_not_def flag_if_def holds_def)
  next
    case False
    then obtain q where "p = PIsConst q \<or> p = PIsFloat q" using PNot.prems(2) by (cases p) auto
    then show ?thesis
      using PNot.prems(1) by (auto simp: rbind_Inr_iff fold_not_def flag_if_def)
  qed
next
  case (PCanProve p)
  then obtain c where m: "pmake rw st p no_type = Inr c" and v: "v = VI (of_bool (is_one (rw_prover rw c)))"
    and t: "ty_code t = TUInt"
    by (auto simp: rbind_Inr_iff Let_def)
  have "pval x kbool p \<noteq> 0" if "is_one (rw_prover rw c)" "pdef x kbool p"
    using can_prove_sound [OF st x out pr m that(1) PCanProve.prems(2) that(2)] .
  then show ?case using t v by (auto simp: holds_def)
qed (auto simp: rbind_Inr_iff)


subsection \<open>Rules\<close>

text \<open>The rewriter that a visit method sets up for the node it has in hand.\<close>

definition rewriter_for :: "rewriter \<Rightarrow> expr \<Rightarrow> bool" where
  "rewriter_for rw e \<longleftrightarrow> rw_out rw = type_of e \<and>
     (case e of Bin op a b \<Rightarrow> rw_a rw = a \<and> rw_b rw = b \<and> rw_wild rw = type_of a
      | Select c a b \<Rightarrow> rw_a rw = a \<and> rw_b rw = b \<and> rw_wild rw = type_of e
      | _ \<Rightarrow> rw_wild rw = type_of e)"

fun node_pat :: "pat \<Rightarrow> bool" where
  "node_pat (PBin op p q) \<longleftrightarrow> True"
| "node_pat (PNot p) \<longleftrightarrow> True"
| "node_pat (PSelect c p q) \<longleftrightarrow> True"
| "node_pat p \<longleftrightarrow> False"

fun operand_rule :: "pat \<Rightarrow> bool" where
  "operand_rule (PBin op p q) \<longleftrightarrow> \<not> is_compare op"
| "operand_rule (PSelect c p q) \<longleftrightarrow> True"
| "operand_rule p \<longleftrightarrow> False"

fun after_made :: "pat \<Rightarrow> after \<Rightarrow> bool" where
  "after_made b (APat p) \<longleftrightarrow> make_pat True p \<or>
     operand_rule b \<and> (p = PBin MinOp POpB POpA \<or> p = PBin MaxOp POpB POpA)"
| "after_made b AExprA \<longleftrightarrow> operand_rule b"
| "after_made b AExprB \<longleftrightarrow> operand_rule b"
| "after_made b (AInt z) \<longleftrightarrow> in_s 32 z"

definition after_is :: "(pat \<Rightarrow> bool) \<Rightarrow> after \<Rightarrow> bool" where
  "after_is Q a \<longleftrightarrow> (case a of APat p \<Rightarrow> Q p | _ \<Rightarrow> False)"

definition rule_folds :: "rule \<Rightarrow> bool" where
  "rule_folds r \<longleftrightarrow> after_is has_fold (rule_after r)"

definition rule_divides :: "rule \<Rightarrow> bool" where
  "rule_divides r \<longleftrightarrow> after_is fold_div (rule_after r) \<or> (\<exists>p \<in> set_option (rule_pred r). pred_div p)"

text \<open>
  A rule is well typed when the engine can match its left-hand side and make its right-hand side, and
  the numbers in its predicate and its folds are of the types of the constants beside them.
\<close>

definition rule_typed :: "nat \<Rightarrow> rule \<Rightarrow> bool" where
  "rule_typed l r \<longleftrightarrow> node_pat (rule_before r) \<and> match_pat (rule_before r) \<and> after_made (rule_before r) (rule_after r) \<and>
     (after_is has_cast (rule_after r) \<longrightarrow> rule_guard r = GBool) \<and>
     (\<forall>x k. ctx_ok l x \<and> is_ikind k \<and> guard_ok (rule_guard r) l k (node_kind x k (rule_before r)) \<and>
        pwt x k (rule_before r) \<longrightarrow>
        (\<forall>p \<in> set_option (rule_pred r). pred_ok x p) \<and>
        (case rule_after r of APat p \<Rightarrow> folds_wt x k p | _ \<Rightarrow> True))"

lemma make_pat_subst: "make_pat h p \<Longrightarrow> subst_ops b p = p"
  by (induction p arbitrary: h) (auto simp: Let_def split: if_splits)

lemma guard_holds_ok:
  assumes "guard_holds rw g" and "kind_of (rw_out rw) = k" and "kind_of (rw_wild rw) = ko"
    and "is_ikind k" and "is_ikind ko" and "ty_lanes (rw_out rw) = l" and "ty_ok (rw_out rw)" and "ty_ok (rw_wild rw)"
  shows "guard_ok g l k ko"
  using assms is_bool_kind [of "rw_out rw"] is_bool_kind [of "rw_wild rw"]
  by (cases g)
    (auto simp: guard_holds_def no_overflow_def no_overflow_int_def no_overflow_scalar_int_def kno_ovf_def
      kind_of_def type_pred_defs is_ikind_def)

definition operand_sound :: "env \<Rightarrow> nat \<Rightarrow> rctx \<Rightarrow> pat \<Rightarrow> expr \<Rightarrow> bool" where
  "operand_sound \<rho> i x p a \<longleftrightarrow> stands_for \<rho> i a (ekind a) (pval x (ekind a) p) False \<and>
     (pkind x p = None \<or> pkind x p = Some (ekind a))"

lemma operand_soundI:
  assumes "match_sound \<rho> i p a u s s'" and "st_le s' s''" and "st_ok \<rho> i s''" and "eval \<rho> a i = Some u"
    and "wf_expr a" and "tame a" and "ints a"
  shows "operand_sound \<rho> i (ctx_of \<rho> i s'') p a"
  using assms by (auto simp: match_sound_def means_def operand_sound_def stands_for_def)

lemma bin_operands:
  assumes T: "ty_ok (rw_wild rw)" and m: "pmatch rw (PBin op p q) e empty_state = Some st"
    and e: "match_pat (PBin op p q)" "wf_expr e" "tame e" "ints e" "eval \<rho> e i = Some v"
  obtains a b where "e = Bin op a b" "operand_sound \<rho> i (ctx_of \<rho> i st) p a" "operand_sound \<rho> i (ctx_of \<rho> i st) q b"
proof -
  obtain a b s1 where ab: "e = Bin op a b" and m: "pmatch rw p a empty_state = Some s1" "pmatch rw q b s1 = Some st"
    using m by (auto split: expr.splits if_splits bind_splits)
  obtain u w where uw: "eval \<rho> a i = Some u" "eval \<rho> b i = Some w"
    using e(5) by (auto simp: ab split: option.splits)
  have s: "wf_expr a" "wf_expr b" "tame a" "tame b" "ints a" "ints b" "match_pat p" "match_pat q"
    using e by (auto simp: ab)
  have a: "match_sound \<rho> i p a u empty_state s1" using pmatch_sound [OF T m(1)] s uw by simp
  then have b: "match_sound \<rho> i q b w s1 st" using pmatch_sound [OF T m(2)] s uw by (simp add: match_sound_def)
  then have "st_le s1 st" "st_ok \<rho> i st" by (auto simp: match_sound_def)
  then show thesis
    using that [OF ab] operand_soundI [OF a _ _ uw(1)] operand_soundI [OF b st_le_refl _ uw(2)] s by blast
qed

lemma select_operands:
  assumes T: "ty_ok (rw_wild rw)" and m: "pmatch rw (PSelect r p q) e empty_state = Some st"
    and e: "match_pat (PSelect r p q)" "wf_expr e" "tame e" "ints e" "eval \<rho> e i = Some v"
  obtains c a b where "e = Select c a b" "operand_sound \<rho> i (ctx_of \<rho> i st) p a" "operand_sound \<rho> i (ctx_of \<rho> i st) q b"
proof -
  obtain c a b s1 s2 where ab: "e = Select c a b"
    and m: "pmatch rw r c empty_state = Some s1" "pmatch rw p a s1 = Some s2" "pmatch rw q b s2 = Some st"
    using m by (auto split: expr.splits bind_splits)
  obtain z u w where uw: "eval \<rho> c i = Some z" "eval \<rho> a i = Some u" "eval \<rho> b i = Some w"
    using e(5) by (auto simp: ab split: option.splits)
  have s: "wf_expr a" "wf_expr b" "wf_expr c" "tame a" "tame b" "tame c" "ints a" "ints b" "ints c"
    "match_pat p" "match_pat q" "match_pat r" using e by (auto simp: ab)
  have "match_sound \<rho> i r c z empty_state s1" using pmatch_sound [OF T m(1)] s uw by simp
  then have a: "match_sound \<rho> i p a u s1 s2" using pmatch_sound [OF T m(2)] s uw by (simp add: match_sound_def)
  then have b: "match_sound \<rho> i q b w s2 st" using pmatch_sound [OF T m(3)] s uw by (simp add: match_sound_def)
  then have "st_le s2 st" "st_ok \<rho> i st" by (auto simp: match_sound_def)
  then show thesis
    using that [OF ab] operand_soundI [OF a _ _ uw(2)] operand_soundI [OF b st_le_refl _ uw(3)] s by blast
qed


lemma bin_ekind:
  assumes "wf_expr (Bin op a b)"
  shows "ekind b = ekind a" "\<not> is_compare op \<Longrightarrow> ekind (Bin op a b) = ekind a"
    "is_logical op \<Longrightarrow> ekind a = kbool" "is_compare op \<Longrightarrow> ekind (Bin op a b) = kbool"
proof -
  have w: "ty_ok (type_of a)" "ty_ok (type_of b)" "type_eq (type_of a) (type_of b)"
    "is_logical op \<longrightarrow> is_bool (type_of a)"
    using assms wf_type_ok by (auto simp del: is_logical.simps)
  then show "ekind b = ekind a" using type_eq_kind [OF w(3,1,2)] by simp
  show l: "is_logical op \<Longrightarrow> ekind a = kbool" using w(1,4) is_bool_kind by blast
  then show "\<not> is_compare op \<Longrightarrow> ekind (Bin op a b) = ekind a" "is_compare op \<Longrightarrow> ekind (Bin op a b) = kbool"
    by (auto simp: kind_bin_type simp del: is_compare.simps is_logical.simps)
qed

lemma node_kind_eq:
  assumes T: "rewriter_for rw e" and m: "pmatch rw b e empty_state = Some st"
    and e: "match_pat b" "wf_expr e" "tame e" "ints e" "eval \<rho> e i = Some v" and n: "node_pat b"
  shows "node_kind (ctx_of \<rho> i st) (ekind e) b = kind_of (rw_wild rw)"
proof (cases "\<exists>op p q. b = PBin op p q")
  case True
  then obtain op p q where b: "b = PBin op p q" by blast
  have "ty_ok (rw_wild rw)"
    using T e(2) wf_type_ok by (auto simp: rewriter_for_def split: expr.splits)
  from bin_operands [OF this m [unfolded b] e [unfolded b]] obtain a c where ac: "e = Bin op a c"
    and s: "operand_sound \<rho> i (ctx_of \<rho> i st) p a" "operand_sound \<rho> i (ctx_of \<rho> i st) q c" by metis
  note k = bin_ekind [OF e(2) [unfolded ac]]
  have "okind (ctx_of \<rho> i st) p q = ekind a" if "is_compare op"
    using s e(1) that typed_pkind [of p "ctx_of \<rho> i st"] typed_pkind [of q "ctx_of \<rho> i st"] k(1)
    by (auto simp: b okind_def operand_sound_def simp del: is_compare.simps split: option.split)
  then show ?thesis
    using k T by (auto simp: b ac sub_kind_def rewriter_for_def simp del: is_compare.simps is_logical.simps)
next
  case False
  then have k: "node_kind x k b = k" for x k by (cases b) auto
  have "(\<exists>a. e = NotE a) \<or> (\<exists>c a d. e = Select c a d)" using False n m by (cases b) (auto split: expr.splits)
  then show ?thesis using T k by (auto simp: rewriter_for_def)
qed


lemma operand_made:
  assumes T: "rewriter_for rw e" and m: "pmatch rw b e empty_state = Some st"
    and e: "match_pat b" "wf_expr e" "tame e" "ints e" "eval \<rho> e i = Some v" and o: "operand_rule b"
  shows "stands_for \<rho> i (rw_a rw) (ekind e) (pval (ctx_of \<rho> i st) (ekind e) (opA b)) False"
    and "stands_for \<rho> i (rw_b rw) (ekind e) (pval (ctx_of \<rho> i st) (ekind e) (opB b)) False"
proof -
  let ?x = "ctx_of \<rho> i st"
  have t: "ty_ok (rw_wild rw)"
    using T e(2) wf_type_ok by (auto simp: rewriter_for_def split: expr.splits)
  have "\<exists>a c. rw_a rw = a \<and> rw_b rw = c \<and> ekind a = ekind e \<and> ekind c = ekind e \<and>
      operand_sound \<rho> i ?x (opA b) a \<and> operand_sound \<rho> i ?x (opB b) c"
  proof (cases b)
    case (PBin op p q)
    from bin_operands [OF t m [unfolded PBin] e [unfolded PBin]] obtain a c where ac: "e = Bin op a c"
      and s: "operand_sound \<rho> i ?x p a" "operand_sound \<rho> i ?x q c" by metis
    show ?thesis using T s bin_ekind(1,2) [OF e(2) [unfolded ac]] o by (auto simp: ac PBin rewriter_for_def)
  next
    case (PSelect r p q)
    from select_operands [OF t m [unfolded PSelect] e [unfolded PSelect]] obtain d a c where ac: "e = Select d a c"
      and s: "operand_sound \<rho> i ?x p a" "operand_sound \<rho> i ?x q c" by metis
    have "ekind c = ekind a" using e(2) wf_type_ok type_eq_kind [of "type_of c" "type_of a"] by (auto simp: ac)
    then show ?thesis using T s by (auto simp: ac PSelect rewriter_for_def)
  qed (use o in auto)
  then show "stands_for \<rho> i (rw_a rw) (ekind e) (pval ?x (ekind e) (opA b)) False"
    "stands_for \<rho> i (rw_b rw) (ekind e) (pval ?x (ekind e) (opB b)) False"
    by (auto simp: operand_sound_def)
qed

lemma replacement_sound:
  assumes r: "build_replacement rw st a = Inr e'"
    and st: "st_ok \<rho> i st" "st_plain nm i st" and x: "x = ctx_of \<rho> i st" "i < l" and k: "is_ikind k"
    and out: "ty_ok (rw_out rw)" "kind_of (rw_out rw) = k" "after_is has_cast a \<longrightarrow> k = kbool"
    and a: "after_made b a" "pwt x k (after_pat b a)" "pdef x k (after_pat b a)"
      "case a of APat p \<Rightarrow> folds_wt x k p | _ \<Rightarrow> True" "after_is fold_div a \<longrightarrow> nm"
    and ops: "operand_rule b \<Longrightarrow> stands_for \<rho> i (rw_a rw) k (pval x k (opA b)) False"
      "operand_rule b \<Longrightarrow> stands_for \<rho> i (rw_b rw) k (pval x k (opB b)) False"
  shows "stands_for \<rho> i e' k (pval x k (after_pat b a)) (after_is has_fold a)"
proof (cases a)
  case (APat p)
  have nm: "after_is fold_div a \<longrightarrow> no_minus_one x"
    using a(5) st(2) st_plain_no_minus_one [of i st \<rho>] by (auto simp: x(1))
  show ?thesis
  proof (cases "make_pat True p")
    case True
    have m: "pmake rw st p (rw_out rw) = Inr e'" using r by (simp add: build_replacement_def APat)
    show ?thesis
      using pmake_sound [OF st(1) st_plain_unflagged [OF st(2)] x out(1) _ m True] a nm out k make_pat_subst [OF True]
      by (simp add: APat after_is_def)
  next
    case False
    then obtain op where o: "operand_rule b" "p = PBin op POpB POpA" "op = MinOp \<or> op = MaxOp"
      using a(1) by (auto simp: APat)
    have "make_mixed op (rw_b rw) (rw_a rw) = Inr e'"
      using r o by (auto simp: build_replacement_def APat)
    from mixed_stands_for [OF ops(2,1) [OF o(1)] this] o show ?thesis
      by (auto simp: APat after_is_def sub_kind_def)
  qed
next
  case (AInt z)
  then show ?thesis
    using r a(1) out k make_const_stands_for [of "rw_fl rw" "rw_out rw" z e' k]
    by (auto simp: build_replacement_def after_is_def)
qed (use r a(1) ops in \<open>auto simp: build_replacement_def after_is_def\<close>)

theorem apply_rule_sound:
  assumes app: "apply_rule rw r e = Some (Inr e')" and ok: "rule_ok l r" and ty: "rule_typed l r"
    and e: "wf_expr e" "tame e" "ints e" "plain_consts (rule_divides r) e" "eval \<rho> e i = Some v"
    and l: "l = lanes_of e" "i < l" and T: "rewriter_for rw e" and pr: "prover_sound \<rho> (rw_prover rw)"
  shows "stands_for \<rho> i e' (ekind e) v (rule_folds r)"
proof -
  let ?b = "rule_before r" and ?a = "rule_after r" and ?k = "ekind e"
  obtain st where g: "guard_holds rw (rule_guard r)" and m: "pmatch rw ?b e empty_state = Some st"
    and p: "\<And>p. rule_pred r = Some p \<Longrightarrow> evaluate_predicate rw st p = Inr True"
    and b: "build_replacement rw st ?a = Inr e'"
    using app by (auto simp: apply_rule_def split: option.splits sum.splits if_splits)
  define x where "x = ctx_of \<rho> i st"
  have t: "match_pat ?b" "after_made ?b ?a" "after_is has_cast ?a \<longrightarrow> rule_guard r = GBool" "node_pat ?b"
    using ty by (auto simp: rule_typed_def)
  have out: "rw_out rw = type_of e" "ty_ok (type_of e)" "ty_ok (rw_wild rw)" "is_ikind (kind_of (rw_wild rw))"
    using T e(1,3) wf_type_ok ints_kind by (auto simp: rewriter_for_def split: expr.splits)
  have s: "match_sound \<rho> i ?b e v empty_state st"
    by (rule pmatch_sound [OF out(3) m t(1) e(1,2,3,5)]) simp
  then have st: "st_ok \<rho> i st" and mean: "means x ?b ?k v" by (auto simp: match_sound_def x_def)
  have pl: "st_plain (rule_divides r) i st"
    by (rule pmatch_plain [OF m t(1) e(1-4)]) (use l in \<open>auto simp: lane_in_range_def st_plain_def empty_state_def\<close>)
  have c: "ctx_ok l x" "is_ikind ?k" using ctx_of_ok [OF st l(2)] ints_kind e(1,3) by (auto simp: x_def)
  have gk: "guard_ok (rule_guard r) l ?k (node_kind x ?k ?b)"
    unfolding x_def node_kind_eq [OF T m t(1) e(1,2,3,5) t(4)]
    by (rule guard_holds_ok [OF g]) (use out c l in simp_all)
  have w: "pwt x ?k ?b" "pdef x ?k ?b" "pval x ?k ?b = v" using mean by (auto simp: means_def)
  have ta: "\<forall>p \<in> set_option (rule_pred r). pred_ok x p" "case ?a of APat p \<Rightarrow> folds_wt x ?k p | _ \<Rightarrow> True"
    using ty c gk w(1) unfolding rule_typed_def by blast+
  have "phold x p" if "rule_pred r = Some p" for p
    using p [OF that] pred_sound [OF st pl x_def l(2) _ pr, of p "Bool_type 1"] ta(1) that out(1,2)
    by (auto simp: evaluate_predicate_def rbind_Inr_iff holds_def rule_divides_def)
  then have "case rule_pred r of None \<Rightarrow> True | Some p \<Rightarrow> phold x p" by (simp split: option.split)
  then have "pwt x ?k (after_pat ?b ?a)" "pdef x ?k (after_pat ?b ?a)" and v: "pval x ?k (after_pat ?b ?a) = v"
    using ok c gk w unfolding rule_ok_def rule_ok_on_def by blast+
  moreover have "after_is has_cast ?a \<longrightarrow> ?k = kbool"
    using t(3) g out is_bool_kind by (auto simp: guard_holds_def)
  ultimately show ?thesis unfolding rule_folds_def v [symmetric]
    using out ta t operand_made [OF T m t(1) e(1,2,3,5)]
    by (intro replacement_sound [OF b st pl x_def l(2) c(2)]) (auto simp: rule_divides_def x_def)
qed

end
