(* ===== verification/RewriteRules.thy ===== *)
theory RewriteRules
  imports RewriteSound
begin

text \<open>
  The rule tables run by the engine: every table is well typed, so that a rewriter that goes through
  correct rules in any order keeps the value of an expression.
\<close>

subsection \<open>The tables are well typed\<close>

lemma kfits_small: "is_ikind k \<Longrightarrow> kfits k 0" "is_ikind k \<Longrightarrow> kfits k 1"
  using zero_le_power [of "2::int" "snd k - 1"]
  by (auto simp: kfits_iff kmin_def kmax_def is_ikind_def simp del: zero_le_power)

lemma kfits_wide: "kno_ovf k \<Longrightarrow> is_ikind k \<Longrightarrow> in_s 32 z \<Longrightarrow> kfits k z"
  using in_s_mono [of 32 z "snd k"] by (auto simp: kfits_def kno_ovf_def is_ikind_def s_wrap_in_s_id)

lemma ctx_ikind: "ctx_ok l x \<Longrightarrow> is_ikind (cx_wk x n)" "ctx_ok l x \<Longrightarrow> is_ikind (cx_ck x n)"
  by (auto simp: ctx_ok_def)

lemmas rule_typing = rule_typed_def after_is_def pat_ops sub_kind_def okind_def Let_def ctx_ikind
  kfits_small kfits_wide in_s_def is_likely_call_def

text \<open>The tables of one source file or two, less the rules that are correct on part of their domain only.\<close>

definition add_mul_rules :: "nat \<Rightarrow> rule list" where
  "add_mul_rules l = add_result l @ add_select l @ add_linear l @ add_no_overflow l @
     add_no_overflow_int l @ mul_result l @ mul_mutate l"

definition sub_rules :: "nat \<Rightarrow> rule list" where
  "sub_rules l = sub_result l @ sub_select l @ sub_linear l @ sub_no_overflow l @ sub_min_min l @
     sub_max_max l @ sub_div l @ sub_div_div l"

definition div_mod_rules :: "nat \<Rightarrow> rule list" where
  "div_mod_rules l = div_result l @ div_broadcast l @ div_nested l @ div_multiple l @
     div_multiple_sum l @ div_variable l @ div_ramp l @ div_scalar l @ mod_result l @ mod_linear l @
     mod_ramp l"

definition min_rules :: "nat \<Rightarrow> rule list" where
  "min_rules l = min_const l @ min_absorb l @ min_stair l @ min_lattice l @ min_shift l @ min_common l @
     min_scale l"

definition max_rules :: "nat \<Rightarrow> rule list" where
  "max_rules l = max_const l @ max_absorb l @ max_stair l @ max_lattice l @ max_shift l @ max_common l @
     max_scale l"

definition lt_rules :: "nat \<Rightarrow> rule list" where
  "lt_rules l = lt_const l @ lt_self l @ lt_ramp l @ lt_difference l @ lt_cancel l @ lt_cancel_sum l @
     lt_scale l @ lt_minmax l @ lt_select l @ lt_linear l @ lt_stair l @ lt_div_div l @
     lt_minmax_div l @ lt_min_const l @ lt_max_const l @ lt_block l"

definition bool_rules :: "nat \<Rightarrow> rule list" where
  "bool_rules l = and_absorb l @ and_contradiction l @ and_interval l @ and_mutate l @ or_absorb l @
     or_tautology l @ or_interval l @ or_mutate l @ not_result l @ not_mutate l"

definition select_eq_rules :: "nat \<Rightarrow> rule list" where
  "select_eq_rules l = select_result l @ select_nested l @ select_common l @ select_no_overflow_int l @
     select_bool l @ eq_bool l @ eq_zero l @ eq_minmax l @ eq_result l"

lemma add_mul_typed: "l < 2 ^ 16 \<Longrightarrow> list_all (rule_typed l) (add_mul_rules l)"
  by (auto simp: rule_typing add_mul_rules_def add_result_def add_select_def add_linear_def
      add_no_overflow_def add_no_overflow_int_def mul_result_def mul_mutate_def)

lemma sub_typed: "l < 2 ^ 16 \<Longrightarrow> list_all (rule_typed l) (sub_rules l)"
  by (auto simp: rule_typing sub_rules_def sub_result_def sub_select_def sub_linear_def
      sub_no_overflow_def sub_min_min_def sub_max_max_def sub_div_def sub_div_div_def)

lemma div_mod_typed: "l < 2 ^ 16 \<Longrightarrow> list_all (rule_typed l) (div_mod_rules l)"
  by (auto simp: rule_typing div_mod_rules_def div_result_def div_broadcast_def div_nested_def
      div_multiple_def div_multiple_sum_def div_variable_def div_ramp_def div_scalar_def mod_result_def
      mod_linear_def mod_ramp_def)

lemma min_typed: "l < 2 ^ 16 \<Longrightarrow> list_all (rule_typed l) (min_rules l)"
  by (auto simp: rule_typing min_rules_def min_const_def min_absorb_def min_stair_def min_lattice_def
      min_shift_def min_common_def min_scale_def)

lemma max_typed: "l < 2 ^ 16 \<Longrightarrow> list_all (rule_typed l) (max_rules l)"
  by (auto simp: rule_typing max_rules_def max_const_def max_absorb_def max_stair_def max_lattice_def
      max_shift_def max_common_def max_scale_def)

lemma lt_typed: "l < 2 ^ 16 \<Longrightarrow> list_all (rule_typed l) (lt_rules l)"
  by (auto simp: rule_typing lt_rules_def lt_const_def lt_self_def lt_ramp_def lt_difference_def
      lt_cancel_def lt_cancel_sum_def lt_scale_def lt_minmax_def lt_select_def lt_linear_def
      lt_stair_def lt_div_div_def lt_minmax_div_def lt_min_const_def lt_max_const_def lt_block_def)

lemma bool_typed: "l < 2 ^ 16 \<Longrightarrow> list_all (rule_typed l) (bool_rules l)"
  by (auto simp: rule_typing bool_rules_def and_absorb_def and_contradiction_def and_interval_def
      and_mutate_def or_absorb_def or_tautology_def or_interval_def or_mutate_def not_result_def
      not_mutate_def)

lemma select_eq_typed: "l < 2 ^ 16 \<Longrightarrow> list_all (rule_typed l) (select_eq_rules l)"
  by (auto simp: rule_typing select_eq_rules_def select_result_def select_nested_def select_common_def
      select_no_overflow_int_def select_bool_def eq_bool_def eq_zero_def eq_minmax_def eq_result_def)

definition sound_rules :: "nat \<Rightarrow> rule list" where
  "sound_rules l = add_mul_rules l @ sub_rules l @ div_mod_rules l @ min_rules l @ max_rules l @
     lt_rules l @ bool_rules l @ select_eq_rules l"

lemma sound_rules_ok: "list_all (rule_ok l) (sound_rules l)"
  by (simp add: sound_rules_def add_mul_rules_def sub_rules_def div_mod_rules_def min_rules_def max_rules_def
      lt_rules_def bool_rules_def select_eq_rules_def
      add_mul_ok sub_ok div_mod_ok min_ok max_ok lt_ok bool_ok select_eq_ok)

lemma sound_rules_typed: "l < 2 ^ 16 \<Longrightarrow> list_all (rule_typed l) (sound_rules l)"
  by (simp add: sound_rules_def add_mul_typed sub_typed div_mod_typed min_typed max_typed lt_typed bool_typed select_eq_typed)

subsection \<open>Rewriting keeps the value\<close>

lemma plain_consts_mono: "plain_consts nm e \<Longrightarrow> nm' \<longrightarrow> nm \<Longrightarrow> plain_consts nm' e"
  by (induction nm e rule: plain_consts.induct) (auto simp: list_all_iff)

lemma rewrite_first_rule:
  "rewrite_first rw rs e = Some res \<Longrightarrow> \<exists>r \<in> set rs. apply_rule rw r e = Some res"
  by (induction rs) (auto split: option.splits)

lemma rewrite_first_stands_for:
  assumes "rewrite_first rw rs e = Some (Inr e')" and "set rs \<subseteq> set (sound_rules (lanes_of e))"
    and "wf_expr e" and "tame e" and "ints e" and "plain_consts (list_ex rule_divides rs) e"
    and "rewriter_for rw e" and "prover_sound \<rho> (rw_prover rw)"
    and "i < lanes_of e" and "eval \<rho> e i = Some v"
  shows "stands_for \<rho> i e' (ekind e) v (list_ex rule_folds rs)"
proof -
  obtain r where r: "r \<in> set rs" and app: "apply_rule rw r e = Some (Inr e')"
    using rewrite_first_rule assms(1) by blast
  have "lanes_of e < 2 ^ 16" using wf_type_ok [OF assms(3)] by (simp add: ty_ok_def)
  with r assms(2) have ok: "rule_ok (lanes_of e) r" "rule_typed (lanes_of e) r"
    using sound_rules_ok [of "lanes_of e"] sound_rules_typed [of "lanes_of e"] by (auto simp: list_all_iff)
  have "plain_consts (rule_divides r) e"
    using plain_consts_mono [OF assms(6)] r by (auto simp: list_ex_iff)
  then have "stands_for \<rho> i e' (ekind e) v (rule_folds r)"
    using apply_rule_sound [OF app ok assms(3-5) _ assms(10) refl assms(9,7,8)] by simp
  then show ?thesis using r by (auto simp: stands_for_def list_ex_iff)
qed


text \<open>A concrete rewriter: no floating-point numbers, and a prover that proves nothing.\<close>

definition float_stub :: float_ops where
  "float_stub = \<lparr>fl_bin = \<lambda>op a b. a, fl_neg = \<lambda>a. a, fl_of_int = \<lambda>z. NaN, fl_to_int = \<lambda>d. 0,
     fl_round = \<lambda>n d. d, fl_bits = \<lambda>d. 0, fl_of_bits = \<lambda>z. NaN\<rparr>"

definition int_var :: "string \<Rightarrow> expr" where
  "int_var n = Variable (Int_type 32 1) n no_refs"

definition int_const :: "int \<Rightarrow> expr" where
  "int_const z = IntImm (Int_type 32 1) z"

definition node_rewriter :: "expr \<Rightarrow> expr \<Rightarrow> htype \<Rightarrow> rewriter" where
  "node_rewriter a b t = \<lparr>rw_a = a, rw_b = b, rw_out = t, rw_wild = type_of a, rw_nonzero = False,
     rw_fl = float_stub, rw_prover = (\<lambda>e. UIntImm (Bool_type 1) 0), rw_ctr = 0\<rparr>"

definition env_of :: "(string \<times> int) list \<Rightarrow> env" where
  "env_of xs = \<lparr>env_var = \<lambda>n i. map_of xs n, env_mem = \<lambda>n k. None, env_call = \<lambda>n k vs i. None\<rparr>"

lemmas rewrite_eval = apply_rule_def guard_holds_def pat_ops bind_wild_def match_wild_const_def bind_const_def
  empty_state_def evaluate_predicate_def build_replacement_def Int_type_def mk_type_def type_eq_def as_u32_def
  no_refs_def rd_i64_def rd_u64_def s_wrap_def u_wrap_mod short_circuit_def constant_fold_op_def fold_cmp_def
  by_code_def int_cmp_def special_def special_values_mask_def add_lanes_def fold_Mod_def fold_Div_def fold_And_def
  fold_const_def fold_negate_def flag_if_def mod_imp_def div_imp_def cdiv_def Prelude.cmod_def make_mixed_def
  make_const_expr_def make_IntImm_def make_bin_def bin_type_def is_vector_def imm_bits_def type_pred_defs

definition twice_x :: expr where
  "twice_x = Bin Mul (int_var ''x'') (int_const 2)"

definition six_y :: expr where
  "six_y = Bin Mul (int_var ''y'') (int_const 6)"

lemmas terms = twice_x_def six_y_def int_var_def int_const_def

lemma scaled_sum_rewrites:
  "rewrite_first (node_rewriter twice_x six_y (type_of twice_x)) (add_linear 1) (Bin Add twice_x six_y) =
   Some (Inr (Bin Mul (Bin Add (int_var ''x'') (Bin Mul (int_var ''y'') (int_const 3))) (int_const 2)))"
  by (simp add: terms node_rewriter_def add_linear_def rewrite_eval)


end
