(* ===== verification/SimplifyVisitFacts.thy ===== *)
theory SimplifyVisitFacts
  imports SimplifyVisit ScopedFactFacts RewriteRules
begin

text \<open>
  The recursion of the simplifier leaves what it knows in place, and a visit of an arithmetic node keeps its
  value.
\<close>

subsection \<open>Visits keep what is known\<close>

definition keeps :: "simplify_state \<Rightarrow> visited \<Rightarrow> bool" where
  "keeps s r \<longleftrightarrow> (\<forall>e b s'. r = Inr (e, b, s') \<longrightarrow> same_knowledge s s')"

lemma same_knowledge_refl [simp]: "same_knowledge s s"
  by (simp add: same_knowledge_def)

lemma same_knowledge_trans: "same_knowledge s s' \<Longrightarrow> same_knowledge s' s'' \<Longrightarrow> same_knowledge s s''"
  by (simp add: same_knowledge_def)

lemma mutate_keepsD: "mutate_keeps mut \<Longrightarrow> mut e b s = Inr (e', b', s') \<Longrightarrow> same_knowledge s s'"
  unfolding mutate_keeps_def by blast

lemma keeps_Inr [simp]: "keeps s (Inr (e, b, s')) \<longleftrightarrow> same_knowledge s s'"
  by (simp add: keeps_def)

lemma keeps_rbind: "(\<And>x. r = Inr x \<Longrightarrow> keeps s (f x)) \<Longrightarrow> keeps s (rbind r f)"
  by (cases r) (simp_all add: keeps_def)

lemma keeps_mut: "mutate_keeps mut \<Longrightarrow> same_knowledge s s' \<Longrightarrow> keeps s (mut e b s')"
  unfolding keeps_def using mutate_keepsD same_knowledge_trans by blast

lemma keeps_assert: "keeps s r \<Longrightarrow> keeps s (assert_that b r)"
  by (simp add: assert_that_def keeps_def)

lemma keeps_finish: "same_knowledge s s' \<Longrightarrow> keeps s (finish r b s')"
  by (cases r) (simp_all add: finish_def keeps_def)

lemma keeps_run:
  assumes "same_knowledge s s'" and "keeps s otherwise"
  shows "keeps s (run_result rw rs e b s' otherwise)" and "mutate_keeps mut \<Longrightarrow> keeps s (run_mutate mut rw rs e b s' otherwise)"
  using assms keeps_mut
  by (auto simp: run_result_def run_mutate_def split: option.split intro!: keeps_rbind)

lemma keeps_operands:
  assumes "mutate_keeps mut" and "same_knowledge s s0"
    and "\<And>a ia b ib s'. same_knowledge s s' \<Longrightarrow> keeps s (f (a, ia, b, ib, s'))"
  shows "keeps s (rbind (visit_operands mut a b s0) f)"
  using assms(3) same_knowledge_trans [OF assms(2)] same_knowledge_trans mutate_keepsD [OF assms(1)]
  by (intro keeps_rbind) (auto simp: visit_operands_def rbind_Inr_iff, blast)

lemma keeps_plain:
  assumes "mutate_keeps mut" and "same_knowledge s s0"
    and "\<And>a b s'. same_knowledge s s' \<Longrightarrow> keeps s (f (a, b, s'))"
  shows "keeps s (rbind (visit_plain mut a b s0) f)"
  using assms(3) same_knowledge_trans [OF assms(2)] same_knowledge_trans mutate_keepsD [OF assms(1)]
  by (intro keeps_rbind) (auto simp: visit_plain_def rbind_Inr_iff, blast)

lemma keeps_visited:
  assumes "mutate_keeps mut" and "same_knowledge s s0"
    and "\<And>e b s'. same_knowledge s s' \<Longrightarrow> keeps s (f (e, b, s'))"
  shows "keeps s (rbind (mut e b s0) f)"
  using assms(3) same_knowledge_trans [OF assms(2)] mutate_keepsD [OF assms(1)] by (intro keeps_rbind) auto

lemmas keeps_rules = keeps_run keeps_finish keeps_mut

lemma keeps_sums:
  assumes "mutate_keeps mut"
  shows "keeps s (visit_Add fl ctr mut a b bounds s)" "keeps s (visit_Sub fl ctr mut a b bounds s)"
    "keeps s (visit_Mul fl ctr mut a b bounds s)"
  unfolding visit_Add_def visit_Sub_def visit_Mul_def Let_def
  by (rule keeps_operands [OF assms same_knowledge_refl], simp add: assms keeps_rules split: prod.split)+

lemma keeps_quotients:
  assumes "mutate_keeps mut"
  shows "keeps s (visit_Div fl ctr mut a b bounds s)" "keeps s (visit_Mod fl ctr mut a b bounds s)"
  unfolding visit_Div_def visit_Mod_def Let_def
  by (rule keeps_operands [OF assms same_knowledge_refl], simp add: assms keeps_rules split: option.split)+

lemma keeps_extrema:
  assumes "mutate_keeps mut"
  shows "keeps s (visit_Min fl ctr mut a b bounds s)" "keeps s (visit_Max fl ctr mut a b bounds s)"
  unfolding visit_Min_def visit_Max_def Let_def
  by (rule keeps_operands [OF assms same_knowledge_refl], simp, rule keeps_rbind,
      simp add: assms keeps_rules split: option.split prod.split)+

lemma keeps_LT: "mutate_keeps mut \<Longrightarrow> keeps s (visit_LT fl ctr mut a b bounds s)"
  unfolding visit_LT_def Let_def
  by (rule keeps_operands [OF _ same_knowledge_refl]) (simp_all add: keeps_rules split: option.split)

lemma keeps_untouched: "mutate_keeps mut \<Longrightarrow> keeps s (visit_untouched op mut a b bounds s)"
  unfolding visit_untouched_def by (rule keeps_plain [OF _ same_knowledge_refl]) (simp_all add: keeps_rules)

lemma keeps_comparisons:
  assumes "mutate_keeps mut"
  shows "keeps s (visit_LE mut a b bounds s)" "keeps s (visit_GT mut a b bounds s)"
    "keeps s (visit_GE mut a b bounds s)" "keeps s (visit_NE mut a b bounds s)"
  unfolding visit_LE_def visit_GT_def visit_GE_def visit_NE_def
  using assms by (auto intro!: keeps_rbind keeps_mut keeps_untouched)

lemma keeps_EQ_bool: "mutate_keeps mut \<Longrightarrow> keeps s (visit_EQ_bool fl ctr mut a b bounds s)"
  unfolding visit_EQ_bool_def Let_def
  by (rule keeps_plain [OF _ same_knowledge_refl]) (simp_all add: keeps_rules)

lemma keeps_EQ_delta:
  assumes "mutate_keeps mut"
  shows "keeps s (visit_EQ_delta fl ctr mut a b bounds s)"
  unfolding visit_EQ_delta_def Let_def
proof (rule keeps_rbind, rule keeps_visited [OF assms same_knowledge_refl])
  fix d e di s' assume k: "same_knowledge s s'"
  show "keeps s ((\<lambda>(delta, di, s).
        if is_zero delta then finish (Inr (const_bool True (lanes_of (Bin EQ a b)))) bounds s
        else if eq_refuted (known di) then finish (Inr (const_bool False (lanes_of (Bin EQ a b)))) bounds s
        else rbind (make_zero fl (type_of delta)) (\<lambda>z.
          run_mutate mut (visit_rewriter fl ctr mut s False (type_of (Bin EQ a b)) (type_of delta) delta z) (eq_mutate (lanes_of (Bin EQ a b)))
            (Bin EQ delta z) bounds s
            (run_result (visit_rewriter fl ctr mut s False (type_of (Bin EQ a b)) (type_of delta) delta z)
              (eq_result (lanes_of (Bin EQ a b))) (Bin EQ delta z) bounds s
            (finish (finish_EQ fl (type_of a) delta) bounds s)))) (e, di, s'))"
    using k assms by (auto intro!: keeps_rbind keeps_run keeps_finish)
qed

lemma keeps_EQ: "mutate_keeps mut \<Longrightarrow> keeps s (visit_EQ fl ctr mut a b bounds s)"
  by (simp add: visit_EQ_def keeps_finish keeps_untouched keeps_EQ_bool keeps_EQ_delta split: option.split)

lemma keeps_conditions:
  assumes "mutate_keeps mut"
  shows "keeps s (visit_And fl ctr mut a b bounds s)" "keeps s (visit_Or fl ctr mut a b bounds s)"
    "keeps s (visit_Not fl ctr mut a bounds s)"
proof -
  show "keeps s (visit_And fl ctr mut a b bounds s)" "keeps s (visit_Or fl ctr mut a b bounds s)"
    unfolding visit_And_def visit_Or_def Let_def
    by (auto simp: assms intro!: keeps_plain [OF assms same_knowledge_refl] keeps_run keeps_finish)
  show "keeps s (visit_Not fl ctr mut a bounds s)"
    unfolding visit_Not_def Let_def
    by (rule keeps_visited [OF assms same_knowledge_refl]) (simp add: assms keeps_rules)
qed

lemma keeps_Select:
  assumes "mutate_keeps mut"
  shows "keeps s (visit_Select fl ctr mut c a b bounds s)"
  unfolding visit_Select_def Let_def
  by (rule keeps_visited [OF assms same_knowledge_refl], simp, rule keeps_operands [OF assms], assumption, simp,
      rule keeps_rbind, simp add: assms keeps_rules)

lemma keeps_vectors:
  assumes "mutate_keeps mut"
  shows "keeps s (visit_Broadcast mut v l bounds s)" "keeps s (visit_Ramp fl ctr mut v w l bounds s)"
proof -
  show "keeps s (visit_Broadcast mut v l bounds s)"
    unfolding visit_Broadcast_def by (rule keeps_visited [OF assms same_knowledge_refl]) (simp add: keeps_rules)
  show "keeps s (visit_Ramp fl ctr mut v w l bounds s)"
    unfolding visit_Ramp_def Let_def by (rule keeps_operands [OF assms same_knowledge_refl]) (simp add: keeps_rules)
qed

text \<open>Counting a use keeps what is known.\<close>

lemma count_old_use_keeps: "count_old_use n s = Inr s' \<Longrightarrow> same_knowledge s s'"
  by (auto simp: count_old_use_def rbind_Inr_iff split: if_splits intro: scope_ref_uses)

lemma found_buffer_keeps:
  assumes "found_buffer_reference n d s = Inr s'"
  shows "same_knowledge s s'"
proof -
  have "found_dimensions n is s = Inr s' \<Longrightarrow> same_knowledge s s'" for "is" s s'
    by (induction n "is" s rule: found_dimensions.induct)
      (auto simp: rbind_Inr_iff, meson count_old_use_keeps same_knowledge_trans)
  then show ?thesis using assms count_old_use_keeps same_knowledge_trans
    by (auto simp: found_buffer_reference_def rbind_Inr_iff, blast)
qed

lemma keeps_Variable:
  assumes "mutate_keeps mut"
  shows "keeps s (visit_Variable fl mut t n r bounds s)"
proof -
  have "same_knowledge s (s\<lparr>ss_var_info := sc\<rparr>)"
    if "scope_ref n (\<lambda>i. i\<lparr>vi_new_uses := vi_new_uses i + 1\<rparr>) (ss_var_info s) = Inr sc \<or>
        scope_ref n (\<lambda>i. i\<lparr>vi_old_uses := vi_old_uses i + 1\<rparr>) (ss_var_info s) = Inr sc" for sc
    using that by (auto intro: scope_ref_uses)
  then show ?thesis unfolding visit_Variable_def Let_def
    by (auto intro!: keeps_rbind keeps_assert keeps_mut [OF assms] split: option.split)
qed

lemma load_base_keeps: "mutate_keeps mut \<Longrightarrow> load_base mut index s = Inr (bi, s') \<Longrightarrow> same_knowledge s s'"
  by (auto simp: load_base_def rbind_Inr_iff split: expr.splits dest: mutate_keepsD)

lemma keeps_Load:
  assumes "mutate_keeps mut"
  shows "keeps s (visit_Load mut t n p ix r al bounds s)"
  unfolding visit_Load_def Let_def
proof (rule keeps_rbind, rule keeps_visited [OF assms])
  show "same_knowledge s s1" if "found_buffer_reference n 0 s = Inr s1" for s1 using that by (rule found_buffer_keeps)
  fix predicate b s2 assume s2: "same_knowledge s s2"
  have "keeps s (rbind (mut ix (Some no_info) s2) (\<lambda>(index, ii, s). rbind (load_base mut index s) (\<lambda>(base_info, s).
      finish (finish_Load t n predicate index r
        (mr_intersect al (mr_intersect (ei_alignment base_info) (ei_alignment (known ii))))) bounds s)))"
    by (rule keeps_visited [OF assms s2], simp, rule keeps_rbind)
      (auto intro!: keeps_finish dest: load_base_keeps [OF assms] same_knowledge_trans)
  then show "keeps s ((\<lambda>(predicate, _, s). rbind (mut ix (Some no_info) s) (\<lambda>(index, ii, s). rbind (load_base mut index s) (\<lambda>(base_info, s).
      finish (finish_Load t n predicate index r
        (mr_intersect al (mr_intersect (ei_alignment base_info) (ei_alignment (known ii))))) bounds s))) (predicate, b, s2))"
    by simp
qed

lemma keeps_visit:
  assumes "mutate_keeps mut" and "mutate_keeps (other mut)"
  shows "keeps s (visit fl ctr other mut e bounds s)"
  by (simp add: visit_def assms keeps_sums keeps_quotients keeps_extrema keeps_LT keeps_comparisons keeps_EQ keeps_conditions
      keeps_Select keeps_vectors keeps_Variable keeps_Load keeps_mut [OF assms(2)] split: expr.split binop.split)


subsection \<open>Slices of vectors\<close>

lemma bin_val_cong: "wrap_ty t = wrap_ty u \<Longrightarrow> bin_val op t = bin_val op u"
  by (simp add: bin_val_def fun_eq_iff split: binop.split)

lemma make_slices_map:
  "length va = length vb \<Longrightarrow> make_slices op va vb = Inr vs \<Longrightarrow> vs = map2 (Bin op) va vb"
  by (induction va vb arbitrary: vs rule: list_induct2) (auto simp: rbind_Inr_iff make_bin_def)

lemma shuffle_lane_bin:
  assumes "length va = length vb"
    and "\<And>a b. (a, b) \<in> set (zip va vb) \<Longrightarrow> lanes_of b = lanes_of a \<and> wrap_ty (type_of a) = wrap_ty t \<and> lanes_of (Bin op a b) = lanes_of a"
  shows "shuffle_lane (map (\<lambda>v. (lanes_of v, eval \<rho> v)) (map2 (Bin op) va vb)) k =
    (case (shuffle_lane (map (\<lambda>v. (lanes_of v, eval \<rho> v)) va) k, shuffle_lane (map (\<lambda>v. (lanes_of v, eval \<rho> v)) vb) k) of
       (Some x, Some y) \<Rightarrow> bin_val op t x y | _ \<Rightarrow> None)"
  using assms
proof (induction va vb arbitrary: k rule: list_induct2)
  case (Cons a va b vb)
  from Cons.prems [of a b] have "lanes_of b = lanes_of a" "wrap_ty (type_of a) = wrap_ty t" "lanes_of (Bin op a b) = lanes_of a"
    by simp_all
  note h = this(1,3) bin_val_cong [OF this(2), of op]
  have "\<And>a b. (a, b) \<in> set (zip va vb) \<Longrightarrow> lanes_of b = lanes_of a \<and> wrap_ty (type_of a) = wrap_ty t \<and> lanes_of (Bin op a b) = lanes_of a"
    using Cons.prems by auto
  from Cons.IH [OF this] show ?case using h by (simp split: option.split)
qed simp

lemma shuffle_wrap:
  assumes "wf_expr (Shuffle vs is)" and "v \<in> set vs"
  shows "wrap_ty (type_of v) = wrap_ty (type_of (Shuffle vs is))"
proof -
  obtain w ws where vs: "vs = w # ws" using assms(2) by (cases vs) auto
  have ok: "wf_expr v" "wf_expr w" "type_eq (element_of (type_of v)) (element_of (type_of w))" "type_eq (element_of (type_of w)) (element_of (type_of w))"
    using assms vs by (auto simp: list_all_iff)
  have "wrap_ty (type_of v) = wrap_ty (element_of (type_of v))" using wf_type_ok [OF ok(1)] by (simp add: element_of_def)
  also have "\<dots> = wrap_ty (element_of (type_of w))" using type_eqD [OF ok(3)] by (intro wrap_ty_cong) auto
  also have "\<dots> = wrap_ty (type_of (Shuffle vs is))" using vs by simp
  finally show ?thesis .
qed

lemma make_hoisted_value:
  assumes "make_hoisted op a b = Inr e" and "wf_expr a" and "wf_expr b" and "\<not> is_compare op" and "\<not> is_logical op"
  shows "eval \<rho> e i = eval \<rho> (Bin op a b) i"
proof (cases "e = Bin op a b")
  case False
  then obtain va ia vb ib where ab: "a = Shuffle va ia" "b = Shuffle vb ib" and h: "hoist_slice_vector op va ia vb ib (Bin op a b) = Inr e"
    using assms(1) by (auto simp: make_hoisted_def make_bin_def rbind_Inr_iff split: expr.splits if_splits)
  then have eq: "ib = ia" "length va = length vb" "\<forall>(a, b) \<in> set (zip va vb). type_eq (type_of a) (type_of b)"
    and "rbind (make_slices op va vb) (\<lambda>vs. make_Shuffle vs ia) = Inr e"
    using False by (auto simp: hoist_slice_vector_def list_ex_iff type_neq_iff split: if_splits)
  then have e: "e = Shuffle (map2 (Bin op) va vb) ia"
    using make_slices_map [OF eq(2)] by (auto simp: rbind_Inr_iff make_Shuffle_def)
  have "lanes_of y = lanes_of x \<and> wrap_ty (type_of x) = wrap_ty (type_of a) \<and> lanes_of (Bin op x y) = lanes_of x" if "(x, y) \<in> set (zip va vb)" for x y
  proof -
    have m: "x \<in> set va" "y \<in> set vb" using that by (auto dest: set_zip_leftD set_zip_rightD)
    then have "ty_ok (type_of x)" "ty_ok (type_of y)" using assms(2,3) ab wf_type_ok by (auto simp: list_all_iff)
    then show ?thesis using type_eqD(3) [of "type_of x" "type_of y"] eq(3) that shuffle_wrap [OF assms(2) [unfolded ab(1)] m(1)] assms(4,5) ab(1)
      by (auto simp: bin_type_def)
  qed
  from shuffle_lane_bin [OF eq(2) this, where \<rho> = \<rho>]
  show ?thesis unfolding e ab eq(1) by (simp add: Let_def split: option.split)
qed simp

subsection \<open>Visits keep the value\<close>

text \<open>
  The visits of the expressions \<open>D\<close>, from every state with the knowledge of \<open>s\<close>, keep that knowledge, the value of the
  expression, its kind of type and its lanes, and what they find out is true; it is asked for with nothing known in
  advance.
\<close>

definition mutate_sound :: "env \<Rightarrow> nat \<Rightarrow> expr set \<Rightarrow> simplify_state \<Rightarrow> mutator \<Rightarrow> bool" where
  "mutate_sound \<rho> i D s mut \<longleftrightarrow> (\<forall>e k v b s1 e' b' s'. e \<in> D \<longrightarrow> same_knowledge s s1 \<longrightarrow> stands_for \<rho> i e k v False \<longrightarrow>
     mut e b s1 = Inr (e', b', s') \<longrightarrow> same_knowledge s s' \<and> stands_for \<rho> i e' k v False \<and> lanes_of e' = lanes_of e \<and>
     (b = Some no_info \<longrightarrow> (\<exists>x. b' = Some x \<and> info_mem v x)))"

lemma mutate_sound_same:
  assumes "mutate_sound \<rho> i D s mut" and "same_knowledge s s'"
  shows "mutate_sound \<rho> i D s' mut"
proof -
  have eq: "same_knowledge s = same_knowledge s'" using assms(2) by (auto simp: same_knowledge_def fun_eq_iff)
  show ?thesis using assms(1) unfolding mutate_sound_def eq .
qed

lemma mutate_soundD:
  assumes "mutate_sound \<rho> i D s mut" and "e \<in> D" and "stands_for \<rho> i e k v False" and "mut e b s = Inr (e', b', s')"
  shows "stands_for \<rho> i e' k v False" "lanes_of e' = lanes_of e" "mutate_sound \<rho> i D s' mut"
    "b = Some no_info \<Longrightarrow> \<exists>x. b' = Some x \<and> info_mem v x"
proof -
  have "same_knowledge s s' \<and> stands_for \<rho> i e' k v False \<and> lanes_of e' = lanes_of e \<and> (b = Some no_info \<longrightarrow> (\<exists>x. b' = Some x \<and> info_mem v x))"
    using assms same_knowledge_refl unfolding mutate_sound_def by blast
  then show "stands_for \<rho> i e' k v False" "lanes_of e' = lanes_of e" "mutate_sound \<rho> i D s' mut"
    "b = Some no_info \<Longrightarrow> \<exists>x. b' = Some x \<and> info_mem v x"
    using mutate_sound_same [OF assms(1)] by blast+
qed

text \<open>No rule that fires folds constants to an overflow, and what is visited again is one of the expressions \<open>D\<close>.\<close>

definition folds_defined :: "env \<Rightarrow> nat \<Rightarrow> rewriter \<Rightarrow> rule list \<Rightarrow> expr \<Rightarrow> bool" where
  "folds_defined \<rho> i rw rs e \<longleftrightarrow> (\<forall>e'. rewrite_first rw rs e = Some (Inr e') \<longrightarrow> eval \<rho> e' i \<noteq> None)"

definition chain_defined :: "env \<Rightarrow> nat \<Rightarrow> expr set \<Rightarrow> rewriter \<Rightarrow> rule list \<times> rule list \<Rightarrow> expr \<Rightarrow> bool" where
  "chain_defined \<rho> i D rw rules e \<longleftrightarrow> (case rules of (rs, rs') \<Rightarrow> folds_defined \<rho> i rw rs e \<and>
     (rewrite_first rw rs e = None \<longrightarrow> folds_defined \<rho> i rw rs' e \<and> (\<forall>e'. rewrite_first rw rs' e = Some (Inr e') \<longrightarrow> e' \<in> D)))"

lemma run_rules_value:
  assumes r: "run_result rw rs e b s (run_mutate mut rw rs' e b s otherwise) = Inr (e', b', s')"
    and e: "stands_for \<rho> i e k v False" "plain_consts True e" "i < lanes_of e" "rewriter_for rw e" "prover_sound \<rho> (rw_prover rw)"
    and rs: "set rs \<subseteq> set (sound_rules (lanes_of e))" "set rs' \<subseteq> set (sound_rules (lanes_of e))"
    and ch: "chain_defined \<rho> i D rw (rs, rs') e"
    and m: "mutate_sound \<rho> i D s mut" and o: "\<And>e' b' s'. otherwise = Inr (e', b', s') \<Longrightarrow> eval \<rho> e' i = Some v"
  shows "eval \<rho> e' i = Some v"
proof -
  have f: "folds_defined \<rho> i rw rs e" "rewrite_first rw rs e = None \<Longrightarrow> folds_defined \<rho> i rw rs' e"
    "rewrite_first rw rs e = None \<Longrightarrow> rewrite_first rw rs' e = Some (Inr x) \<Longrightarrow> x \<in> D" for x using ch by (auto simp: chain_defined_def)
  have w: "wf_expr e" "tame e" "ints e" "eval \<rho> e i = Some v" "ekind e = k" using e(1) by (auto simp: stands_for_def)
  have fire: "stands_for \<rho> i x k v False" if "rewrite_first rw q e = Some (Inr x)" "set q \<subseteq> set (sound_rules (lanes_of e))" "folds_defined \<rho> i rw q e" for q x
    using rewrite_first_stands_for [OF that(1,2) w(1-3) plain_consts_mono [OF e(2)] e(4,5,3) w(4)] that(1,3) w(5)
    by (auto simp: folds_defined_def stands_for_def)
  show ?thesis
  proof (cases "rewrite_first rw rs e")
    case (Some x)
    then show ?thesis using r fire [of rs e'] rs f by (auto simp: run_result_def rbind_Inr_iff stands_for_def)
  next
    case None
    note f' = f(2) [OF None]
    show ?thesis
    proof (cases "rewrite_first rw rs' e")
      case (Some x)
      then obtain y where y: "x = Inr y" "mut y b s = Inr (e', b', s')" using r None by (auto simp: run_result_def run_mutate_def rbind_Inr_iff)
      have "stands_for \<rho> i y k v False" using fire [of rs' y] Some y(1) rs f' by simp
      then have "stands_for \<rho> i e' k v False" using f(3) [OF None] Some y by (intro mutate_soundD(1) [OF m _ _ y(2)]) simp_all
      then show ?thesis by (simp add: stands_for_def)
    next
      case No: None
      then show ?thesis using r None o by (simp add: run_result_def run_mutate_def)
    qed
  qed
qed

text \<open>The rules of an arithmetic node, and the conditions under which a visit is judged.\<close>

definition arith_rules :: "binop \<Rightarrow> nat \<Rightarrow> rule list \<times> rule list" where
  "arith_rules op l = (case op of
      Add \<Rightarrow> (add_result l, add_mutate l) | Sub \<Rightarrow> (sub_result l, sub_mutate l) | Mul \<Rightarrow> (mul_result l, mul_mutate l)
    | Div \<Rightarrow> (div_result l, div_mutate l) | Mod \<Rightarrow> (mod_result l, mod_mutate l) | _ \<Rightarrow> ([], []))"

definition rules_defined :: "env \<Rightarrow> nat \<Rightarrow> expr set \<Rightarrow> rewriter \<Rightarrow> binop \<Rightarrow> expr \<Rightarrow> expr \<Rightarrow> bool" where
  "rules_defined \<rho> i D rw op a b \<longleftrightarrow> chain_defined \<rho> i D rw (arith_rules op (lanes_of a)) (Bin op a b)"

definition clean_visit :: "env \<Rightarrow> nat \<Rightarrow> expr set \<Rightarrow> float_ops \<Rightarrow> int \<Rightarrow> mutator \<Rightarrow> binop \<Rightarrow> expr \<Rightarrow> expr \<Rightarrow> simplify_state \<Rightarrow> bool" where
  "clean_visit \<rho> i D fl ctr mut op a b s \<longleftrightarrow> a \<in> D \<and> b \<in> D \<and> (\<forall>a' ia b' ib s'. visit_operands mut a b s = Inr (a', ia, b', ib, s') \<longrightarrow>
     info_within (2 ^ 31) ia \<and> info_within (2 ^ 31) ib \<and>
     plain_consts True a' \<and> plain_consts True b' \<and> type_of b' = type_of a' \<and> prover_sound \<rho> (prover_of mut s') \<and>
     (\<forall>nz. rules_defined \<rho> i D (visit_rewriter fl ctr mut s' nz (type_of a') (type_of a') a' b') op a' b' \<and>
        (op = Add \<or> op = Mul \<longrightarrow> rules_defined \<rho> i D (visit_rewriter fl ctr mut s' nz (type_of a') (type_of a') b' a') op b' a')))"

lemma arith_rules_sound:
  assumes "arith_rules op l = (rs, rs')"
  shows "set rs \<subseteq> set (sound_rules l)" "set rs' \<subseteq> set (sound_rules l)"
  using assms
  by (auto simp: arith_rules_def sound_rules_def add_mul_rules_def sub_rules_def div_mod_rules_def add_mutate_def sub_mutate_def
      div_mutate_def mod_mutate_def split: binop.splits)

lemma node_value:
  assumes r: "run_result rw rs (Bin op a b) bd s (run_mutate mut rw rs' (Bin op a b) bd s otherwise) = Inr (e', b', s')"
    and rw: "rw = visit_rewriter fl ctr mut s nz (type_of a) (type_of a) a b" "rules_defined \<rho> i D rw op a b" "prover_sound \<rho> (prover_of mut s)"
    and op: "arith_rules op (lanes_of a) = (rs, rs')" "\<not> is_compare op" "\<not> is_logical op"
    and a: "stands_for \<rho> i a k x False" "plain_consts True a" and b: "stands_for \<rho> i b k y False" "plain_consts True b"
    and t: "type_of b = type_of a" and v: "bin_val op (type_of a) x y = Some v" "i < lanes_of a"
    and m: "mutate_sound \<rho> i D s mut" and o: "\<And>e' b' s'. otherwise = Inr (e', b', s') \<Longrightarrow> eval \<rho> e' i = Some v"
  shows "eval \<rho> e' i = Some v"
proof (rule run_rules_value [OF r, where k = k])
  have ty: "type_of (Bin op a b) = type_of a" using op(2,3) by (simp add: bin_type_def del: is_compare.simps is_logical.simps)
  have "type_eq (type_of a) (type_of b)" using t by (simp add: type_eq_def same_handle_type_def)
  then show "stands_for \<rho> i (Bin op a b) k v False" using a b v op ty by (simp add: stands_for_def del: is_compare.simps is_logical.simps)
  show "plain_consts True (Bin op a b)" using a b by simp
  show "i < lanes_of (Bin op a b)" using v(2) ty by simp
  show "rewriter_for rw (Bin op a b)" using rw(1) ty by (simp add: rewriter_for_def visit_rewriter_def)
  show "prover_sound \<rho> (rw_prover rw)" using rw by (simp add: visit_rewriter_def)
  show "set rs \<subseteq> set (sound_rules (lanes_of (Bin op a b)))" "set rs' \<subseteq> set (sound_rules (lanes_of (Bin op a b)))"
    using arith_rules_sound [OF op(1)] ty by simp_all
  show "chain_defined \<rho> i D rw (rs, rs') (Bin op a b)" using rw(2) op(1) by (simp add: rules_defined_def)
qed (use m o in auto)

text \<open>What a visit finds out about its operands.\<close>

lemma operands_sound:
  assumes "visit_operands mut a b s = Inr (a', ia, b', ib, s')" and "mutate_sound \<rho> i D s mut" and "a \<in> D" "b \<in> D"
    and "stands_for \<rho> i a k x False" and "stands_for \<rho> i b k y False"
  shows "stands_for \<rho> i a' k x False" "lanes_of a' = lanes_of a" "info_mem x ia"
    "stands_for \<rho> i b' k y False" "lanes_of b' = lanes_of b" "info_mem y ib" "mutate_sound \<rho> i D s' mut"
proof -
  obtain ba s1 bb where ma: "mut a (Some no_info) s = Inr (a', ba, s1)" "ia = known ba"
    and mb: "mut b (Some no_info) s1 = Inr (b', bb, s')" "ib = known bb"
    using assms(1) by (auto simp: visit_operands_def rbind_Inr_iff)
  note A = mutate_soundD [OF assms(2,3,5) ma(1)]
  note B = mutate_soundD [OF A(3) assms(4,6) mb(1)]
  show "stands_for \<rho> i a' k x False" "lanes_of a' = lanes_of a" "info_mem x ia"
    "stands_for \<rho> i b' k y False" "lanes_of b' = lanes_of b" "info_mem y ib" "mutate_sound \<rho> i D s' mut"
    using A B ma(2) mb(2) by (auto simp: known_def)
qed

lemma stands_for_bin:
  assumes "stands_for \<rho> i (Bin op a b) k v False" and "\<not> is_compare op" and "\<not> is_logical op"
  obtains x y where "stands_for \<rho> i a k x False" "stands_for \<rho> i b k y False" "bin_val op (type_of a) x y = Some v"
proof -
  have w: "wf_expr (Bin op a b)" "tame a" "tame b" "ints a" "ints b" "eval \<rho> (Bin op a b) i = Some v" "ekind (Bin op a b) = k"
    using assms(1) by (auto simp: stands_for_def)
  obtain x y where xy: "eval \<rho> a i = Some x" "eval \<rho> b i = Some y" "bin_val op (type_of a) x y = Some v" by (rule bin_true_values [OF w(6)])
  have "ekind a = k" "ekind b = k" using bin_ekind [OF w(1)] w(7) assms(2) by auto
  then show ?thesis using that [of x y] w xy by (simp add: stands_for_def)
qed

lemma make_bin_value:
  assumes "finish (make_bin op a b) bd s = Inr (e', b', s')" and "stands_for \<rho> i a k x False" and "stands_for \<rho> i b k y False"
    and "bin_val op (type_of a) x y = Some v"
  shows "eval \<rho> e' i = Some v"
  using assms by (auto simp: finish_def rbind_Inr_iff make_bin_def stands_for_def)

lemma hoisted_value:
  assumes "finish (make_hoisted op a b) bd s = Inr (e', b', s')" and "stands_for \<rho> i a k x False" and "stands_for \<rho> i b k y False"
    and "bin_val op (type_of a) x y = Some v" and "\<not> is_compare op" and "\<not> is_logical op"
  shows "eval \<rho> e' i = Some v"
proof -
  have m: "make_hoisted op a b = Inr e'" using assms(1) by (auto simp: finish_def rbind_Inr_iff)
  show ?thesis using make_hoisted_value [OF m _ _ assms(5,6), of \<rho> i] assms(2-4) by (simp add: stands_for_def)
qed

text \<open>The rules of a node keep the value \<open>v\<close>, if what is done when none applies does.\<close>

definition rules_keep :: "env \<Rightarrow> nat \<Rightarrow> float_ops \<Rightarrow> int \<Rightarrow> mutator \<Rightarrow> simplify_state \<Rightarrow> binop \<Rightarrow> int \<Rightarrow> htype \<Rightarrow> expr \<Rightarrow> expr \<Rightarrow> bool" where
  "rules_keep \<rho> i fl ctr mut s op v t a b \<longleftrightarrow> (\<forall>nz bd otherwise e' b' s' rs rs'.
     arith_rules op (ty_lanes t) = (rs, rs') \<longrightarrow>
     run_result (visit_rewriter fl ctr mut s nz t t a b) rs (Bin op a b) bd s
       (run_mutate mut (visit_rewriter fl ctr mut s nz t t a b) rs' (Bin op a b) bd s otherwise) = Inr (e', b', s') \<longrightarrow>
     (\<forall>e' b' s'. otherwise = Inr (e', b', s') \<longrightarrow> eval \<rho> e' i = Some v) \<longrightarrow> eval \<rho> e' i = Some v)"

lemma rules_keepD:
  "rules_keep \<rho> i fl ctr mut s op v t a b \<Longrightarrow> arith_rules op (ty_lanes t) = (rs, rs') \<Longrightarrow>
   run_result (visit_rewriter fl ctr mut s nz t t a b) rs (Bin op a b) bd s
     (run_mutate mut (visit_rewriter fl ctr mut s nz t t a b) rs' (Bin op a b) bd s otherwise) = Inr (e', b', s') \<Longrightarrow>
   (\<And>e' b' s'. otherwise = Inr (e', b', s') \<Longrightarrow> eval \<rho> e' i = Some v) \<Longrightarrow> eval \<rho> e' i = Some v"
  unfolding rules_keep_def by blast

lemma rules_keepI:
  assumes "\<And>nz. rules_defined \<rho> i D (visit_rewriter fl ctr mut s nz (type_of a) (type_of a) a b) op a b" and "prover_sound \<rho> (prover_of mut s)"
    and "\<not> is_compare op" "\<not> is_logical op" and "stands_for \<rho> i a k x False" "plain_consts True a" and "stands_for \<rho> i b k y False" "plain_consts True b"
    and "type_of b = type_of a" and "bin_val op (type_of a) x y = Some v" "i < lanes_of a" and "mutate_sound \<rho> i D s mut"
  shows "rules_keep \<rho> i fl ctr mut s op v (type_of a) a b"
  unfolding rules_keep_def
proof (intro allI impI)
  fix nz bd otherwise e' b' s' rs rs'
  assume r: "arith_rules op (lanes_of a) = (rs, rs')"
    and "run_result (visit_rewriter fl ctr mut s nz (type_of a) (type_of a) a b) rs (Bin op a b) bd s
       (run_mutate mut (visit_rewriter fl ctr mut s nz (type_of a) (type_of a) a b) rs' (Bin op a b) bd s otherwise) = Inr (e', b', s')"
    and "\<forall>e' b' s'. otherwise = Inr (e', b', s') \<longrightarrow> eval \<rho> e' i = Some v"
  then show "eval \<rho> e' i = Some v"
    using node_value [OF _ refl assms(1,2) r assms(3-12)] by blast
qed

text \<open>What is known once the operands are visited, for a node whose operands may be exchanged too.\<close>

definition operands_keep :: "env \<Rightarrow> nat \<Rightarrow> float_ops \<Rightarrow> int \<Rightarrow> mutator \<Rightarrow> simplify_state \<Rightarrow> binop \<Rightarrow> kind \<Rightarrow> int \<Rightarrow> htype \<Rightarrow> expr \<Rightarrow> expr \<Rightarrow> bool" where
  "operands_keep \<rho> i fl ctr mut s op k v t a b \<longleftrightarrow> (\<exists>x y. stands_for \<rho> i a k x False \<and> stands_for \<rho> i b k y False \<and>
     bin_val op (type_of a) x y = Some v) \<and> rules_keep \<rho> i fl ctr mut s op v t a b"

lemma visited_operands_keep:
  assumes o: "visit_operands mut a b s = Inr (a', ia, b', ib, s')" and m: "mutate_sound \<rho> i D s mut"
    and st: "stands_for \<rho> i (Bin op a b) k v False" and i: "i < lanes_of a" and c: "clean_visit \<rho> i D fl ctr mut op a b s"
    and op: "\<not> is_compare op" "\<not> is_logical op"
  shows "operands_keep \<rho> i fl ctr mut s' op k v (type_of a') a' b' \<and>
     (op = Add \<or> op = Mul \<longrightarrow> operands_keep \<rho> i fl ctr mut s' op k v (type_of a') b' a') \<and>
     (\<exists>x y. bin_val op (type_of a') x y = Some v \<and> info_mem x ia \<and> info_within (2 ^ 31) ia \<and> info_mem y ib \<and> info_within (2 ^ 31) ib \<and>
        stands_for \<rho> i a' k x False)"
proof -
  obtain x y where xy: "stands_for \<rho> i a k x False" "stands_for \<rho> i b k y False" "bin_val op (type_of a) x y = Some v"
    by (rule stands_for_bin [OF st op])
  have D: "a \<in> D" "b \<in> D" using c by (simp_all add: clean_visit_def)
  note S = operands_sound [OF o m D xy(1,2)]
  have "kind_of (type_of a') = kind_of (type_of a)" using S(1) xy(1) by (simp add: stands_for_def)
  then have "wrap_ty (type_of a') = wrap_ty (type_of a)" by (intro wrap_ty_cong) (auto simp: kind_of_def)
  then have v: "bin_val op (type_of a') x y = Some v" using xy(3) bin_val_cong by metis
  have C: "plain_consts True a'" "plain_consts True b'" "type_of b' = type_of a'" "prover_sound \<rho> (prover_of mut s')"
    and W: "info_within (2 ^ 31) ia" "info_within (2 ^ 31) ib"
    and R: "\<And>nz. rules_defined \<rho> i D (visit_rewriter fl ctr mut s' nz (type_of a') (type_of a') a' b') op a' b'"
    and R': "\<And>nz. op = Add \<or> op = Mul \<Longrightarrow> rules_defined \<rho> i D (visit_rewriter fl ctr mut s' nz (type_of a') (type_of a') b' a') op b' a'"
    using c o unfolding clean_visit_def by blast+
  have i': "i < lanes_of a'" "i < lanes_of b'" using i S(2) C(3) by simp_all
  have keep: "operands_keep \<rho> i fl ctr mut s' op k v (type_of a') a' b'"
    unfolding operands_keep_def using rules_keepI [OF R C(4) op S(1) C(1) S(4) C(2,3) v i'(1) S(7)] S(1,4) v by blast
  have "operands_keep \<rho> i fl ctr mut s' op k v (type_of a') b' a'" if ac: "op = Add \<or> op = Mul"
  proof -
    have v': "bin_val op (type_of b') y x = Some v" using v C(3) ac by (auto simp: bin_val_def add.commute mult.commute)
    from rules_keepI [OF R' [OF ac, folded C(3)] C(4) op S(4) C(2) S(1) C(1) C(3) [symmetric] v' i'(2) S(7)]
    show ?thesis unfolding operands_keep_def C(3) using S(1,4) v' C(3) by auto
  qed
  then show ?thesis using keep v S W by blast
qed

subsection \<open>The visit methods\<close>

lemma operands_keepD:
  assumes "operands_keep \<rho> i fl ctr mut s op k v t a b" and "\<not> is_compare op" and "\<not> is_logical op"
  shows "finish (make_bin op a b) bd s' = Inr (e', b', s'') \<Longrightarrow> eval \<rho> e' i = Some v"
    "finish (make_hoisted op a b) bd s' = Inr (e', b', s'') \<Longrightarrow> eval \<rho> e' i = Some v"
proof -
  obtain x y where xy: "stands_for \<rho> i a k x False" "stands_for \<rho> i b k y False" "bin_val op (type_of a) x y = Some v"
    using assms(1) by (auto simp: operands_keep_def)
  show "finish (make_bin op a b) bd s' = Inr (e', b', s'') \<Longrightarrow> eval \<rho> e' i = Some v" by (rule make_bin_value [OF _ xy])
  show "finish (make_hoisted op a b) bd s' = Inr (e', b', s'') \<Longrightarrow> eval \<rho> e' i = Some v" by (rule hoisted_value [OF _ xy assms(2,3)])
qed

text \<open>The last part of a visit: the rules, if the type may be simplified, and the node otherwise.\<close>

lemma visit_tail_value:
  assumes "operands_keep \<rho> i fl ctr mut s op k v t a b" and "arith_rules op (ty_lanes t) = (rs, rs')"
    and "\<not> is_compare op" and "\<not> is_logical op" 
    and "otherwise = finish (make_hoisted op a b) bd s \<or> otherwise = finish (make_bin op a b) bd s"
    and "untouched = finish (make_hoisted op a b) bd s \<or> untouched = finish (make_bin op a b) bd s"
    and "(if may_simplify s t then run_result (visit_rewriter fl ctr mut s nz t t a b) rs (Bin op a b) bd s
        (run_mutate mut (visit_rewriter fl ctr mut s nz t t a b) rs' (Bin op a b) bd s otherwise) else untouched) = Inr (e', b', s')"
  shows "eval \<rho> e' i = Some v"
proof -
  have fin: "eval \<rho> e' i = Some v" if "otherwise = Inr (e', b', s') \<or> untouched = Inr (e', b', s')" for e' b' s'
    using assms(5,6) operands_keepD [OF assms(1,3,4)] that by (elim disjE) auto
  have r: "rules_keep \<rho> i fl ctr mut s op v t a b" using assms(1) by (simp add: operands_keep_def)
  show ?thesis
  proof (cases "may_simplify s t")
    case True
    with assms(7) show ?thesis using rules_keepD [OF r assms(2) _ fin [OF disjI1]] by simp
  next
    case False
    with assms(7) show ?thesis by (intro fin [OF disjI2]) simp
  qed
qed

lemma commuted_keep:
  assumes "operands_keep \<rho> i fl ctr mut s op k v t a b" and "operands_keep \<rho> i fl ctr mut s op k v t b a" and "commuted s t a b = (p, q)"
  shows "operands_keep \<rho> i fl ctr mut s op k v t p q"
  using assms by (auto simp: commuted_def split: if_splits)

lemma visit_Add_value:
  assumes "visit_Add fl ctr mut a b bounds s = Inr (e', bounds', s')" and "mutate_sound \<rho> i D s mut"
    and "stands_for \<rho> i (Bin Add a b) k v False" and "i < lanes_of a" and "clean_visit \<rho> i D fl ctr mut Add a b s"
  shows "eval \<rho> e' i = Some v"
proof -
  obtain a' ia b' ib s1 where o: "visit_operands mut a b s = Inr (a', ia, b', ib, s1)"
    using assms(1) by (auto simp: visit_Add_def rbind_Inr_iff)
  obtain p q where pq: "commuted s1 (type_of a') a' b' = (p, q)" by (cases "commuted s1 (type_of a') a' b'")
  have k: "operands_keep \<rho> i fl ctr mut s1 Add k v (type_of a') p q"
    using visited_operands_keep [OF o assms(2-5)] by (intro commuted_keep [OF _ _ pq]) simp_all
  note E = assms(1) [unfolded visit_Add_def o rbind.simps prod.case Let_def pq]
  show ?thesis by (rule visit_tail_value [OF k _ _ _ disjI1 [OF refl] disjI2 [OF refl] E]) (simp_all add: arith_rules_def)
qed

lemma visit_Mul_value:
  assumes "visit_Mul fl ctr mut a b bounds s = Inr (e', bounds', s')" and "mutate_sound \<rho> i D s mut"
    and "stands_for \<rho> i (Bin Mul a b) k v False" and "i < lanes_of a" and "clean_visit \<rho> i D fl ctr mut Mul a b s"
  shows "eval \<rho> e' i = Some v"
proof -
  obtain a' ia b' ib s1 where o: "visit_operands mut a b s = Inr (a', ia, b', ib, s1)"
    using assms(1) by (auto simp: visit_Mul_def rbind_Inr_iff)
  obtain p q where pq: "commuted s1 (type_of a') a' b' = (p, q)" by (cases "commuted s1 (type_of a') a' b'")
  have k: "operands_keep \<rho> i fl ctr mut s1 Mul k v (type_of a') p q"
    using visited_operands_keep [OF o assms(2-5)] by (intro commuted_keep [OF _ _ pq]) simp_all
  note E = assms(1) [unfolded visit_Mul_def o rbind.simps prod.case Let_def pq]
  show ?thesis by (rule visit_tail_value [OF k _ _ _ disjI1 [OF refl] disjI1 [OF refl] E]) (simp_all add: arith_rules_def)
qed

lemma visit_Sub_value:
  assumes "visit_Sub fl ctr mut a b bounds s = Inr (e', bounds', s')" and "mutate_sound \<rho> i D s mut"
    and "stands_for \<rho> i (Bin Sub a b) k v False" and "i < lanes_of a" and "clean_visit \<rho> i D fl ctr mut Sub a b s"
  shows "eval \<rho> e' i = Some v"
proof -
  obtain a' ia b' ib s1 where o: "visit_operands mut a b s = Inr (a', ia, b', ib, s1)"
    using assms(1) by (auto simp: visit_Sub_def rbind_Inr_iff)
  have k: "operands_keep \<rho> i fl ctr mut s1 Sub k v (type_of a') a' b'"
    using visited_operands_keep [OF o assms(2-5)] by simp
  note E = assms(1) [unfolded visit_Sub_def o rbind.simps prod.case Let_def]
  show ?thesis by (rule visit_tail_value [OF k _ _ _ disjI1 [OF refl] disjI1 [OF refl] E]) (simp_all add: arith_rules_def)
qed

lemma int_values:
  assumes "stands_for \<rho> i a k x False" and "no_overflow_int (type_of a)"
  shows "is_int (type_of a)" "ty_ok (type_of a)" "wrap_ty (type_of a) z = z" "32 \<le> ty_bits (type_of a)" "ty_bits (type_of a) \<le> 64"
  using assms wf_type_ok [of a] ints_kind [of a]
  by (auto simp: stands_for_def no_overflow_int_def wrap_ty_def is_ikind_def kind_of_def)

lemma finish_const_value:
  assumes "finish (make_const fl (type_of a) z) bd s = Inr (e', b', s')" and "stands_for \<rho> i a k x False"
    and "no_overflow_int (type_of a)" and "can_represent_i (type_of a) z"
  shows "eval \<rho> e' i = Some z"
proof -
  note t = int_values [OF assms(2,3)]
  have "s_wrap (ty_bits (type_of a)) z = z"
    using assms(4) t(1,4,5) by (intro s_wrap_id) (auto simp: can_represent_i_def min_int_eq max_int_eq)
  then show ?thesis using assms(1) make_const_value t(1,2) by (auto simp: finish_def rbind_Inr_iff)
qed

text \<open>The type of a visited operand has the kind of the type of the node.\<close>

lemma kind_fits:
  assumes "stands_for \<rho> i a' k x False" and "stands_for \<rho> i (Bin op a b) k v False" and "no_overflow_int (type_of a')"
    and "\<not> is_compare op" and "\<not> is_logical op"
  shows "no_overflow_int (type_of a)" "can_represent_i (type_of a') z = can_represent_i (type_of a) z"
proof -
  have "kind_of (type_of a') = kind_of (type_of a)"
    using assms(1,2,4,5) by (simp add: stands_for_def bin_type_def del: is_compare.simps is_logical.simps)
  then have c: "ty_code (type_of a') = ty_code (type_of a)" "ty_bits (type_of a') = ty_bits (type_of a)" by (auto simp: kind_of_def)
  show "no_overflow_int (type_of a)" "can_represent_i (type_of a') z = can_represent_i (type_of a) z"
    using assms(3) c by (simp_all add: no_overflow_int_def can_represent_i_def type_pred_defs)
qed

lemma visit_Div_value:
  assumes "visit_Div fl ctr mut a b bounds s = Inr (e', bounds', s')" and "mutate_sound \<rho> i D s mut"
    and "stands_for \<rho> i (Bin Div a b) k v False" and "i < lanes_of a" and "clean_visit \<rho> i D fl ctr mut Div a b s"
    and "no_overflow_int (type_of a) \<longrightarrow> can_represent_i (type_of a) v"
  shows "eval \<rho> e' i = Some v"
proof -
  obtain a' ia b' ib s1 where o: "visit_operands mut a b s = Inr (a', ia, b', ib, s1)"
    using assms(1) by (auto simp: visit_Div_def rbind_Inr_iff)
  note V = visited_operands_keep [OF o assms(2-5)]
  have k: "operands_keep \<rho> i fl ctr mut s1 Div k v (type_of a') a' b'" using V by simp
  obtain x y where xy: "bin_val Div (type_of a') x y = Some v" "info_mem x ia" "info_within (2 ^ 31) ia" "info_mem y ib" "info_within (2 ^ 31) ib"
    "stands_for \<rho> i a' k x False" using V by auto
  define early where "early = (case bounds of None \<Rightarrow> None | Some j \<Rightarrow> div_constant fl ctr (type_of a') j ia ib)"
  note E = assms(1) [unfolded visit_Div_def o rbind.simps prod.case Let_def early_def [symmetric]]
  show ?thesis
  proof (cases early)
    case None
    show ?thesis by (rule visit_tail_value [OF k _ _ _ disjI2 [OF refl] disjI2 [OF refl] E [unfolded None option.case]]) (simp_all add: arith_rules_def)
  next
    case (Some r)
    then obtain j where j: "no_overflow_int (type_of a')" "single_point (div_bounds j ia ib)"
      "r = (if can_represent_i (type_of a') (ei_min (div_bounds j ia ib)) then make_const fl (type_of a') (ei_min (div_bounds j ia ib))
            else assert_that (is_int (type_of a')) (make_signed_integer_overflow ctr (type_of a')))"
      by (auto simp: early_def div_constant_def Let_def split: option.splits if_splits)
    have v: "v = ediv x y" using xy(1) int_values(3) [OF xy(6) j(1)] by (simp add: bin_val_def split: if_splits)
    then have d: "ei_min (div_bounds j ia ib) = v" using div_bounds_sound [OF xy(3,2,5,4), of j] j(2) by (auto simp: single_point_def)
    have "can_represent_i (type_of a') v" using kind_fits [OF xy(6) assms(3) j(1)] assms(6) by simp
    then show ?thesis using finish_const_value [OF _ xy(6) j(1)] E Some j(3) d by simp
  qed
qed

lemma visit_Mod_value:
  assumes "visit_Mod fl ctr mut a b bounds s = Inr (e', bounds', s')" and "mutate_sound \<rho> i D s mut"
    and "stands_for \<rho> i (Bin Mod a b) k v False" and "i < lanes_of a" and "clean_visit \<rho> i D fl ctr mut Mod a b s"
    and "no_overflow_int (type_of a) \<longrightarrow> can_represent_i (type_of a) v"
  shows "eval \<rho> e' i = Some v"
proof -
  obtain a' ia b' ib s1 where o: "visit_operands mut a b s = Inr (a', ia, b', ib, s1)"
    using assms(1) by (auto simp: visit_Mod_def rbind_Inr_iff)
  note V = visited_operands_keep [OF o assms(2-5)]
  have k: "operands_keep \<rho> i fl ctr mut s1 Mod k v (type_of a') a' b'" using V by simp
  obtain x y where xy: "bin_val Mod (type_of a') x y = Some v" "info_mem x ia" "info_within (2 ^ 31) ia" "info_mem y ib" "info_within (2 ^ 31) ib"
    "stands_for \<rho> i a' k x False" using V by auto
  then have y: "y \<noteq> 0" "v = wrap_ty (type_of a') (emod x y)" by (auto simp: bin_val_def split: if_splits)
  define mb where "mb = (if no_overflow_int (type_of a') then info_Mod ia ib else no_info)"
  note E = assms(1) [unfolded visit_Mod_def o rbind.simps prod.case Let_def mb_def [symmetric]]
  consider "may_simplify s1 (type_of a')" "mod_unchanged ia ib" | "may_simplify s1 (type_of a')" "\<not> mod_unchanged ia ib" "single_point mb"
    | "\<not> (may_simplify s1 (type_of a') \<and> (mod_unchanged ia ib \<or> single_point mb))" by blast
  then show ?thesis
  proof cases
    case 1
    then have "eval \<rho> e' i = Some x" "emod x y = x" "wrap_ty (type_of a') x = x"
      using E xy(6) mod_unchanged_sound [OF _ xy(2,4)] eval_norm by (auto simp: finish_def stands_for_def)
    then show ?thesis using y(2) by simp
  next
    case 2
    then have n: "no_overflow_int (type_of a')" by (auto simp: mb_def no_info_def single_point_def split: if_splits)
    have "v = emod x y" using y(2) int_values(3) [OF xy(6) n] by simp
    then have "ei_min mb = v"
      using info_Mod_sound [OF xy(3,2,5,4) y(1)] n 2(3) by (auto simp: mb_def info_mem_def single_point_def)
    moreover have "can_represent_i (type_of a') v" using kind_fits [OF xy(6) assms(3) n] assms(6) by simp
    ultimately show ?thesis using finish_const_value [OF _ xy(6) n] E 2 by simp
  next
    case 3
    then have E3: "(if may_simplify s1 (type_of a') then run_result
        (visit_rewriter fl ctr mut s1 (denominator_non_zero ib) (type_of a') (type_of a') a' b') (mod_result (lanes_of a')) (Bin Mod a' b')
        (if no_overflow_int (type_of a') then map_option (\<lambda>_. mb) bounds else bounds) s1
        (run_mutate mut (visit_rewriter fl ctr mut s1 (denominator_non_zero ib) (type_of a') (type_of a') a' b') (mod_mutate (lanes_of a')) (Bin Mod a' b')
          (if no_overflow_int (type_of a') then map_option (\<lambda>_. mb) bounds else bounds) s1
          (finish (make_bin Mod a' b') (if no_overflow_int (type_of a') then map_option (\<lambda>_. mb) bounds else bounds) s1))
        else finish (make_bin Mod a' b') (if no_overflow_int (type_of a') then map_option (\<lambda>_. mb) bounds else bounds) s1) = Inr (e', bounds', s')"
      using E by (auto split: if_splits)
    show ?thesis by (rule visit_tail_value [OF k _ _ _ disjI2 [OF refl] disjI2 [OF refl] E3]) (simp_all add: arith_rules_def)
  qed
qed


text \<open>
  The visit of \<open>x + 0\<close>, with the recursion at depth one for the operands: it visits a variable or a constant and
  proves nothing but constants.
\<close>

lemma empty_knowledge: "same_knowledge (new_simplify False (\<lambda>_. None) (\<lambda>_. None)) s \<Longrightarrow>
    ss_bounds s n = [] \<and> ss_var_info s n = [] \<and> ss_truths s = [] \<and> ss_falsehoods s = []"
  by (auto simp: same_knowledge_def new_simplify_def replacements_def initial_info_def fun_eq_iff)

lemma leaf_visit:
  assumes "same_knowledge (new_simplify False (\<lambda>_. None) (\<lambda>_. None)) s" and "mutate fl ctr (\<lambda>mut. mut) 1 e b s = Inr (e', b', s')"
  shows "e' = e \<and> s' = s \<and> (case e of IntImm t v \<Rightarrow> True | UIntImm t v \<Rightarrow> True | FloatImm t v \<Rightarrow> True | StringImm t v \<Rightarrow> True
    | Variable t n r \<Rightarrow> True | _ \<Rightarrow> False)"
proof -
  define m where "m = mutate fl ctr (\<lambda>mut. mut) 0"
  have m: "m e b s = Inl DepthExceeded" for e b s by (simp add: m_def)
  have "visit fl ctr (\<lambda>mut. mut) m e b s = Inr (e', b', s')"
    using assms(2) by (auto simp: m_def rbind_Inr_iff assert_that_def split: if_splits)
  then show ?thesis using empty_knowledge [OF assms(1)]
    by (cases e)
      (auto simp: visit_def m rbind_Inr_iff visit_operands_def visit_plain_def visit_untouched_def visit_Broadcast_def visit_Variable_def
        scope_contains_def visit_Add_def visit_Sub_def visit_Mul_def visit_Div_def visit_Mod_def visit_Min_def visit_Max_def visit_EQ_def
        visit_NE_def visit_LT_def visit_LE_def visit_GT_def visit_GE_def visit_And_def visit_Or_def visit_Not_def visit_Select_def visit_Load_def
        visit_Ramp_def visit_EQ_bool_def visit_EQ_delta_def known_condition_def set_count_def split: binop.splits if_splits)
qed

lemma leaf_mutate_sound: "mutate_sound \<rho> i D (new_simplify False (\<lambda>_. None) (\<lambda>_. None)) (mutate fl ctr (\<lambda>mut. mut) 1)"
  unfolding mutate_sound_def
proof (intro allI impI)
  fix e k v b s1 e' b' s'
  assume s1: "same_knowledge (new_simplify False (\<lambda>_. None) (\<lambda>_. None)) s1" and st: "stands_for \<rho> i e k v False"
    and r: "mutate fl ctr (\<lambda>mut. mut) 1 e b s1 = Inr (e', b', s')"
  have l: "e' = e" "s' = s1" "case e of IntImm t v \<Rightarrow> True | UIntImm t v \<Rightarrow> True | FloatImm t v \<Rightarrow> True | StringImm t v \<Rightarrow> True
    | Variable t n r \<Rightarrow> True | _ \<Rightarrow> False" using leaf_visit [OF s1 r] by blast+
  have "info_mem v no_info" "info_mem v (info_point v)" by (simp_all add: info_mem_def no_info_def info_point_def mr_top_def mr_mem_def)
  then have "\<exists>x. b' = Some x \<and> info_mem v x" if "b = Some no_info"
    using that r l st empty_knowledge [OF s1]
    by (cases e) (auto simp: visit_def rbind_Inr_iff assert_that_def visit_Variable_def scope_contains_def info_IntImm_def info_UIntImm_def
        stands_for_def split: if_splits)
  then show "same_knowledge (new_simplify False (\<lambda>_. None) (\<lambda>_. None)) s' \<and> stands_for \<rho> i e' k v False \<and> lanes_of e' = lanes_of e \<and>
      (b = Some no_info \<longrightarrow> (\<exists>x. b' = Some x \<and> info_mem v x))" using l(1,2) s1 st by simp
qed

lemma leaf_prover_sound: "prover_sound \<rho> (prover_of (mutate fl ctr (\<lambda>mut. mut) 1) (new_simplify False (\<lambda>_. None) (\<lambda>_. None)))"
  unfolding prover_sound_def
proof (intro allI impI)
  fix c :: expr and i v
  assume a: "wf_expr c \<and> is_one (prover_of (mutate fl ctr (\<lambda>mut. mut) 1) (new_simplify False (\<lambda>_. None) (\<lambda>_. None)) c) \<and> i < lanes_of c \<and>
    eval \<rho> c i = Some v"
  then have "is_number 1 c" "case c of IntImm t v \<Rightarrow> True | UIntImm t v \<Rightarrow> True | FloatImm t v \<Rightarrow> True | StringImm t v \<Rightarrow> True
    | Variable t n r \<Rightarrow> True | _ \<Rightarrow> False"
    using leaf_visit [OF same_knowledge_refl, of fl ctr c None]
    by (auto simp: prover_of_def const_bool_def is_one_def split: sum.splits prod.splits)
  then show "v \<noteq> 0" using a by (cases c) auto
qed

lemma zero_sum_rewrites:
  "rewrite_first (visit_rewriter float_stub 0 mut s nz (Int_type 32 1) (Int_type 32 1) (int_var ''x'') (int_const 0)) (add_result 1)
     (Bin Add (int_var ''x'') (int_const 0)) = Some (Inr (int_var ''x''))"
  "rewrite_first (visit_rewriter float_stub 0 mut s nz (Int_type 32 1) (Int_type 32 1) (int_const 0) (int_var ''x'')) (add_result 1)
     (Bin Add (int_const 0) (int_var ''x'')) = Some (Inr (int_var ''x''))"
  by (simp_all add: int_var_def int_const_def visit_rewriter_def add_result_def rewrite_eval match_const_def)



end
