(* ===== verification/ConditionFacts.thy ===== *)
theory ConditionFacts
  imports SimplifyVisitFacts
begin

text \<open>
  The visits of conjunctions, disjunctions, negations and selections, and of the comparisons that redirect to
  others, keep the value. What the simplifier knows about conditions enters here: a
  condition in the set of truths or of falsehoods is replaced by its value.
\<close>

subsection \<open>Known conditions\<close>

text \<open>The conditions in the two sets can be ordered among each other and with the condition looked up.\<close>

definition comparable :: "(nat \<Rightarrow> handle_info) \<Rightarrow> expr \<Rightarrow> simplify_state \<Rightarrow> bool" where
  "comparable M e s \<longleftrightarrow> ok_expr M e \<and> list_all (ok_expr M) (ss_truths s) \<and> list_all (ok_expr M) (ss_falsehoods s)"

lemma equivalent_eval:
  assumes "ok_expr M a" and "ok_expr M b" and "equivalent a b"
  shows "eval \<rho> a i = eval \<rho> b i"
  using expr_order.incomparable_iff_Equal [OF assms(1,2)] assms(3) equal_expr_eval [of a b]
  by (simp add: equivalent_def deep_compare_expr_def)

lemma counted_value:
  assumes "knows_truth \<rho> \<Gamma> i s" and "comparable M e s"
  shows "set_count e (ss_truths s) \<Longrightarrow> eval \<rho> e i = Some 1" "set_count e (ss_falsehoods s) \<Longrightarrow> eval \<rho> e i = Some 0"
proof -
  have eq: "eval \<rho> e i = eval \<rho> x i" if "x \<in> set (ss_truths s) \<union> set (ss_falsehoods s)" "equivalent e x" for x
    using that assms(2) by (intro equivalent_eval) (auto simp: comparable_def list_all_iff)
  have v: "x \<in> set (ss_truths s) \<Longrightarrow> eval \<rho> x i = Some 1" "x \<in> set (ss_falsehoods s) \<Longrightarrow> eval \<rho> x i = Some 0" for x
    using assms(1) unfolding knows_truth_def by blast+
  show "set_count e (ss_truths s) \<Longrightarrow> eval \<rho> e i = Some 1" "set_count e (ss_falsehoods s) \<Longrightarrow> eval \<rho> e i = Some 0"
    using eq v unfolding set_count_def list_ex_iff by (metis UnI1 UnI2)+
qed

lemma const_bool_value [simp]: "eval \<rho> (const_bool b l) i = Some (of_bool b)"
  by (simp add: const_bool_def)

subsection \<open>The rules of a node\<close>

definition cond_rules :: "expr \<Rightarrow> rule list \<times> rule list" where
  "cond_rules e = (let l = lanes_of e in case e of
       Bin op a b \<Rightarrow> if op = AndOp then (and_result l, and_mutate l) else if op = OrOp then (or_result l, or_mutate l) else ([], [])
     | NotE a \<Rightarrow> (not_result l, not_mutate l)
     | Select c a b \<Rightarrow> (select_result l, select_mutate l)
     | _ \<Rightarrow> ([], []))"

text \<open>
  The conditions under which a visited node is judged: its constants are not \<open>-1\<close>, the rewriter has the types of the
  node, and no rule that fires folds constants to an overflow.
\<close>

definition clean_node :: "env \<Rightarrow> nat \<Rightarrow> expr set \<Rightarrow> rewriter \<Rightarrow> expr \<Rightarrow> bool" where
  "clean_node \<rho> i D rw e \<longleftrightarrow> plain_consts True e \<and> rewriter_for rw e \<and> prover_sound \<rho> (rw_prover rw) \<and>
     chain_defined \<rho> i D rw (cond_rules e) e"

lemma cond_rules_sound:
  assumes "cond_rules e = (rs, rs')"
  shows "set rs \<subseteq> set (sound_rules (lanes_of e))" "set rs' \<subseteq> set (sound_rules (lanes_of e))"
  using assms
  by (auto simp: cond_rules_def Let_def sound_rules_def bool_rules_def select_eq_rules_def and_result_def or_result_def select_mutate_def
      split: expr.splits if_splits)

lemma clean_node_value:
  assumes "run_result rw rs e bd s (run_mutate mut rw rs' e bd s (finish r bd s)) = Inr (e', b', s')"
    and "cond_rules e = (rs, rs')" and "clean_node \<rho> i D rw e" and "stands_for \<rho> i e k v False" and "i < lanes_of e"
    and "mutate_sound \<rho> i D s mut" and "\<And>x. r = Inr x \<Longrightarrow> x = e"
  shows "eval \<rho> e' i = Some v"
proof (rule run_rules_value [OF assms(1,4)])
  show "eval \<rho> e' i = Some v" if "finish r bd s = Inr (e', b', s')" for e' b' s'
    using that assms(4,7) by (auto simp: finish_def rbind_Inr_iff stands_for_def)
qed (use assms cond_rules_sound [OF assms(2)] in \<open>auto simp: clean_node_def\<close>)

subsection \<open>Nodes made from visited operands\<close>

lemma same_kind_type_eq: "kind_of t = kind_of u \<Longrightarrow> ty_lanes t = ty_lanes u \<Longrightarrow> is_ikind (kind_of t) \<Longrightarrow> type_eq t u"
  by (auto simp: type_eq_def as_u32_def kind_of_def is_ikind_def)

lemma stands_for_lanes: "stands_for \<rho> i e k v False \<Longrightarrow> lanes_of e mod 65536 = lanes_of e"
  using wf_type_ok [of e] by (simp add: stands_for_def ty_ok_def)

lemma stands_for_logical:
  assumes "stands_for \<rho> i (Bin op a b) k v False" and "is_logical op"
  obtains x y where "stands_for \<rho> i a kbool x False" "stands_for \<rho> i b kbool y False" "bin_val op (type_of a) x y = Some v"
    "k = kbool" "lanes_of b = lanes_of a"
proof -
  have w: "wf_expr (Bin op a b)" "tame a" "tame b" "ints a" "ints b" "eval \<rho> (Bin op a b) i = Some v" "ekind (Bin op a b) = k"
    using assms(1) by (auto simp: stands_for_def)
  obtain x y where xy: "eval \<rho> a i = Some x" "eval \<rho> b i = Some y" "bin_val op (type_of a) x y = Some v" by (rule bin_true_values [OF w(6)])
  have "ekind a = kbool" "ekind b = kbool" using bin_ekind [OF w(1)] assms(2) by auto
  moreover have "k = kbool" using w(7) assms(2) by (simp add: kind_bin_type)
  moreover have "lanes_of b = lanes_of a" using w(1) wf_type_ok [of a] wf_type_ok [of b] type_eqD(3) [of "type_of a" "type_of b"] by auto
  ultimately show ?thesis using that [of x y] w xy by (simp add: stands_for_def)
qed

lemma logical_stands_for:
  assumes "stands_for \<rho> i a kbool x False" and "stands_for \<rho> i b kbool y False" and "bin_val op (type_of a) x y = Some v"
    and "lanes_of b = lanes_of a" and "is_logical op"
  shows "stands_for \<rho> i (Bin op a b) kbool v False"
proof -
  have "is_ikind kbool" by (simp add: is_ikind_def kbool_def)
  then have "type_eq (type_of a) (type_of b)" using assms by (intro same_kind_type_eq) (auto simp: stands_for_def)
  moreover have "is_bool (type_of a)" using assms(1) wf_type_ok [of a] is_bool_kind by (auto simp: stands_for_def)
  ultimately show ?thesis using assms by (auto simp: stands_for_def kind_bin_type)
qed

lemma plain_sound:
  assumes "visit_plain mut a b s = Inr (a', b', s')" and "mutate_sound \<rho> i D s mut" and "a \<in> D" and "b \<in> D"
    and "stands_for \<rho> i a k x False" and "stands_for \<rho> i b k y False"
  shows "stands_for \<rho> i a' k x False" "lanes_of a' = lanes_of a" "stands_for \<rho> i b' k y False" "lanes_of b' = lanes_of b"
    "mutate_sound \<rho> i D s' mut"
proof -
  obtain ba s1 bb where ma: "mut a None s = Inr (a', ba, s1)" and mb: "mut b None s1 = Inr (b', bb, s')"
    using assms(1) by (auto simp: visit_plain_def rbind_Inr_iff)
  note A = mutate_soundD [OF assms(2,3,5) ma]
  note B = mutate_soundD [OF A(3) assms(4,6) mb]
  show "stands_for \<rho> i a' k x False" "lanes_of a' = lanes_of a" "stands_for \<rho> i b' k y False" "lanes_of b' = lanes_of b"
    "mutate_sound \<rho> i D s' mut" using A B by auto
qed

subsection \<open>The visit methods\<close>

text \<open>The comparison that a visit is redirected to.\<close>

definition redirected :: "binop \<Rightarrow> expr \<Rightarrow> expr \<Rightarrow> expr" where
  "redirected op a b = (case op of LE \<Rightarrow> NotE (Bin LT b a) | GT \<Rightarrow> Bin LT b a | GE \<Rightarrow> NotE (Bin LT a b) | _ \<Rightarrow> NotE (Bin EQ a b))"

text \<open>What a visit visits is in \<open>D\<close>, and the nodes that it meets once the operands are visited are clean.\<close>

definition clean_condition :: "env \<Rightarrow> nat \<Rightarrow> expr set \<Rightarrow> float_ops \<Rightarrow> int \<Rightarrow> mutator \<Rightarrow> expr \<Rightarrow> simplify_state \<Rightarrow> bool" where
  "clean_condition \<rho> i D fl ctr mut e s \<longleftrightarrow> (case e of
       Bin op a b \<Rightarrow> a \<in> D \<and> b \<in> D \<and> (\<not> is_logical op \<longrightarrow> redirected op a b \<in> D) \<and>
         (is_logical op \<longrightarrow> (\<forall>a' b' s'. visit_plain mut a b s = Inr (a', b', s') \<longrightarrow>
           (let (p, q) = (if should_commute a' b' then (b', a') else (a', b')); t = type_of (Bin op p q)
            in clean_node \<rho> i D (visit_rewriter fl ctr mut s' False t t p q) (Bin op p q))))
     | NotE a \<Rightarrow> a \<in> D \<and> (\<forall>a' x s'. mut a None s = Inr (a', x, s') \<longrightarrow>
         (let t = type_of (NotE a') in clean_node \<rho> i D (visit_rewriter fl ctr mut s' False t t a' a') (NotE a')))
     | Select c a b \<Rightarrow> c \<in> D \<and> a \<in> D \<and> b \<in> D \<and>
         (\<forall>c' x s0 a' ia b' ib s'. mut c None s = Inr (c', x, s0) \<longrightarrow> visit_operands mut a b s0 = Inr (a', ia, b', ib, s') \<longrightarrow>
           (let t = type_of a' in clean_node \<rho> i D (visit_rewriter fl ctr mut s' False t t a' b') (Select c' a' b')))
     | _ \<Rightarrow> True)"

lemma logical_visit_value:
  assumes "(let (a, b) = (if should_commute a' b' then (b', a') else (a', b')); t = type_of (Bin op a b); rw = visit_rewriter fl ctr mut s' False t t a b
      in run_result rw (fst (cond_rules (Bin op a b))) (Bin op a b) bd s'
        (run_mutate mut rw (snd (cond_rules (Bin op a b))) (Bin op a b) bd s' (finish (make_bin op a b) bd s'))) = Inr (e', bd', s'')"
    and o: "visit_plain mut a b s = Inr (a', b', s')" and m: "mutate_sound \<rho> i D s mut" and st: "stands_for \<rho> i (Bin op a b) k v False"
    and i: "i < lanes_of a" and l: "is_logical op" and cl: "clean_condition \<rho> i D fl ctr mut (Bin op a b) s"
  shows "eval \<rho> e' i = Some v"
proof -
  obtain x y where xy: "stands_for \<rho> i a kbool x False" "stands_for \<rho> i b kbool y False" "bin_val op (type_of a) x y = Some v"
    "k = kbool" "lanes_of b = lanes_of a" by (rule stands_for_logical [OF st l])
  have D: "a \<in> D" "b \<in> D" using cl by (simp_all add: clean_condition_def)
  note S = plain_sound [OF o m D xy(1,2)]
  obtain p q where pq: "(if should_commute a' b' then (b', a') else (a', b')) = (p, q)" by (cases "if should_commute a' b' then (b', a') else (a', b')")
  have bv: "bin_val op (type_of a') x y = Some v" "bin_val op (type_of b') y x = Some v"
    using xy(3) l by (cases op; auto simp: bin_val_def)+
  have "stands_for \<rho> i (Bin op a' b') kbool v False" "stands_for \<rho> i (Bin op b' a') kbool v False"
    using logical_stands_for [OF S(1,3) bv(1)] logical_stands_for [OF S(3,1) bv(2)] S(2,4) xy(5) l by simp_all
  then have st': "stands_for \<rho> i (Bin op p q) kbool v False" using pq by (auto split: if_splits)
  have "lanes_of p = lanes_of a" "lanes_of p mod 65536 = lanes_of p"
    using pq S xy(5) stands_for_lanes [OF S(1)] stands_for_lanes [OF S(3)] by (auto split: if_splits)
  then have i': "i < lanes_of (Bin op p q)" using i l by (cases op) (simp_all add: bin_type_def)
  have cn: "clean_node \<rho> i D (visit_rewriter fl ctr mut s' False (type_of (Bin op p q)) (type_of (Bin op p q)) p q) (Bin op p q)"
    using cl o l pq by (cases op) (simp_all add: clean_condition_def Let_def)
  note E = assms(1) [unfolded pq Let_def prod.case]
  show ?thesis by (rule clean_node_value [OF E _ cn st' i' S(5)]) (auto simp: make_bin_def)
qed

lemma visit_And_value:
  assumes "visit_And fl ctr mut a b bounds s = Inr (e', bounds', s')" and "mutate_sound \<rho> i D s mut" and "stands_for \<rho> i (Bin AndOp a b) k v False"
    and "i < lanes_of a" and "knows_truth \<rho> \<Gamma> i s" and "comparable M (Bin AndOp a b) s" and "clean_condition \<rho> i D fl ctr mut (Bin AndOp a b) s"
  shows "eval \<rho> e' i = Some v"
proof (cases "set_count (Bin AndOp a b) (ss_falsehoods s)")
  case True
  then show ?thesis using assms(1,3) counted_value(2) [OF assms(5,6) True] by (auto simp: visit_And_def finish_def stands_for_def)
next
  case False
  then obtain a' b' s1 where o: "visit_plain mut a b s = Inr (a', b', s1)" using assms(1) by (auto simp: visit_And_def rbind_Inr_iff)
  show ?thesis
    by (rule logical_visit_value [OF _ o assms(2-4) _ assms(7)])
      (use assms(1) False o in \<open>simp_all add: visit_And_def cond_rules_def Let_def split: if_splits\<close>)
qed

lemma visit_Or_value:
  assumes "visit_Or fl ctr mut a b bounds s = Inr (e', bounds', s')" and "mutate_sound \<rho> i D s mut" and "stands_for \<rho> i (Bin OrOp a b) k v False"
    and "i < lanes_of a" and "knows_truth \<rho> \<Gamma> i s" and "comparable M (Bin OrOp a b) s" and "clean_condition \<rho> i D fl ctr mut (Bin OrOp a b) s"
  shows "eval \<rho> e' i = Some v"
proof (cases "set_count (Bin OrOp a b) (ss_truths s)")
  case True
  then show ?thesis using assms(1,3) counted_value(1) [OF assms(5,6) True] by (auto simp: visit_Or_def finish_def stands_for_def)
next
  case False
  then obtain a' b' s1 where o: "visit_plain mut a b s = Inr (a', b', s1)" using assms(1) by (auto simp: visit_Or_def rbind_Inr_iff)
  show ?thesis
    by (rule logical_visit_value [OF _ o assms(2-4) _ assms(7)])
      (use assms(1) False o in \<open>simp_all add: visit_Or_def cond_rules_def Let_def split: if_splits\<close>)
qed

lemma visit_Not_value:
  assumes "visit_Not fl ctr mut a bounds s = Inr (e', bounds', s')" and "mutate_sound \<rho> i D s mut" and "stands_for \<rho> i (NotE a) k v False"
    and "i < lanes_of a" and "clean_condition \<rho> i D fl ctr mut (NotE a) s"
  shows "eval \<rho> e' i = Some v"
proof -
  obtain a' x s1 where o: "mut a None s = Inr (a', x, s1)" using assms(1) by (auto simp: visit_Not_def rbind_Inr_iff)
  obtain z where z: "stands_for \<rho> i a kbool z False" "v = of_bool (z = 0)" "k = kbool"
    using assms(3) wf_type_ok [of a] is_bool_kind [of "type_of a"] by (auto simp: stands_for_def)
  have "a \<in> D" using assms(5) by (simp add: clean_condition_def)
  note S = mutate_soundD [OF assms(2) this z(1) o]
  have "is_bool (type_of a')" using S(1) wf_type_ok [of a'] is_bool_kind by (auto simp: stands_for_def)
  then have st: "stands_for \<rho> i (NotE a') kbool v False" using S(1) z(2) by (simp add: stands_for_def)
  have i: "i < lanes_of (NotE a')" using S(2) assms(4) stands_for_lanes [OF S(1)] by simp
  have cn: "clean_node \<rho> i D (visit_rewriter fl ctr mut s1 False (type_of (NotE a')) (type_of (NotE a')) a' a') (NotE a')"
    using assms(5) o by (auto simp: clean_condition_def Let_def)
  note E = assms(1) [unfolded visit_Not_def o rbind.simps prod.case Let_def]
  show ?thesis by (rule clean_node_value [OF E _ cn st i S(3)]) (auto simp: cond_rules_def Let_def make_Not_def assert_that_def split: if_splits)
qed

lemma visit_Select_value:
  assumes "visit_Select fl ctr mut c a b bounds s = Inr (e', bounds', s')" and m: "mutate_sound \<rho> i D s mut"
    and st: "stands_for \<rho> i (Select c a b) k v False" and i: "i < lanes_of a" and "clean_condition \<rho> i D fl ctr mut (Select c a b) s"
  shows "eval \<rho> e' i = Some v"
proof -
  obtain c' x s0 a' ia b' ib s1 bd where oc: "mut c None s = Inr (c', x, s0)" and o: "visit_operands mut a b s0 = Inr (a', ia, b', ib, s1)"
    and bd: "combine bounds (info_Select ia ib) = Inr bd"
    using assms(1) by (auto simp: visit_Select_def rbind_Inr_iff)
  have w: "wf_expr c" "wf_expr a" "wf_expr b" "is_bool (type_of c)" "type_eq (type_of b) (type_of a)"
    "is_scalar (type_of c) \<or> lanes_of c = lanes_of a" "kind_of (type_of a) = k"
    using st by (auto simp: stands_for_def)
  obtain z u t where z: "eval \<rho> c i = Some z" "eval \<rho> a i = Some u" "eval \<rho> b i = Some t" "v = (if z \<noteq> 0 then u else t)"
    using st by (auto simp: stands_for_def split: option.splits)
  have k: "ekind b = k" "ekind c = kbool" "lanes_of b = lanes_of a"
    using w wf_type_ok [of a] wf_type_ok [of b] wf_type_ok [of c] type_eq_kind is_bool_kind type_eqD(3) by auto
  have s: "stands_for \<rho> i c kbool z False" "stands_for \<rho> i a k u False" "stands_for \<rho> i b k t False"
    using st z k w by (auto simp: stands_for_def)
  have D: "c \<in> D" "a \<in> D" "b \<in> D" using assms(5) by (simp_all add: clean_condition_def)
  note C = mutate_soundD [OF m D(1) s(1) oc]
  note S = operands_sound [OF o C(3) D(2,3) s(2,3)]
  have ik: "is_ikind k" using S(1) ints_kind by (auto simp: stands_for_def)
  have "type_eq (type_of b') (type_of a')" using S(1,2,4,5) k(3) ik by (intro same_kind_type_eq) (auto simp: stands_for_def)
  moreover have "is_bool (type_of c')" using C(1) wf_type_ok [of c'] is_bool_kind by (auto simp: stands_for_def)
  moreover have "is_scalar (type_of c') \<or> lanes_of c' = lanes_of a'" using w(6) C(2) S(2) by (simp add: is_scalar_def)
  ultimately have st': "stands_for \<rho> i (Select c' a' b') k v False" using C(1) S(1,4) z(4) by (auto simp: stands_for_def)
  have i': "i < lanes_of (Select c' a' b')" using i S(2) by simp
  have cn: "clean_node \<rho> i D (visit_rewriter fl ctr mut s1 False (type_of a') (type_of a') a' b') (Select c' a' b')"
    using assms(5) oc o by (auto simp: clean_condition_def Let_def)
  have mk: "x = Select c' a' b'" if "make_Select c' a' b' = Inr x" for x using that by (auto simp: make_Select_def assert_that_def split: if_splits)
  note E = assms(1) [unfolded visit_Select_def oc o bd rbind.simps prod.case Let_def]
  show ?thesis
  proof (cases "may_simplify s1 (type_of a')")
    case True
    show ?thesis by (rule clean_node_value [OF E [unfolded if_P [OF True]] _ cn st' i' S(7) mk]) (simp_all add: cond_rules_def Let_def)
  next
    case False
    then show ?thesis using E mk st' by (auto simp: finish_def rbind_Inr_iff stands_for_def)
  qed
qed

subsection \<open>Comparisons that redirect to others\<close>

lemma stands_for_compare:
  assumes "stands_for \<rho> i (Bin op a b) k v False" and "is_compare op"
  obtains x y where "stands_for \<rho> i a (ekind a) x False" "stands_for \<rho> i b (ekind a) y False" "bin_val op (type_of a) x y = Some v" "k = kbool"
    "type_eq (type_of b) (type_of a)" "type_eq (type_of a) (type_of b)"
proof -
  have w: "wf_expr (Bin op a b)" "tame a" "tame b" "ints a" "ints b" "eval \<rho> (Bin op a b) i = Some v" "ekind (Bin op a b) = k"
    using assms(1) by (auto simp: stands_for_def)
  obtain x y where xy: "eval \<rho> a i = Some x" "eval \<rho> b i = Some y" "bin_val op (type_of a) x y = Some v" by (rule bin_true_values [OF w(6)])
  have e: "ekind b = ekind a" "k = kbool" using bin_ekind [OF w(1)] assms(2) w(7) by auto
  have "lanes_of b = lanes_of a" using w(1) wf_type_ok [of a] wf_type_ok [of b] type_eqD(3) [of "type_of a" "type_of b"] by auto
  then have "type_eq (type_of b) (type_of a)" using e(1) ints_kind w by (intro same_kind_type_eq) auto
  then show ?thesis using that [of x y] w xy e by (simp add: stands_for_def)
qed

lemma redirected_stands_for:
  assumes "stands_for \<rho> i (Bin op a b) k v False" and "op \<in> {LE, GT, GE, NE}"
  shows "stands_for \<rho> i (redirected op a b) k v False"
proof -
  have cmp: "is_compare op" using assms(2) by auto
  obtain x y where xy: "stands_for \<rho> i a (ekind a) x False" "stands_for \<rho> i b (ekind a) y False" "bin_val op (type_of a) x y = Some v" "k = kbool"
    "type_eq (type_of b) (type_of a)" "type_eq (type_of a) (type_of b)" by (rule stands_for_compare [OF assms(1) cmp])
  have "is_bool (Bool_type l)" for l by (simp add: Bool_type_def UInt_type_def mk_type_def type_pred_defs)
  then show ?thesis using assms(2) xy by (auto simp: redirected_def stands_for_def bin_val_def bin_type_def not_less)
qed

lemma visit_redirected:
  assumes "op \<in> {LE, GT, GE, NE}"
  shows "visit fl ctr other mut (Bin op a b) bounds s = Inr r \<Longrightarrow>
    visit_untouched op mut a b bounds s = Inr r \<or> mut (redirected op a b) bounds s = Inr r"
  using assms
  by (auto simp: visit_def visit_LE_def visit_GT_def visit_GE_def visit_NE_def redirected_def make_bin_def make_Not_def assert_that_def
      rbind_Inr_iff split: if_splits)

lemma redirected_value:
  assumes "visit fl ctr other mut (Bin op a b) bounds s = Inr (e', bounds', s')" and "op \<in> {LE, GT, GE, NE}"
    and m: "mutate_sound \<rho> i D s mut" and st: "stands_for \<rho> i (Bin op a b) k v False" and D: "a \<in> D" "b \<in> D" "redirected op a b \<in> D"
  shows "eval \<rho> e' i = Some v"
proof -
  have cmp: "is_compare op" using assms(2) by auto
  obtain x y where xy: "stands_for \<rho> i a (ekind a) x False" "stands_for \<rho> i b (ekind a) y False" "bin_val op (type_of a) x y = Some v"
    by (rule stands_for_compare [OF st cmp])
  from visit_redirected [OF assms(2,1)] show ?thesis
  proof
    assume "visit_untouched op mut a b bounds s = Inr (e', bounds', s')"
    then obtain a' b' s1 where o: "visit_plain mut a b s = Inr (a', b', s1)" and e: "finish (make_bin op a' b') bounds s1 = Inr (e', bounds', s')"
      by (auto simp: visit_untouched_def rbind_Inr_iff)
    note S = plain_sound [OF o m D(1,2) xy(1,2)]
    have "bin_val op (type_of a') x y = Some v" using xy(3) cmp by (cases op) (auto simp: bin_val_def)
    then show ?thesis by (rule make_bin_value [OF e S(1,3)])
  next
    assume "mut (redirected op a b) bounds s = Inr (e', bounds', s')"
    then show ?thesis using mutate_soundD(1) [OF m D(3) redirected_stands_for [OF st assms(2)]] by (auto simp: stands_for_def)
  qed
qed

subsection \<open>The property\<close>

definition condition_node :: "expr \<Rightarrow> bool" where
  "condition_node e \<longleftrightarrow> (case e of
       Bin op a b \<Rightarrow> op \<in> {AndOp, OrOp, LE, GT, GE, NE} | NotE a \<Rightarrow> True | Select c a b \<Rightarrow> True | _ \<Rightarrow> False)"

lemma first_operand_lanes: "wf_expr (Bin op a b) \<Longrightarrow> i < lanes_of (Bin op a b) \<Longrightarrow> i < lanes_of a" "i < lanes_of (NotE a) \<Longrightarrow> i < lanes_of a"
  by (auto simp: bin_type_def split: if_splits intro: less_le_trans)


text \<open>The visit of \<open>p && true\<close> for a variable \<open>p\<close> that is true, with the recursion at depth one for the operands.\<close>

definition bool_var :: "string \<Rightarrow> expr" where
  "bool_var n = Variable (Bool_type 1) n no_refs"

definition bool_const :: "int \<Rightarrow> expr" where
  "bool_const z = UIntImm (Bool_type 1) z"

lemma true_and_rewrites:
  "rewrite_first (visit_rewriter float_stub 0 mut s False (Bool_type 1) (Bool_type 1) (bool_var ''p'') (bool_const 1)) (and_result 1)
     (Bin AndOp (bool_var ''p'') (bool_const 1)) = Some (Inr (bool_var ''p''))"
  by (simp add: bool_var_def bool_const_def visit_rewriter_def and_result_def and_absorb_def rewrite_eval match_const_def Bool_type_def UInt_type_def)


end
