(* ===== verification/DivMul.thy ===== *)
theory DivMul
  imports IntArith
begin

text \<open>
  Division by multiplication: when the high bits of a product with a constant are a quotient, and what
  that means for an entry of the tables of \<open>IntegerDivisionTable.cpp\<close>.
\<close>

type_synonym div_row = "int \<times> int \<times> int \<times> int"

subsection \<open>When a product is a quotient\<close>

text \<open>
  Multiplying by \<open>m\<close> and dropping \<open>k\<close> bits divides every number below \<open>N\<close> by \<open>d\<close>: the error of the
  multiplier, summed over the largest quotient, has to stay below one.
\<close>

definition mul_ok :: "int \<Rightarrow> int \<Rightarrow> nat \<Rightarrow> int \<Rightarrow> bool" where
  "mul_ok m d k N \<longleftrightarrow>
     (let e = m * d - 2 ^ k; Q = (N - 1) div d; R = (N - 1) mod d in
      0 < d \<and> 0 \<le> m \<and> (Q = 0 \<or> 0 \<le> e \<and> (Q - 1) * e + (d - 1) * m < 2 ^ k) \<and> Q * e + R * m < 2 ^ k)"

lemma mul_ok_div:
  assumes ok: "mul_ok m d k N" and n: "0 \<le> n" "n < N"
  shows "(n * m) div 2 ^ k = n div d"
proof -
  define e where "e = m * d - 2 ^ k"
  define Q where "Q = (N - 1) div d"
  define R where "R = (N - 1) mod d"
  have k: "0 < d" "0 \<le> m" "Q = 0 \<or> 0 \<le> e \<and> (Q - 1) * e + (d - 1) * m < 2 ^ k" "Q * e + R * m < 2 ^ k"
    using ok by (auto simp: mul_ok_def Let_def e_def Q_def R_def)
  define q where "q = n div d"
  define r where "r = n mod d"
  have qr: "n = q * d + r" "0 \<le> r" "r \<le> d - 1" "0 \<le> q" "q \<le> Q"
    using k(1) n by (simp_all add: q_def r_def Q_def zdiv_mono1 pos_imp_zdiv_nonneg_iff)
  have m: "n * m = q * 2 ^ k + (q * e + r * m)" by (simp add: qr(1) e_def algebra_simps)
  have "0 \<le> q * e + r * m \<and> q * e + r * m < 2 ^ k"
  proof (cases "q = Q")
    case True
    have "Q * d + r \<le> Q * d + R" using n(2) qr(1) True div_mult_mod_eq [of "N - 1" d] by (simp add: Q_def R_def)
    then have "r * m \<le> R * m" using k(2) by (simp add: mult_right_mono)
    moreover have "0 \<le> Q * e" using k(3) qr(4) True by auto
    ultimately show ?thesis using k(2,4) qr(2) True by simp
  next
    case False
    then have "q \<le> Q - 1" "0 \<le> e" "(Q - 1) * e + (d - 1) * m < 2 ^ k" using qr(4,5) k(3) by auto
    moreover have "r * m \<le> (d - 1) * m" using qr(3) k(2) by (simp add: mult_right_mono)
    ultimately show ?thesis using qr(2,4) k(2) mult_right_mono [of q "Q - 1" e] by simp
  qed
  then have "(q * 2 ^ k + (q * e + r * m)) div 2 ^ k = q" by simp
  then show ?thesis using m by (simp add: q_def)
qed

text \<open>
  An entry for numerators below \<open>N\<close> of a type of \<open>b\<close> bits: method 0 shifts, method 1 multiplies and
  shifts, method 2 averages the high half of the product with the numerator first.
\<close>

definition row_ok :: "nat \<Rightarrow> int \<Rightarrow> div_row \<Rightarrow> bool" where
  "row_ok b N r = (case r of (d, method, mul, shift) \<Rightarrow>
     0 \<le> shift \<and> shift \<le> int b \<and> 0 \<le> mul \<and> (d = 1 \<or> mul < 2 ^ b) \<and>
     (if method = 0 then d = 2 ^ nat shift
      else if method = 1 then mul_ok mul d (b + nat shift) N
      else method = 2 \<and> mul_ok (mul + 2 ^ b) d (b + 1 + nat shift) N))"

text \<open>The three methods, on a numerator.\<close>

definition method_value :: "nat \<Rightarrow> int \<Rightarrow> int \<Rightarrow> nat \<Rightarrow> int \<Rightarrow> int" where
  "method_value b method mul shift n =
     (if method = 0 then n div 2 ^ shift
      else let q = (n * mul) div 2 ^ b in
        if method = 1 then q div 2 ^ shift else ((q + n) div 2) div 2 ^ shift)"

lemma row_ok_value:
  assumes "row_ok b N (d, method, mul, shift)" and "0 \<le> n" and "n < N"
  shows "method_value b method mul (nat shift) n = n div d"
proof -
  have p: "z div 2 ^ i div 2 ^ j = z div 2 ^ (i + j)" for z :: int and i j
    by (simp add: power_add zdiv_zmult2_eq)
  have "((n * mul) div 2 ^ b + n) div 2 = (n * (mul + 2 ^ b)) div 2 ^ (b + 1)"
  proof -
    have "(n * mul) div 2 ^ b + n = (n * (mul + 2 ^ b)) div 2 ^ b" by (simp add: distrib_left)
    then show ?thesis using p [of "n * (mul + 2 ^ b)" b 1] by simp
  qed
  then have "((n * mul) div 2 ^ b + n) div 2 div 2 ^ nat shift = (n * (mul + 2 ^ b)) div 2 ^ (b + 1 + nat shift)"
    using p [of _ "b + 1"] by simp
  then show ?thesis
    using assms mul_ok_div [OF _ assms(2,3)] p [of "n * mul" b]
    by (auto simp: row_ok_def method_value_def Let_def simp del: power_Suc split: if_splits)
qed

lemma row_at:
  assumes "map fst tab = 256 # map int [1..<256]" and "list_all P tab" and "d < 256"
  shows "fst (tab ! d) = (if d = 0 then 256 else int d)" and "P (tab ! d)"
proof -
  have l: "length tab = 256" using arg_cong [OF assms(1), of length] by simp
  then have "fst (tab ! d) = (256 # map int [1..<256]) ! d" using assms(1,3) nth_map [of d tab fst] by simp
  then show "fst (tab ! d) = (if d = 0 then 256 else int d)" using assms(3) by (simp add: nth_Cons split: nat.split)
  show "P (tab ! d)" using assms(2,3) l by (simp add: list_all_length)
qed

end
