(* ===== verification/DivTablesConst.thy ===== *)
theory DivTablesConst
  imports DivMul
begin

text \<open>
  The tables for constant divisors of \<open>IntegerDivisionTable.cpp\<close>: for every divisor from 1 to 256 (which is at index 0) a method, a
  multiplier and a shift. The program that generates the tables, \<open>find_inverse.cpp\<close>, tries a million
  random numerators for every entry; here an entry is checked for all of them.
\<close>

definition table_u8 :: "div_row list" where
  "table_u8 = [(256, 0, 0, 8), (1, 0, 0, 0), (2, 0, 0, 1), (3, 1, 171, 1), (4, 0, 0, 2), (5, 1, 205, 2),
     (6, 1, 171, 2), (7, 2, 37, 2), (8, 0, 0, 3), (9, 1, 57, 1), (10, 1, 205, 3), (11, 2, 117, 3),
     (12, 1, 171, 3), (13, 1, 79, 2), (14, 2, 37, 3), (15, 1, 137, 3), (16, 0, 0, 4), (17, 1, 241, 4),
     (18, 1, 57, 2), (19, 1, 27, 1), (20, 1, 205, 4), (21, 2, 135, 4), (22, 2, 117, 4),
     (23, 2, 101, 4), (24, 1, 171, 4), (25, 1, 41, 2), (26, 1, 79, 3), (27, 1, 19, 1), (28, 2, 37, 4),
     (29, 2, 27, 4), (30, 1, 137, 4), (31, 2, 9, 4), (32, 0, 0, 5), (33, 1, 249, 5), (34, 1, 241, 5),
     (35, 1, 235, 5), (36, 1, 57, 3), (37, 1, 111, 4), (38, 1, 27, 2), (39, 2, 165, 5),
     (40, 1, 205, 5), (41, 1, 25, 2), (42, 2, 135, 5), (43, 1, 191, 5), (44, 1, 187, 5),
     (45, 2, 109, 5), (46, 2, 101, 5), (47, 1, 175, 5), (48, 1, 171, 5), (49, 2, 79, 5),
     (50, 1, 41, 3), (51, 1, 161, 5), (52, 1, 79, 4), (53, 1, 155, 5), (54, 1, 19, 2), (55, 1, 149, 5),
     (56, 2, 37, 5), (57, 1, 9, 1), (58, 2, 27, 5), (59, 1, 139, 5), (60, 1, 137, 5), (61, 2, 13, 5),
     (62, 2, 9, 5), (63, 2, 5, 5), (64, 0, 0, 6), (65, 1, 253, 6), (66, 1, 249, 6), (67, 1, 245, 6),
     (68, 1, 121, 5), (69, 1, 119, 5), (70, 1, 235, 6), (71, 1, 231, 6), (72, 1, 57, 4),
     (73, 1, 225, 6), (74, 1, 111, 5), (75, 1, 219, 6), (76, 1, 27, 3), (77, 1, 213, 6),
     (78, 2, 165, 6), (79, 1, 13, 2), (80, 1, 205, 6), (81, 1, 203, 6), (82, 1, 25, 3), (83, 1, 99, 5),
     (84, 2, 135, 6), (85, 1, 193, 6), (86, 1, 191, 6), (87, 1, 189, 6), (88, 1, 187, 6),
     (89, 1, 185, 6), (90, 1, 183, 6), (91, 1, 181, 6), (92, 1, 179, 6), (93, 1, 177, 6),
     (94, 1, 175, 6), (95, 1, 173, 6), (96, 1, 171, 6), (97, 1, 169, 6), (98, 1, 21, 3),
     (99, 1, 83, 5), (100, 1, 41, 4), (101, 1, 163, 6), (102, 1, 161, 6), (103, 2, 63, 6),
     (104, 1, 79, 5), (105, 2, 57, 6), (106, 1, 155, 6), (107, 2, 51, 6), (108, 1, 19, 3),
     (109, 1, 151, 6), (110, 1, 149, 6), (111, 1, 37, 4), (112, 2, 37, 6), (113, 1, 145, 6),
     (114, 1, 9, 2), (115, 1, 143, 6), (116, 2, 27, 6), (117, 2, 25, 6), (118, 1, 139, 6),
     (119, 1, 69, 5), (120, 1, 137, 6), (121, 2, 15, 6), (122, 2, 13, 6), (123, 2, 11, 6),
     (124, 2, 9, 6), (125, 2, 7, 6), (126, 2, 5, 6), (127, 2, 3, 6), (128, 0, 0, 7), (129, 1, 255, 7),
     (130, 1, 127, 6), (131, 1, 63, 5), (132, 1, 125, 6), (133, 1, 31, 4), (134, 1, 123, 6),
     (135, 1, 61, 5), (136, 1, 121, 6), (137, 1, 15, 3), (138, 1, 119, 6), (139, 1, 59, 5),
     (140, 1, 235, 7), (141, 1, 117, 6), (142, 1, 29, 4), (143, 1, 115, 6), (144, 1, 57, 5),
     (145, 1, 113, 6), (146, 1, 225, 7), (147, 1, 7, 2), (148, 1, 111, 6), (149, 1, 55, 5),
     (150, 1, 219, 7), (151, 1, 109, 6), (152, 1, 27, 4), (153, 1, 215, 7), (154, 1, 107, 6),
     (155, 1, 53, 5), (156, 1, 211, 7), (157, 1, 105, 6), (158, 1, 13, 3), (159, 1, 207, 7),
     (160, 1, 103, 6), (161, 1, 51, 5), (162, 1, 203, 7), (163, 1, 101, 6), (164, 1, 25, 4),
     (165, 1, 199, 7), (166, 1, 99, 6), (167, 1, 197, 7), (168, 1, 49, 5), (169, 1, 97, 6),
     (170, 1, 193, 7), (171, 1, 3, 1), (172, 1, 191, 7), (173, 1, 95, 6), (174, 1, 189, 7),
     (175, 1, 47, 5), (176, 1, 187, 7), (177, 1, 93, 6), (178, 1, 185, 7), (179, 1, 23, 4),
     (180, 1, 183, 7), (181, 1, 91, 6), (182, 1, 181, 7), (183, 1, 45, 5), (184, 1, 179, 7),
     (185, 1, 89, 6), (186, 1, 177, 7), (187, 1, 11, 3), (188, 1, 175, 7), (189, 1, 87, 6),
     (190, 1, 173, 7), (191, 1, 43, 5), (192, 1, 171, 7), (193, 1, 85, 6), (194, 1, 169, 7),
     (195, 2, 81, 7), (196, 1, 21, 4), (197, 1, 167, 7), (198, 1, 83, 6), (199, 1, 165, 7),
     (200, 1, 41, 5), (201, 2, 71, 7), (202, 1, 163, 7), (203, 1, 81, 6), (204, 1, 161, 7),
     (205, 1, 5, 2), (206, 2, 63, 7), (207, 1, 159, 7), (208, 1, 79, 6), (209, 1, 157, 7),
     (210, 2, 57, 7), (211, 1, 39, 5), (212, 1, 155, 7), (213, 1, 77, 6), (214, 2, 51, 7),
     (215, 1, 153, 7), (216, 1, 19, 4), (217, 2, 47, 7), (218, 1, 151, 7), (219, 1, 75, 6),
     (220, 1, 149, 7), (221, 2, 41, 7), (222, 1, 37, 5), (223, 1, 147, 7), (224, 2, 37, 7),
     (225, 1, 73, 6), (226, 1, 145, 7), (227, 2, 33, 7), (228, 1, 9, 3), (229, 2, 31, 7),
     (230, 1, 143, 7), (231, 1, 71, 6), (232, 2, 27, 7), (233, 1, 141, 7), (234, 2, 25, 7),
     (235, 1, 35, 5), (236, 1, 139, 7), (237, 2, 21, 7), (238, 1, 69, 6), (239, 2, 19, 7),
     (240, 1, 137, 7), (241, 1, 17, 4), (242, 2, 15, 7), (243, 1, 135, 7), (244, 2, 13, 7),
     (245, 1, 67, 6), (246, 2, 11, 7), (247, 1, 133, 7), (248, 2, 9, 7), (249, 1, 33, 5),
     (250, 2, 7, 7), (251, 1, 131, 7), (252, 2, 5, 7), (253, 1, 65, 6), (254, 2, 3, 7),
     (255, 1, 129, 7)]"

definition table_s8 :: "div_row list" where
  "table_s8 = [(256, 0, 0, 7), (1, 0, 0, 0), (2, 0, 0, 1), (3, 1, 86, 0), (4, 0, 0, 2), (5, 1, 103, 1),
     (6, 1, 43, 0), (7, 1, 147, 2), (8, 0, 0, 3), (9, 1, 57, 1), (10, 1, 103, 2), (11, 1, 187, 3),
     (12, 1, 43, 1), (13, 1, 79, 2), (14, 1, 147, 3), (15, 1, 137, 3), (16, 0, 0, 4), (17, 1, 121, 3),
     (18, 1, 57, 2), (19, 1, 27, 1), (20, 1, 103, 3), (21, 1, 49, 2), (22, 1, 187, 4), (23, 1, 179, 4),
     (24, 1, 43, 2), (25, 1, 41, 2), (26, 1, 79, 3), (27, 1, 19, 1), (28, 1, 147, 4), (29, 1, 71, 3),
     (30, 1, 137, 4), (31, 1, 133, 4), (32, 0, 0, 5), (33, 1, 125, 4), (34, 1, 121, 4), (35, 1, 59, 3),
     (36, 1, 57, 3), (37, 1, 111, 4), (38, 1, 27, 2), (39, 1, 211, 5), (40, 1, 103, 4), (41, 1, 25, 2),
     (42, 1, 49, 3), (43, 1, 6, 0), (44, 1, 47, 3), (45, 1, 23, 2), (46, 1, 45, 3), (47, 1, 11, 1),
     (48, 1, 43, 3), (49, 1, 21, 2), (50, 1, 41, 3), (51, 1, 81, 4), (52, 1, 79, 4), (53, 1, 39, 3),
     (54, 1, 19, 2), (55, 1, 75, 4), (56, 1, 147, 5), (57, 1, 9, 1), (58, 1, 71, 4), (59, 1, 35, 3),
     (60, 1, 137, 5), (61, 1, 135, 5), (62, 1, 133, 5), (63, 1, 131, 5), (64, 0, 0, 6),
     (65, 1, 127, 5), (66, 1, 63, 4), (67, 1, 31, 3), (68, 1, 61, 4), (69, 1, 15, 2), (70, 1, 59, 4),
     (71, 1, 29, 3), (72, 1, 57, 4), (73, 1, 113, 5), (74, 1, 7, 1), (75, 1, 55, 4), (76, 1, 27, 3),
     (77, 1, 107, 5), (78, 1, 53, 4), (79, 1, 13, 2), (80, 1, 103, 5), (81, 1, 51, 4), (82, 1, 25, 3),
     (83, 1, 99, 5), (84, 1, 49, 4), (85, 1, 97, 5), (86, 1, 3, 0), (87, 1, 95, 5), (88, 1, 47, 4),
     (89, 1, 93, 5), (90, 1, 23, 3), (91, 1, 91, 5), (92, 1, 45, 4), (93, 1, 89, 5), (94, 1, 11, 2),
     (95, 1, 87, 5), (96, 1, 43, 4), (97, 1, 85, 5), (98, 1, 21, 3), (99, 1, 83, 5), (100, 1, 41, 4),
     (101, 1, 163, 6), (102, 1, 81, 5), (103, 1, 5, 1), (104, 1, 79, 5), (105, 1, 157, 6),
     (106, 1, 39, 4), (107, 1, 77, 5), (108, 1, 19, 3), (109, 1, 151, 6), (110, 1, 75, 5),
     (111, 1, 37, 4), (112, 1, 147, 6), (113, 1, 73, 5), (114, 1, 9, 2), (115, 1, 143, 6),
     (116, 1, 71, 5), (117, 1, 141, 6), (118, 1, 35, 4), (119, 1, 69, 5), (120, 1, 137, 6),
     (121, 1, 17, 3), (122, 1, 135, 6), (123, 1, 67, 5), (124, 1, 133, 6), (125, 1, 33, 4),
     (126, 1, 131, 6), (127, 1, 65, 5), (128, 0, 0, 7), (129, 0, 0, 7), (130, 0, 0, 7), (131, 0, 0, 7),
     (132, 0, 0, 7), (133, 0, 0, 7), (134, 0, 0, 7), (135, 0, 0, 7), (136, 0, 0, 7), (137, 0, 0, 7),
     (138, 0, 0, 7), (139, 0, 0, 7), (140, 0, 0, 7), (141, 0, 0, 7), (142, 0, 0, 7), (143, 0, 0, 7),
     (144, 0, 0, 7), (145, 0, 0, 7), (146, 0, 0, 7), (147, 0, 0, 7), (148, 0, 0, 7), (149, 0, 0, 7),
     (150, 0, 0, 7), (151, 0, 0, 7), (152, 0, 0, 7), (153, 0, 0, 7), (154, 0, 0, 7), (155, 0, 0, 7),
     (156, 0, 0, 7), (157, 0, 0, 7), (158, 0, 0, 7), (159, 0, 0, 7), (160, 0, 0, 7), (161, 0, 0, 7),
     (162, 0, 0, 7), (163, 0, 0, 7), (164, 0, 0, 7), (165, 0, 0, 7), (166, 0, 0, 7), (167, 0, 0, 7),
     (168, 0, 0, 7), (169, 0, 0, 7), (170, 0, 0, 7), (171, 0, 0, 7), (172, 0, 0, 7), (173, 0, 0, 7),
     (174, 0, 0, 7), (175, 0, 0, 7), (176, 0, 0, 7), (177, 0, 0, 7), (178, 0, 0, 7), (179, 0, 0, 7),
     (180, 0, 0, 7), (181, 0, 0, 7), (182, 0, 0, 7), (183, 0, 0, 7), (184, 0, 0, 7), (185, 0, 0, 7),
     (186, 0, 0, 7), (187, 0, 0, 7), (188, 0, 0, 7), (189, 0, 0, 7), (190, 0, 0, 7), (191, 0, 0, 7),
     (192, 0, 0, 7), (193, 0, 0, 7), (194, 0, 0, 7), (195, 0, 0, 7), (196, 0, 0, 7), (197, 0, 0, 7),
     (198, 0, 0, 7), (199, 0, 0, 7), (200, 0, 0, 7), (201, 0, 0, 7), (202, 0, 0, 7), (203, 0, 0, 7),
     (204, 0, 0, 7), (205, 0, 0, 7), (206, 0, 0, 7), (207, 0, 0, 7), (208, 0, 0, 7), (209, 0, 0, 7),
     (210, 0, 0, 7), (211, 0, 0, 7), (212, 0, 0, 7), (213, 0, 0, 7), (214, 0, 0, 7), (215, 0, 0, 7),
     (216, 0, 0, 7), (217, 0, 0, 7), (218, 0, 0, 7), (219, 0, 0, 7), (220, 0, 0, 7), (221, 0, 0, 7),
     (222, 0, 0, 7), (223, 0, 0, 7), (224, 0, 0, 7), (225, 0, 0, 7), (226, 0, 0, 7), (227, 0, 0, 7),
     (228, 0, 0, 7), (229, 0, 0, 7), (230, 0, 0, 7), (231, 0, 0, 7), (232, 0, 0, 7), (233, 0, 0, 7),
     (234, 0, 0, 7), (235, 0, 0, 7), (236, 0, 0, 7), (237, 0, 0, 7), (238, 0, 0, 7), (239, 0, 0, 7),
     (240, 0, 0, 7), (241, 0, 0, 7), (242, 0, 0, 7), (243, 0, 0, 7), (244, 0, 0, 7), (245, 0, 0, 7),
     (246, 0, 0, 7), (247, 0, 0, 7), (248, 0, 0, 7), (249, 0, 0, 7), (250, 0, 0, 7), (251, 0, 0, 7),
     (252, 0, 0, 7), (253, 0, 0, 7), (254, 0, 0, 7), (255, 0, 0, 7)]"

definition table_u16 :: "div_row list" where
  "table_u16 = [(256, 0, 0, 8), (1, 0, 0, 0), (2, 0, 0, 1), (3, 1, 43691, 1), (4, 0, 0, 2), (5, 1, 52429, 2),
     (6, 1, 43691, 2), (7, 2, 9363, 2), (8, 0, 0, 3), (9, 1, 58255, 3), (10, 1, 52429, 3),
     (11, 1, 47663, 3), (12, 1, 43691, 3), (13, 1, 20165, 2), (14, 2, 9363, 3), (15, 1, 34953, 3),
     (16, 0, 0, 4), (17, 1, 61681, 4), (18, 1, 58255, 4), (19, 1, 55189, 4), (20, 1, 52429, 4),
     (21, 2, 34329, 4), (22, 1, 47663, 4), (23, 2, 25645, 4), (24, 1, 43691, 4), (25, 2, 18351, 4),
     (26, 1, 20165, 3), (27, 2, 12137, 4), (28, 2, 9363, 4), (29, 1, 18079, 3), (30, 1, 34953, 4),
     (31, 2, 2115, 4), (32, 0, 0, 5), (33, 1, 63551, 5), (34, 1, 61681, 5), (35, 1, 59919, 5),
     (36, 1, 58255, 5), (37, 1, 7085, 2), (38, 1, 55189, 5), (39, 2, 42011, 5), (40, 1, 52429, 5),
     (41, 2, 36765, 5), (42, 2, 34329, 5), (43, 1, 48771, 5), (44, 1, 47663, 5), (45, 1, 11651, 3),
     (46, 2, 25645, 5), (47, 2, 23705, 5), (48, 1, 43691, 5), (49, 2, 20063, 5), (50, 2, 18351, 5),
     (51, 1, 41121, 5), (52, 1, 20165, 4), (53, 1, 39569, 5), (54, 2, 12137, 5), (55, 2, 10725, 5),
     (56, 2, 9363, 5), (57, 2, 8049, 5), (58, 1, 18079, 4), (59, 1, 35545, 5), (60, 1, 34953, 5),
     (61, 1, 8595, 3), (62, 2, 2115, 5), (63, 2, 1041, 5), (64, 0, 0, 6), (65, 1, 4033, 2),
     (66, 1, 63551, 6), (67, 1, 31301, 5), (68, 1, 61681, 6), (69, 2, 56039, 6), (70, 1, 59919, 6),
     (71, 1, 59075, 6), (72, 1, 58255, 6), (73, 1, 57457, 6), (74, 1, 7085, 3), (75, 2, 46313, 6),
     (76, 1, 55189, 6), (77, 1, 6809, 3), (78, 2, 42011, 6), (79, 1, 53093, 6), (80, 1, 52429, 6),
     (81, 1, 25891, 5), (82, 2, 36765, 6), (83, 1, 25267, 5), (84, 2, 34329, 6), (85, 1, 49345, 6),
     (86, 1, 48771, 6), (87, 1, 48211, 6), (88, 1, 47663, 6), (89, 2, 28719, 6), (90, 1, 11651, 4),
     (91, 2, 26647, 6), (92, 2, 25645, 6), (93, 2, 24665, 6), (94, 2, 23705, 6), (95, 1, 44151, 6),
     (96, 1, 43691, 6), (97, 2, 20945, 6), (98, 2, 20063, 6), (99, 1, 42367, 6), (100, 2, 18351, 6),
     (101, 1, 5191, 3), (102, 1, 41121, 6), (103, 1, 20361, 5), (104, 1, 20165, 5), (105, 1, 19973, 5),
     (106, 1, 39569, 6), (107, 2, 12863, 6), (108, 2, 12137, 6), (109, 1, 2405, 2), (110, 2, 10725, 6),
     (111, 1, 37787, 6), (112, 2, 9363, 6), (113, 1, 18559, 5), (114, 2, 8049, 6), (115, 2, 7409, 6),
     (116, 1, 18079, 5), (117, 1, 35849, 6), (118, 1, 35545, 6), (119, 2, 4957, 6), (120, 1, 34953, 6),
     (121, 1, 4333, 3), (122, 1, 8595, 4), (123, 2, 2665, 6), (124, 2, 2115, 6), (125, 2, 1573, 6),
     (126, 2, 1041, 6), (127, 2, 517, 6), (128, 0, 0, 7), (129, 1, 16257, 5), (130, 1, 4033, 3),
     (131, 1, 16009, 5), (132, 1, 63551, 7), (133, 1, 63073, 7), (134, 1, 31301, 6),
     (135, 1, 31069, 6), (136, 1, 61681, 7), (137, 1, 61231, 7), (138, 2, 56039, 7),
     (139, 1, 30175, 6), (140, 1, 59919, 7), (141, 1, 29747, 6), (142, 1, 59075, 7),
     (143, 1, 29331, 6), (144, 1, 58255, 7), (145, 1, 57853, 7), (146, 1, 57457, 7),
     (147, 1, 28533, 6), (148, 1, 7085, 4), (149, 1, 14075, 5), (150, 2, 46313, 7), (151, 1, 27777, 6),
     (152, 1, 55189, 7), (153, 1, 13707, 5), (154, 1, 6809, 4), (155, 2, 42705, 7), (156, 2, 42011, 7),
     (157, 1, 53431, 7), (158, 1, 53093, 7), (159, 1, 52759, 7), (160, 1, 52429, 7),
     (161, 2, 38671, 7), (162, 1, 25891, 6), (163, 1, 6433, 4), (164, 2, 36765, 7), (165, 2, 36145, 7),
     (166, 1, 25267, 6), (167, 2, 34927, 7), (168, 2, 34329, 7), (169, 1, 49637, 7),
     (170, 1, 49345, 7), (171, 2, 32577, 7), (172, 1, 48771, 7), (173, 2, 31443, 7),
     (174, 1, 48211, 7), (175, 1, 47935, 7), (176, 1, 47663, 7), (177, 2, 29251, 7),
     (178, 2, 28719, 7), (179, 1, 2929, 3), (180, 1, 11651, 5), (181, 1, 23173, 6), (182, 2, 26647, 7),
     (183, 1, 2865, 3), (184, 2, 25645, 7), (185, 1, 1417, 2), (186, 2, 24665, 7), (187, 1, 44859, 7),
     (188, 2, 23705, 7), (189, 2, 23233, 7), (190, 1, 44151, 7), (191, 1, 2745, 3), (192, 1, 43691, 7),
     (193, 2, 21393, 7), (194, 2, 20945, 7), (195, 1, 43019, 7), (196, 2, 20063, 7),
     (197, 1, 21291, 6), (198, 1, 42367, 7), (199, 1, 21077, 6), (200, 2, 18351, 7),
     (201, 1, 41735, 7), (202, 1, 5191, 4), (203, 2, 17111, 7), (204, 1, 41121, 7), (205, 2, 16305, 7),
     (206, 1, 20361, 6), (207, 1, 40525, 7), (208, 1, 20165, 6), (209, 1, 40137, 7),
     (210, 1, 19973, 6), (211, 1, 39757, 7), (212, 1, 39569, 7), (213, 2, 13231, 7),
     (214, 2, 12863, 7), (215, 1, 39017, 7), (216, 2, 12137, 7), (217, 2, 11779, 7), (218, 1, 2405, 3),
     (219, 2, 11073, 7), (220, 2, 10725, 7), (221, 1, 18979, 6), (222, 1, 37787, 7), (223, 2, 9699, 7),
     (224, 2, 9363, 7), (225, 1, 37283, 7), (226, 1, 18559, 6), (227, 2, 8373, 7), (228, 2, 8049, 7),
     (229, 1, 4579, 4), (230, 2, 7409, 7), (231, 2, 7093, 7), (232, 1, 18079, 6), (233, 1, 36003, 7),
     (234, 1, 35849, 7), (235, 2, 5857, 7), (236, 1, 35545, 7), (237, 1, 35395, 7), (238, 2, 4957, 7),
     (239, 1, 35099, 7), (240, 1, 34953, 7), (241, 1, 4351, 4), (242, 1, 4333, 4), (243, 2, 3507, 7),
     (244, 1, 8595, 5), (245, 2, 2943, 7), (246, 2, 2665, 7), (247, 1, 16981, 6), (248, 2, 2115, 7),
     (249, 2, 1843, 7), (250, 2, 1573, 7), (251, 1, 33421, 7), (252, 2, 1041, 7), (253, 1, 33157, 7),
     (254, 2, 517, 7), (255, 1, 32897, 7)]"

definition table_s16 :: "div_row list" where
  "table_s16 = [(256, 1, 32769, 7), (1, 0, 0, 0), (2, 0, 0, 1), (3, 1, 21846, 0), (4, 0, 0, 2), (5, 1, 26215, 1),
     (6, 1, 10923, 0), (7, 1, 18725, 1), (8, 0, 0, 3), (9, 1, 7282, 0), (10, 1, 26215, 2),
     (11, 1, 5958, 0), (12, 1, 10923, 1), (13, 1, 20165, 2), (14, 1, 18725, 2), (15, 1, 34953, 3),
     (16, 0, 0, 4), (17, 1, 30841, 3), (18, 1, 3641, 0), (19, 1, 55189, 4), (20, 1, 26215, 3),
     (21, 1, 49933, 4), (22, 1, 2979, 0), (23, 1, 45591, 4), (24, 1, 10923, 2), (25, 1, 5243, 1),
     (26, 1, 20165, 3), (27, 1, 38837, 4), (28, 1, 18725, 3), (29, 1, 18079, 3), (30, 1, 34953, 4),
     (31, 1, 16913, 3), (32, 0, 0, 5), (33, 1, 1986, 0), (34, 1, 30841, 4), (35, 1, 3745, 1),
     (36, 1, 3641, 1), (37, 1, 7085, 2), (38, 1, 55189, 5), (39, 1, 26887, 4), (40, 1, 26215, 4),
     (41, 1, 51151, 5), (42, 1, 49933, 5), (43, 1, 12193, 3), (44, 1, 2979, 1), (45, 1, 11651, 3),
     (46, 1, 45591, 5), (47, 1, 44621, 5), (48, 1, 10923, 3), (49, 1, 2675, 1), (50, 1, 5243, 2),
     (51, 1, 41121, 5), (52, 1, 20165, 4), (53, 1, 19785, 4), (54, 1, 38837, 5), (55, 1, 38131, 5),
     (56, 1, 18725, 4), (57, 1, 36793, 5), (58, 1, 18079, 4), (59, 1, 17773, 4), (60, 1, 34953, 5),
     (61, 1, 8595, 3), (62, 1, 16913, 4), (63, 1, 33289, 5), (64, 0, 0, 6), (65, 1, 4033, 2),
     (66, 1, 993, 0), (67, 1, 31301, 5), (68, 1, 30841, 5), (69, 1, 15197, 4), (70, 1, 3745, 2),
     (71, 1, 14769, 4), (72, 1, 3641, 2), (73, 1, 57457, 6), (74, 1, 7085, 3), (75, 1, 55925, 6),
     (76, 1, 55189, 6), (77, 1, 6809, 3), (78, 1, 26887, 5), (79, 1, 26547, 5), (80, 1, 26215, 5),
     (81, 1, 25891, 5), (82, 1, 51151, 6), (83, 1, 25267, 5), (84, 1, 49933, 6), (85, 1, 24673, 5),
     (86, 1, 12193, 4), (87, 1, 48211, 6), (88, 1, 2979, 2), (89, 1, 5891, 3), (90, 1, 11651, 4),
     (91, 1, 11523, 4), (92, 1, 45591, 6), (93, 1, 45101, 6), (94, 1, 44621, 6), (95, 1, 44151, 6),
     (96, 1, 10923, 4), (97, 1, 43241, 6), (98, 1, 2675, 2), (99, 1, 662, 0), (100, 1, 5243, 3),
     (101, 1, 5191, 3), (102, 1, 41121, 6), (103, 1, 20361, 5), (104, 1, 20165, 5), (105, 1, 19973, 5),
     (106, 1, 19785, 5), (107, 1, 1225, 1), (108, 1, 38837, 6), (109, 1, 2405, 2), (110, 1, 38131, 6),
     (111, 1, 37787, 6), (112, 1, 18725, 5), (113, 1, 18559, 5), (114, 1, 36793, 6),
     (115, 1, 36473, 6), (116, 1, 18079, 5), (117, 1, 35849, 6), (118, 1, 17773, 5),
     (119, 1, 35247, 6), (120, 1, 34953, 6), (121, 1, 4333, 3), (122, 1, 8595, 4), (123, 1, 34101, 6),
     (124, 1, 16913, 5), (125, 1, 33555, 6), (126, 1, 33289, 6), (127, 1, 33027, 6), (128, 0, 0, 7),
     (129, 1, 16257, 5), (130, 1, 4033, 3), (131, 1, 16009, 5), (132, 1, 993, 1), (133, 1, 31537, 6),
     (134, 1, 31301, 6), (135, 1, 31069, 6), (136, 1, 30841, 6), (137, 1, 3827, 3), (138, 1, 15197, 5),
     (139, 1, 30175, 6), (140, 1, 3745, 3), (141, 1, 29747, 6), (142, 1, 14769, 5), (143, 1, 29331, 6),
     (144, 1, 3641, 3), (145, 1, 28927, 6), (146, 1, 57457, 7), (147, 1, 28533, 6), (148, 1, 7085, 4),
     (149, 1, 14075, 5), (150, 1, 55925, 7), (151, 1, 27777, 6), (152, 1, 55189, 7),
     (153, 1, 13707, 5), (154, 1, 6809, 4), (155, 1, 54121, 7), (156, 1, 26887, 6), (157, 1, 6679, 4),
     (158, 1, 26547, 6), (159, 1, 6595, 4), (160, 1, 26215, 6), (161, 1, 6513, 4), (162, 1, 25891, 6),
     (163, 1, 6433, 4), (164, 1, 51151, 7), (165, 1, 50841, 7), (166, 1, 25267, 6), (167, 1, 6279, 4),
     (168, 1, 49933, 7), (169, 1, 24819, 6), (170, 1, 24673, 6), (171, 1, 49057, 7),
     (172, 1, 12193, 5), (173, 1, 24245, 6), (174, 1, 48211, 7), (175, 1, 749, 1), (176, 1, 2979, 3),
     (177, 1, 23697, 6), (178, 1, 5891, 4), (179, 1, 2929, 3), (180, 1, 11651, 5), (181, 1, 23173, 6),
     (182, 1, 11523, 5), (183, 1, 2865, 3), (184, 1, 45591, 7), (185, 1, 1417, 2), (186, 1, 45101, 7),
     (187, 1, 11215, 5), (188, 1, 44621, 7), (189, 1, 44385, 7), (190, 1, 44151, 7), (191, 1, 2745, 3),
     (192, 1, 10923, 5), (193, 1, 43465, 7), (194, 1, 43241, 7), (195, 1, 43019, 7), (196, 1, 2675, 3),
     (197, 1, 21291, 6), (198, 1, 331, 0), (199, 1, 21077, 6), (200, 1, 5243, 4), (201, 1, 41735, 7),
     (202, 1, 5191, 4), (203, 1, 10331, 5), (204, 1, 41121, 7), (205, 1, 40921, 7), (206, 1, 20361, 6),
     (207, 1, 40525, 7), (208, 1, 20165, 6), (209, 1, 20069, 6), (210, 1, 19973, 6),
     (211, 1, 39757, 7), (212, 1, 19785, 6), (213, 1, 4923, 4), (214, 1, 1225, 2), (215, 1, 39017, 7),
     (216, 1, 38837, 7), (217, 1, 19329, 6), (218, 1, 2405, 3), (219, 1, 38305, 7), (220, 1, 38131, 7),
     (221, 1, 18979, 6), (222, 1, 37787, 7), (223, 1, 18809, 6), (224, 1, 18725, 6),
     (225, 1, 37283, 7), (226, 1, 18559, 6), (227, 1, 36955, 7), (228, 1, 36793, 7), (229, 1, 4579, 4),
     (230, 1, 36473, 7), (231, 1, 36315, 7), (232, 1, 18079, 6), (233, 1, 36003, 7),
     (234, 1, 35849, 7), (235, 1, 35697, 7), (236, 1, 17773, 6), (237, 1, 8849, 5), (238, 1, 35247, 7),
     (239, 1, 35099, 7), (240, 1, 34953, 7), (241, 1, 4351, 4), (242, 1, 4333, 4), (243, 1, 17261, 6),
     (244, 1, 8595, 5), (245, 1, 535, 1), (246, 1, 34101, 7), (247, 1, 16981, 6), (248, 1, 16913, 6),
     (249, 1, 16845, 6), (250, 1, 33555, 7), (251, 1, 33421, 7), (252, 1, 33289, 7),
     (253, 1, 33157, 7), (254, 1, 33027, 7), (255, 1, 32897, 7)]"

definition table_u32 :: "div_row list" where
  "table_u32 = [(256, 0, 0, 8), (1, 0, 0, 0), (2, 0, 0, 1), (3, 1, 2863311531, 1), (4, 0, 0, 2),
     (5, 1, 3435973837, 2), (6, 1, 2863311531, 2), (7, 2, 613566757, 2), (8, 0, 0, 3),
     (9, 1, 954437177, 1), (10, 1, 3435973837, 3), (11, 1, 3123612579, 3), (12, 1, 2863311531, 3),
     (13, 1, 1321528399, 2), (14, 2, 613566757, 3), (15, 1, 2290649225, 3), (16, 0, 0, 4),
     (17, 1, 4042322161, 4), (18, 1, 954437177, 2), (19, 2, 2938661835, 4), (20, 1, 3435973837, 4),
     (21, 2, 2249744775, 4), (22, 1, 3123612579, 4), (23, 1, 2987803337, 4), (24, 1, 2863311531, 4),
     (25, 1, 1374389535, 3), (26, 1, 1321528399, 3), (27, 2, 795364315, 4), (28, 2, 613566757, 4),
     (29, 1, 2369637129, 4), (30, 1, 2290649225, 4), (31, 2, 138547333, 4), (32, 0, 0, 5),
     (33, 1, 1041204193, 3), (34, 1, 4042322161, 5), (35, 2, 3558687189, 5), (36, 1, 954437177, 3),
     (37, 2, 3134165325, 5), (38, 2, 2938661835, 5), (39, 2, 2753184165, 5), (40, 1, 3435973837, 5),
     (41, 1, 3352169597, 5), (42, 2, 2249744775, 5), (43, 1, 799063683, 3), (44, 1, 3123612579, 5),
     (45, 2, 1813430637, 5), (46, 1, 2987803337, 5), (47, 1, 2924233053, 5), (48, 1, 2863311531, 5),
     (49, 1, 1402438301, 4), (50, 1, 1374389535, 4), (51, 1, 2694881441, 5), (52, 1, 1321528399, 4),
     (53, 2, 891408307, 5), (54, 2, 795364315, 5), (55, 2, 702812831, 5), (56, 2, 613566757, 5),
     (57, 2, 527452125, 5), (58, 1, 2369637129, 5), (59, 1, 582368447, 3), (60, 1, 2290649225, 5),
     (61, 1, 1126548799, 4), (62, 2, 138547333, 5), (63, 2, 68174085, 5), (64, 0, 0, 6),
     (65, 1, 4228890877, 6), (66, 1, 1041204193, 4), (67, 1, 128207979, 1), (68, 1, 4042322161, 6),
     (69, 1, 1991868891, 5), (70, 2, 3558687189, 6), (71, 1, 3871519817, 6), (72, 1, 954437177, 4),
     (73, 2, 3235934265, 6), (74, 2, 3134165325, 6), (75, 1, 458129845, 3), (76, 2, 2938661835, 6),
     (77, 1, 892460737, 4), (78, 2, 2753184165, 6), (79, 1, 3479467177, 6), (80, 1, 3435973837, 6),
     (81, 1, 3393554407, 6), (82, 1, 3352169597, 6), (83, 1, 827945503, 4), (84, 2, 2249744775, 6),
     (85, 1, 3233857729, 6), (86, 1, 799063683, 4), (87, 1, 789879043, 4), (88, 1, 3123612579, 6),
     (89, 1, 3088515809, 6), (90, 2, 1813430637, 6), (91, 2, 1746305385, 6), (92, 1, 2987803337, 6),
     (93, 1, 2955676419, 6), (94, 1, 2924233053, 6), (95, 2, 1491936009, 6), (96, 1, 2863311531, 6),
     (97, 2, 1372618415, 6), (98, 1, 1402438301, 5), (99, 1, 2776544515, 6), (100, 1, 1374389535, 5),
     (101, 2, 1148159575, 6), (102, 1, 2694881441, 6), (103, 2, 1042467791, 6),
     (104, 1, 1321528399, 5), (105, 2, 940802361, 6), (106, 2, 891408307, 6), (107, 2, 842937507, 6),
     (108, 2, 795364315, 6), (109, 2, 748664025, 6), (110, 2, 702812831, 6), (111, 2, 657787785, 6),
     (112, 2, 613566757, 6), (113, 2, 570128403, 6), (114, 2, 527452125, 6), (115, 2, 485518043, 6),
     (116, 1, 2369637129, 6), (117, 2, 403800345, 6), (118, 1, 582368447, 4), (119, 1, 1154949189, 5),
     (120, 1, 2290649225, 6), (121, 2, 248469183, 6), (122, 1, 1126548799, 5), (123, 2, 174592167, 6),
     (124, 2, 138547333, 6), (125, 1, 274877907, 3), (126, 2, 68174085, 6), (127, 2, 33818641, 6),
     (128, 0, 0, 7), (129, 1, 266354561, 3), (130, 1, 4228890877, 7), (131, 1, 4196609267, 7),
     (132, 1, 1041204193, 5), (133, 1, 4133502361, 7), (134, 1, 128207979, 2), (135, 1, 4072265289, 7),
     (136, 1, 4042322161, 7), (137, 1, 125400505, 2), (138, 1, 1991868891, 6), (139, 1, 1977538899, 6),
     (140, 2, 3558687189, 7), (141, 1, 974744351, 5), (142, 1, 3871519817, 7), (143, 1, 3844446251, 7),
     (144, 1, 954437177, 5), (145, 1, 3791419407, 7), (146, 2, 3235934265, 7), (147, 1, 3739835469, 7),
     (148, 2, 3134165325, 7), (149, 1, 3689636335, 7), (150, 1, 458129845, 4), (151, 1, 910191745, 5),
     (152, 2, 2938661835, 7), (153, 1, 3593175255, 7), (154, 1, 892460737, 5), (155, 1, 3546811703, 7),
     (156, 2, 2753184165, 7), (157, 1, 875407347, 5), (158, 1, 3479467177, 7), (159, 2, 2620200175, 7),
     (160, 1, 3435973837, 7), (161, 1, 3414632385, 7), (162, 1, 3393554407, 7),
     (163, 1, 3372735055, 7), (164, 1, 3352169597, 7), (165, 1, 1665926709, 6), (166, 1, 827945503, 5),
     (167, 1, 1645975491, 6), (168, 2, 2249744775, 7), (169, 1, 1626496491, 6),
     (170, 1, 3233857729, 7), (171, 2, 2134925265, 7), (172, 1, 799063683, 5), (173, 2, 2060591247, 7),
     (174, 1, 789879043, 5), (175, 1, 1570730897, 6), (176, 1, 3123612579, 7), (177, 2, 1916962805, 7),
     (178, 1, 3088515809, 7), (179, 2, 1847555765, 7), (180, 2, 1813430637, 7),
     (181, 1, 3037324939, 7), (182, 2, 1746305385, 7), (183, 1, 3004130131, 7),
     (184, 1, 2987803337, 7), (185, 2, 1648338801, 7), (186, 1, 2955676419, 7),
     (187, 1, 2939870663, 7), (188, 1, 2924233053, 7), (189, 2, 1522554545, 7),
     (190, 2, 1491936009, 7), (191, 1, 2878302691, 7), (192, 1, 2863311531, 7), (193, 1, 356059465, 4),
     (194, 2, 1372618415, 7), (195, 2, 1343553873, 7), (196, 1, 1402438301, 6),
     (197, 2, 1286310003, 7), (198, 1, 2776544515, 7), (199, 1, 1381296015, 6),
     (200, 1, 1374389535, 6), (201, 1, 42735993, 1), (202, 2, 1148159575, 7), (203, 1, 2708156719, 7),
     (204, 1, 2694881441, 7), (205, 1, 1340867839, 6), (206, 2, 1042467791, 7), (207, 1, 663956297, 5),
     (208, 1, 1321528399, 6), (209, 1, 2630410593, 7), (210, 2, 940802361, 7), (211, 1, 2605477791, 7),
     (212, 2, 891408307, 7), (213, 1, 2581013211, 7), (214, 2, 842937507, 7), (215, 1, 1278501893, 6),
     (216, 2, 795364315, 7), (217, 2, 771906565, 7), (218, 2, 748664025, 7), (219, 2, 725633745, 7),
     (220, 2, 702812831, 7), (221, 2, 680198441, 7), (222, 2, 657787785, 7), (223, 2, 635578121, 7),
     (224, 2, 613566757, 7), (225, 1, 2443359173, 7), (226, 2, 570128403, 7), (227, 2, 548696263, 7),
     (228, 2, 527452125, 7), (229, 1, 1200340205, 6), (230, 2, 485518043, 7), (231, 2, 464823301, 7),
     (232, 1, 2369637129, 7), (233, 2, 423966729, 7), (234, 2, 403800345, 7), (235, 2, 383805589, 7),
     (236, 1, 582368447, 5), (237, 2, 344322273, 7), (238, 1, 1154949189, 6), (239, 1, 2300233531, 7),
     (240, 1, 2290649225, 7), (241, 1, 285143057, 4), (242, 2, 248469183, 7), (243, 1, 2262369605, 7),
     (244, 1, 1126548799, 6), (245, 2, 192835267, 7), (246, 2, 174592167, 7), (247, 2, 156496785, 7),
     (248, 2, 138547333, 7), (249, 2, 120742053, 7), (250, 1, 274877907, 4), (251, 1, 2190262207, 7),
     (252, 2, 68174085, 7), (253, 1, 2172947881, 7), (254, 2, 33818641, 7), (255, 1, 2155905153, 7)]"

definition table_s32 :: "div_row list" where
  "table_s32 = [(256, 1, 2147483649, 7), (1, 0, 0, 0), (2, 0, 0, 1), (3, 1, 1431655766, 0), (4, 0, 0, 2),
     (5, 1, 1717986919, 1), (6, 1, 715827883, 0), (7, 1, 2454267027, 2), (8, 0, 0, 3),
     (9, 1, 954437177, 1), (10, 1, 1717986919, 2), (11, 1, 780903145, 1), (12, 1, 715827883, 1),
     (13, 1, 1321528399, 2), (14, 1, 2454267027, 3), (15, 1, 2290649225, 3), (16, 0, 0, 4),
     (17, 1, 2021161081, 3), (18, 1, 954437177, 2), (19, 1, 1808407283, 3), (20, 1, 1717986919, 3),
     (21, 1, 818089009, 2), (22, 1, 780903145, 2), (23, 1, 2987803337, 4), (24, 1, 715827883, 2),
     (25, 1, 1374389535, 3), (26, 1, 1321528399, 3), (27, 1, 1272582903, 3), (28, 1, 2454267027, 4),
     (29, 1, 2369637129, 4), (30, 1, 2290649225, 4), (31, 1, 2216757315, 4), (32, 0, 0, 5),
     (33, 1, 1041204193, 3), (34, 1, 2021161081, 4), (35, 1, 3926827243, 5), (36, 1, 954437177, 3),
     (37, 1, 3714566311, 5), (38, 1, 1808407283, 4), (39, 1, 3524075731, 5), (40, 1, 1717986919, 4),
     (41, 1, 1676084799, 4), (42, 1, 818089009, 3), (43, 1, 799063683, 3), (44, 1, 780903145, 3),
     (45, 1, 3054198967, 5), (46, 1, 2987803337, 5), (47, 1, 2924233053, 5), (48, 1, 715827883, 3),
     (49, 1, 1402438301, 4), (50, 1, 1374389535, 4), (51, 1, 2694881441, 5), (52, 1, 1321528399, 4),
     (53, 1, 1296593901, 4), (54, 1, 1272582903, 4), (55, 1, 156180629, 1), (56, 1, 2454267027, 5),
     (57, 1, 2411209711, 5), (58, 1, 2369637129, 5), (59, 1, 582368447, 3), (60, 1, 2290649225, 5),
     (61, 1, 1126548799, 4), (62, 1, 2216757315, 5), (63, 1, 2181570691, 5), (64, 0, 0, 6),
     (65, 1, 2114445439, 5), (66, 1, 1041204193, 4), (67, 1, 128207979, 1), (68, 1, 2021161081, 5),
     (69, 1, 1991868891, 5), (70, 1, 3926827243, 6), (71, 1, 3871519817, 6), (72, 1, 954437177, 4),
     (73, 1, 3765450781, 6), (74, 1, 3714566311, 6), (75, 1, 458129845, 3), (76, 1, 1808407283, 5),
     (77, 1, 892460737, 4), (78, 1, 3524075731, 6), (79, 1, 1739733589, 5), (80, 1, 1717986919, 5),
     (81, 1, 424194301, 3), (82, 1, 1676084799, 5), (83, 1, 827945503, 4), (84, 1, 818089009, 4),
     (85, 1, 1616928865, 5), (86, 1, 799063683, 4), (87, 1, 789879043, 4), (88, 1, 780903145, 4),
     (89, 1, 3088515809, 6), (90, 1, 3054198967, 6), (91, 1, 3020636341, 6), (92, 1, 2987803337, 6),
     (93, 1, 738919105, 4), (94, 1, 2924233053, 6), (95, 1, 2893451653, 6), (96, 1, 715827883, 4),
     (97, 1, 354224107, 3), (98, 1, 1402438301, 5), (99, 1, 2776544515, 6), (100, 1, 1374389535, 5),
     (101, 1, 680390859, 4), (102, 1, 2694881441, 6), (103, 1, 333589693, 3), (104, 1, 1321528399, 5),
     (105, 1, 2617884829, 6), (106, 1, 1296593901, 5), (107, 1, 1284476201, 5),
     (108, 1, 1272582903, 5), (109, 1, 2521815661, 6), (110, 1, 156180629, 2), (111, 1, 2476377541, 6),
     (112, 1, 2454267027, 6), (113, 1, 1216273925, 5), (114, 1, 2411209711, 6),
     (115, 1, 1195121335, 5), (116, 1, 2369637129, 6), (117, 1, 2349383821, 6), (118, 1, 582368447, 4),
     (119, 1, 1154949189, 5), (120, 1, 2290649225, 6), (121, 1, 70991195, 1), (122, 1, 1126548799, 5),
     (123, 1, 558694933, 4), (124, 1, 2216757315, 6), (125, 1, 274877907, 3), (126, 1, 2181570691, 6),
     (127, 1, 2164392969, 6), (128, 0, 0, 7), (129, 1, 266354561, 3), (130, 1, 2114445439, 6),
     (131, 1, 1049152317, 5), (132, 1, 1041204193, 5), (133, 1, 4133502361, 7), (134, 1, 128207979, 2),
     (135, 1, 4072265289, 7), (136, 1, 2021161081, 6), (137, 1, 125400505, 2), (138, 1, 1991868891, 6),
     (139, 1, 1977538899, 6), (140, 1, 3926827243, 7), (141, 1, 974744351, 5), (142, 1, 3871519817, 7),
     (143, 1, 961111563, 5), (144, 1, 954437177, 5), (145, 1, 3791419407, 7), (146, 1, 3765450781, 7),
     (147, 1, 1869917735, 6), (148, 1, 3714566311, 7), (149, 1, 230602271, 3), (150, 1, 458129845, 4),
     (151, 1, 910191745, 5), (152, 1, 1808407283, 6), (153, 1, 3593175255, 7), (154, 1, 892460737, 5),
     (155, 1, 443351463, 4), (156, 1, 3524075731, 7), (157, 1, 875407347, 5), (158, 1, 1739733589, 6),
     (159, 1, 432197967, 4), (160, 1, 1717986919, 6), (161, 1, 3414632385, 7), (162, 1, 424194301, 4),
     (163, 1, 210795941, 3), (164, 1, 1676084799, 6), (165, 1, 1665926709, 6), (166, 1, 827945503, 5),
     (167, 1, 1645975491, 6), (168, 1, 818089009, 5), (169, 1, 1626496491, 6), (170, 1, 1616928865, 6),
     (171, 1, 3214946281, 7), (172, 1, 799063683, 5), (173, 1, 397222409, 4), (174, 1, 789879043, 5),
     (175, 1, 1570730897, 6), (176, 1, 780903145, 5), (177, 1, 3105965051, 7), (178, 1, 3088515809, 7),
     (179, 1, 3071261531, 7), (180, 1, 3054198967, 7), (181, 1, 759331235, 5), (182, 1, 3020636341, 7),
     (183, 1, 3004130131, 7), (184, 1, 2987803337, 7), (185, 1, 2971653049, 7), (186, 1, 738919105, 5),
     (187, 1, 2939870663, 7), (188, 1, 2924233053, 7), (189, 1, 2908760921, 7),
     (190, 1, 2893451653, 7), (191, 1, 2878302691, 7), (192, 1, 715827883, 5), (193, 1, 356059465, 4),
     (194, 1, 354224107, 4), (195, 1, 2819260585, 7), (196, 1, 1402438301, 6), (197, 1, 1395319325, 6),
     (198, 1, 2776544515, 7), (199, 1, 1381296015, 6), (200, 1, 1374389535, 6), (201, 1, 42735993, 1),
     (202, 1, 680390859, 5), (203, 1, 2708156719, 7), (204, 1, 2694881441, 7), (205, 1, 1340867839, 6),
     (206, 1, 333589693, 4), (207, 1, 663956297, 5), (208, 1, 1321528399, 6), (209, 1, 2630410593, 7),
     (210, 1, 2617884829, 7), (211, 1, 81421181, 2), (212, 1, 1296593901, 6), (213, 1, 2581013211, 7),
     (214, 1, 1284476201, 6), (215, 1, 1278501893, 6), (216, 1, 1272582903, 6),
     (217, 1, 2533436931, 7), (218, 1, 2521815661, 7), (219, 1, 2510300521, 7), (220, 1, 156180629, 3),
     (221, 1, 2487582869, 7), (222, 1, 2476377541, 7), (223, 1, 2465272709, 7),
     (224, 1, 2454267027, 7), (225, 1, 2443359173, 7), (226, 1, 1216273925, 6), (227, 1, 605457945, 5),
     (228, 1, 2411209711, 7), (229, 1, 1200340205, 6), (230, 1, 1195121335, 6),
     (231, 1, 2379895299, 7), (232, 1, 2369637129, 7), (233, 1, 2359467013, 7),
     (234, 1, 2349383821, 7), (235, 1, 2339386443, 7), (236, 1, 582368447, 5), (237, 1, 2319644785, 7),
     (238, 1, 1154949189, 6), (239, 1, 2300233531, 7), (240, 1, 2290649225, 7), (241, 1, 285143057, 4),
     (242, 1, 70991195, 2), (243, 1, 2262369605, 7), (244, 1, 1126548799, 6), (245, 1, 1121950641, 6),
     (246, 1, 558694933, 5), (247, 1, 2225732041, 7), (248, 1, 2216757315, 7), (249, 1, 2207854675, 7),
     (250, 1, 274877907, 4), (251, 1, 2190262207, 7), (252, 1, 2181570691, 7), (253, 1, 2172947881, 7),
     (254, 1, 2164392969, 7), (255, 1, 2155905153, 7)]"

subsection \<open>Every entry is right\<close>

lemma table_u8_index: "map fst table_u8 = 256 # map int [1..<256]"
  by code_simp

lemma table_u8_ok: "list_all (row_ok 8 (2 ^ 8)) table_u8"
  by code_simp

lemma table_s8_index: "map fst table_s8 = 256 # map int [1..<256]"
  by code_simp

lemma table_s8_ok: "list_all (\<lambda>r. fst r \<le> 128 \<longrightarrow> row_ok 8 (2 ^ 7) r) table_s8"
  by code_simp

lemma table_u16_index: "map fst table_u16 = 256 # map int [1..<256]"
  by code_simp

lemma table_u16_ok: "list_all (row_ok 16 (2 ^ 16)) table_u16"
  by code_simp

lemma table_s16_index: "map fst table_s16 = 256 # map int [1..<256]"
  by code_simp

lemma table_s16_ok: "list_all (row_ok 16 (2 ^ 15)) table_s16"
  by code_simp

lemma table_u32_index: "map fst table_u32 = 256 # map int [1..<256]"
  by code_simp

lemma table_u32_ok: "list_all (row_ok 32 (2 ^ 32)) table_u32"
  by code_simp

lemma table_s32_index: "map fst table_s32 = 256 # map int [1..<256]"
  by code_simp

lemma table_s32_ok: "list_all (row_ok 32 (2 ^ 31)) table_s32"
  by code_simp

end
