(* ===== verification/FastDivide.thy ===== *)
theory FastDivide
  imports Semantics Rewriter DivTablesConst DivTablesRuntime
begin

text \<open>
  Integer division in generated code: \<open>lower_int_uint_div\<close> and its companions in \<open>CodeGen_Internal.cpp\<close>, for
  which the divisor may be a constant, and \<open>fast_integer_divide\<close> in \<open>FastIntegerDivide.cpp\<close>, for which it is
  a byte known when the program runs. The source composes an expression from operators; here every
  operator is the operation it stands for on values of the type of the numerator, so that a function
  gives the value that the expression it builds has for a value of the numerator. A shift of a signed
  number to the right keeps its sign; \<open>mulhi_shr\<close> and \<open>sorted_avg\<close> are as \<open>IR.h\<close> describes them.
\<close>

unbundle bit_operations_syntax

subsection \<open>Powers of two\<close>

text \<open>The loop of \<open>is_const_power_of_two_integer\<close>, which counts how often a number can be halved.\<close>

function halvings :: "nat \<Rightarrow> nat \<Rightarrow> nat option" where
  "halvings val bits =
     (if val = 0 then None else if val = 1 then Some bits else halvings (val div 2) (bits + 1))"
  by pat_completeness auto
termination by (relation "measure fst") auto

declare halvings.simps [simp del]

definition power_of_two_bits :: "int \<Rightarrow> nat option" where
  "power_of_two_bits val = (if val \<noteq> 0 \<and> val AND (val - 1) = 0 then halvings (nat val) 0 else None)"

fun is_const_power_of_two_integer :: "expr \<Rightarrow> nat option" where
  "is_const_power_of_two_integer (Broadcast v l) =
     (if is_int_or_uint (type_of (Broadcast v l)) then is_const_power_of_two_integer v else None)"
| "is_const_power_of_two_integer (Cast t v) =
     (if is_int_or_uint t then is_const_power_of_two_integer v else None)"
| "is_const_power_of_two_integer e =
     (if \<not> is_int_or_uint (type_of e) then None
      else case as_const_int e of
        Some i \<Rightarrow> if i < 0 then None else power_of_two_bits i
      | None \<Rightarrow> (case as_const_uint e of Some u \<Rightarrow> power_of_two_bits u | None \<Rightarrow> None))"

subsection \<open>Lowering a division\<close>

definition wrap_int :: "htype \<Rightarrow> int \<Rightarrow> int" where
  "wrap_int t z = (if is_int t then s_wrap (ty_bits t) z else u_wrap (ty_bits t) z)"

definition mulhi_shr :: "nat \<Rightarrow> int \<Rightarrow> int \<Rightarrow> nat \<Rightarrow> int" where
  "mulhi_shr bits a b shift = u_wrap bits (drop_bit shift (drop_bit bits (a * b)))"

definition sorted_avg :: "int \<Rightarrow> int \<Rightarrow> int" where
  "sorted_avg a b = (a + b) div 2"

definition signed_table :: "nat \<Rightarrow> div_row list" where
  "signed_table bits = (if bits = 32 then table_s32 else if bits = 16 then table_s16 else table_s8)"

definition unsigned_table :: "nat \<Rightarrow> div_row list" where
  "unsigned_table bits = (if bits = 32 then table_u32 else if bits = 16 then table_u16 else table_u8)"

definition signed_const_div :: "nat \<Rightarrow> int \<Rightarrow> int \<Rightarrow> int" where
  "signed_const_div bits a c = (case signed_table bits ! nat c of (_, _, multiplier, shift) \<Rightarrow>
     let sign = u_wrap bits (drop_bit (bits - 1) a);
         num = u_wrap bits a XOR sign;
         num = mulhi_shr bits num (u_wrap bits multiplier) (nat shift)
     in s_wrap bits (num XOR sign))"

definition unsigned_const_div :: "nat \<Rightarrow> int \<Rightarrow> int \<Rightarrow> int result" where
  "unsigned_const_div bits a c = (case unsigned_table bits ! nat c of (_, method, multiplier, shift) \<Rightarrow>
     assert_that (method \<noteq> 0)
       (let val = mulhi_shr bits a (u_wrap bits multiplier) (if method = 1 then nat shift else 0)
        in Inr (if method = 2
                then let val = sorted_avg val a in if shift \<noteq> 0 then drop_bit (nat shift) val else val
                else val)))"

definition lower_euclidean_div :: "htype \<Rightarrow> int \<Rightarrow> int \<Rightarrow> int" where
  "lower_euclidean_div t a b =
     (let q = wrap_int t (cdiv a b) in
      if is_int t then
        let r = wrap_int t (a - wrap_int t (q * b));
            bs = drop_bit (ty_bits t - 1) b;
            rs = drop_bit (ty_bits t - 1) r
        in wrap_int t (wrap_int t (q - (rs AND bs)) + (rs AND NOT bs))
      else q)"

definition lower_euclidean_mod :: "htype \<Rightarrow> int \<Rightarrow> int \<Rightarrow> int" where
  "lower_euclidean_mod t a b =
     (let r = wrap_int t (Prelude.cmod a b) in
      if is_int t then
        let sign_mask = drop_bit (ty_bits t - 1) r
        in wrap_int t (r + (sign_mask AND wrap_int t \<bar>b\<bar>))
      else r)"

text \<open>The tests in front of the tables; \<open>c\<close> is the constant divisor.\<close>

definition small_signed :: "htype \<Rightarrow> int \<Rightarrow> bool" where
  "small_signed t c \<longleftrightarrow> is_int t \<and> ty_bits t \<in> {8, 16, 32} \<and> c > 1 \<and> (ty_bits t > 8 \<and> c < 256 \<or> c < 128)"

definition small_unsigned :: "htype \<Rightarrow> int \<Rightarrow> bool" where
  "small_unsigned t c \<longleftrightarrow> is_uint t \<and> ty_bits t \<in> {8, 16, 32} \<and> c > 1 \<and> c < 256"

text \<open>
  Numerator \<open>a\<close> of type \<open>t\<close>, divisor \<open>b\<close> with the value \<open>vb\<close>.
\<close>

definition lower_int_uint_div :: "htype \<Rightarrow> int \<Rightarrow> expr \<Rightarrow> int \<Rightarrow> int result" where
  "lower_int_uint_div t a b vb =
     (if is_float t then Inl InternalError
      else case (if is_int_or_uint t then is_const_power_of_two_integer b else None) of
        Some shift_amount \<Rightarrow> Inr (drop_bit shift_amount a)
      | None \<Rightarrow>
        (case (as_const_int b, as_const_uint b) of
           (Some c, _) \<Rightarrow> if small_signed t c then Inr (signed_const_div (ty_bits t) a c)
                         else Inr (lower_euclidean_div t a vb)
         | (None, Some c) \<Rightarrow> if small_unsigned t c then unsigned_const_div (ty_bits t) a c
                         else Inr (lower_euclidean_div t a vb)
         | _ \<Rightarrow> Inr (lower_euclidean_div t a vb)))"

definition lower_int_uint_mod :: "htype \<Rightarrow> int \<Rightarrow> expr \<Rightarrow> int \<Rightarrow> int result" where
  "lower_int_uint_mod t a b vb =
     (if is_float t then Inl InternalError
      else case is_const_power_of_two_integer b of
        Some bits \<Rightarrow> Inr (wrap_int t (a AND wrap_int t (vb - 1)))
      | None \<Rightarrow>
        (case (as_const_int b, as_const_uint b) of
           (Some c, _) \<Rightarrow> if small_signed t c
             then rbind (lower_int_uint_div t a b vb) (\<lambda>q. Inr (wrap_int t (a - wrap_int t (q * vb))))
             else Inr (lower_euclidean_mod t a vb)
         | (None, Some c) \<Rightarrow> if small_unsigned t c
             then rbind (lower_int_uint_div t a b vb) (\<lambda>q. Inr (wrap_int t (a - wrap_int t (q * vb))))
             else Inr (lower_euclidean_mod t a vb)
         | _ \<Rightarrow> Inr (lower_euclidean_mod t a vb)))"

subsection \<open>Division by a byte\<close>

text \<open>
  The buffers hold the multipliers and shifts of the run-time tables, in elements of the width of the
  numerator.
\<close>

definition runtime_table :: "bool \<Rightarrow> nat \<Rightarrow> div_row list" where
  "runtime_table sg bits =
     (if sg then (if bits = 8 then table_runtime_s8 else if bits = 16 then table_runtime_s16 else table_runtime_s32)
      else (if bits = 8 then table_runtime_u8 else if bits = 16 then table_runtime_u16 else table_runtime_u32))"

definition integer_divide_table :: "bool \<Rightarrow> nat \<Rightarrow> nat \<Rightarrow> int \<times> int" where
  "integer_divide_table sg bits d =
     (case runtime_table sg bits ! d of (_, _, mul, shift) \<Rightarrow> (u_wrap bits mul, u_wrap bits shift))"

definition mul_keep_high :: "bool \<Rightarrow> nat \<Rightarrow> int \<Rightarrow> int \<Rightarrow> int" where
  "mul_keep_high sg bits mul n =
     (let wrap = (if sg then s_wrap else u_wrap) in wrap bits (wrap (2 * bits) (mul * n) div 2 ^ bits))"

definition fast_integer_divide :: "htype \<Rightarrow> htype \<Rightarrow> int \<Rightarrow> int \<Rightarrow> int result" where
  "fast_integer_divide t dt numerator denominator =
     (if \<not> type_eq dt (UInt_type 8 (ty_lanes dt)) then Inl UserError
      else if \<not> (is_uint t \<or> is_int t) then Inl UserError
      else if ty_bits t \<notin> {8, 16, 32} then Inl UserError
      else if is_uint t then
        let bits = ty_bits t;
            (mul, shift) = integer_divide_table False bits (nat denominator);
            result = mul_keep_high False bits mul numerator;
            result = u_wrap bits (result + u_wrap bits (numerator - result) div 2);
            result = drop_bit (nat shift) result
        in Inr (if denominator = 1 then numerator else result)
      else
        let bits = ty_bits t;
            (mul, shift) = integer_divide_table True bits (nat denominator);
            xsign = (if numerator > 0 then 0 else -1);
            numerator = xsign XOR numerator;
            result = mul_keep_high True bits mul numerator;
            result = drop_bit (nat shift) result;
            result = xsign XOR result
        in Inr (if denominator = 1 then numerator else result))"

definition fast_integer_modulo :: "htype \<Rightarrow> htype \<Rightarrow> int \<Rightarrow> int \<Rightarrow> int result" where
  "fast_integer_modulo t dt numerator denominator =
     rbind (fast_integer_divide t dt numerator denominator)
       (\<lambda>q. Inr (wrap_int t (numerator - wrap_int t (q * denominator))))"

end
