(* ===== verification/FastDivideFacts.thy ===== *)
theory FastDivideFacts
  imports FastDivide
begin

text \<open>
  The functions of \<open>FastDivide\<close> compute Euclidean division. The multipliers and shifts of the tables
  enter through \<open>row_ok\<close>; the rest is the arithmetic of complements and of reductions to a width.
\<close>

unbundle bit_operations_syntax

subsection \<open>Powers of two\<close>

lemma halvings_power: "halvings (2 ^ k) b = Some (b + k)"
proof (induction k arbitrary: b)
  case (Suc k)
  have "halvings (2 ^ Suc k) b = halvings (2 ^ k) (b + 1)"
    by (subst halvings.simps) (simp del: power_Suc add: power_Suc [of 2 k, THEN trans])
  then show ?case using Suc by simp
qed (simp add: halvings.simps)

lemma and_pred_power:
  assumes "0 < (v :: int)" and "v AND (v - 1) = 0"
  shows "\<exists>k. v = 2 ^ k"
  using assms
proof (induction "nat v" arbitrary: v rule: less_induct)
  case less
  have a: "v AND (v - 1) = of_bool (odd v \<and> odd (v - 1)) + 2 * (v div 2 AND (v - 1) div 2)"
    by (rule and_rec)
  show ?case
  proof (cases "even v")
    case True
    then obtain w where w: "v = 2 * w" by (auto elim: evenE)
    have "(v - 1) div 2 = w - 1" using w by simp
    then have "w AND (w - 1) = 0" using a less.prems(2) w by simp
    then obtain k where "w = 2 ^ k" using less.hyps [of w] less.prems(1) w by auto
    then have "v = 2 ^ Suc k" using w by simp
    then show ?thesis by blast
  next
    case False
    then obtain w where w: "v = 2 * w + 1" by (auto elim: oddE)
    then have "w = 0" using a less.prems(2) by simp
    then have "v = 2 ^ 0" using w by simp
    then show ?thesis by blast
  qed
qed

lemma power_of_two_bits_iff:
  assumes "0 \<le> v"
  shows "power_of_two_bits v = Some k \<longleftrightarrow> v = 2 ^ k"
proof
  assume *: "power_of_two_bits v = Some k"
  then have "v AND (v - 1) = 0" "v \<noteq> 0" by (auto simp: power_of_two_bits_def split: if_splits)
  then obtain j where "v = 2 ^ j" using and_pred_power [of v] assms by auto
  then show "v = 2 ^ k" using * halvings_power [of j 0] by (simp add: power_of_two_bits_def nat_power_eq split: if_splits)
next
  assume v: "v = 2 ^ k"
  have "(2 ^ k :: int) AND (2 ^ k - 1) = 0"
    by (simp flip: mask_eq_exp_minus_1 take_bit_eq_mask)
  then show "power_of_two_bits v = Some k" using halvings_power [of k 0] v by (simp add: power_of_two_bits_def nat_power_eq)
qed

lemma power_of_two_bits_None: "0 \<le> v \<Longrightarrow> power_of_two_bits v = None \<longleftrightarrow> (\<nexists>k. v = 2 ^ k)"
  using power_of_two_bits_iff [of v] by (cases "power_of_two_bits v") auto

subsection \<open>Complements\<close>

lemma not_div_not: "0 < c \<Longrightarrow> NOT (NOT a div c) = a div (c :: int)"
proof -
  assume c: "0 < c"
  have "NOT a div c = - (a div c) - 1"
  proof (rule int_div_pos_eq)
    show "NOT a = c * (- (a div c) - 1) + (c - 1 - a mod c)"
      using mult_div_mod_eq [of c a] by (simp add: not_int_def algebra_simps)
  qed (use c pos_mod_bound [of c a] pos_mod_sign [of c a] in linarith)+
  then show ?thesis by (simp add: not_int_def)
qed

lemma not_range: "- M \<le> a \<Longrightarrow> a < 0 \<Longrightarrow> 0 \<le> NOT a \<and> NOT a < (M :: int)"
  by (simp add: not_int_def)

lemma u_wrap_xor: "u_wrap b x XOR u_wrap b y = u_wrap b (x XOR y)"
  by (simp add: u_wrap_def)

lemma s_wrap_u_wrap: "0 < b \<Longrightarrow> s_wrap b (u_wrap b z) = s_wrap b z"
  by (simp add: s_wrap_cong u_wrap_mod)

lemma div_between: "0 < d \<Longrightarrow> 0 \<le> n \<Longrightarrow> n < N \<Longrightarrow> 0 \<le> n div d \<and> n div d < (N :: int)"
  using int_div_between [of d N n] by (simp add: pos_imp_zdiv_nonneg_iff)

lemma high_half_le:
  assumes "0 \<le> n" and "0 \<le> m" and "m < (M :: int)"
  shows "0 \<le> (n * m) div M \<and> (n * m) div M \<le> n"
  using assms zdiv_mono1 [of "n * m" "n * M" M] mult_left_mono [of m M n]
  by (auto simp: pos_imp_zdiv_nonneg_iff)

subsection \<open>Constant divisors\<close>

text \<open>The high half of the product with an entry that multiplies and shifts is the quotient.\<close>

lemma mulhi_shr_div:
  assumes "row_ok b N (d, 1, mul, shift)" and "N \<le> 2 ^ b" and "0 \<le> n" "n < N" and "1 < d"
  shows "mulhi_shr b n (u_wrap b mul) (nat shift) = n div d"
proof -
  have "0 \<le> mul" "mul < 2 ^ b" using assms(1,5) by (auto simp: row_ok_def)
  then have "(n * u_wrap b mul) div 2 ^ b div 2 ^ nat shift = n div d"
    using row_ok_value [OF assms(1,3,4)] by (simp add: method_value_def u_wrap_id)
  then show ?thesis
    using div_between [OF _ assms(3,4), of d] assms(2,5) by (simp add: mulhi_shr_def drop_bit_eq_div u_wrap_id)
qed

lemma signed_row_div:
  assumes r: "row_ok b (2 ^ (b - 1)) (d, 1, mul, shift)" and a: "in_s b a" and d: "1 < d" and b: "0 < b"
  shows "(let sign = u_wrap b (drop_bit (b - 1) a);
         num = u_wrap b a XOR sign;
         num = mulhi_shr b num (u_wrap b mul) (nat shift)
     in s_wrap b (num XOR sign)) = a div d"
proof -
  have N: "(2 :: int) ^ (b - 1) \<le> 2 ^ b" by (intro power_increasing) auto
  show ?thesis
  proof (cases "a < 0")
    case True
    then have n: "0 \<le> NOT a" "NOT a < 2 ^ (b - 1)" using a not_range [of "2 ^ (b - 1)" a] by (auto simp: in_s_def)
    have q: "mulhi_shr b (NOT a) (u_wrap b mul) (nat shift) = NOT a div d"
      by (rule mulhi_shr_div [OF r N n d])
    have n': "u_wrap b (NOT a) = NOT a" by (rule u_wrap_id) (use n N in linarith)+
    have "0 \<le> NOT a div d" "NOT a div d < 2 ^ b" using div_between [OF _ n, of d] d N by linarith+
    then have "u_wrap b (NOT a div d) = NOT a div d" by (simp add: u_wrap_id)
    then have "s_wrap b ((NOT a div d) XOR u_wrap b (-1)) = s_wrap b (a div d)"
      using u_wrap_xor [of b "NOT a div d" "-1"] d b by (simp add: s_wrap_u_wrap not_div_not)
    moreover have "in_s b (a div d)" using a d int_div_between [of d "2 ^ (b - 1)" a] by (simp add: in_s_def)
    ultimately show ?thesis
      using drop_bit_in_s [OF a] True u_wrap_xor [of b a "-1"] q n' by (simp add: s_wrap_in_s_id)
  next
    case False
    then have n: "0 \<le> a" "a < 2 ^ (b - 1)" using a by (auto simp: in_s_def)
    have q: "mulhi_shr b a (u_wrap b mul) (nat shift) = a div d" by (rule mulhi_shr_div [OF r N n d])
    have "in_s b (a div d)" using a d int_div_between [of d "2 ^ (b - 1)" a] by (simp add: in_s_def)
    moreover have "u_wrap b a = a" "u_wrap b 0 = 0" using n order.strict_trans2 [OF n(2) N] by (simp_all add: u_wrap_id)
    ultimately show ?thesis using drop_bit_in_s [OF a] False q by (simp add: s_wrap_in_s_id)
  qed
qed

text \<open>The entries of the tables at an index.\<close>

lemma table_methods:
  "list_all (\<lambda>r. fst (snd r) \<noteq> 2) table_s8" "list_all (\<lambda>r. fst (snd r) \<noteq> 2) table_s16"
  "list_all (\<lambda>r. fst (snd r) \<noteq> 2) table_s32"
  "list_all (\<lambda>r. fst (snd r) = 1) table_runtime_s8" "list_all (\<lambda>r. fst (snd r) = 1) table_runtime_s16"
  "list_all (\<lambda>r. fst (snd r) = 1) table_runtime_s32"
  "list_all (\<lambda>r. fst (snd r) = 2) table_runtime_u8" "list_all (\<lambda>r. fst (snd r) = 2) table_runtime_u16"
  "list_all (\<lambda>r. fst (snd r) = 2) table_runtime_u32"
  by code_simp+

lemma const_table_index:
  "map fst (signed_table bits) = 256 # map int [1..<256]" "map fst (unsigned_table bits) = 256 # map int [1..<256]"
  by (simp_all add: signed_table_def unsigned_table_def table_s8_index table_s16_index table_s32_index
      table_u8_index table_u16_index table_u32_index)

lemma signed_table_ok:
  "bits \<in> {8, 16, 32} \<Longrightarrow>
     list_all (\<lambda>r. 8 < bits \<or> fst r \<le> 128 \<longrightarrow> row_ok bits (2 ^ (bits - 1)) r) (signed_table bits)"
  using table_s8_ok table_s16_ok table_s32_ok by (elim insertE emptyE) (simp_all add: signed_table_def)

lemma signed_table_method: "list_all (\<lambda>r. fst (snd r) \<noteq> 2) (signed_table bits)"
  by (simp add: signed_table_def table_methods)

lemma unsigned_table_ok: "bits \<in> {8, 16, 32} \<Longrightarrow> list_all (row_ok bits (2 ^ bits)) (unsigned_table bits)"
  using table_u8_ok table_u16_ok table_u32_ok by (elim insertE emptyE) (simp_all add: unsigned_table_def)

lemma signed_table_row:
  assumes "bits \<in> {8, 16, 32}" and "1 < c" and "8 < bits \<and> c < 256 \<or> c < 128"
  obtains meth mul shift where "signed_table bits ! nat c = (c, meth, mul, shift)"
    "row_ok bits (2 ^ (bits - 1)) (c, meth, mul, shift)" "meth \<noteq> 2"
proof -
  have i: "nat c < 256" using assms(2,3) by auto
  obtain d meth mul shift where r: "signed_table bits ! nat c = (d, meth, mul, shift)"
    by (cases "signed_table bits ! nat c") auto
  note k = row_at [OF const_table_index(1) signed_table_ok [OF assms(1)] i]
    and k' = row_at(2) [OF const_table_index(1) signed_table_method i, of bits]
  have "d = c" using k(1) r assms(2) by simp
  moreover have "row_ok bits (2 ^ (bits - 1)) (d, meth, mul, shift)" using k(2) r assms(3) \<open>d = c\<close> by auto
  ultimately show ?thesis using that r k' by simp
qed

lemma unsigned_table_row:
  assumes "bits \<in> {8, 16, 32}" and "1 < c" and "c < 256"
  obtains meth mul shift where "unsigned_table bits ! nat c = (c, meth, mul, shift)"
    "row_ok bits (2 ^ bits) (c, meth, mul, shift)"
proof -
  have i: "nat c < 256" using assms(2,3) by auto
  obtain d meth mul shift where r: "unsigned_table bits ! nat c = (d, meth, mul, shift)"
    by (cases "unsigned_table bits ! nat c") auto
  note k = row_at [OF const_table_index(2) unsigned_table_ok [OF assms(1)] i]
  have "d = c" using k(1) r assms(2) by simp
  then show ?thesis using that r k(2) by simp
qed

lemma signed_const_div_correct:
  assumes "bits \<in> {8, 16, 32}" and c: "1 < c" "8 < bits \<and> c < 256 \<or> c < 128" and "\<nexists>k. c = 2 ^ k"
    and a: "in_s bits a"
  shows "signed_const_div bits a c = a div c"
proof -
  obtain meth mul shift where r: "signed_table bits ! nat c = (c, meth, mul, shift)"
      "row_ok bits (2 ^ (bits - 1)) (c, meth, mul, shift)" "meth \<noteq> 2"
    using signed_table_row [OF assms(1) c] .
  have "meth = 1" using r(2,3) assms(4) by (auto simp: row_ok_def split: if_splits)
  then show ?thesis
    using signed_row_div [of bits c mul shift a] r(1,2) a c(1) assms(1) by (auto simp: signed_const_div_def)
qed

lemma unsigned_const_div_correct:
  assumes "bits \<in> {8, 16, 32}" and c: "1 < c" "c < 256" and "\<nexists>k. c = 2 ^ k"
    and a: "0 \<le> a" "a < 2 ^ bits"
  shows "unsigned_const_div bits a c = Inr (a div c)"
proof -
  obtain meth mul shift where r: "unsigned_table bits ! nat c = (c, meth, mul, shift)"
      "row_ok bits (2 ^ bits) (c, meth, mul, shift)"
    using unsigned_table_row [OF assms(1) c] .
  have m: "0 \<le> mul" "mul < 2 ^ bits" "0 \<le> shift" using r(2) c by (auto simp: row_ok_def)
  have "meth = 1 \<or> meth = 2" using r(2) assms(4) by (auto simp: row_ok_def split: if_splits)
  then show ?thesis
  proof
    assume "meth = 1"
    then show ?thesis
      using mulhi_shr_div [of bits _ c mul shift a] r a c by (simp add: unsigned_const_div_def assert_that_def)
  next
    assume 2: "meth = 2"
    have "0 \<le> (a * mul) div 2 ^ bits" "(a * mul) div 2 ^ bits < 2 ^ bits"
      using high_half_le [OF a(1) m(1,2)] a(2) by linarith+
    then have h: "mulhi_shr bits a (u_wrap bits mul) 0 = (a * mul) div 2 ^ bits"
      using m by (simp add: mulhi_shr_def drop_bit_eq_div u_wrap_id)
    have "((a * mul) div 2 ^ bits + a) div 2 div 2 ^ nat shift = a div c"
      using row_ok_value [OF r(2) a] 2 by (simp add: method_value_def Let_def)
    then show ?thesis
      using 2 r(1) m(3) by (auto simp: unsigned_const_div_def assert_that_def h sorted_avg_def drop_bit_eq_div Let_def)
  qed
qed

subsection \<open>Lowered divisions\<close>

lemma wrap_int_id: "2 \<le> ty_bits t \<Longrightarrow> ty_bits t \<le> 64 \<Longrightarrow> v \<in> type_values t \<Longrightarrow> wrap_int t v = v"
  using type_values_int [of t v] type_values_uint [of t v]
  by (auto simp: wrap_int_def type_values_def intro!: s_wrap_id u_wrap_id split: if_splits)

lemma type_values_in_s:
  "is_int t \<Longrightarrow> 2 \<le> ty_bits t \<Longrightarrow> ty_bits t \<le> 64 \<Longrightarrow> v \<in> type_values t \<longleftrightarrow> in_s (ty_bits t) v"
  using type_values_int [of t v] by (auto simp: in_s_def)

text \<open>A quotient that leaves the type: the only one is that of the least number by minus one.\<close>

definition div_overflows :: "htype \<Rightarrow> int \<Rightarrow> int \<Rightarrow> bool" where
  "div_overflows t a b \<longleftrightarrow> is_int t \<and> a = - (2 ^ (ty_bits t - 1)) \<and> b = -1"

lemma lower_euclidean_div_correct:
  assumes "is_int_or_uint t" and w: "2 \<le> ty_bits t" "ty_bits t \<le> 64"
    and "a \<in> type_values t" and "b \<in> type_values t" and "b \<noteq> 0" and "\<not> div_overflows t a b"
  shows "lower_euclidean_div t a b = ediv a b"
proof (cases "is_int t")
  case True
  then have s: "in_s (ty_bits t) a" "in_s (ty_bits t) b" using assms type_values_in_s [OF True w] by simp_all
  show ?thesis
    using trunc_div_correct [OF s assms(6) _ w(1)] assms(7) True
    by (simp add: lower_euclidean_div_def wrap_int_def Let_def div_overflows_def s_wrap.wr_add_left)
next
  case False
  then have u: "is_uint t" using assms(1) by (simp add: type_pred_defs)
  then have r: "0 \<le> a" "a < 2 ^ ty_bits t" "0 < b" using assms type_values_uint [OF u w(2)] by auto
  then have "cdiv a b = a div b" "0 \<le> a div b" "a div b < 2 ^ ty_bits t"
    using div_between [of b a "2 ^ ty_bits t"] by (auto simp: cdiv_def sgn_if)
  then show ?thesis using r False by (simp add: lower_euclidean_div_def wrap_int_def u_wrap_id)
qed

lemma lower_euclidean_mod_correct:
  assumes "is_int_or_uint t" and w: "2 \<le> ty_bits t" "ty_bits t \<le> 64"
    and "a \<in> type_values t" and "b \<in> type_values t" and "b \<noteq> 0"
  shows "lower_euclidean_mod t a b = emod a b"
proof (cases "is_int t")
  case True
  then have s: "in_s (ty_bits t) a" "in_s (ty_bits t) b" using assms type_values_in_s [OF True w] by simp_all
  have r: "in_s (ty_bits t) (cmod a b)" by (rule cmod_in_s [OF s(2) assms(6)])
  have "in_s (ty_bits t) (emod a b)"
    using s(2) emod_nonneg [OF assms(6), of a] emod_less [OF assms(6), of a] by (auto simp: in_s_def)
  then have "s_wrap (ty_bits t) (cmod a b + (if cmod a b < 0 then s_wrap (ty_bits t) \<bar>b\<bar> else 0)) = emod a b"
    using euclid_from_trunc(2) [OF assms(6), of a] by (auto simp: s_wrap.wr_add_right s_wrap_in_s_id)
  then show ?thesis
    using drop_bit_in_s [OF r] r True
    by (auto simp: lower_euclidean_mod_def wrap_int_def Let_def s_wrap_in_s_id)
next
  case False
  then have u: "is_uint t" using assms(1) by (simp add: type_pred_defs)
  then have r: "0 \<le> a" "a < 2 ^ ty_bits t" "0 < b" "b < 2 ^ ty_bits t" using assms type_values_uint [OF u w(2)] by auto
  then have "cmod a b = a mod b" by (auto simp: cmod_eq_sgn sgn_if)
  moreover have "0 \<le> a mod b" "a mod b < 2 ^ ty_bits t"
    using r pos_mod_bound [of b a] pos_mod_sign [of b a] by linarith+
  ultimately show ?thesis using r False by (simp add: lower_euclidean_mod_def wrap_int_def u_wrap_id)
qed

subsection \<open>Constant divisors as expressions\<close>

text \<open>\<open>is_const_power_of_two_integer\<close> looks through a conversion, which may change the value.\<close>

fun under_cast :: "expr \<Rightarrow> bool" where
  "under_cast (Broadcast v l) = under_cast v"
| "under_cast (Cast t v) = True"
| "under_cast e = False"

lemma const_int_eval:
  "as_const_int b = Some c \<Longrightarrow> eval \<rho> b i = Some c \<and> as_const_uint b = None"
  by (induction b rule: as_const_int.induct) auto

lemma const_uint_eval:
  "as_const_uint b = Some c \<Longrightarrow> eval \<rho> b i = Some c \<and> as_const_int b = None"
  by (induction b rule: as_const_uint.induct) auto

lemma imm_power:
  "wf_expr (IntImm t v) \<Longrightarrow> 0 \<le> v \<Longrightarrow> is_const_power_of_two_integer (IntImm t v) = power_of_two_bits v"
  "wf_expr (UIntImm t v) \<Longrightarrow> is_const_power_of_two_integer (UIntImm t v) = power_of_two_bits v"
  by (auto simp: type_pred_defs)

lemma uint_imm_nonneg: "wf_expr (UIntImm t v) \<Longrightarrow> 0 \<le> v"
  using u_wrap_range [of "ty_bits t" v] by simp

lemma const_power_eval:
  assumes "is_const_power_of_two_integer b = Some k" and "\<not> under_cast b" and "wf_expr b"
  shows "eval \<rho> b i = Some (2 ^ k)"
  using assms
proof (induction b)
  case (IntImm t v)
  then have "0 \<le> v" by (auto split: if_splits)
  then show ?case using IntImm imm_power(1) [of t v] power_of_two_bits_iff [of v k] by simp
next
  case (UIntImm t v)
  then show ?case using uint_imm_nonneg [of t v] imm_power(2) [of t v] power_of_two_bits_iff [of v k] by simp
qed (auto split: if_splits)

lemma const_type:
  "as_const_int b = Some c \<or> as_const_uint b = Some c \<Longrightarrow> wf_expr b \<Longrightarrow> is_int_or_uint (type_of b)"
  by (induction b rule: as_const_int.induct) (auto simp: type_pred_defs)

lemma const_not_power:
  assumes "is_const_power_of_two_integer b = None" and "wf_expr b" and "0 < c"
    and "as_const_int b = Some c \<or> as_const_uint b = Some c"
  shows "\<nexists>k. c = 2 ^ k"
  using assms
proof (induction b)
  case (IntImm t v)
  then have v: "v = c" by simp
  have "power_of_two_bits c = None" using IntImm(1,2,3) imm_power(1) [of t c] v by (simp only: less_imp_le)
  then show ?case using IntImm(3) power_of_two_bits_None [of c] by simp
next
  case (UIntImm t v)
  then have v: "v = c" by simp
  have "power_of_two_bits c = None" using UIntImm(1,2) imm_power(2) [of t c] v by (simp only:)
  then show ?case using UIntImm(3) power_of_two_bits_None [of c] by simp
next
  case (Broadcast v l)
  then have "is_int_or_uint (type_of (Broadcast v l))" by (intro const_type) simp_all
  then show ?case using Broadcast by simp
qed simp_all

lemma lowered_div_euclidean:
  assumes t: "is_int_or_uint t" "2 \<le> ty_bits t" "ty_bits t \<le> 64" and a: "a \<in> type_values t"
    and b: "wf_expr b" "\<not> under_cast b" "eval \<rho> b i = Some vb"
    and vb: "vb \<in> type_values t" "vb \<noteq> 0" "\<not> div_overflows t a vb"
  shows "lower_int_uint_div t a b vb = Inr (ediv a vb)"
proof -
  have nf: "\<not> is_float t" using t(1) by (auto simp: type_pred_defs)
  note e = lower_euclidean_div_correct [OF t a vb]
  show ?thesis
  proof (cases "is_const_power_of_two_integer b")
    case (Some k)
    then have "vb = 2 ^ k" using const_power_eval [OF Some b(2,1)] b(3) by simp
    then show ?thesis using Some nf t(1) by (simp add: lower_int_uint_div_def drop_bit_eq_div)
  next
    case None
    show ?thesis
    proof (cases "as_const_int b")
      case ci: (Some c)
      then have c: "c = vb" using const_int_eval [OF ci, of \<rho> i] b(3) by simp
      show ?thesis
        using None ci nf e const_not_power [OF None b(1)] a t(2,3) type_values_in_s
          signed_const_div_correct [of "ty_bits t" c a]
        by (auto simp: lower_int_uint_div_def c small_signed_def)
    next
      case ni: None
      show ?thesis
      proof (cases "as_const_uint b")
        case cu: (Some c)
        then have c: "c = vb" using const_uint_eval [OF cu, of \<rho> i] b(3) by simp
        show ?thesis
          using None ni cu nf e const_not_power [OF None b(1)] a t(2,3) type_values_uint
            unsigned_const_div_correct [of "ty_bits t" c a]
          by (auto simp: lower_int_uint_div_def c small_unsigned_def)
      qed (use None ni nf e in \<open>simp add: lower_int_uint_div_def\<close>)
    qed
  qed
qed

interpretation wrap_int: wrapping "wrap_int t" for t
proof -
  have "wrap_int t = s_wrap (ty_bits t) \<or> wrap_int t = u_wrap (ty_bits t)"
    by (auto simp: wrap_int_def fun_eq_iff)
  then show "wrapping (wrap_int t)" using s_wrap.wrapping_axioms u_wrap.wrapping_axioms by metis
qed

lemma mod_type_values:
  assumes "is_int_or_uint t" "2 \<le> ty_bits t" "ty_bits t \<le> 64" "vb \<in> type_values t" "vb \<noteq> 0"
  shows "emod a vb \<in> type_values t"
proof -
  have e: "0 \<le> emod a vb" "emod a vb < \<bar>vb\<bar>" using emod_nonneg [OF assms(5)] emod_less [OF assms(5)] by simp_all
  consider "is_int t" | "is_uint t" using assms(1) by (auto simp: type_pred_defs)
  then show ?thesis
  proof cases
    case 1
    then show ?thesis using e assms(2-4) type_values_int [OF 1, of vb] type_values_int [OF 1, of "emod a vb"] by linarith
  next
    case 2
    then show ?thesis using e assms(2-4) type_values_uint [OF 2, of vb] type_values_uint [OF 2, of "emod a vb"] by linarith
  qed
qed

lemma emod_wrap_int:
  assumes "is_int_or_uint t" "2 \<le> ty_bits t" "ty_bits t \<le> 64" "vb \<in> type_values t" "vb \<noteq> 0"
  shows "wrap_int t (a - wrap_int t (ediv a vb * vb)) = emod a vb"
proof -
  have "a - ediv a vb * vb = emod a vb" using ediv_emod_eq [of a vb] by simp
  then show ?thesis using mod_type_values [OF assms] wrap_int_id [OF assms(2,3)] by (simp add: wrap_int.wr_diff_right)
qed

lemma mask_wrap_int:
  assumes "is_int_or_uint t" "2 \<le> ty_bits t" "ty_bits t \<le> 64" "2 ^ k \<in> type_values t"
  shows "wrap_int t (a AND wrap_int t (2 ^ k - 1)) = emod a (2 ^ k)"
proof -
  have "(2 ^ k - 1 :: int) \<in> type_values t"
    using mod_type_values [OF assms, of "-1"] by (simp add: minus_mod_int_eq)
  moreover have "a AND (2 ^ k - 1) = emod a (2 ^ k)"
    by (simp flip: mask_eq_exp_minus_1 take_bit_eq_mask add: take_bit_eq_mod)
  ultimately show ?thesis using mod_type_values [OF assms, of a] wrap_int_id [OF assms(2,3)] by simp
qed

subsection \<open>Division by a byte\<close>

text \<open>The divisor a byte stands for: zero is 256.\<close>

definition byte_divisor :: "int \<Rightarrow> int" where
  "byte_divisor d = (if d = 0 then 256 else d)"

lemma runtime_table_index: "map fst (runtime_table sg bits) = 256 # map int [1..<256]"
  by (simp add: runtime_table_def table_runtime_s8_index table_runtime_s16_index table_runtime_s32_index
      table_runtime_u8_index table_runtime_u16_index table_runtime_u32_index)

lemma runtime_table_ok:
  "bits \<in> {8, 16, 32} \<Longrightarrow> list_all (row_ok bits (2 ^ (if sg then bits - 1 else bits))) (runtime_table sg bits)"
  using table_runtime_s8_ok table_runtime_s16_ok table_runtime_s32_ok table_runtime_u8_ok
    table_runtime_u16_ok table_runtime_u32_ok
  by (cases sg; elim insertE emptyE) (simp_all add: runtime_table_def)

lemma runtime_table_method: "list_all (\<lambda>r. fst (snd r) = (if sg then 1 else 2)) (runtime_table sg bits)"
  by (simp add: runtime_table_def table_methods)

lemma runtime_table_positive:
  "list_all (\<lambda>r. 0 < fst (snd (snd r))) table_runtime_s8"
  "list_all (\<lambda>r. 0 < fst (snd (snd r))) table_runtime_s16"
  "list_all (\<lambda>r. 0 < fst (snd (snd r))) table_runtime_s32"
  "list_all (\<lambda>r. 0 < fst (snd (snd r))) table_runtime_u8"
  "list_all (\<lambda>r. 0 < fst (snd (snd r))) table_runtime_u16"
  "list_all (\<lambda>r. 0 < fst (snd (snd r))) table_runtime_u32"
  by code_simp+

lemma runtime_table_mul: "list_all (\<lambda>r. 0 < fst (snd (snd r))) (runtime_table sg bits)"
  by (simp add: runtime_table_def runtime_table_positive)

lemma runtime_row:
  assumes "bits \<in> {8, 16, 32}" and "0 \<le> d" and "d < 256" and "d \<noteq> 1"
  obtains mul shift where "integer_divide_table sg bits (nat d) = (mul, shift)"
    "row_ok bits (2 ^ (if sg then bits - 1 else bits)) (byte_divisor d, if sg then 1 else 2, mul, shift)"
    "0 < mul" "mul < 2 ^ bits"
proof -
  obtain d' meth mul shift where r: "runtime_table sg bits ! nat d = (d', meth, mul, shift)"
    by (cases "runtime_table sg bits ! nat d") auto
  have i: "nat d < 256" using assms by auto
  have d': "d' = byte_divisor d" using row_at(1) [OF runtime_table_index runtime_table_method i, of sg bits] r assms(2)
    by (auto simp: byte_divisor_def)
  have k: "row_ok bits (2 ^ (if sg then bits - 1 else bits)) (d', meth, mul, shift)"
    using row_at(2) [OF runtime_table_index runtime_table_ok [OF assms(1)] i] r by metis
  have "meth = (if sg then 1 else 2)"
    using row_at(2) [OF runtime_table_index runtime_table_method i] r by (metis fst_conv snd_conv)
  moreover have "0 < mul" using row_at(2) [OF runtime_table_index runtime_table_mul i] r by (metis fst_conv snd_conv)
  moreover have m: "mul < 2 ^ bits" "0 \<le> shift" "shift \<le> int bits"
    using assms(2-4) k d' by (auto simp: row_ok_def byte_divisor_def split: if_splits)
  moreover have "u_wrap bits shift = shift" using assms(1) m by (intro u_wrap_id) auto
  ultimately show ?thesis
    using that [of mul shift] r k d' by (simp add: integer_divide_table_def u_wrap_id)
qed

lemma mul_keep_high_unsigned:
  assumes "0 \<le> mul" "mul < 2 ^ b" "0 \<le> n" "n < 2 ^ b"
  shows "mul_keep_high False b mul n = (n * mul) div 2 ^ b"
proof -
  have "0 \<le> mul * n" "mul * n < 2 ^ (2 * b)"
    using assms mult_strict_mono [of mul "2 ^ b" n "2 ^ b"] by (simp_all add: power_mult power2_eq_square mult_2 power_add)
  moreover have "0 \<le> (n * mul) div 2 ^ b" "(n * mul) div 2 ^ b < 2 ^ b"
    using high_half_le [OF assms(3,1,2)] assms(4) by linarith+
  ultimately show ?thesis by (simp add: mul_keep_high_def u_wrap_id mult.commute)
qed

lemma avg_div:
  assumes "0 \<le> q" "q \<le> n" "n < 2 ^ b"
  shows "u_wrap b (q + u_wrap b (n - q) div 2) = (q + n) div (2 :: int)"
proof -
  have "u_wrap b (n - q) = n - q" using assms by (simp add: u_wrap_id)
  moreover have "q + (n - q) div 2 = (q + n) div 2" by simp
  moreover have "0 \<le> (q + n) div 2" "(q + n) div 2 < 2 ^ b" using assms by linarith+
  ultimately show ?thesis by (simp add: u_wrap_id)
qed

lemma fast_divide_unsigned:
  assumes "type_eq dt (UInt_type 8 (ty_lanes dt))" and "is_uint t" and b: "ty_bits t \<in> {8, 16, 32}"
    and n: "0 \<le> n" "n < 2 ^ ty_bits t" and d: "0 \<le> d" "d < 256"
  shows "fast_integer_divide t dt n d = Inr (n div byte_divisor d)"
proof (cases "d = 1")
  case True
  then show ?thesis using assms by (simp add: fast_integer_divide_def byte_divisor_def split: prod.split)
next
  case False
  obtain mul shift where r: "integer_divide_table False (ty_bits t) (nat d) = (mul, shift)"
    "row_ok (ty_bits t) (2 ^ ty_bits t) (byte_divisor d, 2, mul, shift)" "0 \<le> mul" "mul < 2 ^ ty_bits t"
    using runtime_row [OF b d False, of False] by (metis less_imp_le)
  define q where "q = (n * mul) div 2 ^ ty_bits t"
  have q: "mul_keep_high False (ty_bits t) mul n = q" "0 \<le> q" "q \<le> n"
    using mul_keep_high_unsigned [OF r(3,4) n] high_half_le [OF n(1) r(3,4)] by (simp_all add: q_def)
  have "(q + n) div 2 div 2 ^ nat shift = n div byte_divisor d"
    using row_ok_value [OF r(2) n] by (simp add: method_value_def q_def)
  then show ?thesis
    using assms(1-3) False q avg_div [OF q(2,3) n(2)]
    by (simp add: fast_integer_divide_def r(1) drop_bit_eq_div)
qed

text \<open>
  The high half of a signed product. The numerator has been complemented when it was not positive, so
  that it is at least minus one, which it is for a numerator of zero.
\<close>

lemma mul_keep_high_signed:
  assumes "0 < mul" "mul < 2 ^ b" "- 1 \<le> n" "n < 2 ^ (b - 1)" "0 < b"
  shows "mul_keep_high True b mul n = (if n < 0 then - 1 else (n * mul) div 2 ^ b)"
proof -
  have e: "(2 :: int) ^ (2 * b - 1) = 2 ^ b * 2 ^ (b - 1)" "(2 :: int) ^ b = 2 * 2 ^ (b - 1)"
    using assms(5) by (simp_all flip: power_add power_Suc)
  have p: "(1 :: int) \<le> 2 ^ (b - 1)" by simp
  show ?thesis
  proof (cases "n < 0")
    case True
    then have n: "n = - 1" using assms(3) by simp
    have "(2 :: int) ^ b \<le> 2 ^ (2 * b - 1)" using assms(5) by (intro power_increasing) auto
    then have "s_wrap (2 * b) (- mul) = - mul" using assms(1,2) by (intro s_wrap_id) linarith+
    moreover have "- mul div 2 ^ b = - 1" using assms(1,2) by (intro int_div_pos_eq [of _ _ _ "2 ^ b - mul"]) auto
    moreover have "s_wrap b (- 1) = - 1" using p by (intro s_wrap_id) linarith+
    ultimately show ?thesis by (simp add: mul_keep_high_def n)
  next
    case False
    then have n: "0 \<le> n" by simp
    have "0 \<le> mul * n" using assms(1) n by simp
    moreover have "mul * n < 2 ^ (2 * b - 1)"
      using assms n p mult_strict_mono [of mul "2 ^ b" n "2 ^ (b - 1)"] unfolding e(1) by simp
    ultimately have w: "s_wrap (2 * b) (mul * n) = mul * n" by (intro s_wrap_id) linarith+
    have "0 \<le> (n * mul) div 2 ^ b" "(n * mul) div 2 ^ b \<le> n"
      using high_half_le [OF n, of mul "2 ^ b"] assms(1,2) by simp_all
    then have "s_wrap b ((n * mul) div 2 ^ b) = (n * mul) div 2 ^ b" using assms(4) p by (intro s_wrap_id) linarith+
    then show ?thesis using False w by (simp add: mul_keep_high_def mult.commute)
  qed
qed

lemma fast_divide_signed:
  assumes "type_eq dt (UInt_type 8 (ty_lanes dt))" and "is_int t" and b: "ty_bits t \<in> {8, 16, 32}"
    and n: "in_s (ty_bits t) n" and d: "0 \<le> d" "d < 256" "d \<noteq> 1"
  shows "fast_integer_divide t dt n d = Inr (n div byte_divisor d)"
proof -
  obtain mul shift where r: "integer_divide_table True (ty_bits t) (nat d) = (mul, shift)"
    "row_ok (ty_bits t) (2 ^ (ty_bits t - 1)) (byte_divisor d, 1, mul, shift)" "0 < mul" "mul < 2 ^ ty_bits t"
    using runtime_row [OF b d, of True] by auto
  define m where "m = (if n > 0 then n else NOT n)"
  have b0: "0 < ty_bits t" using b by auto
  have m: "- 1 \<le> m" "m < 2 ^ (ty_bits t - 1)" using n by (auto simp: m_def not_int_def in_s_def)
  have p: "0 < byte_divisor d" using d by (simp add: byte_divisor_def)
  have q: "drop_bit (nat shift) (mul_keep_high True (ty_bits t) mul m) = m div byte_divisor d"
  proof (cases "m < 0")
    case True
    then have "m = - 1" using m(1) by simp
    moreover have "- 1 div byte_divisor d = - 1" using p by (intro int_div_pos_eq [of _ _ _ "byte_divisor d - 1"]) auto
    ultimately show ?thesis using mul_keep_high_signed [OF r(3,4) m b0] by (simp add: drop_bit_minus_one)
  next
    case False
    then show ?thesis
      using row_ok_value [OF r(2), of m] m(2) mul_keep_high_signed [OF r(3,4) m b0]
      by (simp add: method_value_def drop_bit_eq_div)
  qed
  have f: "fast_integer_divide t dt n d =
      Inr ((if n > 0 then 0 else - 1) XOR drop_bit (nat shift) (mul_keep_high True (ty_bits t) mul ((if n > 0 then 0 else - 1) XOR n)))"
    using assms(1-3) d(3) by (simp add: fast_integer_divide_def r(1) type_pred_defs)
  have "(if n > 0 then 0 else - 1) XOR n = m" by (simp add: m_def)
  then show ?thesis using p by (simp add: f q) (simp add: m_def not_div_not)
qed

lemma fast_divide_floor:
  assumes "type_eq dt (UInt_type 8 (ty_lanes dt))" and "is_int_or_uint t" and "ty_bits t \<in> {8, 16, 32}"
    and "n \<in> type_values t" and "0 \<le> d" and "d < 256" and "d = 1 \<longrightarrow> is_uint t"
  shows "fast_integer_divide t dt n d = Inr (n div byte_divisor d)"
proof (cases "is_int t")
  case True
  then have "d \<noteq> 1" using assms(7) by (auto simp: type_pred_defs)
  moreover have "in_s (ty_bits t) n" using assms(3,4) type_values_in_s [OF True] by auto
  ultimately show ?thesis using True assms by (intro fast_divide_signed)
next
  case False
  then have u: "is_uint t" using assms(2) by (simp add: type_pred_defs)
  moreover have "ty_bits t \<le> 64" using assms(3) by auto
  ultimately show ?thesis using assms type_values_uint [OF u, of n] by (intro fast_divide_unsigned) auto
qed

subsection \<open>Properties\<close>



text \<open>A conversion is looked through even when it changes the value of the constant.\<close>

lemma power_of_two_under_cast:
  "is_const_power_of_two_integer (Cast (UInt_type 8 1) (IntImm (Int_type 32 1) 256)) = Some 8"
  "eval \<rho> (Cast (UInt_type 8 1) (IntImm (Int_type 32 1) 256)) i = Some 0"
proof -
  have "power_of_two_bits 256 = Some 8" using power_of_two_bits_iff [of 256 8] by simp
  then show "is_const_power_of_two_integer (Cast (UInt_type 8 1) (IntImm (Int_type 32 1) 256)) = Some 8"
    by (simp add: UInt_type_def Int_type_def type_pred_defs)
  show "eval \<rho> (Cast (UInt_type 8 1) (IntImm (Int_type 32 1) 256)) i = Some 0"
    by (simp add: cast_val_def UInt_type_def Int_type_def type_pred_defs no_overflow_int_def u_wrap_mod)
qed







text \<open>
  For a signed numerator that is not positive and a byte of 1, \<open>fast_integer_divide\<close> returns the
  complement of the numerator: the variable \<open>numerator\<close> has been overwritten with its complement before the
  last \<open>select\<close> returns it. Dividing zero by one gives minus one.
\<close>

theorem fast_integer_divide_by_one:
  assumes "type_eq dt (UInt_type 8 (ty_lanes dt))" and "is_int t" and "ty_bits t \<in> {8, 16, 32}" and "n \<le> 0"
  shows "fast_integer_divide t dt n 1 = Inr (- n - 1)"
  using assms by (simp add: fast_integer_divide_def type_pred_defs not_int_def split: prod.split)

theorem fast_integer_divide_by_one_witness:
  "fast_integer_divide (Int_type 32 1) (UInt_type 8 1) 0 1 = Inr (- 1)"
proof -
  have "type_eq (UInt_type 8 1) (UInt_type 8 (ty_lanes (UInt_type 8 1)))" "is_int (Int_type 32 1)"
    "ty_bits (Int_type 32 1) \<in> {8, 16, 32}"
    by (simp_all add: Int_type_def UInt_type_def type_pred_defs type_eq_def)
  from fast_integer_divide_by_one [OF this, of 0] show ?thesis by simp
qed

text \<open>The remainder, reduced to the type of the numerator, for a byte of at least 2.\<close>

lemma fast_integer_modulo_mod:
  assumes "type_eq dt (UInt_type 8 (ty_lanes dt))" and "is_int_or_uint t" and "ty_bits t \<in> {8, 16, 32}"
    and "n \<in> type_values t" and "2 \<le> d" and "d < 256"
  shows "fast_integer_modulo t dt n d = Inr (wrap_int t (n mod d))"
proof -
  have "n - n div d * d = n mod d" by (simp add: minus_div_mult_eq_mod)
  then show ?thesis
    using fast_divide_floor [OF assms(1-4), of d] assms(5,6)
    by (simp add: fast_integer_modulo_def byte_divisor_def wrap_int.wr_diff_right)
qed

end
