(* ===== verification/Cache.thy ===== *)
theory Cache
  imports HalideType
begin

text \<open>
  The memoization cache of the runtime (\<open>cache.cpp\<close>): a hash table of 256 chains and a doubly linked list
  in the order of use, both threaded through the entries, and a header in front of every block of data
  that points back to the entry.

  The memory is explicit. An entry that is allocated is in the map \<open>entries\<close>, a block of data that is
  allocated is in the map \<open>headers\<close>, under its host pointer; to free one is to remove it. Following a null
  pointer, following a pointer to memory that was freed and an assertion that fails are faults. A loop
  along pointers need not end: \<open>None\<close> is the result of a run that goes on forever. Every operation
  holds the lock of the cache for as long as it uses the cache, so operations are steps.
\<close>

datatype cache_fault = NullPointer | FreedPointer | OutOfBounds | AssertionFailed

type_synonym 'a run = "(cache_fault + 'a) option"

definition ret :: "'a \<Rightarrow> 'a run" where
  "ret x = Some (Inr x)"

definition fault :: "cache_fault \<Rightarrow> 'a run" where
  "fault f = Some (Inl f)"

definition seq :: "'a run \<Rightarrow> ('a \<Rightarrow> 'b run) \<Rightarrow> 'b run" where
  "seq m k = Option.bind m (\<lambda>r. case r of Inl f \<Rightarrow> Some (Inl f) | Inr x \<Rightarrow> k x)"

lemma seq_simps [simp]: "seq (ret x) k = k x" "seq (fault f) k = fault f" "seq None k = None"
  by (simp_all add: seq_def ret_def fault_def)

lemma ret_fault [simp]: "ret x = ret y \<longleftrightarrow> x = y" "ret x \<noteq> fault f" "fault f \<noteq> ret x"
  "ret x \<noteq> None" "fault f \<noteq> None"
  by (simp_all add: ret_def fault_def)

lemma seq_mono [partial_function_mono]:
  assumes "mono_option A" and "\<And>x. mono_option (\<lambda>f. B x f)"
  shows "mono_option (\<lambda>f. seq (A f) (\<lambda>x. B x f))"
proof -
  have "mono_option (\<lambda>f. case r of Inl e \<Rightarrow> Some (Inl e) | Inr x \<Rightarrow> B x f)" for r
    using assms(2) by (cases r) (auto simp: monotone_on_def flat_ord_def)
  then show ?thesis unfolding seq_def by (intro bind_mono [OF assms(1)])
qed

subsection \<open>Buffers\<close>

text \<open>
  The interface of the device and the padding of a buffer are left out: the cache only hands a buffer to
  \<open>halide_device_free\<close>, which is not part of the model, before it frees the block. The array of dimensions is
  a list, and a buffer that is copied has its own. The product of a stride and an extent is taken in 32
  bits by the code, and is defined only as long as it fits.
\<close>

record halide_dimension =
  dim_min :: int
  dim_extent :: int
  dim_stride :: int
  dim_flags :: int

record halide_buffer =
  buf_device :: int
  buf_host :: "nat option"
  buf_flags :: int
  buf_type :: htype
  buf_dim :: "halide_dimension list"

text \<open>The first and one past the last byte, counted from the host pointer.\<close>

definition buf_begin :: "halide_buffer \<Rightarrow> int" where
  "buf_begin b = (\<Sum>d \<leftarrow> buf_dim b. if dim_stride d < 0 then dim_stride d * (dim_extent d - 1) else 0)
     * int (ty_bytes (buf_type b))"

definition buf_end :: "halide_buffer \<Rightarrow> int" where
  "buf_end b = ((\<Sum>d \<leftarrow> buf_dim b. if dim_stride d > 0 then dim_stride d * (dim_extent d - 1) else 0) + 1)
     * int (ty_bytes (buf_type b))"

definition size_in_bytes :: "halide_buffer \<Rightarrow> int" where
  "size_in_bytes b = u_wrap 64 (buf_end b - buf_begin b)"

text \<open>Every dimension of the buffer is compared, also when the shape has fewer.\<close>

fun has_shape :: "halide_dimension list \<Rightarrow> halide_dimension list \<Rightarrow> bool run" where
  "has_shape [] shape = ret True"
| "has_shape (d # ds) [] = fault OutOfBounds"
| "has_shape (d # ds) (s # ss) = (if d \<noteq> s then ret False else has_shape ds ss)"

definition buffer_has_shape :: "halide_buffer \<Rightarrow> halide_dimension list \<Rightarrow> bool run" where
  "buffer_has_shape buf shape = has_shape (buf_dim buf) shape"

fun djb_loop :: "int \<Rightarrow> int list \<Rightarrow> int" where
  "djb_loop h [] = h"
| "djb_loop h (k # ks) = djb_loop (u_wrap 32 (u_wrap 32 (push_bit 5 h) + h + k)) ks"

definition djb_hash :: "int list \<Rightarrow> int" where
  "djb_hash key = djb_loop 5381 key"

subsection \<open>The cache\<close>

type_synonym addr = nat
type_synonym host = nat

record cache_entry =
  ce_next :: "addr option"
  ce_more_recent :: "addr option"
  ce_less_recent :: "addr option"
  ce_key :: "int list"
  ce_hash :: int
  ce_in_use_count :: int
  ce_computed_bounds :: "halide_dimension list"
  ce_buf :: "halide_buffer list"

record cache_block_header =
  hdr_entry :: "addr option"
  hdr_hash :: int

record cache_state =
  entries :: "addr \<Rightarrow> cache_entry option"
  headers :: "host \<Rightarrow> cache_block_header option"
  cache_entries :: "addr option list"
  most_recently_used :: "addr option"
  least_recently_used :: "addr option"
  max_cache_size :: int
  current_cache_size :: int

definition kHashTableSize :: nat where
  "kHashTableSize = 256"

definition kDefaultCacheSize :: int where
  "kDefaultCacheSize = 1048576"

definition initial_cache :: cache_state where
  "initial_cache = \<lparr>entries = \<lambda>_. None, headers = \<lambda>_. None, cache_entries = replicate kHashTableSize None,
     most_recently_used = None, least_recently_used = None, max_cache_size = kDefaultCacheSize,
     current_cache_size = 0\<rparr>"

definition ce_tuple_count :: "cache_entry \<Rightarrow> nat" where
  "ce_tuple_count e = length (ce_buf e)"

definition hash_index :: "int \<Rightarrow> nat" where
  "hash_index h = nat (h mod int kHashTableSize)"

text \<open>
  What \<open>halide_malloc\<close> does is a parameter: it answers with the place of a block of data, with the place of
  an entry, and with whether the rest of an entry could be allocated. The alignment of its blocks depends
  on the target.
\<close>

record allocator =
  malloc_alignment :: int
  malloc_block :: "cache_state \<Rightarrow> int \<Rightarrow> host option"
  malloc_entry :: "cache_state \<Rightarrow> addr option"
  malloc_metadata :: "cache_state \<Rightarrow> int \<Rightarrow> bool"

subsection \<open>Access to memory\<close>

definition deref :: "addr option \<Rightarrow> cache_state \<Rightarrow> cache_entry run" where
  "deref p s = (case p of None \<Rightarrow> fault NullPointer
     | Some a \<Rightarrow> (case entries s a of None \<Rightarrow> fault FreedPointer | Some e \<Rightarrow> ret e))"

definition modify :: "addr option \<Rightarrow> (cache_entry \<Rightarrow> cache_entry) \<Rightarrow> cache_state \<Rightarrow> cache_state run" where
  "modify p f s = (case p of None \<Rightarrow> fault NullPointer
     | Some a \<Rightarrow> (case entries s a of None \<Rightarrow> fault FreedPointer
         | Some e \<Rightarrow> ret (s\<lparr>entries := (entries s)(a \<mapsto> f e)\<rparr>)))"

definition header_of :: "host option \<Rightarrow> cache_state \<Rightarrow> cache_block_header run" where
  "header_of p s = (case p of None \<Rightarrow> fault NullPointer
     | Some h \<Rightarrow> (case headers s h of None \<Rightarrow> fault FreedPointer | Some d \<Rightarrow> ret d))"

definition set_header :: "host option \<Rightarrow> addr option \<Rightarrow> cache_state \<Rightarrow> cache_state run" where
  "set_header p e s = seq (header_of p s)
     (\<lambda>d. ret (s\<lparr>headers := (headers s)(the p \<mapsto> d\<lparr>hdr_entry := e\<rparr>)\<rparr>))"

definition free_block :: "host option \<Rightarrow> cache_state \<Rightarrow> cache_state run" where
  "free_block p s = seq (header_of p s) (\<lambda>d. ret (s\<lparr>headers := (headers s)(the p := None)\<rparr>))"

definition check :: "bool \<Rightarrow> 'a run \<Rightarrow> 'a run" where
  "check b r = (if b then r else fault AssertionFailed)"

fun each_buf :: "(halide_buffer \<Rightarrow> cache_state \<Rightarrow> cache_state run) \<Rightarrow> halide_buffer list \<Rightarrow> cache_state \<Rightarrow>
    cache_state run" where
  "each_buf f [] s = ret s"
| "each_buf f (b # bs) s = seq (f b s) (each_buf f bs)"

definition destroy :: "cache_entry \<Rightarrow> cache_state \<Rightarrow> cache_state run" where
  "destroy e s = each_buf (\<lambda>b. free_block (buf_host b)) (ce_buf e) s"

subsection \<open>Pruning\<close>

partial_function (option) find_prev :: "addr \<Rightarrow> addr option \<Rightarrow> cache_state \<Rightarrow> addr option run" where
  "find_prev a p s = (case p of None \<Rightarrow> ret None
     | Some b \<Rightarrow> seq (deref p s) (\<lambda>e. if ce_next e = Some a then ret p else find_prev a (ce_next e) s))"

definition unlink_hash :: "addr \<Rightarrow> cache_state \<Rightarrow> cache_state run" where
  "unlink_hash a s = seq (deref (Some a) s) (\<lambda>c.
     let index = hash_index (ce_hash c); head = cache_entries s ! index in
     if head = Some a then ret (s\<lparr>cache_entries := (cache_entries s)[index := ce_next c]\<rparr>)
     else seq (find_prev a head s) (\<lambda>prev.
       check (prev \<noteq> None) (modify prev (\<lambda>e. e\<lparr>ce_next := ce_next c\<rparr>) s)))"

definition unlink_less_recent :: "addr \<Rightarrow> addr option \<Rightarrow> cache_state \<Rightarrow> cache_state run" where
  "unlink_less_recent a more_recent s =
     (let s = (if least_recently_used s = Some a then s\<lparr>least_recently_used := more_recent\<rparr> else s) in
      if more_recent \<noteq> None
      then seq (deref (Some a) s) (\<lambda>c. modify more_recent (\<lambda>e. e\<lparr>ce_less_recent := ce_less_recent c\<rparr>) s)
      else ret s)"

definition unlink_more_recent :: "addr \<Rightarrow> addr option \<Rightarrow> cache_state \<Rightarrow> cache_state run" where
  "unlink_more_recent a more_recent s = seq (deref (Some a) s) (\<lambda>c.
     let s = (if most_recently_used s = Some a then s\<lparr>most_recently_used := ce_less_recent c\<rparr> else s) in
     if ce_less_recent c \<noteq> None then modify (Some a) (\<lambda>e. e\<lparr>ce_less_recent := more_recent\<rparr>) s
     else ret s)"

definition free_entry :: "addr \<Rightarrow> cache_state \<Rightarrow> cache_state run" where
  "free_entry a s = seq (deref (Some a) s) (\<lambda>c.
     let s = s\<lparr>current_cache_size :=
       foldl (\<lambda>n b. s_wrap 64 (n - size_in_bytes b)) (current_cache_size s) (ce_buf c)\<rparr> in
     seq (destroy c s) (\<lambda>s. ret (s\<lparr>entries := (entries s)(a := None)\<rparr>)))"

definition remove_entry :: "addr \<Rightarrow> addr option \<Rightarrow> cache_state \<Rightarrow> cache_state run" where
  "remove_entry a more_recent s =
     seq (seq (seq (unlink_hash a s) (unlink_less_recent a more_recent)) (unlink_more_recent a more_recent))
       (free_entry a)"

partial_function (option) prune_loop :: "addr option \<Rightarrow> cache_state \<Rightarrow> cache_state run" where
  "prune_loop prune_candidate s =
     (if \<not> current_cache_size s > max_cache_size s then ret s
      else case prune_candidate of None \<Rightarrow> ret s
      | Some a \<Rightarrow> seq (deref prune_candidate s) (\<lambda>c.
          seq (if ce_in_use_count c = 0 then remove_entry a (ce_more_recent c) s else ret s)
            (prune_loop (ce_more_recent c))))"

definition prune_cache :: "cache_state \<Rightarrow> cache_state run" where
  "prune_cache s = prune_loop (least_recently_used s) s"

definition halide_memoization_cache_set_size :: "int \<Rightarrow> cache_state \<Rightarrow> cache_state run" where
  "halide_memoization_cache_set_size n s =
     prune_cache (s\<lparr>max_cache_size := (if n = 0 then kDefaultCacheSize else n)\<rparr>)"

subsection \<open>Lookup\<close>

fun all_bounds_equal :: "halide_buffer list \<Rightarrow> halide_buffer list \<Rightarrow> bool run" where
  "all_bounds_equal [] es = ret True"
| "all_bounds_equal (b # bs) [] = fault OutOfBounds"
| "all_bounds_equal (b # bs) (e # es) =
     seq (buffer_has_shape b (buf_dim e)) (\<lambda>eq. if eq then all_bounds_equal bs es else ret False)"

definition entry_matches :: "int \<Rightarrow> int list \<Rightarrow> halide_buffer \<Rightarrow> halide_buffer list \<Rightarrow> cache_entry \<Rightarrow> bool run" where
  "entry_matches h key computed_bounds bufs e =
     (if ce_hash e \<noteq> h \<or> ce_key e \<noteq> key then ret False
      else seq (buffer_has_shape computed_bounds (ce_computed_bounds e)) (\<lambda>eq.
        if \<not> eq \<or> ce_tuple_count e \<noteq> length bufs then ret False else all_bounds_equal bufs (ce_buf e)))"

partial_function (option) find_entry ::
    "(cache_entry \<Rightarrow> bool run) \<Rightarrow> addr option \<Rightarrow> cache_state \<Rightarrow> addr option run" where
  "find_entry m p s = (case p of None \<Rightarrow> ret None
     | Some a \<Rightarrow> seq (deref p s) (\<lambda>e. seq (m e) (\<lambda>found.
         if found then ret p else find_entry m (ce_next e) s)))"

definition unlink_entry :: "addr \<Rightarrow> cache_state \<Rightarrow> cache_state run" where
  "unlink_entry a s = seq (deref (Some a) s) (\<lambda>e. check (ce_more_recent e \<noteq> None)
     (seq (if ce_less_recent e \<noteq> None
           then modify (ce_less_recent e) (\<lambda>l. l\<lparr>ce_more_recent := ce_more_recent e\<rparr>) s
           else check (least_recently_used s = Some a) (ret (s\<lparr>least_recently_used := ce_more_recent e\<rparr>)))
     (\<lambda>s. seq (deref (Some a) s) (\<lambda>e. check (ce_more_recent e \<noteq> None)
       (modify (ce_more_recent e) (\<lambda>m. m\<lparr>ce_less_recent := ce_less_recent e\<rparr>) s)))))"

definition link_most_recent :: "addr \<Rightarrow> cache_state \<Rightarrow> cache_state run" where
  "link_most_recent a s =
     seq (modify (Some a) (\<lambda>e. e\<lparr>ce_more_recent := None, ce_less_recent := most_recently_used s\<rparr>) s) (\<lambda>s.
     seq (if most_recently_used s \<noteq> None
          then modify (most_recently_used s) (\<lambda>m. m\<lparr>ce_more_recent := Some a\<rparr>) s else ret s) (\<lambda>s.
     ret (s\<lparr>most_recently_used := Some a\<rparr>)))"

definition make_most_recent :: "addr \<Rightarrow> cache_state \<Rightarrow> cache_state run" where
  "make_most_recent a s =
     (if most_recently_used s = Some a then ret s else seq (unlink_entry a s) (link_most_recent a))"

definition header_bytes :: "allocator \<Rightarrow> int" where
  "header_bytes al = (let mask = malloc_alignment al - 1 in and (16 + mask) (not mask))"

fun alloc_blocks :: "allocator \<Rightarrow> int \<Rightarrow> halide_buffer list \<Rightarrow> halide_buffer list \<Rightarrow> cache_state \<Rightarrow>
    (int \<times> halide_buffer list \<times> cache_state) run" where
  "alloc_blocks al h got [] s = ret (1, rev got, s)"
| "alloc_blocks al h got (b # bs) s =
     (case malloc_block al s (u_wrap 64 (size_in_bytes b + header_bytes al)) of
        None \<Rightarrow> seq (each_buf (\<lambda>b. free_block (buf_host b)) got s) (\<lambda>s.
          ret (-1, map (\<lambda>b. b\<lparr>buf_host := None\<rparr>) (rev got) @ b\<lparr>buf_host := None\<rparr> # bs, s))
      | Some p \<Rightarrow> alloc_blocks al h (b\<lparr>buf_host := Some p\<rparr> # got) bs
          (s\<lparr>headers := (headers s)(p \<mapsto> \<lparr>hdr_entry = None, hdr_hash = h\<rparr>)\<rparr>))"

definition halide_memoization_cache_lookup ::
    "allocator \<Rightarrow> int list \<Rightarrow> halide_buffer \<Rightarrow> halide_buffer list \<Rightarrow> cache_state \<Rightarrow>
     (int \<times> halide_buffer list \<times> cache_state) run" where
  "halide_memoization_cache_lookup al key computed_bounds bufs s =
     (let h = djb_hash key; index = hash_index h in
      seq (find_entry (entry_matches h key computed_bounds bufs) (cache_entries s ! index) s) (\<lambda>p.
        case p of
          Some a \<Rightarrow> seq (make_most_recent a s) (\<lambda>s. seq (deref p s) (\<lambda>e.
            seq (modify p (\<lambda>e. e\<lparr>ce_in_use_count := u_wrap 32 (ce_in_use_count e + int (length bufs))\<rparr>) s)
              (\<lambda>s. ret (0, ce_buf e, s))))
        | None \<Rightarrow> alloc_blocks al h [] bufs s))"

subsection \<open>Store\<close>

definition hosts_differ :: "halide_buffer list \<Rightarrow> halide_buffer list \<Rightarrow> bool" where
  "hosts_differ bs es = list_all (\<lambda>(b, e). buf_host b \<noteq> buf_host e) (zip bs es)"

definition storage_bytes :: "nat \<Rightarrow> nat \<Rightarrow> nat \<Rightarrow> int" where
  "storage_bytes tuples dimensions key_size =
     u_wrap 64 (56 * int tuples + 16 * int dimensions * (int tuples + 1) + int key_size)"

text \<open>
  A new entry has as many dimensions for every buffer as the computed bounds have; the buffers themselves
  keep their number, so that a buffer with another number is read out of bounds, now or later.
\<close>

definition init_entry :: "allocator \<Rightarrow> int list \<Rightarrow> int \<Rightarrow> halide_buffer \<Rightarrow> halide_buffer list \<Rightarrow> cache_state \<Rightarrow>
    cache_entry option run" where
  "init_entry al key h computed_bounds bufs s =
     (let dimensions = length (buf_dim computed_bounds) in
      if \<not> malloc_metadata al s (storage_bytes (length bufs) dimensions (length key)) then ret None
      else if \<not> list_all (\<lambda>b. length (buf_dim b) = dimensions) bufs then fault OutOfBounds
      else ret (Some \<lparr>ce_next = None, ce_more_recent = None, ce_less_recent = None, ce_key = key, ce_hash = h,
             ce_in_use_count = 0, ce_computed_bounds = buf_dim computed_bounds, ce_buf = bufs\<rparr>))"

definition link_entry :: "addr \<Rightarrow> cache_entry \<Rightarrow> nat \<Rightarrow> cache_state \<Rightarrow> cache_state run" where
  "link_entry a e index s =
     (let e = e\<lparr>ce_next := cache_entries s ! index, ce_less_recent := most_recently_used s,
                ce_in_use_count := int (ce_tuple_count e)\<rparr>;
          mru = most_recently_used s;
          s = s\<lparr>entries := (entries s)(a \<mapsto> e)\<rparr> in
      seq (if mru \<noteq> None then modify mru (\<lambda>m. m\<lparr>ce_more_recent := Some a\<rparr>) s else ret s) (\<lambda>s.
        ret (s\<lparr>most_recently_used := Some a,
               least_recently_used := (if least_recently_used s = None then Some a else least_recently_used s),
               cache_entries := (cache_entries s)[index := Some a]\<rparr>)))"

definition mark_blocks :: "addr option \<Rightarrow> halide_buffer list \<Rightarrow> cache_state \<Rightarrow> cache_state run" where
  "mark_blocks e bufs s = each_buf (\<lambda>b. set_header (buf_host b) e) bufs s"

definition added_size :: "halide_buffer list \<Rightarrow> int" where
  "added_size bufs = foldl (\<lambda>n b. u_wrap 64 (n + size_in_bytes b)) 0 bufs"

definition new_entry :: "allocator \<Rightarrow> int list \<Rightarrow> int \<Rightarrow> halide_buffer \<Rightarrow> halide_buffer list \<Rightarrow> cache_state \<Rightarrow>
    (addr \<times> cache_entry) option run" where
  "new_entry al key h computed_bounds bufs s = (case malloc_entry al s of None \<Rightarrow> ret None
     | Some a \<Rightarrow> seq (init_entry al key h computed_bounds bufs s) (\<lambda>e. ret (map_option (Pair a) e)))"

definition add_entry :: "(addr \<times> cache_entry) option \<Rightarrow> nat \<Rightarrow> halide_buffer list \<Rightarrow> cache_state \<Rightarrow> cache_state run" where
  "add_entry new index bufs s = (case new of
       None \<Rightarrow> mark_blocks None bufs
         (s\<lparr>current_cache_size := s_wrap 64 (current_cache_size s - added_size bufs)\<rparr>)
     | Some (a, e) \<Rightarrow> seq (link_entry a e index s) (mark_blocks (Some a) bufs))"

definition halide_memoization_cache_store ::
    "allocator \<Rightarrow> int list \<Rightarrow> halide_buffer \<Rightarrow> halide_buffer list \<Rightarrow> cache_state \<Rightarrow> cache_state run" where
  "halide_memoization_cache_store al key computed_bounds bufs s =
     (if bufs = [] then fault OutOfBounds
      else seq (header_of (buf_host (hd bufs)) s) (\<lambda>hdr.
        let h = hdr_hash hdr; index = hash_index h in
        seq (find_entry (entry_matches h key computed_bounds bufs) (cache_entries s ! index) s) (\<lambda>p.
          case p of
            Some a \<Rightarrow> seq (deref p s) (\<lambda>e.
              check (hosts_differ bufs (ce_buf e)) (mark_blocks None bufs s))
          | None \<Rightarrow>
              seq (prune_cache (s\<lparr>current_cache_size := s_wrap 64 (current_cache_size s + added_size bufs)\<rparr>))
                (\<lambda>s. seq (new_entry al key h computed_bounds bufs s) (\<lambda>new. add_entry new index bufs s)))))"

subsection \<open>Release and clean-up\<close>

definition halide_memoization_cache_release :: "host option \<Rightarrow> cache_state \<Rightarrow> cache_state run" where
  "halide_memoization_cache_release host s = seq (header_of host s) (\<lambda>hdr.
     case hdr_entry hdr of
       None \<Rightarrow> free_block host s
     | Some a \<Rightarrow> seq (deref (Some a) s) (\<lambda>e. check (ce_in_use_count e > 0)
         (modify (Some a) (\<lambda>e. e\<lparr>ce_in_use_count := ce_in_use_count e - 1\<rparr>) s)))"

partial_function (option) cleanup_chain :: "addr option \<Rightarrow> cache_state \<Rightarrow> cache_state run" where
  "cleanup_chain p s = (case p of None \<Rightarrow> ret s
     | Some a \<Rightarrow> seq (deref p s) (\<lambda>e. seq (destroy e s) (\<lambda>s.
         cleanup_chain (ce_next e) (s\<lparr>entries := (entries s)(a := None)\<rparr>))))"

fun cleanup_chains :: "nat list \<Rightarrow> cache_state \<Rightarrow> cache_state run" where
  "cleanup_chains [] s = ret s"
| "cleanup_chains (i # is) s =
     seq (cleanup_chain (cache_entries s ! i) (s\<lparr>cache_entries := (cache_entries s)[i := None]\<rparr>)) (cleanup_chains is)"

definition halide_memoization_cache_cleanup :: "cache_state \<Rightarrow> cache_state run" where
  "halide_memoization_cache_cleanup s = seq (cleanup_chains [0..<kHashTableSize] s) (\<lambda>s.
     ret (s\<lparr>current_cache_size := 0, most_recently_used := None, least_recently_used := None\<rparr>))"

declare find_prev.simps [code] prune_loop.simps [code] find_entry.simps [code] cleanup_chain.simps [code]

end
