(* ===== verification/CacheLists.thy ===== *)
theory CacheLists
  imports Cache
begin

text \<open>
  The lists that are threaded through the entries of the cache: what it means that a pointer starts a
  list, and how the lists of the cache are changed by the writes that insert, remove and move an entry.
\<close>

type_synonym heap = "addr \<Rightarrow> cache_entry option"

text \<open>A segment of a list: from \<open>p\<close> along the field \<open>l\<close> through the entries \<open>xs\<close> to \<open>q\<close>.\<close>

primrec seg :: "(cache_entry \<Rightarrow> addr option) \<Rightarrow> heap \<Rightarrow> addr option \<Rightarrow> addr list \<Rightarrow> addr option \<Rightarrow> bool" where
  "seg l h p [] q \<longleftrightarrow> p = q"
| "seg l h p (a # as) q \<longleftrightarrow> p = Some a \<and> (\<exists>e. h a = Some e \<and> seg l h (l e) as q)"

lemma seg_append [simp]: "seg l h p (xs @ ys) q \<longleftrightarrow> (\<exists>r. seg l h p xs r \<and> seg l h r ys q)"
  by (induction xs arbitrary: p) auto

lemma seg_cong:
  "(\<And>a. a \<in> set xs \<Longrightarrow> map_option l (h' a) = map_option l (h a)) \<Longrightarrow> seg l h p xs q \<Longrightarrow> seg l h' p xs q"
proof (induction xs arbitrary: p)
  case (Cons a xs)
  then obtain e where e: "h a = Some e" "p = Some a" "seg l h (l e) xs q" by auto
  have "map_option l (h' a) = Some (l e)" using Cons.prems(1) [of a] e(1) by simp
  then obtain e' where "h' a = Some e'" "l e' = l e" by auto
  then show ?case using e Cons.IH [of "l e"] Cons.prems(1) by simp
qed simp

lemma seg_dom: "seg l h p xs q \<Longrightarrow> a \<in> set xs \<Longrightarrow> \<exists>e. h a = Some e"
  by (induction xs arbitrary: p) auto

lemma seg_start: "seg l h p xs None \<Longrightarrow> p = (case xs of [] \<Rightarrow> None | a # _ \<Rightarrow> Some a)"
  by (cases xs) auto

lemma seg_unique: "seg l h p xs None \<Longrightarrow> seg l h p ys None \<Longrightarrow> xs = ys"
proof (induction xs arbitrary: p ys)
  case (Cons a xs)
  then show ?case by (cases ys) auto
qed (auto dest: seg_start split: list.splits)

lemma seg_distinct: "seg l h p xs None \<Longrightarrow> distinct xs"
proof (induction xs arbitrary: p)
  case (Cons a xs)
  then obtain e where e: "h a = Some e" "seg l h (l e) xs None" by auto
  have "a \<notin> set xs"
  proof
    assume "a \<in> set xs"
    then obtain us vs where v: "xs = us @ a # vs" by (auto simp: in_set_conv_decomp)
    then have "seg l h (l e) vs None" using e by auto
    then have "vs = xs" by (rule seg_unique [OF _ e(2)])
    then show False using v by simp
  qed
  then show ?case using Cons.IH e(2) by simp
qed simp

text \<open>The ends of a list.\<close>

definition last_opt :: "addr list \<Rightarrow> addr option" where
  "last_opt xs = (if xs = [] then None else Some (last xs))"

definition hd_opt :: "addr list \<Rightarrow> addr option" where
  "hd_opt xs = (if xs = [] then None else Some (hd xs))"

lemma end_opt_simps [simp]: "last_opt [] = None" "last_opt (xs @ [a]) = Some a" "hd_opt [] = None" "hd_opt (a # xs) = Some a"
  "last_opt xs = None \<longleftrightarrow> xs = []" "hd_opt xs = None \<longleftrightarrow> xs = []"
  by (simp_all add: last_opt_def hd_opt_def)

text \<open>A write through a pointer that may be null.\<close>

definition put_at :: "addr option \<Rightarrow> (cache_entry \<Rightarrow> cache_entry) \<Rightarrow> heap \<Rightarrow> heap" where
  "put_at p f h = (case p of None \<Rightarrow> h | Some a \<Rightarrow> h(a := map_option f (h a)))"

lemma put_at_Some: "h a = Some e \<Longrightarrow> put_at (Some a) f h = h(a \<mapsto> f e)"
  by (auto simp: put_at_def)

lemma put_at_None [simp]: "put_at None f h = h"
  by (simp add: put_at_def)

lemma put_at_field:
  "(\<And>e. l (f e) = l e) \<Longrightarrow> map_option l (put_at p f h a) = map_option l (h a)"
  by (auto simp: put_at_def option.map_comp comp_def split: option.split)

lemma put_at_other: "p \<noteq> Some a \<Longrightarrow> put_at p f h a = h a"
  by (auto simp: put_at_def split: option.split)

text \<open>
  A field that links entries, and the write to it. The lemmas of the interface hold for each of the three
  fields.
\<close>

locale link =
  fixes get :: "cache_entry \<Rightarrow> addr option" and put :: "addr option \<Rightarrow> cache_entry \<Rightarrow> cache_entry"
  assumes get_put [simp]: "get (put v e) = v"
begin

lemma seg_upd_other: "a \<notin> set xs \<Longrightarrow> seg get h p xs q \<Longrightarrow> seg get (h(a := v)) p xs q"
  by (rule seg_cong) auto

lemma seg_redirect:
  assumes "seg get h p (xs @ [a]) q" and "a \<notin> set xs" and "h a = Some e"
  shows "seg get (h(a \<mapsto> put r e)) p (xs @ [a]) r"
proof -
  have "seg get h p xs (Some a)" using assms(1) by auto
  then have "seg get (h(a \<mapsto> put r e)) p xs (Some a)" by (rule seg_upd_other [OF assms(2)])
  then show ?thesis by simp
qed

lemma seg_put:
  "seg get h p us q \<Longrightarrow> distinct us \<Longrightarrow> us \<noteq> [] \<Longrightarrow> seg get (put_at (last_opt us) (put r) h) p us r"
proof (induction us rule: rev_induct)
  case (snoc u us)
  then obtain e where "h u = Some e" by auto
  then have "put_at (last_opt (us @ [u])) (put r) h = h(u \<mapsto> put r e)" by (simp add: put_at_Some fun_eq_iff)
  moreover have "seg get (h(u \<mapsto> put r e)) p (us @ [u]) r"
    by (rule seg_redirect [OF snoc.prems(1) _ \<open>h u = Some e\<close>]) (use snoc.prems(2) in simp)
  ultimately show ?case by (simp only:)
qed simp

text \<open>Leaving out an entry that is not the first.\<close>

lemma seg_skip:
  assumes "seg get h p (xs @ b # a # ys) None" and "h a = Some c" and "h b = Some e"
  shows "seg get (h(b \<mapsto> put (get c) e)) p (xs @ b # ys) None"
proof -
  have d: "distinct (xs @ b # a # ys)" by (rule seg_distinct [OF assms(1)])
  have "seg get h p (xs @ [b]) (Some a)" and y: "seg get h (get c) ys None" using assms by auto
  then have "seg get (h(b \<mapsto> put (get c) e)) p (xs @ [b]) (get c)"
    by (rule_tac seg_redirect) (use d assms in auto)
  moreover have "seg get (h(b \<mapsto> put (get c) e)) (get c) ys None"
    by (rule seg_upd_other [OF _ y]) (use d in auto)
  ultimately have "seg get (h(b \<mapsto> put (get c) e)) p ((xs @ [b]) @ ys) None" by (simp only: seg_append) blast
  then show ?thesis by simp
qed

end

interpretation next_link: link ce_next "\<lambda>v e. e\<lparr>ce_next := v\<rparr>"
  by unfold_locales simp

interpretation more_link: link ce_more_recent "\<lambda>v e. e\<lparr>ce_more_recent := v\<rparr>"
  by unfold_locales simp

interpretation less_link: link ce_less_recent "\<lambda>v e. e\<lparr>ce_less_recent := v\<rparr>"
  by unfold_locales simp

subsection \<open>Runs along a chain\<close>

lemma deref_Some [simp]: "entries s a = Some e \<Longrightarrow> deref (Some a) s = ret e"
  by (simp add: deref_def)

lemma modify_Some [simp]:
  "entries s a = Some e \<Longrightarrow> modify (Some a) f s = ret (s\<lparr>entries := (entries s)(a \<mapsto> f e)\<rparr>)"
  by (simp add: modify_def)

lemma check_True [simp]: "check True r = r"
  by (simp add: check_def)

lemma find_prev_Some:
  "entries s b = Some e \<Longrightarrow>
     find_prev a (Some b) s = (if ce_next e = Some a then ret (Some b) else find_prev a (ce_next e) s)"
  by (subst find_prev.simps) simp

lemma find_entry_Some:
  "entries s a = Some e \<Longrightarrow>
     find_entry m (Some a) s = seq (m e) (\<lambda>found. if found then ret (Some a) else find_entry m (ce_next e) s)"
  by (subst find_entry.simps) simp

text \<open>The search for the predecessor in a chain finds it.\<close>

lemma find_prev_ok:
  assumes "seg ce_next (entries s) p (xs @ b # a # ys) None"
  shows "find_prev a p s = ret (Some b)"
  using assms
proof (induction xs arbitrary: p)
  case Nil
  then show ?case by (auto simp: find_prev_Some)
next
  case (Cons x xs)
  then obtain e where e: "entries s x = Some e" "p = Some x" "seg ce_next (entries s) (ce_next e) (xs @ b # a # ys) None"
    by auto
  have "distinct ((x # xs) @ b # a # ys)" by (rule seg_distinct [OF Cons.prems])
  moreover have "ce_next e = Some (hd (xs @ [b]))" using seg_start [OF e(3)] by (cases xs) auto
  ultimately have "ce_next e \<noteq> Some a" by (cases xs) auto
  then show ?case using Cons.IH [OF e(3)] e by (simp add: find_prev_Some)
qed

text \<open>A search along a chain for the first entry that is accepted.\<close>

lemma find_entry_ok:
  assumes "seg ce_next (entries s) p ys None" and "\<And>a. a \<in> set ys \<Longrightarrow> m (the (entries s a)) = ret (M a)"
  shows "find_entry m p s = ret (List.find M ys)"
  using assms
proof (induction ys arbitrary: p)
  case Nil
  then show ?case by (simp add: find_entry.simps)
next
  case (Cons a ys)
  then obtain e where e: "entries s a = Some e" "p = Some a" "seg ce_next (entries s) (ce_next e) ys None" by auto
  have m: "m e = ret (M a)" using Cons.prems(2) [of a] e(1) by simp
  have "find_entry m (ce_next e) s = ret (List.find M ys)" using Cons.IH [OF e(3)] Cons.prems(2) by simp
  then show ?case using e m by (simp add: find_entry_Some)
qed

subsection \<open>The order of use\<close>

text \<open>The entries from the least to the most recently used one.\<close>

definition lru_list :: "heap \<Rightarrow> addr option \<Rightarrow> addr option \<Rightarrow> addr list \<Rightarrow> bool" where
  "lru_list h lru mru xs \<longleftrightarrow> seg ce_more_recent h lru xs None \<and> seg ce_less_recent h mru (rev xs) None"

lemma lru_list_distinct: "lru_list h lru mru xs \<Longrightarrow> distinct xs"
  by (auto simp: lru_list_def dest: seg_distinct)

lemma lru_list_cong:
  assumes "lru_list h lru mru xs"
    and "\<And>a. a \<in> set xs \<Longrightarrow> map_option ce_more_recent (h' a) = map_option ce_more_recent (h a)"
    and "\<And>a. a \<in> set xs \<Longrightarrow> map_option ce_less_recent (h' a) = map_option ce_less_recent (h a)"
  shows "lru_list h' lru mru xs"
  using assms seg_cong [of xs ce_more_recent h' h] seg_cong [of "rev xs" ce_less_recent h' h]
  by (auto simp: lru_list_def)

lemma last_opt_in: "last_opt xs = Some a \<Longrightarrow> a \<in> set xs"
  by (auto simp: last_opt_def split: if_splits)

lemma seg_hd_opt: "seg l h p xs None \<Longrightarrow> p = hd_opt xs"
  using seg_start by (cases xs) auto

lemma seg_rev_last_opt: "seg l h p (rev xs) None \<Longrightarrow> p = last_opt xs"
  using seg_hd_opt [of l h p "rev xs"] by (simp add: hd_opt_def last_opt_def hd_rev)

lemma lru_list_at:
  assumes "lru_list h lru mru (us @ a # vs)"
  obtains e where "h a = Some e" "ce_more_recent e = hd_opt vs" "ce_less_recent e = last_opt us"
    "seg ce_more_recent h lru us (Some a)" "seg ce_more_recent h (hd_opt vs) vs None"
    "seg ce_less_recent h mru (rev vs) (Some a)" "seg ce_less_recent h (last_opt us) (rev us) None"
proof -
  obtain e where e: "h a = Some e" "seg ce_more_recent h lru us (Some a)" "seg ce_more_recent h (ce_more_recent e) vs None"
    using assms by (auto simp: lru_list_def)
  have "seg ce_less_recent h mru (rev vs) (Some a)" "seg ce_less_recent h (ce_less_recent e) (rev us) None"
    using assms e(1) by (auto simp: lru_list_def)
  then show ?thesis using that [OF e(1)] e seg_hd_opt [OF e(3)] seg_rev_last_opt [of ce_less_recent h "ce_less_recent e" us]
    by metis
qed

lemma lru_list_ends: "lru_list h lru mru xs \<Longrightarrow> lru = hd_opt xs" "lru_list h lru mru xs \<Longrightarrow> mru = last_opt xs"
  using seg_hd_opt seg_rev_last_opt unfolding lru_list_def by blast+

abbreviation put_more :: "addr option \<Rightarrow> addr option \<Rightarrow> heap \<Rightarrow> heap" where
  "put_more p v \<equiv> put_at p (\<lambda>e. e\<lparr>ce_more_recent := v\<rparr>)"

abbreviation put_less :: "addr option \<Rightarrow> addr option \<Rightarrow> heap \<Rightarrow> heap" where
  "put_less p v \<equiv> put_at p (\<lambda>e. e\<lparr>ce_less_recent := v\<rparr>)"

text \<open>Leaving out an entry: its neighbours are linked with each other.\<close>

lemma lru_list_remove:
  assumes l: "lru_list h lru mru (us @ a # vs)"
  shows "lru_list (put_less (hd_opt vs) (last_opt us) (put_more (last_opt us) (hd_opt vs) h))
     (if us = [] then hd_opt vs else lru) (if vs = [] then last_opt us else mru) (us @ vs)"
proof -
  let ?h1 = "put_more (last_opt us) (hd_opt vs) h"
  let ?h2 = "put_less (hd_opt vs) (last_opt us) ?h1"
  have d: "distinct (us @ a # vs)" by (rule lru_list_distinct [OF l])
  obtain e where e: "seg ce_more_recent h lru us (Some a)" "seg ce_more_recent h (hd_opt vs) vs None"
    "seg ce_less_recent h mru (rev vs) (Some a)" "seg ce_less_recent h (last_opt us) (rev us) None"
    using lru_list_at [OF l] by metis
  have "last_opt us \<noteq> Some v" if "v \<in> set vs" for v
    using d that last_opt_in [of us v] by auto
  then have "seg ce_more_recent ?h1 (hd_opt vs) vs None"
    by (intro seg_cong [OF _ e(2)]) (simp add: put_at_other)
  moreover have "seg ce_more_recent ?h1 (if us = [] then hd_opt vs else lru) us (hd_opt vs)"
    using more_link.seg_put [OF e(1)] d by (cases "us = []") auto
  ultimately have m: "seg ce_more_recent ?h2 (if us = [] then hd_opt vs else lru) (us @ vs) None"
    by (intro seg_cong [of "us @ vs" ce_more_recent ?h2 ?h1]) (auto simp: put_at_field)
  have "hd_opt vs \<noteq> Some u" if "u \<in> set us" for u using d that by (cases vs) auto
  then have "seg ce_less_recent (put_less (hd_opt vs) (last_opt us) h) (last_opt us) (rev us) None"
    by (intro seg_cong [OF _ e(4)]) (simp add: put_at_other)
  moreover have "seg ce_less_recent (put_less (hd_opt vs) (last_opt us) h)
      (if vs = [] then last_opt us else mru) (rev vs) (last_opt us)"
    using less_link.seg_put [OF e(3), of "last_opt us"] d by (cases vs) auto
  ultimately have "seg ce_less_recent (put_less (hd_opt vs) (last_opt us) h) (if vs = [] then last_opt us else mru) (rev (us @ vs)) None"
    by auto
  moreover have "map_option ce_less_recent (?h2 x) = map_option ce_less_recent (put_less (hd_opt vs) (last_opt us) h x)" for x
    by (auto simp: put_at_def option.map_comp comp_def split: option.split)
  ultimately have "seg ce_less_recent ?h2 (if vs = [] then last_opt us else mru) (rev (us @ vs)) None"
    by (rule seg_cong [rotated])
  then show ?thesis using m by (simp add: lru_list_def)
qed

text \<open>A new entry at the end.\<close>

lemma lru_list_insert:
  assumes l: "lru_list h lru mru xs" and a: "a \<notin> set xs" and e: "ce_more_recent e = None" "ce_less_recent e = mru"
  shows "lru_list (put_more mru (Some a) (h(a \<mapsto> e))) (if lru = None then Some a else lru) (Some a) (xs @ [a])"
proof -
  let ?h1 = "h(a \<mapsto> e)" and ?h2 = "put_more mru (Some a) (h(a \<mapsto> e))"
  have mru: "mru = last_opt xs" and lru: "lru = hd_opt xs" using lru_list_ends [OF l] by auto
  have d: "distinct xs" by (rule lru_list_distinct [OF l])
  have na: "mru \<noteq> Some a" using a by (auto simp: mru last_opt_def)
  have "seg ce_more_recent ?h1 lru xs None" "seg ce_less_recent ?h1 mru (rev xs) None"
    using l a more_link.seg_upd_other less_link.seg_upd_other by (auto simp: lru_list_def)
  moreover have "?h2 a = Some e" using na by (simp add: put_at_other)
  ultimately show ?thesis
    using more_link.seg_put [of ?h1 lru xs None "Some a"] d e
      seg_cong [of "rev xs" ce_less_recent ?h2 ?h1] na
    by (cases "xs = []") (auto simp: lru_list_def put_at_field mru lru)
qed

end
