(* ===== verification/CachePrune.thy ===== *)
theory CachePrune
  imports CacheLists
begin

text \<open>
  What is true of a cache between two operations, and that pruning keeps it.
\<close>

subsection \<open>The hash table\<close>

definition bucket :: "heap \<Rightarrow> addr set \<Rightarrow> nat \<Rightarrow> addr set" where
  "bucket h S i = {a \<in> S. \<exists>e. h a = Some e \<and> hash_index (ce_hash e) = i}"

text \<open>Every chain of the table holds the entries among \<open>S\<close> with its index.\<close>

definition chained :: "heap \<Rightarrow> addr option list \<Rightarrow> addr set \<Rightarrow> bool" where
  "chained h tab S \<longleftrightarrow> length tab = kHashTableSize \<and>
     (\<forall>i < kHashTableSize. \<exists>ys. seg ce_next h (tab ! i) ys None \<and> set ys = bucket h S i)"

lemma hash_index_less [simp]: "hash_index h < kHashTableSize"
  by (simp add: hash_index_def kHashTableSize_def nat_less_iff)

lemma chained_chain:
  assumes "chained h tab S" and "i < kHashTableSize"
  obtains ys where "seg ce_next h (tab ! i) ys None" "set ys = bucket h S i"
  using assms by (auto simp: chained_def)

text \<open>An entry without its links.\<close>

definition core :: "cache_entry \<Rightarrow> cache_entry" where
  "core e = e\<lparr>ce_next := None, ce_more_recent := None, ce_less_recent := None\<rparr>"

lemma core_eq_iff: "core e = core e' \<longleftrightarrow> ce_key e = ce_key e' \<and> ce_hash e = ce_hash e' \<and>
    ce_in_use_count e = ce_in_use_count e' \<and> ce_computed_bounds e = ce_computed_bounds e' \<and> ce_buf e = ce_buf e'"
  by (cases e; cases e') (auto simp: core_def)

lemma core_upd [simp]: "core (e\<lparr>ce_next := p\<rparr>) = core e" "core (e\<lparr>ce_more_recent := p\<rparr>) = core e"
  "core (e\<lparr>ce_less_recent := p\<rparr>) = core e"
  by (simp_all add: core_eq_iff)

text \<open>Two heaps that agree up to links on the entries of a set.\<close>

definition same_core :: "addr set \<Rightarrow> heap \<Rightarrow> heap \<Rightarrow> bool" where
  "same_core S h h' \<longleftrightarrow> (\<forall>a \<in> S. map_option core (h' a) = map_option core (h a))"

lemma same_core_refl [simp]: "same_core S h h"
  by (simp add: same_core_def)

lemma same_core_trans: "same_core S h h' \<Longrightarrow> same_core S h' h'' \<Longrightarrow> same_core S h h''"
  by (simp add: same_core_def)

lemma same_core_mono: "same_core S h h' \<Longrightarrow> T \<subseteq> S \<Longrightarrow> same_core T h h'"
  by (auto simp: same_core_def)

lemma same_core_Some:
  assumes "same_core S h h'" and "a \<in> S" and "h a = Some e"
  obtains e' where "h' a = Some e'" "core e' = core e"
  using assms by (auto simp: same_core_def dest!: bspec)

lemma same_core_put: "(\<And>e. core (f e) = core e) \<Longrightarrow> same_core S h (put_at p f h)"
  by (simp add: same_core_def put_at_field)

lemma same_core_field:
  assumes "same_core S h h'" and "a \<in> S" and "\<And>e. l (core e) = l e"
  shows "map_option l (h' a) = map_option l (h a)"
proof -
  have "map_option l x = map_option l (map_option core x)" for x using assms(3) by (simp add: option.map_comp comp_def)
  then show ?thesis using assms(1,2) unfolding same_core_def by metis
qed

lemma core_fields: "ce_hash (core e) = ce_hash e" "ce_buf (core e) = ce_buf e"
  by (simp_all add: core_def)

lemma bucket_cong:
  assumes "\<And>a. a \<in> S \<Longrightarrow> map_option ce_hash (h' a) = map_option ce_hash (h a)"
  shows "bucket h' S i = bucket h S i"
proof -
  have "(\<exists>e. h' a = Some e \<and> hash_index (ce_hash e) = i) \<longleftrightarrow> (\<exists>e. h a = Some e \<and> hash_index (ce_hash e) = i)"
    if "a \<in> S" for a
    using assms [OF that] by (cases "h' a"; cases "h a") auto
  then show ?thesis by (auto simp: bucket_def)
qed

lemma bucket_same_core: "same_core S h h' \<Longrightarrow> bucket h' S i = bucket h S i"
  by (intro bucket_cong same_core_field) (auto simp: core_fields)

lemma bucket_minus: "bucket h (S - {a}) i = bucket h S i - {a}"
  by (auto simp: bucket_def)

lemma same_core_back:
  assumes "same_core S h h'" and "a \<in> S" and "h' a = Some e'"
  obtains e where "h a = Some e" "core e = core e'"
  using assms by (cases "h a") (auto simp: same_core_def dest!: bspec)

lemma same_core_dom: "same_core UNIV h h' \<Longrightarrow> dom h' = dom h"
  by (auto simp: same_core_def dom_def) (metis option.map_disc_iff option.exhaust)+

lemma chained_cong:
  assumes "chained h tab S" and "\<And>a. a \<in> S \<Longrightarrow> map_option ce_hash (h' a) = map_option ce_hash (h a)"
    and "\<And>a. a \<in> S \<Longrightarrow> map_option ce_next (h' a) = map_option ce_next (h a)"
  shows "chained h' tab S"
  unfolding chained_def
proof (intro conjI allI impI)
  show "length tab = kHashTableSize" using assms(1) by (simp add: chained_def)
  fix i assume "i < kHashTableSize"
  then obtain ys where y: "seg ce_next h (tab ! i) ys None" "set ys = bucket h S i"
    using assms(1) by (auto simp: chained_def)
  have "seg ce_next h' (tab ! i) ys None"
    by (rule seg_cong [OF _ y(1)]) (use assms(3) y(2) in \<open>auto simp: bucket_def\<close>)
  then show "\<exists>ys. seg ce_next h' (tab ! i) ys None \<and> set ys = bucket h' S i"
    using y(2) bucket_cong [OF assms(2)] by auto
qed

text \<open>Replacing one chain.\<close>

lemma chained_update:
  assumes c: "chained h tab S" and i: "i < kHashTableSize"
    and new: "seg ce_next h' p ys None" "set ys = bucket h' T i"
    and other: "\<And>j. j \<noteq> i \<Longrightarrow> bucket h' T j = bucket h S j"
    and nxt: "\<And>j a. j \<noteq> i \<Longrightarrow> a \<in> bucket h S j \<Longrightarrow> map_option ce_next (h' a) = map_option ce_next (h a)"
  shows "chained h' (tab[i := p]) T"
  unfolding chained_def
proof (intro conjI allI impI)
  show "length (tab[i := p]) = kHashTableSize" using c by (simp add: chained_def)
  fix j assume j: "j < kHashTableSize"
  show "\<exists>ys. seg ce_next h' (tab[i := p] ! j) ys None \<and> set ys = bucket h' T j"
  proof (cases "j = i")
    case True
    then show ?thesis using new i c by (auto simp: chained_def)
  next
    case False
    obtain zs where z: "seg ce_next h (tab ! j) zs None" "set zs = bucket h S j"
      using c j by (auto simp: chained_def)
    have "seg ce_next h' (tab ! j) zs None" by (rule seg_cong [OF _ z(1)]) (use nxt [OF False] z(2) in auto)
    then show ?thesis using z(2) other [OF False] False by auto
  qed
qed

lemma unlink_hash_ok:
  assumes c: "chained (entries s) (cache_entries s) S" and a: "entries s a = Some e" "a \<in> S"
  obtains h' tab' where "unlink_hash a s = ret (s\<lparr>entries := h', cache_entries := tab'\<rparr>)"
    "chained h' tab' (S - {a})" "same_core UNIV (entries s) h'" "h' a = Some e"
    "\<And>x. map_option ce_more_recent (h' x) = map_option ce_more_recent (entries s x)"
    "\<And>x. map_option ce_less_recent (h' x) = map_option ce_less_recent (entries s x)"
proof -
  let ?h = "entries s" and ?i = "hash_index (ce_hash e)"
  obtain ys where y: "seg ce_next ?h (cache_entries s ! ?i) ys None" "set ys = bucket ?h S ?i"
    using chained_chain [OF c hash_index_less] .
  then have "a \<in> set ys" using a by (auto simp: bucket_def)
  then obtain xs zs where ys: "ys = xs @ a # zs" by (auto simp: in_set_conv_decomp)
  have d: "distinct ys" by (rule seg_distinct [OF y(1)])
  have b: "bucket h' (S - {a}) j = bucket ?h S j - {a}" if "same_core UNIV ?h h'" for h' j
    using bucket_same_core [OF same_core_mono [OF that, of "S - {a}"]] bucket_minus by simp
  have other: "bucket ?h S j - {a} = bucket ?h S j" if "j \<noteq> ?i" for j using a that by (auto simp: bucket_def)
  show ?thesis
  proof (cases "xs = []")
    case True
    then have "cache_entries s ! ?i = Some a" "seg ce_next ?h (ce_next e) zs None" using y(1) ys a by auto
    moreover from this have "chained ?h ((cache_entries s)[?i := ce_next e]) (S - {a})"
      using c y(2) ys True d b [of ?h] other by (intro chained_update [where ys = zs]) auto
    ultimately show ?thesis
      using that [where h' = ?h and tab' = "(cache_entries s)[?i := ce_next e]"] a by (simp add: unlink_hash_def Let_def)
  next
    case False
    then obtain us w where xs: "xs = us @ [w]" by (cases xs rule: rev_cases) auto
    then obtain f where f: "?h w = Some f" using seg_dom [OF y(1), of w] ys by auto
    have w: "w \<noteq> a" "w \<in> bucket ?h S ?i" using d y(2) ys xs by auto
    have "cache_entries s ! ?i \<noteq> Some a" using seg_start [OF y(1)] ys xs d by (cases us) auto
    moreover have "find_prev a (cache_entries s ! ?i) s = ret (Some w)"
      by (rule find_prev_ok) (use y(1) ys xs in simp)
    ultimately have u: "unlink_hash a s = ret (s\<lparr>entries := ?h(w \<mapsto> f\<lparr>ce_next := ce_next e\<rparr>)\<rparr>)"
      using a f by (simp add: unlink_hash_def)
    let ?h' = "?h(w \<mapsto> f\<lparr>ce_next := ce_next e\<rparr>)"
    have sc: "same_core UNIV ?h ?h'" using f by (simp add: same_core_def)
    have "seg ce_next ?h' (cache_entries s ! ?i) (us @ w # zs) None"
      by (rule next_link.seg_skip [where a = a]) (use y(1) ys xs a f in simp_all)
    moreover have "set (us @ w # zs) = bucket ?h' (S - {a}) ?i" using b [OF sc] y(2) ys xs d by auto
    moreover have "map_option ce_next (?h' x) = map_option ce_next (?h x)" if "j \<noteq> ?i" "x \<in> bucket ?h S j" for j x
      using that w by (auto simp: bucket_def)
    ultimately have "chained ?h' ((cache_entries s)[?i := cache_entries s ! ?i]) (S - {a})"
      using b [OF sc] other by (intro chained_update [OF c hash_index_less, where ys = "us @ w # zs"]) (blast | simp)+
    then have "chained ?h' (cache_entries s) (S - {a})" by simp
    then show ?thesis using that [where h' = ?h' and tab' = "cache_entries s"] u sc f a w(1) by simp
  qed
qed

subsection \<open>The blocks of data\<close>

definition host_list :: "halide_buffer list \<Rightarrow> host list" where
  "host_list bufs = map (\<lambda>b. the (buf_host b)) bufs"

definition has_hosts :: "halide_buffer list \<Rightarrow> bool" where
  "has_hosts bufs \<longleftrightarrow> (\<forall>b \<in> set bufs. buf_host b \<noteq> None) \<and> distinct (host_list bufs)"

text \<open>The blocks of an entry point back to it, and no other blocks do.\<close>

definition blocks_ok :: "heap \<Rightarrow> (host \<Rightarrow> cache_block_header option) \<Rightarrow> bool" where
  "blocks_ok h hs \<longleftrightarrow>
     (\<forall>a e. h a = Some e \<longrightarrow> has_hosts (ce_buf e) \<and>
        (\<forall>p \<in> set (host_list (ce_buf e)). \<exists>d. hs p = Some d \<and> hdr_entry d = Some a)) \<and>
     (\<forall>p d a. hs p = Some d \<longrightarrow> hdr_entry d = Some a \<longrightarrow>
        (\<exists>e. h a = Some e \<and> p \<in> set (host_list (ce_buf e))))"

lemma blocks_ok_entry:
  "blocks_ok h hs \<Longrightarrow> h a = Some e \<Longrightarrow> has_hosts (ce_buf e)"
  "blocks_ok h hs \<Longrightarrow> h a = Some e \<Longrightarrow> p \<in> set (host_list (ce_buf e)) \<Longrightarrow> \<exists>d. hs p = Some d \<and> hdr_entry d = Some a"
  unfolding blocks_ok_def by blast+

lemma blocks_ok_header:
  "blocks_ok h hs \<Longrightarrow> hs p = Some d \<Longrightarrow> hdr_entry d = Some a \<Longrightarrow> \<exists>e. h a = Some e \<and> p \<in> set (host_list (ce_buf e))"
  unfolding blocks_ok_def by blast

lemma blocks_okI:
  assumes "\<And>a e. h a = Some e \<Longrightarrow> has_hosts (ce_buf e)"
    and "\<And>a e p. h a = Some e \<Longrightarrow> p \<in> set (host_list (ce_buf e)) \<Longrightarrow> \<exists>d. hs p = Some d \<and> hdr_entry d = Some a"
    and "\<And>p d a. hs p = Some d \<Longrightarrow> hdr_entry d = Some a \<Longrightarrow> \<exists>e. h a = Some e \<and> p \<in> set (host_list (ce_buf e))"
  shows "blocks_ok h hs"
  unfolding blocks_ok_def using assms by blast

lemma blocks_ok_cong:
  assumes b: "blocks_ok h hs" and c: "\<And>a. map_option ce_buf (h' a) = map_option ce_buf (h a)"
  shows "blocks_ok h' hs"
proof (rule blocks_okI)
  fix a e' assume "h' a = Some e'"
  then obtain e where e: "h a = Some e" "ce_buf e' = ce_buf e" using c [of a] by (cases "h a") auto
  show "has_hosts (ce_buf e')" using blocks_ok_entry(1) [OF b e(1)] e(2) by simp
  fix p assume "p \<in> set (host_list (ce_buf e'))"
  then show "\<exists>d. hs p = Some d \<and> hdr_entry d = Some a" using blocks_ok_entry(2) [OF b e(1)] e(2) by simp
next
  fix p d a assume "hs p = Some d" "hdr_entry d = Some a"
  from blocks_ok_header [OF b this] obtain e where "h a = Some e" "p \<in> set (host_list (ce_buf e))" by blast
  then show "\<exists>e. h' a = Some e \<and> p \<in> set (host_list (ce_buf e))" using c [of a] by (cases "h' a") auto
qed

lemma blocks_ok_core: "blocks_ok h hs \<Longrightarrow> same_core UNIV h h' \<Longrightarrow> blocks_ok h' hs"
  by (erule blocks_ok_cong, rule same_core_field) (auto simp: core_fields)

lemma free_blocks_ok:
  "has_hosts bufs \<Longrightarrow> \<forall>p \<in> set (host_list bufs). headers s p \<noteq> None \<Longrightarrow>
   each_buf (\<lambda>b. free_block (buf_host b)) bufs s =
     ret (s\<lparr>headers := \<lambda>p. if p \<in> set (host_list bufs) then None else headers s p\<rparr>)"
proof (induction bufs arbitrary: s)
  case (Cons b bufs)
  obtain p d where p: "buf_host b = Some p" "headers s p = Some d"
    using Cons.prems by (auto simp: has_hosts_def host_list_def)
  let ?s = "s\<lparr>headers := (headers s)(p := None)\<rparr>"
  have "p \<notin> set (host_list bufs)" and h: "has_hosts bufs" using Cons.prems(1) p by (auto simp: has_hosts_def host_list_def)
  then have "\<forall>q \<in> set (host_list bufs). headers ?s q \<noteq> None" using Cons.prems(2) by (auto simp: host_list_def)
  moreover have "free_block (buf_host b) s = ret ?s" using p by (simp add: free_block_def header_of_def)
  ultimately show ?case using Cons.IH [OF h, of ?s] p
    by (auto simp: host_list_def fun_eq_iff intro!: cache_state.equality)
qed (simp add: host_list_def)

lemma blocks_ok_free:
  assumes b: "blocks_ok h hs" and e: "h a = Some e"
  shows "blocks_ok (h(a := None)) (\<lambda>p. if p \<in> set (host_list (ce_buf e)) then None else hs p)"
proof -
  have "p \<notin> set (host_list (ce_buf e))" if "h x = Some f" "x \<noteq> a" "p \<in> set (host_list (ce_buf f))" for x f p
    using blocks_ok_entry(2) [OF b e, of p] blocks_ok_entry(2) [OF b that(1,3)] that(2) by auto
  note n = this
  show ?thesis
  proof (rule blocks_okI)
    fix x f assume f: "(h(a := None)) x = Some f"
    then have x: "h x = Some f" "x \<noteq> a" by (auto split: if_splits)
    show "has_hosts (ce_buf f)" by (rule blocks_ok_entry(1) [OF b x(1)])
    fix p assume "p \<in> set (host_list (ce_buf f))"
    then show "\<exists>d. (if p \<in> set (host_list (ce_buf e)) then None else hs p) = Some d \<and> hdr_entry d = Some x"
      using n [OF x] blocks_ok_entry(2) [OF b x(1)] by simp
  next
    fix p d x assume d: "(if p \<in> set (host_list (ce_buf e)) then None else hs p) = Some d" "hdr_entry d = Some x"
    then have p: "p \<notin> set (host_list (ce_buf e))" "hs p = Some d" by (auto split: if_splits)
    with blocks_ok_header [OF b p(2) d(2)] e show "\<exists>f. (h(a := None)) x = Some f \<and> p \<in> set (host_list (ce_buf f))"
      by auto
  qed
qed

subsection \<open>The invariant\<close>

definition entry_size :: "cache_entry \<Rightarrow> int" where
  "entry_size e = (\<Sum>b \<leftarrow> ce_buf e. size_in_bytes b)"

definition cache_ok :: "cache_state \<Rightarrow> addr list \<Rightarrow> bool" where
  "cache_ok s xs \<longleftrightarrow> lru_list (entries s) (least_recently_used s) (most_recently_used s) xs \<and>
     set xs = dom (entries s) \<and> chained (entries s) (cache_entries s) (dom (entries s)) \<and>
     blocks_ok (entries s) (headers s)"

text \<open>The recorded size is the size of the entries, and \<open>n\<close> more bytes while an entry is being added.\<close>

definition size_ok :: "cache_state \<Rightarrow> addr list \<Rightarrow> int \<Rightarrow> bool" where
  "size_ok s xs n \<longleftrightarrow> current_cache_size s = s_wrap 64 ((\<Sum>a \<leftarrow> xs. entry_size (the (entries s a))) + n)"

lemma cache_ok_nonempty: "cache_ok s xs \<Longrightarrow> a \<in> set xs \<Longrightarrow> \<exists>e. entries s a = Some e"
  by (auto simp: cache_ok_def)

text \<open>What is left of the sizes when an entry has been taken off.\<close>

lemma foldl_sizes: "foldl (\<lambda>n b. s_wrap 64 (n - size_in_bytes b)) (s_wrap 64 m) bs = s_wrap 64 (m - (\<Sum>b \<leftarrow> bs. size_in_bytes b))"
  by (induction bs arbitrary: m) (simp_all add: s_wrap.wr_diff_left diff_diff_eq)

lemma entry_size_core: "core e = core e' \<Longrightarrow> entry_size e = entry_size e'"
  by (simp add: entry_size_def core_eq_iff)

lemma sizes_core:
  assumes "same_core (set xs) h h'" and "set xs \<subseteq> dom h"
  shows "(\<Sum>a \<leftarrow> xs. entry_size (the (h' a))) = (\<Sum>a \<leftarrow> xs. entry_size (the (h a)))"
proof -
  have "entry_size (the (h' a)) = entry_size (the (h a))" if "a \<in> set xs" for a
    using assms that by (elim same_core_Some [where a = a]) (auto simp: dom_def intro!: entry_size_core)
  then show ?thesis by (intro arg_cong [where f = sum_list] map_cong) auto
qed

subsection \<open>Removing the least recently used entry\<close>

lemma free_entry_ok:
  assumes "entries s a = Some e" and "blocks_ok (entries s) (headers s)"
  shows "free_entry a s = ret (s\<lparr>entries := (entries s)(a := None),
     headers := \<lambda>p. if p \<in> set (host_list (ce_buf e)) then None else headers s p,
     current_cache_size := foldl (\<lambda>n b. s_wrap 64 (n - size_in_bytes b)) (current_cache_size s) (ce_buf e)\<rparr>)"
proof -
  have "\<forall>p \<in> set (host_list (ce_buf e)). headers s p \<noteq> None" using blocks_ok_entry(2) [OF assms(2,1)] by auto
  then show ?thesis
    using free_blocks_ok [OF blocks_ok_entry(1) [OF assms(2,1)]] assms(1)
    by (auto simp: free_entry_def destroy_def Let_def intro!: cache_state.equality)
qed

lemma remove_entry_ok:
  assumes ok: "cache_ok s (a # vs)" and e: "entries s a = Some e"
  obtains s' where "remove_entry a (hd_opt vs) s = ret s'" "cache_ok s' vs"
    "same_core (set vs) (entries s) (entries s')" "max_cache_size s' = max_cache_size s"
    "headers s' = (\<lambda>p. if p \<in> set (host_list (ce_buf e)) then None else headers s p)"
    "current_cache_size s' = foldl (\<lambda>n b. s_wrap 64 (n - size_in_bytes b)) (current_cache_size s) (ce_buf e)"
proof -
  let ?h = "entries s"
  have l: "lru_list ?h (least_recently_used s) (most_recently_used s) ([] @ a # vs)"
    and d: "set (a # vs) = dom ?h" and b: "blocks_ok ?h (headers s)"
    using ok by (simp_all add: cache_ok_def)
  obtain h1 tab where u: "unlink_hash a s = ret (s\<lparr>entries := h1, cache_entries := tab\<rparr>)"
    "chained h1 tab (dom ?h - {a})" "same_core UNIV ?h h1" "h1 a = Some e"
    "\<And>x. map_option ce_more_recent (h1 x) = map_option ce_more_recent (?h x)"
    "\<And>x. map_option ce_less_recent (h1 x) = map_option ce_less_recent (?h x)"
    by (rule unlink_hash_ok [OF _ e, of "dom ?h"]) (use ok e in \<open>auto simp: cache_ok_def\<close>)
  have l1: "lru_list h1 (least_recently_used s) (most_recently_used s) ([] @ a # vs)"
    by (rule lru_list_cong [OF l u(5,6)])
  have ends: "least_recently_used s = Some a" "most_recently_used s = last_opt (a # vs)" "ce_less_recent e = None"
    using lru_list_ends [OF l] lru_list_at [OF l] e by auto
  let ?h2 = "put_less (hd_opt vs) None h1"
  have nv: "a \<notin> set vs" using lru_list_distinct [OF l] by simp
  have h2a: "?h2 a = Some e" using u(4) nv by (cases vs) (auto simp: put_at_def)
  have l2: "lru_list ?h2 (hd_opt vs) (if vs = [] then None else most_recently_used s) vs"
    using lru_list_remove [OF l1] by (cases "vs = []") simp_all
  let ?s2 = "s\<lparr>entries := ?h2, cache_entries := tab, least_recently_used := hd_opt vs,
     most_recently_used := (if vs = [] then None else most_recently_used s)\<rparr>"
  have ul: "unlink_less_recent a (hd_opt vs) (s\<lparr>entries := h1, cache_entries := tab\<rparr>) =
      ret (s\<lparr>entries := ?h2, cache_entries := tab, least_recently_used := hd_opt vs\<rparr>)"
  proof (cases vs)
    case (Cons v ws)
    then obtain f where "h1 v = Some f" using seg_dom [of _ h1 _ "a # vs" None v] l1 by (auto simp: lru_list_def)
    then show ?thesis using Cons ends u(4) by (simp add: unlink_less_recent_def Let_def put_at_Some)
  qed (use ends in \<open>auto simp: unlink_less_recent_def Let_def intro!: cache_state.equality\<close>)
  have um: "unlink_more_recent a (hd_opt vs) (s\<lparr>entries := ?h2, cache_entries := tab, least_recently_used := hd_opt vs\<rparr>) = ret ?s2"
    using h2a ends nv by (cases vs) (auto simp: unlink_more_recent_def Let_def last_opt_def split: if_splits)
  have sc: "same_core UNIV ?h ?h2" by (rule same_core_trans [OF u(3) same_core_put]) simp
  have b2: "blocks_ok ?h2 (headers s)" by (rule blocks_ok_core [OF b sc])
  have r: "remove_entry a (hd_opt vs) s = free_entry a ?s2" using u(1) ul um by (simp add: remove_entry_def)
  let ?s3 = "?s2\<lparr>entries := ?h2(a := None), headers := \<lambda>p. if p \<in> set (host_list (ce_buf e)) then None else headers s p,
     current_cache_size := foldl (\<lambda>n b. s_wrap 64 (n - size_in_bytes b)) (current_cache_size s) (ce_buf e)\<rparr>"
  have f: "free_entry a ?s2 = ret ?s3" using free_entry_ok [of ?s2 a e] h2a b2 by (simp cong: if_cong)
  have "lru_list (?h2(a := None)) (hd_opt vs) (if vs = [] then None else most_recently_used s) vs"
    by (rule lru_list_cong [OF l2]) (use nv in auto)
  moreover have "dom (?h2(a := None)) = set vs" using same_core_dom [OF sc] d nv by auto
  moreover have "chained (?h2(a := None)) tab (set vs)"
  proof (rule chained_cong)
    have "dom ?h - {a} = set vs" using d nv by auto
    then show "chained h1 tab (set vs)" using u(2) by simp
    show "map_option ce_hash ((?h2(a := None)) x) = map_option ce_hash (h1 x)" if "x \<in> set vs" for x
      using that nv by (auto simp: put_at_field)
    show "map_option ce_next ((?h2(a := None)) x) = map_option ce_next (h1 x)" if "x \<in> set vs" for x
      using that nv by (auto simp: put_at_field)
  qed
  moreover have "blocks_ok (?h2(a := None)) (\<lambda>p. if p \<in> set (host_list (ce_buf e)) then None else headers s p)"
    by (rule blocks_ok_free [OF b2 h2a])
  ultimately have "cache_ok ?s3 vs" by (simp add: cache_ok_def)
  moreover have "same_core (set vs) ?h (?h2(a := None))" using sc nv by (auto simp: same_core_def)
  ultimately show ?thesis by (intro that [of ?s3]) (simp_all add: r f)
qed

subsection \<open>Pruning\<close>

lemma prune_loop_Some:
  "current_cache_size s > max_cache_size s \<Longrightarrow> entries s a = Some c \<Longrightarrow> prune_loop (Some a) s =
     seq (if ce_in_use_count c = 0 then remove_entry a (ce_more_recent c) s else ret s) (prune_loop (ce_more_recent c))"
  by (subst prune_loop.simps) simp

lemma prune_loop_stop: "\<not> current_cache_size s > max_cache_size s \<or> p = None \<Longrightarrow> prune_loop p s = ret s"
  by (subst prune_loop.simps) auto

text \<open>
  Pruning works when it does not have to pass an entry that is in use and remove one behind it: when, taking
  idle entries off the old end, the cache becomes small enough, or all that is left is in use.
\<close>

fun prunable :: "int \<Rightarrow> int \<Rightarrow> cache_entry list \<Rightarrow> bool" where
  "prunable m c [] \<longleftrightarrow> True"
| "prunable m c (e # es) \<longleftrightarrow> c \<le> m \<or>
     (if ce_in_use_count e = 0 then prunable m (foldl (\<lambda>n b. s_wrap 64 (n - size_in_bytes b)) c (ce_buf e)) es
      else list_all (\<lambda>e. ce_in_use_count e \<noteq> 0) es)"

definition entry_list :: "cache_state \<Rightarrow> addr list \<Rightarrow> cache_entry list" where
  "entry_list s xs = map (\<lambda>a. the (entries s a)) xs"

text \<open>Passing entries that are all in use changes nothing.\<close>

lemma prune_loop_in_use:
  "seg ce_more_recent (entries s) p xs None \<Longrightarrow> list_all (\<lambda>e. ce_in_use_count e \<noteq> 0) (entry_list s xs) \<Longrightarrow>
   prune_loop p s = ret s"
proof (induction xs arbitrary: p)
  case (Cons a xs)
  then obtain e where e: "p = Some a" "entries s a = Some e" "seg ce_more_recent (entries s) (ce_more_recent e) xs None"
    by auto
  then show ?case
    using Cons.IH [OF e(3)] Cons.prems(2)
    by (cases "current_cache_size s > max_cache_size s") (simp_all add: entry_list_def prune_loop_Some prune_loop_stop)
qed (simp add: prune_loop_stop)

lemma in_use_core:
  "list_all2 (\<lambda>e e'. core e = core e') es es' \<Longrightarrow>
     list_all (\<lambda>e. ce_in_use_count e \<noteq> 0) es \<longleftrightarrow> list_all (\<lambda>e. ce_in_use_count e \<noteq> 0) es'"
  by (induction rule: list_all2_induct) (auto simp: core_eq_iff)

lemma prunable_core: "list_all2 (\<lambda>e e'. core e = core e') es es' \<Longrightarrow> prunable m c es \<longleftrightarrow> prunable m c es'"
proof (induction arbitrary: c rule: list_all2_induct)
  case (Cons e es e' es')
  have "ce_in_use_count e = ce_in_use_count e'" "ce_buf e = ce_buf e'" using Cons.hyps(1) by (simp_all add: core_eq_iff)
  then show ?case using Cons.IH in_use_core [OF Cons.hyps(2)] by (simp only: prunable.simps)
qed simp

lemma same_core_the:
  "same_core S h h' \<Longrightarrow> a \<in> S \<Longrightarrow> a \<in> dom h \<Longrightarrow> core (the (h' a)) = core (the (h a))"
  by (auto elim: same_core_Some)

lemma entry_list_core:
  assumes "same_core (set xs) (entries s) (entries s')" and "set xs \<subseteq> dom (entries s)"
  shows "list_all2 (\<lambda>e e'. core e = core e') (entry_list s' xs) (entry_list s xs)"
  unfolding entry_list_def list_all2_map1 list_all2_map2
  by (rule list.rel_refl_strong, rule same_core_the [OF assms(1)]) (use assms(2) in auto)

lemma prune_loop_ok:
  assumes "cache_ok s xs" and "size_ok s xs n" and "prunable (max_cache_size s) (current_cache_size s) (entry_list s xs)"
  shows "\<exists>s' ys zs. prune_loop (hd_opt xs) s = ret s' \<and> xs = ys @ zs \<and> cache_ok s' zs \<and> size_ok s' zs n \<and>
     same_core (set zs) (entries s) (entries s') \<and> max_cache_size s' = max_cache_size s \<and>
     (\<forall>a \<in> set ys. ce_in_use_count (the (entries s a)) = 0) \<and>
     headers s' = (\<lambda>p. if \<exists>a \<in> set ys. p \<in> set (host_list (ce_buf (the (entries s a)))) then None else headers s p) \<and>
     (current_cache_size s' \<le> max_cache_size s \<or> (\<forall>a \<in> set zs. ce_in_use_count (the (entries s a)) \<noteq> 0))"
  using assms
proof (induction xs arbitrary: s)
  case Nil
  then show ?case by (intro exI [of _ s] exI [of _ "[]"]) (simp add: prune_loop_stop)
next
  case (Cons a xs)
  obtain e where e: "entries s a = Some e" using cache_ok_nonempty [OF Cons.prems(1)] by auto
  have l: "lru_list (entries s) (least_recently_used s) (most_recently_used s) ([] @ a # xs)"
    using Cons.prems(1) by (simp add: cache_ok_def)
  have m: "ce_more_recent e = hd_opt xs" using lru_list_at [OF l] e by auto
  show ?case
  proof (cases "current_cache_size s > max_cache_size s \<and> ce_in_use_count e = 0")
    case False
    have all: "list_all (\<lambda>e. ce_in_use_count e \<noteq> 0) (entry_list s (a # xs))" if "current_cache_size s > max_cache_size s"
      using Cons.prems(3) False that e by (auto simp: entry_list_def)
    then have "prune_loop (Some a) s = ret s"
      using prune_loop_in_use [of s "Some a" "a # xs"] l
      by (cases "current_cache_size s > max_cache_size s") (auto simp: prune_loop_stop lru_list_def)
    then show ?thesis using Cons.prems all
      by (intro exI [of _ s] exI [of _ "[]"] exI [of _ "a # xs"]) (auto simp: entry_list_def list_all_iff)
  next
    case True
    obtain s1 where s1: "remove_entry a (hd_opt xs) s = ret s1" "cache_ok s1 xs"
      "same_core (set xs) (entries s) (entries s1)" "max_cache_size s1 = max_cache_size s"
      "headers s1 = (\<lambda>p. if p \<in> set (host_list (ce_buf e)) then None else headers s p)"
      "current_cache_size s1 = foldl (\<lambda>n b. s_wrap 64 (n - size_in_bytes b)) (current_cache_size s) (ce_buf e)"
      using remove_entry_ok [OF Cons.prems(1) e] by blast
    have sub: "set xs \<subseteq> dom (entries s)" using Cons.prems(1) by (auto simp: cache_ok_def)
    have core: "core (the (entries s1 x)) = core (the (entries s x))" if "x \<in> set xs" for x
      using same_core_the [OF s1(3) that] sub that by auto
    have "size_ok s1 xs n"
      using Cons.prems(2) e sizes_core [OF s1(3) sub] foldl_sizes
      by (simp add: size_ok_def s1(6) entry_size_def algebra_simps)
    moreover have "prunable (max_cache_size s1) (current_cache_size s1) (entry_list s1 xs)"
      using Cons.prems(3) True e prunable_core [OF entry_list_core [OF s1(3) sub]]
      by (simp add: s1(4,6) entry_list_def)
    ultimately obtain s' ys zs where i: "prune_loop (hd_opt xs) s1 = ret s'" "xs = ys @ zs" "cache_ok s' zs" "size_ok s' zs n"
      "same_core (set zs) (entries s1) (entries s')" "max_cache_size s' = max_cache_size s1"
      "\<forall>a \<in> set ys. ce_in_use_count (the (entries s1 a)) = 0"
      "headers s' = (\<lambda>p. if \<exists>a \<in> set ys. p \<in> set (host_list (ce_buf (the (entries s1 a)))) then None else headers s1 p)"
      "current_cache_size s' \<le> max_cache_size s1 \<or> (\<forall>a \<in> set zs. ce_in_use_count (the (entries s1 a)) \<noteq> 0)"
      using Cons.IH [OF s1(2)] by blast
    have "prune_loop (Some a) s = ret s'" using True e s1(1) i(1) by (simp add: prune_loop_Some m)
    moreover have "same_core (set zs) (entries s) (entries s')"
      by (rule same_core_trans [OF same_core_mono [OF s1(3)] i(5)]) (use i(2) in auto)
    moreover have "\<forall>x \<in> set (a # ys). ce_in_use_count (the (entries s x)) = 0"
      using i(2,7) True e core by (auto simp: core_eq_iff)
    moreover have "headers s' = (\<lambda>p. if \<exists>x \<in> set (a # ys). p \<in> set (host_list (ce_buf (the (entries s x)))) then None else headers s p)"
      using core e i(2) by (auto simp: i(8) s1(5) core_eq_iff fun_eq_iff)
    moreover have "current_cache_size s' \<le> max_cache_size s \<or> (\<forall>x \<in> set zs. ce_in_use_count (the (entries s x)) \<noteq> 0)"
      using i(2,9) core by (auto simp: core_eq_iff s1(4))
    ultimately show ?thesis
      using i(2-4,6) s1(4) by (intro exI [of _ s'] exI [of _ "a # ys"] exI [of _ zs]) simp
  qed
qed

end
