(* ===== verification/CacheOps.thy ===== *)
theory CacheOps
  imports CachePrune
begin

text \<open>
  The operations of the cache keep its invariant, for clients that keep to the protocol: a buffer is
  stored only after a lookup that missed has allocated it, and is released as often as it was handed
  out.
\<close>

subsection \<open>The order of use\<close>

lemma cache_ok_frame:
  assumes ok: "cache_ok s xs" and h: "\<And>a. map_option ce_hash (h' a) = map_option ce_hash (entries s a)"
    "\<And>a. map_option ce_next (h' a) = map_option ce_next (entries s a)"
    "\<And>a. map_option ce_buf (h' a) = map_option ce_buf (entries s a)"
    and l: "lru_list h' lru mru ys" "set ys = set xs"
  shows "cache_ok (s\<lparr>entries := h', least_recently_used := lru, most_recently_used := mru\<rparr>) ys"
proof -
  have "h' a = None \<longleftrightarrow> entries s a = None" for a using h(1) [of a] by (cases "h' a"; cases "entries s a") auto
  then have d: "dom h' = dom (entries s)" by (auto simp: dom_def)
  moreover have "chained h' (cache_entries s) (dom (entries s))"
    by (rule chained_cong [of "entries s"]) (use ok h in \<open>auto simp: cache_ok_def\<close>)
  moreover have "blocks_ok h' (headers s)"
    by (rule blocks_ok_cong [of "entries s"]) (use ok h in \<open>auto simp: cache_ok_def\<close>)
  ultimately show ?thesis using ok l by (simp add: cache_ok_def)
qed

lemma unlink_entry_ok:
  assumes l: "lru_list (entries s) (least_recently_used s) (most_recently_used s) (us @ a # vs)" and vs: "vs \<noteq> []"
  shows "unlink_entry a s = ret (s\<lparr>entries := put_less (hd_opt vs) (last_opt us) (put_more (last_opt us) (hd_opt vs) (entries s)),
     least_recently_used := (if us = [] then hd_opt vs else least_recently_used s)\<rparr>)"
proof -
  have d: "distinct (us @ a # vs)" by (rule lru_list_distinct [OF l])
  obtain e where e: "entries s a = Some e" "ce_more_recent e = hd_opt vs" "ce_less_recent e = last_opt us"
    using lru_list_at [OF l] by metis
  have dom: "\<exists>f. entries s x = Some f" if "x \<in> set (us @ a # vs)" for x
    using seg_dom [of ce_more_recent] l that unfolding lru_list_def by blast
  obtain v ws where v: "vs = v # ws" using vs by (cases vs) auto
  then obtain f where f: "entries s v = Some f" using dom [of v] by auto
  show ?thesis
  proof (cases us rule: rev_cases)
    case Nil
    then show ?thesis using e v f lru_list_ends(1) [OF l] by (simp add: unlink_entry_def put_at_Some)
  next
    case (snoc ws' u)
    then obtain g where g: "entries s u = Some g" using dom [of u] by auto
    have n: "u \<noteq> a" "u \<noteq> v" "v \<noteq> a" using d snoc v by auto
    then have "entries (s\<lparr>entries := (entries s)(u \<mapsto> g\<lparr>ce_more_recent := Some v\<rparr>)\<rparr>) v = Some f" using f by simp
    then show ?thesis using e v f g n snoc
      by (simp add: unlink_entry_def put_at_Some)
  qed
qed

lemma link_most_recent_ok:
  assumes "entries s a = Some e" and "\<And>m. most_recently_used s = Some m \<Longrightarrow> m \<noteq> a \<and> entries s m \<noteq> None"
  shows "link_most_recent a s = ret (s\<lparr>entries := put_more (most_recently_used s) (Some a)
       ((entries s)(a \<mapsto> e\<lparr>ce_more_recent := None, ce_less_recent := most_recently_used s\<rparr>)),
     most_recently_used := Some a\<rparr>)"
  using assms by (cases "most_recently_used s") (auto simp: link_most_recent_def put_at_Some)

lemma make_most_recent_ok:
  assumes ok: "cache_ok s xs" and a: "a \<in> set xs"
  obtains s' us vs where "make_most_recent a s = ret s'" "xs = us @ a # vs" "cache_ok s' (us @ vs @ [a])"
    "same_core UNIV (entries s) (entries s')" "headers s' = headers s" "max_cache_size s' = max_cache_size s"
    "current_cache_size s' = current_cache_size s"
proof -
  let ?h = "entries s"
  obtain us vs where xs: "xs = us @ a # vs" using a by (auto simp: in_set_conv_decomp)
  have l: "lru_list ?h (least_recently_used s) (most_recently_used s) (us @ a # vs)" using ok xs by (simp add: cache_ok_def)
  have d: "distinct (us @ a # vs)" by (rule lru_list_distinct [OF l])
  have mru: "most_recently_used s = last_opt (us @ a # vs)" and lru: "least_recently_used s = hd_opt (us @ a # vs)"
    using lru_list_ends [OF l] by auto
  show ?thesis
  proof (cases "vs = []")
    case True
    then have "make_most_recent a s = ret s" using mru by (simp add: make_most_recent_def last_opt_def)
    then show ?thesis using that [of s us vs] xs ok True by simp
  next
    case False
    obtain e where e: "?h a = Some e" "ce_more_recent e = hd_opt vs" "ce_less_recent e = last_opt us"
      using lru_list_at [OF l] by metis
    define lru where "lru = (if us = [] then hd_opt vs else least_recently_used s)"
    define h1 where "h1 = put_more (last_opt us) (hd_opt vs) ?h"
    define h2 where "h2 = put_less (hd_opt vs) (last_opt us) h1"
    define e' where "e' = e\<lparr>ce_more_recent := None, ce_less_recent := most_recently_used s\<rparr>"
    let ?h4 = "put_more (most_recently_used s) (Some a) (h2(a \<mapsto> e'))"
    have l2: "lru_list h2 lru (most_recently_used s) (us @ vs)"
      using lru_list_remove [OF l] False by (simp add: lru_def h1_def h2_def)
    have "lru \<noteq> None" using lru False by (auto simp: lru_def hd_opt_def)
    then have l4: "lru_list ?h4 lru (Some a) (us @ vs @ [a])"
      using lru_list_insert [OF l2, of a e'] d by (auto simp: e'_def)
    have na: "last_opt us \<noteq> Some a" "hd_opt vs \<noteq> Some a" "most_recently_used s \<noteq> Some a"
      using d last_opt_in [of us a] last_opt_in [of vs a] False mru by (auto simp: hd_opt_def last_opt_def)
    have h12: "h1 a = Some e" "h2 a = Some e" using na e(1) by (simp_all add: h1_def h2_def put_at_other)
    have sc2: "same_core UNIV ?h h2" unfolding h2_def h1_def by (intro same_core_trans [OF same_core_put same_core_put]) simp_all
    then have "same_core UNIV ?h (h2(a \<mapsto> e'))" using e(1) by (auto simp: same_core_def e'_def)
    then have sc: "same_core UNIV ?h ?h4" by (rule same_core_trans [OF _ same_core_put]) simp
    have "m \<noteq> a \<and> h2 m \<noteq> None" if "most_recently_used s = Some m" for m
    proof -
      have "m \<in> set (us @ vs)" using that mru False last_opt_in [of vs m] by (auto simp: last_opt_def)
      then show ?thesis using seg_dom [of ce_more_recent h2 lru "us @ vs" None m] l2 d unfolding lru_list_def by auto
    qed
    then have "make_most_recent a s = ret (s\<lparr>entries := ?h4, least_recently_used := lru, most_recently_used := Some a\<rparr>)"
      using link_most_recent_ok [of "s\<lparr>entries := h2, least_recently_used := lru\<rparr>" a e] na(3) h12
        unlink_entry_ok [OF l False]
      by (simp add: make_most_recent_def h2_def h1_def lru_def e'_def)
    moreover have "cache_ok (s\<lparr>entries := ?h4, least_recently_used := lru, most_recently_used := Some a\<rparr>) (us @ vs @ [a])"
    proof (rule cache_ok_frame [OF ok _ _ _ l4])
      show "map_option ce_hash (?h4 x) = map_option ce_hash (?h x)" "map_option ce_buf (?h4 x) = map_option ce_buf (?h x)" for x
        by (rule same_core_field [OF sc]; simp add: core_fields)+
      show "map_option ce_next (?h4 x) = map_option ce_next (?h x)" for x
        using e(1) by (simp add: put_at_field h2_def h1_def e'_def)
    qed (use xs in auto)
    ultimately show ?thesis using that [OF _ xs] sc by simp
  qed
qed

subsection \<open>Adding an entry\<close>

definition marked :: "addr option \<Rightarrow> halide_buffer list \<Rightarrow> (host \<Rightarrow> cache_block_header option) \<Rightarrow>
    host \<Rightarrow> cache_block_header option" where
  "marked x bufs hs = (\<lambda>p. if p \<in> set (host_list bufs) then map_option (\<lambda>d. d\<lparr>hdr_entry := x\<rparr>) (hs p) else hs p)"

lemma mark_blocks_ok:
  "has_hosts bufs \<Longrightarrow> \<forall>p \<in> set (host_list bufs). headers s p \<noteq> None \<Longrightarrow>
   mark_blocks x bufs s = ret (s\<lparr>headers := marked x bufs (headers s)\<rparr>)"
proof (induction bufs arbitrary: s)
  case (Cons b bufs)
  obtain p d where p: "buf_host b = Some p" "headers s p = Some d"
    using Cons.prems by (auto simp: has_hosts_def host_list_def)
  let ?s = "s\<lparr>headers := (headers s)(p \<mapsto> d\<lparr>hdr_entry := x\<rparr>)\<rparr>"
  have n: "p \<notin> set (host_list bufs)" and h: "has_hosts bufs" using Cons.prems(1) p by (auto simp: has_hosts_def host_list_def)
  then have q: "\<forall>q \<in> set (host_list bufs). headers ?s q \<noteq> None" using Cons.prems(2) by (auto simp: host_list_def)
  have "set_header (buf_host b) x s = ret ?s" using p by (simp add: set_header_def header_of_def)
  then have "mark_blocks x (b # bufs) s = mark_blocks x bufs ?s" by (simp add: mark_blocks_def)
  also have "\<dots> = ret (?s\<lparr>headers := marked x bufs (headers ?s)\<rparr>)" by (rule Cons.IH [OF h q])
  also have "marked x bufs (headers ?s) = marked x (b # bufs) (headers s)"
    using n p by (auto simp: marked_def host_list_def fun_eq_iff)
  finally show ?case by simp
qed (simp add: mark_blocks_def marked_def host_list_def)

lemma marked_other: "p \<notin> set (host_list bufs) \<Longrightarrow> marked x bufs hs p = hs p"
  by (simp add: marked_def)

lemma blocks_ok_new:
  assumes b: "blocks_ok h hs" and a: "h a = None" and e: "has_hosts (ce_buf e)"
    and free: "\<And>p. p \<in> set (host_list (ce_buf e)) \<Longrightarrow> \<exists>d. hs p = Some d \<and> hdr_entry d = None"
  shows "blocks_ok (h(a \<mapsto> e)) (marked (Some a) (ce_buf e) hs)"
proof (rule blocks_okI)
  fix x f assume f: "(h(a \<mapsto> e)) x = Some f"
  show "has_hosts (ce_buf f)" using f e blocks_ok_entry(1) [OF b] by (auto split: if_splits)
  fix p assume p: "p \<in> set (host_list (ce_buf f))"
  show "\<exists>d. marked (Some a) (ce_buf e) hs p = Some d \<and> hdr_entry d = Some x"
  proof (cases "x = a")
    case True
    then obtain d where "hs p = Some d" "p \<in> set (host_list (ce_buf e))" using f p free by auto
    then show ?thesis using True by (simp add: marked_def)
  next
    case False
    then have "\<exists>d. hs p = Some d \<and> hdr_entry d = Some x" using f p blocks_ok_entry(2) [OF b] by auto
    moreover from this have "p \<notin> set (host_list (ce_buf e))" using free by force
    ultimately show ?thesis by (simp add: marked_other)
  qed
next
  fix p d x assume d: "marked (Some a) (ce_buf e) hs p = Some d" "hdr_entry d = Some x"
  show "\<exists>f. (h(a \<mapsto> e)) x = Some f \<and> p \<in> set (host_list (ce_buf f))"
  proof (cases "p \<in> set (host_list (ce_buf e))")
    case True
    then show ?thesis using d by (auto simp: marked_def)
  next
    case False
    then obtain f where "h x = Some f" "p \<in> set (host_list (ce_buf f))"
      using blocks_ok_header [OF b _ d(2)] d(1) by (auto simp: marked_other)
    then show ?thesis using a by auto
  qed
qed

lemma link_entry_ok:
  assumes ok: "cache_ok s xs" and a: "entries s a = None" and e: "ce_more_recent e = None" "has_hosts (ce_buf e)"
    and free: "\<And>p. p \<in> set (host_list (ce_buf e)) \<Longrightarrow> \<exists>d. headers s p = Some d \<and> hdr_entry d = None"
  obtains s' e' where "seq (link_entry a e (hash_index (ce_hash e)) s) (mark_blocks (Some a) (ce_buf e)) = ret s'"
    "cache_ok s' (xs @ [a])" "same_core (dom (entries s)) (entries s) (entries s')"
    "entries s' a = Some e'" "core e' = core (e\<lparr>ce_in_use_count := int (ce_tuple_count e)\<rparr>)"
    "headers s' = marked (Some a) (ce_buf e) (headers s)" "max_cache_size s' = max_cache_size s"
    "current_cache_size s' = current_cache_size s"
proof -
  let ?h = "entries s" and ?i = "hash_index (ce_hash e)" and ?mru = "most_recently_used s"
  define e' where "e' = e\<lparr>ce_next := cache_entries s ! ?i, ce_less_recent := ?mru, ce_in_use_count := int (ce_tuple_count e)\<rparr>"
  define h' where "h' = put_more ?mru (Some a) (?h(a \<mapsto> e'))"
  have l: "lru_list ?h (least_recently_used s) ?mru xs" and d: "set xs = dom ?h"
    and c: "chained ?h (cache_entries s) (dom ?h)" and b: "blocks_ok ?h (headers s)"
    using ok by (simp_all add: cache_ok_def)
  have na: "a \<notin> set xs" using a d by auto
  have l': "lru_list h' (if least_recently_used s = None then Some a else least_recently_used s) (Some a) (xs @ [a])"
    unfolding h'_def by (rule lru_list_insert [OF l na]) (use e in \<open>simp_all add: e'_def\<close>)
  have mru: "\<exists>f. ?h m = Some f" "m \<noteq> a" if "?mru = Some m" for m
    using that lru_list_ends(2) [OF l] last_opt_in [of xs m] d na by auto
  then have h'a: "h' a = Some e'" unfolding h'_def by (subst put_at_other) auto
  have sc: "same_core UNIV (?h(a \<mapsto> e')) h'" unfolding h'_def by (rule same_core_put) simp
  let ?s' = "s\<lparr>entries := h', most_recently_used := Some a,
     least_recently_used := (if least_recently_used s = None then Some a else least_recently_used s),
     cache_entries := (cache_entries s)[?i := Some a]\<rparr>"
  have "link_entry a e ?i s = ret ?s'"
    using mru by (cases ?mru) (auto simp: link_entry_def Let_def h'_def e'_def put_at_Some intro!: cache_state.equality)
  moreover have "mark_blocks (Some a) (ce_buf e) ?s' = ret (?s'\<lparr>headers := marked (Some a) (ce_buf e) (headers ?s')\<rparr>)"
    by (rule mark_blocks_ok [OF e(2)]) (use free in fastforce)
  ultimately have run: "seq (link_entry a e ?i s) (mark_blocks (Some a) (ce_buf e)) =
      ret (?s'\<lparr>headers := marked (Some a) (ce_buf e) (headers s)\<rparr>)" by simp
  have old: "map_option l (h' x) = map_option l (?h x)" if "x \<in> dom ?h" "\<And>e v. l (e\<lparr>ce_more_recent := v\<rparr>) = l e" for x and l :: "cache_entry \<Rightarrow> 'x"
    using that a by (auto simp: h'_def put_at_field)
  have dom': "dom h' = insert a (dom ?h)" using same_core_dom [OF sc] by auto
  have bk: "bucket h' (insert a (dom ?h)) j = (if j = ?i then insert a (bucket ?h (dom ?h) j) else bucket ?h (dom ?h) j)" for j
  proof -
    have "bucket h' (dom ?h) j = bucket ?h (dom ?h) j" by (rule bucket_cong) (rule old; simp)
    moreover have "ce_hash e' = ce_hash e" by (simp add: e'_def)
    ultimately show ?thesis using h'a by (auto simp: bucket_def)
  qed
  obtain ys where y: "seg ce_next ?h (cache_entries s ! ?i) ys None" "set ys = bucket ?h (dom ?h) ?i"
    using chained_chain [OF c hash_index_less] .
  have "seg ce_next h' (cache_entries s ! ?i) ys None"
    by (rule seg_cong [OF _ y(1)], rule old) (use y(2) in \<open>auto simp: bucket_def\<close>)
  then have "seg ce_next h' (Some a) (a # ys) None" using h'a by (simp add: e'_def)
  then have c': "chained h' ((cache_entries s)[?i := Some a]) (insert a (dom ?h))"
  proof (rule chained_update [OF c hash_index_less])
    show "map_option ce_next (h' x) = map_option ce_next (?h x)" if "x \<in> bucket ?h (dom ?h) j" for x j
      by (rule old) (use that in \<open>auto simp: bucket_def\<close>)
  qed (use y(2) bk in auto)
  have "blocks_ok (?h(a \<mapsto> e')) (marked (Some a) (ce_buf e') (headers s))"
    by (rule blocks_ok_new [OF b a]) (use e(2) free in \<open>simp_all add: e'_def\<close>)
  then have "blocks_ok h' (marked (Some a) (ce_buf e) (headers s))"
    using blocks_ok_core [OF _ sc] by (simp add: e'_def)
  then have ok': "cache_ok (?s'\<lparr>headers := marked (Some a) (ce_buf e) (headers s)\<rparr>) (xs @ [a])"
    using l' c' dom' d by (simp add: cache_ok_def)
  have "same_core (dom ?h) ?h h'" using a sc by (auto simp: same_core_def)
  then show ?thesis using that [OF run ok'] h'a by (simp add: e'_def core_eq_iff)
qed

subsection \<open>Finding an entry\<close>

text \<open>
  The key of a request starts with the name of the function, so that the number of dimensions of the
  buffers is determined by the key: \<open>sig\<close>. It is what keeps the comparison of shapes in bounds.
\<close>

definition request_ok :: "(int list \<Rightarrow> nat) \<Rightarrow> int list \<Rightarrow> halide_buffer \<Rightarrow> halide_buffer list \<Rightarrow> bool" where
  "request_ok sig key bounds bufs \<longleftrightarrow> bufs \<noteq> [] \<and> length (buf_dim bounds) = sig key \<and>
     (\<forall>b \<in> set bufs. length (buf_dim b) = sig key)"

definition dims_ok :: "(int list \<Rightarrow> nat) \<Rightarrow> heap \<Rightarrow> bool" where
  "dims_ok sig h \<longleftrightarrow> (\<forall>a e. h a = Some e \<longrightarrow> length (ce_computed_bounds e) = sig (ce_key e) \<and>
     (\<forall>b \<in> set (ce_buf e). length (buf_dim b) = sig (ce_key e)))"

definition matches :: "int \<Rightarrow> int list \<Rightarrow> halide_buffer \<Rightarrow> halide_buffer list \<Rightarrow> cache_entry \<Rightarrow> bool" where
  "matches h key bounds bufs e \<longleftrightarrow> ce_hash e = h \<and> ce_key e = key \<and> ce_computed_bounds e = buf_dim bounds \<and>
     map buf_dim bufs = map buf_dim (ce_buf e)"

lemma has_shape_eq: "length ds = length ss \<Longrightarrow> has_shape ds ss = ret (ds = ss)"
  by (induction ds ss rule: list_induct2) auto

lemma all_bounds_equal_eq:
  "length bs = length es \<Longrightarrow> (\<And>b. b \<in> set bs \<union> set es \<Longrightarrow> length (buf_dim b) = n) \<Longrightarrow>
   all_bounds_equal bs es = ret (map buf_dim bs = map buf_dim es)"
  by (induction bs es rule: list_induct2) (auto simp: buffer_has_shape_def has_shape_eq)

lemma entry_matches_eq:
  assumes "request_ok sig key bounds bufs" and "dims_ok sig h" and "h a = Some e"
  shows "entry_matches i key bounds bufs e = ret (matches i key bounds bufs e)"
proof (cases "ce_hash e = i \<and> ce_key e = key")
  case True
  have "length (ce_computed_bounds e) = sig key" "\<forall>b \<in> set (ce_buf e). length (buf_dim b) = sig key"
    using assms(2,3) True by (auto simp: dims_ok_def)
  moreover have "all_bounds_equal bufs (ce_buf e) = ret (map buf_dim bufs = map buf_dim (ce_buf e))"
    if "length bufs = length (ce_buf e)"
    by (rule all_bounds_equal_eq [OF that]) (use assms(1) calculation(2) in \<open>auto simp: request_ok_def\<close>)
  ultimately show ?thesis
    using assms(1) True
    by (auto simp: entry_matches_def matches_def request_ok_def buffer_has_shape_def has_shape_eq ce_tuple_count_def
        dest: map_eq_imp_length_eq)
qed (auto simp: entry_matches_def matches_def)

lemma find_entry_result:
  assumes ok: "cache_ok s xs" and r: "request_ok sig key bounds bufs" and d: "dims_ok sig (entries s)"
  obtains (hit) a e where "find_entry (entry_matches i key bounds bufs) (cache_entries s ! hash_index i) s = ret (Some a)"
      "entries s a = Some e" "matches i key bounds bufs e"
    | (miss) "find_entry (entry_matches i key bounds bufs) (cache_entries s ! hash_index i) s = ret None"
      "\<And>a e. entries s a = Some e \<Longrightarrow> \<not> matches i key bounds bufs e"
proof -
  let ?M = "\<lambda>a. matches i key bounds bufs (the (entries s a))"
  have "chained (entries s) (cache_entries s) (dom (entries s))" using ok by (simp add: cache_ok_def)
  then obtain ys where y: "seg ce_next (entries s) (cache_entries s ! hash_index i) ys None"
    "set ys = bucket (entries s) (dom (entries s)) (hash_index i)"
    by (rule chained_chain [OF _ hash_index_less])
  have f: "find_entry (entry_matches i key bounds bufs) (cache_entries s ! hash_index i) s = ret (List.find ?M ys)"
    by (rule find_entry_ok [OF y(1)]) (use y(2) entry_matches_eq [OF r d] in \<open>auto simp: bucket_def\<close>)
  show ?thesis
  proof (cases "List.find ?M ys")
    case None
    have "\<not> matches i key bounds bufs e" if e: "entries s a = Some e" for a e
    proof
      assume m: "matches i key bounds bufs e"
      then have "a \<in> set ys" using y(2) e by (auto simp: bucket_def matches_def)
      then show False using None e m by (auto simp: find_None_iff)
    qed
    then show ?thesis using f None miss by simp
  next
    case (Some a)
    then have "a \<in> set ys" "?M a" by (auto simp: find_Some_iff)
    then show ?thesis using f Some hit y(2) by (auto simp: bucket_def)
  qed
qed

subsection \<open>Allocating blocks\<close>

text \<open>What the cache relies on: memory that is handed out is not in use.\<close>

definition fresh_memory :: "allocator \<Rightarrow> bool" where
  "fresh_memory al \<longleftrightarrow> (\<forall>s n p. malloc_block al s n = Some p \<longrightarrow> headers s p = None) \<and>
     (\<forall>s a. malloc_entry al s = Some a \<longrightarrow> entries s a = None)"

definition with_blocks :: "int \<Rightarrow> halide_buffer list \<Rightarrow> cache_state \<Rightarrow> cache_state" where
  "with_blocks h bufs s = s\<lparr>headers := \<lambda>p. if p \<in> set (host_list bufs) then Some \<lparr>hdr_entry = None, hdr_hash = h\<rparr> else headers s p\<rparr>"

lemma alloc_blocks_ok:
  assumes "fresh_memory al" and "has_hosts got" and "\<forall>p \<in> set (host_list got). headers s p = None"
  shows "(\<exists>bufs'. alloc_blocks al h got bufs (with_blocks h got s) = ret (-1, bufs', s)) \<or>
    (\<exists>new. alloc_blocks al h got bufs (with_blocks h got s) = ret (1, rev got @ new, with_blocks h (rev got @ new) s) \<and>
       has_hosts (rev got @ new) \<and> (\<forall>p \<in> set (host_list new). headers s p = None) \<and>
       map (\<lambda>b. b\<lparr>buf_host := None\<rparr>) new = map (\<lambda>b. b\<lparr>buf_host := None\<rparr>) bufs)"
  using assms(2,3)
proof (induction bufs arbitrary: got)
  case Nil
  then show ?case
    by (intro disjI2 exI [of _ "[]"]) (auto simp: with_blocks_def host_list_def has_hosts_def rev_map [symmetric])
next
  case (Cons b bufs)
  let ?s = "with_blocks h got s"
  show ?case
  proof (cases "malloc_block al ?s (u_wrap 64 (size_in_bytes b + header_bytes al))")
    case None
    have "each_buf (\<lambda>b. free_block (buf_host b)) got ?s =
        ret (?s\<lparr>headers := \<lambda>p. if p \<in> set (host_list got) then None else headers ?s p\<rparr>)"
      by (rule free_blocks_ok [OF Cons.prems(1)]) (simp add: with_blocks_def)
    also have "\<dots> = ret s" using Cons.prems(2) by (auto simp: with_blocks_def fun_eq_iff intro!: cache_state.equality)
    finally show ?thesis using None by auto
  next
    case (Some p)
    then have "headers ?s p = None" using assms(1) by (auto simp: fresh_memory_def)
    then have p: "headers s p = None" "p \<notin> set (host_list got)" by (auto simp: with_blocks_def split: if_splits)
    let ?got = "b\<lparr>buf_host := Some p\<rparr> # got"
    have "?s\<lparr>headers := (headers ?s)(p \<mapsto> \<lparr>hdr_entry = None, hdr_hash = h\<rparr>)\<rparr> = with_blocks h ?got s"
      by (auto simp: with_blocks_def host_list_def fun_eq_iff intro!: cache_state.equality)
    then have step: "alloc_blocks al h got (b # bufs) ?s = alloc_blocks al h ?got bufs (with_blocks h ?got s)"
      using Some by simp
    have "has_hosts ?got" "\<forall>q \<in> set (host_list ?got). headers s q = None"
      using Cons.prems p by (auto simp: has_hosts_def host_list_def)
    from Cons.IH [OF this] show ?thesis
    proof (elim disjE exE conjE)
      fix new assume n: "alloc_blocks al h ?got bufs (with_blocks h ?got s) = ret (1, rev ?got @ new, with_blocks h (rev ?got @ new) s)"
        "has_hosts (rev ?got @ new)" "\<forall>p \<in> set (host_list new). headers s p = None"
        "map (\<lambda>b. b\<lparr>buf_host := None\<rparr>) new = map (\<lambda>b. b\<lparr>buf_host := None\<rparr>) bufs"
      then show ?thesis using step p
        by (intro disjI2 exI [of _ "b\<lparr>buf_host := Some p\<rparr> # new"]) (auto simp: host_list_def)
    qed (use step in auto)
  qed
qed

end
