(* ===== verification/CacheFacts.thy ===== *)
theory CacheFacts
  imports CacheOps
begin

text \<open>
  The cache and its clients together: the steps they can take, the invariant of the states that can be
  reached, and what follows from it.
\<close>

subsection \<open>Clients\<close>

text \<open>How often the clients hold a block of data.\<close>

type_synonym holds = "host \<Rightarrow> nat"

definition hold :: "host list \<Rightarrow> holds \<Rightarrow> holds" where
  "hold ps held = (\<lambda>p. if p \<in> set ps then held p + 1 else held p)"

definition in_use_total :: "holds \<Rightarrow> cache_entry \<Rightarrow> int" where
  "in_use_total held e = int (\<Sum>p \<leftarrow> host_list (ce_buf e). held p)"

text \<open>
  A block that is held is allocated, a block without an entry is held once, and an entry counts how often
  its blocks are held.
\<close>

definition held_ok :: "holds \<Rightarrow> heap \<Rightarrow> (host \<Rightarrow> cache_block_header option) \<Rightarrow> bool" where
  "held_ok held h hs \<longleftrightarrow> (\<forall>p. 0 < held p \<longrightarrow> hs p \<noteq> None) \<and>
     (\<forall>p d. hs p = Some d \<longrightarrow> hdr_entry d = None \<longrightarrow> held p = 1) \<and>
     (\<forall>a e. h a = Some e \<longrightarrow> ce_in_use_count e = in_use_total held e)"

definition cache_inv :: "(int list \<Rightarrow> nat) \<Rightarrow> holds \<Rightarrow> cache_state \<Rightarrow> addr list \<Rightarrow> bool" where
  "cache_inv sig held s xs \<longleftrightarrow> cache_ok s xs \<and> size_ok s xs 0 \<and> dims_ok sig (entries s) \<and>
     held_ok held (entries s) (headers s)"

lemma held_okD:
  "held_ok held h hs \<Longrightarrow> 0 < held p \<Longrightarrow> hs p \<noteq> None"
  "held_ok held h hs \<Longrightarrow> hs p = Some d \<Longrightarrow> hdr_entry d = None \<Longrightarrow> held p = 1"
  "held_ok held h hs \<Longrightarrow> h a = Some e \<Longrightarrow> ce_in_use_count e = in_use_total held e"
  unfolding held_ok_def by blast+

lemma held_okI:
  assumes "\<And>p. 0 < held p \<Longrightarrow> hs p \<noteq> None" and "\<And>p d. hs p = Some d \<Longrightarrow> hdr_entry d = None \<Longrightarrow> held p = 1"
    and "\<And>a e. h a = Some e \<Longrightarrow> ce_in_use_count e = in_use_total held e"
  shows "held_ok held h hs"
  unfolding held_ok_def using assms by blast

lemma in_use_total_cong:
  "(\<And>p. p \<in> set (host_list (ce_buf e)) \<Longrightarrow> held' p = held p) \<Longrightarrow> in_use_total held' e = in_use_total held e"
  by (simp add: in_use_total_def cong: map_cong)

lemma in_use_total_zero:
  "in_use_total held e = 0 \<Longrightarrow> p \<in> set (host_list (ce_buf e)) \<Longrightarrow> held p = 0"
  by (auto simp: in_use_total_def)

lemma in_use_total_hold:
  "in_use_total (hold (host_list (ce_buf e)) held) e = in_use_total held e + int (length (ce_buf e))"
proof -
  have "(\<Sum>p \<leftarrow> ps. hold qs held p) = (\<Sum>p \<leftarrow> ps. held p) + length ps" if "set ps \<subseteq> set qs" for ps qs
    using that by (induction ps) (auto simp: hold_def)
  from this [of "host_list (ce_buf e)" "host_list (ce_buf e)"] show ?thesis by (simp add: in_use_total_def host_list_def)
qed

lemma in_use_total_release:
  assumes "p \<in> set (host_list (ce_buf e))" and "distinct (host_list (ce_buf e))" and "0 < held p"
  shows "in_use_total (held(p := held p - 1)) e = in_use_total held e - 1"
proof -
  have "(\<Sum>q \<leftarrow> ps. (held(p := held p - 1)) q) + (if p \<in> set ps then 1 else 0) = (\<Sum>q \<leftarrow> ps. held q)" if "distinct ps" for ps
    using that assms(3) by (induction ps) auto
  from this [OF assms(2)] show ?thesis using assms(1) by (simp add: in_use_total_def del: fun_upd_apply)
qed

subsection \<open>Changes that leave the data alone\<close>

definition data :: "cache_entry \<Rightarrow> int list \<times> int \<times> halide_dimension list \<times> halide_buffer list" where
  "data e = (ce_key e, ce_hash e, ce_computed_bounds e, ce_buf e)"

lemma dims_ok_data:
  assumes "dims_ok sig h" and "\<And>a. map_option data (h' a) = map_option data (h a)"
  shows "dims_ok sig h'"
  unfolding dims_ok_def
proof (intro allI impI)
  fix a e assume e: "h' a = Some e"
  then obtain f where f: "h a = Some f" "data f = data e" using assms(2) [of a] by (cases "h a") auto
  then show "length (ce_computed_bounds e) = sig (ce_key e) \<and> (\<forall>b \<in> set (ce_buf e). length (buf_dim b) = sig (ce_key e))"
    using assms(1) unfolding dims_ok_def data_def by (metis Pair_inject)
qed

lemma sizes_data:
  assumes "\<And>a. map_option data (h' a) = map_option data (h a)"
  shows "(\<Sum>a \<leftarrow> xs. entry_size (the (h' a))) = (\<Sum>a \<leftarrow> xs. entry_size (the (h a)))"
proof -
  have "entry_size (the (h' a)) = entry_size (the (h a))" for a
    using assms [of a] by (cases "h' a"; cases "h a") (auto simp: data_def entry_size_def)
  then show ?thesis by simp
qed

lemma same_core_data: "same_core UNIV h h' \<Longrightarrow> map_option data (h' a) = map_option data (h a)"
  by (rule same_core_field) (auto simp: data_def core_def)

text \<open>A change of the count of one entry.\<close>

lemma count_upd:
  assumes ok: "cache_ok s xs" and e: "entries s a = Some e"
  shows "cache_ok (s\<lparr>entries := (entries s)(a \<mapsto> e\<lparr>ce_in_use_count := n\<rparr>)\<rparr>) xs"
proof -
  let ?h = "(entries s)(a \<mapsto> e\<lparr>ce_in_use_count := n\<rparr>)"
  have l: "lru_list ?h (least_recently_used s) (most_recently_used s) xs"
    by (rule lru_list_cong [of "entries s"]) (use ok e in \<open>auto simp: cache_ok_def\<close>)
  have "cache_ok (s\<lparr>entries := ?h, least_recently_used := least_recently_used s, most_recently_used := most_recently_used s\<rparr>) xs"
    by (rule cache_ok_frame [OF ok _ _ _ l]) (use e in auto)
  then show ?thesis by simp
qed

lemma count_upd_rest:
  assumes e: "entries s a = Some e"
  shows "dims_ok sig (entries s) \<Longrightarrow> dims_ok sig ((entries s)(a \<mapsto> e\<lparr>ce_in_use_count := n\<rparr>))"
    and "size_ok s xs k \<Longrightarrow> size_ok (s\<lparr>entries := (entries s)(a \<mapsto> e\<lparr>ce_in_use_count := n\<rparr>)\<rparr>) xs k"
proof -
  let ?h = "(entries s)(a \<mapsto> e\<lparr>ce_in_use_count := n\<rparr>)"
  have d: "map_option data (?h x) = map_option data (entries s x)" for x using e by (simp add: data_def)
  show "dims_ok sig (entries s) \<Longrightarrow> dims_ok sig ?h" by (rule dims_ok_data [of sig "entries s"]) (use d in blast)+
  show "size_ok s xs k \<Longrightarrow> size_ok (s\<lparr>entries := ?h\<rparr>) xs k"
    using sizes_data [of ?h "entries s" xs] d by (simp add: size_ok_def del: fun_upd_apply)
qed

subsection \<open>Release\<close>

lemma blocks_ok_drop:
  assumes "blocks_ok h hs" and "hs p = Some d" and "hdr_entry d = None"
  shows "blocks_ok h (hs(p := None))"
proof (rule blocks_okI)
  fix a e q assume "h a = Some e" "q \<in> set (host_list (ce_buf e))"
  then show "\<exists>d. (hs(p := None)) q = Some d \<and> hdr_entry d = Some a"
    using blocks_ok_entry(2) [OF assms(1)] assms(2,3) by force
qed (use blocks_ok_entry(1) [OF assms(1)] blocks_ok_header [OF assms(1)] in \<open>auto split: if_splits\<close>)

lemma release_inv:
  assumes inv: "cache_inv sig held s xs" and p: "0 < held p"
  shows "\<exists>s'. halide_memoization_cache_release (Some p) s = ret s' \<and> cache_inv sig (held(p := held p - 1)) s' xs"
proof -
  have ok: "cache_ok s xs" and b: "blocks_ok (entries s) (headers s)" and h: "held_ok held (entries s) (headers s)"
    and z: "size_ok s xs 0" and di: "dims_ok sig (entries s)"
    using inv by (auto simp: cache_inv_def cache_ok_def)
  obtain d where d: "headers s p = Some d" using held_okD(1) [OF h p] by auto
  show ?thesis
  proof (cases "hdr_entry d")
    case None
    let ?s = "s\<lparr>headers := (headers s)(p := None)\<rparr>"
    have 1: "held p = 1" using held_okD(2) [OF h d None] .
    have "held_ok (held(p := held p - 1)) (entries s) (headers ?s)"
    proof (rule held_okI)
      fix a e assume e: "entries s a = Some e"
      then have "p \<notin> set (host_list (ce_buf e))" using blocks_ok_entry(2) [OF b e] d None by force
      then show "ce_in_use_count e = in_use_total (held(p := held p - 1)) e"
        using held_okD(3) [OF h e] in_use_total_cong [of e] by (metis fun_upd_apply)
    qed (use held_okD(1,2) [OF h] 1 in \<open>auto split: if_splits\<close>)
    moreover have "halide_memoization_cache_release (Some p) s = ret ?s"
      using d None by (simp add: halide_memoization_cache_release_def header_of_def free_block_def)
    moreover have "cache_ok ?s xs" using ok blocks_ok_drop [OF b d None] by (simp add: cache_ok_def)
    ultimately show ?thesis using z di by (auto simp: cache_inv_def size_ok_def)
  next
    case (Some a)
    then obtain e where e: "entries s a = Some e" "p \<in> set (host_list (ce_buf e))" using blocks_ok_header [OF b d] by blast
    have ds: "distinct (host_list (ce_buf e))" using blocks_ok_entry(1) [OF b e(1)] by (simp add: has_hosts_def)
    have c: "ce_in_use_count e = in_use_total held e" by (rule held_okD(3) [OF h e(1)])
    moreover have "int (held p) \<le> in_use_total held e"
      using e(2) member_le_sum_list [of "held p" "map held (host_list (ce_buf e))"] by (simp add: in_use_total_def)
    ultimately have pos: "0 < ce_in_use_count e" using p by linarith
    let ?h = "(entries s)(a \<mapsto> e\<lparr>ce_in_use_count := ce_in_use_count e - 1\<rparr>)"
    have "halide_memoization_cache_release (Some p) s = ret (s\<lparr>entries := ?h\<rparr>)"
      using d Some e(1) pos by (simp add: halide_memoization_cache_release_def header_of_def)
    moreover have "held_ok (held(p := held p - 1)) ?h (headers s)"
    proof (rule held_okI)
      fix x f assume f: "?h x = Some f"
      show "ce_in_use_count f = in_use_total (held(p := held p - 1)) f"
      proof (cases "x = a")
        case True
        then show ?thesis using f in_use_total_release [OF e(2) ds, of held] p c by (auto simp: in_use_total_def)
      next
        case False
        then have "entries s x = Some f" using f by simp
        moreover from this have "p \<notin> set (host_list (ce_buf f))" using blocks_ok_entry(2) [OF b, of x f p] d Some False by auto
        ultimately show ?thesis using held_okD(3) [OF h] in_use_total_cong [of f] by (metis fun_upd_apply)
      qed
    qed (use held_okD(1,2) [OF h] d Some in \<open>auto split: if_splits\<close>)
    ultimately show ?thesis
      using count_upd [OF ok e(1)] count_upd_rest(1) [OF e(1) di] count_upd_rest(2) [OF e(1) z]
      by (intro exI [of _ "s\<lparr>entries := ?h\<rparr>"]) (simp add: cache_inv_def del: fun_upd_apply)
  qed
qed

subsection \<open>Pruning\<close>

lemma held_ok_core:
  assumes h: "held_ok held h hs" and c: "same_core S h h'" and d: "dom h' \<subseteq> S"
    and hs: "\<And>p. 0 < held p \<Longrightarrow> hs' p = hs p" "\<And>p d. hs' p = Some d \<Longrightarrow> hs p = Some d"
  shows "held_ok held h' hs'"
proof (rule held_okI)
  fix a e' assume e': "h' a = Some e'"
  then obtain e where "h a = Some e" "core e = core e'" using same_core_back [OF c, of a e'] d by auto
  then show "ce_in_use_count e' = in_use_total held e'"
    using held_okD(3) [OF h] by (auto simp: core_eq_iff in_use_total_def)
next
  fix p assume "0 < held p"
  then show "hs' p \<noteq> None" using hs(1) held_okD(1) [OF h] by simp
next
  fix p d assume "hs' p = Some d" "hdr_entry d = None"
  then show "held p = 1" using hs(2) held_okD(2) [OF h] by blast
qed

lemma dims_ok_core:
  assumes "dims_ok sig h" and c: "same_core S h h'" and d: "dom h' \<subseteq> S"
  shows "dims_ok sig h'"
  unfolding dims_ok_def
proof (intro allI impI)
  fix a e' assume e': "h' a = Some e'"
  then obtain e where "h a = Some e" "core e = core e'" using same_core_back [OF c, of a e'] d by auto
  then show "length (ce_computed_bounds e') = sig (ce_key e') \<and> (\<forall>b \<in> set (ce_buf e'). length (buf_dim b) = sig (ce_key e'))"
    using assms(1) unfolding dims_ok_def core_eq_iff by metis
qed

lemma prune_inv:
  assumes ok: "cache_ok s xs" and z: "size_ok s xs n" and di: "dims_ok sig (entries s)"
    and h: "held_ok held (entries s) (headers s)"
    and pr: "prunable (max_cache_size s) (current_cache_size s) (entry_list s xs)"
  obtains s' ys zs where "prune_cache s = ret s'" "xs = ys @ zs" "cache_ok s' zs" "size_ok s' zs n"
    "dims_ok sig (entries s')" "held_ok held (entries s') (headers s')"
    "same_core (set zs) (entries s) (entries s')" "max_cache_size s' = max_cache_size s"
    "\<forall>a \<in> set ys. ce_in_use_count (the (entries s a)) = 0" "\<And>p. 0 < held p \<Longrightarrow> headers s' p = headers s p"
    "current_cache_size s' \<le> max_cache_size s \<or> (\<forall>a \<in> set zs. ce_in_use_count (the (entries s a)) \<noteq> 0)"
proof -
  have "least_recently_used s = hd_opt xs" using ok lru_list_ends(1) by (auto simp: cache_ok_def)
  then have run: "prune_cache s = prune_loop (hd_opt xs) s" by (simp add: prune_cache_def)
  obtain s' ys zs where i: "prune_loop (hd_opt xs) s = ret s'" "xs = ys @ zs" "cache_ok s' zs" "size_ok s' zs n"
      "same_core (set zs) (entries s) (entries s')" "max_cache_size s' = max_cache_size s"
      "\<forall>a \<in> set ys. ce_in_use_count (the (entries s a)) = 0"
      "headers s' = (\<lambda>p. if \<exists>a \<in> set ys. p \<in> set (host_list (ce_buf (the (entries s a)))) then None else headers s p)"
      "current_cache_size s' \<le> max_cache_size s \<or> (\<forall>a \<in> set zs. ce_in_use_count (the (entries s a)) \<noteq> 0)"
    using prune_loop_ok [OF ok z pr] by blast
  have keep: "headers s' p = headers s p" if "0 < held p" for p
  proof -
    have "p \<notin> set (host_list (ce_buf (the (entries s a))))" if y: "a \<in> set ys" for a
    proof -
      obtain e where e: "entries s a = Some e" using cache_ok_nonempty [OF ok, of a] i(2) y by auto
      then have "in_use_total held e = 0" using i(7) y held_okD(3) [OF h e] by auto
      then show ?thesis using in_use_total_zero [of held e p] \<open>0 < held p\<close> e by auto
    qed
    then show ?thesis by (auto simp: i(8))
  qed
  have d: "dom (entries s') \<subseteq> set zs" using i(3) by (simp add: cache_ok_def)
  have "held_ok held (entries s') (headers s')"
    by (rule held_ok_core [OF h i(5) d keep]) (auto simp: i(8) split: if_splits)
  then show ?thesis using that [of s' ys zs] run i(1-7,9) keep dims_ok_core [OF di i(5) d] by simp
qed

text \<open>
  A request to prune that the code handles: no idle entry would have to be removed from behind an entry
  that is in use.
\<close>

definition prune_safe :: "int \<Rightarrow> int \<Rightarrow> cache_state \<Rightarrow> bool" where
  "prune_safe m c s \<longleftrightarrow> (\<exists>xs. cache_ok s xs \<and> prunable m c (entry_list s xs))"

lemma cache_ok_unique: "cache_ok s xs \<Longrightarrow> cache_ok s ys \<Longrightarrow> xs = ys"
  unfolding cache_ok_def lru_list_def using seg_unique by blast

lemma prune_safeD: "prune_safe m c s \<Longrightarrow> cache_ok s xs \<Longrightarrow> prunable m c (entry_list s xs)"
  using cache_ok_unique unfolding prune_safe_def by blast

lemma set_size_inv:
  assumes inv: "cache_inv sig held s xs"
    and pr: "prune_safe (if n = 0 then kDefaultCacheSize else n) (current_cache_size s) s"
  obtains s' zs where "halide_memoization_cache_set_size n s = ret s'" "cache_inv sig held s' zs"
    "current_cache_size s' \<le> max_cache_size s' \<or> (\<forall>a e. entries s' a = Some e \<longrightarrow> ce_in_use_count e \<noteq> 0)"
    "\<And>a e. entries s a = Some e \<Longrightarrow> entries s' a = None \<Longrightarrow> ce_in_use_count e = 0"
proof -
  let ?s = "s\<lparr>max_cache_size := (if n = 0 then kDefaultCacheSize else n)\<rparr>"
  have "cache_ok ?s xs" "size_ok ?s xs 0" "dims_ok sig (entries ?s)" "held_ok held (entries ?s) (headers ?s)"
    using inv by (simp_all add: cache_inv_def cache_ok_def size_ok_def)
  moreover have "prunable (max_cache_size ?s) (current_cache_size ?s) (entry_list ?s xs)"
    using prune_safeD [OF pr, of xs] inv by (simp add: cache_inv_def entry_list_def)
  ultimately obtain s' ys zs where p: "prune_cache ?s = ret s'" "cache_ok s' zs" "size_ok s' zs 0" "dims_ok sig (entries s')"
    "held_ok held (entries s') (headers s')" "same_core (set zs) (entries s) (entries s')" "max_cache_size s' = max_cache_size ?s"
    "current_cache_size s' \<le> max_cache_size ?s \<or> (\<forall>a \<in> set zs. ce_in_use_count (the (entries s a)) \<noteq> 0)" "xs = ys @ zs"
    "\<forall>a \<in> set ys. ce_in_use_count (the (entries s a)) = 0"
    by (rule prune_inv) simp
  have "ce_in_use_count e \<noteq> 0" if "\<forall>a \<in> set zs. ce_in_use_count (the (entries s a)) \<noteq> 0" "entries s' a = Some e" for a e
  proof -
    have "a \<in> set zs" "a \<in> dom (entries s)" using that(2) p(2,9) inv by (auto simp: cache_ok_def cache_inv_def)
    then show ?thesis using same_core_the [OF p(6), of a] that by (auto simp: core_eq_iff)
  qed
  moreover have "ce_in_use_count e = 0" if "entries s a = Some e" "entries s' a = None" for a e
  proof -
    have "a \<in> set xs" "a \<notin> set zs" using that p(2) inv by (auto simp: cache_ok_def cache_inv_def)
    then show ?thesis using that(1) p(9,10) by auto
  qed
  moreover have "halide_memoization_cache_set_size n s = ret s'" using p(1) by (simp add: halide_memoization_cache_set_size_def)
  ultimately show ?thesis using that [of s' zs] p(2-5,7,8) by (auto simp: cache_inv_def)
qed

subsection \<open>Lookup\<close>

text \<open>Handing out the blocks of an entry once more.\<close>

lemma held_ok_hold:
  assumes b: "blocks_ok h hs" and h: "held_ok held h hs" and e: "h a = Some e"
  shows "held_ok (hold (host_list (ce_buf e)) held)
    (h(a \<mapsto> e\<lparr>ce_in_use_count := ce_in_use_count e + int (length (ce_buf e))\<rparr>)) hs"
proof (rule held_okI)
  fix x f assume f: "(h(a \<mapsto> e\<lparr>ce_in_use_count := ce_in_use_count e + int (length (ce_buf e))\<rparr>)) x = Some f"
  show "ce_in_use_count f = in_use_total (hold (host_list (ce_buf e)) held) f"
  proof (cases "x = a")
    case True
    then show ?thesis using f in_use_total_hold [of e held] held_okD(3) [OF h e] by (auto simp: in_use_total_def)
  next
    case False
    then have f': "h x = Some f" using f by simp
    have "p \<notin> set (host_list (ce_buf e))" if p: "p \<in> set (host_list (ce_buf f))" for p
      using blocks_ok_entry(2) [OF b f' p] blocks_ok_entry(2) [OF b e, of p] False by auto
    then have "in_use_total (hold (host_list (ce_buf e)) held) f = in_use_total held f"
      by (intro in_use_total_cong) (simp add: hold_def)
    then show ?thesis using held_okD(3) [OF h f'] by simp
  qed
next
  fix p assume "0 < hold (host_list (ce_buf e)) held p"
  then show "hs p \<noteq> None" using held_okD(1) [OF h, of p] blocks_ok_entry(2) [OF b e, of p] by (auto simp: hold_def split: if_splits)
next
  fix p d assume d: "hs p = Some d" "hdr_entry d = None"
  then have "p \<notin> set (host_list (ce_buf e))" using blocks_ok_entry(2) [OF b e] by force
  then show "hold (host_list (ce_buf e)) held p = 1" using held_okD(2) [OF h d] by (simp add: hold_def)
qed

lemma in_use_nonneg: "held_ok held h hs \<Longrightarrow> h a = Some e \<Longrightarrow> 0 \<le> ce_in_use_count e"
  by (simp add: held_okD(3) in_use_total_def)

definition counts_fit :: "nat \<Rightarrow> cache_state \<Rightarrow> bool" where
  "counts_fit n s \<longleftrightarrow> (\<forall>a e. entries s a = Some e \<longrightarrow> ce_in_use_count e + int n < 2 ^ 32)"

lemma size_ok_core:
  assumes "size_ok s xs n" and "same_core UNIV (entries s) (entries s')"
    and "current_cache_size s' = current_cache_size s" and "xs = us @ a # vs"
  shows "size_ok s' (us @ vs @ [a]) n"
  using assms sizes_data [of "entries s'" "entries s" "us @ vs @ [a]"] same_core_data [OF assms(2)]
  by (simp add: size_ok_def algebra_simps)

lemma lookup_hit:
  assumes inv: "cache_inv sig held s xs" and fit: "counts_fit (length bufs) s"
    and f: "find_entry (entry_matches (djb_hash key) key bounds bufs) (cache_entries s ! hash_index (djb_hash key)) s = ret (Some a)"
    and e: "entries s a = Some e" and m: "matches (djb_hash key) key bounds bufs e"
  obtains s' us vs where "halide_memoization_cache_lookup al key bounds bufs s = ret (0, ce_buf e, s')" "xs = us @ a # vs"
    "cache_inv sig (hold (host_list (ce_buf e)) held) s' (us @ vs @ [a])"
proof -
  have ok: "cache_ok s xs" and b: "blocks_ok (entries s) (headers s)" and h: "held_ok held (entries s) (headers s)"
    and z: "size_ok s xs 0" and di: "dims_ok sig (entries s)"
    using inv by (auto simp: cache_inv_def cache_ok_def)
  have "a \<in> set xs" using ok e by (auto simp: cache_ok_def)
  then obtain s1 us vs where s1: "make_most_recent a s = ret s1" "xs = us @ a # vs" "cache_ok s1 (us @ vs @ [a])"
    "same_core UNIV (entries s) (entries s1)" "headers s1 = headers s" "max_cache_size s1 = max_cache_size s"
    "current_cache_size s1 = current_cache_size s"
    using make_most_recent_ok [OF ok] by metis
  obtain e1 where e1: "entries s1 a = Some e1" "core e1 = core e" using same_core_Some [OF s1(4) UNIV_I e] by metis
  have buf: "ce_buf e1 = ce_buf e" "ce_in_use_count e1 = ce_in_use_count e" using e1(2) by (auto simp: core_eq_iff)
  have len: "length bufs = length (ce_buf e)" using m by (auto simp: matches_def dest: map_eq_imp_length_eq)
  have h1: "held_ok held (entries s1) (headers s1)" by (rule held_ok_core [OF h s1(4)]) (auto simp: s1(5))
  have "u_wrap 32 (ce_in_use_count e1 + int (length bufs)) = ce_in_use_count e1 + int (length (ce_buf e1))"
    using fit e in_use_nonneg [OF h e] buf len by (intro trans [OF u_wrap_id]) (auto simp: counts_fit_def)
  then have run: "halide_memoization_cache_lookup al key bounds bufs s = ret (0, ce_buf e,
      s1\<lparr>entries := (entries s1)(a \<mapsto> e1\<lparr>ce_in_use_count := ce_in_use_count e1 + int (length (ce_buf e1))\<rparr>)\<rparr>)"
    using f s1(1) e1(1) buf by (simp add: halide_memoization_cache_lookup_def Let_def)
  have "blocks_ok (entries s1) (headers s1)" using s1(3) by (simp add: cache_ok_def)
  note hh = held_ok_hold [OF this h1 e1(1)]
  have "size_ok s1 (us @ vs @ [a]) 0" by (rule size_ok_core [OF z s1(4,7,2)])
  moreover have "dims_ok sig (entries s1)" by (rule dims_ok_core [OF di s1(4)]) simp
  ultimately show ?thesis
    using that [OF run s1(2)] count_upd [OF s1(3) e1(1)] count_upd_rest [OF e1(1)] hh buf
    by (simp add: cache_inv_def del: fun_upd_apply)
qed

lemma blocks_ok_with_blocks:
  assumes "blocks_ok (entries s) (headers s)" and "\<forall>p \<in> set (host_list new). headers s p = None"
  shows "blocks_ok (entries s) (headers (with_blocks h new s))"
proof (rule blocks_okI)
  fix a e p assume "entries s a = Some e" "p \<in> set (host_list (ce_buf e))"
  from blocks_ok_entry(2) [OF assms(1) this] assms(2)
  show "\<exists>d. headers (with_blocks h new s) p = Some d \<and> hdr_entry d = Some a" by (auto simp: with_blocks_def)
qed (use blocks_ok_entry(1) [OF assms(1)] blocks_ok_header [OF assms(1)] in \<open>auto simp: with_blocks_def split: if_splits\<close>)

lemma held_ok_with_blocks:
  assumes b: "blocks_ok (entries s) (headers s)" and h: "held_ok held (entries s) (headers s)"
    and new: "\<forall>p \<in> set (host_list new). headers s p = None"
  shows "held_ok (hold (host_list new) held) (entries s) (headers (with_blocks i new s))"
proof (rule held_okI)
  fix a e assume e: "entries s a = Some e"
  have "p \<notin> set (host_list new)" if "p \<in> set (host_list (ce_buf e))" for p
    using blocks_ok_entry(2) [OF b e that] new by auto
  then show "ce_in_use_count e = in_use_total (hold (host_list new) held) e"
    using held_okD(3) [OF h e] in_use_total_cong [of e "hold (host_list new) held" held] by (simp add: hold_def)
next
  fix p assume "0 < hold (host_list new) held p"
  then show "headers (with_blocks i new s) p \<noteq> None"
    using held_okD(1) [OF h, of p] by (auto simp: with_blocks_def hold_def)
next
  fix p d assume d: "headers (with_blocks i new s) p = Some d" "hdr_entry d = None"
  show "hold (host_list new) held p = 1"
  proof (cases "p \<in> set (host_list new)")
    case True
    then have "\<not> 0 < held p" using held_okD(1) [OF h] new by blast
    then show ?thesis using True by (simp add: hold_def)
  next
    case False
    then show ?thesis using d held_okD(2) [OF h] by (simp add: hold_def with_blocks_def)
  qed
qed

lemma with_blocks_simps [simp]: "entries (with_blocks i new s) = entries s"
  "cache_entries (with_blocks i new s) = cache_entries s" "least_recently_used (with_blocks i new s) = least_recently_used s"
  "most_recently_used (with_blocks i new s) = most_recently_used s" "current_cache_size (with_blocks i new s) = current_cache_size s"
  "max_cache_size (with_blocks i new s) = max_cache_size s"
  by (simp_all add: with_blocks_def)

lemma lookup_miss:
  assumes inv: "cache_inv sig held s xs" and al: "fresh_memory al"
    and f: "find_entry (entry_matches (djb_hash key) key bounds bufs) (cache_entries s ! hash_index (djb_hash key)) s = ret None"
  obtains (failed) bufs' where "halide_memoization_cache_lookup al key bounds bufs s = ret (-1, bufs', s)"
    | (missed) new where "halide_memoization_cache_lookup al key bounds bufs s = ret (1, new, with_blocks (djb_hash key) new s)"
      "has_hosts new" "map (\<lambda>b. b\<lparr>buf_host := None\<rparr>) new = map (\<lambda>b. b\<lparr>buf_host := None\<rparr>) bufs"
      "cache_inv sig (hold (host_list new) held) (with_blocks (djb_hash key) new s) xs"
proof -
  let ?h = "djb_hash key"
  have ok: "cache_ok s xs" and b: "blocks_ok (entries s) (headers s)" and h: "held_ok held (entries s) (headers s)"
    using inv by (auto simp: cache_inv_def cache_ok_def)
  have l: "halide_memoization_cache_lookup al key bounds bufs s = alloc_blocks al ?h [] bufs s"
    using f by (simp add: halide_memoization_cache_lookup_def Let_def)
  have "with_blocks ?h [] s = s" by (simp add: with_blocks_def host_list_def)
  then consider bufs' where "alloc_blocks al ?h [] bufs s = ret (-1, bufs', s)"
    | new where "alloc_blocks al ?h [] bufs s = ret (1, new, with_blocks ?h new s)" "has_hosts new"
      "\<forall>p \<in> set (host_list new). headers s p = None"
      "map (\<lambda>b. b\<lparr>buf_host := None\<rparr>) new = map (\<lambda>b. b\<lparr>buf_host := None\<rparr>) bufs"
    using alloc_blocks_ok [OF al, of "[]" s ?h bufs] by (auto simp: has_hosts_def host_list_def)
  then show ?thesis
  proof cases
    case 1
    then show ?thesis using failed l by simp
  next
    case (2 new)
    have "cache_ok (with_blocks ?h new s) xs"
      using ok blocks_ok_with_blocks [OF b 2(3)] by (simp add: cache_ok_def)
    then have "cache_inv sig (hold (host_list new) held) (with_blocks ?h new s) xs"
      using inv held_ok_with_blocks [OF b h 2(3)] by (simp add: cache_inv_def size_ok_def)
    then show ?thesis using missed 2 l by simp
  qed
qed

end
