(* ===== verification/CacheSteps.thy ===== *)
theory CacheSteps
  imports CacheFacts
begin

text \<open>
  Storing a result, the steps of the cache and its clients, and the properties of the states that can be
  reached.
\<close>

subsection \<open>Store\<close>

text \<open>Blocks that a lookup of the key has allocated and that are not stored yet.\<close>

definition unstored :: "int list \<Rightarrow> halide_buffer list \<Rightarrow> cache_state \<Rightarrow> bool" where
  "unstored key bufs s \<longleftrightarrow> has_hosts bufs \<and>
     (\<forall>p \<in> set (host_list bufs). headers s p = Some \<lparr>hdr_entry = None, hdr_hash = djb_hash key\<rparr>)"

lemma unstored_marked: "unstored key bufs s \<Longrightarrow> marked None bufs (headers s) = headers s"
  by (auto simp: unstored_def marked_def fun_eq_iff)

lemma unstored_hash:
  assumes "unstored key bufs s" and "bufs \<noteq> []"
  shows "header_of (buf_host (hd bufs)) s = ret \<lparr>hdr_entry = None, hdr_hash = djb_hash key\<rparr>"
proof -
  have b: "hd bufs \<in> set bufs" using assms(2) by simp
  then obtain p where p: "buf_host (hd bufs) = Some p" using assms(1) by (auto simp: unstored_def has_hosts_def)
  then have "p \<in> set (host_list bufs)" using b by (auto simp: host_list_def intro!: image_eqI [of _ _ "hd bufs"])
  then show ?thesis using assms(1) p by (simp add: unstored_def header_of_def)
qed

lemma mark_unstored: "unstored key bufs s \<Longrightarrow> mark_blocks None bufs s = ret s"
  using mark_blocks_ok [of bufs s None] unstored_marked [of key bufs s] by (auto simp: unstored_def)

lemma store_again:
  assumes ok: "cache_ok s xs" and u: "unstored key bufs s" "bufs \<noteq> []"
    and f: "find_entry (entry_matches (djb_hash key) key bounds bufs) (cache_entries s ! hash_index (djb_hash key)) s = ret (Some a)"
    and e: "entries s a = Some e"
  shows "halide_memoization_cache_store al key bounds bufs s = ret s"
proof -
  have "buf_host b \<noteq> buf_host c" if bc: "b \<in> set bufs" "c \<in> set (ce_buf e)" for b c
  proof
    assume eq: "buf_host b = buf_host c"
    obtain p where p: "buf_host b = Some p" using u(1) bc(1) by (auto simp: unstored_def has_hosts_def)
    have "p \<in> set (host_list bufs)" "p \<in> set (host_list (ce_buf e))"
      using bc p eq by (force simp: host_list_def)+
    then show False
      using u(1) blocks_ok_entry(2) [of "entries s" "headers s" a e p] ok e by (auto simp: cache_ok_def unstored_def)
  qed
  then have "hosts_differ bufs (ce_buf e)"
    by (auto simp: hosts_differ_def list_all_iff dest: set_zip_leftD set_zip_rightD)
  then show ?thesis
    using unstored_hash [OF u] u f e mark_unstored [OF u(1)]
    by (simp add: halide_memoization_cache_store_def Let_def)
qed

lemma added_size_wrap: "s_wrap 64 (n + added_size bufs) = s_wrap 64 (n + (\<Sum>b \<leftarrow> bufs. size_in_bytes b))"
proof -
  have "foldl (\<lambda>n b. u_wrap 64 (n + size_in_bytes b)) m bufs mod 2 ^ 64 = (m + (\<Sum>b \<leftarrow> bufs. size_in_bytes b)) mod 2 ^ 64" for m
  proof (induction bufs arbitrary: m)
    case (Cons b bufs)
    have "(u_wrap 64 (m + size_in_bytes b) + (\<Sum>b \<leftarrow> bufs. size_in_bytes b)) mod 2 ^ 64 =
        (m + size_in_bytes b + (\<Sum>b \<leftarrow> bufs. size_in_bytes b)) mod 2 ^ 64"
      unfolding u_wrap_mod by (rule mod_add_left_eq)
    then show ?case using Cons.IH by (simp add: add.assoc)
  qed simp
  from this [of 0] have "(n + added_size bufs) mod 2 ^ 64 = (n + (0 + (\<Sum>b \<leftarrow> bufs. size_in_bytes b))) mod 2 ^ 64"
    unfolding added_size_def by (rule mod_add_cong [OF refl])
  then show ?thesis using s_wrap_cong [of 64] by (simp only: add_0 zero_less_numeral)
qed

lemma matches_core: "core e = core e' \<Longrightarrow> matches i key bounds bufs e \<longleftrightarrow> matches i key bounds bufs e'"
  by (simp add: matches_def core_eq_iff)

lemma held_ok_new:
  assumes h: "held_ok held h hs" and c: "same_core (dom h) h h'" and d: "dom h' = insert a (dom h)" "h' a = Some e"
    and u: "\<And>p. p \<in> set (host_list (ce_buf e)) \<Longrightarrow> \<exists>k. hs p = Some \<lparr>hdr_entry = None, hdr_hash = k\<rparr>"
    and a: "h a = None" and n: "ce_in_use_count e = int (length (ce_buf e))"
  shows "held_ok held h' (marked (Some a) (ce_buf e) hs)"
proof (rule held_okI)
  fix x f assume f: "h' x = Some f"
  show "ce_in_use_count f = in_use_total held f"
  proof (cases "x = a")
    case True
    have "held p = 1" if "p \<in> set (host_list (ce_buf e))" for p using u [OF that] held_okD(2) [OF h] by auto
    then have "map held (host_list (ce_buf e)) = map (\<lambda>_. 1) (host_list (ce_buf e))" by simp
    then have "in_use_total held e = int (length (ce_buf e))"
      by (simp only: in_use_total_def) (simp add: host_list_def sum_list_triv comp_def)
    then show ?thesis using True f d(2) n by simp
  next
    case False
    then have "x \<in> dom h" using d(1) f by blast
    then obtain g where "h x = Some g" "core g = core f" using same_core_back [OF c _ f] by metis
    then show ?thesis using held_okD(3) [OF h] by (auto simp: core_eq_iff in_use_total_def)
  qed
next
  fix p assume "0 < held p"
  then show "marked (Some a) (ce_buf e) hs p \<noteq> None" using held_okD(1) [OF h] by (simp add: marked_def)
next
  fix p d assume d: "marked (Some a) (ce_buf e) hs p = Some d" "hdr_entry d = None"
  then have "p \<notin> set (host_list (ce_buf e))" by (auto simp: marked_def)
  then show "held p = 1" using d held_okD(2) [OF h] by (simp add: marked_def)
qed

lemma add_entry_linked:
  assumes ok: "cache_ok s zs" and z: "size_ok s zs (added_size bufs)" and di: "dims_ok sig (entries s)"
    and h: "held_ok held (entries s) (headers s)" and al: "fresh_memory al" and r: "request_ok sig key bounds bufs"
    and u: "unstored key bufs s" and a: "malloc_entry al s = Some a"
      "malloc_metadata al s (storage_bytes (length bufs) (length (buf_dim bounds)) (length key))"
  obtains s3 e3 where "seq (new_entry al key (djb_hash key) bounds bufs s) (\<lambda>new. add_entry new (hash_index (djb_hash key)) bufs s) = ret s3"
    "cache_inv sig held s3 (zs @ [a])" "entries s3 a = Some e3" "matches (djb_hash key) key bounds bufs e3" "ce_buf e3 = bufs"
    "\<And>x f'. entries s3 x = Some f' \<Longrightarrow> (\<exists>f. entries s x = Some f \<and> core f = core f') \<or> x = a \<and> f' = e3"
proof -
  define e where "e = \<lparr>ce_next = None, ce_more_recent = None, ce_less_recent = None, ce_key = key, ce_hash = djb_hash key,
     ce_in_use_count = 0, ce_computed_bounds = buf_dim bounds, ce_buf = bufs\<rparr>"
  have ne: "new_entry al key (djb_hash key) bounds bufs s = ret (Some (a, e))"
    using a r by (simp add: new_entry_def init_entry_def Let_def e_def request_ok_def list_all_iff)
  have fa: "entries s a = None" using al a(1) by (auto simp: fresh_memory_def)
  have sz: "(\<Sum>x \<leftarrow> zs. entry_size (the (entries s3 x))) = (\<Sum>x \<leftarrow> zs. entry_size (the (entries s x)))"
    if "same_core (dom (entries s)) (entries s) (entries s3)" for s3
    using sizes_core [of zs "entries s" "entries s3"] that ok by (simp add: cache_ok_def)
  have pre: "ce_more_recent e = None" "has_hosts (ce_buf e)"
    "\<And>p. p \<in> set (host_list (ce_buf e)) \<Longrightarrow> \<exists>d. headers s p = Some d \<and> hdr_entry d = None"
    using u by (auto simp: e_def unstored_def)
  obtain s3 e3 where l: "seq (link_entry a e (hash_index (ce_hash e)) s) (mark_blocks (Some a) (ce_buf e)) = ret s3"
    "cache_ok s3 (zs @ [a])" "same_core (dom (entries s)) (entries s) (entries s3)"
    "entries s3 a = Some e3" "core e3 = core (e\<lparr>ce_in_use_count := int (ce_tuple_count e)\<rparr>)"
    "headers s3 = marked (Some a) (ce_buf e) (headers s)" "current_cache_size s3 = current_cache_size s"
    by (rule link_entry_ok [OF ok fa pre])
  have e3: "ce_buf e3 = bufs" "ce_key e3 = key" "ce_hash e3 = djb_hash key" "ce_computed_bounds e3 = buf_dim bounds"
    "ce_in_use_count e3 = int (length (ce_buf e3))"
    using l(5) by (simp_all add: core_eq_iff e_def ce_tuple_count_def)
  have m: "matches (djb_hash key) key bounds bufs e3" using e3 by (simp add: matches_def)
  have dom: "dom (entries s3) = insert a (dom (entries s))" using l(2) ok by (auto simp: cache_ok_def)
  have new: "(\<exists>f. entries s x = Some f \<and> core f = core f') \<or> x = a \<and> f' = e3" if "entries s3 x = Some f'" for x f'
    using that l(4) dom same_core_back [OF l(3) _ that] by (cases "x = a") (auto simp: domIff)
  have "size_ok s3 (zs @ [a]) 0"
    using z l(4,7) e3(1) sz [OF l(3)] added_size_wrap [of _ bufs] by (simp add: size_ok_def entry_size_def)
  moreover have "dims_ok sig (entries s3)"
    unfolding dims_ok_def
  proof (intro allI impI)
    fix x f' assume "entries s3 x = Some f'"
    from new [OF this] show "length (ce_computed_bounds f') = sig (ce_key f') \<and> (\<forall>b \<in> set (ce_buf f'). length (buf_dim b) = sig (ce_key f'))"
      using r di e3 unfolding dims_ok_def request_ok_def core_eq_iff by metis
  qed
  moreover have "held_ok held (entries s3) (headers s3)"
    using held_ok_new [OF h l(3) dom l(4) _ fa e3(5)] u e3(1) l(6) by (simp add: unstored_def e_def)
  ultimately have inv3: "cache_inv sig held s3 (zs @ [a])" using l(2) by (simp add: cache_inv_def)
  have "seq (new_entry al key (djb_hash key) bounds bufs s) (\<lambda>new. add_entry new (hash_index (djb_hash key)) bufs s) = ret s3"
    using ne l(1) by (simp add: add_entry_def e_def)
  then show ?thesis using that [OF _ inv3 l(4) m e3(1) new] by blast
qed

lemma add_entry_failed:
  assumes ok: "cache_ok s zs" and z: "size_ok s zs (added_size bufs)" and di: "dims_ok sig (entries s)"
    and h: "held_ok held (entries s) (headers s)" and u: "unstored key bufs s"
    and n: "new_entry al key i bounds bufs s = ret None"
  obtains s3 where "seq (new_entry al key i bounds bufs s) (\<lambda>new. add_entry new j bufs s) = ret s3"
    "cache_inv sig held s3 zs" "entries s3 = entries s"
proof -
  let ?s3 = "s\<lparr>current_cache_size := s_wrap 64 (current_cache_size s - added_size bufs)\<rparr>"
  have "unstored key bufs ?s3" using u by (simp add: unstored_def)
  then have "seq (new_entry al key i bounds bufs s) (\<lambda>new. add_entry new j bufs s) = ret ?s3"
    using n mark_unstored by (simp add: add_entry_def)
  moreover have "size_ok ?s3 zs 0" using z by (simp add: size_ok_def s_wrap.wr_diff_left)
  moreover from this have "cache_inv sig held ?s3 zs" using ok di h by (simp add: cache_inv_def cache_ok_def)
  ultimately show ?thesis using that [of ?s3] by simp
qed

text \<open>There is memory for a new entry once the cache has been pruned.\<close>

definition memory_for :: "allocator \<Rightarrow> int list \<Rightarrow> halide_buffer \<Rightarrow> halide_buffer list \<Rightarrow> cache_state \<Rightarrow> bool" where
  "memory_for al key bounds bufs s \<longleftrightarrow>
     (\<forall>s2. prune_cache (s\<lparr>current_cache_size := s_wrap 64 (current_cache_size s + added_size bufs)\<rparr>) = ret s2 \<longrightarrow>
       malloc_entry al s2 \<noteq> None \<and>
       malloc_metadata al s2 (storage_bytes (length bufs) (length (buf_dim bounds)) (length key)))"

lemma store_new:
  assumes inv: "cache_inv sig held s xs" and al: "fresh_memory al" and r: "request_ok sig key bounds bufs"
    and u: "unstored key bufs s"
    and f: "find_entry (entry_matches (djb_hash key) key bounds bufs) (cache_entries s ! hash_index (djb_hash key)) s = ret None"
    and pr: "prune_safe (max_cache_size s) (s_wrap 64 (current_cache_size s + added_size bufs)) s"
  obtains s' zs where "halide_memoization_cache_store al key bounds bufs s = ret s'" "cache_inv sig held s' zs"
    "\<And>a e'. entries s' a = Some e' \<Longrightarrow> (\<exists>e. entries s a = Some e \<and> core e = core e') \<or>
       matches (djb_hash key) key bounds bufs e' \<and> ce_buf e' = bufs"
    "memory_for al key bounds bufs s \<Longrightarrow> \<exists>a e. entries s' a = Some e \<and> matches (djb_hash key) key bounds bufs e"
proof -
  let ?n = "added_size bufs"
  let ?s = "s\<lparr>current_cache_size := s_wrap 64 (current_cache_size s + ?n)\<rparr>"
  have ok: "cache_ok s xs" and h: "held_ok held (entries s) (headers s)"
    and z: "size_ok s xs 0" and di: "dims_ok sig (entries s)"
    using inv by (auto simp: cache_inv_def)
  have "cache_ok ?s xs" using ok by (simp add: cache_ok_def)
  moreover have "size_ok ?s xs ?n" using z by (simp add: size_ok_def s_wrap.wr_add_left)
  moreover have "prunable (max_cache_size ?s) (current_cache_size ?s) (entry_list ?s xs)"
    using prune_safeD [OF pr ok] by (simp add: entry_list_def)
  ultimately obtain s2 ys zs where p: "prune_cache ?s = ret s2" "xs = ys @ zs" "cache_ok s2 zs" "size_ok s2 zs ?n"
    "dims_ok sig (entries s2)" "held_ok held (entries s2) (headers s2)" "same_core (set zs) (entries s) (entries s2)"
    "\<And>p. 0 < held p \<Longrightarrow> headers s2 p = headers s p"
    using di h by (elim prune_inv [of ?s xs ?n sig held]) auto
  have b: "bufs \<noteq> []" using r by (simp add: request_ok_def)
  have u2: "unstored key bufs s2"
    using u p(8) held_okD(2) [OF h] by (auto simp: unstored_def)
  have run: "halide_memoization_cache_store al key bounds bufs s =
      seq (new_entry al key (djb_hash key) bounds bufs s2) (\<lambda>new. add_entry new (hash_index (djb_hash key)) bufs s2)"
    using unstored_hash [OF u b] b f p(1) by (simp add: halide_memoization_cache_store_def Let_def)
  have old: "\<exists>e. entries s a = Some e \<and> core e = core e'" if "entries s2 a = Some e'" for a e'
    using same_core_back [OF p(7) _ that] that p(3) by (auto simp: cache_ok_def)
  show ?thesis
  proof (cases "\<exists>a. malloc_entry al s2 = Some a \<and>
      malloc_metadata al s2 (storage_bytes (length bufs) (length (buf_dim bounds)) (length key))")
    case True
    then obtain a where a: "malloc_entry al s2 = Some a"
      "malloc_metadata al s2 (storage_bytes (length bufs) (length (buf_dim bounds)) (length key))" by blast
    obtain s3 e3 where l: "seq (new_entry al key (djb_hash key) bounds bufs s2) (\<lambda>new. add_entry new (hash_index (djb_hash key)) bufs s2) = ret s3"
      "cache_inv sig held s3 (zs @ [a])" "entries s3 a = Some e3" "matches (djb_hash key) key bounds bufs e3" "ce_buf e3 = bufs"
      "\<And>x f'. entries s3 x = Some f' \<Longrightarrow> (\<exists>f. entries s2 x = Some f \<and> core f = core f') \<or> x = a \<and> f' = e3"
      by (rule add_entry_linked [OF p(3,4,5,6) al r u2 a]) blast
    show ?thesis
    proof (rule that [of s3 "zs @ [a]"])
      fix x f' assume "entries s3 x = Some f'"
      from l(6) [OF this] show "(\<exists>f. entries s x = Some f \<and> core f = core f') \<or>
          matches (djb_hash key) key bounds bufs f' \<and> ce_buf f' = bufs"
        using old l(4,5) by metis
    qed (use run l(1-4) in auto)
  next
    case False
    then have "new_entry al key (djb_hash key) bounds bufs s2 = ret None"
      by (cases "malloc_entry al s2") (auto simp: new_entry_def init_entry_def)
    then obtain s3 where l: "seq (new_entry al key (djb_hash key) bounds bufs s2)
        (\<lambda>new. add_entry new (hash_index (djb_hash key)) bufs s2) = ret s3"
      "cache_inv sig held s3 zs" "entries s3 = entries s2"
      using add_entry_failed [OF p(3,4,5,6) u2] by metis
    show ?thesis by (rule that [of s3 zs]) (use run l False old p(1) in \<open>auto simp: memory_for_def\<close>)
  qed
qed

subsection \<open>Steps\<close>

text \<open>
  What the clients of the cache do, one operation after the other: they look up and store results, release
  the blocks they hold, and set the size of the cache, as long as pruning is not asked for something it
  cannot do.
\<close>

inductive cache_step :: "(int list \<Rightarrow> nat) \<Rightarrow> allocator \<Rightarrow> cache_state \<times> holds \<Rightarrow> cache_state \<times> holds \<Rightarrow> bool"
  for sig al where
  Lookup: "request_ok sig key bounds bufs \<Longrightarrow> counts_fit (length bufs) s \<Longrightarrow>
    halide_memoization_cache_lookup al key bounds bufs s = ret (r, bufs', s') \<Longrightarrow>
    cache_step sig al (s, held) (s', if r = -1 then held else hold (host_list bufs') held)"
| Store: "request_ok sig key bounds bufs \<Longrightarrow> unstored key bufs s \<Longrightarrow>
    prune_safe (max_cache_size s) (s_wrap 64 (current_cache_size s + added_size bufs)) s \<Longrightarrow>
    halide_memoization_cache_store al key bounds bufs s = ret s' \<Longrightarrow> cache_step sig al (s, held) (s', held)"
| Release: "0 < held p \<Longrightarrow> halide_memoization_cache_release (Some p) s = ret s' \<Longrightarrow>
    cache_step sig al (s, held) (s', held(p := held p - 1))"
| SetSize: "prune_safe (if n = 0 then kDefaultCacheSize else n) (current_cache_size s) s \<Longrightarrow>
    halide_memoization_cache_set_size n s = ret s' \<Longrightarrow> cache_step sig al (s, held) (s', held)"

inductive_cases cache_stepE: "cache_step sig al x y"

text \<open>Every operation that a client may ask for returns, and keeps the invariant.\<close>

lemma lookup_inv:
  assumes inv: "cache_inv sig held s xs" and al: "fresh_memory al" and r: "request_ok sig key bounds bufs"
    and fit: "counts_fit (length bufs) s"
  obtains k bufs' s' ys where "halide_memoization_cache_lookup al key bounds bufs s = ret (k, bufs', s')"
    "cache_inv sig (if k = -1 then held else hold (host_list bufs') held) s' ys"
proof -
  have ok: "cache_ok s xs" "dims_ok sig (entries s)" using inv by (auto simp: cache_inv_def)
  show ?thesis
  proof (cases rule: find_entry_result [OF ok(1) r ok(2), of "djb_hash key", case_names hit miss])
    case (hit a e)
    obtain s' us vs where "halide_memoization_cache_lookup al key bounds bufs s = ret (0, ce_buf e, s')"
      "cache_inv sig (hold (host_list (ce_buf e)) held) s' (us @ vs @ [a])"
      by (rule lookup_hit [OF inv fit hit, of al])
    then show ?thesis using that [of 0 "ce_buf e" s' "us @ vs @ [a]"] by simp
  next
    case miss
    from inv al miss(1) show ?thesis
    proof (cases rule: lookup_miss [where bounds = bounds and bufs = bufs and key = key and al = al])
      case (failed bufs')
      then show ?thesis using that inv by simp
    next
      case (missed new)
      then show ?thesis using that [of 1 new "with_blocks (djb_hash key) new s" xs] by simp
    qed
  qed
qed

lemma store_inv:
  assumes inv: "cache_inv sig held s xs" and al: "fresh_memory al" and r: "request_ok sig key bounds bufs"
    and u: "unstored key bufs s"
    and pr: "prune_safe (max_cache_size s) (s_wrap 64 (current_cache_size s + added_size bufs)) s"
  obtains s' ys where "halide_memoization_cache_store al key bounds bufs s = ret s'" "cache_inv sig held s' ys"
proof -
  have ok: "cache_ok s xs" "dims_ok sig (entries s)" using inv by (auto simp: cache_inv_def)
  have b: "bufs \<noteq> []" using r by (simp add: request_ok_def)
  show ?thesis
  proof (cases rule: find_entry_result [OF ok(1) r ok(2), of "djb_hash key", case_names hit miss])
    case (hit a e)
    then show ?thesis using that store_again [OF ok(1) u b hit(1,2)] inv by simp
  next
    case miss
    then show ?thesis using that store_new [OF inv al r u miss(1) pr] by metis
  qed
qed

lemma step_inv:
  assumes "cache_step sig al (s, held) (s', held')" and "cache_inv sig held s xs" and "fresh_memory al"
  shows "\<exists>ys. cache_inv sig held' s' ys"
  using assms(1)
proof cases
  case (Lookup key bounds bufs r bufs')
  obtain k bufs2 s2 ys where "halide_memoization_cache_lookup al key bounds bufs s = ret (k, bufs2, s2)"
    "cache_inv sig (if k = -1 then held else hold (host_list bufs2) held) s2 ys"
    by (rule lookup_inv [OF assms(2,3) Lookup(2,3)])
  then show ?thesis using Lookup(1,4) by auto
next
  case (Store key bounds bufs)
  obtain s2 ys where "halide_memoization_cache_store al key bounds bufs s = ret s2" "cache_inv sig held s2 ys"
    by (rule store_inv [OF assms(2,3) Store(2-4)])
  then show ?thesis using Store(1,5) by auto
next
  case (Release p)
  then show ?thesis using release_inv [OF assms(2), of p] by auto
next
  case (SetSize n)
  obtain s2 ys where "halide_memoization_cache_set_size n s = ret s2" "cache_inv sig held s2 ys"
    by (rule set_size_inv [OF assms(2) SetSize(2)])
  then show ?thesis using SetSize(1,3) by auto
qed

lemma chained_initial: "chained (\<lambda>_. None) (replicate kHashTableSize None) {}"
  unfolding chained_def by (auto intro!: exI [of _ "[]"] simp: bucket_def)

lemma initial_inv: "cache_inv sig (\<lambda>_. 0) initial_cache []"
  using chained_initial
  by (simp add: cache_inv_def cache_ok_def initial_cache_def lru_list_def blocks_ok_def size_ok_def s_wrap_def
      dims_ok_def held_ok_def)

lemma reachable_inv:
  assumes "(cache_step sig al)\<^sup>*\<^sup>* (initial_cache, \<lambda>_. 0) (s, held)" and "fresh_memory al"
  shows "\<exists>xs. cache_inv sig held s xs"
  using assms(1)
proof (induction "(s, held)" arbitrary: s held rule: rtranclp_induct)
  case base
  then show ?case using initial_inv by auto
next
  case (step y)
  then show ?case using step_inv [OF _ _ assms(2)] by (cases y) blast
qed

end
