(* ===== verification/CacheCleanup.thy ===== *)
theory CacheCleanup
  imports CachePrune
begin

text \<open>
  The clean-up at the end of the program: it frees every entry along the chains of the hash table.
\<close>

text \<open>The blocks that belong to no entry.\<close>

definition loose :: "(host \<Rightarrow> cache_block_header option) \<Rightarrow> host \<Rightarrow> cache_block_header option" where
  "loose hs p = (case hs p of None \<Rightarrow> None | Some d \<Rightarrow> if hdr_entry d = None then Some d else None)"

lemma loose_free:
  assumes "\<And>p. p \<in> P \<Longrightarrow> \<exists>d a. hs p = Some d \<and> hdr_entry d = Some a"
  shows "loose (\<lambda>p. if p \<in> P then None else hs p) = loose hs"
proof
  fix p
  show "loose (\<lambda>p. if p \<in> P then None else hs p) p = loose hs p"
    using assms [of p] by (auto simp: loose_def)
qed

lemma loose_all: "blocks_ok (\<lambda>_. None) hs \<Longrightarrow> loose hs = hs"
  using blocks_ok_header [of "\<lambda>_. None" hs] by (fastforce simp: loose_def fun_eq_iff split: option.splits)

lemma cleanup_chain_Some:
  "entries s a = Some e \<Longrightarrow> cleanup_chain (Some a) s =
     seq (destroy e s) (\<lambda>s. cleanup_chain (ce_next e) (s\<lparr>entries := (entries s)(a := None)\<rparr>))"
  by (subst cleanup_chain.simps) simp

lemma cleanup_chain_ok:
  "seg ce_next (entries s) p ys None \<Longrightarrow> blocks_ok (entries s) (headers s) \<Longrightarrow>
   \<exists>hs. cleanup_chain p s = ret (s\<lparr>entries := entries s |` (- set ys), headers := hs\<rparr>) \<and>
     blocks_ok (entries s |` (- set ys)) hs \<and> loose hs = loose (headers s)"
proof (induction ys arbitrary: p s)
  case Nil
  then show ?case by (intro exI [of _ "headers s"]) (simp add: cleanup_chain.simps [of None])
next
  case (Cons a ys)
  then obtain e where e: "p = Some a" "entries s a = Some e" "seg ce_next (entries s) (ce_next e) ys None" by auto
  note b = blocks_ok_entry [OF Cons.prems(2) e(2)]
  let ?hs = "\<lambda>p. if p \<in> set (host_list (ce_buf e)) then None else headers s p"
  let ?s = "s\<lparr>headers := ?hs, entries := (entries s)(a := None)\<rparr>"
  have "destroy e s = ret (s\<lparr>headers := ?hs\<rparr>)" using b by (auto simp: destroy_def intro!: free_blocks_ok)
  then have run: "cleanup_chain p s = cleanup_chain (ce_next e) ?s" using e(1,2) by (simp add: cleanup_chain_Some)
  have "a \<notin> set ys" using seg_distinct [OF Cons.prems(1)] by simp
  then have sg: "seg ce_next (entries ?s) (ce_next e) ys None" using next_link.seg_upd_other [OF _ e(3)] by simp
  have bl: "blocks_ok (entries ?s) (headers ?s)" using blocks_ok_free [OF Cons.prems(2) e(2)] by simp
  have lo: "loose ?hs = loose (headers s)" by (rule loose_free) (use b(2) in blast)
  have r: "(entries s)(a := None) |` (- set ys) = entries s |` (- set (a # ys))" by (auto simp: restrict_map_def)
  from Cons.IH [OF sg bl] obtain hs where
    "cleanup_chain (ce_next e) ?s = ret (?s\<lparr>entries := entries ?s |` (- set ys), headers := hs\<rparr>)"
    "blocks_ok (entries ?s |` (- set ys)) hs" "loose hs = loose (headers ?s)" by blast
  then show ?case using r run lo by (intro exI [of _ hs]) simp
qed

text \<open>After the chains \<open>0 \<dots> i - 1\<close> the entries with these indices are gone.\<close>

lemma cleanup_one:
  assumes c: "chained (entries s) (cache_entries s) (dom (entries s))" and b: "blocks_ok (entries s) (headers s)"
    and i: "i < kHashTableSize"
  obtains s' where "cleanup_chain (cache_entries s ! i) (s\<lparr>cache_entries := (cache_entries s)[i := None]\<rparr>) = ret s'"
    "chained (entries s') (cache_entries s') (dom (entries s'))" "blocks_ok (entries s') (headers s')"
    "loose (headers s') = loose (headers s)" "dom (entries s') = dom (entries s) - bucket (entries s) (dom (entries s)) i"
    "max_cache_size s' = max_cache_size s" "entries s' \<subseteq>\<^sub>m entries s" "cache_entries s' = (cache_entries s)[i := None]"
proof -
  obtain ys where y: "seg ce_next (entries s) (cache_entries s ! i) ys None" "set ys = bucket (entries s) (dom (entries s)) i"
    by (rule chained_chain [OF c i])
  let ?s = "s\<lparr>cache_entries := (cache_entries s)[i := None]\<rparr>" and ?h = "entries s |` (- set ys)"
  have "blocks_ok (entries ?s) (headers ?s)" using b by simp
  from cleanup_chain_ok [of ?s, OF _ this] y(1) obtain hs where hs:
    "cleanup_chain (cache_entries s ! i) ?s = ret (?s\<lparr>entries := ?h, headers := hs\<rparr>)"
    "blocks_ok ?h hs" "loose hs = loose (headers s)" by auto
  have "chained ?h ((cache_entries s)[i := None]) (dom ?h)"
  proof (rule chained_update [OF c i, where ys = "[]"])
    show "set [] = bucket ?h (dom ?h) i" using y(2) by (auto simp: bucket_def restrict_map_def split: if_splits)
    fix j assume j: "j \<noteq> i"
    then show "bucket ?h (dom ?h) j = bucket (entries s) (dom (entries s)) j"
      unfolding y(2) by (auto simp: bucket_def restrict_map_def split: if_splits)
    fix a assume "a \<in> bucket (entries s) (dom (entries s)) j"
    then show "map_option ce_next (?h a) = map_option ce_next (entries s a)"
      using j unfolding y(2) by (auto simp: bucket_def restrict_map_def)
  qed simp
  moreover have "dom ?h = dom (entries s) - bucket (entries s) (dom (entries s)) i" using y(2) by auto
  moreover have "?h \<subseteq>\<^sub>m entries s" by (auto simp: map_le_def restrict_map_def split: if_splits)
  ultimately show ?thesis using that [of "?s\<lparr>entries := ?h, headers := hs\<rparr>"] hs by simp
qed

lemma bucket_map_le: "h' \<subseteq>\<^sub>m h \<Longrightarrow> bucket h' (dom h') i = bucket h (dom h) i \<inter> dom h'"
proof -
  assume le: "h' \<subseteq>\<^sub>m h"
  have "h' a = h a" if "a \<in> dom h'" for a using le that by (auto simp: map_le_def)
  then show ?thesis by (auto simp: bucket_def domIff)
qed

lemma cleanup_chains_ok:
  assumes "set is \<subseteq> {..<kHashTableSize}" and "chained (entries s) (cache_entries s) (dom (entries s))"
    and "blocks_ok (entries s) (headers s)"
  shows "\<exists>s'. cleanup_chains is s = ret s' \<and> blocks_ok (entries s') (headers s') \<and>
    loose (headers s') = loose (headers s) \<and> max_cache_size s' = max_cache_size s \<and>
    chained (entries s') (cache_entries s') (dom (entries s')) \<and>
    dom (entries s') = dom (entries s) - (\<Union>i \<in> set is. bucket (entries s) (dom (entries s)) i)"
  using assms
proof (induction "is" arbitrary: s)
  case (Cons i "is")
  obtain s1 where s1: "cleanup_chain (cache_entries s ! i) (s\<lparr>cache_entries := (cache_entries s)[i := None]\<rparr>) = ret s1"
    "chained (entries s1) (cache_entries s1) (dom (entries s1))" "blocks_ok (entries s1) (headers s1)"
    "loose (headers s1) = loose (headers s)" "dom (entries s1) = dom (entries s) - bucket (entries s) (dom (entries s)) i"
    "max_cache_size s1 = max_cache_size s" "entries s1 \<subseteq>\<^sub>m entries s"
    by (rule cleanup_one [OF Cons.prems(2,3), of i]) (use Cons.prems(1) in auto)
  from Cons.IH [OF _ s1(2,3)] Cons.prems(1) obtain s2 where s2: "cleanup_chains is s1 = ret s2"
    "blocks_ok (entries s2) (headers s2)" "loose (headers s2) = loose (headers s1)" "max_cache_size s2 = max_cache_size s1"
    "chained (entries s2) (cache_entries s2) (dom (entries s2))"
    "dom (entries s2) = dom (entries s1) - (\<Union>i \<in> set is. bucket (entries s1) (dom (entries s1)) i)"
    by auto
  moreover have "dom (entries s2) = dom (entries s) - (\<Union>i \<in> set (i # is). bucket (entries s) (dom (entries s)) i)"
    using s2(6) s1(5) bucket_map_le [OF s1(7)] by simp blast
  ultimately show ?case using s1(1,4,6) by simp
qed simp

lemma dom_buckets: "dom h \<subseteq> (\<Union>i \<in> {..<kHashTableSize}. bucket h (dom h) i)"
  by (auto simp: bucket_def)

lemma chained_empty:
  assumes "chained h tab S" and "dom h = {}"
  shows "tab = replicate kHashTableSize None"
proof (rule nth_equalityI)
  show "length tab = length (replicate kHashTableSize (None :: addr option))" using assms(1) by (simp add: chained_def)
  fix i assume "i < length tab"
  then have i: "i < kHashTableSize" using assms(1) by (simp add: chained_def)
  from chained_chain [OF assms(1) i] obtain ys where "seg ce_next h (tab ! i) ys None" .
  then show "tab ! i = replicate kHashTableSize None ! i" using assms(2) i by (cases ys) auto
qed

lemma cleanup_ok:
  assumes "cache_ok s xs"
  shows "halide_memoization_cache_cleanup s =
    ret (initial_cache\<lparr>headers := loose (headers s), max_cache_size := max_cache_size s\<rparr>)"
proof -
  have "set [0..<kHashTableSize] \<subseteq> {..<kHashTableSize}" by auto
  from cleanup_chains_ok [OF this] assms obtain s' where s': "cleanup_chains [0..<kHashTableSize] s = ret s'"
    "blocks_ok (entries s') (headers s')" "loose (headers s') = loose (headers s)" "max_cache_size s' = max_cache_size s"
    "chained (entries s') (cache_entries s') (dom (entries s'))"
    "dom (entries s') = dom (entries s) - (\<Union>i \<in> set [0..<kHashTableSize]. bucket (entries s) (dom (entries s)) i)"
    unfolding cache_ok_def by blast
  have d: "dom (entries s') = {}" using s'(6) dom_buckets [of "entries s"] by (auto simp: atLeast_upt)
  then have e: "entries s' = (\<lambda>_. None)" by (auto simp: fun_eq_iff)
  have "cache_entries s' = replicate kHashTableSize None" by (rule chained_empty [OF s'(5) d])
  moreover have "headers s' = loose (headers s)" using loose_all s'(2,3) e by simp
  ultimately show ?thesis
    using s'(1,4) e by (auto simp: halide_memoization_cache_cleanup_def initial_cache_def intro!: cache_state.equality)
qed

end
