(* ===== verification/CacheTrace.thy ===== *)
theory CacheTrace
  imports CacheSteps CacheCleanup
begin

text \<open>
  The properties of the memoization cache, and a run of it with two entries: the states it goes through
  serve as examples, and its last two steps show what pruning does to an entry in use.
\<close>

subsection \<open>A run\<close>

definition two_slots :: allocator where
  "two_slots = \<lparr>malloc_alignment = 16,
     malloc_block = \<lambda>s n. if headers s 100 = None then Some 100 else if headers s 101 = None then Some 101 else None,
     malloc_entry = \<lambda>s. if entries s 0 = None then Some 0 else if entries s 1 = None then Some 1 else None,
     malloc_metadata = \<lambda>s n. True\<rparr>"

definition picture :: "nat option \<Rightarrow> halide_buffer" where
  "picture p = \<lparr>buf_device = 0, buf_host = p, buf_flags = 0, buf_type = UInt_type 8 1,
     buf_dim = [\<lparr>dim_min = 0, dim_extent = 10, dim_stride = 1, dim_flags = 0\<rparr>]\<rparr>"

definition entry_a :: "addr option \<Rightarrow> cache_entry" where
  "entry_a m = \<lparr>ce_next = None, ce_more_recent = m, ce_less_recent = None, ce_key = [1], ce_hash = 177574,
     ce_in_use_count = 1, ce_computed_bounds = buf_dim (picture None), ce_buf = [picture (Some 100)]\<rparr>"

definition entry_b :: "int \<Rightarrow> cache_entry" where
  "entry_b n = \<lparr>ce_next = None, ce_more_recent = None, ce_less_recent = Some 0, ce_key = [2], ce_hash = 177575,
     ce_in_use_count = n, ce_computed_bounds = buf_dim (picture None), ce_buf = [picture (Some 101)]\<rparr>"

definition missed_a :: cache_state where
  "missed_a = initial_cache\<lparr>headers := [100 \<mapsto> \<lparr>hdr_entry = None, hdr_hash = 177574\<rparr>]\<rparr>"

definition stored_a :: cache_state where
  "stored_a = initial_cache\<lparr>entries := [0 \<mapsto> entry_a None], headers := [100 \<mapsto> \<lparr>hdr_entry = Some 0, hdr_hash = 177574\<rparr>],
     cache_entries := (replicate 256 None)[166 := Some 0], most_recently_used := Some 0, least_recently_used := Some 0,
     current_cache_size := 10\<rparr>"

definition missed_b :: cache_state where
  "missed_b = stored_a\<lparr>headers := (headers stored_a)(101 \<mapsto> \<lparr>hdr_entry = None, hdr_hash = 177575\<rparr>)\<rparr>"

definition stored_b :: "int \<Rightarrow> cache_state" where
  "stored_b n = initial_cache\<lparr>entries := [0 \<mapsto> entry_a (Some 1), 1 \<mapsto> entry_b n],
     headers := [100 \<mapsto> \<lparr>hdr_entry = Some 0, hdr_hash = 177574\<rparr>, 101 \<mapsto> \<lparr>hdr_entry = Some 1, hdr_hash = 177575\<rparr>],
     cache_entries := (replicate 256 None)[166 := Some 0, 167 := Some 1], most_recently_used := Some 1,
     least_recently_used := Some 0, current_cache_size := 20\<rparr>"

definition pruned_b :: cache_state where
  "pruned_b = initial_cache\<lparr>entries := [0 \<mapsto> entry_a (Some 1)],
     headers := [100 \<mapsto> \<lparr>hdr_entry = Some 0, hdr_hash = 177574\<rparr>],
     cache_entries := (replicate 256 None)[166 := Some 0], most_recently_used := Some 0,
     least_recently_used := Some 0, max_cache_size := 15, current_cache_size := 10\<rparr>"

lemma picture_simps: "size_in_bytes (picture p) = 10" "(picture p)\<lparr>buf_host := q\<rparr> = picture q" "buf_host (picture p) = p"
  "length (buf_dim (picture p)) = 1" "buf_dim (picture p) = buf_dim (picture None)"
  by (simp_all add: picture_def size_in_bytes_def buf_end_def buf_begin_def UInt_type_def ty_bytes_def u_wrap_mod)

lemma hash_simps: "djb_hash [1] = 177574" "djb_hash [2] = 177575" "hash_index 177574 = 166" "hash_index 177575 = 167"
  by (simp_all add: djb_hash_def u_wrap_mod push_bit_eq_mult hash_index_def kHashTableSize_def)

lemma size_simps: "s_wrap 64 10 = 10" "s_wrap 64 20 = 20" "added_size [picture p] = 10"
  by (simp_all add: s_wrap_id added_size_def picture_simps u_wrap_mod)

lemmas run_simps = picture_simps(1-4) hash_simps size_simps find_entry.simps [of _ None] find_entry_Some initial_cache_def
  kHashTableSize_def kDefaultCacheSize_def

lemma lookup_a: "halide_memoization_cache_lookup two_slots [1] (picture None) [picture None] initial_cache =
    ret (1, [picture (Some 100)], missed_a)"
  by (simp add: halide_memoization_cache_lookup_def missed_a_def two_slots_def run_simps)

lemmas store_simps = halide_memoization_cache_store_def header_of_def prune_cache_def Let_def new_entry_def init_entry_def
  add_entry_def link_entry_def mark_blocks_def set_header_def ce_tuple_count_def two_slots_def

lemma store_a: "halide_memoization_cache_store two_slots [1] (picture None) [picture (Some 100)] missed_a = ret stored_a"
  by (simp add: missed_a_def stored_a_def entry_a_def store_simps prune_loop.simps [of None] run_simps)

lemma lookup_b: "halide_memoization_cache_lookup two_slots [2] (picture None) [picture None] stored_a =
    ret (1, [picture (Some 101)], missed_b)"
  by (simp add: halide_memoization_cache_lookup_def stored_a_def missed_b_def two_slots_def run_simps)

lemma store_b: "halide_memoization_cache_store two_slots [2] (picture None) [picture (Some 101)] missed_b = ret (stored_b 1)"
  by (simp add: missed_b_def stored_a_def stored_b_def entry_a_def entry_b_def store_simps prune_loop_stop run_simps fun_upd_twist)

lemma release_b: "halide_memoization_cache_release (Some 101) (stored_b 1) = ret (stored_b 0)"
  by (simp add: halide_memoization_cache_release_def header_of_def stored_b_def entry_b_def initial_cache_def)

lemma empty_chain: "(replicate 256 None)[166 := Some 0, 167 := None] = (replicate 256 None)[166 := Some 0]"
  by (rule list_update_same_conv [THEN iffD2]) simp_all

lemma remove_b: "remove_entry 1 None ((stored_b 0)\<lparr>max_cache_size := 15\<rparr>) = ret pruned_b"
  by (simp add: remove_entry_def unlink_hash_def unlink_less_recent_def unlink_more_recent_def free_entry_def destroy_def
      free_block_def header_of_def stored_b_def pruned_b_def entry_b_def Let_def run_simps empty_chain)

lemma shrink_b: "halide_memoization_cache_set_size 15 (stored_b 0) = ret pruned_b"
proof -
  let ?s = "(stored_b 0)\<lparr>max_cache_size := 15\<rparr>"
  have "prune_loop (Some 0) ?s = prune_loop (Some 1) ?s"
    by (subst prune_loop_Some [of _ _ "entry_a (Some 1)"]) (simp_all add: stored_b_def entry_a_def initial_cache_def)
  also have "\<dots> = ret pruned_b"
    using remove_b by (subst prune_loop_Some [of _ _ "entry_b 0"])
      (simp_all add: stored_b_def entry_b_def initial_cache_def prune_loop_stop)
  finally show ?thesis by (simp add: halide_memoization_cache_set_size_def prune_cache_def stored_b_def)
qed

lemma shrink_a: "halide_memoization_cache_set_size 5 pruned_b = fault FreedPointer"
  by (simp add: halide_memoization_cache_set_size_def prune_cache_def pruned_b_def initial_cache_def prune_loop_Some entry_a_def)
   (simp add: prune_loop.simps deref_def)

lemma two_slots_fresh: "fresh_memory two_slots"
  by (simp add: fresh_memory_def two_slots_def)

subsection \<open>Properties\<close>


lemma picture_request: "request_ok (\<lambda>_. 1) key (picture None) [picture p]"
  by (simp add: request_ok_def picture_simps(1-4))

lemma missed_trace: "(cache_step (\<lambda>_. 1) two_slots)\<^sup>*\<^sup>* (initial_cache, \<lambda>_. 0) (missed_a, hold [100] (\<lambda>_. 0))"
proof -
  have "counts_fit (length [picture None]) initial_cache" by (simp add: counts_fit_def initial_cache_def)
  from cache_step.Lookup [OF picture_request this lookup_a, where held = "\<lambda>_. 0"]
  show ?thesis by (intro r_into_rtranclp) (simp add: host_list_def picture_simps(1-4))
qed

lemma missed_unstored: "unstored [1] [picture (Some 100)] missed_a"
  by (simp add: unstored_def has_hosts_def host_list_def picture_simps(1-4) missed_a_def hash_simps)

lemma missed_prune_safe:
  "prune_safe (max_cache_size missed_a) (s_wrap 64 (current_cache_size missed_a + added_size [picture (Some 100)])) missed_a"
proof -
  have "cache_ok initial_cache []" using initial_inv by (simp add: cache_inv_def)
  moreover have "blocks_ok (entries missed_a) (headers missed_a)"
    by (rule blocks_okI) (auto simp: missed_a_def initial_cache_def split: if_splits)
  ultimately have "cache_ok missed_a []" by (auto simp: cache_ok_def missed_a_def)
  then show ?thesis unfolding prune_safe_def by (intro exI [of _ "[]"]) (simp add: entry_list_def)
qed

lemma trace_a: "(cache_step (\<lambda>_. 1) two_slots)\<^sup>*\<^sup>* (initial_cache, \<lambda>_. 0) (stored_a, hold [100] (\<lambda>_. 0))"
  using missed_trace cache_step.Store [OF picture_request missed_unstored missed_prune_safe store_a]
  by (rule rtranclp.rtrancl_into_rtrancl)





lemma stored_a_ok: "cache_ok stored_a [0]"
proof -
  obtain xs where i: "cache_inv (\<lambda>_. 1) (hold [100] (\<lambda>_. 0)) stored_a xs"
    using reachable_inv [OF trace_a two_slots_fresh] by blast
  then have "seg ce_more_recent (entries stored_a) (Some 0) xs None" by (simp add: cache_inv_def cache_ok_def lru_list_def stored_a_def)
  moreover have "seg ce_more_recent (entries stored_a) (Some 0) [0] None" by (simp add: stored_a_def entry_a_def)
  ultimately have "xs = [0]" by (rule seg_unique)
  then show ?thesis using i by (simp add: cache_inv_def)
qed


text \<open>
  C38. What has been stored is found: when no entry fits a request, and memory is available, storing the
  result and asking for it again gives back the buffers that were stored.
\<close>

theorem cache_store_lookup:
  assumes "(cache_step sig al)\<^sup>*\<^sup>* (initial_cache, \<lambda>_. 0) (s, held)" and al: "fresh_memory al"
    and mem: "memory_for al key bounds bufs s"
    and r: "request_ok sig key bounds bufs" and u: "unstored key bufs s"
    and pr: "prune_safe (max_cache_size s) (s_wrap 64 (current_cache_size s + added_size bufs)) s"
    and no: "\<forall>a e. entries s a = Some e \<longrightarrow> \<not> matches (djb_hash key) key bounds bufs e"
    and same: "map buf_dim bufs' = map buf_dim bufs"
    and fit: "counts_fit (length bufs) s" "2 * length bufs < 2 ^ 32"
  shows "\<exists>s' s''. halide_memoization_cache_store al key bounds bufs s = ret s' \<and>
    halide_memoization_cache_lookup al key bounds bufs' s' = ret (0, bufs, s'')"
proof -
  obtain xs where i: "cache_inv sig held s xs" using reachable_inv [OF assms(1,2)] by blast
  have ok: "cache_ok s xs" "dims_ok sig (entries s)" and h: "held_ok held (entries s) (headers s)"
    using i by (auto simp: cache_inv_def)
  have "find_entry (entry_matches (djb_hash key) key bounds bufs) (cache_entries s ! hash_index (djb_hash key)) s = ret None"
    by (rule find_entry_result [OF ok(1) r ok(2), of "djb_hash key"]) (use no in blast)+
  from store_new [OF i al r u this pr] obtain s' zs where st: "halide_memoization_cache_store al key bounds bufs s = ret s'"
    and i': "cache_inv sig held s' zs"
    and old: "\<And>a e'. entries s' a = Some e' \<Longrightarrow> (\<exists>e. entries s a = Some e \<and> core e = core e') \<or>
       matches (djb_hash key) key bounds bufs e' \<and> ce_buf e' = bufs"
    and new: "\<exists>a e. entries s' a = Some e \<and> matches (djb_hash key) key bounds bufs e"
    using mem by metis
  have len: "length bufs' = length bufs" by (rule map_eq_imp_length_eq [OF same])
  have m: "matches k key bounds bufs' e \<longleftrightarrow> matches k key bounds bufs e" for k e using same by (simp add: matches_def)
  have "counts_fit (length bufs') s'"
    unfolding counts_fit_def
  proof (intro allI impI)
    fix a e assume e: "entries s' a = Some e"
    from old [OF this] show "ce_in_use_count e + int (length bufs') < 2 ^ 32"
    proof
      assume b: "matches (djb_hash key) key bounds bufs e \<and> ce_buf e = bufs"
      have "held p = 1" if "p \<in> set (host_list bufs)" for p using u held_okD(2) [OF h] that by (auto simp: unstored_def)
      then have "map held (host_list bufs) = map (\<lambda>_. 1) (host_list bufs)" by simp
      then have "in_use_total held e = int (length bufs)"
        using b by (simp only: in_use_total_def) (simp add: host_list_def sum_list_triv comp_def)
      moreover have "ce_in_use_count e = in_use_total held e"
        by (rule held_okD(3) [of held "entries s'" "headers s'", OF _ e]) (use i' in \<open>simp add: cache_inv_def\<close>)
      ultimately show ?thesis using fit(2) len by simp
    qed (use fit(1) len in \<open>force simp: counts_fit_def core_eq_iff\<close>)
  qed
  note hit = lookup_hit [OF i' this]
  have ok': "cache_ok s' zs" "dims_ok sig (entries s')" using i' by (auto simp: cache_inv_def)
  have "length (buf_dim b) = sig key" if "b \<in> set bufs'" for b
    using r same that by (metis (no_types, lifting) image_eqI image_iff list.set_map request_ok_def)
  then have r': "request_ok sig key bounds bufs'" using r len by (auto simp: request_ok_def)
  show ?thesis
  proof (rule find_entry_result [OF ok'(1) r' ok'(2), of "djb_hash key"])
    fix a e assume f: "find_entry (entry_matches (djb_hash key) key bounds bufs') (cache_entries s' ! hash_index (djb_hash key)) s' = ret (Some a)"
      "entries s' a = Some e" "matches (djb_hash key) key bounds bufs' e"
    have "ce_buf e = bufs" using old [OF f(2)] no f(3) m matches_core by metis
    then show ?thesis using hit [OF f, of al] st by metis
  qed (use new m in blast)
qed

theorem cache_store_lookup_witness:
  "\<exists>s' s''. halide_memoization_cache_store two_slots [1] (picture None) [picture (Some 100)] missed_a = ret s' \<and>
    halide_memoization_cache_lookup two_slots [1] (picture None) [picture None] s' = ret (0, [picture (Some 100)], s'')"
proof (rule cache_store_lookup [OF missed_trace two_slots_fresh])
  show "memory_for two_slots [1] (picture None) [picture (Some 100)] missed_a"
    by (simp add: memory_for_def prune_cache_def missed_a_def initial_cache_def prune_loop.simps [of None] two_slots_def)
qed (use missed_unstored missed_prune_safe picture_request in
    \<open>simp_all add: counts_fit_def picture_def missed_a_def initial_cache_def\<close>)

text \<open>
  C39. The clean-up at the end of the program, in any reachable state, ends with the empty cache: every entry
  and every block of an entry is freed, and exactly the blocks that are not stored stay allocated.
\<close>

theorem cache_cleanup_frees:
  assumes "(cache_step sig al)\<^sup>*\<^sup>* (initial_cache, \<lambda>_. 0) (s, held)" and "fresh_memory al"
  shows "halide_memoization_cache_cleanup s = ret (initial_cache\<lparr>max_cache_size := max_cache_size s,
    headers := \<lambda>p. case headers s p of None \<Rightarrow> None | Some d \<Rightarrow> if hdr_entry d = None then Some d else None\<rparr>)"
proof -
  obtain xs where "cache_inv sig held s xs" using reachable_inv [OF assms] by blast
  then have "cache_ok s xs" by (simp add: cache_inv_def)
  moreover have "loose (headers s) = (\<lambda>p. case headers s p of None \<Rightarrow> None | Some d \<Rightarrow> if hdr_entry d = None then Some d else None)"
    by (rule ext) (simp add: loose_def)
  ultimately show ?thesis by (simp add: cleanup_ok)
qed

theorem cache_cleanup_frees_witness: "halide_memoization_cache_cleanup stored_a = ret initial_cache"
proof -
  have "(\<lambda>p. case headers stored_a p of None \<Rightarrow> None | Some d \<Rightarrow> if hdr_entry d = None then Some d else None) = (\<lambda>_. None)"
    by (auto simp: stored_a_def fun_eq_iff)
  then show ?thesis
    using cache_cleanup_frees [OF trace_a two_slots_fresh] by (simp add: stored_a_def initial_cache_def)
qed

text \<open>
  C40. Pruning does not unlink an entry from an older one that is in use: the older entry keeps a pointer to
  the entry that was freed. Two results are stored, the second one is released, and the cache is made
  smaller twice: the first time the second entry is freed, and the second time pruning follows the pointer
  to it.
\<close>

theorem cache_prune_dangling:
  "seq (halide_memoization_cache_lookup two_slots [1] (picture None) [picture None] initial_cache) (\<lambda>(_, bufs, s).
   seq (halide_memoization_cache_store two_slots [1] (picture None) bufs s) (\<lambda>s.
   seq (halide_memoization_cache_lookup two_slots [2] (picture None) [picture None] s) (\<lambda>(_, bufs, s).
   seq (halide_memoization_cache_store two_slots [2] (picture None) bufs s) (\<lambda>s.
   seq (halide_memoization_cache_release (Some 101) s)
     (halide_memoization_cache_set_size 15))))) = ret pruned_b \<and>
   entries pruned_b 0 = Some (entry_a (Some 1)) \<and> entries pruned_b 1 = None \<and>
   halide_memoization_cache_set_size 5 pruned_b = fault FreedPointer"
  by (simp add: lookup_a store_a lookup_b store_b release_b shrink_b shrink_a) (simp add: pruned_b_def)

end
